(* ===== verification/Go_Prelude.thy ===== *)
theory Go_Prelude
  imports Main "HOL-Library.Word" "HOL-Library.Code_Target_Nat"
begin

text \<open>
  The prelude of the development. It holds the types every component shares (the
  errors a Go function returns, the result type, the machine integers), the
  collections of simplification facts the components add to, and the interface of an
  encoding with its laws, which hexadecimal, base32, UTF-8 and the control port's
  quoting provide further on.
\<close>

section \<open>Types shared by the components\<close>

text \<open>
  A Go string is a byte sequence: the model's \<^typ>\<open>string\<close> is a list of 8-bit
  characters. A \<open>[]byte\<close> that holds a key, a hash or a nonce is a list of 8-bit words.
\<close>

type_synonym byte = "8 word"
type_synonym bytes = "8 word list"
type_synonym int64 = "64 word"

text \<open>
  The errors of the program, one constructor per way the source makes one. The message
  of an \<open>Errorf\<close> is the literal text, followed by the errors the format prints with
  \<open>%v\<close>.
\<close>

datatype num_err_kind = ErrSyntax | ErrRange

datatype error =
    ErrorString string
  | Errorf string "error list"
  | ProtocolError string
  | ProtocolErrorf string error
  | StatusError int string
  | EOF
  | UnexpectedEOF
  | NumError string string num_err_kind
  | CorruptInput nat
  | IOError string
  | ContextError string

type_synonym 'a result = "error + 'a"

text \<open>A Go panic is the left value of a sum whose right value is the result.\<close>

type_synonym 'a panicking = "string + 'a"

definition CRLF :: string where
  "CRLF = [CHR 13, CHR 10]"

section \<open>Collections of facts\<close>

named_theorems go_strings \<open>characterisations of the string functions\<close>
named_theorems conn_frame \<open>fields an operation on the control connection leaves alone\<close>

section \<open>Generic facts\<close>

lemma of_char_char_of [simp]: "of_char (char_of (n :: nat) :: char) = n mod 256"
  by (fact of_char_of)

lemma of_char_less [simp]: "(of_char (c :: char) :: nat) < 256"
  using of_char_mod_256 [of c, where 'a = nat] by (metis mod_less_divisor zero_less_numeral)

lemma char_of_of_char [simp]: "char_of (of_char (c :: char) :: nat) = c"
  by (fact char_of_char)

lemma takeWhile_neq_append [simp]:
  "c \<notin> set xs \<Longrightarrow> takeWhile (\<lambda>x. x \<noteq> c) (xs @ c # ys) = xs"
  by (induction xs) auto

lemma dropWhile_neq_append [simp]:
  "c \<notin> set xs \<Longrightarrow> dropWhile (\<lambda>x. x \<noteq> c) (xs @ c # ys) = c # ys"
  by (induction xs) auto

lemma takeWhile_neq_all [simp]: "c \<notin> set xs \<Longrightarrow> takeWhile (\<lambda>x. x \<noteq> c) xs = xs"
  by (induction xs) auto

lemma dropWhile_neq_none [simp]: "c \<notin> set xs \<Longrightarrow> dropWhile (\<lambda>x. x \<noteq> c) xs = []"
  by (induction xs) auto

lemma split_at_byte:
  assumes "c \<in> set xs"
  shows "xs = takeWhile (\<lambda>x. x \<noteq> c) xs @ c # drop (Suc (length (takeWhile (\<lambda>x. x \<noteq> c) xs))) xs"
  using assms by (induction xs) auto

section \<open>Encodings\<close>

text \<open>
  The interface of an encoding: what a client of an encoder and its decoder relies on.
  \<open>ok\<close> says which values the encoder takes without loss.
\<close>

locale codec =
  fixes enc :: "'a \<Rightarrow> 'b"
    and dec :: "'b \<Rightarrow> 'e + 'a"
    and ok :: "'a \<Rightarrow> bool"
  assumes dec_enc: "ok x \<Longrightarrow> dec (enc x) = Inr x"
begin

lemma enc_inject: "ok x \<Longrightarrow> ok y \<Longrightarrow> enc x = enc y \<longleftrightarrow> x = y"
  by (metis dec_enc sum.inject(2))

lemma enc_inj_on: "inj_on enc {x. ok x}"
  by (auto intro: inj_onI simp: enc_inject)

lemma dec_error_not_enc: "dec y = Inl e \<Longrightarrow> ok x \<Longrightarrow> y \<noteq> enc x"
  using dec_enc by force

end

text \<open>
  The interface of a reader of frames: what the encoder of a frame writes, followed by
  anything, is read back as what the reader makes of that frame, and the rest is left. A
  line, a dot-encoded body and a whole response of the control port are such frames.
\<close>

fun read_many :: "('s \<Rightarrow> ('e + 'b) \<times> 's) \<Rightarrow> nat \<Rightarrow> 's \<Rightarrow> ('e + 'b list) \<times> 's" where
  "read_many rd 0 inp = (Inr [], inp)"
| "read_many rd (Suc n) inp =
     (case rd inp of (Inl e, rest) \<Rightarrow> (Inl e, rest)
      | (Inr x, rest) \<Rightarrow>
          (case read_many rd n rest of (Inl e, rest') \<Rightarrow> (Inl e, rest')
           | (Inr xs, rest') \<Rightarrow> (Inr (x # xs), rest')))"

locale framing =
  fixes enc :: "'a \<Rightarrow> string"
    and rd :: "string \<Rightarrow> ('e + 'b) \<times> string"
    and view :: "'a \<Rightarrow> 'b"
    and ok :: "'a \<Rightarrow> bool"
  assumes read_frame: "ok x \<Longrightarrow> rd (enc x @ rest) = (Inr (view x), rest)"
begin

lemma read_frames:
  "\<forall>x\<in>set xs. ok x \<Longrightarrow>
     read_many rd (length xs) (concat (map enc xs) @ rest) = (Inr (map view xs), rest)"
  by (induction xs) (simp_all add: read_frame)

lemma frame_unique:
  assumes "ok x" "ok y" "enc x @ r = enc y @ r'"
  shows "view x = view y \<and> r = r'"
proof -
  have "(Inr (view x) :: 'e + 'b, r) = (Inr (view y), r')"
    using read_frame [OF assms(1), of r] read_frame [OF assms(2), of r'] assms(3) by simp
  then show ?thesis by simp
qed

end

end
