(* ===== verification/Go_Utf8.thy ===== *)
theory Go_Utf8
  imports Go_Prelude
begin

text \<open>
  The part of Go's \<open>unicode/utf8\<close> that a \<open>for \<dots> range\<close> over a string and the conversion
  \<open>string(rune)\<close> use: decoding one rune (with \<open>RuneError\<close> of width 1 for a byte that starts
  no valid sequence), encoding one rune, and the validity of a whole string.
\<close>

section \<open>Decoding and encoding one rune\<close>

type_synonym rune = nat

definition RuneError :: rune where
  "RuneError = 0xFFFD"

definition is_cont :: "nat \<Rightarrow> bool" where
  "is_cont b \<longleftrightarrow> 0x80 \<le> b \<and> b \<le> 0xBF"

text \<open>The bytes that may follow the first byte \<open>b0\<close> of a 3- or 4-byte sequence.\<close>

definition second_ok :: "nat \<Rightarrow> nat \<Rightarrow> bool" where
  "second_ok b0 b1 \<longleftrightarrow>
     (if b0 = 0xE0 then 0xA0 \<le> b1 \<and> b1 \<le> 0xBF
      else if b0 = 0xED then 0x80 \<le> b1 \<and> b1 \<le> 0x9F
      else if b0 = 0xF0 then 0x90 \<le> b1 \<and> b1 \<le> 0xBF
      else if b0 = 0xF4 then 0x80 \<le> b1 \<and> b1 \<le> 0x8F
      else is_cont b1)"

text \<open>The first three bytes after \<open>b0\<close>, 0 for a missing one (0 is no continuation byte).\<close>

definition nth_byte :: "nat \<Rightarrow> string \<Rightarrow> nat" where
  "nth_byte i s = (if i < length s then of_char (s ! i) else 0)"

definition decode_rune :: "string \<Rightarrow> rune \<times> nat" where
  "decode_rune s =
     (if s = [] then (RuneError, 0)
      else
        let b0 = nth_byte 0 s; b1 = nth_byte 1 s; b2 = nth_byte 2 s; b3 = nth_byte 3 s in
        if b0 < 0x80 then (b0, 1)
        else if 0xC2 \<le> b0 \<and> b0 \<le> 0xDF \<and> is_cont b1
        then ((b0 - 0xC0) * 64 + (b1 - 0x80), 2)
        else if 0xE0 \<le> b0 \<and> b0 \<le> 0xEF \<and> second_ok b0 b1 \<and> is_cont b2
        then ((b0 - 0xE0) * 4096 + (b1 - 0x80) * 64 + (b2 - 0x80), 3)
        else if 0xF0 \<le> b0 \<and> b0 \<le> 0xF4 \<and> second_ok b0 b1 \<and> is_cont b2 \<and> is_cont b3
        then ((b0 - 0xF0) * 262144 + (b1 - 0x80) * 4096 + (b2 - 0x80) * 64 + (b3 - 0x80), 4)
        else (RuneError, 1))"

text \<open>A Unicode scalar value: the runes that have an encoding of their own.\<close>

definition scalar :: "rune \<Rightarrow> bool" where
  "scalar r \<longleftrightarrow> r < 0xD800 \<or> (0xDFFF < r \<and> r < 0x110000)"

definition encode_rune :: "rune \<Rightarrow> string" where
  "encode_rune r0 =
     (let r = (if scalar r0 then r0 else RuneError) in
      if r < 0x80 then [char_of r]
      else if r < 0x800 then [char_of (0xC0 + r div 64), char_of (0x80 + r mod 64)]
      else if r < 0x10000
      then [char_of (0xE0 + r div 4096), char_of (0x80 + r div 64 mod 64), char_of (0x80 + r mod 64)]
      else [char_of (0xF0 + r div 262144), char_of (0x80 + r div 4096 mod 64),
            char_of (0x80 + r div 64 mod 64), char_of (0x80 + r mod 64)])"

lemma decode_rune_Nil [simp]: "decode_rune [] = (RuneError, 0)"
  by (simp add: decode_rune_def)

lemma decode_rune_width_pos: "s \<noteq> [] \<Longrightarrow> 0 < snd (decode_rune s)"
  by (simp add: decode_rune_def Let_def)

lemma decode_rune_ascii: "(of_char c :: nat) < 128 \<Longrightarrow> decode_rune (c # s) = (of_char c, 1)"
  by (simp add: decode_rune_def nth_byte_def)

lemma encode_rune_ascii: "r < 128 \<Longrightarrow> encode_rune r = [char_of r]"
  by (simp add: encode_rune_def scalar_def)

section \<open>Ranging over a string\<close>

text \<open>The runes a \<open>for _, c := range s\<close> loop sees, in order.\<close>

function range_string :: "string \<Rightarrow> rune list" where
  "range_string s =
     (if s = [] then [] else fst (decode_rune s) # range_string (drop (snd (decode_rune s)) s))"
  by pat_completeness auto
termination
  by (relation "measure length") (auto simp: decode_rune_width_pos)

declare range_string.simps [simp del]

definition encode_runes :: "rune list \<Rightarrow> string" where
  "encode_runes rs = concat (map encode_rune rs)"

text \<open>\<open>utf8.ValidString\<close>: no position decodes to \<open>RuneError\<close> of width 1.\<close>

function valid_string :: "string \<Rightarrow> bool" where
  "valid_string s =
     (if s = [] then True
      else decode_rune s \<noteq> (RuneError, 1) \<and> valid_string (drop (snd (decode_rune s)) s))"
  by pat_completeness auto
termination
  by (relation "measure length") (auto simp: decode_rune_width_pos)

declare valid_string.simps [simp del]

lemma range_string_Nil [simp]: "range_string [] = []"
  by (simp add: range_string.simps)

lemma valid_string_Nil [simp]: "valid_string []"
  by (simp add: valid_string.simps)

section \<open>Encoding and decoding are inverse\<close>

lemma base64_digits2: "(r :: nat) = (r div 4096) * 4096 + (r div 64 mod 64) * 64 + r mod 64"
proof -
  have "r div 64 = (r div 64 div 64) * 64 + r div 64 mod 64" by simp
  moreover have "r = (r div 64) * 64 + r mod 64" by simp
  moreover have "r div 64 div 64 = r div 4096" by (simp flip: div_mult2_eq)
  ultimately show ?thesis by linarith
qed

lemma base64_digits3:
  "(r :: nat) = (r div 262144) * 262144 + (r div 4096 mod 64) * 4096 + (r div 64 mod 64) * 64 + r mod 64"
proof -
  have "r div 4096 = (r div 4096 div 64) * 64 + r div 4096 mod 64" by simp
  moreover have "r div 4096 div 64 = r div 262144" by (simp flip: div_mult2_eq)
  ultimately show ?thesis using base64_digits2 [of r] by linarith
qed

lemma decode_encode_ascii:
  assumes "r < 128" shows "decode_rune (encode_rune r @ s) = (r, length (encode_rune r))"
  using assms by (simp add: encode_rune_ascii decode_rune_ascii)

lemma decode_encode_2:
  assumes "128 \<le> r" "r < 0x800"
  shows "decode_rune (encode_rune r @ s) = (r, length (encode_rune r))"
proof -
  have b0: "0xC0 + r div 64 < 256" "0xC2 \<le> 0xC0 + r div 64" "0xC0 + r div 64 \<le> 0xDF"
    using assms by auto
  have b1: "0x80 + r mod 64 < 256" "0x80 \<le> 0x80 + r mod 64" "0x80 + r mod 64 \<le> 0xBF" by auto
  have e: "encode_rune r = [char_of (0xC0 + r div 64), char_of (0x80 + r mod 64)]"
    using assms by (simp add: encode_rune_def scalar_def)
  show ?thesis
    unfolding e using b0 b1
    by (simp add: decode_rune_def nth_byte_def Let_def is_cont_def)
qed

lemma decode_encode_3:
  assumes "0x800 \<le> r" "r < 0x10000" "scalar r"
  shows "decode_rune (encode_rune r @ s) = (r, length (encode_rune r))"
proof -
  define h m l where "h = r div 4096" and "m = r div 64 mod 64" and "l = r mod 64"
  have m64: "m < 64" "l < 64" by (simp_all add: m_def l_def)
  have r: "r = h * 4096 + m * 64 + l" unfolding h_def m_def l_def by (rule base64_digits2)
  have h: "h < 16" using assms by (simp add: h_def)
  have e: "encode_rune r = [char_of (0xE0 + h), char_of (0x80 + m), char_of (0x80 + l)]"
    using assms unfolding h_def m_def l_def by (simp add: encode_rune_def)
  have ok: "second_ok (0xE0 + h) (0x80 + m)"
    using assms m64 h unfolding second_ok_def is_cont_def scalar_def r by auto
  show ?thesis
    unfolding e using m64 h ok r
    by (simp add: decode_rune_def nth_byte_def Let_def is_cont_def)
qed

lemma decode_encode_4:
  assumes "0x10000 \<le> r" "scalar r"
  shows "decode_rune (encode_rune r @ s) = (r, length (encode_rune r))"
proof -
  define h m l k where "h = r div 262144" and "m = r div 4096 mod 64" and "l = r div 64 mod 64"
    and "k = r mod 64"
  have m64: "m < 64" "l < 64" "k < 64" by (simp_all add: m_def l_def k_def)
  have r: "r = h * 262144 + m * 4096 + l * 64 + k" unfolding h_def m_def l_def k_def by (rule base64_digits3)
  have h: "h < 5" using assms by (simp add: h_def scalar_def)
  have e: "encode_rune r =
      [char_of (0xF0 + h), char_of (0x80 + m), char_of (0x80 + l), char_of (0x80 + k)]"
    using assms unfolding h_def m_def l_def k_def by (simp add: encode_rune_def)
  have ok: "second_ok (0xF0 + h) (0x80 + m)"
    using assms m64 h unfolding second_ok_def is_cont_def scalar_def r by auto
  show ?thesis
    unfolding e using m64 h ok r
    by (simp add: decode_rune_def nth_byte_def Let_def is_cont_def)
qed

lemma decode_encode:
  "scalar r \<Longrightarrow> decode_rune (encode_rune r @ s) = (r, length (encode_rune r))"
  by (metis decode_encode_ascii decode_encode_2 decode_encode_3 decode_encode_4 not_less)

lemma encode_rune_not_Nil [simp]: "encode_rune r \<noteq> []"
  by (simp add: encode_rune_def Let_def)

lemma range_encode_rune: "scalar r \<Longrightarrow> range_string (encode_rune r @ s) = r # range_string s"
  by (subst range_string.simps) (simp add: decode_encode)

lemma range_encode_runes:
  "\<forall>r\<in>set rs. scalar r \<Longrightarrow> range_string (encode_runes rs @ s) = rs @ range_string s"
  by (induction rs) (simp_all add: encode_runes_def range_encode_rune)

section \<open>Valid strings are the encodings of scalar values\<close>


lemma take_by_nth:
  "Suc 0 < length s \<Longrightarrow> take 2 s = [s ! 0, s ! Suc 0]"
  "2 < length s \<Longrightarrow> take 3 s = [s ! 0, s ! Suc 0, s ! 2]"
  "3 < length s \<Longrightarrow> take 4 s = [s ! 0, s ! Suc 0, s ! 2, s ! 3]"
  by (rule nth_equalityI; auto simp: less_Suc_eq numeral_eq_Suc)+

lemma take_bytes:
  "s \<noteq> [] \<Longrightarrow> 0 < nth_byte (Suc 0) s \<Longrightarrow>
     take 2 s = [char_of (nth_byte 0 s), char_of (nth_byte (Suc 0) s)]"
  "s \<noteq> [] \<Longrightarrow> 0 < nth_byte (Suc 0) s \<Longrightarrow> 0 < nth_byte 2 s \<Longrightarrow>
     take 3 s = [char_of (nth_byte 0 s), char_of (nth_byte (Suc 0) s), char_of (nth_byte 2 s)]"
  "s \<noteq> [] \<Longrightarrow> 0 < nth_byte (Suc 0) s \<Longrightarrow> 0 < nth_byte 2 s \<Longrightarrow> 0 < nth_byte 3 s \<Longrightarrow>
     take 4 s = [char_of (nth_byte 0 s), char_of (nth_byte (Suc 0) s), char_of (nth_byte 2 s),
       char_of (nth_byte 3 s)]"
  by (simp_all add: nth_byte_def take_by_nth split: if_splits)

lemma encode_2_digits:
  assumes "2 \<le> h" "h < 32" "l < 64"
  shows "encode_rune (h * 64 + l) = [char_of (0xC0 + h), char_of (0x80 + l)]"
    and "scalar (h * 64 + l)"
  using assms by (auto simp: encode_rune_def scalar_def)

lemma encode_3_digits:
  assumes "h < 16" "m < 64" "l < 64" "h = 0 \<Longrightarrow> 32 \<le> m" "h = 13 \<Longrightarrow> m < 32"
  shows "encode_rune (h * 4096 + m * 64 + l) = [char_of (0xE0 + h), char_of (0x80 + m), char_of (0x80 + l)]"
    and "scalar (h * 4096 + m * 64 + l)"
proof -
  show sc: "scalar (h * 4096 + m * 64 + l)"
    using assms unfolding scalar_def by (cases "h \<le> 12"; cases "h = 13") auto
  have big: "\<not> h * 4096 + m * 64 + l < 0x800" "h * 4096 + m * 64 + l < 0x10000"
    using assms by (cases "h = 0"; linarith)+
  have d1: "(h * 4096 + m * 64 + l) div 4096 = h" using assms by simp
  have d2: "(h * 4096 + m * 64 + l) div 64 = h * 64 + m" using assms by simp
  have "h * 4096 + m * 64 + l = l + 64 * (h * 64 + m)" by simp
  then have d3: "(h * 4096 + m * 64 + l) mod 64 = l"
    using assms by (simp only: mod_mult_self2 mod_less)
  show "encode_rune (h * 4096 + m * 64 + l) = [char_of (0xE0 + h), char_of (0x80 + m), char_of (0x80 + l)]"
    using big sc assms unfolding encode_rune_def by (simp add: d1 d2 d3)
qed

lemma encode_4_digits:
  assumes "h < 5" "m < 64" "l < 64" "k < 64" "h = 0 \<Longrightarrow> 16 \<le> m" "h = 4 \<Longrightarrow> m < 16"
  shows "encode_rune (h * 262144 + m * 4096 + l * 64 + k) =
      [char_of (0xF0 + h), char_of (0x80 + m), char_of (0x80 + l), char_of (0x80 + k)]"
    and "scalar (h * 262144 + m * 4096 + l * 64 + k)"
proof -
  let ?r = "h * 262144 + m * 4096 + l * 64 + k"
  have big: "0x10000 \<le> ?r" "?r < 0x110000"
    using assms by (cases "h = 0"; linarith) (cases "h \<le> 3"; use assms in \<open>cases "h = 4"; linarith\<close>)
  then show sc: "scalar ?r" by (simp add: scalar_def)
  have d1: "?r div 262144 = h" using assms by simp
  have d2: "?r div 4096 = h * 64 + m" using assms by simp
  have d3: "?r div 64 = l + 64 * (h * 64 + m)" using assms by simp
  have "?r = k + 64 * (h * 4096 + m * 64 + l)" by simp
  then have d4: "?r mod 64 = k" using assms by (simp only: mod_mult_self2 mod_less)
  have m2: "(h * 64 + m) mod 64 = m" "(l + 64 * (h * 64 + m)) mod 64 = l"
    using assms by (simp only: mod_mult_self3 mod_less, simp only: mod_mult_self2 mod_less)
  show "encode_rune ?r =
      [char_of (0xF0 + h), char_of (0x80 + m), char_of (0x80 + l), char_of (0x80 + k)]"
    using big by (simp only: encode_rune_def Let_def sc d1 d2 d3 d4 m2 if_True) simp
qed

lemma decode_rune_valid:
  assumes "s \<noteq> []" "decode_rune s \<noteq> (RuneError, 1)"
  shows "scalar (fst (decode_rune s)) \<and> take (snd (decode_rune s)) s = encode_rune (fst (decode_rune s))"
proof -
  define b0 b1 b2 b3 where b: "b0 = nth_byte 0 s" "b1 = nth_byte (Suc 0) s" "b2 = nth_byte 2 s" "b3 = nth_byte 3 s"
  have c0: "char_of b0 = s ! 0" using assms(1) by (simp add: b nth_byte_def)
  have t1: "take 1 s = [s ! 0]" using assms(1) by (cases s) auto
  consider (one) "b0 < 0x80"
    | (two) "0xC2 \<le> b0" "b0 \<le> 0xDF" "is_cont b1"
    | (three) "0xE0 \<le> b0" "b0 \<le> 0xEF" "second_ok b0 b1" "is_cont b2"
    | (four) "0xF0 \<le> b0" "b0 \<le> 0xF4" "second_ok b0 b1" "is_cont b2" "is_cont b3"
    using assms unfolding decode_rune_def Let_def b by (auto split: if_splits)
  then show ?thesis
  proof cases
    case one
    then show ?thesis using assms(1) c0 t1
      by (simp add: decode_rune_def Let_def b encode_rune_ascii scalar_def)
  next
    case two
    then have p: "0 < b1" by (simp add: is_cont_def)
    have d: "decode_rune s = ((b0 - 0xC0) * 64 + (b1 - 0x80), 2)"
      using two assms(1) by (simp add: decode_rune_def Let_def b)
    have "take 2 s = [char_of b0, char_of b1]"
      using take_bytes(1) [OF assms(1)] p by (simp add: b)
    moreover have "2 \<le> b0 - 0xC0" "b0 - 0xC0 < 32" "b1 - 0x80 < 64"
      using two by (auto simp: is_cont_def)
    note encode_2_digits [OF this]
    ultimately show ?thesis using two by (simp add: d is_cont_def)
  next
    case three
    then have p: "0 < b2" "0x80 \<le> b1" "b1 \<le> 0xBF"
      by (auto simp: is_cont_def second_ok_def split: if_splits)
    have d: "decode_rune s = ((b0 - 0xE0) * 4096 + (b1 - 0x80) * 64 + (b2 - 0x80), 3)"
      using three assms(1) by (simp add: decode_rune_def Let_def b)
    have t: "take 3 s = [char_of b0, char_of b1, char_of b2]"
      using take_bytes(2) [OF assms(1)] p by (simp add: b)
    have "b0 = 0xE0 \<Longrightarrow> 0xA0 \<le> b1" "b0 = 0xED \<Longrightarrow> b1 \<le> 0x9F"
      using three by (auto simp: second_ok_def)
    then have "b0 - 0xE0 < 16" "b1 - 0x80 < 64" "b2 - 0x80 < 64"
      "b0 - 0xE0 = 0 \<Longrightarrow> 32 \<le> b1 - 0x80" "b0 - 0xE0 = 13 \<Longrightarrow> b1 - 0x80 < 32"
      using three(1,2,4) p by (auto simp: is_cont_def le_imp_diff_is_add)
    note e = encode_3_digits [OF this]
    have "0xE0 + (b0 - 0xE0) = b0" "0x80 + (b1 - 0x80) = b1" "0x80 + (b2 - 0x80) = b2"
      using three(1,4) p by (auto simp: is_cont_def)
    with e t show ?thesis by (simp only: d fst_conv snd_conv simp_thms)
  next
    case four
    then have p: "0 < b2" "0 < b3" "0x80 \<le> b1" "b1 \<le> 0xBF"
      by (auto simp: is_cont_def second_ok_def split: if_splits)
    have d: "decode_rune s =
        ((b0 - 0xF0) * 262144 + (b1 - 0x80) * 4096 + (b2 - 0x80) * 64 + (b3 - 0x80), 4)"
      using four assms(1) by (simp add: decode_rune_def Let_def b)
    have t: "take 4 s = [char_of b0, char_of b1, char_of b2, char_of b3]"
      using take_bytes(3) [OF assms(1)] p by (simp add: b)
    have "b0 = 0xF0 \<Longrightarrow> 0x90 \<le> b1" "b0 = 0xF4 \<Longrightarrow> b1 \<le> 0x8F"
      using four by (auto simp: second_ok_def)
    then have "b0 - 0xF0 < 5" "b1 - 0x80 < 64" "b2 - 0x80 < 64" "b3 - 0x80 < 64"
      "b0 - 0xF0 = 0 \<Longrightarrow> 16 \<le> b1 - 0x80" "b0 - 0xF0 = 4 \<Longrightarrow> b1 - 0x80 < 16"
      using four(1,2,4,5) p by (auto simp: is_cont_def le_imp_diff_is_add)
    note e = encode_4_digits [OF this]
    have "0xF0 + (b0 - 0xF0) = b0" "0x80 + (b1 - 0x80) = b1" "0x80 + (b2 - 0x80) = b2"
      "0x80 + (b3 - 0x80) = b3"
      using four(1,4,5) p by (auto simp: is_cont_def)
    with e t show ?thesis by (simp only: d fst_conv snd_conv simp_thms)
  qed
qed

lemma valid_string_runes:
  "valid_string s \<Longrightarrow> (\<forall>r\<in>set (range_string s). scalar r) \<and> encode_runes (range_string s) = s"
proof (induction s rule: valid_string.induct)
  case (1 s)
  show ?case
  proof (cases "s = []")
    case True
    then show ?thesis by (simp add: encode_runes_def)
  next
    case False
    let ?r = "fst (decode_rune s)" and ?w = "snd (decode_rune s)"
    from False "1.prems" have bad: "decode_rune s \<noteq> (RuneError, 1)" and v: "valid_string (drop ?w s)"
      by (simp_all add: valid_string.simps [of s])
    have IH: "(\<forall>r\<in>set (range_string (drop ?w s)). scalar r)
        \<and> encode_runes (range_string (drop ?w s)) = drop ?w s"
      using "1.IH" False bad v by blast
    have s: "scalar ?r" "encode_rune ?r = take ?w s" using decode_rune_valid [OF False bad] by auto
    have rs: "range_string s = ?r # range_string (drop ?w s)"
      using False by (subst range_string.simps) simp
    show ?thesis
      using IH s by (simp add: rs encode_runes_def)
  qed
qed

lemma valid_string_encode_runes:
  "\<forall>r\<in>set rs. scalar r \<Longrightarrow> valid_string (encode_runes rs)"
proof (induction rs)
  case Nil
  then show ?case by (simp add: encode_runes_def)
next
  case (Cons r rs)
  have e: "encode_runes (r # rs) = encode_rune r @ encode_runes rs" by (simp add: encode_runes_def)
  have d: "decode_rune (encode_runes (r # rs)) = (r, length (encode_rune r))"
    using Cons.prems unfolding e by (simp add: decode_encode)
  have "(r, length (encode_rune r)) \<noteq> (RuneError, 1)"
    by (auto simp: encode_rune_def RuneError_def scalar_def)
  with Cons d show ?case
    by (subst valid_string.simps) (simp add: e)
qed
lemma valid_string_iff: "valid_string s \<longleftrightarrow> (\<exists>rs. (\<forall>r\<in>set rs. scalar r) \<and> s = encode_runes rs)"
  by (metis valid_string_runes valid_string_encode_runes)

end
