(* ===== verification/Go_Strings.thy ===== *)
theory Go_Strings
  imports Go_Utf8 "HOL-Library.Sublist"
begin

text \<open>
  The functions of Go's \<open>strings\<close> package the program calls, on byte strings. A search
  returns -1 when it finds nothing, as in Go. Slices \<open>s[i:]\<close> and \<open>s[:i]\<close> are \<open>drop\<close> and
  \<open>take\<close>; the program only slices within bounds.
\<close>

section \<open>Searching\<close>

fun index_byte :: "string \<Rightarrow> char \<Rightarrow> int" where
  "index_byte [] ch = -1"
| "index_byte (c # cs) ch =
     (if c = ch then 0 else let i = index_byte cs ch in if i = -1 then -1 else i + 1)"

definition last_index_byte :: "string \<Rightarrow> char \<Rightarrow> int" where
  "last_index_byte s ch =
     (let i = index_byte (rev s) ch in if i = -1 then -1 else int (length s) - 1 - i)"

text \<open>\<open>strings.Index\<close>: the first position where \<open>sub\<close> starts.\<close>

fun index_str :: "string \<Rightarrow> string \<Rightarrow> int" where
  "index_str [] sub = (if sub = [] then 0 else -1)"
| "index_str (c # cs) sub =
     (if prefix sub (c # cs) then 0
      else let i = index_str cs sub in if i = -1 then -1 else i + 1)"

definition contains_any :: "string \<Rightarrow> string \<Rightarrow> bool" where
  "contains_any s chars \<longleftrightarrow> (\<exists>c\<in>set s. c \<in> set chars)"

definition has_prefix :: "string \<Rightarrow> string \<Rightarrow> bool" where
  "has_prefix s p \<longleftrightarrow> prefix p s"

lemma index_byte_none [go_strings]: "c \<notin> set s \<Longrightarrow> index_byte s c = -1"
  by (induction s) auto

lemma index_byte_some [go_strings]:
  "c \<in> set s \<Longrightarrow> index_byte s c = int (length (takeWhile (\<lambda>x. x \<noteq> c) s))"
  by (induction s) auto

lemma index_byte_minus1: "index_byte s c = -1 \<longleftrightarrow> c \<notin> set s"
  using index_byte_none index_byte_some by fastforce

lemma index_byte_append:
  "c \<notin> set a \<Longrightarrow> index_byte (a @ c # b) c = int (length a)"
  by (simp add: index_byte_some)

lemma last_index_byte_none: "c \<notin> set s \<Longrightarrow> last_index_byte s c = -1"
  by (simp add: last_index_byte_def index_byte_none)

lemma last_index_byte_append:
  "c \<notin> set b \<Longrightarrow> last_index_byte (a @ c # b) c = int (length a)"
  by (simp add: last_index_byte_def index_byte_some Let_def)

lemma index_str_none_head: "index_str s sub = -1 \<Longrightarrow> \<not> prefix sub s"
  by (cases s) (auto split: if_splits)

lemma index_str_append:
  "\<forall>a' b'. a = a' @ b' \<and> b' \<noteq> [] \<longrightarrow> \<not> prefix sub (b' @ sub @ b) \<Longrightarrow>
     index_str (a @ sub @ b) sub = int (length a)"
proof (induction a)
  case Nil
  have "prefix sub (sub @ b)" by simp
  then show ?case by (cases "sub @ b") auto
next
  case (Cons x a)
  have "\<not> prefix sub (x # a @ sub @ b)" using Cons.prems by (metis append_Cons append_Nil list.discI)
  moreover have "\<forall>a' b'. a = a' @ b' \<and> b' \<noteq> [] \<longrightarrow> \<not> prefix sub (b' @ sub @ b)"
    using Cons.prems by (metis append_Cons)
  ultimately show ?case using Cons.IH by (simp add: Let_def)
qed

section \<open>Splitting and joining\<close>

text \<open>\<open>strings.Split\<close> with a separator of one byte.\<close>

fun split_byte :: "string \<Rightarrow> char \<Rightarrow> string list" where
  "split_byte [] sep = [[]]"
| "split_byte (c # cs) sep =
     (if c = sep then [] # split_byte cs sep
      else case split_byte cs sep of [] \<Rightarrow> [[c]] | w # ws \<Rightarrow> (c # w) # ws)"

fun join :: "string list \<Rightarrow> string \<Rightarrow> string" where
  "join [] sep = []"
| "join [w] sep = w"
| "join (w # ws) sep = w @ sep @ join ws sep"

lemma split_byte_not_Nil [simp]: "split_byte s c \<noteq> []"
  by (cases s) (auto split: list.splits)

lemma split_byte_single: "c \<notin> set s \<Longrightarrow> split_byte s c = [s]"
  by (induction s) auto

lemma split_byte_append: "c \<notin> set a \<Longrightarrow> split_byte (a @ c # b) c = a # split_byte b c"
  by (induction a) auto

lemma join_split_byte: "join (split_byte s c) [c] = s"
proof (induction s)
  case Nil
  then show ?case by simp
next
  case (Cons x s)
  obtain w ws where w: "split_byte s c = w # ws" by (metis list.exhaust split_byte_not_Nil)
  with Cons show ?case by (cases ws) auto
qed

lemma split_byte_join:
  "ws \<noteq> [] \<Longrightarrow> \<forall>w\<in>set ws. c \<notin> set w \<Longrightarrow> split_byte (join ws [c]) c = ws"
proof (induction ws "[c]" rule: join.induct)
  case (3 w v vs)
  then show ?case using split_byte_append [of c w "join (v # vs) [c]"] by simp
qed (auto simp: split_byte_single)

lemma split_byte_no_sep: "w \<in> set (split_byte s c) \<Longrightarrow> c \<notin> set w"
  by (induction s arbitrary: w) (auto split: if_splits list.splits)

section \<open>Trimming\<close>

definition trim_prefix :: "string \<Rightarrow> string \<Rightarrow> string" where
  "trim_prefix s p = (if has_prefix s p then drop (length p) s else s)"

text \<open>\<open>strings.TrimRight\<close> with a cut set of ASCII bytes.\<close>

definition trim_right :: "string \<Rightarrow> string \<Rightarrow> string" where
  "trim_right s cutset = rev (dropWhile (\<lambda>c. c \<in> set cutset) (rev s))"

text \<open>\<open>unicode.IsSpace\<close>, and \<open>strings.TrimSpace\<close>, which decodes runes at both ends.\<close>

definition is_space :: "rune \<Rightarrow> bool" where
  "is_space r \<longleftrightarrow> r \<in> {9, 10, 11, 12, 13, 32, 0x85, 0xA0, 0x1680, 0x2028, 0x2029, 0x202F, 0x205F, 0x3000}
     \<or> (0x2000 \<le> r \<and> r \<le> 0x200A)"

function trim_left_space :: "string \<Rightarrow> string" where
  "trim_left_space s =
     (if s \<noteq> [] \<and> is_space (fst (decode_rune s))
      then trim_left_space (drop (snd (decode_rune s)) s) else s)"
  by pat_completeness auto
termination
  by (relation "measure length") (auto simp: decode_rune_width_pos)

declare trim_left_space.simps [simp del]

definition rune_start :: "char \<Rightarrow> bool" where
  "rune_start c \<longleftrightarrow> \<not> is_cont (of_char c)"

text \<open>
  \<open>utf8.DecodeLastRune\<close>: step back over at most three continuation bytes to the last rune
  start, decode there, and insist that the rune ends the string.
\<close>

definition last_rune_start :: "string \<Rightarrow> nat" where
  "last_rune_start s =
     (case List.find (\<lambda>k. k \<le> length s \<and> rune_start (s ! (length s - k))) [2, 3, 4] of
        Some k \<Rightarrow> length s - k | None \<Rightarrow> length s - 5)"

definition decode_last_rune :: "string \<Rightarrow> rune \<times> nat" where
  "decode_last_rune s =
     (if s = [] then (RuneError, 0)
      else if of_char (last s) < (0x80 :: nat) then (of_char (last s), 1)
      else
        let start = last_rune_start s; (r, size) = decode_rune (drop start s)
        in if start + size \<noteq> length s then (RuneError, 1) else (r, size))"

lemma last_rune_start_less: "s \<noteq> [] \<Longrightarrow> last_rune_start s < length s"
  unfolding last_rune_start_def by (auto split: option.splits if_splits)

lemma decode_last_rune_pos:
  assumes "s \<noteq> []" shows "0 < snd (decode_last_rune s)"
proof -
  have "0 < snd (decode_rune (drop (last_rune_start s) s))"
    using last_rune_start_less [OF assms] by (intro decode_rune_width_pos) simp
  with assms show ?thesis
    by (auto simp: decode_last_rune_def Let_def split: prod.splits)
qed

function trim_right_space :: "string \<Rightarrow> string" where
  "trim_right_space s =
     (if s \<noteq> [] \<and> is_space (fst (decode_last_rune s))
      then trim_right_space (take (length s - snd (decode_last_rune s)) s) else s)"
  by pat_completeness auto
termination
  by (relation "measure length") (auto simp: decode_last_rune_pos)

declare trim_right_space.simps [simp del]

definition trim_space :: "string \<Rightarrow> string" where
  "trim_space s = trim_right_space (trim_left_space s)"

lemma trim_left_space_id:
  "s \<noteq> [] \<Longrightarrow> (of_char (hd s) :: nat) < 128 \<Longrightarrow> \<not> is_space (of_char (hd s)) \<Longrightarrow> trim_left_space s = s"
  by (cases s) (simp_all add: trim_left_space.simps decode_rune_ascii)

lemma trim_right_space_id:
  "s \<noteq> [] \<Longrightarrow> (of_char (last s) :: nat) < 128 \<Longrightarrow> \<not> is_space (of_char (last s)) \<Longrightarrow>
     trim_right_space s = s"
  by (simp add: trim_right_space.simps decode_last_rune_def)

lemma trim_right_space_snoc:
  "(of_char c :: nat) < 128 \<Longrightarrow> is_space (of_char c) \<Longrightarrow>
     trim_right_space (s @ [c]) = trim_right_space s"
  by (subst trim_right_space.simps) (simp add: decode_last_rune_def)

lemma trim_space_newline:
  assumes "s \<noteq> []" "(of_char (hd s) :: nat) < 128" "\<not> is_space (of_char (hd s))"
    and "(of_char (last s) :: nat) < 128" "\<not> is_space (of_char (last s))"
  shows "trim_space s = s" and "trim_space (s @ [CHR 10]) = s"
    and "trim_space (s @ CRLF) = s"
proof -
  have r: "trim_right_space s = s" using assms trim_right_space_id by blast
  have n: "trim_right_space (s @ [CHR 10]) = s"
    using r by (simp add: trim_right_space_snoc is_space_def)
  have c: "trim_right_space (s @ CRLF) = s"
  proof -
    have e: "s @ CRLF = (s @ [CHR 13]) @ [CHR 10]" by (simp add: CRLF_def)
    show ?thesis
      unfolding e using r trim_right_space_snoc [of "CHR 10" "s @ [CHR 13]"]
        trim_right_space_snoc [of "CHR 13" s] by (simp add: is_space_def)
  qed
  have l: "trim_left_space (s @ t) = s @ t" for t
    using assms by (intro trim_left_space_id) auto
  show "trim_space s = s" using l [of "[]"] r by (simp add: trim_space_def)
  show "trim_space (s @ [CHR 10]) = s" using l n by (simp add: trim_space_def)
  show "trim_space (s @ CRLF) = s" using l c by (simp add: trim_space_def)
qed

end
