(* ===== verification/Go_Strconv.thy ===== *)
theory Go_Strconv
  imports Go_Strings
begin

text \<open>
  The conversions of \<open>strconv\<close> and \<open>encoding/hex\<close> the program uses: \<open>Itoa\<close>, \<open>Atoi\<close>,
  \<open>ParseInt(s, 10, 64)\<close>, and hexadecimal. The parsers return a value together with the
  error, as Go does, because the program often keeps the value and drops the error: a
  syntax error gives 0, a value out of range the nearest bound. \<open>int\<close> is 64 bits wide.
\<close>

section \<open>Printing integers\<close>

definition digit_char :: "nat \<Rightarrow> char" where
  "digit_char d = char_of (48 + d)"

fun nat_digits :: "nat \<Rightarrow> string" where
  "nat_digits n = (if n < 10 then [digit_char n] else nat_digits (n div 10) @ [digit_char (n mod 10)])"

declare nat_digits.simps [simp del]

definition itoa :: "int \<Rightarrow> string" where
  "itoa i = (if i < 0 then CHR ''-'' # nat_digits (nat (- i)) else nat_digits (nat i))"

section \<open>Parsing integers\<close>

definition max_uint64 :: nat where
  "max_uint64 = 2 ^ 64 - 1"

definition is_digit :: "char \<Rightarrow> bool" where
  "is_digit c \<longleftrightarrow> 48 \<le> (of_char c :: nat) \<and> (of_char c :: nat) \<le> 57"

definition digit_val :: "char \<Rightarrow> nat" where
  "digit_val c = of_char c - 48"

text \<open>The loop of \<open>ParseUint\<close> in base 10: the first bad digit or overflow ends it.\<close>

fun parse_uint_loop :: "nat \<Rightarrow> string \<Rightarrow> nat \<times> num_err_kind option" where
  "parse_uint_loop n [] = (n, None)"
| "parse_uint_loop n (c # cs) =
     (if \<not> is_digit c then (0, Some ErrSyntax)
      else if max_uint64 div 10 + 1 \<le> n then (max_uint64, Some ErrRange)
      else let n1 = n * 10 + digit_val c in
        if max_uint64 < n1 then (max_uint64, Some ErrRange) else parse_uint_loop n1 cs)"

definition parse_uint :: "string \<Rightarrow> nat \<times> num_err_kind option" where
  "parse_uint s = (if s = [] then (0, Some ErrSyntax) else parse_uint_loop 0 s)"

definition parse_int :: "string \<Rightarrow> int \<times> num_err_kind option" where
  "parse_int s0 =
     (let neg = (case s0 of c # _ \<Rightarrow> c = CHR ''-'' | [] \<Rightarrow> False);
          signed = (case s0 of c # _ \<Rightarrow> c = CHR ''-'' \<or> c = CHR ''+'' | [] \<Rightarrow> False);
          s = (if signed then tl s0 else s0);
          (un, err) = parse_uint s;
          cutoff = 2 ^ 63
      in if err = Some ErrSyntax then (0, err)
         else if \<not> neg \<and> cutoff \<le> un then (int cutoff - 1, Some ErrRange)
         else if neg \<and> cutoff < un then (- int cutoff, Some ErrRange)
         else (if neg then - int un else int un, err))"

text \<open>
  \<open>Atoi\<close> agrees with \<open>ParseInt(s, 10, 0)\<close>, of which it is a fast path; both name
  themselves in the error they return.
\<close>

definition parse_err :: "string \<Rightarrow> string \<Rightarrow> num_err_kind option \<Rightarrow> error option" where
  "parse_err fn s k = map_option (NumError fn s) k"

definition Atoi :: "string \<Rightarrow> int \<times> error option" where
  "Atoi s = (fst (parse_int s), parse_err ''Atoi'' s (snd (parse_int s)))"

definition ParseInt64 :: "string \<Rightarrow> int64 \<times> error option" where
  "ParseInt64 s = (word_of_int (fst (parse_int s)), parse_err ''ParseInt'' s (snd (parse_int s)))"

text \<open>\<open>v, _ := strconv.Atoi(s)\<close> and \<open>v, _ := strconv.ParseInt(s, 10, 64)\<close>.\<close>

definition atoi_val :: "string \<Rightarrow> int" where
  "atoi_val s = fst (Atoi s)"

definition int64_val :: "string \<Rightarrow> int64" where
  "int64_val s = fst (ParseInt64 s)"

lemma digit_char_is_digit [simp]: "d < 10 \<Longrightarrow> is_digit (digit_char d)"
  by (simp add: is_digit_def digit_char_def)

lemma digit_val_digit_char [simp]: "d < 10 \<Longrightarrow> digit_val (digit_char d) = d"
  by (simp add: digit_val_def digit_char_def)

lemma nat_digits_is_digit: "c \<in> set (nat_digits n) \<Longrightarrow> is_digit c"
proof (induction n rule: nat_digits.induct)
  case (1 n)
  then show ?case by (subst (asm) nat_digits.simps) (auto split: if_splits)
qed

lemma nat_digits_not_Nil [simp]: "nat_digits n \<noteq> []"
  by (subst nat_digits.simps) simp

lemma nat_digits_last: "is_digit (last (nat_digits n))"
  by (rule nat_digits_is_digit [OF last_in_set]) simp

lemma is_digit_range: "is_digit c \<Longrightarrow> c \<noteq> CHR ''-'' \<and> c \<noteq> CHR ''+'' \<and> c \<noteq> CHR '' ''"
  by (auto simp: is_digit_def)

lemma parse_uint_loop_append:
  "m * 10 ^ length (nat_digits n) + n \<le> max_uint64 \<Longrightarrow>
     parse_uint_loop m (nat_digits n @ cs) = parse_uint_loop (m * 10 ^ length (nat_digits n) + n) cs"
proof (induction n arbitrary: m cs rule: nat_digits.induct)
  case (1 n)
  show ?case
  proof (cases "n < 10")
    case True
    then have e: "nat_digits n = [digit_char n]" by (subst nat_digits.simps) simp
    have "m * 10 + n \<le> max_uint64" using 1(2) e by simp
    moreover from this have "m < max_uint64 div 10 + 1" by simp
    ultimately show ?thesis using True by (simp add: e Let_def)
  next
    case False
    let ?d = "nat_digits (n div 10)"
    have e: "nat_digits n = ?d @ [digit_char (n mod 10)]"
      using False by (subst nat_digits.simps) simp
    let ?m = "m * 10 ^ length ?d + n div 10"
    have split: "?m * 10 + n mod 10 = m * 10 ^ length (nat_digits n) + n"
      by (simp add: e algebra_simps)
    have le: "?m * 10 + n mod 10 \<le> max_uint64" using 1(2) by (simp only: split)
    then have lt: "?m < max_uint64 div 10 + 1" by simp
    have "parse_uint_loop m (nat_digits n @ cs) = parse_uint_loop ?m (digit_char (n mod 10) # cs)"
      using 1(1) [OF False, of m] le by (simp only: e append_assoc append_Cons append_Nil) simp
    also have "\<dots> = parse_uint_loop (?m * 10 + n mod 10) cs"
      using le lt by (simp add: Let_def)
    finally show ?thesis by (simp only: split)
  qed
qed

lemma parse_uint_digits: "n \<le> max_uint64 \<Longrightarrow> parse_uint (nat_digits n) = (n, None)"
  using parse_uint_loop_append [of 0 n "[]"] by (simp add: parse_uint_def)

lemma parse_int_itoa:
  assumes "- (2 ^ 63) \<le> i" "i < 2 ^ 63" shows "parse_int (itoa i) = (i, None)"
proof (cases "i < 0")
  case True
  then have "parse_uint (nat_digits (nat (- i))) = (nat (- i), None)"
    using assms by (intro parse_uint_digits) (simp add: max_uint64_def)
  then show ?thesis using True assms
    by (simp add: parse_int_def itoa_def)
next
  case False
  then have p: "parse_uint (nat_digits (nat i)) = (nat i, None)"
    using assms by (intro parse_uint_digits) (simp add: max_uint64_def)
  obtain c cs where c: "nat_digits (nat i) = c # cs" by (metis list.exhaust nat_digits_not_Nil)
  then have "is_digit c" using nat_digits_is_digit [of c "nat i"] by simp
  with c p False assms show ?thesis
    by (auto simp: parse_int_def itoa_def dest: is_digit_range)
qed

lemma Atoi_itoa: "- (2 ^ 63) \<le> i \<Longrightarrow> i < 2 ^ 63 \<Longrightarrow> Atoi (itoa i) = (i, None)"
  by (simp add: Atoi_def parse_err_def parse_int_itoa)

lemma parse_uint_loop_bound: "n \<le> max_uint64 \<Longrightarrow> fst (parse_uint_loop n s) \<le> max_uint64"
  by (induction n s rule: parse_uint_loop.induct) (auto simp: Let_def)

lemma parse_int_range: "- (2 ^ 63) \<le> fst (parse_int s) \<and> fst (parse_int s) < 2 ^ 63"
  by (auto simp: parse_int_def Let_def split: prod.splits)

lemma atoi_val_range: "- (2 ^ 63) \<le> atoi_val s \<and> atoi_val s < 2 ^ 63"
  using parse_int_range [of s] by (simp add: atoi_val_def Atoi_def)

lemma sint_int64_val: "sint (int64_val s) = atoi_val s"
  using parse_int_range [of s]
  by (simp add: int64_val_def ParseInt64_def atoi_val_def Atoi_def sint_sbintrunc'
      signed_take_bit_int_eq_self)

section \<open>Hexadecimal\<close>

definition hex_digit :: "nat \<Rightarrow> char" where
  "hex_digit n = ''0123456789abcdef'' ! n"

definition hex_val :: "char \<Rightarrow> nat option" where
  "hex_val c =
     (let n = of_char c in
      if 48 \<le> n \<and> n \<le> 57 then Some (n - 48)
      else if 97 \<le> n \<and> n \<le> 102 then Some (n - 87)
      else if 65 \<le> n \<and> n \<le> 70 then Some (n - 55) else None)"

definition hex_byte :: "byte \<Rightarrow> string" where
  "hex_byte b = [hex_digit (unat b div 16), hex_digit (unat b mod 16)]"

definition hex_encode :: "bytes \<Rightarrow> string" where
  "hex_encode bs = concat (map hex_byte bs)"

fun hex_decode :: "string \<Rightarrow> bytes result" where
  "hex_decode [] = Inr []"
| "hex_decode [a] = (case hex_val a of None \<Rightarrow> Inl (ErrorString ''encoding/hex: invalid byte'')
     | Some _ \<Rightarrow> Inl (ErrorString ''encoding/hex: odd length hex string''))"
| "hex_decode (a # b # cs) =
     (case (hex_val a, hex_val b) of
        (Some h, Some l) \<Rightarrow>
          (case hex_decode cs of Inl e \<Rightarrow> Inl e | Inr bs \<Rightarrow> Inr (word_of_nat (h * 16 + l) # bs))
      | _ \<Rightarrow> Inl (ErrorString ''encoding/hex: invalid byte''))"

lemma hex_digits_val: "\<forall>n\<in>set [0..<16]. hex_val (''0123456789abcdef'' ! n) = Some n"
  by code_simp

lemma hex_val_digit: "n < 16 \<Longrightarrow> hex_val (hex_digit n) = Some n"
  using hex_digits_val by (simp add: hex_digit_def)

lemma hex_decode_encode: "hex_decode (hex_encode bs) = Inr bs"
proof (induction bs)
  case Nil
  then show ?case by (simp add: hex_encode_def)
next
  case (Cons b bs)
  have "unat b < 256" using unsigned_less [of b, where 'a = nat] by simp
  then have "hex_val (hex_digit (unat b div 16)) = Some (unat b div 16)"
    "hex_val (hex_digit (unat b mod 16)) = Some (unat b mod 16)"
    by (auto intro!: hex_val_digit)
  moreover have "unat b div 16 * 16 + unat b mod 16 = unat b" by simp
  ultimately show ?case using Cons by (simp add: hex_encode_def hex_byte_def)
qed

lemma length_hex_encode: "length (hex_encode bs) = 2 * length bs"
  by (induction bs) (simp_all add: hex_encode_def hex_byte_def)

lemma hex_digit_set: "n < 16 \<Longrightarrow> hex_digit n \<in> set ''0123456789abcdef''"
  unfolding hex_digit_def by (rule nth_mem) simp

lemma hex_encode_set: "set (hex_encode bs) \<subseteq> set ''0123456789abcdef''"
proof -
  have "set (hex_byte b) \<subseteq> set ''0123456789abcdef''" for b
    using hex_digit_set [of "unat b div 16"] hex_digit_set [of "unat b mod 16"] unsigned_less [of b, where 'a = nat]
    by (auto simp: hex_byte_def)
  then show ?thesis by (fastforce simp: hex_encode_def)
qed

interpretation hex: codec hex_encode hex_decode "\<lambda>_. True"
  by unfold_locales (rule hex_decode_encode)

end
