(* ===== verification/Go_Fmt.thy ===== *)
theory Go_Fmt
  imports Go_Strconv
begin

text \<open>
  \<open>fmt.Sprintf\<close> as the program calls it: every request it sends goes through a format.
  The formats that come with operands are constants made of text, \<open>%v\<close> and \<open>%s\<close>, and
  their operands are strings. The other requests are built by concatenation and passed as
  the format itself, with no operand, so a percent sign in a value of the caller is read as
  a directive; \<open>sprintf0\<close> writes that case out in full, as \<open>doPrintf\<close> has it.
\<close>

section \<open>Formats with no operand\<close>

text \<open>
  \<open>parsenum\<close>: the digits that start \<open>s\<close>. It says whether there was a number and returns
  what follows; a number over a million gives up and skips to the end.
\<close>

fun parsenum_loop :: "nat \<Rightarrow> bool \<Rightarrow> string \<Rightarrow> bool \<times> string" where
  "parsenum_loop n isnum [] = (isnum, [])"
| "parsenum_loop n isnum (c # cs) =
     (if is_digit c
      then if 1000000 < n then (False, []) else parsenum_loop (n * 10 + digit_val c) True cs
      else (isnum, c # cs))"

definition parsenum :: "string \<Rightarrow> bool \<times> string" where
  "parsenum s = parsenum_loop 0 False s"

text \<open>
  \<open>argNumber\<close> with no operand: an explicit index \<open>[n]\<close> is always out of range. The result
  says whether a bracket was there, whether it held a number, and what follows.
\<close>

definition arg_number :: "string \<Rightarrow> bool \<times> bool \<times> string" where
  "arg_number s =
     (case s of [] \<Rightarrow> (False, False, s)
      | c # cs \<Rightarrow>
          if c \<noteq> CHR ''['' then (False, False, s)
          else if length s < 3 then (True, False, cs)
          else let i = index_byte cs (CHR '']'') in
            if i = -1 then (True, False, cs)
            else let inner = take (nat i) cs; (ok, rest) = parsenum inner
              in (True, ok \<and> rest = [], drop (nat i + 1) cs))"

text \<open>
  The parts of one directive after its percent sign: the text it prints before the verb,
  whether the operand index was bad, and what follows.
\<close>

definition drop_flags :: "string \<Rightarrow> string" where
  "drop_flags s = dropWhile (\<lambda>c. c \<in> set ''#0+- '') s"

definition dir_width :: "bool \<Rightarrow> string \<Rightarrow> string \<times> bool \<times> string" where
  "dir_width afterIndex s =
     (case s of c # cs \<Rightarrow> if c = CHR ''*'' then (''%!(BADWIDTH)'', False, cs)
        else ([], afterIndex, snd (parsenum s))
      | [] \<Rightarrow> ([], afterIndex, []))"

definition dir_prec :: "bool \<Rightarrow> bool \<Rightarrow> string \<Rightarrow> string \<times> bool \<times> bool \<times> string" where
  "dir_prec bad afterIndex s =
     (case s of c # cs \<Rightarrow>
        if c \<noteq> CHR ''.'' then ([], bad, afterIndex, s)
        else let (br, ok, s') = arg_number cs; bad' = (bad \<or> afterIndex \<or> br) in
          (case s' of d # ds \<Rightarrow> if d = CHR ''*'' then (''%!(BADPREC)'', bad', False, ds)
             else ([], bad', ok, snd (parsenum s'))
           | [] \<Rightarrow> ([], bad', ok, []))
      | [] \<Rightarrow> ([], bad, afterIndex, []))"

definition dir_verb :: "bool \<Rightarrow> string \<Rightarrow> string \<times> string" where
  "dir_verb bad s =
     (if s = [] then (''%!(NOVERB)'', [])
      else let (verb, size) = decode_rune s; rest = drop size s in
        if verb = of_char (CHR ''%'') then (''%'', rest)
        else (''%!'' @ encode_rune verb @ (if bad then ''(BADINDEX)'' else ''(MISSING)''), rest))"

definition directive0 :: "string \<Rightarrow> string \<times> string" where
  "directive0 s0 =
     (let (br1, ok1, s1) = arg_number (drop_flags s0);
          (out1, after1, s2) = dir_width ok1 s1;
          (out2, bad2, after2, s3) = dir_prec br1 after1 s2;
          (br3, ok3, s4) = (if after2 then (False, False, s3) else arg_number s3);
          (out3, s5) = dir_verb (bad2 \<or> br3) s4
      in (out1 @ out2 @ out3, s5))"

lemma parsenum_loop_length: "length (snd (parsenum_loop n b s)) \<le> length s"
proof (induction n b s rule: parsenum_loop.induct)
  case (2 n isnum c cs)
  then show ?case by (auto intro: le_SucI)
qed simp

lemma parsenum_length: "length (snd (parsenum s)) \<le> length s"
  by (simp add: parsenum_def parsenum_loop_length)

lemma arg_number_length: "length (snd (snd (arg_number s))) \<le> length s"
  by (auto simp: arg_number_def Let_def split: list.splits prod.splits)

lemma dir_width_length: "length (snd (snd (dir_width a s))) \<le> length s"
proof (cases s)
  case (Cons c cs)
  then show ?thesis using parsenum_length [of s] by (auto simp: dir_width_def)
qed (simp add: dir_width_def)

lemma dir_prec_length: "length (snd (snd (snd (dir_prec b a s)))) \<le> length s"
proof (cases s)
  case (Cons c cs)
  obtain br ok s' where a: "arg_number cs = (br, ok, s')" by (metis prod.exhaust)
  have "length s' \<le> length cs" using arg_number_length [of cs] a by simp
  moreover have "length (snd (parsenum s')) \<le> length s'"
    by (rule parsenum_length)
  ultimately show ?thesis
    using Cons a by (auto simp: dir_prec_def Let_def split: list.splits)
qed (simp add: dir_prec_def)

lemma dir_verb_length: "length (snd (dir_verb b s)) \<le> length s"
  by (auto simp: dir_verb_def Let_def split: prod.splits)

lemma directive0_length: "length (snd (directive0 s)) \<le> length s"
proof -
  obtain br1 ok1 s1 where 1: "arg_number (drop_flags s) = (br1, ok1, s1)" by (metis prod.exhaust)
  obtain out1 after1 s2 where 2: "dir_width ok1 s1 = (out1, after1, s2)" by (metis prod.exhaust)
  obtain out2 bad2 after2 s3 where 3: "dir_prec br1 after1 s2 = (out2, bad2, after2, s3)"
    by (metis prod.exhaust)
  obtain br3 ok3 s4 where 4: "(if after2 then (False, False, s3) else arg_number s3) = (br3, ok3, s4)"
    by (metis prod.exhaust)
  obtain out3 s5 where 5: "dir_verb (bad2 \<or> br3) s4 = (out3, s5)" by (metis prod.exhaust)
  have "length s5 \<le> length s4" using dir_verb_length [of "bad2 \<or> br3" s4] 5 by simp
  also have "\<dots> \<le> length s3" using arg_number_length [of s3] 4 by (auto split: if_splits)
  also have "\<dots> \<le> length s2" using dir_prec_length [of br1 after1 s2] 3 by simp
  also have "\<dots> \<le> length s1" using dir_width_length [of ok1 s1] 2 by simp
  also have "\<dots> \<le> length (drop_flags s)" using arg_number_length [of "drop_flags s"] 1 by simp
  also have "\<dots> \<le> length s" by (simp add: drop_flags_def length_dropWhile_le)
  finally show ?thesis by (simp add: directive0_def 1 2 3 4 5)
qed

function sprintf0 :: "string \<Rightarrow> string" where
  "sprintf0 [] = []"
| "sprintf0 (c # cs) =
     (if c \<noteq> CHR ''%'' then c # sprintf0 cs
      else fst (directive0 cs) @ sprintf0 (snd (directive0 cs)))"
  by pat_completeness auto
termination
  by (relation "measure length") (auto simp: directive0_length le_imp_less_Suc)

lemma sprintf0_id: "CHR ''%'' \<notin> set f \<Longrightarrow> sprintf0 f = f"
  by (induction f) auto

section \<open>Formats with string operands\<close>

text \<open>
  A directive that is neither \<open>%v\<close> nor \<open>%s\<close> prints Go's complaint about the verb; no
  format of the program has one. Operands left over at the end are printed as \<open>EXTRA\<close>.
\<close>

fun sprintf :: "string \<Rightarrow> string list \<Rightarrow> string" where
  "sprintf f [] = sprintf0 f"
| "sprintf [] (a # as) = ''%!(EXTRA '' @ join (map (\<lambda>x. ''string='' @ x) (a # as)) '', '' @ '')''"
| "sprintf (c # f) (a # as) =
     (if c \<noteq> CHR ''%'' then c # sprintf f (a # as)
      else case f of [] \<Rightarrow> ''%!(NOVERB)''
        | v # f' \<Rightarrow>
            if v = CHR ''v'' \<or> v = CHR ''s'' then a @ sprintf f' as
            else ''%!'' @ [v] @ ''(string='' @ a @ '')'' @ sprintf f' as)"

lemma sprintf_no_operand: "CHR ''%'' \<notin> set f \<Longrightarrow> sprintf f [] = f"
  by (simp add: sprintf0_id)

end
