(* ===== verification/Go_Textproto.thy ===== *)
theory Go_Textproto
  imports Go_Fmt
begin

text \<open>
  The reader of \<open>net/textproto\<close> on the bytes that come from Tor: reading a line, reading
  the body of a dot-encoded block, and looking at the next bytes without consuming them.
  The input is the list of the bytes still to come; its end is the end of the connection.
\<close>

section \<open>Reading a line\<close>

text \<open>
  \<open>ReadLine\<close> drops the line's \<open>\n\<close> and a \<open>\r\<close> before it. A last line with no end is
  returned as it is; with nothing left the error is \<open>io.EOF\<close>.
\<close>

definition strip_cr :: "string \<Rightarrow> string" where
  "strip_cr l = (if l \<noteq> [] \<and> last l = CHR 13 then butlast l else l)"

definition read_line :: "string \<Rightarrow> string result \<times> string" where
  "read_line inp =
     (if inp = [] then (Inl EOF, [])
      else let i = index_byte inp (CHR 10) in
        if i = -1 then (Inr inp, [])
        else (Inr (strip_cr (take (nat i) inp)), drop (nat i + 1) inp))"

lemma read_line_consumes: "read_line inp = (Inr l, rest) \<Longrightarrow> length rest < length inp"
  by (auto simp: read_line_def Let_def split: if_splits)

lemma read_line_crlf:
  "CHR 10 \<notin> set l \<Longrightarrow> read_line (l @ CRLF @ rest) = (Inr l, rest)"
proof -
  assume l: "CHR 10 \<notin> set l"
  have "index_byte (l @ CRLF @ rest) (CHR 10) = int (length l + 1)"
    using index_byte_append [of "CHR 10" "l @ [CHR 13]" rest] l by (simp add: CRLF_def)
  then show ?thesis
    by (simp add: read_line_def Let_def CRLF_def strip_cr_def butlast_append nat_add_distrib)
qed

section \<open>Reading a dot-encoded body\<close>

text \<open>
  \<open>ReadDotBytes\<close> is a state machine over single bytes: it drops the dot that starts a
  line, turns \<open>\r\n\<close> into \<open>\n\<close>, and stops after a line that is a dot alone. In the two
  states that hold back a \<open>\r\<close>, any other byte is put back and the \<open>\r\<close> is delivered, so
  one byte of input can take two steps.
\<close>

definition emit :: "string \<Rightarrow> string result \<times> string \<Rightarrow> string result \<times> string" where
  "emit s r = (case r of (Inl e, rest) \<Rightarrow> (Inl e, rest) | (Inr b, rest) \<Rightarrow> (Inr (s @ b), rest))"

datatype dot_state = BeginLine | Dot | DotCR | AfterCR | InData

fun read_dot :: "dot_state \<Rightarrow> string \<Rightarrow> string result \<times> string" where
  "read_dot st [] = (Inl UnexpectedEOF, [])"
| "read_dot BeginLine (c # cs) =
     (if c = CHR ''.'' then read_dot Dot cs
      else if c = CHR 13 then read_dot AfterCR cs
      else emit [c] (read_dot InData cs))"
| "read_dot Dot (c # cs) =
     (if c = CHR 13 then read_dot DotCR cs
      else if c = CHR 10 then (Inr [], cs)
      else emit [c] (read_dot InData cs))"
| "read_dot DotCR (c # cs) =
     (if c = CHR 10 then (Inr [], cs)
      else if c = CHR 13 then emit [CHR 13] (read_dot AfterCR cs)
      else emit [CHR 13, c] (read_dot InData cs))"
| "read_dot AfterCR (c # cs) =
     (if c = CHR 10 then emit [c] (read_dot BeginLine cs)
      else if c = CHR 13 then emit [CHR 13] (read_dot AfterCR cs)
      else emit [CHR 13, c] (read_dot InData cs))"
| "read_dot InData (c # cs) =
     (if c = CHR 13 then read_dot AfterCR cs
      else if c = CHR 10 then emit [c] (read_dot BeginLine cs)
      else emit [c] (read_dot InData cs))"

definition read_dot_bytes :: "string \<Rightarrow> string result \<times> string" where
  "read_dot_bytes inp = read_dot BeginLine inp"

lemma emit_emit [simp]: "emit s (emit t r) = emit (s @ t) r"
  by (auto simp: emit_def split: prod.splits sum.splits)

lemma emit_Nil [simp]: "emit [] r = r"
  by (auto simp: emit_def split: prod.splits sum.splits)

lemma emit_Inr [simp]: "emit s (Inr b, rest) = (Inr (s @ b), rest)"
  by (simp add: emit_def)

lemma snd_emit [simp]: "snd (emit s r) = snd r"
  by (auto simp: emit_def split: prod.splits sum.splits)

lemma read_dot_length: "length (snd (read_dot st inp)) \<le> length inp"
  by (induction st inp rule: read_dot.induct) (auto simp: le_SucI)

lemma read_dot_bytes_length: "length (snd (read_dot_bytes inp)) \<le> length inp"
  by (simp add: read_dot_bytes_def read_dot_length)

section \<open>What a sender of a dot-encoded body writes\<close>

text \<open>
  The reference encoder: every line with a leading dot doubled and ended by \<open>\r\n\<close>, then
  the line that is a dot alone.
\<close>

definition dot_stuff :: "string \<Rightarrow> string" where
  "dot_stuff l = (case l of c # _ \<Rightarrow> if c = CHR ''.'' then CHR ''.'' # l else l | [] \<Rightarrow> l)"

definition dot_encode :: "string list \<Rightarrow> string" where
  "dot_encode ls = concat (map (\<lambda>l. dot_stuff l @ CRLF) ls) @ ''.'' @ CRLF"

definition plain_line :: "string \<Rightarrow> bool" where
  "plain_line l \<longleftrightarrow> CHR 10 \<notin> set l \<and> CHR 13 \<notin> set l"

definition unlines :: "string list \<Rightarrow> string" where
  "unlines ls = concat (map (\<lambda>l. l @ [CHR 10]) ls)"

lemma read_dot_in_data:
  "plain_line l \<Longrightarrow> read_dot InData (l @ CRLF @ rest) =
     emit (l @ [CHR 10]) (read_dot BeginLine rest)"
proof (induction l)
  case Nil
  then show ?case by (simp add: CRLF_def)
next
  case (Cons c l)
  then have "read_dot InData (l @ CRLF @ rest) =
      emit (l @ [CHR 10]) (read_dot BeginLine rest)"
    by (simp add: plain_line_def)
  with Cons.prems show ?case by (auto simp: plain_line_def)
qed

lemma read_dot_line:
  assumes "plain_line l"
  shows "read_dot BeginLine (dot_stuff l @ CRLF @ rest) =
     emit (l @ [CHR 10]) (read_dot BeginLine rest)"
proof (cases l)
  case Nil
  then show ?thesis by (simp add: dot_stuff_def CRLF_def)
next
  case (Cons c l')
  with assms have c: "c \<noteq> CHR 10" "c \<noteq> CHR 13" and l': "plain_line l'"
    by (auto simp: plain_line_def)
  show ?thesis
    using c Cons read_dot_in_data [OF l', of rest]
    by (auto simp: dot_stuff_def)
qed

lemma read_dot_encode:
  "\<forall>l\<in>set ls. plain_line l \<Longrightarrow> read_dot_bytes (dot_encode ls @ rest) = (Inr (unlines ls), rest)"
proof (induction ls)
  case Nil
  then show ?case by (simp add: read_dot_bytes_def dot_encode_def unlines_def CRLF_def)
next
  case (Cons l ls)
  then show ?case
    using read_dot_line [of l "dot_encode ls @ rest"]
    by (simp add: read_dot_bytes_def dot_encode_def unlines_def)
qed

section \<open>Looking ahead\<close>

text \<open>\<open>Peek(3)\<close>: the next three bytes, or \<open>io.EOF\<close> when fewer are left.\<close>

definition peek3 :: "string \<Rightarrow> string result" where
  "peek3 inp = (if length inp < 3 then Inl EOF else Inr (take 3 inp))"

section \<open>Lines and bodies are frames\<close>

interpretation line: framing "\<lambda>l. l @ CRLF" read_line id "\<lambda>l. CHR 10 \<notin> set l"
  by unfold_locales (simp add: read_line_crlf)

interpretation body: framing dot_encode read_dot_bytes unlines "\<lambda>ls. \<forall>l\<in>set ls. plain_line l"
  by unfold_locales (rule read_dot_encode)

end
