(* ===== verification/Status.thy ===== *)
theory Status
  imports Go_Textproto
begin

text \<open>\<open>control/status.go\<close>: the status codes of the control protocol and their messages.\<close>

record tp_error =
  Code :: int
  Msg :: string

definition StatusOk :: int where "StatusOk = 250"
definition StatusOkUnnecessary :: int where "StatusOkUnnecessary = 251"
definition StatusAsyncEvent :: int where "StatusAsyncEvent = 650"

definition statusCodeStringMap :: "int \<rightharpoonup> string" where
  "statusCodeStringMap = map_of [
     (250, ''OK''),
     (251, ''Operation was unnecessary''),
     (451, ''Resource exhausted''),
     (500, ''Syntax error: protocol''),
     (510, ''Unrecognized command''),
     (511, ''Unimplemented command''),
     (512, ''Syntax error in command argument''),
     (513, ''Unrecognized command argument''),
     (514, ''Authentication required''),
     (515, ''Bad authentication''),
     (550, ''Unspecified Tor error''),
     (551, ''Internal error''),
     (552, ''Unrecognized entity''),
     (553, ''Invalid configuration value''),
     (554, ''Invalid descriptor''),
     (555, ''Unmanaged entity''),
     (650, ''Asynchronous event notification'')]"

text \<open>The verb \<open>%03d\<close>: at least three characters, padded with zeros after the sign.\<close>

definition fmt_03d :: "int \<Rightarrow> string" where
  "fmt_03d i =
     (let ds = nat_digits (nat \<bar>i\<bar>); sign = (if i < 0 then ''-'' else []) in
      sign @ replicate (3 - length sign - length ds) (CHR ''0'') @ ds)"

definition statusCodeToError :: "int \<Rightarrow> string \<Rightarrow> tp_error" where
  "statusCodeToError code reply =
     (case statusCodeStringMap code of
        Some msg \<Rightarrow>
          let trimmedReply = trim_space (trim_prefix reply msg)
          in \<lparr>Code = code, Msg = msg @ '': '' @ trimmedReply\<rparr>
      | None \<Rightarrow> \<lparr>Code = code, Msg = ''Unknown status code ('' @ fmt_03d code @ ''): '' @ reply\<rparr>)"

lemma statusCodeToError_Code [simp]: "Code (statusCodeToError code reply) = code"
  by (simp add: statusCodeToError_def Let_def split: option.split)

end
