(* ===== verification/Response.thy ===== *)
theory Response
  imports Status
begin

text \<open>
  \<open>control/response.go\<close>: a response of the control port and the reader that assembles it
  from lines. The reader is proved to invert the protocol's rendering of a reply.
\<close>

section \<open>The response\<close>

record response =
  Err :: tp_error
  Reply :: string
  Data :: "string list"
  RawLines :: "string list"

definition IsOk :: "response \<Rightarrow> bool" where
  "IsOk r \<longleftrightarrow> Code (Err r) \<in> {StatusOk, StatusOkUnnecessary, StatusAsyncEvent}"

definition DataWithReply :: "response \<Rightarrow> string list" where
  "DataWithReply r = Data r @ [Reply r]"

definition IsAsync :: "response \<Rightarrow> bool" where
  "IsAsync r \<longleftrightarrow> Code (Err r) = StatusAsyncEvent"

section \<open>Reading a response\<close>

text \<open>
  The loop of \<open>ReadResponse\<close>. Its first argument is \<open>None\<close> while the local \<open>resp\<close> is nil,
  afterwards the status code of the first line and the data and raw lines collected. The
  result comes with the bytes left and the lines written to the debug log.
\<close>

type_synonym partial = "int \<times> string list \<times> string list"

text \<open>What one line after a successful \<open>ReadLine\<close> does to the partial response.\<close>

definition accept_line :: "partial option \<Rightarrow> string \<Rightarrow> partial result" where
  "accept_line acc line =
     (if length line < 4 then Inl (ProtocolError (''Truncated response: '' @ line))
      else let (code, err) = Atoi (take 3 line) in
        if err \<noteq> None \<or> code < 100
        then Inl (ProtocolError (''Invalid status code: '' @ take 3 line))
        else case acc of
            None \<Rightarrow> Inr (code, [], [line])
          | Some (statusCode, dat, raw) \<Rightarrow>
              if code \<noteq> statusCode
              then Inl (ProtocolError
                (''Status code changed: '' @ itoa code @ '' != '' @ itoa statusCode))
              else Inr (statusCode, dat, raw @ [line]))"

definition trim_body :: "string \<Rightarrow> string" where
  "trim_body dotBody = trim_right dotBody [CHR 10, CHR 13]"

text \<open>One pass through the loop body: it returns, or goes round with the response so far.\<close>

datatype step = Return "response result" | Again partial

definition response_step :: "partial option \<Rightarrow> string \<Rightarrow> step \<times> string \<times> string list" where
  "response_step acc inp =
     (case read_line inp of
        (Inl err, rest) \<Rightarrow> (Return (Inl err), rest, [])
      | (Inr line, rest) \<Rightarrow>
          let log = [''Read line: '' @ line] in
          (case accept_line acc line of
             Inl err \<Rightarrow> (Return (Inl err), rest, log)
           | Inr (statusCode, dat, raw) \<Rightarrow>
               let sep = line ! 3; text = drop 4 line in
               if sep = CHR '' '' then
                 (Return (Inr \<lparr>Err = statusCodeToError statusCode text, Reply = text,
                    Data = dat, RawLines = raw\<rparr>), rest, log)
               else if sep = CHR ''-'' then
                 (Again (statusCode, dat @ [text], raw), rest, log)
               else if sep = CHR ''+'' then
                 (case read_dot_bytes rest of
                    (Inl err, rest') \<Rightarrow> (Return (Inl err), rest', log)
                  | (Inr dotBody, rest') \<Rightarrow>
                      let dotBodyStr = trim_body dotBody;
                          dotLines = split_byte dotBodyStr (CHR 10)
                      in (Again (statusCode, dat @ [text @ CRLF @ dotBodyStr],
                            raw @ butlast dotLines @ [''.'']), rest', log))
               else
                 (Return (Inl (ProtocolError
                    (''Invalid separator: '' @ [CHR 39] @ itoa (of_char sep) @ [CHR 39]))),
                  rest, log)))"

lemma read_line_suffix: "read_line inp = (Inr line, rest) \<Longrightarrow> strict_suffix rest inp"
proof -
  assume rl: "read_line inp = (Inr line, rest)"
  then have "suffix rest inp" by (auto simp: read_line_def Let_def suffix_drop split: if_splits)
  moreover have "rest \<noteq> inp" using read_line_consumes [OF rl] by auto
  ultimately show ?thesis by (simp add: strict_suffix_def)
qed

lemma read_dot_suffix: "suffix (snd (read_dot st inp)) inp"
  by (induction st inp rule: read_dot.induct) (auto intro: suffix_ConsI)

lemma response_step_suffix:
  assumes "response_step acc inp = (st, rest, log)" "st \<noteq> Return (Inl EOF)"
  shows "strict_suffix rest inp"
proof -
  have dot: "suffix rest' r" if "read_dot_bytes r = (res, rest')" for r res rest'
    using read_dot_suffix [of BeginLine r] that by (simp add: read_dot_bytes_def)
  have eof: "e = EOF" if "read_line inp = (Inl e, r)" for e r
    using that by (auto simp: read_line_def Let_def split: if_splits)
  show ?thesis
    using assms unfolding response_step_def
    by (auto simp: Let_def split: prod.splits sum.splits if_splits
        dest: read_line_suffix dot eof suffix_order.le_less_trans)
qed

lemma response_step_suffix_any: "suffix (fst (snd (response_step acc inp))) inp"
proof -
  obtain res rest where l: "read_line inp = (res, rest)" by (metis prod.exhaust)
  then have s: "suffix rest inp" by (auto simp: read_line_def Let_def suffix_drop split: if_splits)
  have d: "suffix (snd (read_dot_bytes rest)) inp"
    using read_dot_suffix [of BeginLine rest] s suffix_order.trans by (fastforce simp: read_dot_bytes_def)
  obtain dres drest where dr: "read_dot_bytes rest = (dres, drest)" by (metis prod.exhaust)
  with d have "suffix drest inp" by simp
  then show ?thesis
    using l s dr by (auto simp: response_step_def Let_def split: sum.splits prod.splits)
qed

lemma response_step_shorter:
  "response_step acc inp = (Again p, rest, log) \<Longrightarrow> length rest < length inp"
  using response_step_suffix by (blast dest: suffix_length_less)

function read_response_loop ::
    "partial option \<Rightarrow> string \<Rightarrow> response result \<times> string \<times> string list" where
  "read_response_loop acc inp =
     (case response_step acc inp of
        (Return res, rest, log) \<Rightarrow> (res, rest, log)
      | (Again p, rest, log) \<Rightarrow>
          (case read_response_loop (Some p) rest of (res, rest', log') \<Rightarrow> (res, rest', log @ log')))"
  by pat_completeness auto
termination
  by (relation "measure (length \<circ> snd)") (auto dest: response_step_shorter [OF sym])

declare read_response_loop.simps [simp del]

section \<open>What the protocol says a reply looks like\<close>

text \<open>
  A reply is a code, its middle lines (with or without a dot-encoded body) and the text of
  its last line. \<open>render_reply\<close> writes it as the control protocol does.
\<close>

datatype reply_part = Mid string | Body string "string list"

record reply =
  code :: int
  parts :: "reply_part list"
  final :: string

fun render_part :: "int \<Rightarrow> reply_part \<Rightarrow> string" where
  "render_part c (Mid t) = itoa c @ ''-'' @ t @ CRLF"
| "render_part c (Body t ls) = itoa c @ ''+'' @ t @ CRLF @ dot_encode ls"

definition render_reply :: "reply \<Rightarrow> string" where
  "render_reply r = concat (map (render_part (code r)) (parts r)) @ itoa (code r) @ '' '' @ final r @ CRLF"

fun part_ok :: "reply_part \<Rightarrow> bool" where
  "part_ok (Mid t) = plain_line t"
| "part_ok (Body t ls) = (plain_line t \<and> (\<forall>l\<in>set ls. plain_line l))"

definition reply_ok :: "reply \<Rightarrow> bool" where
  "reply_ok r \<longleftrightarrow> 100 \<le> code r \<and> code r \<le> 999 \<and> plain_line (final r) \<and> (\<forall>p\<in>set (parts r). part_ok p)"

text \<open>
  What a response holds of each part: its data entry and its raw lines. A body is decoded: its
  lines, without the blank ones at the end, are separated by line feeds. The raw lines lack
  the last of these lines, which \<open>raw_lines_miss_last_body_line\<close> is about.
\<close>

definition body_lines :: "string list \<Rightarrow> string list" where
  "body_lines ls = rev (dropWhile ((=) []) (rev ls))"

fun part_data :: "reply_part \<Rightarrow> string" where
  "part_data (Mid t) = t"
| "part_data (Body t ls) = t @ CRLF @ join (body_lines ls) [CHR 10]"

fun part_raw :: "int \<Rightarrow> reply_part \<Rightarrow> string list" where
  "part_raw c (Mid t) = [itoa c @ ''-'' @ t]"
| "part_raw c (Body t ls) = (itoa c @ ''+'' @ t) # butlast (body_lines ls) @ [''.'']"

definition view_reply :: "reply \<Rightarrow> response" where
  "view_reply r =
     \<lparr>Err = statusCodeToError (code r) (final r), Reply = final r,
      Data = map part_data (parts r),
      RawLines = concat (map (part_raw (code r)) (parts r)) @ [itoa (code r) @ '' '' @ final r]\<rparr>"

section \<open>The reader inverts the rendering\<close>

lemma length_nat_digits_3:
  assumes "100 \<le> n" "n < 1000" shows "length (nat_digits n) = 3"
proof -
  have "\<not> n < 10" "\<not> n div 10 < 10" "n div 10 div 10 < 10" using assms by auto
  then show ?thesis
    by (simp add: nat_digits.simps [of n] nat_digits.simps [of "n div 10"]
        nat_digits.simps [of "n div 10 div 10"] del: One_nat_def)
qed

lemma itoa_code_3: "100 \<le> c \<Longrightarrow> c \<le> 999 \<Longrightarrow> length (itoa c) = 3"
  by (simp add: itoa_def length_nat_digits_3)

lemma itoa_plain: "plain_line (itoa c)"
  using nat_digits_is_digit by (fastforce simp: plain_line_def itoa_def is_digit_def)

lemma plain_line_append [simp]: "plain_line (a @ b) \<longleftrightarrow> plain_line a \<and> plain_line b"
  by (auto simp: plain_line_def)

lemma accept_line_coded:
  assumes "100 \<le> c" "c \<le> 999"
  shows "accept_line None (itoa c @ s # t) = Inr (c, [], [itoa c @ s # t])"
    and "accept_line (Some (c, d, r)) (itoa c @ s # t) = Inr (c, d, r @ [itoa c @ s # t])"
    and "c' \<noteq> c \<Longrightarrow> accept_line (Some (c', d, r)) (itoa c @ s # t) =
           Inl (ProtocolError (''Status code changed: '' @ itoa c @ '' != '' @ itoa c'))"
  using assms by (simp_all add: accept_line_def itoa_code_3 Atoi_itoa)

lemma trim_right_snoc_out: "c \<notin> set cutset \<Longrightarrow> trim_right (s @ [c]) cutset = s @ [c]"
  by (simp add: trim_right_def)

lemma trim_right_snoc_in: "c \<in> set cutset \<Longrightarrow> trim_right (s @ [c]) cutset = trim_right s cutset"
  by (simp add: trim_right_def)

lemma unlines_join: "ls \<noteq> [] \<Longrightarrow> unlines ls = join ls [CHR 10] @ [CHR 10]"
  by (induction ls "[CHR 10]" rule: join.induct) (auto simp: unlines_def)

lemma last_join: "ls \<noteq> [] \<Longrightarrow> last ls \<noteq> [] \<Longrightarrow> join ls sep \<noteq> [] \<and> last (join ls sep) = last (last ls)"
  by (induction ls sep rule: join.induct) auto

lemma trim_body_unlines:
  assumes "ls \<noteq> []" "last ls \<noteq> []" "\<forall>l\<in>set ls. plain_line l"
  shows "trim_body (unlines ls) = join ls [CHR 10]"
proof -
  let ?j = "join ls [CHR 10]"
  have j: "?j \<noteq> []" "last ?j = last (last ls)" using last_join [of ls "[CHR 10]"] assms by auto
  have "last (last ls) \<in> set (last ls)" using assms(2) by simp
  then have "last ?j \<notin> set [CHR 10, CHR 13]"
    using assms j(2) by (metis empty_iff empty_set insert_iff last_in_set list.simps(15) plain_line_def)
  then have "trim_right (butlast ?j @ [last ?j]) [CHR 10, CHR 13] = butlast ?j @ [last ?j]"
    by (rule trim_right_snoc_out)
  then show ?thesis
    using j(1) assms(1) by (simp add: trim_body_def unlines_join trim_right_snoc_in)
qed

text \<open>Without the blank lines at its end, a body ends in a line that is not blank.\<close>

lemma body_lines_append:
  obtains n where "ls = body_lines ls @ replicate n []" "body_lines ls = [] \<or> last (body_lines ls) \<noteq> []"
proof -
  have t: "takeWhile ((=) []) (rev ls) = replicate (length (takeWhile ((=) []) (rev ls))) []"
    by (rule replicate_eqI) (auto dest: set_takeWhileD)
  have "rev ls = takeWhile ((=) []) (rev ls) @ dropWhile ((=) []) (rev ls)" by simp
  then have "ls = body_lines ls @ rev (takeWhile ((=) []) (rev ls))"
    unfolding body_lines_def by (metis rev_append rev_rev_ident)
  moreover have "rev (takeWhile ((=) []) (rev ls)) = replicate (length (takeWhile ((=) []) (rev ls))) []"
    by (subst t) simp
  moreover have "body_lines ls = [] \<or> last (body_lines ls) \<noteq> []"
    using hd_dropWhile [of "(=) []" "rev ls"] unfolding body_lines_def rev_is_Nil_conv
    by (metis last_rev rev_is_Nil_conv)
  ultimately show thesis using that by metis
qed

lemma body_lines_full: "ls \<noteq> [] \<Longrightarrow> last ls \<noteq> [] \<Longrightarrow> body_lines ls = ls"
  by (cases ls rule: rev_cases) (simp_all add: body_lines_def)

lemma trim_body_blanks: "trim_body (s @ replicate n (CHR 10)) = trim_body s"
proof (induction n)
  case (Suc n)
  have "s @ replicate (Suc n) (CHR 10) = (s @ replicate n (CHR 10)) @ [CHR 10]"
    by (simp add: replicate_append_same)
  then show ?case using Suc by (simp only: trim_body_def trim_right_snoc_in list.set_intros)
qed simp

lemma unlines_append: "unlines (a @ b) = unlines a @ unlines b"
  by (simp add: unlines_def)

lemma trim_body_lines:
  assumes "\<forall>l\<in>set ls. plain_line l"
  shows "trim_body (unlines ls) = join (body_lines ls) [CHR 10]"
proof -
  obtain n where n: "ls = body_lines ls @ replicate n []" "body_lines ls = [] \<or> last (body_lines ls) \<noteq> []"
    by (rule body_lines_append)
  have u: "unlines (replicate n []) = replicate n (CHR 10)" by (induction n) (simp_all add: unlines_def)
  have "trim_body (unlines ls) = trim_body (unlines (body_lines ls))"
    by (subst n(1)) (simp add: unlines_append u trim_body_blanks)
  moreover have "\<forall>l\<in>set (body_lines ls). plain_line l" using assms n(1) by (metis UnI1 set_append)
  ultimately show ?thesis
    using trim_body_unlines [of "body_lines ls"] n(2)
    by (cases "body_lines ls = []") (simp_all add: unlines_def trim_body_def trim_right_def)
qed

lemma split_body_lines:
  assumes "\<forall>l\<in>set ls. plain_line l"
  shows "butlast (split_byte (join (body_lines ls) [CHR 10]) (CHR 10)) = butlast (body_lines ls)"
proof -
  obtain n where n: "ls = body_lines ls @ replicate n []" by (rule body_lines_append)
  have "\<forall>l\<in>set (body_lines ls). CHR 10 \<notin> set l"
    using assms n by (metis UnI1 plain_line_def set_append)
  then show ?thesis using split_byte_join [of "body_lines ls" "CHR 10"] by (cases "body_lines ls = []") simp_all
qed

text \<open>The partial response after the parts read so far.\<close>

definition collected :: "int \<Rightarrow> reply_part list \<Rightarrow> partial option" where
  "collected c ps = (if ps = [] then None
     else Some (c, map part_data ps, concat (map (part_raw c) ps)))"

lemma accept_line_collected:
  assumes "100 \<le> c" "c \<le> 999"
  shows "accept_line (collected c ps) (itoa c @ s # t) =
    Inr (c, map part_data ps, concat (map (part_raw c) ps) @ [itoa c @ s # t])"
  using assms by (simp add: collected_def accept_line_coded)

definition read_log :: "string \<Rightarrow> string list" where
  "read_log line = [''Read line: '' @ line]"

fun part_log :: "int \<Rightarrow> reply_part \<Rightarrow> string list" where
  "part_log c (Mid t) = read_log (itoa c @ ''-'' @ t)"
| "part_log c (Body t ls) = read_log (itoa c @ ''+'' @ t)"

lemma read_response_final:
  assumes "100 \<le> c" "c \<le> 999" "plain_line t"
  shows "read_response_loop (collected c ps) (itoa c @ '' '' @ t @ CRLF @ rest) =
    (Inr (view_reply \<lparr>code = c, parts = ps, final = t\<rparr>), rest, read_log (itoa c @ '' '' @ t))"
proof -
  have l: "read_line ((itoa c @ '' '' @ t) @ CRLF @ rest) = (Inr (itoa c @ '' '' @ t), rest)"
    using assms(3) itoa_plain [of c] by (intro read_line_crlf) (auto simp: plain_line_def)
  have n: "(itoa c @ '' '' @ t) ! 3 = CHR '' ''" "drop 4 (itoa c @ '' '' @ t) = t"
    using assms by (simp_all add: nth_append itoa_code_3)
  show ?thesis
    using l n accept_line_collected [OF assms(1,2), of ps "CHR '' ''" t]
    by (simp add: read_response_loop.simps [of _ "_ @ _"] response_step_def view_reply_def read_log_def)
qed

lemma read_response_mid:
  assumes "100 \<le> c" "c \<le> 999" "plain_line t"
  shows "read_response_loop (collected c ps) (render_part c (Mid t) @ rest) =
    (case read_response_loop (collected c (ps @ [Mid t])) rest of
       (res, rest', log) \<Rightarrow> (res, rest', part_log c (Mid t) @ log))"
proof -
  have l: "read_line ((itoa c @ ''-'' @ t) @ CRLF @ rest) = (Inr (itoa c @ ''-'' @ t), rest)"
    using assms(3) itoa_plain [of c] by (intro read_line_crlf) (auto simp: plain_line_def)
  have n: "(itoa c @ ''-'' @ t) ! 3 = CHR ''-''" "drop 4 (itoa c @ ''-'' @ t) = t"
    using assms by (simp_all add: nth_append itoa_code_3)
  show ?thesis
    using l n accept_line_collected [OF assms(1,2), of ps "CHR ''-''" t]
    by (simp add: read_response_loop.simps [of _ "itoa c @ _"] response_step_def collected_def read_log_def)
qed

lemma read_response_body:
  assumes "100 \<le> c" "c \<le> 999" "plain_line t" "\<forall>l\<in>set ls. plain_line l"
  shows "read_response_loop (collected c ps) (render_part c (Body t ls) @ rest) =
    (case read_response_loop (collected c (ps @ [Body t ls])) rest of
       (res, rest', log) \<Rightarrow> (res, rest', part_log c (Body t ls) @ log))"
proof -
  have l: "read_line ((itoa c @ ''+'' @ t) @ CRLF @ dot_encode ls @ rest) =
      (Inr (itoa c @ ''+'' @ t), dot_encode ls @ rest)"
    using assms(3) itoa_plain [of c] by (intro read_line_crlf) (auto simp: plain_line_def)
  have n: "(itoa c @ ''+'' @ t) ! 3 = CHR ''+''" "drop 4 (itoa c @ ''+'' @ t) = t"
    using assms by (simp_all add: nth_append itoa_code_3)
  show ?thesis
    using l n accept_line_collected [OF assms(1,2), of ps "CHR ''+''" t]
      read_dot_encode [OF assms(4), of rest] trim_body_lines [OF assms(4)] split_body_lines [OF assms(4)]
    by (simp add: read_response_loop.simps [of _ "itoa c @ _"] response_step_def collected_def read_log_def Let_def)
qed

lemma read_response_parts:
  assumes "100 \<le> c" "c \<le> 999" "\<forall>p\<in>set qs. part_ok p"
  shows "read_response_loop (collected c ps) (concat (map (render_part c) qs) @ rest) =
    (case read_response_loop (collected c (ps @ qs)) rest of
       (res, rest', log) \<Rightarrow> (res, rest', concat (map (part_log c) qs) @ log))"
  using assms(3)
proof (induction qs arbitrary: ps)
  case Nil
  then show ?case by (simp split: prod.split)
next
  case (Cons q qs)
  let ?rest = "concat (map (render_part c) qs) @ rest"
  have step: "read_response_loop (collected c ps) (render_part c q @ ?rest) =
      (case read_response_loop (collected c (ps @ [q])) ?rest of
         (res, rest', log) \<Rightarrow> (res, rest', part_log c q @ log))"
  proof (cases q)
    case (Mid t)
    show ?thesis unfolding Mid
      by (rule read_response_mid) (use assms(1,2) Cons.prems Mid in auto)
  next
    case (Body t ls)
    show ?thesis unfolding Body
      by (rule read_response_body) (use assms(1,2) Cons.prems Body in auto)
  qed
  show ?case using step Cons by (simp split: prod.splits)
qed

definition reply_log :: "reply \<Rightarrow> string list" where
  "reply_log r = concat (map (part_log (code r)) (parts r)) @ read_log (itoa (code r) @ '' '' @ final r)"

lemma read_response_render:
  assumes "reply_ok r"
  shows "read_response_loop None (render_reply r @ rest) = (Inr (view_reply r), rest, reply_log r)"
proof -
  have "read_response_loop (collected (code r) []) (render_reply r @ rest) =
      (Inr (view_reply r), rest, reply_log r)"
    using assms read_response_parts [of "code r" "parts r" "[]" "itoa (code r) @ '' '' @ final r @ CRLF @ rest"]
      read_response_final [of "code r" "final r" "parts r" rest]
    by (simp add: reply_ok_def render_reply_def reply_log_def view_reply_def)
  then show ?thesis by (simp add: collected_def)
qed

interpretation reply: framing render_reply "\<lambda>i. (fst (read_response_loop None i), fst (snd (read_response_loop None i)))"
    view_reply reply_ok
  by unfold_locales (simp add: read_response_render)

section \<open>What every response satisfies\<close>

lemma digit_val_le: "is_digit c \<Longrightarrow> digit_val c \<le> 9"
  unfolding is_digit_def digit_val_def by linarith

lemma parse_uint_loop_less: "fst (parse_uint_loop n s) < (n + 1) * 10 ^ length s"
proof (induction n s rule: parse_uint_loop.induct)
  case (2 n c cs)
  let ?n1 = "n * 10 + digit_val c"
  have pos: "1 \<le> (10 :: nat) ^ length cs" by simp
  have IH: "fst (parse_uint_loop ?n1 cs) < (?n1 + 1) * 10 ^ length cs"
    if "is_digit c" "\<not> max_uint64 div 10 + 1 \<le> n" "\<not> max_uint64 < ?n1"
    using 2 that by simp
  have d: "is_digit c \<Longrightarrow> ?n1 + 1 \<le> (n + 1) * 10" using digit_val_le [of c] by simp
  then have "is_digit c \<Longrightarrow> (?n1 + 1) * 10 ^ length cs \<le> (n + 1) * 10 ^ length (c # cs)"
    using mult_le_mono1 [of "?n1 + 1" "(n + 1) * 10" "10 ^ length cs"] by (simp add: algebra_simps)
  moreover have "(n + 1) * 10 \<le> (n + 1) * 10 ^ length (c # cs)"
    using mult_le_mono2 [OF pos, of "(n + 1) * 10"] by (simp add: algebra_simps)
  moreover have "max_uint64 div 10 + 1 \<le> n \<Longrightarrow> max_uint64 < (n + 1) * 10" by presburger
  moreover have "is_digit c \<Longrightarrow> ?n1 < (n + 1) * 10" using digit_val_le [of c] by simp
  ultimately show ?case using IH pos
    by (auto simp: Let_def intro: less_le_trans)
qed simp

lemma Atoi_3_digits: "length s \<le> 3 \<Longrightarrow> fst (Atoi s) < 1000"
proof -
  assume len: "length s \<le> 3"
  have "fst (parse_uint t) < 1000" if "length t \<le> 3" for t
  proof -
    have "(10 :: nat) ^ length t \<le> 10 ^ 3" using that by (intro power_increasing) auto
    then show ?thesis using parse_uint_loop_less [of 0 t] by (simp add: parse_uint_def)
  qed
  from this [of s] this [of "tl s"] len show ?thesis
    by (auto simp: Atoi_def parse_int_def Let_def split: prod.splits list.splits)
qed

lemma accept_line_code:
  "accept_line acc line = Inr (c, d, r) \<Longrightarrow>
     (\<forall>c' d' r'. acc = Some (c', d', r') \<longrightarrow> 100 \<le> c' \<and> c' \<le> 999) \<Longrightarrow>
     100 \<le> c \<and> c \<le> 999 \<and> r \<noteq> [] \<and> last r = line"
  using Atoi_3_digits [of "take 3 line"]
  by (auto simp: accept_line_def Let_def split: if_splits prod.splits option.splits)

definition partial_ok :: "partial option \<Rightarrow> bool" where
  "partial_ok acc \<longleftrightarrow> (case acc of None \<Rightarrow> True | Some (c, d, raw) \<Rightarrow> 100 \<le> c \<and> c \<le> 999)"

lemma response_step_again:
  "response_step acc inp = (Again p, rest, log) \<Longrightarrow> partial_ok acc \<Longrightarrow> partial_ok (Some p)"
  by (auto simp: response_step_def Let_def partial_ok_def split: prod.splits sum.splits if_splits option.splits
      dest!: accept_line_code)

lemma response_step_return:
  "response_step acc inp = (Return (Inr r), rest, log) \<Longrightarrow> partial_ok acc \<Longrightarrow>
     100 \<le> Code (Err r) \<and> Code (Err r) \<le> 999 \<and> RawLines r \<noteq> [] \<and>
     drop 4 (last (RawLines r)) = Reply r \<and> Err r = statusCodeToError (Code (Err r)) (Reply r)"
  by (auto simp: response_step_def Let_def partial_ok_def split: prod.splits sum.splits if_splits option.splits
      dest!: accept_line_code)

lemma read_response_inv:
  "read_response_loop acc inp = (Inr r, rest, log) \<Longrightarrow> partial_ok acc \<Longrightarrow>
     100 \<le> Code (Err r) \<and> Code (Err r) \<le> 999 \<and> strict_suffix rest inp \<and> RawLines r \<noteq> [] \<and>
     drop 4 (last (RawLines r)) = Reply r \<and> Err r = statusCodeToError (Code (Err r)) (Reply r)"
proof (induction acc inp arbitrary: r rest log rule: read_response_loop.induct)
  case (1 acc inp)
  obtain st rest1 log1 where st: "response_step acc inp = (st, rest1, log1)" by (metis prod.exhaust)
  show ?case
  proof (cases st)
    case (Return res)
    with 1 st show ?thesis
      using response_step_return [of acc inp r rest log] response_step_suffix [OF st]
      by (simp add: read_response_loop.simps [of acc inp])
  next
    case (Again p)
    then obtain log2 where "read_response_loop (Some p) rest1 = (Inr r, rest, log2)"
      using "1.prems"(1) st by (auto simp: read_response_loop.simps [of acc inp] split: prod.splits)
    moreover have "partial_ok (Some p)" using st Again "1.prems"(2) response_step_again by blast
    moreover have "strict_suffix rest1 inp" using response_step_suffix [OF st] Again by simp
    ultimately show ?thesis
      using "1.IH" [OF st [symmetric] Again refl] suffix_order.less_trans by blast
  qed
qed

section \<open>Properties\<close>

text \<open>
  The contents of a reply as \<open>response.go\<close> documents them: the text of each middle line, and with
  dot-encoded data the decoded lines as a single string. The parts are read back if no body is
  empty or ends in a blank line.
\<close>

fun documented_data :: "reply_part \<Rightarrow> string" where
  "documented_data (Mid t) = t"
| "documented_data (Body t ls) = t @ CRLF @ join ls [CHR 10]"

fun part_full :: "reply_part \<Rightarrow> bool" where
  "part_full (Mid t) \<longleftrightarrow> True"
| "part_full (Body t ls) \<longleftrightarrow> ls \<noteq> [] \<and> last ls \<noteq> []"

definition reply_full :: "reply \<Rightarrow> bool" where
  "reply_full r \<longleftrightarrow> reply_ok r \<and> (\<forall>p\<in>set (parts r). part_full p)"

lemma documented_part: "part_full p \<Longrightarrow> part_data p = documented_data p"
  by (cases p) (simp_all add: body_lines_full)

lemma CRLF_separates: "CHR 13 \<notin> set t \<Longrightarrow> CHR 13 \<notin> set t' \<Longrightarrow> t @ CRLF @ x = t' @ CRLF @ x' \<Longrightarrow> t = t' \<and> x = x'"
  by (induction t arbitrary: t') (auto simp: CRLF_def Cons_eq_append_conv)

lemma documented_data_inject:
  assumes "part_ok p" "part_full p" "part_ok q" "part_full q" "documented_data p = documented_data q"
  shows "p = q"
proof (cases p; cases q)
  fix t ls t' ls' assume pq: "p = Body t ls" "q = Body t' ls'"
  have l: "CHR 13 \<notin> set t" "ls \<noteq> []" "\<forall>l\<in>set ls. CHR 10 \<notin> set l"
    using assms(1,2) unfolding pq(1) by (simp_all add: plain_line_def)
  have l': "CHR 13 \<notin> set t'" "ls' \<noteq> []" "\<forall>l\<in>set ls'. CHR 10 \<notin> set l"
    using assms(3,4) unfolding pq(2) by (simp_all add: plain_line_def)
  have "t @ CRLF @ join ls [CHR 10] = t' @ CRLF @ join ls' [CHR 10]" using assms(5) unfolding pq by (simp only: documented_data.simps)
  then have "t = t'" "join ls [CHR 10] = join ls' [CHR 10]" using CRLF_separates [OF l(1) l'(1)] by blast+
  then have "ls = split_byte (join ls' [CHR 10]) (CHR 10)" by (metis split_byte_join [OF l(2,3)])
  then have "ls = ls'" by (simp only: split_byte_join [OF l'(2,3)])
  then show ?thesis using pq \<open>t = t'\<close> by (simp only:)
next
  fix t t' ls assume "p = Mid t" "q = Body t' ls"
  then have "CHR 13 \<notin> set t" "t = t' @ CRLF @ join ls [CHR 10]" using assms by (simp_all add: plain_line_def)
  then show ?thesis by (simp add: CRLF_def)
next
  fix t t' ls assume "p = Body t' ls" "q = Mid t"
  then have "CHR 13 \<notin> set t" "t = t' @ CRLF @ join ls [CHR 10]" using assms by (simp_all add: plain_line_def)
  then show ?thesis by (simp add: CRLF_def)
qed (use assms(5) in simp)

lemma documented_inject:
  assumes "\<forall>p\<in>set ps. part_ok p \<and> part_full p" "\<forall>p\<in>set qs. part_ok p \<and> part_full p"
    and "map documented_data ps = map documented_data qs"
  shows "ps = qs"
  using assms(3)
proof (rule map_inj_on)
  show "inj_on documented_data (set ps \<union> set qs)"
    using assms(1,2) by (intro inj_onI documented_data_inject) auto
qed

lemma view_reply_documented:
  "reply_full r \<Longrightarrow> Data (view_reply r) = map documented_data (parts r)"
  by (simp add: view_reply_def reply_full_def documented_part)

lemma view_reply_inject:
  assumes "reply_full r" "reply_full r'" "view_reply r = view_reply r'"
  shows "r = r'"
proof -
  have "map documented_data (parts r) = map documented_data (parts r')"
    using assms view_reply_documented by metis
  then have "parts r = parts r'" by (rule documented_inject [rotated 2]) (use assms in \<open>auto simp: reply_full_def reply_ok_def\<close>)
  moreover have "final r = final r'" using arg_cong [OF assms(3), of Reply] by (simp add: view_reply_def)
  moreover have "code r = code r'"
    using arg_cong [OF assms(3), of "\<lambda>x. Code (Err x)"] by (simp add: view_reply_def)
  ultimately show ?thesis by simp
qed

lemma view_reply_raw:
  "\<forall>p\<in>set (parts r). \<exists>t. p = Mid t \<Longrightarrow> concat (map (\<lambda>l. l @ CRLF) (RawLines (view_reply r))) = render_reply r"
proof -
  have "\<forall>p\<in>set ps. \<exists>t. p = Mid t \<Longrightarrow> concat (map (\<lambda>l. l @ CRLF) (concat (map (part_raw c) ps))) = concat (map (render_part c) ps)" for ps c
    by (induction ps) auto
  then show "\<forall>p\<in>set (parts r). \<exists>t. p = Mid t \<Longrightarrow> ?thesis" by (simp add: view_reply_def render_reply_def)
qed

text \<open>C8: reading inverts the protocol's rendering. From the bytes of a reply, followed by anything, the reader returns the
  documented contents: the code, the text of the last line, and for each other line its text, with a dot-encoded body
  decoded to its lines; the rest of the input is left, and each line read is logged. Without bodies the raw lines are the
  lines as they were sent. No two replies are read as the same response, if no body is empty or ends in a blank line.\<close>

theorem read_response_roundtrip:
  assumes "reply_ok r" "\<forall>p\<in>set (parts r). part_full p"
  shows "\<exists>resp. read_response_loop None (render_reply r @ rest) = (Inr resp, rest, reply_log r)
    \<and> Code (Err resp) = code r \<and> Reply resp = final r \<and> Data resp = map documented_data (parts r)
    \<and> ((\<forall>p\<in>set (parts r). \<exists>t. p = Mid t) \<longrightarrow> concat (map (\<lambda>l. l @ CRLF) (RawLines resp)) = render_reply r)
    \<and> (\<forall>r' rest'. reply_ok r' \<and> (\<forall>p\<in>set (parts r'). part_full p)
         \<and> fst (read_response_loop None (render_reply r' @ rest')) = Inr resp \<longrightarrow> r' = r)"
proof (intro exI conjI allI impI)
  have full: "reply_full r" using assms by (simp add: reply_full_def)
  show "read_response_loop None (render_reply r @ rest) = (Inr (view_reply r), rest, reply_log r)"
    by (rule read_response_render [OF assms(1)])
  show "Code (Err (view_reply r)) = code r" "Reply (view_reply r) = final r" by (simp_all add: view_reply_def)
  show "Data (view_reply r) = map documented_data (parts r)" by (rule view_reply_documented [OF full])
  show "concat (map (\<lambda>l. l @ CRLF) (RawLines (view_reply r))) = render_reply r"
    if "\<forall>p\<in>set (parts r). \<exists>t. p = Mid t" by (rule view_reply_raw [OF that])
  fix r' rest'
  assume r': "reply_ok r' \<and> (\<forall>p\<in>set (parts r'). part_full p)
    \<and> fst (read_response_loop None (render_reply r' @ rest')) = Inr (view_reply r)"
  then have "Inr (view_reply r') = (Inr (view_reply r) :: response result)" using read_response_render [of r' rest'] by simp
  then have "view_reply r' = view_reply r" by simp
  then show "r' = r" using view_reply_inject [of r' r] r' full by (simp add: reply_full_def)
qed

theorem read_response_roundtrip_witness:
  "\<exists>resp. read_response_loop None (render_reply \<lparr>code = 250, parts = [Mid ''version=0.4'', Body ''config-text='' [''.dot'', [], ''a b'']],
       final = ''OK''\<rparr> @ ''650 X'') = (Inr resp, ''650 X'', reply_log \<lparr>code = 250, parts = [Mid ''version=0.4'',
       Body ''config-text='' [''.dot'', [], ''a b'']], final = ''OK''\<rparr>)
     \<and> Code (Err resp) = 250 \<and> Reply resp = ''OK''
     \<and> Data resp = [''version=0.4'', ''config-text='' @ CRLF @ ''.dot'' @ [CHR 10] @ [CHR 10] @ ''a b'']"
proof -
  let ?r = "\<lparr>code = 250, parts = [Mid ''version=0.4'', Body ''config-text='' [''.dot'', [], ''a b'']],
             final = ''OK''\<rparr>"
  have "reply_ok ?r" "\<forall>p\<in>set (parts ?r). part_full p" by (simp_all add: reply_ok_def plain_line_def)
  then show ?thesis using read_response_roundtrip [of ?r "''650 X''"] by auto
qed

text \<open>C32: On any input whatsoever the reader either fails or returns a response whose code lies
  between 100 and 999, whose error is the one of that code and reply, and whose last raw line
  ends in the reply; it always consumes some of the input and never anything after it, so
  the read loop terminates.\<close>

theorem read_response_sound:
  assumes "read_response_loop None inp = (Inr r, rest, log)"
  shows "100 \<le> Code (Err r) \<and> Code (Err r) \<le> 999 \<and> strict_suffix rest inp \<and>
    RawLines r \<noteq> [] \<and> drop 4 (last (RawLines r)) = Reply r \<and>
    Err r = statusCodeToError (Code (Err r)) (Reply r)"
  using read_response_inv [OF assms] by (simp add: partial_ok_def)

theorem read_response_sound_witness:
  "\<exists>r rest log. read_response_loop None (''250-a=b'' @ CRLF @ ''250 OK'' @ CRLF @ ''650'') = (Inr r, rest, log) \<and>
     strict_suffix rest (''250-a=b'' @ CRLF @ ''250 OK'' @ CRLF @ ''650'') \<and> Code (Err r) \<le> 999"
proof -
  let ?i = "''250-a=b'' @ CRLF @ ''250 OK'' @ CRLF @ ''650''"
  let ?q = "\<lparr>code = 250, parts = [Mid ''a=b''], final = ''OK''\<rparr>"
  have "itoa 250 = ''250''" by code_simp
  then have i: "?i = render_reply ?q @ ''650''" by (simp add: render_reply_def)
  have "reply_ok ?q" by (simp add: reply_ok_def plain_line_def)
  then have "read_response_loop None ?i = (Inr (view_reply ?q), ''650'', reply_log ?q)"
    unfolding i by (rule read_response_render)
  then show ?thesis using read_response_sound [of ?i "view_reply ?q" "''650''" "reply_log ?q"] by blast
qed

text \<open>A response whose lines do not all carry the same status code is refused: after any
  well-formed lines of one code, a line of another code is an error that names both.\<close>

theorem read_response_code_changed:
  assumes "100 \<le> c" "c \<le> 999" "100 \<le> c'" "c' \<le> 999" "c' \<noteq> c"
    and "ps \<noteq> []" "\<forall>p\<in>set ps. part_ok p" "plain_line (s # t)"
  shows "fst (read_response_loop None
      (concat (map (render_part c) ps) @ itoa c' @ (s # t) @ CRLF @ rest)) =
    Inl (ProtocolError (''Status code changed: '' @ itoa c' @ '' != '' @ itoa c))"
proof -
  let ?e = "Inl (ProtocolError (''Status code changed: '' @ itoa c' @ '' != '' @ itoa c))"
  let ?rest = "itoa c' @ (s # t) @ CRLF @ rest"
  have l: "read_line ((itoa c' @ s # t) @ CRLF @ rest) = (Inr (itoa c' @ s # t), rest)"
    using assms(8) itoa_plain [of c'] by (intro read_line_crlf) (auto simp: plain_line_def)
  have acc: "accept_line (collected c ps) (itoa c' @ s # t) = ?e"
    using assms accept_line_coded(3) [of c' c] by (simp add: collected_def)
  have e: "fst (read_response_loop (collected c ps) ?rest) = ?e"
    using l acc by (simp add: read_response_loop.simps [of _ "itoa c' @ _"] response_step_def)
  have keep: "fst (case x of (res, rest', log) \<Rightarrow> (res, rest', lg @ log)) = fst x"
    for x :: "response result \<times> string \<times> string list" and lg by (simp split: prod.split)
  show ?thesis
    using read_response_parts [OF assms(1,2,7), of "[]" ?rest] e keep
    by (simp add: collected_def)
qed

theorem read_response_code_changed_witness:
  "fst (read_response_loop None (concat (map (render_part 250) [Mid ''a'']) @ itoa 551 @ '' x'' @ CRLF @ ''250'')) =
     Inl (ProtocolError (''Status code changed: '' @ itoa 551 @ '' != '' @ itoa 250))"
  using read_response_code_changed [of 250 551 "[Mid ''a'']" "CHR '' ''" "''x''" "''250''"]
  by (simp add: plain_line_def)

text \<open>The raw lines of a response do not hold all its lines: the last line of every
  dot-encoded body is missing, since the loop over the body's lines stops one short of the
  end although the final newline was already trimmed.\<close>

theorem raw_lines_miss_last_body_line:
  "RawLines (view_reply \<lparr>code = 250, parts = [Body ''t='' [''first'', ''second'']], final = ''OK''\<rparr>) =
     [''250+t='', ''first'', ''.'', ''250 OK'']"
  by code_simp

end
