(* ===== verification/Torutil_String.thy ===== *)
theory Torutil_String
  imports Go_Strconv
begin

text \<open>
  \<open>torutil/string.go\<close>: splitting a string at a byte and the quoting of the control port.
  The main result is that unescaping inverts escaping on every valid UTF-8 string; a byte
  that is not UTF-8 is lost, because the unescaping loop ranges over runes.
\<close>

section \<open>Partitioning\<close>

definition PartitionString :: "string \<Rightarrow> char \<Rightarrow> string \<times> string \<times> bool" where
  "PartitionString str ch =
     (let index = index_byte str ch in
      if index = -1 then (str, [], False)
      else (take (nat index) str, drop (nat (index + 1)) str, True))"

definition PartitionStringFromEnd :: "string \<Rightarrow> char \<Rightarrow> string \<times> string \<times> bool" where
  "PartitionStringFromEnd str ch =
     (let index = last_index_byte str ch in
      if index = -1 then (str, [], False)
      else (take (nat index) str, drop (nat (index + 1)) str, True))"

lemma PartitionString_none: "ch \<notin> set s \<Longrightarrow> PartitionString s ch = (s, [], False)"
  by (simp add: PartitionString_def index_byte_none)

lemma PartitionString_append: "ch \<notin> set a \<Longrightarrow> PartitionString (a @ ch # b) ch = (a, b, True)"
  by (simp add: PartitionString_def index_byte_append nat_add_distrib)

lemma PartitionString_cases:
  obtains (none) "ch \<notin> set s" "PartitionString s ch = (s, [], False)"
  | (split) a b where "s = a @ ch # b" "ch \<notin> set a" "PartitionString s ch = (a, b, True)"
  by (metis PartitionString_append PartitionString_none split_list_first)

lemma PartitionStringFromEnd_none:
  "ch \<notin> set s \<Longrightarrow> PartitionStringFromEnd s ch = (s, [], False)"
  by (simp add: PartitionStringFromEnd_def last_index_byte_none)

lemma PartitionStringFromEnd_append:
  "ch \<notin> set b \<Longrightarrow> PartitionStringFromEnd (a @ ch # b) ch = (a, b, True)"
  by (simp add: PartitionStringFromEnd_def last_index_byte_append nat_add_distrib)

lemma PartitionString_shrinks:
  "PartitionString s ch = (a, b, True) \<Longrightarrow> length b < length s"
  by (cases rule: PartitionString_cases [of ch s]) auto

lemma PartitionString_split_byte:
  "split_byte s ch =
     (case PartitionString s ch of (a, b, ok) \<Rightarrow> if ok then a # split_byte b ch else [a])"
  by (cases rule: PartitionString_cases [of ch s]) (auto simp: split_byte_single split_byte_append)

section \<open>Escaping\<close>

text \<open>The replacer maps single bytes, so it works byte by byte.\<close>

fun escape_byte :: "char \<Rightarrow> string" where
  "escape_byte c =
     (if c = CHR 92 then [CHR 92, CHR 92]
      else if c = CHR 34 then [CHR 92, CHR 34]
      else if c = CHR 13 then [CHR 92, CHR ''r'']
      else if c = CHR 10 then [CHR 92, CHR ''n'']
      else [c])"

definition EscapeSimpleQuotedStringContents :: "string \<Rightarrow> string" where
  "EscapeSimpleQuotedStringContents str = concat (map escape_byte str)"

definition EscapeSimpleQuotedString :: "string \<Rightarrow> string" where
  "EscapeSimpleQuotedString str = [CHR 34] @ EscapeSimpleQuotedStringContents str @ [CHR 34]"

definition EscapeSimpleQuotedStringIfNeeded :: "string \<Rightarrow> string" where
  "EscapeSimpleQuotedStringIfNeeded str =
     (if contains_any str [CHR 32, CHR 92, CHR 34, CHR 13, CHR 10]
      then EscapeSimpleQuotedString str else str)"

section \<open>Unescaping\<close>

text \<open>
  The loop of \<open>UnescapeSimpleQuotedStringContents\<close> over the runes of the string, with its
  two variables: the text so far and whether a backslash was just seen.
\<close>

fun unescape_loop :: "string \<Rightarrow> bool \<Rightarrow> rune list \<Rightarrow> string result" where
  "unescape_loop ret escaping [] = Inr ret"
| "unescape_loop ret escaping (c # cs) =
     (if c = 92 then unescape_loop (if escaping then ret @ [CHR 92] else ret) (\<not> escaping) cs
      else if c = 34 then
        if \<not> escaping then Inl (ErrorString ''Unescaped quote'')
        else unescape_loop (ret @ [CHR 34]) False cs
      else if c = 13 \<or> c = 10 then Inl (ErrorString ''Unescaped newline or carriage return'')
      else if escaping then
        if c = 114 then unescape_loop (ret @ [CHR 13]) False cs
        else if c = 110 then unescape_loop (ret @ [CHR 10]) False cs
        else Inl (ErrorString ''Unexpected escape'')
      else unescape_loop (ret @ encode_rune c) False cs)"

definition UnescapeSimpleQuotedStringContents :: "string \<Rightarrow> string result" where
  "UnescapeSimpleQuotedStringContents str = unescape_loop [] False (range_string str)"

definition UnescapeSimpleQuotedString :: "string \<Rightarrow> string result" where
  "UnescapeSimpleQuotedString str =
     (if length str < 2 \<or> str ! 0 \<noteq> CHR 34 \<or> str ! (length str - 1) \<noteq> CHR 34
      then Inl (ErrorString ''Missing quotes'')
      else UnescapeSimpleQuotedStringContents (take (length str - 2) (drop 1 str)))"

definition UnescapeSimpleQuotedStringIfNeeded :: "string \<Rightarrow> string result" where
  "UnescapeSimpleQuotedStringIfNeeded str =
     (if 2 \<le> length str \<and> str ! 0 = CHR 34 \<and> str ! (length str - 1) = CHR 34
      then UnescapeSimpleQuotedString str else Inr str)"

section \<open>Unescaping inverts escaping\<close>

text \<open>What escaping does to one rune: the four special runes become two ASCII runes.\<close>

definition escape_rune :: "rune \<Rightarrow> rune list" where
  "escape_rune r =
     (if r = 92 then [92, 92] else if r = 34 then [92, 34]
      else if r = 13 then [92, 114] else if r = 10 then [92, 110] else [r])"

lemma escape_contents_append:
  "EscapeSimpleQuotedStringContents (a @ b) =
     EscapeSimpleQuotedStringContents a @ EscapeSimpleQuotedStringContents b"
  by (simp add: EscapeSimpleQuotedStringContents_def)

lemma char_of_eq_ascii: "n < 256 \<Longrightarrow> k < 256 \<Longrightarrow> (char_of (n :: nat) :: char) = char_of k \<longleftrightarrow> n = k"
  by (metis of_char_char_of mod_less)

lemma char_of_ascii_lits:
  "CHR 92 = char_of (92 :: nat)" "CHR 34 = char_of (34 :: nat)"
  "CHR 13 = char_of (13 :: nat)" "CHR 10 = char_of (10 :: nat)"
  "CHR ''r'' = char_of (114 :: nat)" "CHR ''n'' = char_of (110 :: nat)"
  by code_simp+

lemma escape_byte_high: "128 \<le> (of_char c :: nat) \<Longrightarrow> escape_byte c = [c]"
  by (auto simp del: One_nat_def)

lemma escape_bytes_high:
  "\<forall>c\<in>set s. 128 \<le> (of_char c :: nat) \<Longrightarrow> EscapeSimpleQuotedStringContents s = s"
  by (induction s) (simp_all add: EscapeSimpleQuotedStringContents_def escape_byte_high del: escape_byte.simps)

lemma encode_rune_high:
  "128 \<le> r \<Longrightarrow> c \<in> set (encode_rune r) \<Longrightarrow> 128 \<le> (of_char c :: nat)"
  by (auto simp: encode_rune_def Let_def scalar_def RuneError_def split: if_splits)

lemma escape_encode_rune:
  "EscapeSimpleQuotedStringContents (encode_rune r) = encode_runes (escape_rune r)"
proof (cases "128 \<le> r")
  case True
  then show ?thesis
    using encode_rune_high escape_bytes_high [of "encode_rune r"]
    by (auto simp: escape_rune_def encode_runes_def)
next
  case False
  then have "r < 128" by simp
  then show ?thesis
    by (auto simp: EscapeSimpleQuotedStringContents_def escape_rune_def encode_runes_def
        encode_rune_ascii char_of_ascii_lits char_of_eq_ascii simp del: char_of_nat)
qed

lemma escape_encode_runes:
  "EscapeSimpleQuotedStringContents (encode_runes rs) = encode_runes (concat (map escape_rune rs))"
  by (induction rs)
     (simp_all add: encode_runes_def escape_contents_append escape_encode_rune
        EscapeSimpleQuotedStringContents_def [of "[]"])

lemma unescape_loop_escape_rune:
  "unescape_loop ret False (escape_rune r @ rs) = unescape_loop (ret @ encode_rune r) False rs"
  by (auto simp: escape_rune_def encode_rune_ascii char_of_ascii_lits)

lemma unescape_loop_escape:
  "unescape_loop ret False (concat (map escape_rune rs)) = Inr (ret @ encode_runes rs)"
  by (induction rs arbitrary: ret) (simp_all add: encode_runes_def unescape_loop_escape_rune)

lemma escape_rune_scalar: "scalar r \<Longrightarrow> r' \<in> set (escape_rune r) \<Longrightarrow> scalar r'"
  by (auto simp: escape_rune_def scalar_def split: if_splits)

lemma unescape_escape_contents:
  assumes "valid_string s"
  shows "UnescapeSimpleQuotedStringContents (EscapeSimpleQuotedStringContents s) = Inr s"
proof -
  let ?rs = "range_string s"
  from assms have sc: "\<forall>r\<in>set ?rs. scalar r" and s: "encode_runes ?rs = s"
    using valid_string_runes by auto
  have sc': "\<forall>r\<in>set (concat (map escape_rune ?rs)). scalar r"
    using sc escape_rune_scalar by auto
  have "EscapeSimpleQuotedStringContents s = encode_runes (concat (map escape_rune ?rs))"
    using escape_encode_runes [of ?rs] s by simp
  then have "range_string (EscapeSimpleQuotedStringContents s) = concat (map escape_rune ?rs)"
    using range_encode_runes [OF sc', of "[]"] by simp
  then show ?thesis
    using unescape_loop_escape [of "[]" ?rs] s by (simp add: UnescapeSimpleQuotedStringContents_def)
qed

lemma unescape_escape_quoted:
  "valid_string s \<Longrightarrow> UnescapeSimpleQuotedString (EscapeSimpleQuotedString s) = Inr s"
  by (simp add: UnescapeSimpleQuotedString_def EscapeSimpleQuotedString_def
      unescape_escape_contents nth_append)

interpretation quoted: codec EscapeSimpleQuotedString UnescapeSimpleQuotedString valid_string
  by unfold_locales (rule unescape_escape_quoted)

section \<open>What unescaping accepts\<close>

lemma unescape_loop_escape_cons:
  "\<exists>us. s = (ret @ encode_rune u) @ encode_runes us \<and>
       (rs = concat (map escape_rune us) \<or> rs = concat (map escape_rune us) @ [92]) \<Longrightarrow>
   escape_rune u = us0 \<Longrightarrow>
   \<exists>us. s = ret @ encode_runes us \<and>
       (us0 @ rs = concat (map escape_rune us) \<or> us0 @ rs = concat (map escape_rune us) @ [92])"
  by (elim exE, rule_tac x = "u # us" in exI) (auto simp: encode_runes_def)

lemma unescape_loop_accepts:
  "unescape_loop ret escaping rs = Inr s \<Longrightarrow>
     \<exists>us. s = ret @ encode_runes us \<and>
       ((if escaping then 92 # rs else rs) = concat (map escape_rune us) \<or>
        (if escaping then 92 # rs else rs) = concat (map escape_rune us) @ [92])"
proof (induction ret escaping rs rule: unescape_loop.induct)
  case (1 ret escaping)
  then show ?case
    by (intro exI [of _ "[]"]) (simp add: encode_runes_def)
next
  case (2 ret escaping c cs)
  have lits: "[CHR 92] = encode_rune 92" "[CHR 34] = encode_rune 34"
    "[CHR 13] = encode_rune 13" "[CHR 10] = encode_rune 10"
    by (simp_all add: encode_rune_ascii char_of_ascii_lits)
  have escapes: "escape_rune 92 = [92, 92]" "escape_rune 34 = [92, 34]"
    "escape_rune 13 = [92, 114]" "escape_rune 10 = [92, 110]"
    "c \<noteq> 92 \<Longrightarrow> c \<noteq> 34 \<Longrightarrow> c \<noteq> 13 \<Longrightarrow> c \<noteq> 10 \<Longrightarrow> escape_rune c = [c]"
    by (simp_all add: escape_rune_def)
  consider (bs_esc) "c = 92" "escaping" | (bs) "c = 92" "\<not> escaping" | (quote) "c = 34" "escaping"
    | (r) "c = 114" "escaping" | (n) "c = 110" "escaping"
    | (plain) "c \<noteq> 92" "c \<noteq> 34" "c \<noteq> 13" "c \<noteq> 10" "\<not> escaping"
    using "2.prems" by (auto split: if_splits)
  then show ?case
  proof cases
    case bs_esc
    then show ?thesis
      using 2 unescape_loop_escape_cons [of s ret 92 cs "[92, 92]", OF _ escapes(1)]
      by (simp add: lits)
  next
    case bs
    then show ?thesis using 2 by simp
  next
    case quote
    then show ?thesis
      using 2 unescape_loop_escape_cons [of s ret 34 cs "[92, 34]", OF _ escapes(2)]
      by (simp add: lits)
  next
    case r
    then show ?thesis
      using 2 unescape_loop_escape_cons [of s ret 13 cs "[92, 114]", OF _ escapes(3)]
      by (simp add: lits)
  next
    case n
    then show ?thesis
      using 2 unescape_loop_escape_cons [of s ret 10 cs "[92, 110]", OF _ escapes(4)]
      by (simp add: lits)
  next
    case plain
    then show ?thesis
      using 2 unescape_loop_escape_cons [of s ret c cs "[c]", OF _ escapes(5)]
      by simp
  qed
qed

text \<open>A scan of quoted text as its reader does it: a backslash takes the next byte with it.\<close>

fun closes_only_at_end :: "string \<Rightarrow> bool" where
  "closes_only_at_end [] = True"
| "closes_only_at_end [c] = (c \<noteq> CHR 34 \<and> c \<noteq> CHR 92)"
| "closes_only_at_end (c # d # cs) =
     (if c = CHR 92 then closes_only_at_end cs else c \<noteq> CHR 34 \<and> closes_only_at_end (d # cs))"

lemma closes_only_at_end_plain:
  "c \<noteq> CHR 92 \<Longrightarrow> c \<noteq> CHR 34 \<Longrightarrow> closes_only_at_end (c # cs) = closes_only_at_end cs"
  by (cases cs) auto

lemma closes_only_at_end_escape: "closes_only_at_end (EscapeSimpleQuotedStringContents s)"
  by (induction s) (auto simp: EscapeSimpleQuotedStringContents_def closes_only_at_end_plain)

lemma escape_no_newline:
  "CHR 13 \<notin> set (EscapeSimpleQuotedStringContents s) \<and> CHR 10 \<notin> set (EscapeSimpleQuotedStringContents s)"
  by (auto simp: EscapeSimpleQuotedStringContents_def)

section \<open>Quoting where needed\<close>

lemma escape_if_needed_no_newline:
  "CHR 13 \<notin> set (EscapeSimpleQuotedStringIfNeeded s) \<and> CHR 10 \<notin> set (EscapeSimpleQuotedStringIfNeeded s)"
  using escape_no_newline [of s]
  by (auto simp: EscapeSimpleQuotedStringIfNeeded_def EscapeSimpleQuotedString_def contains_any_def)

lemma unescape_escape_if_needed:
  assumes "valid_string s"
  shows "UnescapeSimpleQuotedStringIfNeeded (EscapeSimpleQuotedStringIfNeeded s) = Inr s"
proof (cases "contains_any s [CHR 32, CHR 92, CHR 34, CHR 13, CHR 10]")
  case True
  with assms show ?thesis
    by (simp add: EscapeSimpleQuotedStringIfNeeded_def UnescapeSimpleQuotedStringIfNeeded_def
        quoted.dec_enc) (simp add: EscapeSimpleQuotedString_def nth_append)
next
  case False
  then have "CHR 34 \<notin> set s" by (auto simp: contains_any_def)
  then have "2 \<le> length s \<Longrightarrow> s ! 0 \<noteq> CHR 34" by (cases s) auto
  with False show ?thesis
    by (auto simp: EscapeSimpleQuotedStringIfNeeded_def UnescapeSimpleQuotedStringIfNeeded_def)
qed

section \<open>Properties\<close>

text \<open>Escaping where needed and then unescaping where needed gives back every valid
  UTF-8 string, so a configuration value survives SETCONF followed by GETCONF.\<close>

theorem escape_if_needed_roundtrip:
  "valid_string s \<Longrightarrow> UnescapeSimpleQuotedStringIfNeeded (EscapeSimpleQuotedStringIfNeeded s) = Inr s"
  by (rule unescape_escape_if_needed)

theorem escape_if_needed_roundtrip_witness:
  "valid_string ''a b'' \<and>
   UnescapeSimpleQuotedStringIfNeeded (EscapeSimpleQuotedStringIfNeeded ''a b'') = Inr ''a b''"
proof -
  have v: "valid_string ''a b''" by code_simp
  then show ?thesis using escape_if_needed_roundtrip [OF v] by simp
qed

text \<open>C33: An escaped value cannot break out of its command line: it holds no carriage return
  and no newline, and it is either free of spaces, quotes and backslashes or enclosed in
  quotes whose closing one is the only one a reader of the quoting finds.\<close>

theorem escape_if_needed_safe:
  "let e = EscapeSimpleQuotedStringIfNeeded s in
   CHR 13 \<notin> set e \<and> CHR 10 \<notin> set e \<and>
   (CHR 32 \<notin> set e \<and> CHR 34 \<notin> set e \<and> CHR 92 \<notin> set e \<or>
    (\<exists>body. e = [CHR 34] @ body @ [CHR 34] \<and> closes_only_at_end body))"
  using escape_if_needed_no_newline [of s] closes_only_at_end_escape [of s]
  by (auto simp: EscapeSimpleQuotedStringIfNeeded_def EscapeSimpleQuotedString_def contains_any_def
      Let_def)

text \<open>Unescaping accepts exactly the escaped forms, with one exception: on a valid UTF-8
  string it succeeds only if the string is the escaping of the result, or that escaping
  followed by a lone backslash, which is dropped without an error.\<close>

theorem unescape_accepts:
  assumes "valid_string t" and "UnescapeSimpleQuotedStringContents t = Inr s"
  shows "t = EscapeSimpleQuotedStringContents s \<or> t = EscapeSimpleQuotedStringContents s @ [CHR 92]"
proof -
  from assms(1) have t: "encode_runes (range_string t) = t" using valid_string_runes by blast
  obtain us where s: "s = encode_runes us"
    and rs: "range_string t = concat (map escape_rune us) \<or>
             range_string t = concat (map escape_rune us) @ [92]"
    using unescape_loop_accepts [of "[]" False "range_string t" s] assms(2)
    by (auto simp: UnescapeSimpleQuotedStringContents_def)
  have "encode_runes (a @ [92]) = encode_runes a @ [CHR 92]" for a
    by (simp add: encode_runes_def encode_rune_ascii char_of_ascii_lits)
  then show ?thesis using rs t escape_encode_runes [of us] by (auto simp: s)
qed

theorem unescape_accepts_witness:
  "(let t = [CHR ''a'', CHR 92, CHR ''n'', CHR 92] in
      valid_string t \<and> UnescapeSimpleQuotedStringContents t = Inr [CHR ''a'', CHR 10] \<and>
      t = EscapeSimpleQuotedStringContents [CHR ''a'', CHR 10] @ [CHR 92])"
proof -
  let ?t = "[CHR ''a'', CHR 92, CHR ''n'', CHR 92]"
  have v: "valid_string ?t" by code_simp
  have u: "UnescapeSimpleQuotedStringContents ?t = Inr [CHR ''a'', CHR 10]" by code_simp
  have "?t \<noteq> EscapeSimpleQuotedStringContents [CHR ''a'', CHR 10]" by code_simp
  then show ?thesis using v u unescape_accepts [OF v u] by simp
qed

text \<open>A byte that is not UTF-8 does not survive: the loop over runes replaces it.\<close>

theorem unescape_loses_invalid_utf8:
  "UnescapeSimpleQuotedString (EscapeSimpleQuotedString [CHR 255]) =
     Inr [CHR 0xEF, CHR 0xBF, CHR 0xBD]"
  by code_simp

end
