(* ===== verification/Event_Attrs.thy ===== *)
theory Event_Attrs
  imports Torutil_String "HOL-Library.Multiset"
begin

text \<open>
  The loop nearly every event parser of \<open>control/cmd_event.go\<close> ends with:
  \<open>for ok { attr, raw, ok = PartitionString(raw, ' '); ... }\<close>. The loop is a fold over the
  words of the text, and an interface says when the order of the attributes does not
  matter; the parsers provide it.
\<close>

section \<open>The loop\<close>

function attr_loop :: "(string \<Rightarrow> 'e \<Rightarrow> 'e) \<Rightarrow> bool \<Rightarrow> string \<Rightarrow> 'e \<Rightarrow> 'e" where
  "attr_loop body ok raw event =
     (if ok then
        let (attr, raw', ok') = PartitionString raw (CHR '' '')
        in attr_loop body ok' raw' (body attr event)
      else event)"
  by pat_completeness auto
termination
proof (relation "measure (\<lambda>(body, ok, raw, event). length raw + (if ok then 1 else 0))", goal_cases)
  case 1
  then show ?case by simp
next
  case (2 body ok raw event x attr y raw' ok')
  then show ?case by (cases rule: PartitionString_cases [where s = raw and ch = "CHR '' ''"]) auto
qed

declare attr_loop.simps [simp del]

lemma attr_loop_False [simp]: "attr_loop body False raw event = event"
  by (simp add: attr_loop.simps)

lemma attr_loop_fold: "attr_loop body True raw event = fold body (split_byte raw (CHR '' '')) event"
proof (induction raw arbitrary: event rule: length_induct)
  case (1 raw)
  show ?case
  proof (cases rule: PartitionString_cases [where s = raw and ch = "CHR '' ''"])
    case none
    then show ?thesis by (simp add: attr_loop.simps [of body True] split_byte_single)
  next
    case (split a b)
    then have "length b < length raw" by simp
    with 1 have "attr_loop body True b e = fold body (split_byte b (CHR '' '')) e" for e by blast
    with split show ?thesis by (simp add: attr_loop.simps [of body True] split_byte_append)
  qed
qed

text \<open>Most bodies look at the part before and the part after the first \<open>=\<close> only.\<close>

definition on_key_val :: "(string \<Rightarrow> string \<Rightarrow> 'e \<Rightarrow> 'e) \<Rightarrow> string \<Rightarrow> 'e \<Rightarrow> 'e" where
  "on_key_val body attr event =
     (let (key, val, _) = PartitionString attr (CHR ''='') in body key val event)"

lemma attr_loop_keeps:
  "(\<And>a e. f (body a e) = f e) \<Longrightarrow> f (attr_loop body ok raw event) = f event"
proof (induction body ok raw event rule: attr_loop.induct)
  case (1 body ok raw event)
  then show ?case
    by (subst attr_loop.simps) (auto split: prod.splits)
qed

lemma on_key_val_keeps: "(\<And>k v e. f (body k v e) = f e) \<Longrightarrow> f (on_key_val body a e) = f e"
  by (simp add: on_key_val_def split: prod.splits)

section \<open>Rendered attributes\<close>

definition render_attr :: "string \<times> string \<Rightarrow> string" where
  "render_attr kv = fst kv @ CHR ''='' # snd kv"

definition render_attrs :: "(string \<times> string) list \<Rightarrow> string" where
  "render_attrs kvs = join (map render_attr kvs) '' ''"

definition attr_ok :: "string \<times> string \<Rightarrow> bool" where
  "attr_ok kv \<longleftrightarrow> CHR '' '' \<notin> set (fst kv) \<and> CHR ''='' \<notin> set (fst kv) \<and> CHR '' '' \<notin> set (snd kv)"

lemma on_key_val_render: "attr_ok kv \<Longrightarrow> on_key_val body (render_attr kv) = body (fst kv) (snd kv)"
  by (auto simp: on_key_val_def render_attr_def attr_ok_def PartitionString_append)

lemma split_render_attrs:
  "kvs \<noteq> [] \<Longrightarrow> \<forall>kv\<in>set kvs. attr_ok kv \<Longrightarrow>
     split_byte (render_attrs kvs) (CHR '' '') = map render_attr kvs"
  unfolding render_attrs_def by (rule split_byte_join) (auto simp: render_attr_def attr_ok_def)

lemma attr_loop_render:
  assumes "kvs \<noteq> []" and ok: "\<forall>kv\<in>set kvs. attr_ok kv"
  shows "attr_loop (on_key_val body) True (render_attrs kvs) event =
         fold (\<lambda>kv. body (fst kv) (snd kv)) kvs event"
proof -
  from ok have "fold (on_key_val body) (map render_attr kvs) event =
      fold (\<lambda>kv. body (fst kv) (snd kv)) kvs event"
    by (induction kvs arbitrary: event) (simp_all add: on_key_val_render)
  then show ?thesis using assms by (simp add: attr_loop_fold split_render_attrs)
qed

section \<open>Attributes whose order does not matter\<close>

text \<open>
  The interface of a parser of keyed attributes: attributes with different keys set
  different parts of the event, and a key that is not known leaves the event alone, as the
  control protocol asks of its readers.
\<close>

locale attr_parser =
  fixes body :: "string \<Rightarrow> string \<Rightarrow> 'e \<Rightarrow> 'e"
    and known :: "string set"
  assumes commute: "k \<noteq> k' \<Longrightarrow> body k v (body k' v' e) = body k' v' (body k v e)"
    and ignore: "k \<notin> known \<Longrightarrow> body k v e = e"
begin

abbreviation apply_attrs :: "(string \<times> string) list \<Rightarrow> 'e \<Rightarrow> 'e" where
  "apply_attrs kvs \<equiv> fold (\<lambda>kv. body (fst kv) (snd kv)) kvs"

lemma apply_ignores_unknown: "apply_attrs kvs e = apply_attrs [kv \<leftarrow> kvs. fst kv \<in> known] e"
  by (induction kvs arbitrary: e) (auto simp: ignore)

lemma apply_permute:
  assumes "distinct (map fst kvs)" and "mset kvs = mset kvs'"
  shows "apply_attrs kvs = apply_attrs kvs'"
proof (rule fold_multiset_equiv [OF _ assms(2)])
  fix x y assume "x \<in> set kvs" and "y \<in> set kvs"
  then have "x = y \<or> fst x \<noteq> fst y" using assms(1) by (metis eq_key_imp_eq_value prod.collapse)
  then show "body (fst x) (snd x) \<circ> body (fst y) (snd y) = body (fst y) (snd y) \<circ> body (fst x) (snd x)"
    using commute by fastforce
qed

lemma loop_permute:
  assumes "kvs \<noteq> []" and "\<forall>kv\<in>set kvs. attr_ok kv"
    and "distinct (map fst kvs)" and "mset kvs = mset kvs'"
  shows "attr_loop (on_key_val body) True (render_attrs kvs) e =
         attr_loop (on_key_val body) True (render_attrs kvs') e"
proof -
  have "kvs' \<noteq> []" and "\<forall>kv\<in>set kvs'. attr_ok kv"
    using assms(1,2,4) by (auto simp flip: set_mset_mset)
  then show ?thesis using assms by (simp add: attr_loop_render apply_permute)
qed

lemma loop_ignores_unknown:
  assumes "\<forall>kv\<in>set kvs. attr_ok kv" and "[kv \<leftarrow> kvs. fst kv \<in> known] \<noteq> []"
  shows "attr_loop (on_key_val body) True (render_attrs kvs) e =
         attr_loop (on_key_val body) True (render_attrs [kv \<leftarrow> kvs. fst kv \<in> known]) e"
proof -
  from assms(2) have "kvs \<noteq> []" by auto
  with assms show ?thesis using apply_ignores_unknown [of kvs e] by (simp add: attr_loop_render)
qed

lemma loop_known:
  assumes "kvs \<noteq> []" and "\<forall>kv\<in>set kvs. attr_ok kv"
    and "mset [kv \<leftarrow> kvs. fst kv \<in> known] = mset kvs'" and "distinct (map fst kvs')"
  shows "attr_loop (on_key_val body) True (render_attrs kvs) e = apply_attrs kvs' e"
proof -
  have "attr_loop (on_key_val body) True (render_attrs kvs) e = apply_attrs kvs e"
    using assms(1,2) by (simp add: attr_loop_render)
  also have "\<dots> = apply_attrs [kv \<leftarrow> kvs. fst kv \<in> known] e"
    by (rule apply_ignores_unknown)
  also have "\<dots> = apply_attrs kvs' e"
    using apply_permute [OF assms(4) assms(3) [symmetric]] by simp
  finally show ?thesis .
qed

end

text \<open>Where a key sets its part of the event outright, a repeated key counts once, the last time.\<close>

locale overwriting_attr_parser = attr_parser +
  assumes overwrite: "body k v (body k v' e) = body k v e"
begin

lemma apply_absorbed: "k \<in> fst ` set kvs \<Longrightarrow> apply_attrs kvs (body k v e) = apply_attrs kvs e"
proof (induction kvs arbitrary: e)
  case (Cons kv kvs)
  show ?case
  proof (cases "fst kv = k")
    case True
    then show ?thesis by (simp add: overwrite)
  next
    case False
    with Cons.prems have "k \<in> fst ` set kvs" by auto
    then show ?thesis using Cons.IH commute [OF False] by simp
  qed
qed simp


end

end
