(* ===== verification/Go_Time.thy ===== *)
theory Go_Time
  imports Go_Strconv
begin

text \<open>
  \<open>time.Parse\<close> for the two layouts of the event parsers, which differ only in the byte
  between date and time. A space of the layout matches any run of spaces, an hour may have
  one digit, and a fraction of a second is taken after the seconds whether the layout names
  it or not. Durations are 64-bit counts of nanoseconds whose product wraps around.
\<close>

record go_time =
  t_year :: int
  t_month :: int
  t_day :: int
  t_hour :: int
  t_minute :: int
  t_second :: int
  t_nsec :: int

definition zero_time :: go_time where
  "zero_time = \<lparr>t_year = 1, t_month = 1, t_day = 1, t_hour = 0, t_minute = 0, t_second = 0, t_nsec = 0\<rparr>"

text \<open>The parts of the parser: each returns its value and the rest of the text.\<close>

definition getnum :: "bool \<Rightarrow> string \<Rightarrow> (int \<times> string) option" where
  "getnum fixed s =
     (case s of
        [] \<Rightarrow> None
      | c # cs \<Rightarrow>
          if \<not> is_digit c then None
          else case cs of
              [] \<Rightarrow> if fixed then None else Some (int (digit_val c), [])
            | d # ds \<Rightarrow>
                if is_digit d then Some (int (digit_val c) * 10 + int (digit_val d), ds)
                else if fixed then None else Some (int (digit_val c), cs))"

definition get_year :: "string \<Rightarrow> (int \<times> string) option" where
  "get_year s =
     (if length s < 4 \<or> \<not> (\<forall>c\<in>set (take 4 s). is_digit c) then None
      else Some (fst (parse_int (take 4 s)), drop 4 s))"

definition skip_byte :: "char \<Rightarrow> string \<Rightarrow> string option" where
  "skip_byte p s =
     (case s of [] \<Rightarrow> if p = CHR '' '' then Some [] else None
      | c # cs \<Rightarrow> if c \<noteq> p then None
          else if p = CHR '' '' then Some (dropWhile (\<lambda>x. x = CHR '' '') s) else Some cs)"

definition in_range :: "int \<Rightarrow> int \<Rightarrow> (int \<times> string) option \<Rightarrow> (int \<times> string) option" where
  "in_range lo hi r = (case r of Some (n, s) \<Rightarrow> if lo \<le> n \<and> n \<le> hi then Some (n, s) else None | None \<Rightarrow> None)"

text \<open>At most nine digits of the fraction count; missing ones are zeros.\<close>

definition get_nsec :: "string \<Rightarrow> int \<times> string" where
  "get_nsec s =
     (case s of
        c # d # ds \<Rightarrow>
          if (c = CHR ''.'' \<or> c = CHR '','') \<and> is_digit d
          then let digits = takeWhile is_digit (d # ds); used = take 9 digits
               in (fst (parse_int (used @ replicate (9 - length used) (CHR ''0''))),
                   dropWhile is_digit (d # ds))
          else (0, s)
      | _ \<Rightarrow> (0, s))"

definition is_leap :: "int \<Rightarrow> bool" where
  "is_leap y \<longleftrightarrow> y mod 4 = 0 \<and> (y mod 100 \<noteq> 0 \<or> y mod 400 = 0)"

definition days_in :: "int \<Rightarrow> int \<Rightarrow> int" where
  "days_in m y =
     (if m = 2 then if is_leap y then 29 else 28 else if m \<in> {4, 6, 9, 11} then 30 else 31)"

definition time_parse :: "char \<Rightarrow> string \<Rightarrow> go_time option" where
  "time_parse sep s0 =
     Option.bind (get_year s0) (\<lambda>(year, s1).
     Option.bind (skip_byte (CHR ''-'') s1) (\<lambda>s2.
     Option.bind (in_range 1 12 (getnum True s2)) (\<lambda>(month, s3).
     Option.bind (skip_byte (CHR ''-'') s3) (\<lambda>s4.
     Option.bind (getnum True s4) (\<lambda>(day, s5).
     Option.bind (skip_byte sep s5) (\<lambda>s6.
     Option.bind (in_range 0 23 (getnum False s6)) (\<lambda>(hour, s7).
     Option.bind (skip_byte (CHR '':'') s7) (\<lambda>s8.
     Option.bind (in_range 0 59 (getnum True s8)) (\<lambda>(minute, s9).
     Option.bind (skip_byte (CHR '':'') s9) (\<lambda>s10.
     Option.bind (in_range 0 59 (getnum True s10)) (\<lambda>(sec, s11).
     let (nsec, s12) = get_nsec s11 in
       if s12 \<noteq> [] \<or> day < 1 \<or> days_in month year < day then None
       else Some \<lparr>t_year = year, t_month = month, t_day = day, t_hour = hour,
                  t_minute = minute, t_second = sec, t_nsec = nsec\<rparr>)))))))))))"

definition valid_time :: "go_time \<Rightarrow> bool" where
  "valid_time t \<longleftrightarrow> 1 \<le> t_month t \<and> t_month t \<le> 12 \<and> 1 \<le> t_day t \<and>
     t_day t \<le> days_in (t_month t) (t_year t) \<and> 0 \<le> t_hour t \<and> t_hour t \<le> 23 \<and>
     0 \<le> t_minute t \<and> t_minute t \<le> 59 \<and> 0 \<le> t_second t \<and> t_second t \<le> 59"

lemma in_range_Some: "in_range lo hi r = Some (n, s) \<longleftrightarrow> r = Some (n, s) \<and> lo \<le> n \<and> n \<le> hi"
  by (auto simp: in_range_def split: option.splits if_splits)

lemma time_parse_valid: "time_parse sep s = Some t \<Longrightarrow> valid_time t"
  unfolding time_parse_def
  by (auto simp: valid_time_def in_range_Some Let_def bind_eq_Some_conv case_prod_unfold
      split: if_splits)

lemma valid_zero_time: "valid_time zero_time"
  by (simp add: valid_time_def zero_time_def days_in_def)

definition millisecond :: int64 where
  "millisecond = 1000000"

end
