(* ===== verification/Events.thy ===== *)
theory Events
  imports Event_Attrs Go_Time
begin

text \<open>
  The asynchronous events of \<open>control/cmd_event.go\<close>: their codes, one record per event type,
  one parser per type, and \<open>ParseEvent\<close>, which picks the parser. A parser never fails: text
  it cannot read leaves the zero value. A field of Go type \<open>int64\<close> or \<open>time.Duration\<close> is a
  64-bit word, \<open>int\<close> the integer \<open>Atoi\<close> returns; a map is a partial function, with \<open>None\<close>
  around it for Go's nil map. A \<open>float32\<close> is kept as the text that \<open>strconv.ParseFloat\<close>
  reads, since the program computes nothing with it.
\<close>

section \<open>Event codes\<close>

type_synonym EventCode = string

definition recognizedEventCodes :: "EventCode list" where
  "recognizedEventCodes =
     [''ADDRMAP'', ''BW'', ''BUILDTIMEOUT_SET'', ''CELL_STATS'', ''CIRC'', ''CIRC_BW'',
      ''CIRC_MINOR'', ''CLIENTS_SEEN'', ''CONF_CHANGED'', ''CONN_BW'', ''DESCCHANGED'', ''GUARD'',
      ''HS_DESC'', ''HS_DESC_CONTENT'', ''DEBUG'', ''ERR'', ''INFO'', ''NOTICE'', ''WARN'',
      ''NETWORK_LIVENESS'', ''NS'', ''NEWCONSENSUS'', ''NEWDESC'', ''ORCONN'', ''SIGNAL'',
      ''STATUS_CLIENT'', ''STATUS_GENERAL'', ''STATUS_SERVER'', ''STREAM'', ''STREAM_BW'',
      ''TB_EMPTY'', ''TRANSPORT_LAUNCHED'']"

definition EventCodeUnrecognized :: EventCode where
  "EventCodeUnrecognized = ''<unrecognized>''"

definition mapEventCodes :: "EventCode set" where
  "mapEventCodes = set recognizedEventCodes"

definition EventCodes :: "EventCode list" where
  "EventCodes = recognizedEventCodes"

section \<open>Helpers of the parsers\<close>

definition parseISOTime :: "string \<Rightarrow> go_time" where
  "parseISOTime str = (case time_parse (CHR '' '') str of Some t \<Rightarrow> t | None \<Rightarrow> zero_time)"

definition parseISOTime2Frac :: "string \<Rightarrow> go_time" where
  "parseISOTime2Frac str = (case time_parse (CHR ''T'') str of Some t \<Rightarrow> t | None \<Rightarrow> zero_time)"

datatype float32 = FloatZero | Float32OfText string

text \<open>\<open>val, _ = Unescape...(val)\<close>: an error leaves the empty string.\<close>

definition unquoted :: "string \<Rightarrow> string" where
  "unquoted s = (case UnescapeSimpleQuotedString s of Inr t \<Rightarrow> t | Inl _ \<Rightarrow> [])"

definition unquoted_if_needed :: "string \<Rightarrow> string" where
  "unquoted_if_needed s = (case UnescapeSimpleQuotedStringIfNeeded s of Inr t \<Rightarrow> t | Inl _ \<Rightarrow> [])"

text \<open>The closures \<open>strToMap\<close> and \<open>toIntMap\<close>, which differ in the byte after the key.\<close>

definition int_map :: "char \<Rightarrow> string \<Rightarrow> string \<rightharpoonup> int" where
  "int_map sep str =
     fold (\<lambda>kv m. let (key, val, _) = PartitionString kv sep in m(key \<mapsto> atoi_val val))
       (split_byte str (CHR '','')) Map.empty"

section \<open>CIRC\<close>

record CircuitEvent =
  circ_Raw :: string
  circ_CircuitID :: string
  circ_Status :: string
  circ_Path :: "string list"
  circ_BuildFlags :: "string list"
  circ_Purpose :: string
  circ_HSState :: string
  circ_RendQuery :: string
  circ_TimeCreated :: go_time
  circ_Reason :: string
  circ_RemoteReason :: string
  circ_SocksUsername :: string
  circ_SocksPassword :: string

definition circuit_attr :: "string \<Rightarrow> string \<Rightarrow> CircuitEvent \<times> bool \<Rightarrow> CircuitEvent \<times> bool" where
  "circuit_attr key val = (\<lambda>(event, first).
     (if key = ''BUILD_FLAGS'' then event\<lparr>circ_BuildFlags := split_byte val (CHR '','')\<rparr>
      else if key = ''PURPOSE'' then event\<lparr>circ_Purpose := val\<rparr>
      else if key = ''HS_STATE'' then event\<lparr>circ_HSState := val\<rparr>
      else if key = ''REND_QUERY'' then event\<lparr>circ_RendQuery := val\<rparr>
      else if key = ''TIME_CREATED'' then event\<lparr>circ_TimeCreated := parseISOTime2Frac val\<rparr>
      else if key = ''REASON'' then event\<lparr>circ_Reason := val\<rparr>
      else if key = ''REMOTE_REASON'' then event\<lparr>circ_RemoteReason := val\<rparr>
      else if key = ''SOCKS_USERNAME'' then event\<lparr>circ_SocksUsername := val\<rparr>
      else if key = ''SOCKS_PASSWORD'' then event\<lparr>circ_SocksPassword := val\<rparr>
      else if first then event\<lparr>circ_Path := split_byte val (CHR '','')\<rparr>
      else event, False))"

definition ParseCircuitEvent :: "string \<Rightarrow> CircuitEvent" where
  "ParseCircuitEvent raw0 =
     (let (CircuitID, raw, _) = PartitionString raw0 (CHR '' '');
          (Status, raw, ok) = PartitionString raw (CHR '' '');
          event = \<lparr>circ_Raw = raw0, circ_CircuitID = CircuitID, circ_Status = Status, circ_Path = [],
                   circ_BuildFlags = [], circ_Purpose = [], circ_HSState = [], circ_RendQuery = [],
                   circ_TimeCreated = zero_time, circ_Reason = [], circ_RemoteReason = [],
                   circ_SocksUsername = [], circ_SocksPassword = []\<rparr>
      in fst (attr_loop (on_key_val circuit_attr) ok raw (event, True)))"

section \<open>STREAM\<close>

record StreamEvent =
  stream_Raw :: string
  stream_StreamID :: string
  stream_Status :: string
  stream_CircuitID :: string
  stream_TargetAddress :: string
  stream_TargetPort :: int
  stream_Reason :: string
  stream_RemoteReason :: string
  stream_Source :: string
  stream_SourceAddress :: string
  stream_SourcePort :: int
  stream_Purpose :: string

definition stream_attr :: "string \<Rightarrow> string \<Rightarrow> StreamEvent \<Rightarrow> StreamEvent" where
  "stream_attr key val event =
     (if key = ''REASON'' then event\<lparr>stream_Reason := val\<rparr>
      else if key = ''REMOTE_REASON'' then event\<lparr>stream_RemoteReason := val\<rparr>
      else if key = ''SOURCE'' then event\<lparr>stream_Source := val\<rparr>
      else if key = ''SOURCE_ADDR'' then
        let event = event\<lparr>stream_SourceAddress := val\<rparr>;
            (source, port, hasPort) = PartitionStringFromEnd val (CHR '':'')
        in if hasPort then event\<lparr>stream_SourceAddress := source, stream_SourcePort := atoi_val port\<rparr>
           else event
      else if key = ''PURPOSE'' then event\<lparr>stream_Purpose := val\<rparr>
      else event)"

definition ParseStreamEvent :: "string \<Rightarrow> StreamEvent" where
  "ParseStreamEvent raw0 =
     (let (StreamID, raw, _) = PartitionString raw0 (CHR '' '');
          (Status, raw, _) = PartitionString raw (CHR '' '');
          (CircuitID, raw, _) = PartitionString raw (CHR '' '');
          (TargetAddress, raw, ok) = PartitionString raw (CHR '' '');
          (target, port, hasPort) = PartitionStringFromEnd TargetAddress (CHR '':'');
          event = \<lparr>stream_Raw = raw0, stream_StreamID = StreamID, stream_Status = Status,
                   stream_CircuitID = CircuitID,
                   stream_TargetAddress = (if hasPort then target else TargetAddress),
                   stream_TargetPort = (if hasPort then atoi_val port else 0),
                   stream_Reason = [], stream_RemoteReason = [], stream_Source = [],
                   stream_SourceAddress = [], stream_SourcePort = 0, stream_Purpose = []\<rparr>
      in attr_loop (on_key_val stream_attr) ok raw event)"

section \<open>ORCONN, BW, the log events, NEWDESC\<close>

record ORConnEvent =
  orconn_Raw :: string
  orconn_Target :: string
  orconn_Status :: string
  orconn_Reason :: string
  orconn_NumCircuits :: int
  orconn_ConnID :: string

definition orconn_attr :: "string \<Rightarrow> string \<Rightarrow> ORConnEvent \<Rightarrow> ORConnEvent" where
  "orconn_attr key val event =
     (if key = ''REASON'' then event\<lparr>orconn_Reason := val\<rparr>
      else if key = ''NCIRCS'' then event\<lparr>orconn_NumCircuits := atoi_val val\<rparr>
      else if key = ''ID'' then event\<lparr>orconn_ConnID := val\<rparr>
      else event)"

definition ParseORConnEvent :: "string \<Rightarrow> ORConnEvent" where
  "ParseORConnEvent raw0 =
     (let (Target, raw, _) = PartitionString raw0 (CHR '' '');
          (Status, raw, ok) = PartitionString raw (CHR '' '');
          event = \<lparr>orconn_Raw = raw0, orconn_Target = Target, orconn_Status = Status,
                   orconn_Reason = [], orconn_NumCircuits = 0, orconn_ConnID = []\<rparr>
      in attr_loop (on_key_val orconn_attr) ok raw event)"

record BandwidthEvent =
  bw_Raw :: string
  bw_BytesRead :: int64
  bw_BytesWritten :: int64

definition ParseBandwidthEvent :: "string \<Rightarrow> BandwidthEvent" where
  "ParseBandwidthEvent raw0 =
     (let (temp, raw, _) = PartitionString raw0 (CHR '' '');
          BytesRead = int64_val temp;
          (temp, raw, _) = PartitionString raw (CHR '' '')
      in \<lparr>bw_Raw = raw0, bw_BytesRead = BytesRead, bw_BytesWritten = int64_val temp\<rparr>)"

record LogEvent =
  log_Severity :: EventCode
  log_Raw :: string

definition ParseLogEvent :: "EventCode \<Rightarrow> string \<Rightarrow> LogEvent" where
  "ParseLogEvent severity raw = \<lparr>log_Severity = severity, log_Raw = raw\<rparr>"

record NewDescEvent =
  newdesc_Raw :: string
  newdesc_Descs :: "string list"

definition ParseNewDescEvent :: "string \<Rightarrow> NewDescEvent" where
  "ParseNewDescEvent raw = \<lparr>newdesc_Raw = raw, newdesc_Descs = split_byte raw (CHR '' '')\<rparr>"

section \<open>ADDRMAP, DESCCHANGED, the status events, GUARD, NS\<close>

record AddrMapEvent =
  addrmap_Raw :: string
  addrmap_Address :: string
  addrmap_NewAddress :: string
  addrmap_ErrorCode :: string
  addrmap_Expires :: go_time
  addrmap_Cached :: string

definition addrmap_attr :: "string \<Rightarrow> string \<Rightarrow> AddrMapEvent \<Rightarrow> AddrMapEvent" where
  "addrmap_attr key val event =
     (if key = ''error'' then event\<lparr>addrmap_ErrorCode := val\<rparr>
      else if key = ''EXPIRES'' then event\<lparr>addrmap_Expires := parseISOTime (unquoted val)\<rparr>
      else if key = ''CACHED'' then event\<lparr>addrmap_Cached := unquoted_if_needed val\<rparr>
      else event)"

definition ParseAddrMapEvent :: "string \<Rightarrow> AddrMapEvent" where
  "ParseAddrMapEvent raw0 =
     (let (Address, raw, _) = PartitionString raw0 (CHR '' '');
          (NewAddress, raw, _) = PartitionString raw (CHR '' '');
          (_, raw, ok) = PartitionString raw (CHR '' '');
          event = \<lparr>addrmap_Raw = raw0, addrmap_Address = Address, addrmap_NewAddress = NewAddress,
                   addrmap_ErrorCode = [], addrmap_Expires = zero_time, addrmap_Cached = []\<rparr>
      in attr_loop (on_key_val addrmap_attr) ok raw event)"

record DescChangedEvent =
  descchanged_Raw :: string

definition ParseDescChangedEvent :: "string \<Rightarrow> DescChangedEvent" where
  "ParseDescChangedEvent raw = \<lparr>descchanged_Raw = raw\<rparr>"

record StatusEvent =
  status_Raw :: string
  status_Type :: EventCode
  status_Severity :: string
  status_Action :: string
  status_Arguments :: "string \<rightharpoonup> string"

definition status_attr :: "string \<Rightarrow> string \<Rightarrow> StatusEvent \<Rightarrow> StatusEvent" where
  "status_attr key val event =
     event\<lparr>status_Arguments := (status_Arguments event)(key \<mapsto> unquoted_if_needed val)\<rparr>"

definition ParseStatusEvent :: "EventCode \<Rightarrow> string \<Rightarrow> StatusEvent" where
  "ParseStatusEvent typ raw0 =
     (let (Severity, raw, _) = PartitionString raw0 (CHR '' '');
          (Action, raw, ok) = PartitionString raw (CHR '' '');
          event = \<lparr>status_Raw = raw0, status_Type = typ, status_Severity = Severity,
                   status_Action = Action, status_Arguments = Map.empty\<rparr>
      in attr_loop (on_key_val status_attr) ok raw event)"

record GuardEvent =
  guard_Raw :: string
  guard_Type :: string
  guard_Name :: string
  guard_Status :: string

definition ParseGuardEvent :: "string \<Rightarrow> GuardEvent" where
  "ParseGuardEvent raw0 =
     (let (Type, raw, _) = PartitionString raw0 (CHR '' '');
          (Name, raw, _) = PartitionString raw (CHR '' '');
          (Status, raw, _) = PartitionString raw (CHR '' '')
      in \<lparr>guard_Raw = raw0, guard_Type = Type, guard_Name = Name, guard_Status = Status\<rparr>)"

record NetworkStatusEvent =
  ns_Raw :: string

definition ParseNetworkStatusEvent :: "string \<Rightarrow> NetworkStatusEvent" where
  "ParseNetworkStatusEvent raw = \<lparr>ns_Raw = raw\<rparr>"

section \<open>STREAM_BW, CLIENTS_SEEN, NEWCONSENSUS\<close>

record StreamBandwidthEvent =
  streambw_Raw :: string
  streambw_BytesRead :: int64
  streambw_BytesWritten :: int64
  streambw_Time :: go_time

definition ParseStreamBandwidthEvent :: "string \<Rightarrow> StreamBandwidthEvent" where
  "ParseStreamBandwidthEvent raw0 =
     (let (temp, raw, _) = PartitionString raw0 (CHR '' '');
          BytesRead = int64_val temp;
          (temp, raw, _) = PartitionString raw (CHR '' '');
          BytesWritten = int64_val temp;
          (temp, raw, _) = PartitionString raw (CHR '' '')
      in \<lparr>streambw_Raw = raw0, streambw_BytesRead = BytesRead, streambw_BytesWritten = BytesWritten,
          streambw_Time = parseISOTime2Frac (unquoted temp)\<rparr>)"

record ClientsSeenEvent =
  clients_Raw :: string
  clients_TimeStarted :: go_time
  clients_CountrySummary :: "(string \<rightharpoonup> int) option"
  clients_IPVersions :: "(string \<rightharpoonup> int) option"

definition clients_attr :: "string \<Rightarrow> string \<Rightarrow> ClientsSeenEvent \<Rightarrow> ClientsSeenEvent" where
  "clients_attr key val event =
     (if key = ''CountrySummary'' then event\<lparr>clients_CountrySummary := Some (int_map (CHR ''='') val)\<rparr>
      else if key = ''IPVersions'' then event\<lparr>clients_IPVersions := Some (int_map (CHR ''='') val)\<rparr>
      else event)"

definition ParseClientsSeenEvent :: "string \<Rightarrow> ClientsSeenEvent" where
  "ParseClientsSeenEvent raw0 =
     (let (temp, raw, ok) = PartitionString raw0 (CHR '' '');
          event = \<lparr>clients_Raw = raw0, clients_TimeStarted = parseISOTime (unquoted temp),
                   clients_CountrySummary = None, clients_IPVersions = None\<rparr>
      in attr_loop (on_key_val clients_attr) ok raw event)"

record NewConsensusEvent =
  newconsensus_Raw :: string

definition ParseNewConsensusEvent :: "string \<Rightarrow> NewConsensusEvent" where
  "ParseNewConsensusEvent raw = \<lparr>newconsensus_Raw = raw\<rparr>"

section \<open>BUILDTIMEOUT_SET, SIGNAL, CONF_CHANGED\<close>

record BuildTimeoutSetEvent =
  build_Raw :: string
  build_Type :: string
  build_TotalTimes :: int
  build_Timeout :: int64
  build_Xm :: int
  build_Alpha :: float32
  build_Quantile :: float32
  build_TimeoutRate :: float32
  build_CloseTimeout :: int64
  build_CloseRate :: float32

definition build_attr :: "string \<Rightarrow> string \<Rightarrow> BuildTimeoutSetEvent \<Rightarrow> BuildTimeoutSetEvent" where
  "build_attr key val event =
     (if key = ''TOTAL_TIMES'' then event\<lparr>build_TotalTimes := atoi_val val\<rparr>
      else if key = ''TIMEOUT_MS'' then
        (case ParseInt64 val of
           (ms, None) \<Rightarrow> event\<lparr>build_Timeout := ms * millisecond\<rparr> | (_, Some _) \<Rightarrow> event)
      else if key = ''XM'' then event\<lparr>build_Xm := atoi_val val\<rparr>
      else if key = ''ALPHA'' then event\<lparr>build_Alpha := Float32OfText val\<rparr>
      else if key = ''CUTOFF_QUANTILE'' then event\<lparr>build_Quantile := Float32OfText val\<rparr>
      else if key = ''TIMEOUT_RATE'' then event\<lparr>build_TimeoutRate := Float32OfText val\<rparr>
      else if key = ''CLOSE_MS'' then
        (case ParseInt64 val of
           (ms, None) \<Rightarrow> event\<lparr>build_CloseTimeout := ms * millisecond\<rparr> | (_, Some _) \<Rightarrow> event)
      else if key = ''CLOSE_RATE'' then event\<lparr>build_CloseRate := Float32OfText val\<rparr>
      else event)"

definition ParseBuildTimeoutSetEvent :: "string \<Rightarrow> BuildTimeoutSetEvent" where
  "ParseBuildTimeoutSetEvent raw0 =
     (let (Type, raw, ok) = PartitionString raw0 (CHR '' '');
          (_, raw, ok) = PartitionString raw (CHR '' '');
          event = \<lparr>build_Raw = raw0, build_Type = Type, build_TotalTimes = 0, build_Timeout = 0,
                   build_Xm = 0, build_Alpha = FloatZero, build_Quantile = FloatZero,
                   build_TimeoutRate = FloatZero, build_CloseTimeout = 0, build_CloseRate = FloatZero\<rparr>
      in attr_loop (on_key_val build_attr) ok raw event)"

record SignalEvent =
  signal_Raw :: string

definition ParseSignalEvent :: "string \<Rightarrow> SignalEvent" where
  "ParseSignalEvent raw = \<lparr>signal_Raw = raw\<rparr>"

record ConfChangedEvent =
  confchanged_Raw :: "string list"

definition ParseConfChangedEvent :: "string list \<Rightarrow> ConfChangedEvent" where
  "ParseConfChangedEvent raw = \<lparr>confchanged_Raw = raw\<rparr>"

section \<open>CIRC_MINOR, TRANSPORT_LAUNCHED\<close>

record CircuitMinorEvent =
  minor_Raw :: string
  minor_CircuitID :: string
  minor_Event :: string
  minor_Path :: "string list"
  minor_BuildFlags :: "string list"
  minor_Purpose :: string
  minor_HSState :: string
  minor_RendQuery :: string
  minor_TimeCreated :: go_time
  minor_OldPurpose :: string
  minor_OldHSState :: string

definition minor_attr :: "string \<Rightarrow> string \<Rightarrow> CircuitMinorEvent \<times> bool \<Rightarrow> CircuitMinorEvent \<times> bool" where
  "minor_attr key val = (\<lambda>(event, first).
     (if key = ''BUILD_FLAGS'' then event\<lparr>minor_BuildFlags := split_byte val (CHR '','')\<rparr>
      else if key = ''PURPOSE'' then event\<lparr>minor_Purpose := val\<rparr>
      else if key = ''HS_STATE'' then event\<lparr>minor_HSState := val\<rparr>
      else if key = ''REND_QUERY'' then event\<lparr>minor_RendQuery := val\<rparr>
      else if key = ''TIME_CREATED'' then event\<lparr>minor_TimeCreated := parseISOTime2Frac val\<rparr>
      else if key = ''OLD_PURPOSE'' then event\<lparr>minor_OldPurpose := val\<rparr>
      else if key = ''OLD_HS_STATE'' then event\<lparr>minor_OldHSState := val\<rparr>
      else if first then event\<lparr>minor_Path := split_byte val (CHR '','')\<rparr>
      else event, False))"

definition ParseCircuitMinorEvent :: "string \<Rightarrow> CircuitMinorEvent" where
  "ParseCircuitMinorEvent raw0 =
     (let (CircuitID, raw, _) = PartitionString raw0 (CHR '' '');
          (Event, raw, ok) = PartitionString raw (CHR '' '');
          event = \<lparr>minor_Raw = raw0, minor_CircuitID = CircuitID, minor_Event = Event, minor_Path = [],
                   minor_BuildFlags = [], minor_Purpose = [], minor_HSState = [], minor_RendQuery = [],
                   minor_TimeCreated = zero_time, minor_OldPurpose = [], minor_OldHSState = []\<rparr>
      in fst (attr_loop (on_key_val minor_attr) ok raw (event, True)))"

record TransportLaunchedEvent =
  transport_Raw :: string
  transport_Type :: string
  transport_Name :: string
  transport_Address :: string
  transport_Port :: int

definition ParseTransportLaunchedEvent :: "string \<Rightarrow> TransportLaunchedEvent" where
  "ParseTransportLaunchedEvent raw0 =
     (let (Type, raw, _) = PartitionString raw0 (CHR '' '');
          (Name, raw, _) = PartitionString raw (CHR '' '');
          (Address, raw, _) = PartitionString raw (CHR '' '');
          (temp, raw, _) = PartitionString raw (CHR '' '')
      in \<lparr>transport_Raw = raw0, transport_Type = Type, transport_Name = Name,
          transport_Address = Address, transport_Port = atoi_val temp\<rparr>)"

section \<open>CONN_BW, CIRC_BW, CELL_STATS, TB_EMPTY\<close>

record ConnBandwidthEvent =
  connbw_Raw :: string
  connbw_ConnID :: string
  connbw_ConnType :: string
  connbw_BytesRead :: int64
  connbw_BytesWritten :: int64

definition connbw_attr :: "string \<Rightarrow> string \<Rightarrow> ConnBandwidthEvent \<Rightarrow> ConnBandwidthEvent" where
  "connbw_attr key val event =
     (if key = ''ID'' then event\<lparr>connbw_ConnID := val\<rparr>
      else if key = ''TYPE'' then event\<lparr>connbw_ConnType := val\<rparr>
      else if key = ''READ'' then event\<lparr>connbw_BytesRead := int64_val val\<rparr>
      else if key = ''WRITTEN'' then event\<lparr>connbw_BytesWritten := int64_val val\<rparr>
      else event)"

definition ParseConnBandwidthEvent :: "string \<Rightarrow> ConnBandwidthEvent" where
  "ParseConnBandwidthEvent raw0 =
     attr_loop (on_key_val connbw_attr) True raw0
       \<lparr>connbw_Raw = raw0, connbw_ConnID = [], connbw_ConnType = [],
        connbw_BytesRead = 0, connbw_BytesWritten = 0\<rparr>"

record CircuitBandwidthEvent =
  circbw_Raw :: string
  circbw_CircuitID :: string
  circbw_BytesRead :: int64
  circbw_BytesWritten :: int64
  circbw_Time :: go_time

definition circbw_attr :: "string \<Rightarrow> string \<Rightarrow> CircuitBandwidthEvent \<Rightarrow> CircuitBandwidthEvent" where
  "circbw_attr key val event =
     (if key = ''ID'' then event\<lparr>circbw_CircuitID := val\<rparr>
      else if key = ''READ'' then event\<lparr>circbw_BytesRead := int64_val val\<rparr>
      else if key = ''WRITTEN'' then event\<lparr>circbw_BytesWritten := int64_val val\<rparr>
      else if key = ''TIME'' then event\<lparr>circbw_Time := parseISOTime2Frac val\<rparr>
      else event)"

definition ParseCircuitBandwidthEvent :: "string \<Rightarrow> CircuitBandwidthEvent" where
  "ParseCircuitBandwidthEvent raw0 =
     attr_loop (on_key_val circbw_attr) True raw0
       \<lparr>circbw_Raw = raw0, circbw_CircuitID = [], circbw_BytesRead = 0,
        circbw_BytesWritten = 0, circbw_Time = zero_time\<rparr>"

record CellStatsEvent =
  cell_Raw :: string
  cell_CircuitID :: string
  cell_InboundQueueID :: string
  cell_InboundConnID :: string
  cell_InboundAdded :: "(string \<rightharpoonup> int) option"
  cell_InboundRemoved :: "(string \<rightharpoonup> int) option"
  cell_InboundTime :: "(string \<rightharpoonup> int) option"
  cell_OutboundQueueID :: string
  cell_OutboundConnID :: string
  cell_OutboundAdded :: "(string \<rightharpoonup> int) option"
  cell_OutboundRemoved :: "(string \<rightharpoonup> int) option"
  cell_OutboundTime :: "(string \<rightharpoonup> int) option"

text \<open>As in the source, both time attributes set the outbound time.\<close>

definition cell_attr :: "string \<Rightarrow> string \<Rightarrow> CellStatsEvent \<Rightarrow> CellStatsEvent" where
  "cell_attr key val event =
     (let toIntMap = \<lambda>val. Some (int_map (CHR '':'') val) in
      if key = ''ID'' then event\<lparr>cell_CircuitID := val\<rparr>
      else if key = ''InboundQueue'' then event\<lparr>cell_InboundQueueID := val\<rparr>
      else if key = ''InboundConn'' then event\<lparr>cell_InboundConnID := val\<rparr>
      else if key = ''InboundAdded'' then event\<lparr>cell_InboundAdded := toIntMap val\<rparr>
      else if key = ''InboundRemoved'' then event\<lparr>cell_InboundRemoved := toIntMap val\<rparr>
      else if key = ''InboundTime'' then event\<lparr>cell_OutboundTime := toIntMap val\<rparr>
      else if key = ''OutboundQueue'' then event\<lparr>cell_OutboundQueueID := val\<rparr>
      else if key = ''OutboundConn'' then event\<lparr>cell_OutboundConnID := val\<rparr>
      else if key = ''OutboundAdded'' then event\<lparr>cell_OutboundAdded := toIntMap val\<rparr>
      else if key = ''OutboundRemoved'' then event\<lparr>cell_OutboundRemoved := toIntMap val\<rparr>
      else if key = ''OutboundTime'' then event\<lparr>cell_OutboundTime := toIntMap val\<rparr>
      else event)"

definition ParseCellStatsEvent :: "string \<Rightarrow> CellStatsEvent" where
  "ParseCellStatsEvent raw0 =
     attr_loop (on_key_val cell_attr) True raw0
       \<lparr>cell_Raw = raw0, cell_CircuitID = [], cell_InboundQueueID = [], cell_InboundConnID = [],
        cell_InboundAdded = None, cell_InboundRemoved = None, cell_InboundTime = None,
        cell_OutboundQueueID = [], cell_OutboundConnID = [], cell_OutboundAdded = None,
        cell_OutboundRemoved = None, cell_OutboundTime = None\<rparr>"

record TokenBucketEmptyEvent =
  tb_Raw :: string
  tb_BucketName :: string
  tb_ConnID :: string
  tb_ReadBucketEmpty :: int64
  tb_WriteBucketEmpty :: int64
  tb_LastRefil :: int64

definition tb_attr :: "string \<Rightarrow> string \<Rightarrow> TokenBucketEmptyEvent \<Rightarrow> TokenBucketEmptyEvent" where
  "tb_attr key val event =
     (if key = ''ID'' then event\<lparr>tb_ConnID := val\<rparr>
      else if key = ''READ'' then event\<lparr>tb_ReadBucketEmpty := int64_val val * millisecond\<rparr>
      else if key = ''WRITTEN'' then event\<lparr>tb_WriteBucketEmpty := int64_val val * millisecond\<rparr>
      else if key = ''LAST'' then event\<lparr>tb_LastRefil := int64_val val * millisecond\<rparr>
      else event)"

definition ParseTokenBucketEmptyEvent :: "string \<Rightarrow> TokenBucketEmptyEvent" where
  "ParseTokenBucketEmptyEvent raw0 =
     (let (BucketName, raw, ok) = PartitionString raw0 (CHR '' '');
          event = \<lparr>tb_Raw = raw0, tb_BucketName = BucketName, tb_ConnID = [],
                   tb_ReadBucketEmpty = 0, tb_WriteBucketEmpty = 0, tb_LastRefil = 0\<rparr>
      in attr_loop (on_key_val tb_attr) ok raw event)"

section \<open>HS_DESC, HS_DESC_CONTENT, NETWORK_LIVENESS, unrecognized events\<close>

record HSDescEvent =
  hsdesc_Raw :: string
  hsdesc_Action :: string
  hsdesc_Address :: string
  hsdesc_AuthType :: string
  hsdesc_HSDir :: string
  hsdesc_DescID :: string
  hsdesc_Reason :: string
  hsdesc_Replica :: int
  hsdesc_HSDirIndex :: string

definition hsdesc_attr :: "string \<Rightarrow> HSDescEvent \<times> bool \<Rightarrow> HSDescEvent \<times> bool" where
  "hsdesc_attr attr = (\<lambda>(event, first).
     let (key, val, valOk) = PartitionString attr (CHR ''='') in
     (if key = ''REASON'' then event\<lparr>hsdesc_Reason := val\<rparr>
      else if key = ''REPLICA'' then event\<lparr>hsdesc_Replica := atoi_val val\<rparr>
      else if key = ''HSDIR_INDEX'' then event\<lparr>hsdesc_HSDirIndex := val\<rparr>
      else if first \<and> \<not> valOk then event\<lparr>hsdesc_DescID := attr\<rparr>
      else event, False))"

definition ParseHSDescEvent :: "string \<Rightarrow> HSDescEvent" where
  "ParseHSDescEvent raw0 =
     (let (Action, raw, _) = PartitionString raw0 (CHR '' '');
          (Address, raw, _) = PartitionString raw (CHR '' '');
          (AuthType, raw, _) = PartitionString raw (CHR '' '');
          (HSDir, raw, ok) = PartitionString raw (CHR '' '');
          event = \<lparr>hsdesc_Raw = raw0, hsdesc_Action = Action, hsdesc_Address = Address,
                   hsdesc_AuthType = AuthType, hsdesc_HSDir = HSDir, hsdesc_DescID = [],
                   hsdesc_Reason = [], hsdesc_Replica = 0, hsdesc_HSDirIndex = []\<rparr>
      in fst (attr_loop hsdesc_attr ok raw (event, True)))"

record HSDescContentEvent =
  hscontent_Raw :: string
  hscontent_Address :: string
  hscontent_DescID :: string
  hscontent_HSDir :: string
  hscontent_Descriptor :: string

definition ParseHSDescContentEvent :: "string \<Rightarrow> HSDescContentEvent" where
  "ParseHSDescContentEvent raw0 =
     (let (Address, raw, _) = PartitionString raw0 (CHR '' '');
          (DescID, raw, _) = PartitionString raw (CHR '' '');
          event = \<lparr>hscontent_Raw = raw0, hscontent_Address = Address, hscontent_DescID = DescID,
                   hscontent_HSDir = [], hscontent_Descriptor = []\<rparr>;
          newlineIndex = index_str raw CRLF
      in if newlineIndex \<noteq> -1
         then event\<lparr>hscontent_HSDir := take (nat newlineIndex) raw,
                    hscontent_Descriptor := drop (nat (newlineIndex + 2)) raw\<rparr>
         else event)"

record NetworkLivenessEvent =
  liveness_Raw :: string

definition ParseNetworkLivenessEvent :: "string \<Rightarrow> NetworkLivenessEvent" where
  "ParseNetworkLivenessEvent raw = \<lparr>liveness_Raw = raw\<rparr>"

record UnrecognizedEvent =
  unrec_EventCode :: EventCode
  unrec_RawSingleLine :: string
  unrec_RawMultiLine :: "string list"

definition ParseUnrecognizedEvent :: "EventCode \<Rightarrow> string \<Rightarrow> string list \<Rightarrow> UnrecognizedEvent" where
  "ParseUnrecognizedEvent eventCode rawSingleLine rawMultiLine =
     \<lparr>unrec_EventCode = eventCode, unrec_RawSingleLine = rawSingleLine, unrec_RawMultiLine = rawMultiLine\<rparr>"

section \<open>The interface type and its parser\<close>

datatype event =
    AddrMapE AddrMapEvent
  | BandwidthE BandwidthEvent
  | BuildTimeoutSetE BuildTimeoutSetEvent
  | CellStatsE CellStatsEvent
  | CircuitE CircuitEvent
  | CircuitBandwidthE CircuitBandwidthEvent
  | CircuitMinorE CircuitMinorEvent
  | ClientsSeenE ClientsSeenEvent
  | ConfChangedE ConfChangedEvent
  | ConnBandwidthE ConnBandwidthEvent
  | DescChangedE DescChangedEvent
  | GuardE GuardEvent
  | HSDescE HSDescEvent
  | HSDescContentE HSDescContentEvent
  | LogE LogEvent
  | NetworkLivenessE NetworkLivenessEvent
  | NetworkStatusE NetworkStatusEvent
  | NewConsensusE NewConsensusEvent
  | NewDescE NewDescEvent
  | ORConnE ORConnEvent
  | SignalE SignalEvent
  | StatusE StatusEvent
  | StreamE StreamEvent
  | StreamBandwidthE StreamBandwidthEvent
  | TokenBucketEmptyE TokenBucketEmptyEvent
  | TransportLaunchedE TransportLaunchedEvent
  | UnrecognizedE UnrecognizedEvent

text \<open>The method \<open>Code\<close> of every event type.\<close>

primrec event_Code :: "event \<Rightarrow> EventCode" where
  "event_Code (AddrMapE e) = ''ADDRMAP''"
| "event_Code (BandwidthE e) = ''BW''"
| "event_Code (BuildTimeoutSetE e) = ''BUILDTIMEOUT_SET''"
| "event_Code (CellStatsE e) = ''CELL_STATS''"
| "event_Code (CircuitE e) = ''CIRC''"
| "event_Code (CircuitBandwidthE e) = ''CIRC_BW''"
| "event_Code (CircuitMinorE e) = ''CIRC_MINOR''"
| "event_Code (ClientsSeenE e) = ''CLIENTS_SEEN''"
| "event_Code (ConfChangedE e) = ''CONF_CHANGED''"
| "event_Code (ConnBandwidthE e) = ''CONN_BW''"
| "event_Code (DescChangedE e) = ''DESCCHANGED''"
| "event_Code (GuardE e) = ''GUARD''"
| "event_Code (HSDescE e) = ''HS_DESC''"
| "event_Code (HSDescContentE e) = ''HS_DESC_CONTENT''"
| "event_Code (LogE e) = log_Severity e"
| "event_Code (NetworkLivenessE e) = ''NETWORK_LIVENESS''"
| "event_Code (NetworkStatusE e) = ''NS''"
| "event_Code (NewConsensusE e) = ''NEWCONSENSUS''"
| "event_Code (NewDescE e) = ''NEWDESC''"
| "event_Code (ORConnE e) = ''ORCONN''"
| "event_Code (SignalE e) = ''SIGNAL''"
| "event_Code (StatusE e) = status_Type e"
| "event_Code (StreamE e) = ''STREAM''"
| "event_Code (StreamBandwidthE e) = ''STREAM_BW''"
| "event_Code (TokenBucketEmptyE e) = ''TB_EMPTY''"
| "event_Code (TransportLaunchedE e) = ''TRANSPORT_LAUNCHED''"
| "event_Code (UnrecognizedE e) = unrec_EventCode e"

definition ParseEvent :: "EventCode \<Rightarrow> string \<Rightarrow> string list \<Rightarrow> event" where
  "ParseEvent code raw dataArray =
     (if code = ''ADDRMAP'' then AddrMapE (ParseAddrMapEvent raw)
      else if code = ''BW'' then BandwidthE (ParseBandwidthEvent raw)
      else if code = ''BUILDTIMEOUT_SET'' then BuildTimeoutSetE (ParseBuildTimeoutSetEvent raw)
      else if code = ''CELL_STATS'' then CellStatsE (ParseCellStatsEvent raw)
      else if code = ''CIRC'' then CircuitE (ParseCircuitEvent raw)
      else if code = ''CIRC_BW'' then CircuitBandwidthE (ParseCircuitBandwidthEvent raw)
      else if code = ''CIRC_MINOR'' then CircuitMinorE (ParseCircuitMinorEvent raw)
      else if code = ''CLIENTS_SEEN'' then ClientsSeenE (ParseClientsSeenEvent raw)
      else if code = ''CONF_CHANGED'' then ConfChangedE (ParseConfChangedEvent dataArray)
      else if code = ''CONN_BW'' then ConnBandwidthE (ParseConnBandwidthEvent raw)
      else if code = ''DESCCHANGED'' then DescChangedE (ParseDescChangedEvent raw)
      else if code = ''GUARD'' then GuardE (ParseGuardEvent raw)
      else if code = ''HS_DESC'' then HSDescE (ParseHSDescEvent raw)
      else if code = ''HS_DESC_CONTENT'' then HSDescContentE (ParseHSDescContentEvent raw)
      else if code \<in> {''DEBUG'', ''ERR'', ''INFO'', ''NOTICE'', ''WARN''} then LogE (ParseLogEvent code raw)
      else if code = ''NETWORK_LIVENESS'' then NetworkLivenessE (ParseNetworkLivenessEvent raw)
      else if code = ''NS'' then NetworkStatusE (ParseNetworkStatusEvent raw)
      else if code = ''NEWCONSENSUS'' then NewConsensusE (ParseNewConsensusEvent raw)
      else if code = ''NEWDESC'' then NewDescE (ParseNewDescEvent raw)
      else if code = ''ORCONN'' then ORConnE (ParseORConnEvent raw)
      else if code = ''SIGNAL'' then SignalE (ParseSignalEvent raw)
      else if code \<in> {''STATUS_CLIENT'', ''STATUS_GENERAL'', ''STATUS_SERVER''}
      then StatusE (ParseStatusEvent code raw)
      else if code = ''STREAM'' then StreamE (ParseStreamEvent raw)
      else if code = ''STREAM_BW'' then StreamBandwidthE (ParseStreamBandwidthEvent raw)
      else if code = ''TB_EMPTY'' then TokenBucketEmptyE (ParseTokenBucketEmptyEvent raw)
      else if code = ''TRANSPORT_LAUNCHED'' then TransportLaunchedE (ParseTransportLaunchedEvent raw)
      else UnrecognizedE (ParseUnrecognizedEvent code raw dataArray))"

text \<open>The payload an event keeps as it came.\<close>

primrec event_raw :: "event \<Rightarrow> string + string list" where
  "event_raw (AddrMapE e) = Inl (addrmap_Raw e)"
| "event_raw (BandwidthE e) = Inl (bw_Raw e)"
| "event_raw (BuildTimeoutSetE e) = Inl (build_Raw e)"
| "event_raw (CellStatsE e) = Inl (cell_Raw e)"
| "event_raw (CircuitE e) = Inl (circ_Raw e)"
| "event_raw (CircuitBandwidthE e) = Inl (circbw_Raw e)"
| "event_raw (CircuitMinorE e) = Inl (minor_Raw e)"
| "event_raw (ClientsSeenE e) = Inl (clients_Raw e)"
| "event_raw (ConfChangedE e) = Inr (confchanged_Raw e)"
| "event_raw (ConnBandwidthE e) = Inl (connbw_Raw e)"
| "event_raw (DescChangedE e) = Inl (descchanged_Raw e)"
| "event_raw (GuardE e) = Inl (guard_Raw e)"
| "event_raw (HSDescE e) = Inl (hsdesc_Raw e)"
| "event_raw (HSDescContentE e) = Inl (hscontent_Raw e)"
| "event_raw (LogE e) = Inl (log_Raw e)"
| "event_raw (NetworkLivenessE e) = Inl (liveness_Raw e)"
| "event_raw (NetworkStatusE e) = Inl (ns_Raw e)"
| "event_raw (NewConsensusE e) = Inl (newconsensus_Raw e)"
| "event_raw (NewDescE e) = Inl (newdesc_Raw e)"
| "event_raw (ORConnE e) = Inl (orconn_Raw e)"
| "event_raw (SignalE e) = Inl (signal_Raw e)"
| "event_raw (StatusE e) = Inl (status_Raw e)"
| "event_raw (StreamE e) = Inl (stream_Raw e)"
| "event_raw (StreamBandwidthE e) = Inl (streambw_Raw e)"
| "event_raw (TokenBucketEmptyE e) = Inl (tb_Raw e)"
| "event_raw (TransportLaunchedE e) = Inl (transport_Raw e)"
| "event_raw (UnrecognizedE e) = Inl (unrec_RawSingleLine e)"

end
