(* ===== verification/Event_Facts.thy ===== *)
theory Event_Facts
  imports Events
begin

text \<open>
  What the event parsers do: every parsed event reports the code and the payload it was
  given, the attributes of an event may come in any order, and the rendering of an event as
  Tor sends it is read back. The last section holds the parsers that lose what they read.
\<close>

section \<open>Parsers of keyed attributes\<close>

text \<open>On unknown keys there is one case, on known keys finitely many.\<close>

lemma attr_parserI:
  assumes "\<And>k v e. k \<notin> known \<Longrightarrow> body k v e = e"
    and "\<forall>k\<in>known. \<forall>k'\<in>known. k \<noteq> k' \<longrightarrow> (\<forall>v v' e. body k v (body k' v' e) = body k' v' (body k v e))"
  shows "attr_parser body known"
proof
  fix k k' :: string and v v' e
  assume "k \<noteq> k'"
  with assms show "body k v (body k' v' e) = body k' v' (body k v e)"
    by (cases "k \<in> known"; cases "k' \<in> known") simp_all
qed (fact assms(1))

lemma overwriting_attr_parserI:
  assumes "attr_parser body known"
    and "\<forall>k\<in>known. \<forall>v v' e. body k v (body k v' e) = body k v e"
  shows "overwriting_attr_parser body known"
  using assms by (auto simp: overwriting_attr_parser_def overwriting_attr_parser_axioms_def
      intro!: ext) (metis attr_parser.ignore)

interpretation orconn: overwriting_attr_parser orconn_attr "{''REASON'', ''NCIRCS'', ''ID''}"
  by (intro overwriting_attr_parserI attr_parserI) (simp_all add: orconn_attr_def)

interpretation addrmap: overwriting_attr_parser addrmap_attr "{''error'', ''EXPIRES'', ''CACHED''}"
  by (intro overwriting_attr_parserI attr_parserI) (simp_all add: addrmap_attr_def)

interpretation clients: overwriting_attr_parser clients_attr "{''CountrySummary'', ''IPVersions''}"
  by (intro overwriting_attr_parserI attr_parserI) (simp_all add: clients_attr_def)

interpretation connbw: overwriting_attr_parser connbw_attr "{''ID'', ''TYPE'', ''READ'', ''WRITTEN''}"
  by (intro overwriting_attr_parserI attr_parserI) (simp_all add: connbw_attr_def)

interpretation circbw: overwriting_attr_parser circbw_attr "{''ID'', ''READ'', ''WRITTEN'', ''TIME''}"
  by (intro overwriting_attr_parserI attr_parserI) (simp_all add: circbw_attr_def)

interpretation tb: overwriting_attr_parser tb_attr "{''ID'', ''READ'', ''WRITTEN'', ''LAST''}"
  by (intro overwriting_attr_parserI attr_parserI) (simp_all add: tb_attr_def)

interpretation status: overwriting_attr_parser status_attr UNIV
  by unfold_locales (simp_all add: status_attr_def fun_upd_twist)

text \<open>A malformed number leaves the timeouts of BUILDTIMEOUT_SET as they were, and a source
  address without a port leaves the port, so there a repeated key need not overwrite; the
  order of different keys still does not matter.\<close>

definition duration_or :: "string \<Rightarrow> int64 \<Rightarrow> int64" where
  "duration_or val old = (case ParseInt64 val of (ms, None) \<Rightarrow> ms * millisecond | (_, Some _) \<Rightarrow> old)"

lemma build_duration:
  "(case ParseInt64 val of (ms, None) \<Rightarrow> e\<lparr>build_Timeout := ms * millisecond\<rparr> | (_, Some _) \<Rightarrow> e) =
     e\<lparr>build_Timeout := duration_or val (build_Timeout e)\<rparr>"
  "(case ParseInt64 val of (ms, None) \<Rightarrow> e\<lparr>build_CloseTimeout := ms * millisecond\<rparr> | (_, Some _) \<Rightarrow> e) =
     e\<lparr>build_CloseTimeout := duration_or val (build_CloseTimeout e)\<rparr>"
  by (simp_all add: duration_or_def split: prod.splits option.splits)

lemma build_attr_keys:
  "build_attr ''TOTAL_TIMES'' v e = e\<lparr>build_TotalTimes := atoi_val v\<rparr>"
  "build_attr ''TIMEOUT_MS'' v e = e\<lparr>build_Timeout := duration_or v (build_Timeout e)\<rparr>"
  "build_attr ''XM'' v e = e\<lparr>build_Xm := atoi_val v\<rparr>"
  "build_attr ''ALPHA'' v e = e\<lparr>build_Alpha := Float32OfText v\<rparr>"
  "build_attr ''CUTOFF_QUANTILE'' v e = e\<lparr>build_Quantile := Float32OfText v\<rparr>"
  "build_attr ''TIMEOUT_RATE'' v e = e\<lparr>build_TimeoutRate := Float32OfText v\<rparr>"
  "build_attr ''CLOSE_MS'' v e = e\<lparr>build_CloseTimeout := duration_or v (build_CloseTimeout e)\<rparr>"
  "build_attr ''CLOSE_RATE'' v e = e\<lparr>build_CloseRate := Float32OfText v\<rparr>"
  by (simp_all add: build_attr_def build_duration)

interpretation build: attr_parser build_attr
  "{''TOTAL_TIMES'', ''TIMEOUT_MS'', ''XM'', ''ALPHA'', ''CUTOFF_QUANTILE'', ''TIMEOUT_RATE'', ''CLOSE_MS'',
    ''CLOSE_RATE''}"
proof (rule attr_parserI, goal_cases)
  case 1
  then show ?case by (simp add: build_attr_def)
next
  case 2
  show ?case by (simp add: build_attr_keys)
qed

definition host_of :: "string \<Rightarrow> string" where
  "host_of addr = fst (PartitionStringFromEnd addr (CHR '':''))"

definition port_or :: "string \<Rightarrow> int \<Rightarrow> int" where
  "port_or addr old =
     (case PartitionStringFromEnd addr (CHR '':'') of (_, port, hasPort) \<Rightarrow> if hasPort then atoi_val port else old)"

lemma PartitionStringFromEnd_no: "PartitionStringFromEnd s ch = (a, b, False) \<Longrightarrow> a = s"
  by (auto simp: PartitionStringFromEnd_def Let_def split: if_splits)

lemma stream_source:
  "(let e' = e\<lparr>stream_SourceAddress := val\<rparr>; (source, port, hasPort) = PartitionStringFromEnd val (CHR '':'')
    in if hasPort then e'\<lparr>stream_SourceAddress := source, stream_SourcePort := atoi_val port\<rparr> else e') =
   e\<lparr>stream_SourceAddress := host_of val, stream_SourcePort := port_or val (stream_SourcePort e)\<rparr>"
  by (auto simp: host_of_def port_or_def Let_def dest: PartitionStringFromEnd_no split: prod.splits)

lemma stream_attr_keys:
  "stream_attr ''REASON'' v e = e\<lparr>stream_Reason := v\<rparr>"
  "stream_attr ''REMOTE_REASON'' v e = e\<lparr>stream_RemoteReason := v\<rparr>"
  "stream_attr ''SOURCE'' v e = e\<lparr>stream_Source := v\<rparr>"
  "stream_attr ''SOURCE_ADDR'' v e =
     e\<lparr>stream_SourceAddress := host_of v, stream_SourcePort := port_or v (stream_SourcePort e)\<rparr>"
  "stream_attr ''PURPOSE'' v e = e\<lparr>stream_Purpose := v\<rparr>"
  unfolding stream_attr_def stream_source by simp_all

interpretation stream: attr_parser stream_attr
  "{''REASON'', ''REMOTE_REASON'', ''SOURCE'', ''SOURCE_ADDR'', ''PURPOSE''}"
proof (rule attr_parserI, goal_cases)
  case 1
  then show ?case by (simp add: stream_attr_def)
next
  case 2
  show ?case by (simp add: stream_attr_keys)
qed

section \<open>What every event keeps\<close>

lemma fold_keeps_fst: "(\<And>k v e. f (fst (body k v e)) = f (fst e)) \<Longrightarrow>
  f (fst (attr_loop (on_key_val body) ok raw event)) = f (fst event)"
  by (rule attr_loop_keeps [where f = "\<lambda>e. f (fst e)"]) (rule on_key_val_keeps)

lemma fold_keeps: "(\<And>k v e. f (body k v e) = f e) \<Longrightarrow>
  f (attr_loop (on_key_val body) ok raw event) = f event"
  by (intro attr_loop_keeps on_key_val_keeps)

lemma attr_raw [simp]:
  "stream_Raw (stream_attr k v e1) = stream_Raw e1"
  "orconn_Raw (orconn_attr k v e2) = orconn_Raw e2"
  "addrmap_Raw (addrmap_attr k v e3) = addrmap_Raw e3"
  "status_Raw (status_attr k v e4) = status_Raw e4"
  "clients_Raw (clients_attr k v e5) = clients_Raw e5"
  "build_Raw (build_attr k v e6) = build_Raw e6"
  "connbw_Raw (connbw_attr k v e7) = connbw_Raw e7"
  "circbw_Raw (circbw_attr k v e8) = circbw_Raw e8"
  "cell_Raw (cell_attr k v e9) = cell_Raw e9"
  "tb_Raw (tb_attr k v e10) = tb_Raw e10"
  "circ_Raw (fst (circuit_attr k v e11)) = circ_Raw (fst e11)"
  "minor_Raw (fst (minor_attr k v e12)) = minor_Raw (fst e12)"
  "hsdesc_Raw (fst (hsdesc_attr a e13)) = hsdesc_Raw (fst e13)"
  "status_Type (status_attr k v e4) = status_Type e4"
  by (simp_all add: stream_attr_def orconn_attr_def addrmap_attr_def status_attr_def
      clients_attr_def build_attr_def connbw_attr_def circbw_attr_def cell_attr_def tb_attr_def
      circuit_attr_def minor_attr_def hsdesc_attr_def Let_def
      split: prod.splits option.splits)

lemma parsed_raw [simp]:
  "stream_Raw (ParseStreamEvent raw) = raw"
  "orconn_Raw (ParseORConnEvent raw) = raw"
  "addrmap_Raw (ParseAddrMapEvent raw) = raw"
  "status_Raw (ParseStatusEvent ty raw) = raw"
  "clients_Raw (ParseClientsSeenEvent raw) = raw"
  "build_Raw (ParseBuildTimeoutSetEvent raw) = raw"
  "connbw_Raw (ParseConnBandwidthEvent raw) = raw"
  "circbw_Raw (ParseCircuitBandwidthEvent raw) = raw"
  "cell_Raw (ParseCellStatsEvent raw) = raw"
  "tb_Raw (ParseTokenBucketEmptyEvent raw) = raw"
  "circ_Raw (ParseCircuitEvent raw) = raw"
  "minor_Raw (ParseCircuitMinorEvent raw) = raw"
  "hsdesc_Raw (ParseHSDescEvent raw) = raw"
  "status_Type (ParseStatusEvent ty raw) = ty"
  by (simp_all add: ParseStreamEvent_def ParseORConnEvent_def ParseAddrMapEvent_def
      ParseStatusEvent_def ParseClientsSeenEvent_def ParseBuildTimeoutSetEvent_def
      ParseConnBandwidthEvent_def ParseCircuitBandwidthEvent_def ParseCellStatsEvent_def
      ParseTokenBucketEmptyEvent_def ParseCircuitEvent_def ParseCircuitMinorEvent_def
      ParseHSDescEvent_def fold_keeps fold_keeps_fst Let_def
      attr_loop_keeps [where f = "\<lambda>e. hsdesc_Raw (fst e)"]
      split: prod.splits)

lemma parsed_raw_simple [simp]:
  "bw_Raw (ParseBandwidthEvent raw) = raw" "guard_Raw (ParseGuardEvent raw) = raw"
  "streambw_Raw (ParseStreamBandwidthEvent raw) = raw"
  "transport_Raw (ParseTransportLaunchedEvent raw) = raw"
  "hscontent_Raw (ParseHSDescContentEvent raw) = raw"
  "log_Raw (ParseLogEvent code raw) = raw" "log_Severity (ParseLogEvent code raw) = code"
  by (simp_all add: ParseBandwidthEvent_def ParseGuardEvent_def ParseStreamBandwidthEvent_def
      ParseTransportLaunchedEvent_def ParseHSDescContentEvent_def ParseLogEvent_def Let_def
      split: prod.splits)

section \<open>Properties\<close>

text \<open>C23: ParseEvent returns an event for any code and payload; the event reports the code
  it was given and keeps the payload unchanged, the line for all events but CONF_CHANGED,
  which keeps the lines; and it is an unrecognized event exactly for the codes that are not
  in the list of recognized ones.\<close>

theorem parse_event_faithful:
  "event_Code (ParseEvent code raw arr) = code \<and>
   event_raw (ParseEvent code raw arr) = (if code = ''CONF_CHANGED'' then Inr arr else Inl raw) \<and>
   (ParseEvent code raw arr =
      UnrecognizedE \<lparr>unrec_EventCode = code, unrec_RawSingleLine = raw, unrec_RawMultiLine = arr\<rparr>
    \<longleftrightarrow> code \<notin> mapEventCodes)"
  by (simp add: ParseEvent_def mapEventCodes_def recognizedEventCodes_def
      ParseDescChangedEvent_def ParseNetworkStatusEvent_def ParseNewConsensusEvent_def
      ParseNewDescEvent_def ParseSignalEvent_def ParseConfChangedEvent_def
      ParseNetworkLivenessEvent_def ParseUnrecognizedEvent_def)

section \<open>Reading what Tor sends\<close>

lemma itoa_no_separator:
  "CHR '' '' \<notin> set (itoa i)" "CHR '':'' \<notin> set (itoa i)" "CHR '','' \<notin> set (itoa i)" "CHR ''='' \<notin> set (itoa i)"
proof -
  have d: "\<not> is_digit (CHR '' '')" "\<not> is_digit (CHR '':'')" "\<not> is_digit (CHR '','')" "\<not> is_digit (CHR ''='')"
    by code_simp+
  have n: "c \<notin> set (nat_digits k)" if "\<not> is_digit c" for c k
    using nat_digits_is_digit that by blast
  show "CHR '' '' \<notin> set (itoa i)" "CHR '':'' \<notin> set (itoa i)" "CHR '','' \<notin> set (itoa i)" "CHR ''='' \<notin> set (itoa i)"
    using d by (auto simp: itoa_def dest: n)
qed

definition int_ok :: "int \<Rightarrow> bool" where
  "int_ok i \<longleftrightarrow> - (2 ^ 63) \<le> i \<and> i < 2 ^ 63"

lemma atoi_val_itoa [simp]: "int_ok i \<Longrightarrow> atoi_val (itoa i) = i"
  by (simp add: atoi_val_def int_ok_def Atoi_itoa)

lemma int64_val_itoa [simp]: "int64_val (itoa (sint w)) = w"
proof -
  have "sint (int64_val (itoa (sint w))) = sint w"
    using sint_range_size [of w]
    by (simp add: sint_int64_val int_ok_def word_size)
  then show ?thesis by (rule signed_word_eqI)
qed

text \<open>A STREAM event as Tor writes it, with its attributes in any order and any others
  among them, is read back field by field: the target and the source address are split at
  their last colon and their ports are the numbers after it.\<close>

theorem parse_stream_roundtrip:
  assumes words: "\<forall>w\<in>{StreamID, Status, CircuitID, host}. CHR '' '' \<notin> set w"
    and ints: "int_ok port" "int_ok sport"
    and kvs: "\<forall>kv\<in>set kvs. attr_ok kv"
    and known: "mset [kv \<leftarrow> kvs. fst kv \<in> {''REASON'', ''REMOTE_REASON'', ''SOURCE'', ''SOURCE_ADDR'', ''PURPOSE''}] =
      {#(''REASON'', reason), (''REMOTE_REASON'', remote), (''SOURCE'', source),
        (''SOURCE_ADDR'', shost @ '':'' @ itoa sport), (''PURPOSE'', purpose)#}"
  shows "ParseStreamEvent (join [StreamID, Status, CircuitID, host @ '':'' @ itoa port, render_attrs kvs] '' '') =
    \<lparr>stream_Raw = join [StreamID, Status, CircuitID, host @ '':'' @ itoa port, render_attrs kvs] '' '',
     stream_StreamID = StreamID, stream_Status = Status, stream_CircuitID = CircuitID,
     stream_TargetAddress = host, stream_TargetPort = port, stream_Reason = reason,
     stream_RemoteReason = remote, stream_Source = source, stream_SourceAddress = shost,
     stream_SourcePort = sport, stream_Purpose = purpose\<rparr>"
proof -
  let ?kvs = "[(''REASON'', reason), (''REMOTE_REASON'', remote), (''SOURCE'', source),
        (''SOURCE_ADDR'', shost @ '':'' @ itoa sport), (''PURPOSE'', purpose)]"
  have "kvs \<noteq> []" using known by auto
  then have loop: "attr_loop (on_key_val stream_attr) True (render_attrs kvs) e =
      fold (\<lambda>kv. stream_attr (fst kv) (snd kv)) ?kvs e" for e
    using stream.loop_known [OF _ kvs, of ?kvs e] known by simp
  have p: "PartitionStringFromEnd (h @ CHR '':'' # itoa i) CHR '':'' = (h, itoa i, True)" for h i
    by (rule PartitionStringFromEnd_append) (rule itoa_no_separator)
  have w: "PartitionString (a @ CHR '' '' # b) CHR '' '' = (a, b, True)" if "CHR '' '' \<notin> set a" for a b
    using that by (rule PartitionString_append)
  have hp: "CHR '' '' \<notin> set (host @ CHR '':'' # itoa port)" using words by (simp add: itoa_no_separator)
  have hp': "PartitionString (host @ CHR '':'' # itoa port @ CHR '' '' # b) CHR '' '' =
      (host @ CHR '':'' # itoa port, b, True)" for b
    using w [OF hp, of b] by simp
  show ?thesis
    using words ints
    by (simp add: ParseStreamEvent_def w hp' p loop stream_attr_keys host_of_def port_or_def)
qed

theorem parse_stream_roundtrip_witness:
  "stream_SourcePort (ParseStreamEvent (join [''7'', ''NEW'', ''0'', ''example.com'' @ '':'' @ itoa 80,
     render_attrs [(''SOURCE_ADDR'', ''127.0.0.1'' @ '':'' @ itoa 5234), (''NEWKEY'', ''1''), (''PURPOSE'', ''USER''),
       (''SOURCE'', ''CACHE''), (''REMOTE_REASON'', ''B''), (''REASON'', ''A'')]] '' '')) = 5234"
  by (subst parse_stream_roundtrip [where reason = "''A''" and remote = "''B''" and source = "''CACHE''"
        and purpose = "''USER''" and shost = "''127.0.0.1''" and sport = 5234])
     (simp_all add: attr_ok_def itoa_no_separator int_ok_def)

text \<open>A CONN_BW event is read back whatever the order of its attributes and whatever
  other attributes stand among them; the byte counts come back as the 64-bit numbers sent.\<close>

theorem parse_connbw_roundtrip:
  assumes "\<forall>kv\<in>set kvs. attr_ok kv"
    and "mset [kv \<leftarrow> kvs. fst kv \<in> {''ID'', ''TYPE'', ''READ'', ''WRITTEN''}] =
      {#(''ID'', cid), (''TYPE'', ty), (''READ'', itoa (sint r)), (''WRITTEN'', itoa (sint w))#}"
  shows "ParseConnBandwidthEvent (render_attrs kvs) =
    \<lparr>connbw_Raw = render_attrs kvs, connbw_ConnID = cid, connbw_ConnType = ty,
     connbw_BytesRead = r, connbw_BytesWritten = w\<rparr>"
proof -
  let ?kvs = "[(''ID'', cid), (''TYPE'', ty), (''READ'', itoa (sint r)), (''WRITTEN'', itoa (sint w))]"
  have "kvs \<noteq> []" using assms(2) by auto
  then show ?thesis
    using connbw.loop_known [OF _ assms(1), of ?kvs] assms(2)
    by (simp add: ParseConnBandwidthEvent_def connbw_attr_def)
qed

theorem parse_connbw_roundtrip_witness:
  "connbw_BytesRead (ParseConnBandwidthEvent (render_attrs [(''WRITTEN'', itoa (sint (17 :: int64))),
     (''NEWKEY'', ''1''), (''TYPE'', ''OR''), (''READ'', itoa (sint (- 5 :: int64))), (''ID'', ''3'')])) = - 5"
  by (subst parse_connbw_roundtrip [where cid = "''3''" and ty = "''OR''" and r = "- 5" and w = 17])
     (simp_all add: attr_ok_def itoa_no_separator)

text \<open>An HS_DESC_CONTENT event, whose descriptor follows the first line as a body, is taken
  apart into its four parts; the descriptor keeps its own line breaks.\<close>

theorem parse_hs_desc_content:
  assumes "CHR '' '' \<notin> set addr" "CHR '' '' \<notin> set descid" "CHR 13 \<notin> set dir"
  shows "ParseHSDescContentEvent (join [addr, descid, dir @ CRLF @ descriptor] '' '') =
    \<lparr>hscontent_Raw = join [addr, descid, dir @ CRLF @ descriptor] '' '', hscontent_Address = addr,
     hscontent_DescID = descid, hscontent_HSDir = dir, hscontent_Descriptor = descriptor\<rparr>"
proof -
  have w: "PartitionString (a @ CHR '' '' # b) CHR '' '' = (a, b, True)" if "CHR '' '' \<notin> set a" for a b
    using that by (rule PartitionString_append)
  have "\<not> prefix CRLF (b' @ CRLF @ descriptor)" if "dir = a' @ b'" "b' \<noteq> []" for a' b'
    using assms(3) that by (cases b') (auto simp: CRLF_def)
  then have i: "index_str (dir @ CRLF @ descriptor) CRLF = int (length dir)"
    by (intro index_str_append) blast
  have n: "nat (int (length dir) + 2) = length dir + 2" by simp
  show ?thesis
    using assms by (simp add: ParseHSDescContentEvent_def w i n Let_def) (simp add: CRLF_def)
qed

theorem parse_hs_desc_content_witness:
  "hscontent_Descriptor (ParseHSDescContentEvent
     (join [''addr'', ''id'', ''dir'' @ CRLF @ (''one'' @ CRLF @ ''two'')] '' '')) = ''one'' @ CRLF @ ''two''"
  by (subst parse_hs_desc_content) simp_all

section \<open>Attributes that are lost\<close>

text \<open>The inbound times of a CELL_STATS event overwrite the outbound ones.\<close>

theorem cell_stats_inbound_time_lost: "cell_InboundTime (ParseCellStatsEvent raw) = None"
proof -
  have "cell_InboundTime (cell_attr k v e) = cell_InboundTime e" for k v e
    by (simp add: cell_attr_def Let_def)
  then show ?thesis by (simp add: ParseCellStatsEvent_def fold_keeps)
qed

text \<open>The word after the type of BUILDTIMEOUT_SET, its first attribute, is skipped.\<close>

theorem build_timeout_first_attr_lost:
  assumes "CHR '' '' \<notin> set ty" "CHR '' '' \<notin> set attr" "CHR '' '' \<notin> set attr'"
  shows "build_TotalTimes (ParseBuildTimeoutSetEvent (ty @ '' '' @ attr @ '' '' @ rest)) =
         build_TotalTimes (ParseBuildTimeoutSetEvent (ty @ '' '' @ attr' @ '' '' @ rest))"
proof -
  have w: "PartitionString (a @ CHR '' '' # b) CHR '' '' = (a, b, True)" if "CHR '' '' \<notin> set a" for a b
    using that by (rule PartitionString_append)
  let ?raw = "\<lambda>r. \<lparr>build_Raw = r, build_Type = ty, build_TotalTimes = 0, build_Timeout = 0,
                   build_Xm = 0, build_Alpha = FloatZero, build_Quantile = FloatZero,
                   build_TimeoutRate = FloatZero, build_CloseTimeout = 0, build_CloseRate = FloatZero\<rparr>"
  have c: "(build_attr k v e)\<lparr>build_Raw := x\<rparr> = build_attr k v (e\<lparr>build_Raw := x\<rparr>)" for k v e x
    by (simp add: build_attr_def build_duration)
  have "(attr_loop (on_key_val build_attr) True rest (?raw a))\<lparr>build_Raw := x\<rparr> =
      attr_loop (on_key_val build_attr) True rest (?raw x)" for a x
  proof -
    have "(fold (on_key_val build_attr) ws e)\<lparr>build_Raw := x\<rparr> =
        fold (on_key_val build_attr) ws (e\<lparr>build_Raw := x\<rparr>)" for ws e
      by (induction ws arbitrary: e) (simp_all add: on_key_val_def c split: prod.splits)
    then show ?thesis by (simp add: attr_loop_fold)
  qed
  then have "build_TotalTimes (attr_loop (on_key_val build_attr) True rest (?raw a)) =
      build_TotalTimes (attr_loop (on_key_val build_attr) True rest (?raw x))" for a x
    by (metis (no_types) BuildTimeoutSetEvent.select_convs(3) BuildTimeoutSetEvent.simps(12) BuildTimeoutSetEvent.surjective)
  then show ?thesis using assms by (simp add: ParseBuildTimeoutSetEvent_def w)
qed

text \<open>A word of the attribute loop holds no space, so the quoted time of ADDRMAP's EXPIRES, which
  has one, is never read whole.\<close>

lemma decode_rune_not_space: "s \<noteq> [] \<Longrightarrow> CHR '' '' \<notin> set s \<Longrightarrow> fst (decode_rune s) \<noteq> 32"
proof
  assume s: "s \<noteq> []" "CHR '' '' \<notin> set s" and r: "fst (decode_rune s) = 32"
  then have "decode_rune s \<noteq> (RuneError, 1)" by (auto simp: RuneError_def)
  then have "take (snd (decode_rune s)) s = encode_rune 32"
    using decode_rune_valid [OF s(1)] r by simp
  also have "\<dots> = [CHR '' '']" by code_simp
  finally have "CHR '' '' \<in> set (take (snd (decode_rune s)) s)" by simp
  then show False using s(2) in_set_takeD by metis
qed

lemma range_string_no_space: "CHR '' '' \<notin> set s \<Longrightarrow> 32 \<notin> set (range_string s)"
proof (induction s rule: range_string.induct)
  case (1 s)
  show ?case
  proof (cases "s = []")
    case False
    have "CHR '' '' \<notin> set (drop (snd (decode_rune s)) s)" using 1(2) in_set_dropD by metis
    then show ?thesis
      using False 1 decode_rune_not_space [OF False 1(2)] by (subst range_string.simps) simp
  qed simp
qed

lemma encode_rune_no_space: "r \<noteq> 32 \<Longrightarrow> CHR '' '' \<notin> set (encode_rune r)"
proof
  assume r: "r \<noteq> 32" and m: "CHR '' '' \<in> set (encode_rune r)"
  then have "r < 128" using encode_rune_high [of r "CHR '' ''"] by (cases "128 \<le> r") auto
  with m have "CHR '' '' = char_of r" by (simp add: encode_rune_ascii)
  then have "(of_char (CHR '' '') :: nat) = of_char (char_of r :: char)" by simp
  with r \<open>r < 128\<close> show False by simp
qed

lemma unescape_loop_no_space:
  "32 \<notin> set cs \<Longrightarrow> CHR '' '' \<notin> set ret \<Longrightarrow> unescape_loop ret esc cs = Inr s \<Longrightarrow> CHR '' '' \<notin> set s"
  by (induction ret esc cs rule: unescape_loop.induct)
     (auto simp: encode_rune_no_space split: if_splits)

lemma unquoted_no_space: "CHR '' '' \<notin> set s \<Longrightarrow> CHR '' '' \<notin> set (unquoted s)"
proof -
  assume "CHR '' '' \<notin> set s"
  then have "CHR '' '' \<notin> set (take (length s - 2) (drop 1 s))"
    by (metis in_set_takeD in_set_dropD)
  then show ?thesis
    using unescape_loop_no_space [OF range_string_no_space, of _ "[]" False]
    by (auto simp: unquoted_def UnescapeSimpleQuotedString_def UnescapeSimpleQuotedStringContents_def
        split: sum.splits)
qed

lemma getnum_set: "getnum f s = Some (n, t) \<Longrightarrow> set t \<subseteq> set s"
  by (auto simp: getnum_def split: list.splits if_splits)

lemma skip_byte_set: "skip_byte p s = Some t \<Longrightarrow> set t \<subseteq> set s"
  by (auto simp: skip_byte_def dest: set_dropWhileD split: list.splits if_splits)

lemma time_parse_needs_space: "CHR '' '' \<notin> set s \<Longrightarrow> time_parse (CHR '' '') s = None"
proof (rule ccontr)
  assume n: "CHR '' '' \<notin> set s" and "time_parse (CHR '' '') s \<noteq> None"
  then obtain y s1 s2 m s3 s4 d s5 s6 h s7 where
    y: "get_year s = Some (y, s1)" and p: "skip_byte (CHR ''-'') s1 = Some s2" "getnum True s2 = Some (m, s3)"
      "skip_byte (CHR ''-'') s3 = Some s4" "getnum True s4 = Some (d, s5)"
    and q: "skip_byte (CHR '' '') s5 = Some s6" "getnum False s6 = Some (h, s7)"
    unfolding time_parse_def by (auto simp: bind_eq_Some_conv in_range_Some)
  have "set s1 \<subseteq> set s" using y by (auto simp: get_year_def dest: in_set_dropD split: if_splits)
  moreover have "set s5 \<subseteq> set s1"
    using skip_byte_set [OF p(1)] getnum_set [OF p(2)] skip_byte_set [OF p(3)] getnum_set [OF p(4)] by blast
  ultimately have "CHR '' '' \<notin> set s5" using n by blast
  then have "s6 = []" using q(1) by (auto simp: skip_byte_def split: list.splits if_splits)
  then show False using q(2) by (simp add: getnum_def)
qed

theorem addr_map_expiry_lost: "addrmap_Expires (ParseAddrMapEvent raw) = zero_time"
proof -
  have step: "addrmap_Expires (on_key_val addrmap_attr w e) = zero_time"
    if "CHR '' '' \<notin> set w" "addrmap_Expires e = zero_time" for w e
  proof -
    obtain k v ok where p: "PartitionString w (CHR ''='') = (k, v, ok)" by (metis prod_cases3)
    have "set v \<subseteq> set w"
      using p by (cases rule: PartitionString_cases [where s = w and ch = "CHR ''=''"]) auto
    then have "CHR '' '' \<notin> set v" using that(1) by blast
    then have "parseISOTime (unquoted v) = zero_time"
      by (simp add: parseISOTime_def time_parse_needs_space unquoted_no_space)
    then show ?thesis using that(2) by (simp add: on_key_val_def p addrmap_attr_def)
  qed
  have "addrmap_Expires (fold (on_key_val addrmap_attr) ws e) = zero_time"
    if "\<forall>w\<in>set ws. CHR '' '' \<notin> set w" "addrmap_Expires e = zero_time" for ws e
    using that by (induction ws arbitrary: e) (simp_all add: step)
  then have "addrmap_Expires (attr_loop (on_key_val addrmap_attr) ok r e) = zero_time"
    if "addrmap_Expires e = zero_time" for ok r e
    using that by (cases ok) (auto simp: attr_loop_fold split_byte_no_sep)
  then show ?thesis by (simp add: ParseAddrMapEvent_def split: prod.splits)
qed

text \<open>The path of a CIRC event is taken from the part of its word after \<open>=\<close>, so a path that has
  none, as Tor sends it, is lost.\<close>

theorem circuit_path_lost:
  assumes "CHR '' '' \<notin> set cid" "CHR '' '' \<notin> set st" "CHR '' '' \<notin> set path" "CHR ''='' \<notin> set path"
    and "path \<notin> {''BUILD_FLAGS'', ''PURPOSE'', ''HS_STATE'', ''REND_QUERY'', ''TIME_CREATED'', ''REASON'',
      ''REMOTE_REASON'', ''SOCKS_USERNAME'', ''SOCKS_PASSWORD''}"
  shows "circ_Path (ParseCircuitEvent (cid @ '' '' @ st @ '' '' @ path)) = [[]]"
proof -
  have w: "PartitionString (a @ CHR '' '' # b) CHR '' '' = (a, b, True)" if "CHR '' '' \<notin> set a" for a b
    using that by (rule PartitionString_append)
  show ?thesis
    using assms by (simp add: ParseCircuitEvent_def w attr_loop_fold split_byte_single on_key_val_def
        PartitionString_none circuit_attr_def)
qed

end
