(* ===== verification/Conn.thy ===== *)
theory Conn
  imports Response Event_Facts Go_Fmt "HOL-Library.AList"
begin

text \<open>
  \<open>control/conn.go\<close> and the listener half of \<open>control/cmd_event.go\<close>: the connection's state,
  sending a request and waiting for its response while events are relayed, and the registry
  of event listeners. One goroutine's view: the steps of an operation run without
  interleaving here.
\<close>

section \<open>The connection\<close>

record ProtocolInfo =
  AuthMethods :: "string list"
  CookieFile :: string
  TorVersion :: string
  RawResponse :: response

type_synonym chan = nat

text \<open>
  The fields of \<open>Conn\<close>, and with the prefix \<open>c_\<close> what lies outside it: the bytes Tor has sent
  that are not read yet, the bytes written, a write error to come after a number of lines
  (the buffered writer of \<open>textproto\<close> repeats it from then on), the error closing will give,
  the order in which the runtime ranges over a map's keys, and the events sent on channels.
  The debug writer is nil or holds its lines.
\<close>

record conn =
  DebugWriter :: "string list option"
  c_in :: string
  c_out :: string
  c_fault :: "(nat \<times> error) option"
  c_close_err :: "error option"
  c_closed :: bool
  c_iter :: "string list \<Rightarrow> string list"
  protocolInfo :: "ProtocolInfo option"
  Authenticated :: bool
  eventListeners :: "(EventCode \<times> chan list) list"
  c_sent :: "(chan \<times> event) list"

text \<open>\<open>NewConn\<close> on a fresh text connection that will deliver \<open>inp\<close>.\<close>

definition NewConn :: "string \<Rightarrow> (nat \<times> error) option \<Rightarrow> error option \<Rightarrow> (string list \<Rightarrow> string list) \<Rightarrow> conn" where
  "NewConn inp fault close_err iter =
     \<lparr>DebugWriter = None, c_in = inp, c_out = [], c_fault = fault, c_close_err = close_err,
      c_closed = False, c_iter = iter, protocolInfo = None, Authenticated = False,
      eventListeners = [], c_sent = []\<rparr>"

definition debugEnabled :: "conn \<Rightarrow> bool" where
  "debugEnabled c \<longleftrightarrow> DebugWriter c \<noteq> None"

definition debugf :: "string \<Rightarrow> conn \<Rightarrow> conn" where
  "debugf line c = (case DebugWriter c of None \<Rightarrow> c | Some w \<Rightarrow> c\<lparr>DebugWriter := Some (w @ [line])\<rparr>)"

text \<open>\<open>PrintfLine\<close> of \<open>textproto\<close> after formatting: one line, flushed.\<close>

definition print_line :: "string \<Rightarrow> conn \<Rightarrow> error option \<times> conn" where
  "print_line line c =
     (case c_fault c of
        None \<Rightarrow> (None, c\<lparr>c_out := c_out c @ line @ CRLF\<rparr>)
      | Some (0, e) \<Rightarrow> (Some e, c)
      | Some (Suc n, e) \<Rightarrow> (None, c\<lparr>c_out := c_out c @ line @ CRLF, c_fault := Some (n, e)\<rparr>))"

definition ReadResponse :: "conn \<Rightarrow> response result \<times> conn" where
  "ReadResponse c =
     (case read_response_loop None (c_in c) of
        (res, rest, log) \<Rightarrow> (res, fold debugf log (c\<lparr>c_in := rest\<rparr>)))"

section \<open>Relaying events\<close>

definition listeners :: "(EventCode \<times> chan list) list \<Rightarrow> EventCode \<Rightarrow> chan list" where
  "listeners ls event = (case map_of ls event of Some chans \<Rightarrow> chans | None \<Rightarrow> [])"

text \<open>Code, line and lines of an event response.\<close>

definition event_parts :: "response \<Rightarrow> EventCode \<times> string \<times> string list" where
  "event_parts resp =
     (if length (Data resp) = 1 then
        let d = Data resp ! 0; index = index_str d '' '' in
        if index \<noteq> -1 then (take (nat index) d, drop (nat (index + 1)) d, [])
        else let index = index_str d CRLF in
          if index \<noteq> -1 then (take (nat index) d, drop (nat (index + 2)) d, [])
          else (d, [], [])
      else if Data resp \<noteq> [] then (Data resp ! 0, [], drop 1 (Data resp))
      else let (code, data, _) = PartitionString (Reply resp) (CHR '' '') in (code, data, []))"

definition relayAsyncEvents :: "response \<Rightarrow> conn \<Rightarrow> conn" where
  "relayAsyncEvents resp c =
     (let (eventCode, data, dataArray) = event_parts resp;
          chans = listeners (eventListeners c) eventCode;
          chans = (if eventCode \<notin> mapEventCodes
                   then chans @ listeners (eventListeners c) EventCodeUnrecognized else chans)
      in if chans = [] then c
         else let event = ParseEvent eventCode data dataArray
              in c\<lparr>c_sent := c_sent c @ map (\<lambda>ch. (ch, event)) chans\<rparr>)"

section \<open>Requests\<close>

text \<open>The loop of \<open>SendRequest\<close>: read until the response is not an event.\<close>

lemma fold_debugf_in [simp]: "c_in (fold debugf log c) = c_in c"
  by (induction log arbitrary: c) (auto simp: debugf_def split: option.split)

lemma ReadResponse_shorter: "ReadResponse c = (Inr r, c') \<Longrightarrow> length (c_in c') < length (c_in c)"
  using read_response_inv [of None "c_in c"]
  by (auto simp: ReadResponse_def partial_ok_def suffix_length_less split: prod.splits)

lemma relay_in [simp]: "c_in (relayAsyncEvents r c) = c_in c"
  by (simp add: relayAsyncEvents_def Let_def split: prod.split)

function read_sync :: "conn \<Rightarrow> response result \<times> conn" where
  "read_sync c =
     (case ReadResponse c of
        (Inl err, c') \<Rightarrow> (Inl err, c')
      | (Inr resp, c') \<Rightarrow>
          if \<not> IsAsync resp then (Inr resp, c') else read_sync (relayAsyncEvents resp c'))"
  by pat_completeness auto
termination
  by (relation "measure (length \<circ> c_in)") (auto dest: ReadResponse_shorter [OF sym])

declare read_sync.simps [simp del]

text \<open>A Go pair of a pointer that may be nil and an error that may be nil.\<close>

type_synonym reqres = "response option \<times> error option"

definition resp_error :: "response \<Rightarrow> error option" where
  "resp_error resp = (if IsOk resp then None else Some (StatusError (tp_error.Code (Err resp)) (Msg (Err resp))))"

definition SendRequest :: "string \<Rightarrow> string list \<Rightarrow> conn \<Rightarrow> reqres \<times> conn" where
  "SendRequest format args c =
     (let c1 = (if debugEnabled c then debugf (''Write line: '' @ sprintf format args) c else c)
      in case print_line (sprintf format args) c1 of
           (Some err, c2) \<Rightarrow> ((None, Some err), c2)
         | (None, c2) \<Rightarrow>
             (case read_sync c2 of
                (Inl err, c3) \<Rightarrow> ((None, Some err), c3)
              | (Inr resp, c3) \<Rightarrow> ((Some resp, resp_error resp), c3)))"

definition sendRequestIgnoreResponse :: "string \<Rightarrow> string list \<Rightarrow> conn \<Rightarrow> error option \<times> conn" where
  "sendRequestIgnoreResponse format args c =
     (case SendRequest format args c of ((_, err), c') \<Rightarrow> (err, c'))"

definition Quit :: "conn \<Rightarrow> error option \<times> conn" where
  "Quit c = sendRequestIgnoreResponse ''QUIT'' [] c"

definition Close :: "conn \<Rightarrow> error option \<times> conn" where
  "Close c = (case Quit c of (_, c') \<Rightarrow> (c_close_err c', c'\<lparr>c_closed := True\<rparr>))"

section \<open>Listeners\<close>

definition add_listener :: "chan \<Rightarrow> EventCode \<Rightarrow> (EventCode \<times> chan list) list \<Rightarrow> (EventCode \<times> chan list) list" where
  "add_listener ch event ls = AList.update event (listeners ls event @ [ch]) ls"

definition remove_listener :: "chan \<Rightarrow> EventCode \<Rightarrow> (EventCode \<times> chan list) list \<Rightarrow> (EventCode \<times> chan list) list" where
  "remove_listener ch event ls =
     (let arr = listeners ls event in
      if ch \<in> set arr then
        if length arr = 1 then AList.delete event ls
        else AList.update event (remove1 ch arr) ls
      else ls)"

definition addEventListenerToMap :: "chan \<Rightarrow> EventCode list \<Rightarrow> conn \<Rightarrow> conn" where
  "addEventListenerToMap ch events c =
     c\<lparr>eventListeners := fold (add_listener ch) events (eventListeners c)\<rparr>"

definition removeEventListenerFromMap :: "chan \<Rightarrow> EventCode list \<Rightarrow> conn \<Rightarrow> conn" where
  "removeEventListenerFromMap ch events c =
     c\<lparr>eventListeners := fold (remove_listener ch) events (eventListeners c)\<rparr>"

definition sendSetEvents :: "conn \<Rightarrow> error option \<times> conn" where
  "sendSetEvents c =
     sendRequestIgnoreResponse
       (''SETEVENTS'' @ concat (map (\<lambda>event. '' '' @ event) (c_iter c (map fst (eventListeners c))))) [] c"

definition AddEventListener :: "chan \<Rightarrow> EventCode list \<Rightarrow> conn \<Rightarrow> error option \<times> conn" where
  "AddEventListener ch events c =
     (case sendSetEvents (addEventListenerToMap ch events c) of
        (None, c') \<Rightarrow> (None, c')
      | (Some err, c') \<Rightarrow> (Some err, removeEventListenerFromMap ch events c'))"

definition RemoveEventListener :: "chan \<Rightarrow> EventCode list \<Rightarrow> conn \<Rightarrow> error option \<times> conn" where
  "RemoveEventListener ch events c = sendSetEvents (removeEventListenerFromMap ch events c)"

definition HandleNextEvent :: "conn \<Rightarrow> error option \<times> conn" where
  "HandleNextEvent c =
     (case peek3 (c_in c) of
        Inl err \<Rightarrow> (Some err, c)
      | Inr byts \<Rightarrow>
          let (statusCode, err) = Atoi byts in
          if err \<noteq> None \<or> statusCode \<noteq> StatusAsyncEvent then (err, c)
          else case ReadResponse c of
              (Inl err, c') \<Rightarrow> (Some err, c')
            | (Inr resp, c') \<Rightarrow> (None, relayAsyncEvents resp c'))"

end
