(* ===== verification/Registry.thy ===== *)
theory Registry
  imports Conn "HOL-Library.Multiset"
begin

text \<open>
  The registry of event listeners: its laws as an interface, what follows from them for
  adding and removing a channel under several events, and the connection's association list
  as a provider of the interface.
\<close>

section \<open>The interface\<close>

locale registry =
  fixes lookup :: "'r \<Rightarrow> 'k \<Rightarrow> 'v list"
    and add :: "'v \<Rightarrow> 'k \<Rightarrow> 'r \<Rightarrow> 'r"
    and remove :: "'v \<Rightarrow> 'k \<Rightarrow> 'r \<Rightarrow> 'r"
    and keys :: "'r \<Rightarrow> 'k list"
    and inv :: "'r \<Rightarrow> bool"
  assumes inv_add: "inv r \<Longrightarrow> inv (add v k r)"
    and inv_remove: "inv r \<Longrightarrow> inv (remove v k r)"
    and lookup_add: "inv r \<Longrightarrow> lookup (add v k r) k' = (if k' = k then lookup r k @ [v] else lookup r k')"
    and lookup_remove: "inv r \<Longrightarrow> lookup (remove v k r) k' = (if k' = k then remove1 v (lookup r k) else lookup r k')"
    and distinct_keys: "inv r \<Longrightarrow> distinct (keys r)"
    and keys_lookup: "inv r \<Longrightarrow> k \<in> set (keys r) \<longleftrightarrow> lookup r k \<noteq> []"
begin

lemma inv_adds: "inv r \<Longrightarrow> inv (fold (add v) ks r)"
  by (induction ks arbitrary: r) (simp_all add: inv_add)

lemma inv_removes: "inv r \<Longrightarrow> inv (fold (remove v) ks r)"
  by (induction ks arbitrary: r) (simp_all add: inv_remove)

lemma lookup_adds:
  "inv r \<Longrightarrow> lookup (fold (add v) ks r) k = lookup r k @ replicate (count_list ks k) v"
  by (induction ks arbitrary: r) (simp_all add: inv_add lookup_add replicate_app_Cons_same)

lemma lookup_removes:
  "inv r \<Longrightarrow> lookup (fold (remove v) ks r) k = (remove1 v ^^ count_list ks k) (lookup r k)"
proof (induction ks arbitrary: r)
  case (Cons x ks)
  then show ?case
    using inv_remove [OF Cons.prems, of v x] lookup_remove [OF Cons.prems, of v x k]
    by (simp add: funpow_swap1)
qed simp

lemma mset_removes: "mset ((remove1 v ^^ n) xs) = mset xs - replicate_mset n v"
  by (induction n) simp_all

lemma add_remove_mset:
  "inv r \<Longrightarrow> mset (lookup (fold (remove v) ks (fold (add v) ks r)) k) = mset (lookup r k)"
  by (simp add: lookup_removes lookup_adds inv_adds mset_removes)

lemma removes_fresh: "v \<notin> set xs \<Longrightarrow> (remove1 v ^^ n) (xs @ replicate n v) = xs"
proof (induction n)
  case (Suc n)
  have "(remove1 v ^^ Suc n) (xs @ replicate (Suc n) v) = (remove1 v ^^ n) (remove1 v (xs @ v # replicate n v))"
    by (simp only: funpow_Suc_right o_apply replicate_Suc)
  also have "\<dots> = (remove1 v ^^ n) (xs @ replicate n v)"
    using Suc.prems by (simp add: remove1_append)
  finally show ?case using Suc by simp
qed simp

lemma add_remove_fresh:
  "inv r \<Longrightarrow> v \<notin> set (lookup r k) \<Longrightarrow>
     lookup (fold (remove v) ks (fold (add v) ks r)) k = lookup r k"
  by (simp add: lookup_removes lookup_adds inv_adds removes_fresh)

lemma keys_adds:
  "inv r \<Longrightarrow> set (keys (fold (add v) ks r)) = set (keys r) \<union> set ks"
  by (auto simp: keys_lookup inv_adds lookup_adds count_list_0_iff)

end

section \<open>The listeners of a connection\<close>

definition listeners_ok :: "(EventCode \<times> chan list) list \<Rightarrow> bool" where
  "listeners_ok ls \<longleftrightarrow> distinct (map fst ls) \<and> (\<forall>p\<in>set ls. snd p \<noteq> [])"

lemma listeners_Nil [simp]: "listeners [] e = []" and listeners_ok_Nil [simp]: "listeners_ok []"
  by (simp_all add: listeners_def listeners_ok_def)

lemma listeners_update: "listeners (AList.update e v ls) e' = (if e' = e then v else listeners ls e')"
  by (simp add: listeners_def update_conv')

lemma listeners_delete: "listeners (AList.delete e ls) e' = (if e' = e then [] else listeners ls e')"
  by (simp add: listeners_def delete_conv')

lemma set_update_subset: "set (AList.update k v al) \<subseteq> insert (k, v) (set al)"
  by (induction al) auto

lemma listeners_ok_update: "listeners_ok ls \<Longrightarrow> v \<noteq> [] \<Longrightarrow> listeners_ok (AList.update e v ls)"
  using set_update_subset [of e v ls] by (force simp: listeners_ok_def distinct_update)

lemma set_delete_subset: "set (AList.delete k al) \<subseteq> set al"
  by (induction al) auto

lemma listeners_ok_delete: "listeners_ok ls \<Longrightarrow> listeners_ok (AList.delete e ls)"
  using set_delete_subset [of e ls] by (auto simp: listeners_ok_def delete_keys distinct_removeAll)

lemma in_keys_iff_listeners: "listeners_ok ls \<Longrightarrow> e \<in> set (map fst ls) \<longleftrightarrow> listeners ls e \<noteq> []"
proof -
  assume ok: "listeners_ok ls"
  show ?thesis
  proof (cases "map_of ls e")
    case None
    then have "e \<notin> set (map fst ls)" by (simp add: map_of_eq_None_iff)
    then show ?thesis using None by (simp add: listeners_def)
  next
    case (Some chans)
    then have "(e, chans) \<in> set ls" by (rule map_of_SomeD)
    then show ?thesis using ok Some by (force simp: listeners_ok_def listeners_def)
  qed
qed

lemma remove1_not_Nil: "v \<in> set xs \<Longrightarrow> length xs \<noteq> 1 \<Longrightarrow> remove1 v xs \<noteq> []"
  by (cases xs) (auto split: if_splits)

lemma remove1_single: "v \<in> set xs \<Longrightarrow> length xs = 1 \<Longrightarrow> remove1 v xs = []"
  by (cases xs) auto

interpretation listeners: registry listeners add_listener remove_listener "map fst" listeners_ok
proof (unfold_locales, goal_cases)
  case (1 r v k)
  then show ?case by (simp add: add_listener_def listeners_ok_update)
next
  case (2 r v k)
  then show ?case
    by (simp add: remove_listener_def Let_def listeners_ok_update listeners_ok_delete remove1_not_Nil)
next
  case (3 r v k k')
  then show ?case by (simp add: add_listener_def listeners_update)
next
  case (4 r v k k')
  then show ?case
    by (simp add: remove_listener_def Let_def listeners_update listeners_delete remove1_single
        remove1_idem)
next
  case (5 r)
  then show ?case by (simp add: listeners_ok_def)
next
  case (6 r k)
  then show ?case by (rule in_keys_iff_listeners)
qed

end
