(* ===== verification/Conn_Facts.thy ===== *)
theory Conn_Facts
  imports Registry
begin

text \<open>
  What the operations of a connection do: a request on a dialogue of any number of events
  followed by a reply, what every operation leaves alone, and the registry of listeners as
  the program's users see it. An interface covers the commands that only send a line.
\<close>

section \<open>A dialogue\<close>

text \<open>The deliveries one event response causes.\<close>

definition deliveries :: "(EventCode \<times> chan list) list \<Rightarrow> response \<Rightarrow> (chan \<times> event) list" where
  "deliveries ls resp =
     (let (eventCode, data, dataArray) = event_parts resp in
      map (\<lambda>ch. (ch, ParseEvent eventCode data dataArray))
        (listeners ls eventCode @
         (if eventCode \<notin> mapEventCodes then listeners ls EventCodeUnrecognized else [])))"

lemma relay_deliveries:
  "relayAsyncEvents r c = c\<lparr>c_sent := c_sent c @ deliveries (eventListeners c) r\<rparr>"
  by (simp add: relayAsyncEvents_def deliveries_def Let_def split: prod.split)

definition log_lines :: "string list \<Rightarrow> conn \<Rightarrow> conn" where
  "log_lines log c = c\<lparr>DebugWriter := map_option (\<lambda>w. w @ log) (DebugWriter c)\<rparr>"

lemma log_lines_Nil: "log_lines [] c = c"
  by (simp add: log_lines_def option.map_ident)

lemma fold_debugf: "fold debugf log c = log_lines log c"
proof (induction log arbitrary: c)
  case (Cons l log)
  then show ?case by (cases "DebugWriter c") (simp_all add: debugf_def log_lines_def)
qed (simp add: log_lines_Nil)

definition is_event :: "reply \<Rightarrow> bool" where
  "is_event r \<longleftrightarrow> reply_ok r \<and> code r = 650"

definition is_answer :: "reply \<Rightarrow> bool" where
  "is_answer r \<longleftrightarrow> reply_ok r \<and> code r \<noteq> 650"

text \<open>The connection after the events and the answer have been read.\<close>

definition after_dialogue :: "reply list \<Rightarrow> reply \<Rightarrow> string \<Rightarrow> conn \<Rightarrow> conn" where
  "after_dialogue evs r rest c =
     c\<lparr>DebugWriter := map_option (\<lambda>w. w @ concat (map reply_log (evs @ [r]))) (DebugWriter c),
       c_in := rest,
       c_sent := c_sent c @ concat (map (\<lambda>e. deliveries (eventListeners c) (view_reply e)) evs)\<rparr>"

lemma view_reply_Code [simp]: "tp_error.Code (Err (view_reply r)) = code r"
  by (simp add: view_reply_def)

lemma ReadResponse_render:
  assumes "reply_ok r" and "c_in c = render_reply r @ rest"
  shows "ReadResponse c = (Inr (view_reply r), log_lines (reply_log r) (c\<lparr>c_in := rest\<rparr>))"
  using read_response_render [OF assms(1), of rest] assms(2)
  by (simp add: ReadResponse_def fold_debugf)

lemma read_sync_dialogue:
  assumes "\<forall>e\<in>set evs. is_event e" and "is_answer r"
    and "c_in c = concat (map render_reply evs) @ render_reply r @ rest"
  shows "read_sync c = (Inr (view_reply r), after_dialogue evs r rest c)"
  using assms
proof (induction evs arbitrary: c)
  case Nil
  then have "ReadResponse c = (Inr (view_reply r), log_lines (reply_log r) (c\<lparr>c_in := rest\<rparr>))"
    by (intro ReadResponse_render) (simp_all add: is_answer_def)
  moreover have "\<not> IsAsync (view_reply r)"
    using Nil by (simp add: IsAsync_def StatusAsyncEvent_def is_answer_def)
  ultimately show ?case
    by (simp add: read_sync.simps [of c] after_dialogue_def log_lines_def)
next
  case (Cons e evs)
  let ?rest = "concat (map render_reply evs) @ render_reply r @ rest"
  let ?c = "relayAsyncEvents (view_reply e) (log_lines (reply_log e) (c\<lparr>c_in := ?rest\<rparr>))"
  have "ReadResponse c = (Inr (view_reply e), log_lines (reply_log e) (c\<lparr>c_in := ?rest\<rparr>))"
    using Cons.prems by (intro ReadResponse_render) (simp_all add: is_event_def)
  moreover have "IsAsync (view_reply e)"
    using Cons.prems(1) by (simp add: IsAsync_def StatusAsyncEvent_def is_event_def)
  ultimately have "read_sync c = read_sync ?c" by (simp add: read_sync.simps [of c])
  also have "\<dots> = (Inr (view_reply r), after_dialogue evs r rest ?c)"
    using Cons by (intro Cons.IH) (simp_all add: log_lines_def)
  also have "after_dialogue evs r rest ?c = after_dialogue (e # evs) r rest c"
    by (simp add: after_dialogue_def relay_deliveries log_lines_def option.map_comp o_def)
  finally show ?case .
qed

text \<open>What the line written adds.\<close>

definition after_write :: "string \<Rightarrow> conn \<Rightarrow> conn" where
  "after_write line c = log_lines [''Write line: '' @ line] (c\<lparr>c_out := c_out c @ line @ CRLF\<rparr>)"

lemma after_request [conn_frame]:
  "c_out (after_dialogue evs r rest (after_write line c)) = c_out c @ line @ CRLF"
  "c_in (after_dialogue evs r rest (after_write line c)) = rest"
  "Authenticated (after_dialogue evs r rest (after_write line c)) = Authenticated c"
  "protocolInfo (after_dialogue evs r rest (after_write line c)) = protocolInfo c"
  "eventListeners (after_dialogue evs r rest (after_write line c)) = eventListeners c"
  "c_fault (after_dialogue evs r rest (after_write line c)) = c_fault c"
  by (simp_all add: after_dialogue_def after_write_def log_lines_def)

text \<open>A dialogue in which the request is followed by the events \<open>evs\<close> and the answer \<open>r\<close>.\<close>

definition dialogue :: "conn \<Rightarrow> reply list \<Rightarrow> reply \<Rightarrow> string \<Rightarrow> bool" where
  "dialogue c evs r rest \<longleftrightarrow>
     c_fault c = None \<and> (\<forall>e\<in>set evs. is_event e) \<and> is_answer r \<and>
     c_in c = concat (map render_reply evs) @ render_reply r @ rest"

definition answer_error :: "reply \<Rightarrow> error option" where
  "answer_error r = (if code r \<in> {250, 251} then None
     else Some (StatusError (code r) (Msg (statusCodeToError (code r) (final r)))))"

lemma resp_error_view: "is_answer r \<Longrightarrow> resp_error (view_reply r) = answer_error r"
  by (simp add: resp_error_def answer_error_def IsOk_def StatusOk_def StatusOkUnnecessary_def
      StatusAsyncEvent_def is_answer_def) (simp add: view_reply_def)

lemma SendRequest_dialogue:
  assumes "dialogue c evs r rest"
  shows "SendRequest format args c =
    ((Some (view_reply r), answer_error r), after_dialogue evs r rest (after_write (sprintf format args) c))"
proof -
  let ?line = "sprintf format args"
  have "(if debugEnabled c then debugf (''Write line: '' @ ?line) c else c) = log_lines [''Write line: '' @ ?line] c"
    by (cases "DebugWriter c") (simp_all add: debugEnabled_def debugf_def log_lines_def)
  moreover have "print_line ?line (log_lines [''Write line: '' @ ?line] c) = (None, after_write ?line c)"
    using assms by (simp add: print_line_def dialogue_def log_lines_def after_write_def)
  moreover have "read_sync (after_write ?line c) = (Inr (view_reply r), after_dialogue evs r rest (after_write ?line c))"
    using assms by (intro read_sync_dialogue) (simp_all add: dialogue_def after_write_def log_lines_def)
  moreover have "is_answer r" using assms by (simp add: dialogue_def)
  ultimately show ?thesis by (simp add: SendRequest_def resp_error_view)
qed

section \<open>What every operation leaves alone\<close>

text \<open>
  The frame of an operation that talks to Tor: it reads on, appends to what is written and
  sent, keeps the listeners, the authentication state and the cached protocol information,
  and sends on registered channels only.
\<close>

definition registered :: "(EventCode \<times> chan list) list \<Rightarrow> chan set" where
  "registered ls = {ch. \<exists>e. ch \<in> set (listeners ls e)}"

definition extends :: "conn \<Rightarrow> conn \<Rightarrow> bool" where
  "extends c c' \<longleftrightarrow>
     eventListeners c' = eventListeners c \<and> Authenticated c' = Authenticated c \<and>
     protocolInfo c' = protocolInfo c \<and> c_iter c' = c_iter c \<and> c_closed c' = c_closed c \<and>
     c_close_err c' = c_close_err c \<and>
     suffix (c_in c') (c_in c) \<and> prefix (c_out c) (c_out c') \<and>
     (\<exists>new. c_sent c' = c_sent c @ new \<and> fst ` set new \<subseteq> registered (eventListeners c))"

lemma extends_refl [simp]: "extends c c"
  by (simp add: extends_def)

lemma extends_trans [trans]: "extends c c' \<Longrightarrow> extends c' c'' \<Longrightarrow> extends c c''"
  by (fastforce simp: extends_def intro: suffix_order.trans prefix_order.trans)

lemma extends_D:
  "extends c c' \<Longrightarrow> eventListeners c' = eventListeners c"
  "extends c c' \<Longrightarrow> Authenticated c' = Authenticated c"
  "extends c c' \<Longrightarrow> protocolInfo c' = protocolInfo c"
  by (simp_all add: extends_def)

lemma extends_log: "extends c (log_lines log c)"
  by (simp add: extends_def log_lines_def)

lemma extends_relay: "extends c (relayAsyncEvents r c)"
  by (auto simp: extends_def relay_deliveries deliveries_def registered_def split: prod.splits if_splits)

lemma extends_read: "ReadResponse c = (res, c') \<Longrightarrow> extends c c'"
proof -
  assume rr: "ReadResponse c = (res, c')"
  have "suffix (fst (snd (read_response_loop acc inp))) inp" for acc inp
  proof (induction acc inp rule: read_response_loop.induct)
    case (1 acc inp)
    obtain st rest log where st: "response_step acc inp = (st, rest, log)" by (metis prod.exhaust)
    have s: "suffix rest inp" using response_step_suffix_any [of acc inp] st by simp
    show ?case
    proof (cases st)
      case (Return r)
      then show ?thesis using st s by (subst read_response_loop.simps) simp
    next
      case (Again p)
      then have "suffix (fst (snd (read_response_loop (Some p) rest))) rest"
        using 1 [OF st [symmetric] Again refl] by simp
      then show ?thesis
        using Again st s suffix_order.trans by (subst read_response_loop.simps) (auto split: prod.splits)
    qed
  qed
  from this [of None "c_in c"] rr show ?thesis
    by (auto simp: ReadResponse_def fold_debugf extends_def log_lines_def split: prod.splits)
qed

lemma extends_read_sync: "extends c (snd (read_sync c))"
proof (induction c rule: read_sync.induct)
  case (1 c)
  obtain res c' where rr: "ReadResponse c = (res, c')" by (metis prod.exhaust)
  then have e: "extends c c'" by (rule extends_read)
  show ?case
  proof (cases res)
    case (Inl err)
    then show ?thesis using rr e by (simp add: read_sync.simps [of c])
  next
    case (Inr resp)
    show ?thesis
    proof (cases "IsAsync resp")
      case True
      then have "extends (relayAsyncEvents resp c') (snd (read_sync (relayAsyncEvents resp c')))"
        using 1 [OF rr [symmetric] Inr] by simp
      then show ?thesis
        using rr Inr True e extends_relay extends_trans by (simp add: read_sync.simps [of c]) metis
    next
      case False
      then show ?thesis using rr Inr e by (simp add: read_sync.simps [of c])
    qed
  qed
qed

lemma extends_SendRequest: "SendRequest format args c = (res, c') \<Longrightarrow> extends c c'"
proof -
  let ?line = "sprintf format args"
  let ?c1 = "if debugEnabled c then debugf (''Write line: '' @ ?line) c else c"
  assume sr: "SendRequest format args c = (res, c')"
  have l: "extends c ?c1" by (auto simp: debugf_def extends_def split: option.split)
  obtain err c2 where p: "print_line ?line ?c1 = (err, c2)" by (metis prod.exhaust)
  have "extends ?c1 c2"
    using p by (auto simp: print_line_def extends_def split: option.splits prod.splits nat.splits)
  then have e: "extends c c2" using l extends_trans by blast
  show ?thesis
  proof (cases err)
    case None
    then have "c' = snd (read_sync c2)" using sr p by (auto simp: SendRequest_def split: prod.splits sum.splits)
    then show ?thesis using e extends_read_sync extends_trans by blast
  next
    case (Some x)
    then show ?thesis using sr p e by (simp add: SendRequest_def)
  qed
qed

lemma extends_sendRequest: "sendRequestIgnoreResponse format args c = (err, c') \<Longrightarrow> extends c c'"
  by (auto simp: sendRequestIgnoreResponse_def dest: extends_SendRequest split: prod.splits)

section \<open>Commands that only send a line\<close>

text \<open>
  The interface of such a command: on arguments that are \<open>ok\<close> it sends one line, whatever
  the connection, and keeps the error of the response.
\<close>

locale line_command =
  fixes cmd :: "'a \<Rightarrow> conn \<Rightarrow> error option \<times> conn"
    and line :: "'a \<Rightarrow> string"
    and ok :: "'a \<Rightarrow> bool"
  assumes sends_line: "ok a \<Longrightarrow> cmd a c = sendRequestIgnoreResponse ''%v'' [line a] c"
begin

lemma cmd_dialogue:
  "ok a \<Longrightarrow> dialogue c evs r rest \<Longrightarrow>
     cmd a c = (answer_error r, after_dialogue evs r rest (after_write (line a) c))"
  by (simp add: sends_line sendRequestIgnoreResponse_def SendRequest_dialogue)

lemma cmd_extends: "ok a \<Longrightarrow> extends c (snd (cmd a c))"
  by (metis sends_line extends_sendRequest prod.collapse)

lemma cmd_writes:
  assumes "ok a" and "dialogue c evs r rest"
  shows "c_out (snd (cmd a c)) = c_out c @ line a @ CRLF"
  using cmd_dialogue [OF assms] by (simp add: after_dialogue_def after_write_def log_lines_def)

lemma cmd_succeeds:
  "ok a \<Longrightarrow> dialogue c evs r rest \<Longrightarrow> fst (cmd a c) = None \<longleftrightarrow> code r \<in> {250, 251}"
  by (simp add: cmd_dialogue answer_error_def)

end

lemma sprintf_v: "sprintf ''%v'' [x] = x"
  by simp

text \<open>Sending a command text as a format is sending the text only if it holds no percent sign.\<close>

lemma send_plain: "CHR ''%'' \<notin> set cmd \<Longrightarrow>
  sendRequestIgnoreResponse cmd [] c = sendRequestIgnoreResponse ''%v'' [cmd] c"
  by (simp add: sendRequestIgnoreResponse_def SendRequest_def sprintf0_id)

interpretation quit: line_command "\<lambda>_ :: unit. Quit" "\<lambda>_. ''QUIT''" "\<lambda>_. True"
  by unfold_locales (simp add: Quit_def send_plain)

end
