(* ===== verification/Conn_Props.thy ===== *)
theory Conn_Props
  imports Conn_Facts
begin

text \<open>The properties of the connection and its listeners, and what its routing of events gets wrong.\<close>

section \<open>Requests\<close>

text \<open>C1: A request writes its line, relays every event that arrives before the answer to the
  channels registered for it, in order, and returns the first response that is not an event;
  the error is nil exactly when the code is 250 or 251, and carries the code and message
  otherwise. Nothing after the answer is read, and listeners, cached protocol information and
  authentication state stay as they were.\<close>

theorem send_request_answer:
  assumes "c_fault c = None" and "\<forall>e\<in>set evs. is_event e" and "is_answer r"
    and "c_in c = concat (map render_reply evs) @ render_reply r @ rest"
  shows "SendRequest format args c =
    ((Some (view_reply r),
      if code r \<in> {250, 251} then None
      else Some (StatusError (code r) (Msg (statusCodeToError (code r) (final r))))),
     c\<lparr>DebugWriter := map_option (\<lambda>w. w @ [''Write line: '' @ sprintf format args] @
           concat (map reply_log (evs @ [r]))) (DebugWriter c),
       c_in := rest,
       c_out := c_out c @ sprintf format args @ CRLF,
       c_sent := c_sent c @ concat (map (\<lambda>e. deliveries (eventListeners c) (view_reply e)) evs)\<rparr>)"
  using SendRequest_dialogue [of c evs r rest format args] assms
  by (simp add: dialogue_def answer_error_def after_dialogue_def after_write_def log_lines_def
      option.map_comp o_def)

definition example_conn :: "string \<Rightarrow> (EventCode \<times> chan list) list \<Rightarrow> conn" where
  "example_conn inp ls = (NewConn inp None None id)\<lparr>eventListeners := ls\<rparr>"

lemma example_conn_simps [simp]:
  "c_fault (example_conn inp ls) = None" "c_in (example_conn inp ls) = inp"
  "eventListeners (example_conn inp ls) = ls" "c_out (example_conn inp ls) = []"
  "c_sent (example_conn inp ls) = []" "DebugWriter (example_conn inp ls) = None"
  "c_iter (example_conn inp ls) = id" "Authenticated (example_conn inp ls) = False"
  "protocolInfo (example_conn inp ls) = None" "c_closed (example_conn inp ls) = False"
  by (simp_all add: example_conn_def NewConn_def)

definition ok_reply :: reply where
  "ok_reply = \<lparr>code = 250, parts = [], final = ''OK''\<rparr>"

definition bw_reply :: reply where
  "bw_reply = \<lparr>code = 650, parts = [], final = ''BW 15 25''\<rparr>"

lemma example_replies: "is_answer ok_reply" "is_event bw_reply" "code ok_reply = 250" "code bw_reply = 650"
  "view_reply ok_reply = \<lparr>Err = statusCodeToError 250 ''OK'', Reply = ''OK'', Data = [], RawLines = [itoa 250 @ '' OK'']\<rparr>"
  "view_reply bw_reply = \<lparr>Err = statusCodeToError 650 ''BW 15 25'', Reply = ''BW 15 25'', Data = [], RawLines = [itoa 650 @ '' BW 15 25'']\<rparr>"
  by (simp_all add: ok_reply_def bw_reply_def is_answer_def is_event_def reply_ok_def plain_line_def view_reply_def)

theorem send_request_answer_witness:
  "let c = example_conn (concat (map render_reply [bw_reply]) @ render_reply ok_reply @ []) [(''BW'', [7])] in
   snd (fst (SendRequest ''SIGNAL %v'' [''NEWNYM''] c)) = None \<and>
   c_out (snd (SendRequest ''SIGNAL %v'' [''NEWNYM''] c)) = ''SIGNAL NEWNYM'' @ CRLF \<and>
   c_sent (snd (SendRequest ''SIGNAL %v'' [''NEWNYM''] c)) =
     [(7, BandwidthE \<lparr>bw_Raw = ''15 25'', bw_BytesRead = 15, bw_BytesWritten = 25\<rparr>)]"
proof -
  have d: "deliveries [(''BW'', [7])] (view_reply bw_reply) =
      [(7, BandwidthE \<lparr>bw_Raw = ''15 25'', bw_BytesRead = 15, bw_BytesWritten = 25\<rparr>)]"
  proof -
    have p: "event_parts (view_reply bw_reply) = (''BW'', ''15 25'', [])"
      unfolding example_replies by code_simp
    have b: "ParseBandwidthEvent ''15 25'' = \<lparr>bw_Raw = ''15 25'', bw_BytesRead = 15, bw_BytesWritten = 25\<rparr>"
      by code_simp
    show ?thesis
      by (simp add: deliveries_def p ParseEvent_def b listeners_def mapEventCodes_def recognizedEventCodes_def)
  qed
  show ?thesis
    using send_request_answer [of "example_conn (concat (map render_reply [bw_reply]) @ render_reply ok_reply @ []) [(''BW'', [7])]"
        "[bw_reply]" ok_reply "[]" "''SIGNAL %v''" "[''NEWNYM'']"]
    by (simp add: Let_def example_replies(1-4) d)
qed

text \<open>C29: Whatever Tor sends, a request leaves the listeners, the authentication state and the
  cached protocol information alone, only reads forward and only appends to what is
  written, and sends events to registered channels only.\<close>

theorem send_request_frame:
  "let c' = snd (SendRequest format args c) in
     eventListeners c' = eventListeners c \<and> Authenticated c' = Authenticated c \<and>
     protocolInfo c' = protocolInfo c \<and> suffix (c_in c') (c_in c) \<and> prefix (c_out c) (c_out c') \<and>
     (\<exists>new. c_sent c' = c_sent c @ new \<and> fst ` set new \<subseteq> registered (eventListeners c))"
proof -
  obtain res c' where s: "SendRequest format args c = (res, c')" by (metis prod.exhaust)
  from extends_SendRequest [OF s] s show ?thesis by (simp add: extends_def Let_def)
qed

text \<open>A failed write ends a request at once: no response is read and none is returned.\<close>

lemma send_request_write_error:
  "c_fault c = Some (0, e) \<Longrightarrow> DebugWriter c = None \<Longrightarrow> SendRequest format args c = ((None, Some e), c)"
  by (simp add: SendRequest_def debugEnabled_def print_line_def)

section \<open>Listeners\<close>

lemma print_line_SETEVENTS:
  assumes "dialogue c evs r rest" and "\<nexists>e. e \<in> set (map fst (eventListeners c)) \<and> CHR ''%'' \<in> set e"
    and "set (c_iter c (map fst (eventListeners c))) = set (map fst (eventListeners c))"
  shows "sendSetEvents c = (answer_error r, after_dialogue evs r rest
    (after_write (''SETEVENTS'' @ concat (map (\<lambda>e. '' '' @ e) (c_iter c (map fst (eventListeners c))))) c))"
proof -
  let ?cmd = "''SETEVENTS'' @ concat (map (\<lambda>e. '' '' @ e) (c_iter c (map fst (eventListeners c))))"
  have "CHR ''%'' \<notin> set ?cmd" using assms(2,3) by auto
  then have "sendSetEvents c = sendRequestIgnoreResponse ''%v'' [?cmd] c"
    unfolding sendSetEvents_def by (rule send_plain)
  then show ?thesis
    using SendRequest_dialogue [OF assms(1)] by (simp add: sendRequestIgnoreResponse_def)
qed

text \<open>C15: Adding a channel under some events registers it once per mention, after the channels
  already there, and tells Tor the full set of events listened to, each named once, in the
  order the runtime ranges over the map. If Tor refuses, every event has again as many
  entries of every channel as before.\<close>

theorem add_event_listener:
  assumes ls: "listeners_ok (eventListeners c)"
    and d: "dialogue c evs r rest"
    and iter: "\<forall>ks. mset (c_iter c ks) = mset ks"
    and plain: "\<forall>e\<in>set (map fst (eventListeners c)) \<union> set events. CHR ''%'' \<notin> set e"
  shows "\<exists>keys c'. AddEventListener ch events c = (answer_error r, c') \<and>
    distinct keys \<and> set keys = set (map fst (eventListeners c)) \<union> set events \<and>
    c_out c' = c_out c @ ''SETEVENTS'' @ concat (map (\<lambda>e. '' '' @ e) keys) @ CRLF \<and>
    (\<forall>e. if code r \<in> {250, 251}
      then listeners (eventListeners c') e = listeners (eventListeners c) e @ replicate (count_list events e) ch
      else mset (listeners (eventListeners c') e) = mset (listeners (eventListeners c) e))"
proof -
  let ?c = "addEventListenerToMap ch events c"
  let ?ls = "fold (add_listener ch) events (eventListeners c)"
  let ?keys = "c_iter c (map fst ?ls)"
  have k: "set (map fst ?ls) = set (map fst (eventListeners c)) \<union> set events"
    by (rule listeners.keys_adds [OF ls])
  have "distinct (map fst ?ls)" by (rule listeners.distinct_keys) (rule listeners.inv_adds [OF ls])
  then have dk: "distinct ?keys" by (metis iter mset_eq_imp_distinct_iff)
  have sk: "set ?keys = set (map fst ?ls)" by (metis iter mset_eq_setD)
  have d': "dialogue ?c evs r rest" using d by (simp add: dialogue_def addEventListenerToMap_def)
  have s: "sendSetEvents ?c = (answer_error r, after_dialogue evs r rest
      (after_write (''SETEVENTS'' @ concat (map (\<lambda>e. '' '' @ e) ?keys)) ?c))"
  proof -
    have e: "eventListeners ?c = ?ls" "c_iter ?c = c_iter c" by (simp_all add: addEventListenerToMap_def)
    have "\<nexists>e. e \<in> set (map fst ?ls) \<and> CHR ''%'' \<in> set e" using plain k by blast
    then show ?thesis using print_line_SETEVENTS [OF d'] sk unfolding e by blast
  qed
  show ?thesis
    using dk sk k s listeners.lookup_adds [OF ls, of ch events] listeners.add_remove_mset [OF ls, of ch events]
    by (intro exI [of _ ?keys] exI [of _ "snd (AddEventListener ch events c)"])
       (auto simp: AddEventListener_def removeEventListenerFromMap_def addEventListenerToMap_def
         after_dialogue_def after_write_def log_lines_def answer_error_def)
qed

theorem add_event_listener_witness:
  "let c = example_conn (concat (map render_reply [bw_reply]) @ render_reply ok_reply @ []) [(''CIRC'', [3])] in
   \<exists>keys c'. AddEventListener 7 [''BW'', ''CIRC''] c = (None, c') \<and> distinct keys \<and> set keys = {''CIRC'', ''BW''} \<and>
     c_out c' = ''SETEVENTS'' @ concat (map (\<lambda>e. '' '' @ e) keys) @ CRLF"
proof -
  let ?c = "example_conn (concat (map render_reply [bw_reply]) @ render_reply ok_reply @ []) [(''CIRC'', [3])]"
  have ok: "listeners_ok (eventListeners ?c)" by (simp add: listeners_ok_def)
  have d: "dialogue ?c [bw_reply] ok_reply []" by (simp add: dialogue_def example_replies(1-4))
  have it: "\<forall>ks. mset (c_iter ?c ks) = mset ks" by simp
  have pl: "\<forall>e\<in>set (map fst (eventListeners ?c)) \<union> set [''BW'', ''CIRC'']. CHR ''%'' \<notin> set e" by simp
  obtain keys c' where *: "AddEventListener 7 [''BW'', ''CIRC''] ?c = (answer_error ok_reply, c')"
    "distinct keys" "set keys = set (map fst (eventListeners ?c)) \<union> set [''BW'', ''CIRC'']"
    "c_out c' = c_out ?c @ ''SETEVENTS'' @ concat (map (\<lambda>e. '' '' @ e) keys) @ CRLF"
    using add_event_listener [OF ok d it pl, of 7] by (elim exE conjE) (rule that)
  have "set keys = {''CIRC'', ''BW''}" using *(3) by auto
  moreover have "answer_error ok_reply = None" by (simp add: answer_error_def example_replies)
  moreover have "c_out c' = ''SETEVENTS'' @ concat (map (\<lambda>e. '' '' @ e) keys) @ CRLF"
    using *(4) by simp
  ultimately show ?thesis unfolding Let_def using *(1,2) by (intro exI [of _ keys] exI [of _ c']) (simp only: simp_thms)
qed

text \<open>Removing a channel from the events it was added for undoes the addition: with no
  other registration of the channel under them, every event has exactly its former channels
  in their former order. Removing takes out one entry per mention and never fails on a
  channel that is not there.\<close>

theorem remove_event_listener_undoes_add:
  assumes "listeners_ok (eventListeners c)" and "ch \<notin> registered (eventListeners c)"
  shows "listeners_ok (eventListeners (removeEventListenerFromMap ch events (addEventListenerToMap ch events c))) \<and>
    listeners (eventListeners (removeEventListenerFromMap ch events (addEventListenerToMap ch events c))) =
    listeners (eventListeners c)"
  using assms listeners.inv_adds listeners.inv_removes
  by (auto simp: removeEventListenerFromMap_def addEventListenerToMap_def fun_eq_iff registered_def
      intro: listeners.add_remove_fresh)

theorem remove_event_listener_undoes_add_witness:
  "listeners (eventListeners (removeEventListenerFromMap 7 [''BW'', ''CIRC'']
     (addEventListenerToMap 7 [''BW'', ''CIRC''] (example_conn [] [(''CIRC'', [3])])))) =
   listeners [(''CIRC'', [3])]"
proof -
  have "7 \<notin> registered [(''CIRC'', [3])]" by (simp add: registered_def listeners_def)
  then show ?thesis
    using remove_event_listener_undoes_add [of "example_conn [] [(''CIRC'', [3])]" 7 "[''BW'', ''CIRC'']"]
    by (simp add: listeners_ok_def)
qed

section \<open>Handling the next message\<close>

lemma render_reply_code: "reply_ok r \<Longrightarrow> take 3 (render_reply r) = itoa (code r) \<and> 3 \<le> length (render_reply r)"
proof -
  assume ok: "reply_ok r"
  have "\<exists>t. render_reply r = itoa (code r) @ t"
  proof (cases "parts r")
    case (Cons p ps)
    then show ?thesis by (cases p) (simp_all add: render_reply_def)
  qed (simp add: render_reply_def)
  then show ?thesis using ok by (auto simp: reply_ok_def itoa_code_3)
qed

lemma HandleNextEvent_render:
  assumes "reply_ok r" and "c_in c = render_reply r @ rest"
  shows "HandleNextEvent c =
    (None, if code r = 650
      then c\<lparr>DebugWriter := map_option (\<lambda>w. w @ reply_log r) (DebugWriter c), c_in := rest,
             c_sent := c_sent c @ deliveries (eventListeners c) (view_reply r)\<rparr>
      else c)"
proof -
  have p: "peek3 (c_in c) = Inr (itoa (code r))"
    using render_reply_code [OF assms(1)] assms(2) by (simp add: peek3_def)
  have a: "Atoi (itoa (code r)) = (code r, None)"
    using assms(1) by (intro Atoi_itoa) (simp_all add: reply_ok_def)
  show ?thesis
    using ReadResponse_render [OF assms]
    by (simp add: HandleNextEvent_def p a StatusAsyncEvent_def relay_deliveries log_lines_def)
qed

text \<open>Handling the next message takes an event off the connection and relays it; of any
  other response it takes nothing and reports no error, so the response is left to the
  request that awaits it.\<close>

theorem handle_next_event:
  assumes "reply_ok r" and "c_in c = render_reply r @ rest"
  shows "HandleNextEvent c =
    (None, if code r = 650
      then c\<lparr>DebugWriter := map_option (\<lambda>w. w @ reply_log r) (DebugWriter c), c_in := rest,
             c_sent := c_sent c @ deliveries (eventListeners c) (view_reply r)\<rparr>
      else c)"
  by (rule HandleNextEvent_render [OF assms])

theorem handle_next_event_witness:
  "HandleNextEvent (example_conn (render_reply ok_reply @ ''650'') []) =
     (None, example_conn (render_reply ok_reply @ ''650'') [])"
  using handle_next_event [of ok_reply "example_conn (render_reply ok_reply @ ''650'') []" "''650''"]
    example_replies(1,3) by (simp add: is_answer_def)

section \<open>Events routed under a wrong code\<close>

text \<open>An event whose first line is its code alone and whose content follows as a body, as NS and
  NEWCONSENSUS are, gets the wrong code: the search for a space looks through the body too,
  so the code runs into the body, the event counts as unrecognized, and no channel registered
  for it receives it.\<close>

lemma event_parts_space:
  assumes "CHR '' '' \<notin> set a" and "Data resp = [a @ '' '' @ b]"
  shows "event_parts resp = (a, b, [])"
proof -
  have "index_str (a @ '' '' @ b) '' '' = int (length a)"
  proof (rule index_str_append, intro allI impI)
    fix a' b' assume "a = a' @ b' \<and> b' \<noteq> []"
    with assms(1) show "\<not> prefix '' '' (b' @ '' '' @ b)" by (cases b') auto
  qed
  moreover have "nat (int (length a) + 1) = length a + 1" by simp
  ultimately show ?thesis using assms(2) by (simp add: event_parts_def Let_def)
qed

lemma newconsensus_misrouted:
  assumes "CHR '' '' \<notin> set w" and "Data resp = [(''NEWCONSENSUS'' @ CRLF @ w) @ '' '' @ body]"
  shows "event_parts resp = (''NEWCONSENSUS'' @ CRLF @ w, body, []) \<and>
    ''NEWCONSENSUS'' @ CRLF @ w \<notin> mapEventCodes"
proof -
  have "CHR '' '' \<notin> set (''NEWCONSENSUS'' @ CRLF @ w)" using assms(1) by (simp add: CRLF_def)
  then have "event_parts resp = (''NEWCONSENSUS'' @ CRLF @ w, body, [])"
    using assms(2) by (rule event_parts_space)
  then show ?thesis by (simp add: mapEventCodes_def recognizedEventCodes_def CRLF_def)
qed

text \<open>A channel that listens for unrecognized events makes the library send Tor the code
  \<open><unrecognized>\<close>, which is no event of the control protocol.\<close>

lemma unrecognized_listener_command:
  "c_out (snd (AddEventListener 7 [EventCodeUnrecognized] (example_conn (render_reply ok_reply) []))) =
     ''SETEVENTS <unrecognized>'' @ CRLF"
proof -
  let ?c = "addEventListenerToMap 7 [EventCodeUnrecognized] (example_conn (render_reply ok_reply) [])"
  have ls: "eventListeners ?c = [(''<unrecognized>'', [7])]"
    by (simp add: addEventListenerToMap_def add_listener_def EventCodeUnrecognized_def)
  have "dialogue ?c [] ok_reply []" "c_iter ?c = id" "c_out ?c = []"
    by (simp_all add: dialogue_def example_replies(1-4) addEventListenerToMap_def)
  then show ?thesis
    using print_line_SETEVENTS [of ?c "[]" ok_reply "[]"] ls
    by (simp add: AddEventListener_def answer_error_def example_replies(3) after_dialogue_def
        after_write_def log_lines_def)
qed

end
