(* ===== verification/Keyval.thy ===== *)
theory Keyval
  imports Torutil_String
begin

text \<open>
  \<open>control/keyval.go\<close>: key-value pairs. An empty value means nil unless \<open>ValSetAndEmpty\<close> is
  set. \<open>KeyVals\<close> panics on an odd number of strings.
\<close>

record key_val =
  Key :: string
  Val :: string
  ValSetAndEmpty :: bool

definition NewKeyVal :: "string \<Rightarrow> string \<Rightarrow> key_val" where
  "NewKeyVal key val = \<lparr>Key = key, Val = val, ValSetAndEmpty = False\<rparr>"

definition KeyVals :: "string list \<Rightarrow> key_val list panicking" where
  "KeyVals keysAndVals =
     (if length keysAndVals mod 2 \<noteq> 0 then Inl ''Expected multiple of 2''
      else Inr (map (\<lambda>i. NewKeyVal (keysAndVals ! (i * 2)) (keysAndVals ! (i * 2 + 1)))
                  [0..<length keysAndVals div 2]))"

definition ValSet :: "key_val \<Rightarrow> bool" where
  "ValSet k \<longleftrightarrow> 0 < length (Val k) \<or> ValSetAndEmpty k"

lemma KeyVals_length: "KeyVals ss = Inr kvs \<Longrightarrow> length ss = 2 * length kvs"
  by (auto simp: KeyVals_def split: if_splits)

lemma KeyVals_pair: "KeyVals [k, v] = Inr [NewKeyVal k v]"
  by (simp add: KeyVals_def)

end
