(* ===== verification/Commands.thy ===== *)
theory Commands
  imports Conn_Props Keyval
begin

text \<open>
  The commands of \<open>control/cmd_conf.go\<close>, \<open>cmd_misc.go\<close>, \<open>cmd_circuit.go\<close>, \<open>cmd_stream.go\<close> and
  \<open>cmd_hiddenservice.go\<close>, each with the text it builds. Where the source passes the text
  built as the format of \<open>SendRequest\<close>, so does the model: a percent sign in an argument
  then reaches \<open>fmt\<close>.
\<close>

section \<open>The result of a request\<close>

text \<open>\<open>resp, err := SendRequest(...); if err != nil { return nil, err }\<close>. A nil response comes
  with an error always.\<close>

definition request :: "string \<Rightarrow> string list \<Rightarrow> conn \<Rightarrow> response result \<times> conn" where
  "request format args c =
     (case SendRequest format args c of
        ((Some resp, None), c') \<Rightarrow> (Inr resp, c')
      | ((_, Some err), c') \<Rightarrow> (Inl err, c')
      | ((None, None), c') \<Rightarrow> (Inl (ErrorString ''nil response''), c'))"

lemma SendRequest_not_nil: "fst (SendRequest format args c) \<noteq> (None, None)"
  by (auto simp: SendRequest_def split: option.splits prod.splits sum.splits)

lemma extends_request: "request format args c = (res, c') \<Longrightarrow> extends c c'"
  by (auto simp: request_def dest: extends_SendRequest split: prod.splits option.splits)

lemma request_dialogue:
  assumes "dialogue c evs r rest"
  shows "request format args c =
    (case answer_error r of None \<Rightarrow> Inr (view_reply r) | Some e \<Rightarrow> Inl e,
     after_dialogue evs r rest (after_write (sprintf format args) c))"
  using SendRequest_dialogue [OF assms] by (simp add: request_def split: option.split)

text \<open>A loop that appends to a slice and returns on the first error.\<close>

fun traverse :: "('a \<Rightarrow> 'b result) \<Rightarrow> 'a list \<Rightarrow> 'b list result" where
  "traverse f [] = Inr []"
| "traverse f (x # xs) =
     (case f x of Inl err \<Rightarrow> Inl err
      | Inr y \<Rightarrow> (case traverse f xs of Inl err \<Rightarrow> Inl err | Inr ys \<Rightarrow> Inr (y # ys)))"

lemma traverse_map: "\<forall>x\<in>set xs. f (g x) = Inr (h x) \<Longrightarrow> traverse f (map g xs) = Inr (map h xs)"
  by (induction xs) auto

lemma traverse_length: "traverse f xs = Inr ys \<Longrightarrow> length ys = length xs"
  by (induction xs arbitrary: ys) (auto split: sum.splits)

section \<open>Configuration\<close>

definition conf_entry_text :: "key_val \<Rightarrow> string" where
  "conf_entry_text entry =
     '' '' @ Key entry @
     (if ValSet entry then ''='' @ EscapeSimpleQuotedStringIfNeeded (Val entry) else [])"

definition sendSetConf :: "string \<Rightarrow> key_val list \<Rightarrow> conn \<Rightarrow> error option \<times> conn" where
  "sendSetConf cmd entries = sendRequestIgnoreResponse (cmd @ concat (map conf_entry_text entries)) []"

definition SetConf :: "key_val list \<Rightarrow> conn \<Rightarrow> error option \<times> conn" where
  "SetConf entries = sendSetConf ''SETCONF'' entries"

definition ResetConf :: "key_val list \<Rightarrow> conn \<Rightarrow> error option \<times> conn" where
  "ResetConf entries = sendSetConf ''RESETCONF'' entries"

definition conf_entry :: "string \<Rightarrow> key_val result" where
  "conf_entry data =
     (let (key, val, ok) = PartitionString data (CHR ''='') in
      if ok then
        (case UnescapeSimpleQuotedStringIfNeeded val of
           Inl err \<Rightarrow> Inl err
         | Inr v \<Rightarrow> Inr \<lparr>Key = key, Val = v, ValSetAndEmpty = (length v = 0)\<rparr>)
      else Inr \<lparr>Key = key, Val = [], ValSetAndEmpty = False\<rparr>)"

definition GetConf :: "string list \<Rightarrow> conn \<Rightarrow> key_val list result \<times> conn" where
  "GetConf keys c =
     (case request ''GETCONF %v'' [join keys '' ''] c of
        (Inl err, c') \<Rightarrow> (Inl err, c')
      | (Inr resp, c') \<Rightarrow> (traverse conf_entry (DataWithReply resp), c'))"

definition SaveConf :: "bool \<Rightarrow> conn \<Rightarrow> error option \<times> conn" where
  "SaveConf force = sendRequestIgnoreResponse (''SAVECONF'' @ (if force then '' FORCE'' else [])) []"

definition LoadConf :: "string \<Rightarrow> conn \<Rightarrow> error option \<times> conn" where
  "LoadConf conf = sendRequestIgnoreResponse (''+LOADCONF'' @ CRLF @ ''%v'' @ CRLF @ ''.'') [conf]"

section \<open>Miscellaneous commands\<close>

definition Signal :: "string \<Rightarrow> conn \<Rightarrow> error option \<times> conn" where
  "Signal signal = sendRequestIgnoreResponse ''SIGNAL %v'' [signal]"

definition address_pair :: "string \<Rightarrow> key_val" where
  "address_pair address =
     (let (key, val, _) = PartitionString address (CHR ''='')
      in \<lparr>Key = key, Val = val, ValSetAndEmpty = False\<rparr>)"

definition MapAddresses :: "key_val list \<Rightarrow> conn \<Rightarrow> key_val list result \<times> conn" where
  "MapAddresses addresses c =
     (case request (''MAPADDRESS'' @ concat (map (\<lambda>a. '' '' @ Key a @ ''='' @ Val a) addresses)) [] c of
        (Inl err, c') \<Rightarrow> (Inl err, c')
      | (Inr resp, c') \<Rightarrow> (Inr (map address_pair (DataWithReply resp)), c'))"

definition info_entry :: "string \<Rightarrow> key_val result" where
  "info_entry val =
     (let (key, v, _) = PartitionString val (CHR ''='') in
      case UnescapeSimpleQuotedStringIfNeeded v of
        Inl err \<Rightarrow> Inl err
      | Inr v' \<Rightarrow> Inr \<lparr>Key = key, Val = v', ValSetAndEmpty = False\<rparr>)"

definition GetInfo :: "string list \<Rightarrow> conn \<Rightarrow> key_val list result \<times> conn" where
  "GetInfo keys c =
     (case request ''GETINFO %v'' [join keys '' ''] c of
        (Inl err, c') \<Rightarrow> (Inl err, c')
      | (Inr resp, c') \<Rightarrow> (traverse info_entry (Data resp), c'))"

definition PostDescriptor :: "string \<Rightarrow> string \<Rightarrow> string \<Rightarrow> conn \<Rightarrow> error option \<times> conn" where
  "PostDescriptor descriptor purpose cache =
     sendRequestIgnoreResponse
       (''+POSTDESCRIPTOR'' @ (if purpose \<noteq> [] then '' purpose='' @ purpose else []) @
        (if cache \<noteq> [] then '' cache='' @ cache else []) @ CRLF @ descriptor @ CRLF @ ''.'') []"

definition UseFeatures :: "string list \<Rightarrow> conn \<Rightarrow> error option \<times> conn" where
  "UseFeatures features = sendRequestIgnoreResponse (''USEFEATURE '' @ join features '' '') []"

definition ResolveAsync :: "string \<Rightarrow> bool \<Rightarrow> conn \<Rightarrow> error option \<times> conn" where
  "ResolveAsync address reverse =
     sendRequestIgnoreResponse (''RESOLVE '' @ (if reverse then ''mode=reverse '' else []) @ address) []"

definition TakeOwnership :: "conn \<Rightarrow> error option \<times> conn" where
  "TakeOwnership = sendRequestIgnoreResponse ''TAKEOWNERSHIP'' []"

definition DropGuards :: "conn \<Rightarrow> error option \<times> conn" where
  "DropGuards = sendRequestIgnoreResponse ''DROPGUARDS'' []"

section \<open>Circuits and streams\<close>

definition ExtendCircuit :: "string \<Rightarrow> string list \<Rightarrow> string \<Rightarrow> conn \<Rightarrow> string result \<times> conn" where
  "ExtendCircuit circuitID0 path purpose c =
     (let circuitID = (if circuitID0 = [] then ''0'' else circuitID0);
          cmd = ''EXTENDCIRCUIT '' @ circuitID @
                (if 0 < length path then '' '' @ join path '','' else []) @
                (if purpose \<noteq> [] then '' purpose='' @ purpose else [])
      in case request cmd [] c of
           (Inl err, c') \<Rightarrow> (Inl err, c')
         | (Inr resp, c') \<Rightarrow>
             (Inr (drop (nat (last_index_byte (Reply resp) (CHR '' '') + 1)) (Reply resp)), c'))"

definition SetCircuitPurpose :: "string \<Rightarrow> string \<Rightarrow> conn \<Rightarrow> error option \<times> conn" where
  "SetCircuitPurpose circuitID purpose =
     sendRequestIgnoreResponse ''SETCIRCUITPURPOSE %v purpose=%v'' [circuitID, purpose]"

definition CloseCircuit :: "string \<Rightarrow> string list \<Rightarrow> conn \<Rightarrow> error option \<times> conn" where
  "CloseCircuit circuitID flags =
     sendRequestIgnoreResponse (''CLOSECIRCUIT '' @ circuitID @ concat (map (\<lambda>f. '' '' @ f) flags)) []"

definition AttachStream :: "string \<Rightarrow> string \<Rightarrow> int \<Rightarrow> conn \<Rightarrow> error option \<times> conn" where
  "AttachStream streamID circuitID hopNum =
     sendRequestIgnoreResponse
       (''ATTACHSTREAM '' @ streamID @ '' '' @ (if circuitID = [] then ''0'' else circuitID) @
        (if 0 < hopNum then '' HOP='' @ itoa hopNum else [])) []"

definition RedirectStream :: "string \<Rightarrow> string \<Rightarrow> int \<Rightarrow> conn \<Rightarrow> error option \<times> conn" where
  "RedirectStream streamID address port =
     sendRequestIgnoreResponse
       (''REDIRECTSTREAM '' @ streamID @ '' '' @ address @ (if 0 < port then '' '' @ itoa port else [])) []"

definition CloseStream :: "string \<Rightarrow> string \<Rightarrow> conn \<Rightarrow> error option \<times> conn" where
  "CloseStream streamID reason = sendRequestIgnoreResponse ''CLOSESTREAM %v %v'' [streamID, reason]"

section \<open>Hidden service descriptors\<close>

definition GetHiddenServiceDescriptorAsync :: "string \<Rightarrow> string \<Rightarrow> conn \<Rightarrow> error option \<times> conn" where
  "GetHiddenServiceDescriptorAsync address server =
     sendRequestIgnoreResponse
       (''HSFETCH '' @ address @ (if server \<noteq> [] then '' SERVER='' @ server else [])) []"

text \<open>As in the source, no space comes before \<open>HSADDRESS\<close>.\<close>

definition PostHiddenServiceDescriptorAsync :: "string \<Rightarrow> string list \<Rightarrow> string \<Rightarrow> conn \<Rightarrow> error option \<times> conn" where
  "PostHiddenServiceDescriptorAsync desc servers address =
     sendRequestIgnoreResponse
       (''+HSPOST'' @ concat (map (\<lambda>s. '' SERVER='' @ s) servers) @
        (if address \<noteq> [] then ''HSADDRESS='' @ address else []) @ CRLF @ desc @ CRLF @ ''.'') []"

end
