(* ===== verification/Auth.thy ===== *)
theory Auth
  imports Commands Go_Sha256
begin

text \<open>
  \<open>control/cmd_protocolinfo.go\<close> and \<open>control/cmd_authenticate.go\<close>: asking Tor how to
  authenticate, and authenticating, in the safe-cookie case by a challenge both sides answer.
  The cookie file and the random nonce come from outside: the arguments \<open>read_file\<close> and
  \<open>rand\<close> say what reading a file and drawing 32 random bytes give.
\<close>

section \<open>Protocol information\<close>

definition HasAuthMethod :: "ProtocolInfo \<Rightarrow> string \<Rightarrow> bool" where
  "HasAuthMethod p authMethod \<longleftrightarrow> (\<exists>m\<in>set (AuthMethods p). m = authMethod)"

text \<open>What one line of the reply does to the result; the only error is a wrong version.\<close>

definition pi_auth :: "string \<Rightarrow> ProtocolInfo \<Rightarrow> ProtocolInfo" where
  "pi_auth val ret =
     (let (methods, cookieFile, _) = PartitionString val (CHR '' '') in
      if \<not> has_prefix methods ''METHODS='' then ret
      else
        let set_methods = \<lambda>ret. ret\<lparr>AuthMethods := split_byte (drop 8 methods) (CHR '','')\<rparr> in
        if cookieFile \<noteq> [] then
          if \<not> has_prefix cookieFile ''COOKIEFILE='' then ret
          else (case UnescapeSimpleQuotedString (drop 11 cookieFile) of
                  Inl _ \<Rightarrow> ret\<lparr>CookieFile := []\<rparr>
                | Inr file \<Rightarrow> set_methods (ret\<lparr>CookieFile := file\<rparr>))
        else set_methods ret)"

definition pi_piece :: "string \<Rightarrow> ProtocolInfo \<Rightarrow> ProtocolInfo result" where
  "pi_piece piece ret =
     (let (key, val, ok) = PartitionString piece (CHR '' '') in
      if \<not> ok then Inr ret
      else if key = ''PROTOCOLINFO'' then
        if val \<noteq> ''1'' then Inl (ProtocolError (''Invalid PIVERSION: '' @ val)) else Inr ret
      else if key = ''AUTH'' then Inr (pi_auth val ret)
      else if key = ''VERSION'' then
        let (torVersion, _, _) = PartitionString val (CHR '' '') in
        Inr (if has_prefix torVersion ''Tor='' then ret\<lparr>TorVersion := unquoted (drop 4 torVersion)\<rparr> else ret)
      else Inr ret)"

fun pi_loop :: "string list \<Rightarrow> ProtocolInfo \<Rightarrow> ProtocolInfo result" where
  "pi_loop [] ret = Inr ret"
| "pi_loop (piece # pieces) ret =
     (case pi_piece piece ret of Inl err \<Rightarrow> Inl err | Inr ret' \<Rightarrow> pi_loop pieces ret')"

definition sendProtocolInfo :: "conn \<Rightarrow> ProtocolInfo result \<times> conn" where
  "sendProtocolInfo c =
     (case request ''PROTOCOLINFO'' [] c of
        (Inl err, c') \<Rightarrow> (Inl err, c')
      | (Inr resp, c') \<Rightarrow>
          (pi_loop (Data resp) \<lparr>AuthMethods = [], CookieFile = [], TorVersion = [], RawResponse = resp\<rparr>, c'))"

text \<open>The method \<open>ProtocolInfo\<close>: asked once, then cached.\<close>

definition getProtocolInfo :: "conn \<Rightarrow> ProtocolInfo result \<times> conn" where
  "getProtocolInfo c =
     (case protocolInfo c of
        Some pi \<Rightarrow> (Inr pi, c)
      | None \<Rightarrow>
          (case sendProtocolInfo c of
             (Inl err, c') \<Rightarrow> (Inl err, c'\<lparr>protocolInfo := None\<rparr>)
           | (Inr pi, c') \<Rightarrow> (Inr pi, c'\<lparr>protocolInfo := Some pi\<rparr>)))"

section \<open>The challenge\<close>

definition string_bytes :: "string \<Rightarrow> bytes" where
  "string_bytes s = map of_char s"

definition server_hash_key :: bytes where
  "server_hash_key = string_bytes ''Tor safe cookie authentication server-to-controller hash''"

definition client_hash_key :: bytes where
  "client_hash_key = string_bytes ''Tor safe cookie authentication controller-to-server hash''"

definition hex_field :: "string \<Rightarrow> string \<Rightarrow> bytes result" where
  "hex_field name s =
     (case hex_decode s of
        Inl err \<Rightarrow> Inl (ProtocolErrorf (''Failed to decode '' @ name @ '': '') err)
      | Inr bs \<Rightarrow>
          if length bs \<noteq> 32
          then Inl (ProtocolError (''Invalid '' @ name @ '' length: '' @ itoa (int (length bs))))
          else Inr bs)"

text \<open>From the cookie, the client's nonce and Tor's reply to the client's answer.\<close>

definition answer_challenge :: "bytes \<Rightarrow> bytes \<Rightarrow> string \<Rightarrow> bytes result" where
  "answer_challenge cookie clientNonce reply =
     (let splitResp = split_byte reply (CHR '' '') in
      if length splitResp \<noteq> 3 \<or> \<not> has_prefix (splitResp ! 1) ''SERVERHASH='' \<or>
         \<not> has_prefix (splitResp ! 2) ''SERVERNONCE=''
      then Inl (ProtocolError ''Invalid AUTHCHALLENGE response'')
      else case hex_field ''ServerHash'' (drop 11 (splitResp ! 1)) of
          Inl err \<Rightarrow> Inl err
        | Inr serverHash \<Rightarrow>
            (case hex_field ''ServerNonce'' (drop 12 (splitResp ! 2)) of
               Inl err \<Rightarrow> Inl err
             | Inr serverNonce \<Rightarrow>
                 let msg = cookie @ clientNonce @ serverNonce in
                 if serverHash \<noteq> hmac_sha256 server_hash_key msg
                 then Inl (ProtocolError ''invalid ServerHash: mismatch'')
                 else Inr (hmac_sha256 client_hash_key msg)))"

section \<open>Authentication\<close>

definition safe_cookie ::
    "(string \<Rightarrow> bytes result) \<Rightarrow> bytes result \<Rightarrow> ProtocolInfo \<Rightarrow> conn \<Rightarrow> bytes result \<times> conn" where
  "safe_cookie read_file rand pi c =
     (if CookieFile pi = [] then (Inl (ProtocolError ''Invalid (empty) COOKIEFILE''), c)
      else case read_file (CookieFile pi) of
          Inl err \<Rightarrow> (Inl (ProtocolErrorf ''Failed to read COOKIEFILE: '' err), c)
        | Inr cookie \<Rightarrow>
            if length cookie \<noteq> 32
            then (Inl (ProtocolError (''Invalid cookie file length: '' @ itoa (int (length cookie)))), c)
            else (case rand of
                Inl err \<Rightarrow> (Inl (ProtocolErrorf ''Failed to generate clientNonce: '' err), c)
              | Inr clientNonce \<Rightarrow>
                  (case request ''AUTHCHALLENGE %s %s'' [''SAFECOOKIE'', hex_encode clientNonce] c of
                     (Inl err, c') \<Rightarrow> (Inl err, c')
                   | (Inr resp, c') \<Rightarrow> (answer_challenge cookie clientNonce (Reply resp), c'))))"

definition auth_bytes ::
    "(string \<Rightarrow> bytes result) \<Rightarrow> bytes result \<Rightarrow> string \<Rightarrow> ProtocolInfo \<Rightarrow> conn \<Rightarrow> bytes result \<times> conn" where
  "auth_bytes read_file rand password pi c =
     (if HasAuthMethod pi ''NULL'' then (Inr [], c)
      else if HasAuthMethod pi ''SAFECOOKIE'' then safe_cookie read_file rand pi c
      else if HasAuthMethod pi ''HASHEDPASSWORD'' then
        if password = [] then (Inl (ProtocolError ''password auth needs a password''), c)
        else (Inr (string_bytes password), c)
      else (Inl (ProtocolError ''No supported authentication methods''), c))"

definition sendAuthenticate :: "bytes \<Rightarrow> conn \<Rightarrow> error option \<times> conn" where
  "sendAuthenticate byts c =
     (if length byts = 0 then sendRequestIgnoreResponse ''AUTHENTICATE'' [] c
      else sendRequestIgnoreResponse ''AUTHENTICATE %v'' [hex_encode byts] c)"

definition Authenticate ::
    "(string \<Rightarrow> bytes result) \<Rightarrow> bytes result \<Rightarrow> string \<Rightarrow> conn \<Rightarrow> error option \<times> conn" where
  "Authenticate read_file rand password c =
     (if Authenticated c then (None, c)
      else case getProtocolInfo c of
          (Inl err, c1) \<Rightarrow> (Some err, c1)
        | (Inr pi, c1) \<Rightarrow>
            (case auth_bytes read_file rand password pi c1 of
               (Inl err, c2) \<Rightarrow> (Some err, c2)
             | (Inr byts, c2) \<Rightarrow>
                 (case sendAuthenticate byts c2 of
                    (None, c3) \<Rightarrow> (None, c3\<lparr>Authenticated := True\<rparr>)
                  | (Some err, c3) \<Rightarrow> (Some err, c3))))"

end
