(* ===== verification/Command_Props.thy ===== *)
theory Command_Props
  imports Commands
begin

text \<open>
  The commands as providers of the interface of a command that sends one line, the round
  trips of the configuration commands, and the texts that are not what they should be.
\<close>

section \<open>Every plain command sends its line\<close>

abbreviation no_percent :: "string \<Rightarrow> bool" where
  "no_percent s \<equiv> CHR ''%'' \<notin> set s"

lemma itoa_no_percent [simp]: "no_percent (itoa i)"
proof -
  have "\<not> is_digit (CHR ''%'')" by code_simp
  then show ?thesis using nat_digits_is_digit by (auto simp: itoa_def)
qed

lemma send_format:
  "sprintf f as = l \<Longrightarrow> sendRequestIgnoreResponse f as c = sendRequestIgnoreResponse ''%v'' [l] c"
  by (simp add: sendRequestIgnoreResponse_def SendRequest_def)

lemma line_commandI:
  assumes "\<And>a. cmd a = sendRequestIgnoreResponse (f a) (as a)" and "\<And>a. ok a \<Longrightarrow> sprintf (f a) (as a) = line a"
  shows "line_command cmd line ok"
  by unfold_locales (simp only: assms(1) send_format [OF assms(2)])

lemma set_join: "set (join ws sep) \<subseteq> (\<Union>w\<in>set ws. set w) \<union> set sep"
  by (induction ws sep rule: join.induct) auto

lemma join_no_percent: "\<forall>w\<in>set ws. no_percent w \<Longrightarrow> no_percent sep \<Longrightarrow> no_percent (join ws sep)"
  using set_join [of ws sep] by auto

definition set_conf_line :: "string \<Rightarrow> key_val list \<Rightarrow> string" where
  "set_conf_line cmd entries = cmd @ concat (map conf_entry_text entries)"

definition entries_plain :: "key_val list \<Rightarrow> bool" where
  "entries_plain entries \<longleftrightarrow> (\<forall>e\<in>set entries. no_percent (Key e) \<and> no_percent (Val e))"

lemma escape_no_percent: "no_percent s \<Longrightarrow> no_percent (EscapeSimpleQuotedStringIfNeeded s)"
  by (auto simp: EscapeSimpleQuotedStringIfNeeded_def EscapeSimpleQuotedString_def
      EscapeSimpleQuotedStringContents_def)

lemma set_conf_no_percent:
  "no_percent cmd \<Longrightarrow> entries_plain entries \<Longrightarrow> no_percent (set_conf_line cmd entries)"
  by (auto simp: set_conf_line_def entries_plain_def conf_entry_text_def dest: escape_no_percent)

interpretation set_conf: line_command SetConf "set_conf_line ''SETCONF''" entries_plain
  by (rule line_commandI [where as = "\<lambda>_. []" and f = "set_conf_line ''SETCONF''"])
     (simp_all add: SetConf_def sendSetConf_def set_conf_line_def [symmetric] sprintf0_id set_conf_no_percent)

interpretation reset_conf: line_command ResetConf "set_conf_line ''RESETCONF''" entries_plain
  by (rule line_commandI [where as = "\<lambda>_. []" and f = "set_conf_line ''RESETCONF''"])
     (simp_all add: ResetConf_def sendSetConf_def set_conf_line_def [symmetric] sprintf0_id set_conf_no_percent)

interpretation save_conf: line_command SaveConf "\<lambda>force. ''SAVECONF'' @ (if force then '' FORCE'' else [])" "\<lambda>_. True"
  by (rule line_commandI [OF SaveConf_def]) simp

text \<open>Commands whose arguments are operands of the format take any argument.\<close>

interpretation load_conf: line_command LoadConf "\<lambda>conf. ''+LOADCONF'' @ CRLF @ conf @ CRLF @ ''.''" "\<lambda>_. True"
  by (rule line_commandI [OF LoadConf_def]) (simp add: CRLF_def)

interpretation signal: line_command Signal "\<lambda>s. ''SIGNAL '' @ s" "\<lambda>_. True"
  by (rule line_commandI [OF Signal_def]) simp

interpretation set_circuit_purpose: line_command "\<lambda>(i, p). SetCircuitPurpose i p"
    "\<lambda>(i, p). ''SETCIRCUITPURPOSE '' @ i @ '' purpose='' @ p" "\<lambda>_. True"
  by unfold_locales (auto simp: SetCircuitPurpose_def intro!: send_format)

interpretation close_stream: line_command "\<lambda>(i, r). CloseStream i r"
    "\<lambda>(i, r). ''CLOSESTREAM '' @ i @ '' '' @ r" "\<lambda>_. True"
  by unfold_locales (auto simp: CloseStream_def intro!: send_format)

text \<open>Commands whose text is the format take arguments without percent signs.\<close>

interpretation use_features: line_command UseFeatures "\<lambda>fs. ''USEFEATURE '' @ join fs '' ''"
    "\<lambda>fs. \<forall>f\<in>set fs. no_percent f"
  by (rule line_commandI [OF UseFeatures_def]) (simp add: sprintf0_id join_no_percent)

interpretation resolve: line_command "\<lambda>(a, rev). ResolveAsync a rev"
    "\<lambda>(a, rev). ''RESOLVE '' @ (if rev then ''mode=reverse '' else []) @ a" "\<lambda>(a, rev). no_percent a"
  by unfold_locales (auto simp: ResolveAsync_def sprintf0_id intro!: send_format)

interpretation take_ownership: line_command "\<lambda>_ :: unit. TakeOwnership" "\<lambda>_. ''TAKEOWNERSHIP''" "\<lambda>_. True"
  by (rule line_commandI [OF TakeOwnership_def]) simp

interpretation drop_guards: line_command "\<lambda>_ :: unit. DropGuards" "\<lambda>_. ''DROPGUARDS''" "\<lambda>_. True"
  by (rule line_commandI [OF DropGuards_def]) simp

interpretation close_circuit: line_command "\<lambda>(i, fs). CloseCircuit i fs"
    "\<lambda>(i, fs). ''CLOSECIRCUIT '' @ i @ concat (map (\<lambda>f. '' '' @ f) fs)"
    "\<lambda>(i, fs). no_percent i \<and> (\<forall>f\<in>set fs. no_percent f)"
  by unfold_locales (auto simp: CloseCircuit_def sprintf0_id intro!: send_format)

interpretation attach_stream: line_command "\<lambda>(s, i, h). AttachStream s i h"
    "\<lambda>(s, i, h). ''ATTACHSTREAM '' @ s @ '' '' @ (if i = [] then ''0'' else i) @ (if 0 < h then '' HOP='' @ itoa h else [])"
    "\<lambda>(s, i, h). no_percent s \<and> no_percent i"
  by unfold_locales (auto simp: AttachStream_def sprintf0_id intro!: send_format)

interpretation redirect_stream: line_command "\<lambda>(s, a, p). RedirectStream s a p"
    "\<lambda>(s, a, p). ''REDIRECTSTREAM '' @ s @ '' '' @ a @ (if 0 < p then '' '' @ itoa p else [])"
    "\<lambda>(s, a, p). no_percent s \<and> no_percent a"
  by unfold_locales (auto simp: RedirectStream_def sprintf0_id intro!: send_format)

interpretation hs_fetch: line_command "\<lambda>(a, s). GetHiddenServiceDescriptorAsync a s"
    "\<lambda>(a, s). ''HSFETCH '' @ a @ (if s \<noteq> [] then '' SERVER='' @ s else [])"
    "\<lambda>(a, s). no_percent a \<and> no_percent s"
  by unfold_locales (auto simp: GetHiddenServiceDescriptorAsync_def sprintf0_id intro!: send_format)

definition hs_post_line :: "string \<times> string list \<times> string \<Rightarrow> string" where
  "hs_post_line = (\<lambda>(desc, servers, address). ''+HSPOST'' @ concat (map (\<lambda>s. '' SERVER='' @ s) servers) @
     (if address \<noteq> [] then ''HSADDRESS='' @ address else []) @ CRLF @ desc @ CRLF @ ''.'')"

interpretation hs_post: line_command "\<lambda>(d, s, a). PostHiddenServiceDescriptorAsync d s a" hs_post_line
    "\<lambda>a. no_percent (hs_post_line a)"
  by unfold_locales
     (auto simp only: PostHiddenServiceDescriptorAsync_def hs_post_line_def split_def fst_conv snd_conv
        intro!: send_plain)

definition post_descriptor_line :: "string \<times> string \<times> string \<Rightarrow> string" where
  "post_descriptor_line = (\<lambda>(d, purpose, cache). ''+POSTDESCRIPTOR'' @
     (if purpose \<noteq> [] then '' purpose='' @ purpose else []) @
     (if cache \<noteq> [] then '' cache='' @ cache else []) @ CRLF @ d @ CRLF @ ''.'')"

interpretation post_descriptor: line_command "\<lambda>(d, p, c). PostDescriptor d p c" post_descriptor_line
    "\<lambda>a. no_percent (post_descriptor_line a)"
  by unfold_locales
     (auto simp only: PostDescriptor_def post_descriptor_line_def split_def fst_conv snd_conv
        intro!: send_plain)

section \<open>Setting and reading the configuration\<close>

text \<open>How Tor lists a configuration entry, with the quoting the library's escaping has.\<close>

definition conf_line :: "key_val \<Rightarrow> string" where
  "conf_line e = Key e @ (if ValSet e then ''='' @ EscapeSimpleQuotedStringIfNeeded (Val e) else [])"

definition entry_ok :: "key_val \<Rightarrow> bool" where
  "entry_ok e \<longleftrightarrow> CHR ''='' \<notin> set (Key e) \<and> plain_line (Key e) \<and> valid_string (Val e) \<and>
     (ValSetAndEmpty e = (ValSet e \<and> Val e = []))"

definition conf_reply :: "key_val list \<Rightarrow> key_val \<Rightarrow> reply" where
  "conf_reply es e = \<lparr>code = 250, parts = map (\<lambda>e. Mid (conf_line e)) es, final = conf_line e\<rparr>"

lemma conf_entry_line: "entry_ok e \<Longrightarrow> conf_entry (conf_line e) = Inr e"
proof -
  assume ok: "entry_ok e"
  then have k: "CHR ''='' \<notin> set (Key e)" by (simp add: entry_ok_def)
  show ?thesis
  proof (cases "ValSet e")
    case True
    have u: "UnescapeSimpleQuotedStringIfNeeded (EscapeSimpleQuotedStringIfNeeded (Val e)) = Inr (Val e)"
      using ok by (intro unescape_escape_if_needed) (simp add: entry_ok_def)
    show ?thesis
      using ok True PartitionString_append [OF k]
      by (simp add: conf_entry_def conf_line_def u entry_ok_def)
  next
    case False
    with ok have "Val e = []" "\<not> ValSetAndEmpty e" by (simp_all add: entry_ok_def ValSet_def)
    then show ?thesis
      using False PartitionString_none [OF k] by (simp add: conf_entry_def conf_line_def)
  qed
qed

lemma conf_line_plain: "entry_ok e \<Longrightarrow> plain_line (conf_line e)"
proof -
  assume ok: "entry_ok e"
  have "plain_line (EscapeSimpleQuotedStringIfNeeded (Val e))"
    using escape_if_needed_no_newline [of "Val e"] by (auto simp: plain_line_def)
  moreover have "plain_line ''=''" by (simp add: plain_line_def)
  ultimately show ?thesis using ok by (simp add: conf_line_def entry_ok_def) (simp add: plain_line_def)
qed

lemma GetConf_dialogue:
  assumes "\<forall>x\<in>set (es @ [e]). entry_ok x" and "dialogue c evs (conf_reply es e) rest"
  shows "GetConf keys c = (Inr (es @ [e]),
    after_dialogue evs (conf_reply es e) rest (after_write (''GETCONF '' @ join keys '' '') c))"
proof -
  have v: "DataWithReply (view_reply (conf_reply es e)) = map conf_line (es @ [e])"
    by (simp add: DataWithReply_def view_reply_def conf_reply_def)
  have "traverse conf_entry (map conf_line (es @ [e])) = Inr (map id (es @ [e]))"
    using assms(1) conf_entry_line by (intro traverse_map) simp
  then show ?thesis
    using request_dialogue [OF assms(2)] v by (simp add: GetConf_def answer_error_def conf_reply_def)
qed

text \<open>C26: Reading the configuration inverts Tor's listing of it: from a reply that lists entries
  with the library's own quoting, whatever events come before it, GETCONF returns exactly the
  entries, unset, empty and quoted values included.\<close>

theorem get_conf_roundtrip:
  assumes "\<forall>x\<in>set (es @ [e]). entry_ok x" and "dialogue c evs (conf_reply es e) rest"
  shows "fst (GetConf keys c) = Inr (es @ [e]) \<and> c_in (snd (GetConf keys c)) = rest"
  using GetConf_dialogue [OF assms] by (simp add: conn_frame)

lemma conf_reply_answer: "\<forall>x\<in>set (es @ [e]). entry_ok x \<Longrightarrow> is_answer (conf_reply es e)"
  by (auto simp: is_answer_def reply_ok_def conf_reply_def conf_line_plain)

theorem get_conf_roundtrip_witness:
  "let es = [\<lparr>Key = ''Nickname'', Val = ''a b'', ValSetAndEmpty = False\<rparr>,
             \<lparr>Key = ''Log'', Val = [], ValSetAndEmpty = True\<rparr>];
       e = \<lparr>Key = ''User'', Val = [], ValSetAndEmpty = False\<rparr>;
       c = example_conn (concat (map render_reply []) @ render_reply (conf_reply es e) @ ''650'') []
   in fst (GetConf [''Nickname'', ''Log'', ''User''] c) = Inr (es @ [e])"
proof -
  let ?es = "[\<lparr>Key = ''Nickname'', Val = ''a b'', ValSetAndEmpty = False\<rparr>,
             \<lparr>Key = ''Log'', Val = [], ValSetAndEmpty = True\<rparr>]"
  let ?e = "\<lparr>Key = ''User'', Val = [], ValSetAndEmpty = False\<rparr>"
  let ?c = "example_conn (concat (map render_reply []) @ render_reply (conf_reply ?es ?e) @ ''650'') []"
  have v: "valid_string ''a b''" by code_simp
  have ok: "\<forall>x\<in>set (?es @ [?e]). entry_ok x"
    by (simp add: entry_ok_def plain_line_def ValSet_def v)
  have "dialogue ?c [] (conf_reply ?es ?e) ''650''"
    using conf_reply_answer [OF ok] by (simp add: dialogue_def)
  with ok show ?thesis using get_conf_roundtrip [of ?es ?e ?c "[]" "''650''"] by simp
qed

text \<open>C31: Setting configuration entries whose keys and values hold no percent sign writes one
  line: the command, then each key, with its value in the library's quoting where it is set;
  values cannot smuggle in a line break, whatever they hold. The result is nil exactly when
  Tor accepts.\<close>

theorem set_conf_writes:
  assumes "\<forall>e\<in>set entries. CHR ''%'' \<notin> set (Key e) \<and> CHR ''%'' \<notin> set (Val e)"
    and "\<forall>e\<in>set entries. plain_line (Key e)" and "dialogue c evs r rest"
  shows "c_out (snd (SetConf entries c)) =
      c_out c @ ''SETCONF'' @ concat (map (\<lambda>e. '' '' @ conf_line e) entries) @ CRLF \<and>
    plain_line (''SETCONF'' @ concat (map (\<lambda>e. '' '' @ conf_line e) entries)) \<and>
    (fst (SetConf entries c) = None \<longleftrightarrow> code r \<in> {250, 251})"
proof -
  have l: "set_conf_line ''SETCONF'' entries = ''SETCONF'' @ concat (map (\<lambda>e. '' '' @ conf_line e) entries)"
  proof -
    have "conf_entry_text = (\<lambda>e. '' '' @ conf_line e)"
      by (simp add: fun_eq_iff conf_entry_text_def conf_line_def)
    then show ?thesis by (simp only: set_conf_line_def)
  qed
  have p: "entries_plain entries" using assms(1) by (simp add: entries_plain_def)
  have "plain_line (''SETCONF'' @ concat (map (\<lambda>e. '' '' @ conf_line e) entries))"
    using assms(2) escape_if_needed_no_newline by (auto simp: plain_line_def conf_line_def split: if_splits)
  then show ?thesis
    using set_conf.cmd_writes [OF p assms(3)] set_conf.cmd_succeeds [OF p assms(3)] l by simp
qed

theorem set_conf_writes_witness:
  "let c = example_conn (concat (map render_reply []) @ render_reply ok_reply @ []) [];
       es = [NewKeyVal ''ContactInfo'' ''me you'', NewKeyVal ''DisableNetwork'' ''0'', NewKeyVal ''Log'' []]
   in c_out (snd (SetConf es c)) =
        ''SETCONF ContactInfo='' @ [CHR 34] @ ''me you'' @ [CHR 34] @ '' DisableNetwork=0 Log'' @ CRLF"
proof -
  let ?es = "[NewKeyVal ''ContactInfo'' ''me you'', NewKeyVal ''DisableNetwork'' ''0'', NewKeyVal ''Log'' []]"
  let ?c = "example_conn (concat (map render_reply []) @ render_reply ok_reply @ []) []"
  have "dialogue ?c [] ok_reply []" by (simp add: dialogue_def example_replies(1-4))
  then have "c_out (snd (SetConf ?es ?c)) = c_out ?c @ ''SETCONF'' @ concat (map (\<lambda>e. '' '' @ conf_line e) ?es) @ CRLF"
    using set_conf_writes [of ?es ?c "[]" ok_reply "[]"] by (simp add: NewKeyVal_def plain_line_def)
  moreover have "concat (map (\<lambda>e. '' '' @ conf_line e) ?es) =
      '' ContactInfo='' @ [CHR 34] @ ''me you'' @ [CHR 34] @ '' DisableNetwork=0 Log''"
    by code_simp
  ultimately show ?thesis by simp
qed

text \<open>Extending a circuit returns the last word of Tor's reply, the identifier of the
  circuit, and an error with Tor's code and message when Tor refuses.\<close>

theorem extend_circuit_id:
  assumes "dialogue c evs r rest" and "CHR '' '' \<notin> set cid" and "final r = pre @ '' '' @ cid"
  shows "fst (ExtendCircuit circuitID path purpose c) =
    (if code r \<in> {250, 251} then Inr cid
     else Inl (StatusError (code r) (Msg (statusCodeToError (code r) (final r)))))"
proof -
  have "Reply (view_reply r) = pre @ '' '' @ cid" using assms(3) by (simp add: view_reply_def)
  moreover have "last_index_byte (pre @ '' '' @ cid) (CHR '' '') = int (length pre)"
    using last_index_byte_append [OF assms(2), of pre] by simp
  moreover have "nat (int (length pre) + 1) = length pre + 1" by simp
  ultimately show ?thesis
    using request_dialogue [OF assms(1)] by (simp add: ExtendCircuit_def Let_def answer_error_def)
qed

theorem extend_circuit_id_witness:
  "fst (ExtendCircuit [] [''a'', ''b''] [] (example_conn (concat (map render_reply []) @
     render_reply \<lparr>code = 250, parts = [], final = ''EXTENDED 12''\<rparr> @ []) [])) = Inr ''12''"
proof -
  let ?r = "\<lparr>code = 250, parts = [], final = ''EXTENDED 12''\<rparr>"
  have "dialogue (example_conn (concat (map render_reply []) @ render_reply ?r @ []) []) [] ?r []"
    by (simp add: dialogue_def is_answer_def reply_ok_def plain_line_def)
  then show ?thesis using extend_circuit_id [of _ "[]" ?r "[]" "''12''" "''EXTENDED''"] by simp
qed

section \<open>Texts that are not what they should be\<close>

text \<open>A percent sign in a value is a directive of the format: the line sent is another one.\<close>

lemma set_conf_percent:
  "c_out (snd (SetConf [NewKeyVal ''ContactInfo'' ''100%''] (example_conn (render_reply ok_reply) []))) =
     ''SETCONF ContactInfo=100%!(NOVERB)'' @ CRLF"
proof -
  let ?c = "example_conn (render_reply ok_reply) []"
  have d: "dialogue ?c [] ok_reply []" by (simp add: dialogue_def example_replies(1-4))
  have s: "sprintf (''SETCONF'' @ concat (map conf_entry_text [NewKeyVal ''ContactInfo'' ''100%''])) [] =
      ''SETCONF ContactInfo=100%!(NOVERB)''" by code_simp
  have w: "c_out (snd (sendRequestIgnoreResponse f as ?c)) = sprintf f as @ CRLF" for f as
    using SendRequest_dialogue [OF d, of f as]
    by (simp add: sendRequestIgnoreResponse_def after_dialogue_def after_write_def log_lines_def)
  show ?thesis by (simp only: SetConf_def sendSetConf_def w s)
qed

text \<open>A line of a descriptor that is a dot alone ends the command's data: what follows it is
  read as commands. Data is sent without dot encoding.\<close>

lemma load_conf_no_dot_encoding:
  "dialogue c evs r rest \<Longrightarrow>
     c_out (snd (LoadConf (''Log notice'' @ CRLF @ ''.'' @ CRLF @ ''SIGNAL HALT'') c)) =
     c_out c @ ''+LOADCONF'' @ CRLF @ ''Log notice'' @ CRLF @ ''.'' @ CRLF @ ''SIGNAL HALT'' @ CRLF @ ''.'' @ CRLF"
  using load_conf.cmd_writes [where a = "''Log notice'' @ CRLF @ ''.'' @ CRLF @ ''SIGNAL HALT''"] by simp

text \<open>The address of a posted descriptor runs into the word before it.\<close>

lemma hs_post_address_glued:
  "hs_post_line (''d'', [''server''], ''addr'') = ''+HSPOST SERVER=serverHSADDRESS=addr'' @ CRLF @ ''d'' @ CRLF @ ''.''"
  by (simp add: hs_post_line_def)

end
