(* ===== verification/Auth_Props.thy ===== *)
theory Auth_Props
  imports Auth Command_Props
begin

text \<open>What authentication establishes, on any input and in a dialogue with Tor.\<close>

section \<open>Frames\<close>

lemma extends_sendProtocolInfo: "sendProtocolInfo c = (res, c') \<Longrightarrow> extends c c'"
  by (auto simp: sendProtocolInfo_def dest: extends_request split: prod.splits sum.splits)

lemma getProtocolInfo_cases:
  assumes "getProtocolInfo c = (res, c')"
  obtains (cached) pi where "protocolInfo c = Some pi" "res = Inr pi" "c' = c"
  | (failed) err c1 where "protocolInfo c = None" "res = Inl err" "extends c c1" "c' = c1\<lparr>protocolInfo := None\<rparr>"
  | (asked) pi c1 where "protocolInfo c = None" "res = Inr pi" "extends c c1" "c' = c1\<lparr>protocolInfo := Some pi\<rparr>"
  using assms
  by (auto simp: getProtocolInfo_def dest: extends_sendProtocolInfo split: option.splits prod.splits sum.splits)

lemma getProtocolInfo_Authenticated: "getProtocolInfo c = (res, c') \<Longrightarrow> Authenticated c' = Authenticated c"
  by (erule getProtocolInfo_cases) (simp_all add: extends_D)

lemma getProtocolInfo_sets: "getProtocolInfo c = (Inr pi, c') \<Longrightarrow> protocolInfo c' = Some pi"
  by (erule getProtocolInfo_cases) simp_all

lemma extends_auth_bytes: "auth_bytes read_file rand password pi c = (res, c') \<Longrightarrow> extends c c'"
  by (auto simp: auth_bytes_def safe_cookie_def dest: extends_request
      split: if_splits sum.splits prod.splits)

lemma extends_sendAuthenticate: "sendAuthenticate byts c = (err, c') \<Longrightarrow> extends c c'"
  by (auto simp: sendAuthenticate_def dest: extends_sendRequest split: if_splits)

section \<open>Properties\<close>

lemma Authenticate_marks:
  assumes "Authenticate read_file rand password c = (err, c')"
  shows "(err = None \<longleftrightarrow> Authenticated c') \<and>
    (err = None \<and> \<not> Authenticated c \<longrightarrow> protocolInfo c' \<noteq> None)"
proof (cases "Authenticated c")
  case True
  then show ?thesis using assms by (simp add: Authenticate_def)
next
  case False
  obtain res c1 where p: "getProtocolInfo c = (res, c1)" by (metis prod.exhaust)
  have a1: "\<not> Authenticated c1" using getProtocolInfo_Authenticated [OF p] False by simp
  show ?thesis
  proof (cases res)
    case (Inl e)
    then show ?thesis using assms False p a1 by (auto simp: Authenticate_def)
  next
    case (Inr pi)
    then have pi1: "protocolInfo c1 = Some pi" using getProtocolInfo_sets p by simp
    obtain res2 c2 where ab: "auth_bytes read_file rand password pi c1 = (res2, c2)" by (metis prod.exhaust)
    note e2 = extends_D [OF extends_auth_bytes [OF ab]]
    show ?thesis
    proof (cases res2)
      case (Inl e)
      then show ?thesis using assms False p ab Inr a1 e2 by (auto simp: Authenticate_def)
    next
      case (Inr byts)
      obtain err3 c3 where s: "sendAuthenticate byts c2 = (err3, c3)" by (metis prod.exhaust)
      note e3 = extends_D [OF extends_sendAuthenticate [OF s]]
      show ?thesis
        using assms False p ab \<open>res = Inr pi\<close> Inr s a1 pi1 e2 e3
        by (cases err3) (auto simp: Authenticate_def)
    qed
  qed
qed

text \<open>C27: Whatever Tor sends, authentication returns nil exactly when it leaves the connection
  marked as authenticated, and then the protocol information it was based on is cached; a
  connection is never marked on an error and never unmarked.\<close>

theorem authenticate_marks:
  assumes "Authenticate read_file rand password c = (err, c')"
  shows "(err = None \<longleftrightarrow> Authenticated c') \<and>
    (err = None \<and> \<not> Authenticated c \<longrightarrow> protocolInfo c' \<noteq> None)"
  by (rule Authenticate_marks [OF assms])

definition example_info :: "string list \<Rightarrow> ProtocolInfo" where
  "example_info methods = \<lparr>AuthMethods = methods, CookieFile = ''/cookie'', TorVersion = ''0.4.7'',
     RawResponse = view_reply ok_reply\<rparr>"

theorem authenticate_marks_witness:
  "let c = (example_conn (render_reply ok_reply) [])\<lparr>protocolInfo := Some (example_info [''NULL''])\<rparr>;
       c' = snd (Authenticate (\<lambda>_. Inl EOF) (Inl EOF) [] c)
   in fst (Authenticate (\<lambda>_. Inl EOF) (Inl EOF) [] c) = None \<and> Authenticated c'"
proof -
  let ?c = "(example_conn (render_reply ok_reply) [])\<lparr>protocolInfo := Some (example_info [''NULL''])\<rparr>"
  have "dialogue ?c [] ok_reply []" by (simp add: dialogue_def example_replies(1-4))
  then have "fst (Authenticate (\<lambda>_. Inl EOF) (Inl EOF) [] ?c) = None"
    by (simp add: Authenticate_def getProtocolInfo_def auth_bytes_def HasAuthMethod_def example_info_def
        sendAuthenticate_def sendRequestIgnoreResponse_def SendRequest_dialogue answer_error_def example_replies(3))
  then show ?thesis
    using authenticate_marks [of "\<lambda>_. Inl EOF" "Inl EOF" "[]" ?c None] by (simp add: prod_eq_iff)
qed

text \<open>The next request of a connection whose input goes on.\<close>

lemma dialogue_next:
  assumes "dialogue c evs r (concat (map render_reply evs2) @ render_reply r2 @ rest2)"
    and "\<forall>e\<in>set evs2. is_event e" and "is_answer r2"
  shows "dialogue (after_dialogue evs r (concat (map render_reply evs2) @ render_reply r2 @ rest2)
    (after_write line c)) evs2 r2 rest2"
  using assms by (simp add: dialogue_def after_dialogue_def after_write_def log_lines_def)

definition challenge_reply :: "bytes \<Rightarrow> bytes \<Rightarrow> string" where
  "challenge_reply sh sn = ''AUTHCHALLENGE SERVERHASH='' @ hex_encode sh @ '' SERVERNONCE='' @ hex_encode sn"

lemma hex_no_space: "CHR '' '' \<notin> set (hex_encode bs)"
  using hex_encode_set [of bs] by auto

lemma answer_challenge_reply:
  assumes "length sh = 32" "length sn = 32"
  shows "answer_challenge cookie nonce (challenge_reply sh sn) =
    (if sh = hmac_sha256 server_hash_key (cookie @ nonce @ sn)
     then Inr (hmac_sha256 client_hash_key (cookie @ nonce @ sn))
     else Inl (ProtocolError ''invalid ServerHash: mismatch''))"
proof -
  have c: "challenge_reply sh sn =
      join [''AUTHCHALLENGE'', ''SERVERHASH='' @ hex_encode sh, ''SERVERNONCE='' @ hex_encode sn] '' ''"
    by (simp add: challenge_reply_def)
  have "split_byte (challenge_reply sh sn) (CHR '' '') =
      [''AUTHCHALLENGE'', ''SERVERHASH='' @ hex_encode sh, ''SERVERNONCE='' @ hex_encode sn]"
    unfolding c by (rule split_byte_join) (simp_all add: hex_no_space)
  moreover have "hex_field name (hex_encode sh) = Inr sh" "hex_field name (hex_encode sn) = Inr sn" for name
    using assms by (simp_all add: hex_field_def hex_decode_encode)
  ultimately show ?thesis by (simp add: answer_challenge_def has_prefix_def Let_def)
qed

text \<open>C5: With the safe-cookie method the controller proves itself only to a server that has
  proved itself first. In a dialogue where Tor answers the challenge with a hash and a nonce,
  the controller sends its own hash, keyed over the cookie and both nonces, when Tor's hash is
  the right one, and is authenticated if Tor accepts it; on any other hash it stops with an
  error, and the challenge is all it has written.\<close>

theorem authenticate_safe_cookie:
  assumes "\<not> Authenticated c" and "protocolInfo c = Some pi"
    and "\<not> HasAuthMethod pi ''NULL''" and "HasAuthMethod pi ''SAFECOOKIE''"
    and "CookieFile pi \<noteq> []" and "read_file (CookieFile pi) = Inr cookie" and "length cookie = 32"
    and "length sh = 32" and "length sn = 32"
    and d1: "dialogue c evs1 \<lparr>code = 250, parts = [], final = challenge_reply sh sn\<rparr>
      (concat (map render_reply evs2) @ render_reply r @ rest)"
    and d2: "\<forall>e\<in>set evs2. is_event e" "is_answer r"
  shows "case Authenticate read_file (Inr nonce) password c of (err, c') \<Rightarrow>
    if sh = hmac_sha256 server_hash_key (cookie @ nonce @ sn)
    then err = answer_error r \<and> Authenticated c' = (code r \<in> {250, 251}) \<and>
      c_out c' = c_out c @ ''AUTHCHALLENGE SAFECOOKIE '' @ hex_encode nonce @ CRLF @
        ''AUTHENTICATE '' @ hex_encode (hmac_sha256 client_hash_key (cookie @ nonce @ sn)) @ CRLF
    else err = Some (ProtocolError ''invalid ServerHash: mismatch'') \<and> \<not> Authenticated c' \<and>
      c_out c' = c_out c @ ''AUTHCHALLENGE SAFECOOKIE '' @ hex_encode nonce @ CRLF"
proof -
  let ?r1 = "\<lparr>code = 250, parts = [], final = challenge_reply sh sn\<rparr>"
  let ?rest1 = "concat (map render_reply evs2) @ render_reply r @ rest"
  let ?l1 = "''AUTHCHALLENGE SAFECOOKIE '' @ hex_encode nonce"
  let ?c2 = "after_dialogue evs1 ?r1 ?rest1 (after_write ?l1 c)"
  let ?answer = "hmac_sha256 client_hash_key (cookie @ nonce @ sn)"
  have p: "getProtocolInfo c = (Inr pi, c)" using assms(2) by (simp add: getProtocolInfo_def)
  have q: "request ''AUTHCHALLENGE %s %s'' [''SAFECOOKIE'', hex_encode nonce] c = (Inr (view_reply ?r1), ?c2)"
    using request_dialogue [OF d1, of "''AUTHCHALLENGE %s %s''" "[''SAFECOOKIE'', hex_encode nonce]"]
    by (simp add: answer_error_def)
  have ab: "auth_bytes read_file (Inr nonce) password pi c =
      (answer_challenge cookie nonce (challenge_reply sh sn), ?c2)"
    using assms(3-7) q by (simp add: auth_bytes_def safe_cookie_def view_reply_def)
  have c2: "c_out ?c2 = c_out c @ ?l1 @ CRLF" "\<not> Authenticated ?c2"
    using assms(1) by (simp_all add: conn_frame)
  have s: "sendRequestIgnoreResponse f as ?c2 =
      (answer_error r, after_dialogue evs2 r rest (after_write (sprintf f as) ?c2))" for f as
    using SendRequest_dialogue [OF dialogue_next [OF d1 d2]] by (simp add: sendRequestIgnoreResponse_def)
  have o3: "c_out (after_dialogue evs2 r rest (after_write l ?c2)) = c_out ?c2 @ l @ CRLF"
    "Authenticated (after_dialogue evs2 r rest (after_write l ?c2)) = Authenticated ?c2" for l
    by (simp_all only: conn_frame)
  show ?thesis
  proof (cases "sh = hmac_sha256 server_hash_key (cookie @ nonce @ sn)")
    case True
    then have "auth_bytes read_file (Inr nonce) password pi c = (Inr ?answer, ?c2)"
      using ab answer_challenge_reply [OF assms(8,9)] by simp
    moreover have "sendAuthenticate ?answer ?c2 =
        (answer_error r, after_dialogue evs2 r rest (after_write (''AUTHENTICATE '' @ hex_encode ?answer) ?c2))"
      using s [of "''AUTHENTICATE %v''" "[hex_encode ?answer]"] length_hmac_sha256 [of client_hash_key "cookie @ nonce @ sn"]
      by (simp add: sendAuthenticate_def del: length_hmac_sha256)
    ultimately show ?thesis
      using True p assms(1) c2 o3 by (auto simp: Authenticate_def answer_error_def)
  next
    case False
    then have "auth_bytes read_file (Inr nonce) password pi c =
        (Inl (ProtocolError ''invalid ServerHash: mismatch''), ?c2)"
      using ab answer_challenge_reply [OF assms(8,9)] by simp
    then show ?thesis using False p assms(1) c2 by (simp add: Authenticate_def)
  qed
qed

theorem authenticate_safe_cookie_witness:
  "let cookie = replicate 32 1; nonce = replicate 32 2; sn = replicate 32 3;
       sh = hmac_sha256 server_hash_key (cookie @ nonce @ sn);
       r1 = \<lparr>code = 250, parts = [], final = challenge_reply sh sn\<rparr>;
       c = (example_conn (render_reply r1 @ render_reply ok_reply) [])
         \<lparr>protocolInfo := Some (example_info [''SAFECOOKIE'', ''COOKIE''])\<rparr>
   in Authenticated (snd (Authenticate (\<lambda>_. Inr cookie) (Inr nonce) [] c))"
proof -
  let ?cookie = "replicate 32 1 :: bytes" and ?nonce = "replicate 32 2 :: bytes" and ?sn = "replicate 32 3 :: bytes"
  let ?sh = "hmac_sha256 server_hash_key (?cookie @ ?nonce @ ?sn)"
  let ?r1 = "\<lparr>code = 250, parts = [], final = challenge_reply ?sh ?sn\<rparr>"
  let ?c = "(example_conn (render_reply ?r1 @ render_reply ok_reply) [])
         \<lparr>protocolInfo := Some (example_info [''SAFECOOKIE'', ''COOKIE''])\<rparr>"
  have "plain_line (hex_encode bs)" for bs using hex_encode_set [of bs] by (auto simp: plain_line_def)
  then have "plain_line (challenge_reply ?sh ?sn)" by (simp add: challenge_reply_def) (simp add: plain_line_def)
  then have "dialogue ?c [] ?r1 (concat (map render_reply []) @ render_reply ok_reply @ [])"
    by (simp add: dialogue_def is_answer_def reply_ok_def)
  then have "case Authenticate (\<lambda>_. Inr ?cookie) (Inr ?nonce) [] ?c of (err, c') \<Rightarrow>
    if ?sh = ?sh
    then err = answer_error ok_reply \<and> Authenticated c' = (code ok_reply \<in> {250, 251}) \<and>
      c_out c' = c_out ?c @ ''AUTHCHALLENGE SAFECOOKIE '' @ hex_encode ?nonce @ CRLF @
        ''AUTHENTICATE '' @ hex_encode (hmac_sha256 client_hash_key (?cookie @ ?nonce @ ?sn)) @ CRLF
    else err = Some (ProtocolError ''invalid ServerHash: mismatch'') \<and> \<not> Authenticated c' \<and>
      c_out c' = c_out ?c @ ''AUTHCHALLENGE SAFECOOKIE '' @ hex_encode ?nonce @ CRLF"
    by (intro authenticate_safe_cookie [where pi = "example_info [''SAFECOOKIE'', ''COOKIE'']" and ?evs2.0 = "[]" and r = ok_reply and rest = "[]" and read_file = "\<lambda>_. Inr ?cookie"])
       (simp_all add: example_info_def HasAuthMethod_def example_replies(1-4))
  then show ?thesis by (simp add: Let_def case_prod_unfold example_replies(3))
qed

section \<open>Protocol information\<close>

definition info_parts :: "string list \<Rightarrow> string \<Rightarrow> string \<Rightarrow> reply_part list" where
  "info_parts methods path ver =
     [Mid ''PROTOCOLINFO 1'',
      Mid (''AUTH METHODS='' @ join methods '','' @ '' COOKIEFILE='' @ EscapeSimpleQuotedString path),
      Mid (''VERSION Tor='' @ EscapeSimpleQuotedString ver)]"

lemma escape_quoted_no_space:
  "CHR '' '' \<notin> set s \<Longrightarrow> CHR '' '' \<notin> set (EscapeSimpleQuotedString s)"
  by (auto simp: EscapeSimpleQuotedString_def EscapeSimpleQuotedStringContents_def)

text \<open>Tor's description of itself is read back: the authentication methods, the path of the
  cookie file with its quoting undone (spaces and backslashes included) and the version. The
  answer is cached, so a second call returns it without touching the connection.\<close>

theorem protocol_info_roundtrip:
  assumes "protocolInfo c = None"
    and "dialogue c evs \<lparr>code = 250, parts = info_parts methods path ver, final = ''OK''\<rparr> rest"
    and "methods \<noteq> []" and "\<forall>m\<in>set methods. CHR '' '' \<notin> set m \<and> CHR '','' \<notin> set m"
    and "valid_string path" and "valid_string ver" and "CHR '' '' \<notin> set ver"
  shows "\<exists>pi c'. getProtocolInfo c = (Inr pi, c') \<and> AuthMethods pi = methods \<and> CookieFile pi = path \<and>
    TorVersion pi = ver \<and> c_out c' = c_out c @ ''PROTOCOLINFO'' @ CRLF \<and> getProtocolInfo c' = (Inr pi, c')"
proof -
  let ?r = "\<lparr>code = 250, parts = info_parts methods path ver, final = ''OK''\<rparr>"
  let ?pi0 = "\<lparr>AuthMethods = [], CookieFile = [], TorVersion = [], RawResponse = view_reply ?r\<rparr>"
  have w: "PartitionString (a @ CHR '' '' # b) CHR '' '' = (a, b, True)" if "CHR '' '' \<notin> set a" for a b
    using that by (rule PartitionString_append)
  have "CHR '' '' \<notin> set (join methods '','')" using assms(4) set_join [of methods "'',''"] by auto
  then have m: "PartitionString (''METHODS='' @ join methods '','' @ '' COOKIEFILE='' @ q) CHR '' '' =
      (''METHODS='' @ join methods '','', ''COOKIEFILE='' @ q, True)" for q
    using w [of "''METHODS='' @ join methods '',''" "''COOKIEFILE='' @ q"] by simp
  have s: "split_byte (join methods '','') CHR '','' = methods"
    using assms(3,4) by (intro split_byte_join) auto
  have a: "pi_auth (''METHODS='' @ join methods '','' @ '' COOKIEFILE='' @ EscapeSimpleQuotedString path) p =
      p\<lparr>CookieFile := path, AuthMethods := methods\<rparr>" for p
    using m s assms(5) unescape_escape_quoted [of path] by (simp add: pi_auth_def has_prefix_def Let_def)
  have v: "PartitionString (''Tor='' @ EscapeSimpleQuotedString ver) CHR '' '' = (''Tor='' @ EscapeSimpleQuotedString ver, [], False)"
    using escape_quoted_no_space [OF assms(7)] by (intro PartitionString_none) simp
  have u: "unquoted (EscapeSimpleQuotedString ver) = ver"
    using unescape_escape_quoted [OF assms(6)] by (simp add: unquoted_def)
  have pieces: "pi_piece (''PROTOCOLINFO'' @ '' '' @ ''1'') p = Inr p"
      "pi_piece (''AUTH'' @ '' '' @ x) p = Inr (pi_auth x p)"
      "pi_piece (''VERSION'' @ '' '' @ ''Tor='' @ EscapeSimpleQuotedString ver) p = Inr (p\<lparr>TorVersion := ver\<rparr>)" for p x
    using w [of "''PROTOCOLINFO''" "''1''"] w [of "''AUTH''" x] w [of "''VERSION''" "''Tor='' @ EscapeSimpleQuotedString ver"] v u
    by (simp_all add: pi_piece_def has_prefix_def)
  have d: "Data (view_reply ?r) = [''PROTOCOLINFO'' @ '' '' @ ''1'',
      ''AUTH'' @ '' '' @ ''METHODS='' @ join methods '','' @ '' COOKIEFILE='' @ EscapeSimpleQuotedString path,
      ''VERSION'' @ '' '' @ ''Tor='' @ EscapeSimpleQuotedString ver]"
    by (simp add: view_reply_def info_parts_def)
  have l: "pi_loop (Data (view_reply ?r)) ?pi0 = Inr (?pi0\<lparr>CookieFile := path, AuthMethods := methods, TorVersion := ver\<rparr>)"
    unfolding d by (simp only: pi_loop.simps pieces a sum.case)
  have q: "request ''PROTOCOLINFO'' [] c = (Inr (view_reply ?r), after_dialogue evs ?r rest (after_write ''PROTOCOLINFO'' c))"
    using request_dialogue [OF assms(2), of "''PROTOCOLINFO''" "[]"] by (simp add: answer_error_def)
  have g: "getProtocolInfo c = (Inr (?pi0\<lparr>CookieFile := path, AuthMethods := methods, TorVersion := ver\<rparr>),
      (after_dialogue evs ?r rest (after_write ''PROTOCOLINFO'' c))
        \<lparr>protocolInfo := Some (?pi0\<lparr>CookieFile := path, AuthMethods := methods, TorVersion := ver\<rparr>)\<rparr>)"
    by (simp only: getProtocolInfo_def assms(1) sendProtocolInfo_def q l option.case prod.case sum.case)
  show ?thesis
    unfolding g by (intro exI conjI, rule refl) (simp_all add: conn_frame getProtocolInfo_def)
qed

theorem protocol_info_roundtrip_witness:
  "let r = \<lparr>code = 250, parts = info_parts [''COOKIE'', ''SAFECOOKIE''] ''/my dir/cookie'' ''0.4.7.8'', final = ''OK''\<rparr>
   in \<exists>pi c'. getProtocolInfo (example_conn (render_reply r) []) = (Inr pi, c') \<and>
     AuthMethods pi = [''COOKIE'', ''SAFECOOKIE''] \<and> CookieFile pi = ''/my dir/cookie''"
proof -
  let ?r = "\<lparr>code = 250, parts = info_parts [''COOKIE'', ''SAFECOOKIE''] ''/my dir/cookie'' ''0.4.7.8'', final = ''OK''\<rparr>"
  have v: "valid_string ''/my dir/cookie''" "valid_string ''0.4.7.8''" by code_simp+
  have "plain_line (EscapeSimpleQuotedString s)" for s
    using escape_no_newline [of s] by (auto simp: plain_line_def EscapeSimpleQuotedString_def)
  then have "dialogue (example_conn (render_reply ?r) []) [] ?r []"
    by (simp add: dialogue_def is_answer_def reply_ok_def info_parts_def) (simp add: plain_line_def)
  then have "\<exists>pi c'. getProtocolInfo (example_conn (render_reply ?r) []) = (Inr pi, c') \<and>
      AuthMethods pi = [''COOKIE'', ''SAFECOOKIE''] \<and> CookieFile pi = ''/my dir/cookie'' \<and> TorVersion pi = ''0.4.7.8'' \<and>
      c_out c' = c_out (example_conn (render_reply ?r) []) @ ''PROTOCOLINFO'' @ CRLF \<and> getProtocolInfo c' = (Inr pi, c')"
    using v by (intro protocol_info_roundtrip) simp_all
  then show ?thesis unfolding Let_def by blast
qed

end
