(* ===== verification/Event_Wait.thy ===== *)
theory Event_Wait
  imports Conn_Props
begin

text \<open>
  \<open>HandleEvents\<close> and \<open>EventWait\<close> of \<open>control/cmd_event.go\<close>, which run two goroutines: one handles
  messages, the other takes events off a channel that holds ten. The order in which they run,
  and the choice that \<open>select\<close> makes, is an argument: a list of steps. A step that is not
  enabled changes nothing, and a result \<open>None\<close> says that the call has not returned after these
  steps, or that it is stuck for good.
\<close>

section \<open>Handling events until there is an error\<close>

datatype wait_step = Handle | Take | TakeErr | CtxDone error

fun HandleEvents :: "wait_step list \<Rightarrow> conn \<Rightarrow> (error \<times> conn) option" where
  "HandleEvents [] c = None"
| "HandleEvents (Handle # steps) c =
     (case HandleNextEvent c of
        (Some err, c') \<Rightarrow> Some (err, c')
      | (None, c') \<Rightarrow> HandleEvents steps c')"
| "HandleEvents (CtxDone err # steps) c = Some (err, c)"
| "HandleEvents (_ # steps) c = HandleEvents steps c"

section \<open>Waiting for an event\<close>

text \<open>
  The state while waiting: the connection, the number of events taken off the channel, the
  error the handling goroutine left, and whether it still runs.
\<close>

record waiting =
  w_conn :: conn
  w_taken :: nat
  w_err :: "error option"
  w_alive :: bool

definition eventChCap :: nat where "eventChCap = 10"

text \<open>A channel that nothing was sent to and that is not registered.\<close>

definition make_chan :: "conn \<Rightarrow> chan" where
  "make_chan c = Suc (fold max (map fst (c_sent c) @ concat (map snd (eventListeners c))) 0)"

definition delivered :: "chan \<Rightarrow> conn \<Rightarrow> event list" where
  "delivered ch c = map snd (filter (\<lambda>p. fst p = ch) (c_sent c))"

text \<open>
  A send on a full channel blocks the goroutine that relays, and it holds the read lock. The
  events beyond the tenth in the channel are those it is blocked on.
\<close>

definition pending :: "chan \<Rightarrow> waiting \<Rightarrow> nat" where
  "pending ch w = length (delivered ch (w_conn w)) - w_taken w"

definition blocked :: "chan \<Rightarrow> waiting \<Rightarrow> bool" where
  "blocked ch w \<longleftrightarrow> eventChCap < pending ch w"

type_synonym 's predicate = "'s \<Rightarrow> event \<Rightarrow> bool result \<times> 's"

text \<open>One turn of the handling goroutine: it runs, it is blocked or it has ended.\<close>

definition handle_step :: "chan \<Rightarrow> waiting \<Rightarrow> waiting" where
  "handle_step ch w =
     (if w_alive w \<and> \<not> blocked ch w then
        (case HandleNextEvent (w_conn w) of
           (None, c') \<Rightarrow> w\<lparr>w_conn := c'\<rparr>
         | (Some err, c') \<Rightarrow> w\<lparr>w_conn := c', w_err := Some err, w_alive := False\<rparr>)
      else w)"

text \<open>What it still does between the waiter's last step in the loop and the end of its context.\<close>

fun background :: "chan \<Rightarrow> wait_step list \<Rightarrow> waiting \<Rightarrow> waiting" where
  "background ch [] w = w"
| "background ch (Handle # steps) w = background ch steps (handle_step ch w)"
| "background ch (_ # steps) w = background ch steps w"

fun wait_loop :: "chan \<Rightarrow> 's predicate \<Rightarrow> wait_step list \<Rightarrow> 's \<Rightarrow> waiting \<Rightarrow> (event result \<times> 's \<times> waiting) option" where
  "wait_loop ch predicate [] s w = None"
| "wait_loop ch predicate (Handle # steps) s w = wait_loop ch predicate steps s (handle_step ch w)"
| "wait_loop ch predicate (Take # steps) s w =
     (if w_taken w < length (delivered ch (w_conn w)) then
        (let event = delivered ch (w_conn w) ! w_taken w; w' = w\<lparr>w_taken := Suc (w_taken w)\<rparr>
         in case predicate s event of
              (Inl err, s') \<Rightarrow> Some (Inl err, s', background ch steps w')
            | (Inr True, s') \<Rightarrow> Some (Inr event, s', background ch steps w')
            | (Inr False, s') \<Rightarrow> wait_loop ch predicate steps s' w')
      else wait_loop ch predicate steps s w)"
| "wait_loop ch predicate (TakeErr # steps) s w =
     (case w_err w of Some err \<Rightarrow> Some (Inl err, s, background ch steps w) | None \<Rightarrow> wait_loop ch predicate steps s w)"
| "wait_loop ch predicate (CtxDone err # steps) s w = Some (Inl err, s, background ch steps w)"

text \<open>
  The listener is added before anybody takes events off the channel and removed, by the
  deferred call, after the last one was taken; its error is dropped. Both calls send a
  request. The first relays to the channel itself, and is stuck if it relays more than the
  channel holds. The second needs the read lock.
\<close>

definition EventWait ::
    "wait_step list \<Rightarrow> EventCode list \<Rightarrow> 's predicate \<Rightarrow> 's \<Rightarrow> conn \<Rightarrow> ((event result \<times> 's) \<times> conn) option" where
  "EventWait steps events predicate s c =
     (let eventCh = make_chan c in
      case AddEventListener eventCh events c of
        (err, c1) \<Rightarrow>
          if eventChCap < length (delivered eventCh c1) then None
          else (case err of
              Some err \<Rightarrow> Some ((Inl err, s), c1)
            | None \<Rightarrow>
                (case wait_loop eventCh predicate steps s
                    \<lparr>w_conn = c1, w_taken = 0, w_err = None, w_alive = True\<rparr> of
                   None \<Rightarrow> None
                 | Some (res, s', w) \<Rightarrow>
                     if blocked eventCh w then None
                     else Some ((res, s'), snd (RemoveEventListener eventCh events (w_conn w))))))"

section \<open>The events a waiter hears\<close>

text \<open>What the channel of a waiter for \<open>events\<close> gets of an event message.\<close>

definition heard :: "EventCode list \<Rightarrow> reply \<Rightarrow> event list" where
  "heard events r =
     (let (eventCode, data, dataArray) = event_parts (view_reply r)
      in if eventCode \<in> set events then [ParseEvent eventCode data dataArray] else [])"

text \<open>The reference: the predicate on the events in order until it decides.\<close>

fun first_match :: "'s predicate \<Rightarrow> 's \<Rightarrow> event list \<Rightarrow> (event result \<times> 's) option" where
  "first_match predicate s [] = None"
| "first_match predicate s (e # es) =
     (case predicate s e of
        (Inl err, s') \<Rightarrow> Some (Inl err, s')
      | (Inr True, s') \<Rightarrow> Some (Inr e, s')
      | (Inr False, s') \<Rightarrow> first_match predicate s' es)"

lemma fold_max_le: "x \<in> set xs \<or> x \<le> n \<Longrightarrow> x \<le> fold max xs (n :: nat)"
  by (induction xs arbitrary: n) fastforce+

lemma make_chan_fresh: "make_chan c \<notin> fst ` set (c_sent c)" "make_chan c \<notin> registered (eventListeners c)"
proof -
  let ?xs = "map fst (c_sent c) @ concat (map snd (eventListeners c))"
  have le: "x \<in> set ?xs \<Longrightarrow> x < make_chan c" for x
    unfolding make_chan_def using fold_max_le [of x ?xs 0] by simp
  have "fst ` set (c_sent c) \<subseteq> set ?xs" by simp
  then show "make_chan c \<notin> fst ` set (c_sent c)" using le by blast
  have "registered (eventListeners c) \<subseteq> set ?xs"
    by (auto simp: registered_def listeners_def split: option.splits) (metis map_of_SomeD snd_conv)
  then show "make_chan c \<notin> registered (eventListeners c)" using le by blast
qed

lemma delivered_fresh: "ch \<notin> fst ` set (c_sent c) \<Longrightarrow> delivered ch c = []"
  by (force simp: delivered_def filter_empty_conv)

text \<open>Registered once under each of the events, a channel hears each of their messages once.\<close>

definition listens :: "chan \<Rightarrow> EventCode list \<Rightarrow> conn \<Rightarrow> bool" where
  "listens ch events c \<longleftrightarrow>
     (\<forall>e. filter (\<lambda>x. x = ch) (listeners (eventListeners c) e) = (if e \<in> set events then [ch] else []))"

lemma deliveries_heard:
  assumes "listens ch events c" "EventCodeUnrecognized \<notin> set events"
  shows "map snd (filter (\<lambda>p. fst p = ch) (deliveries (eventListeners c) (view_reply r))) = heard events r"
proof -
  obtain code data arr where p: "event_parts (view_reply r) = (code, data, arr)" by (metis prod.exhaust)
  have f: "map snd (filter (\<lambda>p. fst p = ch) (map (\<lambda>ch. (ch, x)) chs)) = map (\<lambda>_. x) (filter (\<lambda>x. x = ch) chs)" for chs and x :: event
    by (induction chs) simp_all
  have e: "filter (\<lambda>x. x = ch) (listeners (eventListeners c) e) = (if e \<in> set events then [ch] else [])" for e
    using assms(1) by (simp add: listens_def)
  show ?thesis using assms(2) by (simp add: deliveries_def heard_def p f e)
qed

lemma count_list_distinct: "distinct xs \<Longrightarrow> count_list xs x = (if x \<in> set xs then 1 else 0)"
  by (induction xs) auto

lemma listens_add:
  assumes "listeners_ok (eventListeners c)" "distinct events" "ch \<notin> registered (eventListeners c)"
  shows "listens ch events (addEventListenerToMap ch events c)"
proof -
  have "filter (\<lambda>x. x = ch) (listeners (eventListeners c) e) = []" for e
    using assms(3) by (auto simp: registered_def filter_empty_conv)
  then show ?thesis
    by (simp add: listens_def addEventListenerToMap_def listeners.lookup_adds [OF assms(1)] count_list_distinct [OF assms(2)])
qed

section \<open>Waiting on a stream of events\<close>

lemma listens_frame: "eventListeners c' = eventListeners c \<Longrightarrow> listens ch events c' = listens ch events c"
  by (simp add: listens_def)

definition handled :: "reply \<Rightarrow> string \<Rightarrow> conn \<Rightarrow> conn" where
  "handled r rest c = c\<lparr>DebugWriter := map_option (\<lambda>w. w @ reply_log r) (DebugWriter c), c_in := rest,
     c_sent := c_sent c @ deliveries (eventListeners c) (view_reply r)\<rparr>"

lemma handled_simps [simp]:
  "c_in (handled r rest c) = rest" "eventListeners (handled r rest c) = eventListeners c"
  "c_fault (handled r rest c) = c_fault c" "c_iter (handled r rest c) = c_iter c"
  by (simp_all add: handled_def)

lemma HandleNextEvent_event:
  "is_event r \<Longrightarrow> c_in c = render_reply r @ rest \<Longrightarrow> HandleNextEvent c = (None, handled r rest c)"
  using HandleNextEvent_render [of r c rest] by (simp add: is_event_def handled_def)

lemma delivered_handled:
  "listens ch events c \<Longrightarrow> EventCodeUnrecognized \<notin> set events \<Longrightarrow>
     delivered ch (handled r rest c) = delivered ch c @ heard events r"
  using deliveries_heard [of ch events c r] by (simp add: delivered_def handled_def)

text \<open>
  While the two goroutines take turns, the waiter decides as the predicate does on the events
  heard.
\<close>

definition turns :: "nat \<Rightarrow> wait_step list" where "turns n = concat (replicate n [Handle, Take])"

lemma turns_Suc: "turns (Suc n) = Handle # Take # turns n"
  by (simp add: turns_def)

text \<open>The waiter is registered, its goroutine runs, and \<open>inp\<close> is unread.\<close>

definition listening :: "chan \<Rightarrow> EventCode list \<Rightarrow> string \<Rightarrow> waiting \<Rightarrow> bool" where
  "listening ch events inp w \<longleftrightarrow> listens ch events (w_conn w) \<and> EventCodeUnrecognized \<notin> set events
     \<and> w_alive w \<and> c_in (w_conn w) = inp \<and> w_taken w \<le> length (delivered ch (w_conn w))"

definition same_conn :: "waiting \<Rightarrow> waiting \<Rightarrow> bool" where
  "same_conn w w' \<longleftrightarrow> eventListeners (w_conn w') = eventListeners (w_conn w) \<and> c_fault (w_conn w') = c_fault (w_conn w)"

lemma same_conn_trans: "same_conn a b \<Longrightarrow> same_conn b c \<Longrightarrow> same_conn a c"
  by (simp add: same_conn_def)

lemma heard_cases: "heard events r = [] \<or> (\<exists>e. heard events r = [e])"
  by (simp add: heard_def split: prod.split)

lemma handle_step_event:
  assumes "is_event r" "listening ch events (render_reply r @ rest) w" "\<not> blocked ch w"
  shows "listening ch events rest (handle_step ch w)" "same_conn w (handle_step ch w)"
    "w_taken (handle_step ch w) = w_taken w"
    "delivered ch (w_conn (handle_step ch w)) = delivered ch (w_conn w) @ heard events r"
proof -
  have "handle_step ch w = w\<lparr>w_conn := handled r rest (w_conn w)\<rparr>"
    using assms HandleNextEvent_event [of r "w_conn w" rest] by (simp add: handle_step_def listening_def)
  moreover have "delivered ch (handled r rest (w_conn w)) = delivered ch (w_conn w) @ heard events r"
    using assms(2) by (intro delivered_handled) (simp_all add: listening_def)
  moreover have "listens ch events (handled r rest (w_conn w)) = listens ch events (w_conn w)"
    by (rule listens_frame) simp
  ultimately show "listening ch events rest (handle_step ch w)" "same_conn w (handle_step ch w)"
    "w_taken (handle_step ch w) = w_taken w"
    "delivered ch (w_conn (handle_step ch w)) = delivered ch (w_conn w) @ heard events r"
    using assms(2) by (simp_all add: listening_def same_conn_def)
qed

lemma blocked_background: "blocked ch w \<Longrightarrow> blocked ch (background ch steps w)"
proof (induction steps arbitrary: w)
  case (Cons x steps) then show ?case by (cases x) (simp_all add: handle_step_def)
qed simp

lemma background_blocks:
  assumes "\<forall>r\<in>set evs. is_event r" "listening ch events (concat (map render_reply evs) @ rest) w"
    "eventChCap < pending ch w + length (concat (map (heard events) evs))"
  shows "blocked ch (background ch (replicate (length evs) Handle) w)"
  using assms
proof (induction evs arbitrary: w)
  case Nil then show ?case by (simp add: blocked_def)
next
  case (Cons r evs)
  show ?case
  proof (cases "blocked ch w")
    case True then show ?thesis by (rule blocked_background)
  next
    case nb: False
    note st = handle_step_event [OF _ _ nb, of r events "concat (map render_reply evs) @ rest"]
    have "listening ch events (concat (map render_reply evs) @ rest) (handle_step ch w)"
      "eventChCap < pending ch (handle_step ch w) + length (concat (map (heard events) evs))"
      using st Cons.prems by (simp_all add: pending_def listening_def)
    then show ?thesis using Cons.IH Cons.prems(1) by simp
  qed
qed

lemma wait_loop_turns:
  assumes "\<forall>r\<in>set (before @ [r]). is_event r" "w_taken w = length (delivered ch (w_conn w))"
    "listening ch events (concat (map render_reply (before @ [r])) @ rest) w"
    "first_match predicate s (concat (map (heard events) before)) = None"
    "first_match predicate s (concat (map (heard events) (before @ [r]))) = Some (res, s')"
  shows "\<exists>w'. wait_loop ch predicate (turns (Suc (length before)) @ later) s w = Some (res, s', background ch later w')
    \<and> listening ch events rest w' \<and> same_conn w w' \<and> pending ch w' = 0"
  using assms
proof (induction before arbitrary: s w)
  case Nil
  have nb: "\<not> blocked ch w" using Nil.prems(2) by (simp add: blocked_def pending_def)
  note st = handle_step_event [OF _ _ nb, of r events rest]
  let ?w = "handle_step ch w" let ?w' = "?w\<lparr>w_taken := Suc (w_taken ?w)\<rparr>"
  obtain e where e: "heard events r = [e]"
    using heard_cases [of events r] Nil.prems(5) by auto
  have "wait_loop ch predicate (turns 1 @ later) s w = Some (res, s', background ch later ?w')"
    using st e Nil.prems by (auto simp: turns_Suc turns_def listening_def Let_def split: prod.splits sum.splits bool.splits)
  moreover have "listening ch events rest ?w'" "same_conn w ?w'" "pending ch ?w' = 0"
    using st e Nil.prems by (simp_all add: listening_def same_conn_def pending_def)
  ultimately show ?case by auto
next
  case (Cons b before)
  have nb: "\<not> blocked ch w" using Cons.prems(2) by (simp add: blocked_def pending_def)
  let ?rest = "concat (map render_reply (before @ [r])) @ rest"
  note st = handle_step_event [OF _ _ nb, of b events ?rest]
  let ?w = "handle_step ch w"
  define T where "T = turns (Suc (length before)) @ later"
  have T: "wait_loop ch predicate (turns (Suc (length (b # before))) @ later) s w = wait_loop ch predicate (Take # T) s ?w"
    using turns_Suc [of "Suc (length before)"] by (simp add: T_def)
  consider "heard events b = []" | e s1 where "heard events b = [e]" "predicate s e = (Inr False, s1)"
  proof (cases "heard events b = []")
    case False
    then obtain e where e: "heard events b = [e]" using heard_cases [of events b] by auto
    obtain ok s1 where p: "predicate s e = (ok, s1)" by (metis prod.exhaust)
    have "ok = Inr False" using Cons.prems(4) e p by (auto split: sum.splits bool.splits)
    then show thesis using that(2) e p by blast
  qed (rule that(1))
  then obtain s1 w1 where w1: "wait_loop ch predicate (Take # T) s ?w = wait_loop ch predicate T s1 w1"
    "listening ch events ?rest w1" "same_conn w w1" "w_taken w1 = length (delivered ch (w_conn w1))"
    "first_match predicate s1 (concat (map (heard events) before)) = None"
    "first_match predicate s1 (concat (map (heard events) (before @ [r]))) = Some (res, s')"
  proof cases
    case 1
    then show thesis using st Cons.prems that [of s ?w] by simp
  next
    case 2
    then show thesis using st Cons.prems that [of s1 "?w\<lparr>w_taken := Suc (w_taken ?w)\<rparr>"]
      by (simp add: Let_def listening_def same_conn_def)
  qed
  then show ?case using Cons.IH [OF _ w1(4,2,5,6)] Cons.prems(1) same_conn_trans [OF w1(3)] unfolding T T_def by auto
qed

section \<open>A wait that is not told\<close>

text \<open>
  A response that is not an event is handled by leaving it: the handling goroutine spins, and
  nothing is reported to the waiter.
\<close>

lemma wait_loop_spins:
  assumes "is_answer r" "c_in (w_conn w) = render_reply r @ rest"
    "w_err w = None" "w_taken w = length (delivered ch (w_conn w))"
    "\<forall>x\<in>set steps. \<forall>err. x \<noteq> CtxDone err"
  shows "wait_loop ch predicate steps s w = None"
  using assms(5)
proof (induction steps)
  case (Cons x steps)
  have "HandleNextEvent (w_conn w) = (None, w_conn w)"
    using HandleNextEvent_render [of r "w_conn w" rest] assms(1,2) by (simp add: is_answer_def)
  then have "handle_step ch w = w" by (simp add: handle_step_def)
  then show ?case using Cons assms(3,4) by (cases x) simp_all
qed simp

section \<open>The request that starts and the request that ends a wait\<close>

lemma sendSetEvents_dialogue:
  assumes "dialogue c evs r rest"
  shows "\<exists>line. sendSetEvents c = (answer_error r, after_dialogue evs r rest (after_write line c))"
  unfolding sendSetEvents_def sendRequestIgnoreResponse_def SendRequest_dialogue [OF assms] by auto

lemma after_request_sent:
  "c_sent (after_dialogue [] r rest (after_write line c)) = c_sent c"
  by (simp add: after_dialogue_def after_write_def log_lines_def)

definition accepted :: "reply \<Rightarrow> bool" where
  "accepted r \<longleftrightarrow> is_answer r \<and> code r \<in> {250, 251}"

lemma event_wait_begins:
  assumes ls: "listeners_ok (eventListeners c)" and fault: "c_fault c = None"
    and events: "distinct events" "EventCodeUnrecognized \<notin> set events"
    and r: "accepted r" and inp: "c_in c = render_reply r @ inp"
  obtains w where "\<forall>steps predicate (s :: 's). EventWait steps events predicate s c =
      (case wait_loop (make_chan c) predicate steps s w of
         None \<Rightarrow> None
       | Some (res, s', w) \<Rightarrow>
           if blocked (make_chan c) w then None
           else Some ((res, s'), snd (RemoveEventListener (make_chan c) events (w_conn w))))"
    "listening (make_chan c) events inp w" "w_taken w = 0" "delivered (make_chan c) (w_conn w) = []"
    "eventListeners (w_conn w) = eventListeners (addEventListenerToMap (make_chan c) events c)"
    "c_fault (w_conn w) = None"
proof -
  let ?ch = "make_chan c"
  define c0 where "c0 = addEventListenerToMap ?ch events c"
  have "dialogue c0 [] r inp"
    using fault r inp by (simp add: dialogue_def c0_def addEventListenerToMap_def accepted_def)
  then obtain l where l: "sendSetEvents c0 = (answer_error r, after_dialogue [] r inp (after_write l c0))"
    using sendSetEvents_dialogue by blast
  have e: "answer_error r = None" using r by (auto simp: answer_error_def accepted_def)
  define c1 where "c1 = after_dialogue [] r inp (after_write l c0)"
  have a: "AddEventListener ?ch events c = (None, c1)"
    using l e by (simp add: AddEventListener_def c0_def c1_def)
  have c1: "c_in c1 = inp" "eventListeners c1 = eventListeners c0" "c_fault c1 = None" "c_sent c1 = c_sent c"
    using fault by (simp_all add: c1_def conn_frame after_request_sent c0_def addEventListenerToMap_def)
  define w where "w = \<lparr>w_conn = c1, w_taken = 0, w_err = None, w_alive = True\<rparr>"
  have del: "delivered ?ch c1 = []" using make_chan_fresh(1) [of c] c1(4) by (intro delivered_fresh) simp
  have "listens ?ch events c0" unfolding c0_def by (rule listens_add [OF ls events(1) make_chan_fresh(2)])
  then have "listens ?ch events c1" using listens_frame [OF c1(2)] by simp
  then have "listening ?ch events inp w" using c1(1) events(2) by (simp add: listening_def w_def)
  moreover have "EventWait steps events predicate s c =
      (case wait_loop ?ch predicate steps s w of
         None \<Rightarrow> None
       | Some (res, s', w) \<Rightarrow>
           if blocked ?ch w then None
           else Some ((res, s'), snd (RemoveEventListener ?ch events (w_conn w))))" for steps predicate and s :: 's
    unfolding EventWait_def Let_def a w_def using del by simp
  ultimately show thesis
    using that [of w] del c1(2,3) by (simp add: w_def c0_def)
qed

end
