(* ===== verification/Fair_Wait.thy ===== *)
theory Fair_Wait
  imports Event_Wait
begin

text \<open>
  \<open>EventWait\<close> of \<open>control/cmd_event.go\<close> under every schedule of its two goroutines: whatever the
  order of their steps, it returns nothing else than what the predicate decides, and if both get
  their turns again and again it returns.
\<close>

section \<open>What a waiter still hears\<close>

text \<open>
  The events that were sent to the waiter's channel and not yet taken, and those it hears of
  the messages \<open>todo\<close> that are not yet read. What follows the messages is \<open>tail\<close>.
\<close>

definition untaken :: "chan \<Rightarrow> waiting \<Rightarrow> event list" where
  "untaken ch w = drop (w_taken w) (delivered ch (w_conn w))"

definition to_hear :: "chan \<Rightarrow> EventCode list \<Rightarrow> reply list \<Rightarrow> waiting \<Rightarrow> event list" where
  "to_hear ch events todo w = untaken ch w @ concat (map (heard events) todo)"

definition hearing :: "chan \<Rightarrow> EventCode list \<Rightarrow> reply list \<Rightarrow> string \<Rightarrow> waiting \<Rightarrow> bool" where
  "hearing ch events todo tail w \<longleftrightarrow> listening ch events (concat (map render_reply todo) @ tail) w
     \<and> (\<forall>r\<in>set todo. is_event r) \<and> w_err w = None"

definition frame :: "waiting \<Rightarrow> waiting \<Rightarrow> bool" where
  "frame w w' \<longleftrightarrow> eventListeners (w_conn w') = eventListeners (w_conn w) \<and> c_fault (w_conn w') = c_fault (w_conn w)
     \<and> c_out (w_conn w') = c_out (w_conn w) \<and> c_iter (w_conn w') = c_iter (w_conn w)"

lemma frame_refl [simp]: "frame w w"
  by (simp add: frame_def)

lemma frame_trans: "frame a b \<Longrightarrow> frame b c \<Longrightarrow> frame a c"
  by (simp add: frame_def)

lemma blocked_untaken: "blocked ch w \<longleftrightarrow> eventChCap < length (untaken ch w)"
  by (simp add: blocked_def pending_def untaken_def)

text \<open>What the end of a wait leaves: the messages read do not fill the channel.\<close>

definition resting :: "chan \<Rightarrow> EventCode list \<Rightarrow> reply list \<Rightarrow> string \<Rightarrow> waiting \<Rightarrow> bool" where
  "resting ch events todo tail w \<longleftrightarrow> hearing ch events todo tail w \<and> length (to_hear ch events todo w) \<le> eventChCap"

lemma resting_not_blocked: "resting ch events todo tail w \<Longrightarrow> \<not> blocked ch w"
  by (simp add: resting_def to_hear_def blocked_untaken)

section \<open>One step of the goroutine that handles\<close>

lemma handle_one:
  assumes "hearing ch events (r # todo) tail w" "\<not> blocked ch w"
  shows "hearing ch events todo tail (handle_step ch w)" "to_hear ch events todo (handle_step ch w) = to_hear ch events (r # todo) w"
    "frame w (handle_step ch w)" "w_taken (handle_step ch w) = w_taken w"
proof -
  have e: "is_event r" and l: "listening ch events (render_reply r @ concat (map render_reply todo) @ tail) w"
    using assms(1) by (simp_all add: hearing_def)
  note st = handle_step_event [OF e l assms(2)]
  have h: "handle_step ch w = w\<lparr>w_conn := handled r (concat (map render_reply todo) @ tail) (w_conn w)\<rparr>"
    using l assms(2) HandleNextEvent_event [OF e] by (simp add: handle_step_def listening_def)
  show "hearing ch events todo tail (handle_step ch w)" using assms(1) st(1) h by (simp add: hearing_def)
  show "to_hear ch events todo (handle_step ch w) = to_hear ch events (r # todo) w"
    using l by (simp add: to_hear_def untaken_def st listening_def)
  show "frame w (handle_step ch w)" by (simp add: frame_def h handled_def)
  show "w_taken (handle_step ch w) = w_taken w" by (rule st)
qed

text \<open>A response that is no event is left.\<close>

lemma handle_none:
  assumes "hearing ch events [] (render_reply r2 @ rest) w" "is_answer r2"
  shows "handle_step ch w = w"
proof -
  have "c_in (w_conn w) = render_reply r2 @ rest" using assms(1) by (simp add: hearing_def listening_def)
  then have "HandleNextEvent (w_conn w) = (None, w_conn w)"
    using HandleNextEvent_render [of r2 "w_conn w" rest] assms(2) by (simp add: is_answer_def)
  then show ?thesis by (simp add: handle_step_def)
qed

lemma handle_cases:
  assumes "hearing ch events todo (render_reply r2 @ rest) w" "is_answer r2"
  obtains (same) "handle_step ch w = w" "blocked ch w \<or> todo = []"
  | (moves) todo' where "length todo' < length todo" "hearing ch events todo' (render_reply r2 @ rest) (handle_step ch w)"
    "to_hear ch events todo' (handle_step ch w) = to_hear ch events todo w" "frame w (handle_step ch w)"
proof (cases "blocked ch w")
  case True
  then show ?thesis using same by (simp add: handle_step_def)
next
  case False
  show ?thesis
  proof (cases todo)
    case Nil
    then show ?thesis using handle_none [of ch events r2 rest w] assms same by simp
  next
    case (Cons r todo')
    then show ?thesis using handle_one [of ch events r todo'] assms(1) False moves [of todo'] by simp
  qed
qed

text \<open>After the wait, the goroutine may go on handling.\<close>

lemma background_rests:
  assumes "resting ch events todo (render_reply r2 @ rest) w" "is_answer r2"
  shows "\<exists>todo'. resting ch events todo' (render_reply r2 @ rest) (background ch steps w) \<and> frame w (background ch steps w)"
  using assms(1)
proof (induction steps arbitrary: todo w)
  case Nil
  then show ?case by auto
next
  case (Cons x steps)
  show ?case
  proof (cases x)
    case Handle
    have h: "hearing ch events todo (render_reply r2 @ rest) w" using Cons.prems by (simp add: resting_def)
    show ?thesis
    proof (cases rule: handle_cases [OF h assms(2), case_names same moves])
      case same
      then show ?thesis using Cons Handle by simp
    next
      case (moves todo')
      then have "resting ch events todo' (render_reply r2 @ rest) (handle_step ch w)" using Cons.prems by (simp add: resting_def)
      then show ?thesis using Cons.IH moves(4) Handle frame_trans by (metis background.simps(2))
    qed
  qed (use Cons in simp_all)
qed

section \<open>Every schedule\<close>

text \<open>
  A waiter that has not decided: the events \<open>pre\<close> do not decide, the next one does with result
  \<open>res\<close>, and at most as many events as the channel holds come after that.
\<close>

definition undecided ::
    "chan \<Rightarrow> EventCode list \<Rightarrow> 's predicate \<Rightarrow> event result \<times> 's \<Rightarrow> string \<Rightarrow> reply list \<Rightarrow> event list \<Rightarrow> 's \<Rightarrow> waiting \<Rightarrow> bool" where
  "undecided ch events predicate res tail todo pre s w \<longleftrightarrow> hearing ch events todo tail w
     \<and> (\<exists>e post. to_hear ch events todo w = pre @ e # post \<and> first_match predicate s pre = None
          \<and> first_match predicate s (pre @ [e]) = Some res \<and> length post \<le> eventChCap)"

text \<open>A wait that has ended well.\<close>

definition ended ::
    "chan \<Rightarrow> EventCode list \<Rightarrow> event result \<times> 's \<Rightarrow> string \<Rightarrow> waiting \<Rightarrow> (event result \<times> 's \<times> waiting) option \<Rightarrow> bool" where
  "ended ch events res tail w out \<longleftrightarrow>
     (\<exists>todo w'. out = Some (fst res, snd res, w') \<and> resting ch events todo tail w' \<and> frame w w')"

definition no_ctx :: "wait_step \<Rightarrow> bool" where
  "no_ctx x \<longleftrightarrow> (\<forall>err. x \<noteq> CtxDone err)"

lemma first_match_step:
  assumes "first_match predicate s (p # ps) = None"
  obtains s1 where "predicate s p = (Inr False, s1)" "first_match predicate s1 xs = first_match predicate s (p # xs)"
    "first_match predicate s1 ps = None"
proof -
  obtain ok s1 where p: "predicate s p = (ok, s1)" by (metis prod.exhaust)
  then have "ok = Inr False" using assms by (auto split: sum.splits bool.splits)
  then show thesis using that p assms by simp
qed

text \<open>
  A step ends the wait, or leads to a state with less to do, or changes nothing; it changes
  nothing only if the goroutine it belongs to cannot go on.
\<close>

lemma wait_step_cases:
  assumes u: "undecided ch events predicate res (render_reply r2 @ rest) todo pre s w" and r2: "is_answer r2" and x: "no_ctx x"
  obtains (ended) "\<forall>steps. ended ch events res (render_reply r2 @ rest) w (wait_loop ch predicate (x # steps) s w)"
  | (goes_on) todo' pre' s' w' where "\<forall>steps. wait_loop ch predicate (x # steps) s w = wait_loop ch predicate steps s' w'"
    "undecided ch events predicate res (render_reply r2 @ rest) todo' pre' s' w'" "frame w w'"
    "length todo' + length pre' < length todo + length pre"
  | (same) "\<forall>steps. wait_loop ch predicate (x # steps) s w = wait_loop ch predicate steps s w"
    "x = Handle \<longrightarrow> blocked ch w \<or> todo = []" "x = Take \<longrightarrow> untaken ch w = []"
proof -
  obtain e post where hear: "hearing ch events todo (render_reply r2 @ rest) w" and hp: "to_hear ch events todo w = pre @ e # post"
    and pre: "first_match predicate s pre = None" "first_match predicate s (pre @ [e]) = Some res" and post: "length post \<le> eventChCap"
    using u by (auto simp: undecided_def)
  show thesis
  proof (cases x)
    case Handle
    show thesis
    proof (cases rule: handle_cases [OF hear r2, case_names same moves])
      case same
      then show thesis using that(3) Handle by simp
    next
      case (moves todo')
      have "undecided ch events predicate res (render_reply r2 @ rest) todo' pre s (handle_step ch w)"
        using moves(2,3) hp pre post by (auto simp: undecided_def)
      then show thesis using that(2) [of s "handle_step ch w" todo' pre] moves(1,4) Handle by simp
    qed
  next
    case Take
    show thesis
    proof (cases "untaken ch w")
      case Nil
      then show thesis using that(3) Take by (simp add: untaken_def)
    next
      case (Cons y ys)
      let ?w = "w\<lparr>w_taken := Suc (w_taken w)\<rparr>"
      have lt: "w_taken w < length (delivered ch (w_conn w))"
        using Cons by (metis drop_all leI list.distinct(1) untaken_def)
      then have "untaken ch w = delivered ch (w_conn w) ! w_taken w # untaken ch ?w"
        by (simp add: untaken_def Cons_nth_drop_Suc)
      then have y: "delivered ch (w_conn w) ! w_taken w = y" and ys: "untaken ch ?w = ys" using Cons by simp_all
      have hear': "hearing ch events todo (render_reply r2 @ rest) ?w"
        using hear lt by (simp add: hearing_def listening_def)
      have hp': "y # to_hear ch events todo ?w = pre @ e # post"
        using hp Cons ys by (simp add: to_hear_def)
      show thesis
      proof (cases pre)
        case Nil
        then have ye: "y = e" "to_hear ch events todo ?w = post" using hp' by simp_all
        then have "resting ch events todo (render_reply r2 @ rest) ?w" using hear' post by (simp add: resting_def)
        then have bg: "\<exists>todo'. resting ch events todo' (render_reply r2 @ rest) (background ch steps ?w)
            \<and> frame ?w (background ch steps ?w)" for steps
          using background_rests [OF _ r2] by blast
        have f: "frame w (background ch steps ?w) = frame ?w (background ch steps ?w)" for steps by (simp add: frame_def)
        have "wait_loop ch predicate (x # steps) s w = Some (fst res, snd res, background ch steps ?w)" for steps
          using pre(2) Nil ye(1) lt y Take by (auto simp: Let_def split: prod.splits sum.splits bool.splits)
        then show thesis using that(1) bg f unfolding ended_def by metis
      next
        case (Cons p ps)
        have p: "y = p" "to_hear ch events todo ?w = ps @ e # post" using hp' Cons by simp_all
        obtain s1 where s1: "predicate s p = (Inr False, s1)" "first_match predicate s1 (ps @ [e]) = first_match predicate s (p # ps @ [e])"
          "first_match predicate s1 ps = None"
          using first_match_step [of predicate s p ps "ps @ [e]"] pre(1) Cons by auto
        have "undecided ch events predicate res (render_reply r2 @ rest) todo ps s1 ?w"
          using hear' p(2) s1(2,3) pre(2) post Cons by (auto simp: undecided_def)
        moreover have "\<forall>steps. wait_loop ch predicate (x # steps) s w = wait_loop ch predicate steps s1 ?w"
          using lt y p(1) s1(1) Take by (simp add: Let_def)
        moreover have "frame w ?w" by (simp add: frame_def)
        ultimately show thesis using that(2) [of s1 ?w todo ps] Cons by simp
      qed
    qed
  next
    case TakeErr
    then show thesis using that(3) hear by (simp add: hearing_def)
  next
    case (CtxDone err)
    then show thesis using x by (simp add: no_ctx_def)
  qed
qed

text \<open>Steps that do not end the wait leave no more to do.\<close>

lemma later_ended: "ended ch events res tail w' out \<Longrightarrow> frame w w' \<Longrightarrow> ended ch events res tail w out"
  unfolding ended_def by (metis frame_trans)

lemma wait_steps_cases:
  assumes "undecided ch events predicate res (render_reply r2 @ rest) todo pre s w" "is_answer r2" "\<forall>x\<in>set a. no_ctx x"
  obtains (ended) "\<forall>steps. ended ch events res (render_reply r2 @ rest) w (wait_loop ch predicate (a @ steps) s w)"
  | (goes_on) todo' pre' s' w' where "\<forall>steps. wait_loop ch predicate (a @ steps) s w = wait_loop ch predicate steps s' w'"
    "undecided ch events predicate res (render_reply r2 @ rest) todo' pre' s' w'" "frame w w'"
    "length todo' + length pre' \<le> length todo + length pre"
    "Handle \<in> set a \<and> Take \<in> set a \<longrightarrow> length todo' + length pre' < length todo + length pre"
proof -
  have "(\<forall>steps. ended ch events res (render_reply r2 @ rest) w (wait_loop ch predicate (a @ steps) s w)) \<or>
    (\<exists>todo' pre' s' w'. (\<forall>steps. wait_loop ch predicate (a @ steps) s w = wait_loop ch predicate steps s' w')
      \<and> undecided ch events predicate res (render_reply r2 @ rest) todo' pre' s' w' \<and> frame w w'
      \<and> length todo' + length pre' \<le> length todo + length pre
      \<and> (untaken ch w = [] \<and> Handle \<in> set a \<or> untaken ch w \<noteq> [] \<and> Take \<in> set a
            \<longrightarrow> length todo' + length pre' < length todo + length pre))"
    using assms(1,3)
  proof (induction a arbitrary: todo pre s w)
    case Nil
    then show ?case by (intro disjI2 exI [of _ todo] exI [of _ pre] exI [of _ s] exI [of _ w]) simp
  next
    case (Cons x a)
    have nx: "no_ctx x" and na: "\<forall>x\<in>set a. no_ctx x" using Cons.prems(2) by simp_all
    show ?case
    proof (cases rule: wait_step_cases [OF Cons.prems(1) assms(2) nx, case_names ended goes_on same])
      case ended
      then show ?thesis by simp
    next
      case (goes_on todo1 pre1 s1 w1)
      from Cons.IH [OF goes_on(2) na] show ?thesis
      proof (elim disjE exE conjE)
        assume "\<forall>steps. ended ch events res (render_reply r2 @ rest) w1 (wait_loop ch predicate (a @ steps) s1 w1)"
        then show ?thesis using goes_on(1) by (intro disjI1 allI later_ended [OF _ goes_on(3)]) simp
      next
        fix todo' pre' s' w'
        assume "\<forall>steps. wait_loop ch predicate (a @ steps) s1 w1 = wait_loop ch predicate steps s' w'"
          "undecided ch events predicate res (render_reply r2 @ rest) todo' pre' s' w'" "frame w1 w'"
          "length todo' + length pre' \<le> length todo1 + length pre1"
        then show ?thesis using goes_on(1,3,4) frame_trans [OF goes_on(3)]
          by (intro disjI2 exI [of _ todo'] exI [of _ pre'] exI [of _ s'] exI [of _ w']) simp
      qed
    next
      case same
      have "x = Handle \<longrightarrow> untaken ch w \<noteq> []"
      proof
        assume "x = Handle"
        then have "blocked ch w \<or> todo = []" using same(2) by simp
        then show "untaken ch w \<noteq> []"
          using Cons.prems(1) by (auto simp: blocked_untaken undecided_def to_hear_def)
      qed
      then have "(untaken ch w = [] \<and> Handle \<in> set (x # a)) = (untaken ch w = [] \<and> Handle \<in> set a)"
        "(untaken ch w \<noteq> [] \<and> Take \<in> set (x # a)) = (untaken ch w \<noteq> [] \<and> Take \<in> set a)"
        using same(3) by auto
      then show ?thesis using Cons.IH [OF Cons.prems(1) na] same(1) by (simp only: append_Cons)
    qed
  qed
  then show thesis using that by blast
qed

text \<open>A schedule with enough rounds, in each of which both goroutines have a turn.\<close>

inductive rounds :: "nat \<Rightarrow> wait_step list \<Rightarrow> bool" where
  rounds_0: "rounds 0 steps"
| rounds_Suc: "Handle \<in> set a \<Longrightarrow> Take \<in> set a \<Longrightarrow> rounds n steps \<Longrightarrow> rounds (Suc n) (a @ steps)"

lemma rounds_end:
  assumes "rounds n steps" "undecided ch events predicate res (render_reply r2 @ rest) todo pre s w" "is_answer r2"
    "\<forall>x\<in>set steps. no_ctx x" "length todo + length pre < n"
  shows "ended ch events res (render_reply r2 @ rest) w (wait_loop ch predicate steps s w)"
  using assms(1,2,4,5)
proof (induction arbitrary: todo pre s w rule: rounds.induct)
  case (rounds_Suc a n steps)
  have a: "\<forall>x\<in>set a. no_ctx x" using rounds_Suc.prems(2) by simp
  show ?case
  proof (cases rule: wait_steps_cases [OF rounds_Suc.prems(1) assms(3) a, case_names ended goes_on])
    case ended
    then show ?thesis by simp
  next
    case (goes_on todo' pre' s' w')
    have "length todo' + length pre' < n" using goes_on(5) rounds_Suc.hyps(1,2) rounds_Suc.prems(3) by simp
    then have "ended ch events res (render_reply r2 @ rest) w' (wait_loop ch predicate steps s' w')"
      using rounds_Suc.IH [OF goes_on(2)] rounds_Suc.prems(2) by simp
    then show ?thesis using goes_on(1) by (intro later_ended [OF _ goes_on(3)]) simp
  qed
qed simp

text \<open>A fair schedule without end: both goroutines have a turn again and again, and the context is not done.\<close>

definition fair :: "(nat \<Rightarrow> wait_step) \<Rightarrow> bool" where
  "fair sched \<longleftrightarrow> (\<forall>n. \<exists>m\<ge>n. sched m = Handle) \<and> (\<forall>n. \<exists>m\<ge>n. sched m = Take) \<and> (\<forall>n err. sched n \<noteq> CtxDone err)"

lemma fair_rounds_from: "fair sched \<Longrightarrow> \<exists>n\<ge>i. \<forall>k\<ge>n. rounds m (map sched [i..<k])"
proof (induction m arbitrary: i)
  case 0
  then show ?case by (auto intro: rounds_0)
next
  case (Suc m)
  obtain h t where ht: "i \<le> h" "sched h = Handle" "i \<le> t" "sched t = Take" using Suc.prems unfolding fair_def by blast
  define j where "j = Suc (max h t)"
  obtain n where n: "j \<le> n" "\<forall>k\<ge>n. rounds m (map sched [j..<k])" using Suc by blast
  have "rounds (Suc m) (map sched [i..<k])" if "n \<le> k" for k
  proof -
    have ij: "i \<le> j" "j + (k - j) = k" using ht n(1) that by (simp_all add: j_def)
    have "[i..<k] = [i..<j] @ [j..<k]" using upt_add_eq_append [OF ij(1), of "k - j"] unfolding ij(2) .
    moreover have "Handle \<in> set (map sched [i..<j])" "Take \<in> set (map sched [i..<j])"
      using ht by (auto simp: j_def image_iff intro!: bexI [of _ h] bexI [of _ t])
    ultimately show ?thesis using n(2) that by (auto intro: rounds_Suc)
  qed
  then show ?case using n(1) ht(1) by (intro exI [of _ n]) (auto simp: j_def)
qed

lemma fair_rounds: "fair sched \<Longrightarrow> \<exists>n. \<forall>k\<ge>n. rounds m (map sched [0..<k])"
  using fair_rounds_from [of sched 0 m] by blast

section \<open>The requests\<close>

text \<open>The request that tells Tor which events to send: each is named once, in any order.\<close>

definition sets_events :: "EventCode set \<Rightarrow> string \<Rightarrow> bool" where
  "sets_events E line \<longleftrightarrow> (\<exists>keys. distinct keys \<and> set keys = E \<and> line = ''SETEVENTS'' @ concat (map (\<lambda>e. '' '' @ e) keys))"

definition listened :: "conn \<Rightarrow> EventCode set" where
  "listened c = set (map fst (eventListeners c))"

text \<open>The runtime ranges over the keys of a map in any order; no code of an event has a percent sign.\<close>

definition codes_ok :: "EventCode list \<Rightarrow> conn \<Rightarrow> bool" where
  "codes_ok events c \<longleftrightarrow> (\<forall>ks. mset (c_iter c ks) = mset ks) \<and> (\<forall>e\<in>listened c \<union> set events. CHR ''%'' \<notin> set e)"

lemma sendSetEvents_line:
  assumes "dialogue c evs r rest" "listeners_ok (eventListeners c)" "codes_ok events c"
  obtains line where "sendSetEvents c = (answer_error r, after_dialogue evs r rest (after_write line c))"
    "sets_events (listened c) line"
proof -
  let ?keys = "c_iter c (map fst (eventListeners c))"
  have k: "distinct ?keys" "set ?keys = set (map fst (eventListeners c))"
    using assms(2,3) by (metis codes_ok_def listeners.distinct_keys mset_eq_imp_distinct_iff, metis codes_ok_def assms(3) mset_eq_setD)
  have "\<nexists>e. e \<in> set (map fst (eventListeners c)) \<and> CHR ''%'' \<in> set e" using assms(3) by (auto simp: codes_ok_def listened_def)
  then show thesis
    using that [OF print_line_SETEVENTS [OF assms(1) _ k(2)]] k by (auto simp: sets_events_def listened_def)
qed

lemma event_wait_starts:
  assumes ls: "listeners_ok (eventListeners c)" and fault: "c_fault c = None"
    and events: "distinct events" "EventCodeUnrecognized \<notin> set events"
    and r: "accepted r" and inp: "c_in c = render_reply r @ inp" and codes: "codes_ok events c"
  obtains w line where "\<forall>steps predicate (s :: 's). EventWait steps events predicate s c =
      (case wait_loop (make_chan c) predicate steps s w of
         None \<Rightarrow> None
       | Some (res, s', w) \<Rightarrow>
           if blocked (make_chan c) w then None
           else Some ((res, s'), snd (RemoveEventListener (make_chan c) events (w_conn w))))"
    "listening (make_chan c) events inp w" "w_taken w = 0" "w_err w = None" "delivered (make_chan c) (w_conn w) = []"
    "eventListeners (w_conn w) = eventListeners (addEventListenerToMap (make_chan c) events c)"
    "c_fault (w_conn w) = None" "c_iter (w_conn w) = c_iter c" "c_out (w_conn w) = c_out c @ line @ CRLF"
    "sets_events (listened c \<union> set events) line"
proof -
  let ?ch = "make_chan c"
  define c0 where "c0 = addEventListenerToMap ?ch events c"
  have ls0: "listeners_ok (eventListeners c0)"
    unfolding c0_def addEventListenerToMap_def by (simp add: listeners.inv_adds [OF ls])
  have k0: "listened c0 = listened c \<union> set events"
    using listeners.keys_adds [OF ls, of ?ch events] by (simp add: c0_def addEventListenerToMap_def listened_def)
  have "codes_ok events c0" using codes k0 by (simp add: codes_ok_def c0_def addEventListenerToMap_def)
  moreover have "dialogue c0 [] r inp"
    using fault r inp by (simp add: dialogue_def c0_def addEventListenerToMap_def accepted_def)
  ultimately obtain l where l: "sendSetEvents c0 = (answer_error r, after_dialogue [] r inp (after_write l c0))" "sets_events (listened c0) l"
    using sendSetEvents_line [OF _ ls0] by blast
  have e: "answer_error r = None" using r by (auto simp: answer_error_def accepted_def)
  define c1 where "c1 = after_dialogue [] r inp (after_write l c0)"
  have a: "AddEventListener ?ch events c = (None, c1)"
    using l e by (simp add: AddEventListener_def c0_def c1_def)
  have c1: "c_in c1 = inp" "eventListeners c1 = eventListeners c0" "c_fault c1 = None" "c_sent c1 = c_sent c"
    "c_out c1 = c_out c @ l @ CRLF" "c_iter c1 = c_iter c"
    using fault
    by (simp_all add: c1_def conn_frame after_request_sent c0_def addEventListenerToMap_def)
      (simp_all add: after_dialogue_def after_write_def log_lines_def)
  define w where "w = \<lparr>w_conn = c1, w_taken = 0, w_err = None, w_alive = True\<rparr>"
  have del: "delivered ?ch c1 = []" using make_chan_fresh(1) [of c] c1(4) by (intro delivered_fresh) simp
  have "listens ?ch events c0" unfolding c0_def by (rule listens_add [OF ls events(1) make_chan_fresh(2)])
  then have "listens ?ch events c1" using listens_frame [OF c1(2)] by simp
  then have "listening ?ch events inp w" using c1(1) events(2) by (simp add: listening_def w_def)
  moreover have "EventWait steps events predicate s c =
      (case wait_loop ?ch predicate steps s w of
         None \<Rightarrow> None
       | Some (res, s', w) \<Rightarrow>
           if blocked ?ch w then None
           else Some ((res, s'), snd (RemoveEventListener ?ch events (w_conn w))))" for steps predicate and s :: 's
    unfolding EventWait_def Let_def a w_def using del by simp
  ultimately show thesis
    using that [of w l] del c1 l(2) k0 by (simp add: w_def c0_def)
qed

section \<open>All of EventWait\<close>

text \<open>
  The request that removes the listener reads the messages that are left; after it, Tor is told
  the events listened to before, and every event has its former listeners.
\<close>

lemma fair_EventWait:
  assumes ls: "listeners_ok (eventListeners c)" and fault: "c_fault c = None"
    and events: "distinct events" "EventCodeUnrecognized \<notin> set events" and codes: "codes_ok events c"
    and answers: "accepted r1" "is_answer r2"
    and evs: "\<forall>e\<in>set (before @ [decisive] @ after). is_event e"
    and inp: "c_in c = render_reply r1 @ concat (map render_reply (before @ [decisive] @ after)) @ render_reply r2 @ rest"
    and undecided: "first_match predicate s (concat (map (heard events) before)) = None"
    and decided: "first_match predicate s (concat (map (heard events) (before @ [decisive]))) = Some (res, s')"
    and room: "length (concat (map (heard events) after)) \<le> eventChCap"
    and fair: "fair sched"
  shows "\<exists>n. \<forall>k\<ge>n. \<exists>c' l1 l2. EventWait (map sched [0..<k]) events predicate s c = Some ((res, s'), c')
    \<and> c_in c' = rest \<and> listeners (eventListeners c') = listeners (eventListeners c) \<and> c_fault c' = None
    \<and> c_out c' = c_out c @ l1 @ CRLF @ l2 @ CRLF \<and> sets_events (listened c \<union> set events) l1 \<and> sets_events (listened c) l2"
proof -
  let ?ch = "make_chan c" and ?todo = "before @ [decisive] @ after" and ?tail = "render_reply r2 @ rest"
  let ?hear = "\<lambda>ms. concat (map (heard events) ms)"
  have inp': "c_in c = render_reply r1 @ (concat (map render_reply ?todo) @ ?tail)" using inp by simp
  obtain w l1 where w: "\<forall>steps predicate (s :: 'a). EventWait steps events predicate s c =
      (case wait_loop ?ch predicate steps s w of
         None \<Rightarrow> None
       | Some (res, s', w) \<Rightarrow>
           if blocked ?ch w then None
           else Some ((res, s'), snd (RemoveEventListener ?ch events (w_conn w))))"
    "listening ?ch events (concat (map render_reply ?todo) @ ?tail) w" "w_taken w = 0" "w_err w = None" "delivered ?ch (w_conn w) = []"
    "eventListeners (w_conn w) = eventListeners (addEventListenerToMap ?ch events c)"
    "c_fault (w_conn w) = None" "c_iter (w_conn w) = c_iter c" "c_out (w_conn w) = c_out c @ l1 @ CRLF"
    "sets_events (listened c \<union> set events) l1"
    by (rule event_wait_starts [OF ls fault events answers(1) inp' codes]) blast
  obtain e where e: "heard events decisive = [e]"
    using heard_cases [of events decisive] undecided decided by auto
  have "to_hear ?ch events ?todo w = ?hear before @ e # ?hear after" using w(3,5) e by (simp add: to_hear_def untaken_def)
  moreover have "first_match predicate s (?hear before @ [e]) = Some (res, s')" using decided e by simp
  moreover have "hearing ?ch events ?todo ?tail w" using w(2,4) evs by (simp add: hearing_def)
  ultimately have und: "Fair_Wait.undecided ?ch events predicate (res, s') ?tail ?todo (?hear before) s w"
    using undecided room unfolding undecided_def by blast
  obtain n where n: "\<forall>k\<ge>n. rounds (Suc (length ?todo + length (?hear before))) (map sched [0..<k])"
    using fair_rounds [OF fair] by blast
  have "\<exists>c' l2. EventWait (map sched [0..<k]) events predicate s c = Some ((res, s'), c')
      \<and> c_in c' = rest \<and> listeners (eventListeners c') = listeners (eventListeners c) \<and> c_fault c' = None
      \<and> c_out c' = c_out c @ l1 @ CRLF @ l2 @ CRLF \<and> sets_events (listened c) l2" if "n \<le> k" for k
  proof -
    have "\<forall>x\<in>set (map sched [0..<k]). no_ctx x" using fair by (auto simp: fair_def no_ctx_def)
    then have "ended ?ch events (res, s') ?tail w (wait_loop ?ch predicate (map sched [0..<k]) s w)"
      using rounds_end [OF n [rule_format, OF that] und answers(2)] by simp
    then obtain left w' where w': "wait_loop ?ch predicate (map sched [0..<k]) s w = Some (res, s', w')"
      "resting ?ch events left ?tail w'" "frame w w'"
      by (auto simp: ended_def)
    define c2 where "c2 = removeEventListenerFromMap ?ch events (w_conn w')"
    have ls2: "eventListeners c2 = fold (remove_listener ?ch) events (fold (add_listener ?ch) events (eventListeners c))"
      using w'(3) w(6) by (simp add: c2_def frame_def removeEventListenerFromMap_def addEventListenerToMap_def)
    have ok2: "listeners_ok (eventListeners c2)" unfolding ls2 by (intro listeners.inv_removes listeners.inv_adds ls)
    have same: "listeners (eventListeners c2) e = listeners (eventListeners c) e" for e
    proof -
      have "?ch \<notin> set (listeners (eventListeners c) e)" using make_chan_fresh(2) [of c] by (auto simp: registered_def)
      then show ?thesis unfolding ls2 by (rule listeners.add_remove_fresh [OF ls])
    qed
    have keys: "listened c2 = listened c"
      unfolding listened_def using listeners.keys_lookup [OF ok2] listeners.keys_lookup [OF ls] same by (intro set_eqI) metis
    have codes2: "codes_ok events c2"
      using codes keys w'(3) w(8) by (simp add: codes_ok_def c2_def removeEventListenerFromMap_def frame_def)
    have "dialogue c2 left r2 rest"
      using w'(2,3) w(7) answers(2)
      by (simp add: dialogue_def c2_def removeEventListenerFromMap_def resting_def hearing_def listening_def frame_def)
    then obtain l2 where l2: "sendSetEvents c2 = (answer_error r2, after_dialogue left r2 rest (after_write l2 c2))"
      "sets_events (listened c2) l2"
      using sendSetEvents_line [OF _ ok2 codes2] by blast
    define c' where "c' = after_dialogue left r2 rest (after_write l2 c2)"
    have out: "c_out c2 = c_out c @ l1 @ CRLF" "c_fault c2 = None"
      using w'(3) w(7,9) by (simp_all add: c2_def removeEventListenerFromMap_def frame_def)
    have "EventWait (map sched [0..<k]) events predicate s c = Some ((res, s'), c')"
      using w'(1) resting_not_blocked [OF w'(2)] l2(1) by (simp add: w(1) RemoveEventListener_def c2_def c'_def)
    moreover have "c_in c' = rest" "c_out c' = c_out c @ l1 @ CRLF @ l2 @ CRLF" "c_fault c' = None"
      using out by (simp_all add: c'_def conn_frame)
    moreover have "listeners (eventListeners c') = listeners (eventListeners c)" using same by (simp add: c'_def conn_frame fun_eq_iff)
    ultimately show ?thesis using l2(2) keys by auto
  qed
  then show ?thesis using w(10) by blast
qed

end
