(* ===== verification/Wait_Props.thy ===== *)
theory Wait_Props
  imports Fair_Wait
begin

text \<open>The claims on waiting for an event.\<close>

section \<open>A wait that ends\<close>






lemma example_conn_iter [simp]: "c_iter (example_conn inp ls) = id"
  by (simp add: example_conn_def NewConn_def)


section \<open>A wait that is stuck\<close>

text \<open>
  While the predicate looks at the decisive event, the handling goroutine goes on. When it
  hears eleven more, it is blocked on the eleventh with the read lock held, and the request
  that removes the listener waits for that lock: the call never returns, although the
  predicate has decided.
\<close>

lemma event_wait_stuck:
  assumes "listeners_ok (eventListeners c)" "c_fault c = None" "distinct events" "EventCodeUnrecognized \<notin> set events"
    "accepted r1" "\<forall>e\<in>set (before @ [decisive] @ after). is_event e"
    "c_in c = render_reply r1 @ concat (map render_reply (before @ [decisive] @ after)) @ rest"
    "first_match predicate s (concat (map (heard events) before)) = None"
    "first_match predicate s (concat (map (heard events) (before @ [decisive]))) = Some (res, s')"
    "eventChCap < length (concat (map (heard events) after))"
  shows "EventWait (turns (Suc (length before)) @ replicate (length after) Handle) events predicate s c = None"
proof -
  let ?ch = "make_chan c"
  let ?rest1 = "concat (map render_reply after) @ rest"
  have inp': "c_in c = render_reply r1 @ concat (map render_reply (before @ [decisive])) @ ?rest1" using assms(7) by simp
  obtain w where w: "\<forall>steps predicate (s :: 'a). EventWait steps events predicate s c =
      (case wait_loop ?ch predicate steps s w of
         None \<Rightarrow> None
       | Some (res, s', w) \<Rightarrow>
           if blocked ?ch w then None
           else Some ((res, s'), snd (RemoveEventListener ?ch events (w_conn w))))"
    "listening ?ch events (concat (map render_reply (before @ [decisive])) @ ?rest1) w" "w_taken w = 0" "delivered ?ch (w_conn w) = []"
    by (rule event_wait_begins [OF assms(1-5) inp']) blast
  obtain w1 where w1: "wait_loop ?ch predicate (turns (Suc (length before)) @ replicate (length after) Handle) s w =
      Some (res, s', background ?ch (replicate (length after) Handle) w1)" "listening ?ch events ?rest1 w1"
    using wait_loop_turns [OF _ _ w(2) assms(8,9)] assms(6) w(3,4) by auto
  have "blocked ?ch (background ?ch (replicate (length after) Handle) w1)"
    by (rule background_blocks [OF _ w1(2)]) (use assms(6,10) in auto)
  then show ?thesis using w1(1) w(1) by simp
qed

end
