(* ===== verification/Conn_Threads.thy ===== *)
theory Conn_Threads
  imports Conn_Props
begin

text \<open>
  Requests of several goroutines on one connection (\<open>SendRequest\<close> of \<open>conn.go\<close>), beside one that
  handles events (\<open>HandleNextEvent\<close> of \<open>cmd_event.go\<close>), as a step relation. A request takes its
  number and writes its line in one step: the pipeline of \<open>textproto\<close> lets the lines out in the
  order of their numbers. It then takes the read lock, waits for its turn in the pipeline,
  reads, and gives turn and lock on. Tor answers the lines in their order. An event that was
  read is sent to its listeners' channels one after the other (\<open>relayAsyncEvents\<close>), with the
  read lock held: a send waits until the channel has room, or until the event is received.
\<close>

section \<open>States and steps\<close>

datatype pc = Idle | Wrote nat | Locked nat | Reading nat | Finished reqres

text \<open>Who holds the read lock: a requester, or the handler before or after it has read its event.\<close>

datatype owner = Requester nat | Handler | Relaying

text \<open>
  Where each requester is, whose line has which number, the number whose turn it is to read, who
  holds the read lock, the messages that are not read yet, how many lines Tor has answered,
  the events read, the channels that the last of them is still to be sent to, how many events
  are in the buffer of each channel, and the channels whose events are taken.
\<close>

record threads =
  th_pc :: "nat \<Rightarrow> pc"
  th_lines :: "nat list"
  th_turn :: nat
  th_lock :: "owner option"
  th_in :: "reply list"
  th_answered :: nat
  th_relayed :: "reply list"
  th_todo :: "chan list"
  th_buf :: "chan \<Rightarrow> nat"
  th_served :: "chan set"

definition no_threads :: "chan set \<Rightarrow> threads" where
  "no_threads served = \<lparr>th_pc = \<lambda>_. Idle, th_lines = [], th_turn = 0, th_lock = None, th_in = [], th_answered = 0, th_relayed = [],
     th_todo = [], th_buf = \<lambda>_. 0, th_served = served\<rparr>"

type_synonym registry = "(EventCode \<times> chan list) list"

text \<open>The channels an event is sent to, in this order.\<close>

definition event_chans :: "registry \<Rightarrow> reply \<Rightarrow> chan list" where
  "event_chans L r = map fst (deliveries L (view_reply r))"

text \<open>
  The steps, for Tor's answers, the registry of listeners and the capacities of the channels. An
  unbuffered channel hands an event to who takes from it; a listener may stop taking for good.
\<close>

inductive tstep :: "(nat \<Rightarrow> reply) \<Rightarrow> registry \<Rightarrow> (chan \<Rightarrow> nat) \<Rightarrow> threads \<Rightarrow> threads \<Rightarrow> bool" for answer L cap where
  cmd: "th_pc s i = Idle \<Longrightarrow>
    tstep answer L cap s (s\<lparr>th_pc := (th_pc s)(i := Wrote (length (th_lines s))), th_lines := th_lines s @ [i]\<rparr>)"
| lock: "th_pc s i = Wrote k \<Longrightarrow> th_lock s = None \<Longrightarrow>
    tstep answer L cap s (s\<lparr>th_pc := (th_pc s)(i := Locked k), th_lock := Some (Requester i)\<rparr>)"
| start_response: "th_pc s i = Locked k \<Longrightarrow> th_turn s = k \<Longrightarrow>
    tstep answer L cap s (s\<lparr>th_pc := (th_pc s)(i := Reading k)\<rparr>)"
| relay: "th_pc s i = Reading k \<Longrightarrow> th_todo s = [] \<Longrightarrow> th_in s = r # rest \<Longrightarrow> IsAsync (view_reply r) \<Longrightarrow>
    tstep answer L cap s (s\<lparr>th_in := rest, th_relayed := th_relayed s @ [r], th_todo := event_chans L r\<rparr>)"
| respond: "th_pc s i = Reading k \<Longrightarrow> th_todo s = [] \<Longrightarrow> th_in s = r # rest \<Longrightarrow> \<not> IsAsync (view_reply r) \<Longrightarrow>
    tstep answer L cap s (s\<lparr>th_pc := (th_pc s)(i := Finished (Some (view_reply r), resp_error (view_reply r))),
      th_in := rest, th_turn := Suc k, th_lock := None\<rparr>)"
| handler_lock: "th_lock s = None \<Longrightarrow> tstep answer L cap s (s\<lparr>th_lock := Some Handler\<rparr>)"
| handler_relay: "th_lock s = Some Handler \<Longrightarrow> th_todo s = [] \<Longrightarrow> th_in s = r # rest \<Longrightarrow> IsAsync (view_reply r) \<Longrightarrow>
    tstep answer L cap s (s\<lparr>th_in := rest, th_relayed := th_relayed s @ [r], th_todo := event_chans L r, th_lock := Some Relaying\<rparr>)"
| handler_done: "th_lock s = Some Relaying \<Longrightarrow> th_todo s = [] \<Longrightarrow> tstep answer L cap s (s\<lparr>th_lock := None\<rparr>)"
| handler_leave: "th_lock s = Some Handler \<Longrightarrow> th_in s = r # rest \<Longrightarrow> \<not> IsAsync (view_reply r) \<Longrightarrow>
    tstep answer L cap s (s\<lparr>th_lock := None\<rparr>)"
| send: "th_todo s = ch # chs \<Longrightarrow> th_buf s ch < cap ch \<Longrightarrow>
    tstep answer L cap s (s\<lparr>th_todo := chs, th_buf := (th_buf s)(ch := Suc (th_buf s ch))\<rparr>)"
| hand_over: "th_todo s = ch # chs \<Longrightarrow> cap ch = 0 \<Longrightarrow> ch \<in> th_served s \<Longrightarrow> tstep answer L cap s (s\<lparr>th_todo := chs\<rparr>)"
| take_event: "ch \<in> th_served s \<Longrightarrow> th_buf s ch = Suc n \<Longrightarrow> tstep answer L cap s (s\<lparr>th_buf := (th_buf s)(ch := n)\<rparr>)"
| stop_taking: "tstep answer L cap s (s\<lparr>th_served := th_served s - {ch}\<rparr>)"
| tor_answers: "th_answered s < length (th_lines s) \<Longrightarrow>
    tstep answer L cap s (s\<lparr>th_in := th_in s @ [answer (th_lines s ! th_answered s)], th_answered := Suc (th_answered s)\<rparr>)"
| tor_event: "is_event r \<Longrightarrow> tstep answer L cap s (s\<lparr>th_in := th_in s @ [r]\<rparr>)"

inductive_cases tstepE: "tstep answer L cap s s'"

abbreviation tsteps :: "(nat \<Rightarrow> reply) \<Rightarrow> registry \<Rightarrow> (chan \<Rightarrow> nat) \<Rightarrow> threads \<Rightarrow> threads \<Rightarrow> bool" where
  "tsteps answer L cap \<equiv> (tstep answer L cap)\<^sup>*\<^sup>*"

section \<open>The invariant\<close>

definition holds :: "pc \<Rightarrow> bool" where
  "holds p \<longleftrightarrow> (\<exists>k. p = Locked k \<or> p = Reading k)"

text \<open>
  The number of a requester that waits is not before the turn and its line is the one with this
  number; who reads has the turn; who has finished came before the turn and has the
  answer to its own line.
\<close>

fun pc_ok :: "(nat \<Rightarrow> reply) \<Rightarrow> nat list \<Rightarrow> nat \<Rightarrow> nat \<Rightarrow> pc \<Rightarrow> bool" where
  "pc_ok answer ls turn i Idle \<longleftrightarrow> i \<notin> set ls"
| "pc_ok answer ls turn i (Wrote k) \<longleftrightarrow> turn \<le> k \<and> k < length ls \<and> ls ! k = i"
| "pc_ok answer ls turn i (Locked k) \<longleftrightarrow> turn \<le> k \<and> k < length ls \<and> ls ! k = i"
| "pc_ok answer ls turn i (Reading k) \<longleftrightarrow> turn = k \<and> k < length ls \<and> ls ! k = i"
| "pc_ok answer ls turn i (Finished res) \<longleftrightarrow> i \<in> set (take turn ls)
     \<and> res = (Some (view_reply (answer i)), resp_error (view_reply (answer i)))"

text \<open>
  The answers that are not read are those to the lines from the turn on, as far as Tor has come.
\<close>

definition queue_ok :: "(nat \<Rightarrow> reply) \<Rightarrow> nat list \<Rightarrow> nat \<Rightarrow> nat \<Rightarrow> reply list \<Rightarrow> bool" where
  "queue_ok answer ls turn answered inp \<longleftrightarrow> distinct ls \<and> turn \<le> answered \<and> answered \<le> length ls
     \<and> filter (\<lambda>r. code r \<noteq> 650) inp = map answer (drop turn (take answered ls))"

definition threads_inv :: "(nat \<Rightarrow> reply) \<Rightarrow> threads \<Rightarrow> bool" where
  "threads_inv answer s \<longleftrightarrow> queue_ok answer (th_lines s) (th_turn s) (th_answered s) (th_in s)
     \<and> (\<forall>i. pc_ok answer (th_lines s) (th_turn s) i (th_pc s i))
     \<and> (\<forall>i. holds (th_pc s i) \<longleftrightarrow> th_lock s = Some (Requester i))"

text \<open>No channel holds more than its capacity.\<close>

definition within :: "(chan \<Rightarrow> nat) \<Rightarrow> threads \<Rightarrow> bool" where
  "within cap s \<longleftrightarrow> (\<forall>ch. th_buf s ch \<le> cap ch)"

lemma holds_simps [simp]:
  "\<not> holds Idle" "\<not> holds (Wrote k)" "holds (Locked k)" "holds (Reading k)" "\<not> holds (Finished res)"
  by (simp_all add: holds_def)

lemma IsAsync_view [simp]: "IsAsync (view_reply r) \<longleftrightarrow> code r = 650"
  by (simp add: IsAsync_def StatusAsyncEvent_def)

lemma pc_ok_append: "pc_ok answer ls turn i p \<Longrightarrow> x \<noteq> i \<Longrightarrow> pc_ok answer (ls @ [x]) turn i p"
  by (cases p) (auto simp: nth_append)

lemma pc_ok_next:
  "pc_ok answer ls turn i p \<Longrightarrow> turn < length ls \<Longrightarrow> ls ! turn \<noteq> i \<Longrightarrow> \<not> holds p \<Longrightarrow> pc_ok answer ls (Suc turn) i p"
  by (cases p) (auto simp: take_Suc_conv_app_nth, (metis Suc_leI le_neq_implies_less)+)

lemma queue_ok_answer:
  assumes "queue_ok answer ls turn answered inp" "answered < length ls" "is_answer (answer (ls ! answered))"
  shows "queue_ok answer ls turn (Suc answered) (inp @ [answer (ls ! answered)])"
  using assms by (simp add: queue_ok_def is_answer_def take_Suc_conv_app_nth)

lemma queue_ok_event: "is_event r \<Longrightarrow> queue_ok answer ls turn answered (inp @ [r]) = queue_ok answer ls turn answered inp"
  by (simp add: queue_ok_def is_event_def)

lemma queue_ok_relay: "code r = 650 \<Longrightarrow> queue_ok answer ls turn answered (r # inp) = queue_ok answer ls turn answered inp"
  by (simp add: queue_ok_def)

lemma queue_ok_line: "x \<notin> set ls \<Longrightarrow> queue_ok answer ls turn answered inp \<Longrightarrow> queue_ok answer (ls @ [x]) turn answered inp"
  by (simp add: queue_ok_def)

text \<open>The first answer that is not read is that of the turn.\<close>

lemma queue_ok_respond:
  assumes "queue_ok answer ls turn answered (r # inp)" "code r \<noteq> 650"
  shows "turn < length ls \<and> r = answer (ls ! turn) \<and> queue_ok answer ls (Suc turn) answered inp"
proof -
  have m: "r # filter (\<lambda>r. code r \<noteq> 650) inp = map answer (drop turn (take answered ls))"
    and b: "turn \<le> answered" "answered \<le> length ls" using assms by (simp_all add: queue_ok_def)
  then have "turn < answered" by (cases "turn = answered") auto
  then have "drop turn (take answered ls) = ls ! turn # drop (Suc turn) (take answered ls)"
    using b by (subst Cons_nth_drop_Suc [symmetric]) simp_all
  then show ?thesis using m b \<open>turn < answered\<close> assms(1) by (simp add: queue_ok_def)
qed

lemma threads_inv_start: "threads_inv answer (no_threads served)"
  by (simp add: threads_inv_def no_threads_def queue_ok_def)

lemma tstep_inv:
  assumes "tstep answer L cap s s'" "threads_inv answer s" "\<forall>i. is_answer (answer i)"
  shows "threads_inv answer s'"
  using assms
proof (cases rule: tstep.cases)
  case (cmd i)
  then have "i \<notin> set (th_lines s)" "th_lock s \<noteq> Some (Requester i)" "th_turn s \<le> length (th_lines s)"
    using assms(2) by (metis pc_ok.simps(1) threads_inv_def, metis holds_simps(1) threads_inv_def,
        metis le_trans queue_ok_def threads_inv_def)
  then show ?thesis
    using cmd assms(2) pc_ok_append by (auto simp: threads_inv_def queue_ok_line nth_append)
next
  case (respond i k r rest)
  note inv = assms(2) [unfolded threads_inv_def]
  have k: "k = th_turn s" "th_lines s ! k = i" using inv respond(2) by (metis pc_ok.simps(4))+
  have q: "th_turn s < length (th_lines s)" "r = answer i" "queue_ok answer (th_lines s) (Suc k) (th_answered s) rest"
    using queue_ok_respond [of answer "th_lines s" "th_turn s" "th_answered s" r rest] inv respond k by auto
  have other: "\<not> holds (th_pc s j)" if "j \<noteq> i" for j
    using inv respond(2) that by (metis holds_simps(4) option.inject owner.inject)
  have "pc_ok answer (th_lines s) (Suc k) j (th_pc s j)" if "j \<noteq> i" for j
    using pc_ok_next [of answer "th_lines s" "th_turn s" j "th_pc s j"] inv k q(1) other [OF that] that by auto
  then show ?thesis
    using respond q other k by (auto simp: threads_inv_def take_Suc_conv_app_nth)
next
  case (lock i k)
  then have "pc_ok answer (th_lines s) (th_turn s) i (Wrote k)" using assms(2) by (metis threads_inv_def)
  then show ?thesis using lock assms(2) by (auto simp: threads_inv_def)
next
  case (start_response i k)
  then have "pc_ok answer (th_lines s) (th_turn s) i (Locked k)" using assms(2) by (metis threads_inv_def)
  moreover have "holds (th_pc s i)" using start_response by simp
  ultimately show ?thesis using start_response assms(2) by (auto simp: threads_inv_def)
qed (auto simp: threads_inv_def queue_ok_answer queue_ok_event queue_ok_relay split: if_splits)

lemma tsteps_inv:
  "tsteps answer L cap s s' \<Longrightarrow> threads_inv answer s \<Longrightarrow> \<forall>i. is_answer (answer i) \<Longrightarrow> threads_inv answer s'"
  by (induction rule: rtranclp_induct) (auto intro: tstep_inv)

lemma tstep_within: "tstep answer L cap s s' \<Longrightarrow> within cap s \<Longrightarrow> within cap s'"
proof (induction rule: tstep.induct)
  case (take_event ch s n)
  then have "n \<le> cap ch" unfolding within_def by (metis Suc_leD)
  then show ?case using take_event by (simp add: within_def)
qed (auto simp: within_def)

lemma tsteps_within: "tsteps answer L cap s s' \<Longrightarrow> within cap s \<Longrightarrow> within cap s'"
  by (induction rule: rtranclp_induct) (auto intro: tstep_within)

lemma within_start: "within cap (no_threads served)"
  by (simp add: within_def no_threads_def)

section \<open>Progress\<close>

text \<open>The oldest request that has no response yet.\<close>

lemma oldest_waits:
  assumes "threads_inv answer s" "th_turn s < length (th_lines s)"
  shows "th_pc s (th_lines s ! th_turn s) \<in> {Wrote (th_turn s), Locked (th_turn s), Reading (th_turn s)}"
proof -
  define ls turn j where "ls = th_lines s" and "turn = th_turn s" and "j = ls ! turn"
  have ok: "pc_ok answer ls turn j (th_pc s j)" and d: "distinct ls" and l: "turn < length ls"
    using assms by (simp_all add: threads_inv_def queue_ok_def ls_def turn_def)
  have k: "k = turn" if "k < length ls" "ls ! k = j" for k
    using d l that by (simp add: nth_eq_iff_index_eq j_def)
  have t: "j \<notin> set (take turn ls)"
  proof
    assume "j \<in> set (take turn ls)"
    then obtain n where "n < turn" "ls ! n = j" using l by (auto simp: in_set_conv_nth)
    then show False using k [of n] l by simp
  qed
  have "j \<in> set ls" using l by (simp add: j_def)
  then have "th_pc s j \<in> {Wrote turn, Locked turn, Reading turn}"
    using ok t k by (cases "th_pc s j") auto
  then show ?thesis by (simp add: j_def ls_def turn_def)
qed

text \<open>
  What is still to be sent to a channel before the next answer is read: the rest of the event
  that is being sent, and the events before that answer. There is room if every channel
  nobody takes from can hold this.
\<close>

definition before_answer :: "registry \<Rightarrow> threads \<Rightarrow> chan list" where
  "before_answer L s = th_todo s @ concat (map (event_chans L) (takeWhile (\<lambda>r. code r = 650) (th_in s)))"

definition room :: "registry \<Rightarrow> (chan \<Rightarrow> nat) \<Rightarrow> threads \<Rightarrow> bool" where
  "room L cap s \<longleftrightarrow> (\<forall>ch. ch \<notin> th_served s \<longrightarrow> th_buf s ch + count_list (before_answer L s) ch \<le> cap ch)"

definition same_readers :: "threads \<Rightarrow> threads \<Rightarrow> bool" where
  "same_readers s s' \<longleftrightarrow> th_pc s' = th_pc s \<and> th_lock s' = th_lock s \<and> th_turn s' = th_turn s \<and> th_lines s' = th_lines s
     \<and> th_in s' = th_in s"

lemma same_readers_trans: "same_readers a b \<Longrightarrow> same_readers b c \<Longrightarrow> same_readers a c"
  by (simp add: same_readers_def)

lemma send_one:
  assumes "th_todo s = ch # chs" "room L cap s" "within cap s"
  shows "\<exists>s'. tsteps answer L cap s s' \<and> th_todo s' = chs \<and> room L cap s' \<and> same_readers s s'"
proof -
  let ?sent = "\<lambda>s. s\<lparr>th_todo := chs, th_buf := (th_buf s)(ch := Suc (th_buf s ch))\<rparr>"
  consider "th_buf s ch < cap ch" | "ch \<in> th_served s" "cap ch = 0" | n where "ch \<in> th_served s" "th_buf s ch = Suc n" "n < cap ch"
  proof -
    have "th_buf s ch < cap ch" if "ch \<notin> th_served s"
      using assms(1,2) that unfolding room_def before_answer_def by fastforce
    moreover have "th_buf s ch \<le> cap ch" using assms(3) by (simp add: within_def)
    ultimately show thesis using that by (cases "th_buf s ch"; cases "cap ch") force+
  qed
  then show ?thesis
  proof cases
    case 1
    have "tstep answer L cap s (?sent s)" using 1 assms(1) by (intro tstep.send)
    moreover have "room L cap (?sent s)" using assms(1,2) by (force simp: room_def before_answer_def)
    ultimately show ?thesis by (intro exI [of _ "?sent s"]) (auto simp: same_readers_def)
  next
    case 2
    let ?s = "s\<lparr>th_todo := chs\<rparr>"
    have "tstep answer L cap s ?s" using 2 assms(1) by (intro tstep.hand_over)
    moreover have "room L cap ?s"
      unfolding room_def
    proof (intro allI impI)
      fix c assume "c \<notin> th_served ?s"
      then have "c \<noteq> ch" "th_buf s c + count_list (before_answer L s) c \<le> cap c" using 2(1) assms(2) by (auto simp: room_def)
      then show "th_buf ?s c + count_list (before_answer L ?s) c \<le> cap c" using assms(1) by (simp add: before_answer_def)
    qed
    ultimately show ?thesis by (intro exI [of _ ?s]) (auto simp: same_readers_def)
  next
    case 3
    let ?s = "s\<lparr>th_buf := (th_buf s)(ch := n)\<rparr>"
    have "tstep answer L cap s ?s" using 3 by (intro tstep.take_event)
    moreover have "tstep answer L cap ?s (?sent ?s)" by (rule tstep.send) (use assms(1) 3 in simp_all)
    moreover have "room L cap (?sent ?s)" using assms(1,2) 3 by (force simp: room_def before_answer_def)
    ultimately show ?thesis by (intro exI [of _ "?sent ?s"]) (auto simp: same_readers_def intro: converse_rtranclp_into_rtranclp)
  qed
qed

lemma send_all:
  assumes "room L cap s" "within cap s"
  obtains s' where "tsteps answer L cap s s'" "th_todo s' = []" "room L cap s'" "within cap s'" "same_readers s s'"
  using assms
proof (induction "th_todo s" arbitrary: s thesis)
  case Nil
  then show ?case by (metis rtranclp.rtrancl_refl same_readers_def)
next
  case (Cons ch chs)
  obtain u where u: "tsteps answer L cap s u" "th_todo u = chs" "room L cap u" "same_readers s u"
    using send_one [OF Cons.hyps(2) [symmetric] Cons.prems(2,3)] by blast
  obtain s' where "tsteps answer L cap u s'" "th_todo s' = []" "room L cap s'" "within cap s'" "same_readers u s'"
    using Cons.hyps(1) [OF u(2) [symmetric] _ u(3) tsteps_within [OF u(1) Cons.prems(3)]] by blast
  then show ?case using Cons.prems(1) u by (meson rtranclp_trans same_readers_trans)
qed

text \<open>An event that is read is still to be sent.\<close>

lemma room_relay:
  "th_todo s = [] \<Longrightarrow> th_in s = r # rest \<Longrightarrow> code r = 650 \<Longrightarrow>
     room L cap (s\<lparr>th_in := rest, th_relayed := l, th_todo := event_chans L r\<rparr>) = room L cap s"
  by (simp add: room_def before_answer_def)

lemma room_lock: "room L cap (s\<lparr>th_lock := l\<rparr>) = room L cap s"
  by (simp add: room_def before_answer_def)

lemma within_lock: "within cap (s\<lparr>th_lock := l\<rparr>) = within cap s"
  by (simp add: within_def)

text \<open>A request that reads finishes when its answer is there and the events before it can be sent.\<close>

lemma reading_finishes:
  assumes "th_pc s i = Reading k" "filter (\<lambda>r. code r \<noteq> 650) (th_in s) \<noteq> []" "room L cap s" "within cap s"
  shows "\<exists>s'. tsteps answer L cap s s' \<and> th_turn s' = Suc k"
  using assms
proof (induction "th_in s" arbitrary: s)
  case (Cons r rest)
  obtain u where u: "tsteps answer L cap s u" "th_todo u = []" "room L cap u" "within cap u" "same_readers s u"
    by (rule send_all [OF Cons.prems(3,4)])
  then have inp: "th_in u = r # rest" and pc: "th_pc u i = Reading k"
    using Cons.hyps(2) Cons.prems(1) by (simp_all add: same_readers_def)
  show ?case
  proof (cases "code r = 650")
    case True
    let ?s = "u\<lparr>th_in := rest, th_relayed := th_relayed u @ [r], th_todo := event_chans L r\<rparr>"
    have "tstep answer L cap u ?s" using True by (intro tstep.relay [OF pc u(2) inp]) simp
    moreover have "room L cap ?s" using room_relay [OF u(2) inp True] u(3) by simp
    moreover have "within cap ?s" using u(4) by (simp add: within_def)
    moreover have "filter (\<lambda>r. code r \<noteq> 650) (th_in ?s) \<noteq> []" using Cons.prems(2) Cons.hyps(2) [symmetric] True by simp
    moreover have "rest = th_in ?s" "th_pc ?s i = Reading k" using pc by simp_all
    ultimately obtain s' where "tsteps answer L cap ?s s'" "th_turn s' = Suc k"
      using Cons.hyps(1) [of ?s] by blast
    then show ?thesis using u(1) \<open>tstep answer L cap u ?s\<close> by (meson converse_rtranclp_into_rtranclp rtranclp_trans)
  next
    case False
    then have "tstep answer L cap u (u\<lparr>th_pc := (th_pc u)(i := Finished (Some (view_reply r), resp_error (view_reply r))),
        th_in := rest, th_turn := Suc k, th_lock := None\<rparr>)"
      by (intro tstep.respond [OF pc u(2) inp]) simp
    then have "tsteps answer L cap s (u\<lparr>th_pc := (th_pc u)(i := Finished (Some (view_reply r), resp_error (view_reply r))),
        th_in := rest, th_turn := Suc k, th_lock := None\<rparr>)" by (rule rtranclp.rtrancl_into_rtrancl [OF u(1)])
    then show ?thesis by (intro exI conjI) (assumption, simp)
  qed
qed simp

text \<open>Tor answers the oldest request if it has not yet.\<close>

lemma tor_has_answered:
  assumes "threads_inv answer s" "th_turn s < length (th_lines s)" "\<forall>i. is_answer (answer i)"
  obtains s' where "tsteps answer L cap s s'" "th_pc s' = th_pc s" "th_lock s' = th_lock s" "th_turn s' = th_turn s"
    "th_lines s' = th_lines s" "filter (\<lambda>r. code r \<noteq> 650) (th_in s') \<noteq> []" "room L cap s' = room L cap s" "within cap s' = within cap s"
proof (cases "th_turn s < th_answered s")
  case True
  then have "filter (\<lambda>r. code r \<noteq> 650) (th_in s) \<noteq> []" using assms(1) by (auto simp: threads_inv_def queue_ok_def)
  then show ?thesis using that [of s] by simp
next
  case False
  let ?r = "answer (th_lines s ! th_answered s)"
  let ?s = "s\<lparr>th_in := th_in s @ [?r], th_answered := Suc (th_answered s)\<rparr>"
  have a: "th_answered s < length (th_lines s)" using False assms(1,2) by (simp add: threads_inv_def queue_ok_def)
  have r: "code ?r \<noteq> 650" using assms(3) by (simp add: is_answer_def)
  have "filter (\<lambda>r. code r \<noteq> 650) (th_in s) = []" using False assms(1) by (simp add: threads_inv_def queue_ok_def)
  then have "takeWhile (\<lambda>r. code r = 650) (th_in s @ [?r]) = takeWhile (\<lambda>r. code r = 650) (th_in s)"
    using r by (simp add: filter_empty_conv takeWhile_eq_all_conv [THEN iffD2])
  then have "room L cap ?s = room L cap s" by (simp add: room_def before_answer_def)
  then show ?thesis using that [OF r_into_rtranclp [of "tstep answer L cap", OF tstep.tor_answers [OF a]]] r by (simp add: within_def)
qed

definition out_of_turn :: "threads \<Rightarrow> bool" where
  "out_of_turn s \<longleftrightarrow> (\<exists>i k. th_pc s i = Locked k \<and> k \<noteq> th_turn s)"

lemma oldest_reads:
  assumes inv: "threads_inv answer s" and old: "th_turn s < length (th_lines s)"
    and free: "th_lock s \<noteq> Some Handler" "th_lock s \<noteq> Some Relaying" "\<not> out_of_turn s"
  shows "\<exists>s'. tsteps answer L cap s s' \<and> th_pc s' (th_lines s ! th_turn s) = Reading (th_turn s)
    \<and> th_in s' = th_in s \<and> room L cap s' = room L cap s \<and> within cap s' = within cap s"
proof -
  let ?j = "th_lines s ! th_turn s"
  have start: "\<exists>s'. tsteps answer L cap u s' \<and> th_pc s' ?j = Reading (th_turn s) \<and> th_in s' = th_in u
      \<and> room L cap s' = room L cap u \<and> within cap s' = within cap u"
    if "th_pc u ?j = Locked (th_turn s)" "th_turn u = th_turn s" for u
    using r_into_rtranclp [of "tstep answer L cap", OF tstep.start_response [OF that]]
    by (force simp: room_def before_answer_def within_def)
  consider "th_pc s ?j = Wrote (th_turn s)" | "th_pc s ?j = Locked (th_turn s)" | "th_pc s ?j = Reading (th_turn s)"
    using oldest_waits [OF inv old] by blast
  then show ?thesis
  proof cases
    case 1
    have "th_lock s = None"
    proof (cases "th_lock s")
      case (Some h)
      then obtain m where m: "th_lock s = Some (Requester m)" using free(1,2) by (cases h) auto
      then have "holds (th_pc s m)" "pc_ok answer (th_lines s) (th_turn s) m (th_pc s m)" using inv by (simp_all add: threads_inv_def)
      then have "m = ?j" using free(3) by (cases "th_pc s m") (auto simp: out_of_turn_def)
      then show ?thesis using 1 \<open>holds (th_pc s m)\<close> by simp
    qed
    note l = tstep.lock [OF 1 this, of answer L cap]
    let ?s = "s\<lparr>th_pc := (th_pc s)(?j := Locked (th_turn s)), th_lock := Some (Requester ?j)\<rparr>"
    have "room L cap ?s = room L cap s" "within cap ?s = within cap s" by (simp_all add: room_def before_answer_def within_def)
    then show ?thesis using start [of ?s] l by (auto intro: converse_rtranclp_into_rtranclp)
  next
    case 2
    then show ?thesis using start by blast
  qed auto
qed

text \<open>A goroutine that handles an event lets go of the lock.\<close>

lemma handler_lets_go:
  assumes "filter (\<lambda>r. code r \<noteq> 650) (th_in s) \<noteq> []" "room L cap s" "within cap s"
  obtains s' where "tsteps answer L cap s s'" "th_pc s' = th_pc s" "th_turn s' = th_turn s" "th_lines s' = th_lines s"
    "th_lock s' \<noteq> Some Handler" "th_lock s' \<noteq> Some Relaying"
    "filter (\<lambda>r. code r \<noteq> 650) (th_in s') \<noteq> []" "room L cap s'" "within cap s'"
proof -
  note result = that
  obtain u where u: "tsteps answer L cap s u" "th_todo u = []" "room L cap u" "within cap u" "same_readers s u"
    by (rule send_all [OF assms(2,3)])
  have relaying: thesis if v: "tsteps answer L cap s v" "th_lock v = Some Relaying" "th_pc v = th_pc s" "th_turn v = th_turn s"
      "th_lines v = th_lines s" "filter (\<lambda>r. code r \<noteq> 650) (th_in v) \<noteq> []" "room L cap v" "within cap v" for v
  proof -
    obtain w where w: "tsteps answer L cap v w" "th_todo w = []" "room L cap w" "within cap w" "same_readers v w"
      by (rule send_all [OF v(7,8)])
    have "tstep answer L cap w (w\<lparr>th_lock := None\<rparr>)"
      by (rule tstep.handler_done) (use v(2) w in \<open>simp_all add: same_readers_def\<close>)
    then have "tsteps answer L cap s (w\<lparr>th_lock := None\<rparr>)" using v(1) w(1) by (meson rtranclp.rtrancl_into_rtrancl rtranclp_trans)
    then show thesis
      by (rule result) (use v w in \<open>simp_all add: same_readers_def room_lock within_lock\<close>)
  qed
  obtain r rest where r: "th_in u = r # rest" using assms(1) u(5) by (cases "th_in u") (auto simp: same_readers_def)
  consider "th_lock u = Some Handler" "code r = 650" | "th_lock u = Some Handler" "code r \<noteq> 650" | "th_lock u = Some Relaying"
    | "th_lock u \<noteq> Some Handler" "th_lock u \<noteq> Some Relaying" by blast
  then show thesis
  proof cases
    case 1
    let ?v = "u\<lparr>th_in := rest, th_relayed := th_relayed u @ [r], th_todo := event_chans L r, th_lock := Some Relaying\<rparr>"
    have "tstep answer L cap u ?v" using 1(2) by (intro tstep.handler_relay [OF 1(1) u(2) r]) simp
    then have "tsteps answer L cap s ?v" by (rule rtranclp.rtrancl_into_rtrancl [OF u(1)])
    moreover have "room L cap ?v" using room_relay [OF u(2) r 1(2)] u(3) by (simp add: room_lock)
    moreover have "th_in s = r # rest" using u(5) r by (simp add: same_readers_def)
    then have "filter (\<lambda>r. code r \<noteq> 650) rest \<noteq> []" using assms(1) 1(2) by simp
    moreover have "within cap ?v" using u(4) by (simp add: within_def)
    ultimately show ?thesis using u(5) by (intro relaying [of ?v]) (simp_all add: same_readers_def)
  next
    case 2
    have "tstep answer L cap u (u\<lparr>th_lock := None\<rparr>)" using 2(2) by (intro tstep.handler_leave [OF 2(1) r]) simp
    then have "tsteps answer L cap s (u\<lparr>th_lock := None\<rparr>)" by (rule rtranclp.rtrancl_into_rtrancl [OF u(1)])
    then show ?thesis by (rule result) (use u assms in \<open>simp_all add: same_readers_def room_lock within_lock\<close>)
  next
    case 3
    then show ?thesis using u assms by (intro relaying [of u]) (simp_all add: same_readers_def)
  next
    case 4
    then show ?thesis using u assms by (intro result [of u]) (simp_all add: same_readers_def)
  qed
qed

lemma request_progress:
  assumes inv: "threads_inv answer s" and old: "th_turn s < length (th_lines s)" and free: "\<not> out_of_turn s"
    and ans: "\<forall>i. is_answer (answer i)" and room: "room L cap s" "within cap s"
  shows "\<exists>s'. tsteps answer L cap s s' \<and> th_turn s < th_turn s'"
proof -
  obtain u where u: "tsteps answer L cap s u" "th_pc u = th_pc s" "th_lock u = th_lock s" "th_turn u = th_turn s"
    "th_lines u = th_lines s" "filter (\<lambda>r. code r \<noteq> 650) (th_in u) \<noteq> []" "room L cap u" "within cap u"
    using tor_has_answered [OF inv old ans] room by metis
  obtain v where v: "tsteps answer L cap u v" "th_pc v = th_pc u" "th_turn v = th_turn u" "th_lines v = th_lines u"
    "th_lock v \<noteq> Some Handler" "th_lock v \<noteq> Some Relaying"
    "filter (\<lambda>r. code r \<noteq> 650) (th_in v) \<noteq> []" "room L cap v" "within cap v"
    using handler_lets_go [OF u(6-8)] by metis
  have sv: "tsteps answer L cap s v" using u(1) v(1) by (rule rtranclp_trans)
  have "threads_inv answer v" by (rule tsteps_inv [OF sv inv ans])
  moreover have "\<not> out_of_turn v" using free u v by (simp add: out_of_turn_def)
  moreover have "th_turn v < length (th_lines v)" using old u v by simp
  ultimately obtain x where x: "tsteps answer L cap v x" "th_pc x (th_lines v ! th_turn v) = Reading (th_turn v)"
    "th_in x = th_in v" "room L cap x = room L cap v" "within cap x = within cap v"
    using oldest_reads [of answer v L cap] v(5,6) by blast
  obtain y where "tsteps answer L cap x y" "th_turn y = Suc (th_turn v)"
    using reading_finishes [OF x(2), of L cap answer] x(3-5) v(7-9) by auto
  then show ?thesis using sv x(1) u(4) v(3) by (intro exI [of _ y]) (auto intro: rtranclp_trans)
qed

text \<open>A request that took the lock before its turn keeps it, and no turn ends any more.\<close>

lemma out_of_turn_step:
  assumes "tstep answer L cap s s'" "threads_inv answer s" "th_pc s i = Locked k" "k \<noteq> th_turn s"
  shows "th_pc s' i = Locked k \<and> th_turn s' = th_turn s"
proof -
  have l: "th_lock s = Some (Requester i)" using assms(2,3) by (metis holds_simps(3) threads_inv_def)
  have h: "holds (th_pc s j) \<Longrightarrow> j = i" for j using assms(2) l by (auto simp: threads_inv_def)
  from assms(1) show ?thesis
  proof cases
    case (start_response j n) then show ?thesis using h [of j] assms(3,4) by auto
  next
    case (relay j n r rest) then show ?thesis using h [of j] assms(3) by auto
  next
    case (respond j n r rest) then show ?thesis using h [of j] assms(3) by auto
  qed (use l assms(3) in auto)
qed

lemma out_of_turn_stuck:
  assumes "tsteps answer L cap s s'" "threads_inv answer s" "\<forall>i. is_answer (answer i)" "th_pc s i = Locked k" "k \<noteq> th_turn s"
  shows "th_pc s' i = Locked k \<and> th_turn s' = th_turn s"
  using assms(1)
proof (induction rule: rtranclp_induct)
  case (step y z)
  then show ?case using out_of_turn_step [OF step(2) tsteps_inv [OF step(1) assms(2,3)]] assms(5) by auto
qed (use assms in auto)

text \<open>While a channel that nobody takes from has no room, no request gets its answer.\<close>

lemma takeWhile_append_le: "count_list (concat (map f (takeWhile P xs))) c \<le> count_list (concat (map f (takeWhile P (xs @ ys)))) c"
proof (cases "\<forall>x\<in>set xs. P x")
  case True
  then have "takeWhile P (xs @ ys) = xs @ takeWhile P ys" by (metis takeWhile_append2)
  moreover have "takeWhile P xs = xs" using True by (simp add: takeWhile_eq_all_conv)
  ultimately show ?thesis by (simp only: map_append concat_append count_list_append)
next
  case False
  then obtain x where "x \<in> set xs" "\<not> P x" by blast
  then show ?thesis by simp
qed

lemma no_room_step:
  assumes "tstep answer L cap s s'" "within cap s" "\<not> room L cap s"
  shows "th_turn s' = th_turn s \<and> \<not> room L cap s'"
proof -
  obtain ch where ch: "ch \<notin> th_served s" "cap ch < th_buf s ch + count_list (before_answer L s) ch"
    using assms(3) by (auto simp: room_def not_le)
  note app = takeWhile_append_le [of "event_chans L" "\<lambda>r. code r = 650" "th_in s" ch]
  have w: "th_buf s ch \<le> cap ch" using assms(2) by (simp add: within_def)
  have "th_turn s' = th_turn s \<and> ch \<notin> th_served s' \<and> cap ch < th_buf s' ch + count_list (before_answer L s') ch"
    using assms(1)
  proof cases
    case (respond i k r rest)
    then show ?thesis using ch w by (simp add: before_answer_def)
  next
    case tor_answers
    then show ?thesis using ch app [of "[answer (th_lines s ! th_answered s)]"] by (simp add: before_answer_def)
  next
    case (tor_event r)
    then show ?thesis using ch app [of "[r]"] by (simp add: before_answer_def)
  next
    case (hand_over c chs)
    then have "ch \<noteq> c" using ch(1) by auto
    then show ?thesis using hand_over ch by (simp add: before_answer_def)
  qed (use ch in \<open>auto simp: before_answer_def\<close>)
  then show ?thesis by (force simp: room_def)
qed

lemma no_room_stuck:
  assumes "tsteps answer L cap s s'" "within cap s" "\<not> room L cap s"
  shows "th_turn s' = th_turn s \<and> \<not> room L cap s'"
  using assms(1)
proof (induction rule: rtranclp_induct)
  case (step y z)
  then show ?case using no_room_step [OF step(2) tsteps_within [OF step(1) assms(2)]] by simp
qed (use assms in simp)

section \<open>Two requests that block each other\<close>

text \<open>
  The lock is taken before the turn is waited for: the second of two requests can take the lock
  first, and then waits for the turn of the first, which waits for the lock.
\<close>

definition two_blocked :: threads where
  "two_blocked = (no_threads {})\<lparr>th_pc := (\<lambda>_. Idle)(0 := Wrote 0, 1 := Locked 1), th_lines := [0, 1], th_lock := Some (Requester 1)\<rparr>"

lemma two_blocked_reachable: "tsteps answer L cap (no_threads {}) two_blocked"
proof -
  let ?a = "(no_threads {})\<lparr>th_pc := (\<lambda>_. Idle)(0 := Wrote 0), th_lines := [0]\<rparr>"
  let ?b = "(no_threads {})\<lparr>th_pc := (\<lambda>_. Idle)(0 := Wrote 0, 1 := Wrote 1), th_lines := [0, 1]\<rparr>"
  have "tstep answer L cap (no_threads {}) ?a" using tstep.cmd [of "no_threads {}" 0 answer L cap] by (simp add: no_threads_def)
  moreover have "tstep answer L cap ?a ?b" using tstep.cmd [of ?a 1 answer L cap] by (simp add: no_threads_def)
  moreover have "tstep answer L cap ?b two_blocked"
    using tstep.lock [of ?b 1 1 answer L cap] by (simp add: no_threads_def two_blocked_def)
  ultimately show ?thesis by (meson r_into_rtranclp rtranclp.rtrancl_into_rtrancl)
qed

lemma two_requests_deadlock:
  assumes "\<forall>i. is_answer (answer i)" "tsteps answer L cap two_blocked s"
  shows "th_pc s 1 = Locked 1 \<and> th_turn s = 0"
proof -
  have "threads_inv answer two_blocked" by (rule tsteps_inv [OF two_blocked_reachable threads_inv_start assms(1)])
  then have "th_pc s 1 = Locked 1 \<and> th_turn s = th_turn two_blocked"
    by (rule out_of_turn_stuck [OF assms(2) _ assms(1)]) (simp_all add: two_blocked_def no_threads_def)
  then show ?thesis by (simp add: two_blocked_def no_threads_def)
qed

end
