(* ===== verification/Thread_Props.thy ===== *)
theory Thread_Props
  imports Conn_Threads
begin

text \<open>The claims on requests of several goroutines.\<close>

text \<open>C2: whatever the interleaving of requests, of a goroutine that handles events, of the listeners that take them and of Tor's
  events and answers, a request
  that returns has the answer to its own line and the error of that answer, which is what SendRequest returns when it
  runs alone.\<close>
theorem request_pairing:
  assumes "tsteps answer L cap (no_threads served) s" "\<forall>i. is_answer (answer i)" "th_pc s i = Finished res"
  shows "res = (Some (view_reply (answer i)), answer_error (answer i))
    \<and> (dialogue c evs (answer i) rest \<longrightarrow> fst (SendRequest fmt args c) = res)"
proof -
  have "threads_inv answer s" by (rule tsteps_inv [OF assms(1) threads_inv_start assms(2)])
  then have "pc_ok answer (th_lines s) (th_turn s) i (Finished res)" using assms(3) by (metis threads_inv_def)
  then have "res = (Some (view_reply (answer i)), answer_error (answer i))"
    using resp_error_view [OF assms(2) [rule_format]] by simp
  then show ?thesis by (simp add: SendRequest_dialogue)
qed

definition example_answer :: "nat \<Rightarrow> reply" where
  "example_answer i = \<lparr>code = 250, parts = [], final = (if i = 0 then ''OK'' else ''closing connection'')\<rparr>"

lemma example_answers: "\<forall>i. is_answer (example_answer i)"
  by (simp add: example_answer_def is_answer_def reply_ok_def plain_line_def)

text \<open>The second of two requests returns after the first.\<close>

lemma two_requests_run:
  "\<exists>s. tsteps example_answer [] (\<lambda>_. 0) (no_threads {}) s \<and> (\<exists>res. th_pc s 7 = Finished res)"
proof -
  let ?pc = "\<lambda>p q. (\<lambda>_. Idle)(3 := p, 7 := q)"
  let ?r = "\<lambda>i. Finished (Some (view_reply (example_answer i)), resp_error (view_reply (example_answer i)))"
  let ?a = "example_answer" and ?c = "\<lambda>_. 0"
  let ?n = "\<lparr>th_pc = ?pc (Wrote 0) Idle, th_lines = [3], th_turn = 0, th_lock = None, th_in = [], th_answered = 0, th_relayed = [],
      th_todo = [], th_buf = \<lambda>_. 0, th_served = {}\<rparr>"
  define mk where "mk = (\<lambda>p q turn l inp n. \<lparr>th_pc = ?pc p q, th_lines = [3, 7], th_turn = turn, th_lock = l, th_in = inp,
      th_answered = n, th_relayed = [], th_todo = [], th_buf = \<lambda>_. 0, th_served = {}\<rparr>)"
  have s1: "tstep ?a [] ?c (no_threads {}) ?n"
    using tstep.cmd [of "no_threads {}" 3 ?a "[]" ?c] by (simp add: no_threads_def fun_upd_idem)
  have s2: "tstep ?a [] ?c ?n (mk (Wrote 0) (Wrote 1) 0 None [] 0)"
    using tstep.cmd [of ?n 7 ?a "[]" ?c] by (simp add: mk_def)
  have s3: "tstep ?a [] ?c (mk (Wrote 0) (Wrote 1) 0 None [] 0) (mk (Wrote 0) (Wrote 1) 0 None [?a 3] 1)"
    using tstep.tor_answers [of "mk (Wrote 0) (Wrote 1) 0 None [] 0" ?a "[]" ?c] by (simp add: mk_def)
  have s4: "tstep ?a [] ?c (mk (Wrote 0) (Wrote 1) 0 None [?a 3] 1) (mk (Wrote 0) (Wrote 1) 0 None [?a 3, ?a 7] 2)"
    using tstep.tor_answers [of "mk (Wrote 0) (Wrote 1) 0 None [?a 3] 1" ?a "[]" ?c] by (simp add: mk_def numeral_2_eq_2)
  have s5: "tstep ?a [] ?c (mk (Wrote 0) (Wrote 1) 0 None [?a 3, ?a 7] 2) (mk (Locked 0) (Wrote 1) 0 (Some (Requester 3)) [?a 3, ?a 7] 2)"
    using tstep.lock [of "mk (Wrote 0) (Wrote 1) 0 None [?a 3, ?a 7] 2" 3 0 ?a "[]" ?c] by (simp add: mk_def fun_upd_twist)
  have s6: "tstep ?a [] ?c (mk (Locked 0) (Wrote 1) 0 (Some (Requester 3)) [?a 3, ?a 7] 2) (mk (Reading 0) (Wrote 1) 0 (Some (Requester 3)) [?a 3, ?a 7] 2)"
    using tstep.start_response [of "mk (Locked 0) (Wrote 1) 0 (Some (Requester 3)) [?a 3, ?a 7] 2" 3 0 ?a "[]" ?c] by (simp add: mk_def fun_upd_twist)
  have n: "code (?a i) \<noteq> 650" for i by (simp add: example_answer_def)
  have s7: "tstep ?a [] ?c (mk (Reading 0) (Wrote 1) 0 (Some (Requester 3)) [?a 3, ?a 7] 2) (mk (?r 3) (Wrote 1) 1 None [?a 7] 2)"
    using tstep.respond [of "mk (Reading 0) (Wrote 1) 0 (Some (Requester 3)) [?a 3, ?a 7] 2" 3 0 "?a 3" "[?a 7]" ?a "[]" ?c] n by (simp add: mk_def fun_upd_twist)
  have s8: "tstep ?a [] ?c (mk (?r 3) (Wrote 1) 1 None [?a 7] 2) (mk (?r 3) (Locked 1) 1 (Some (Requester 7)) [?a 7] 2)"
    using tstep.lock [of "mk (?r 3) (Wrote 1) 1 None [?a 7] 2" 7 1 ?a "[]" ?c] by (simp add: mk_def)
  have s9: "tstep ?a [] ?c (mk (?r 3) (Locked 1) 1 (Some (Requester 7)) [?a 7] 2) (mk (?r 3) (Reading 1) 1 (Some (Requester 7)) [?a 7] 2)"
    using tstep.start_response [of "mk (?r 3) (Locked 1) 1 (Some (Requester 7)) [?a 7] 2" 7 1 ?a "[]" ?c] by (simp add: mk_def)
  have s10: "tstep ?a [] ?c (mk (?r 3) (Reading 1) 1 (Some (Requester 7)) [?a 7] 2) (mk (?r 3) (?r 7) 2 None [] 2)"
    using tstep.respond [of "mk (?r 3) (Reading 1) 1 (Some (Requester 7)) [?a 7] 2" 7 1 "?a 7" "[]" ?a "[]" ?c] n by (simp add: mk_def numeral_2_eq_2)
  have "tsteps ?a [] ?c (no_threads {}) (mk (?r 3) (?r 7) 2 None [] 2)"
    using s1 s2 s3 s4 s5 s6 s7 s8 s9 s10 by (meson r_into_rtranclp rtranclp.rtrancl_into_rtrancl)
  then show ?thesis by (intro exI [of _ "mk (?r 3) (?r 7) 2 None [] 2"]) (auto simp: mk_def)
qed

theorem request_pairing_witness:
  "\<exists>s. tsteps example_answer [] (\<lambda>_. 0) (no_threads {}) s
     \<and> th_pc s 7 = Finished (Some (view_reply (example_answer 7)), answer_error (example_answer 7))"
proof -
  obtain s res where s: "tsteps example_answer [] (\<lambda>_. 0) (no_threads {}) s" "th_pc s 7 = Finished res" using two_requests_run by blast
  show ?thesis using request_pairing [OF s(1) example_answers s(2)] s by blast
qed

text \<open>C3: in every reachable state in which a request has no response yet, some run completes a request exactly if no request
  has taken the read lock before its turn, and each channel from which nobody takes events any more has room for what is
  still to be sent to it before the next answer: the rest of the event that is being sent and the events read before the
  answer. The listeners that still take are taken to go on in that run. Otherwise no request is ever completed, whatever
  Tor sends: a later request holds the lock, or a send that nobody receives is waited for with the lock held.\<close>
theorem request_progress_iff:
  assumes "tsteps answer L cap (no_threads served) s" "\<forall>i. is_answer (answer i)" "th_turn s < length (th_lines s)"
  shows "(\<exists>s'. tsteps answer L cap s s' \<and> th_turn s < th_turn s') \<longleftrightarrow>
    \<not> (\<exists>i k. th_pc s i = Locked k \<and> k \<noteq> th_turn s)
    \<and> (\<forall>ch. ch \<notin> th_served s \<longrightarrow>
         th_buf s ch + count_list (th_todo s @ concat (map (event_chans L) (takeWhile (\<lambda>r. code r = 650) (th_in s)))) ch \<le> cap ch)"
proof -
  have inv: "threads_inv answer s" by (rule tsteps_inv [OF assms(1) threads_inv_start assms(2)])
  have w: "within cap s" by (rule tsteps_within [OF assms(1) within_start])
  show ?thesis unfolding out_of_turn_def [symmetric] before_answer_def [symmetric] room_def [symmetric]
  proof (intro iffI conjI notI)
    assume "\<exists>s'. tsteps answer L cap s s' \<and> th_turn s < th_turn s'" "out_of_turn s"
    then obtain s' i k where "tsteps answer L cap s s'" "th_turn s < th_turn s'" "th_pc s i = Locked k" "k \<noteq> th_turn s"
      unfolding out_of_turn_def by blast
    then show False using out_of_turn_stuck [OF _ inv assms(2)] by (metis less_irrefl)
  next
    assume "\<exists>s'. tsteps answer L cap s s' \<and> th_turn s < th_turn s'"
    then show "room L cap s" using no_room_stuck [OF _ w] by (metis less_irrefl)
  qed (use request_progress [OF inv assms(3) _ assms(2) _ w] in blast)
qed

text \<open>
  Two requests block each other; and one is blocked by an event that nobody takes from an
  unbuffered channel, but not if somebody does.
\<close>

definition one_event :: "chan set \<Rightarrow> threads" where
  "one_event served = (no_threads served)\<lparr>th_pc := (\<lambda>_. Idle)(0 := Wrote 0), th_lines := [0], th_in := [bw_reply]\<rparr>"

lemma one_event_reachable: "tsteps answer L cap (no_threads served) (one_event served)"
proof -
  let ?a = "(no_threads served)\<lparr>th_pc := (\<lambda>_. Idle)(0 := Wrote 0), th_lines := [0]\<rparr>"
  have "tstep answer L cap (no_threads served) ?a" using tstep.cmd [of "no_threads served" 0 answer L cap] by (simp add: no_threads_def)
  moreover have "tstep answer L cap ?a (one_event served)"
    using tstep.tor_event [of bw_reply answer L cap ?a] example_replies by (simp add: no_threads_def one_event_def)
  ultimately show ?thesis by (meson r_into_rtranclp rtranclp.rtrancl_into_rtrancl)
qed

lemma one_event_chans: "event_chans [(''BW'', [5])] bw_reply = [5]"
  by code_simp

theorem request_progress_iff_witness:
  "(tsteps example_answer [] (\<lambda>_. 0) (no_threads {}) two_blocked
     \<and> \<not> (\<exists>s'. tsteps example_answer [] (\<lambda>_. 0) two_blocked s' \<and> th_turn two_blocked < th_turn s'))
   \<and> \<not> (\<exists>s'. tsteps example_answer [(''BW'', [5])] (\<lambda>_. 0) (one_event {}) s' \<and> th_turn (one_event {}) < th_turn s')
   \<and> (\<exists>s'. tsteps example_answer [(''BW'', [5])] (\<lambda>_. 0) (one_event {5}) s' \<and> th_turn (one_event {5}) < th_turn s')"
proof (intro conjI)
  have t: "th_pc two_blocked 1 = Locked 1" "th_turn two_blocked = 0" "th_turn two_blocked < length (th_lines two_blocked)"
    by (simp_all add: two_blocked_def no_threads_def)
  then show "\<not> (\<exists>s'. tsteps example_answer [] (\<lambda>_. 0) two_blocked s' \<and> th_turn two_blocked < th_turn s')"
    using request_progress_iff [OF two_blocked_reachable example_answers] by (metis one_neq_zero)
  have bw: "code bw_reply = 650" by (simp add: bw_reply_def)
  have e: "th_turn (one_event served) < length (th_lines (one_event served))" for served by (simp add: one_event_def no_threads_def)
  note iff = request_progress_iff [OF one_event_reachable example_answers e]
  show "\<not> (\<exists>s'. tsteps example_answer [(''BW'', [5])] (\<lambda>_. 0) (one_event {}) s' \<and> th_turn (one_event {}) < th_turn s')"
    unfolding iff by (auto simp: one_event_def no_threads_def bw one_event_chans intro!: exI [of _ 5])
  show "\<exists>s'. tsteps example_answer [(''BW'', [5])] (\<lambda>_. 0) (one_event {5}) s' \<and> th_turn (one_event {5}) < th_turn s'"
    unfolding iff by (auto simp: one_event_def no_threads_def bw one_event_chans split: if_splits)
qed (rule two_blocked_reachable)

end
