(* ===== verification/Process.thy ===== *)
theory Process
  imports Torutil_String Go_Strconv
begin

text \<open>
  \<open>process/process.go\<close>: the commands that start Tor and the file in which Tor writes the port it
  picked. What the operating system does with a command is an argument of its users.
\<close>

section \<open>Creators\<close>

text \<open>
  A command of \<open>os/exec\<close>: the path as given (it is looked up when the command is made), the
  arguments with the path first, and the descriptors it writes to.
\<close>

record cmd =
  cmd_Path :: string
  cmd_Args :: "string list"
  cmd_Stdout :: nat
  cmd_Stderr :: nat

datatype process_handle = exeProcess cmd | OtherProcess nat

datatype creator =
    CmdCreatorFunc "string list \<Rightarrow> cmd \<times> error option"
  | OtherCreator "string list \<Rightarrow> process_handle \<times> error option"

fun creator_New :: "creator \<Rightarrow> string list \<Rightarrow> process_handle \<times> error option" where
  "creator_New (CmdCreatorFunc c) args = (let (cmd, err) = c args in (exeProcess cmd, err))"
| "creator_New (OtherCreator c) args = c args"

definition NewCreator :: "string \<Rightarrow> creator" where
  "NewCreator exePath = CmdCreatorFunc (\<lambda>args.
     let cmd = \<lparr>cmd_Path = exePath, cmd_Args = exePath # args, cmd_Stdout = 0, cmd_Stderr = 0\<rparr>;
         cmd = cmd\<lparr>cmd_Stdout := 1\<rparr>;
         cmd = cmd\<lparr>cmd_Stderr := 2\<rparr>
     in (cmd, None))"

definition ErrControlConnUnsupported :: error where
  "ErrControlConnUnsupported = Errorf ''Control conn not supported'' []"

fun EmbeddedControlConn :: "(nat \<Rightarrow> 'c result) \<Rightarrow> process_handle \<Rightarrow> 'c result" where
  "EmbeddedControlConn other (exeProcess e) = Inl ErrControlConnUnsupported"
| "EmbeddedControlConn other (OtherProcess n) = other n"

section \<open>The control port file\<close>

definition ControlPortFromFileContents :: "string \<Rightarrow> int \<times> error option" where
  "ControlPortFromFileContents contents0 =
     (let contents = trim_space contents0;
          (_, port, ok) = PartitionString contents (CHR '':'')
      in if \<not> ok \<or> \<not> has_prefix contents ''PORT='' then (0, Some (Errorf (''Invalid port format: '' @ contents) []))
         else Atoi port)"

text \<open>The line Tor writes, with the address it listens on.\<close>

definition control_port_line :: "string \<Rightarrow> int \<Rightarrow> string" where
  "control_port_line addr port = ''PORT='' @ addr @ '':'' @ itoa port @ [CHR 10]"

end
