(* ===== verification/Tor.thy ===== *)
theory Tor
  imports Process Auth Event_Wait
begin

text \<open>
  \<open>tor/tor.go\<close> and \<open>tor/log.go\<close>: starting Tor, connecting to it, enabling its network and closing
  it. What the system answers to each call is a record of functions; what the program does to
  the system is recorded as effects in the state, in their order.
\<close>

section \<open>The system\<close>

text \<open>
  A call returns, panics, or does not return on the schedule given to it.
\<close>

datatype 'a run = Returned 'a | Panicked string | Stuck

fun bind_run :: "'a run \<Rightarrow> ('a \<Rightarrow> 'b run) \<Rightarrow> 'b run" where
  "bind_run (Returned x) f = f x"
| "bind_run (Panicked p) f = Panicked p"
| "bind_run Stuck f = Stuck"

text \<open>What a reader gives: its bytes, then an error or the end, and the error of closing it.\<close>

record reader =
  rd_data :: bytes
  rd_err :: "error option"
  rd_close_err :: "error option"

text \<open>
  The answers of the system. A created file comes with the errors that writing and closing it
  give, a temporary file with its name and the error of closing it. The control port file and
  the context are asked at each attempt. A text connection is what \<open>NewConn\<close> takes. \<open>sys_Wait\<close> says how a process exits within 300
  milliseconds, if it does.
\<close>

record text_conn =
  tc_in :: string
  tc_fault :: "(nat \<times> error) option"
  tc_close_err :: "error option"
  tc_iter :: "string list \<Rightarrow> string list"

record system =
  sys_Abs :: "string \<Rightarrow> string result"
  sys_Join :: "string \<Rightarrow> string \<Rightarrow> string"
  sys_TempDir :: "string \<Rightarrow> string \<Rightarrow> string result"
  sys_MkdirAll :: "string \<Rightarrow> error option"
  sys_Create :: "string \<Rightarrow> (error option \<times> error option) result"
  sys_TempFile :: "string \<Rightarrow> string \<Rightarrow> (string \<times> error option) result"
  sys_ReadPort :: "nat \<Rightarrow> string \<Rightarrow> string result"
  sys_CtxErr :: "nat \<Rightarrow> error option"
  sys_Embedded :: "nat \<Rightarrow> text_conn result"
  sys_Start :: "process_handle \<Rightarrow> error option"
  sys_Dial :: "string \<Rightarrow> text_conn result"
  sys_Wait :: "process_handle \<Rightarrow> error option option"
  sys_RemoveAll :: "string \<Rightarrow> error option"
  sys_ReadCookie :: "string \<Rightarrow> bytes result"
  sys_Rand :: "bytes result"

datatype effect =
    MadeTempDir string | MadeDir string | CopiedFile string | MadeTempFile string
  | Started process_handle | Slept | Connected
  | ClosedControl conn | Cancelled | Waited process_handle | RemovedAll string
  | ClosedListener nat

section \<open>State and configuration\<close>

text \<open>
  The fields of \<open>Tor\<close>. The debug writer is nil or holds its lines, each with the errors it
  prints; of the cancel function it is known whether it is nil. \<open>t_log\<close> holds the effects.
\<close>

record tor =
  t_Process :: "process_handle option"
  t_Control :: "conn option"
  t_ProcessCancelFunc :: bool
  t_ControlPort :: int
  t_DataDir :: string
  t_DeleteDataDirOnClose :: bool
  t_DebugWriter :: "(string \<times> error list) list option"
  t_StopProcessOnClose :: bool
  t_GeoIPCreatedFile :: string
  t_GeoIPv6CreatedFile :: string
  t_log :: "effect list"

record StartConf =
  ExePath :: string
  ProcessCreator :: "creator option"
  UseEmbeddedControlConn :: bool
  sc_ControlPort :: int
  sc_DataDir :: string
  TempDataDirBase :: string
  RetainTempDataDir :: bool
  DisableCookieAuth :: bool
  DisableEagerAuth :: bool
  sc_EnableNetwork :: bool
  ExtraArgs :: "string list"
  TorrcFile :: string
  sc_DebugWriter :: "(string \<times> error list) list option"
  NoHush :: bool
  NoAutoSocksPort :: bool
  GeoIPFileReader :: "(bool \<Rightarrow> reader option result) option"

definition default_StartConf :: StartConf where
  "default_StartConf = \<lparr>ExePath = [], ProcessCreator = None, UseEmbeddedControlConn = False,
     sc_ControlPort = 0, sc_DataDir = [], TempDataDirBase = [], RetainTempDataDir = False,
     DisableCookieAuth = False, DisableEagerAuth = False, sc_EnableNetwork = False, ExtraArgs = [],
     TorrcFile = [], sc_DebugWriter = None, NoHush = False, NoAutoSocksPort = False, GeoIPFileReader = None\<rparr>"

definition DebugEnabled :: "tor \<Rightarrow> bool" where
  "DebugEnabled t \<longleftrightarrow> t_DebugWriter t \<noteq> None"

definition Debugf :: "string \<Rightarrow> error list \<Rightarrow> tor \<Rightarrow> tor" where
  "Debugf line errs t =
     (case t_DebugWriter t of None \<Rightarrow> t | Some w \<Rightarrow> t\<lparr>t_DebugWriter := Some (w @ [(line, errs)])\<rparr>)"

definition effect :: "effect \<Rightarrow> tor \<Rightarrow> tor" where
  "effect e t = t\<lparr>t_log := t_log t @ [e]\<rparr>"

section \<open>Files\<close>

text \<open>\<open>io.Copy\<close>: a write error comes before an error of the reader, if there is anything to write.\<close>

definition copy_err :: "error option \<Rightarrow> reader \<Rightarrow> error option" where
  "copy_err write_err from = (if rd_data from \<noteq> [] \<and> write_err \<noteq> None then write_err else rd_err from)"

definition createFile :: "system \<Rightarrow> string \<Rightarrow> reader \<Rightarrow> error option" where
  "createFile sys to from =
     (let err = (case sys_Create sys to of
          Inl err \<Rightarrow> Some err
        | Inr (write_err, close_err) \<Rightarrow>
            let err = copy_err write_err from in if err = None then close_err else err)
      in if err = None then rd_close_err from else err)"

text \<open>One of the two files: the state with its name set, and the error.\<close>

definition copyGeoIPFile ::
    "system \<Rightarrow> string \<Rightarrow> (string \<Rightarrow> tor \<Rightarrow> tor) \<Rightarrow> reader option result \<Rightarrow> tor \<Rightarrow> error option \<times> tor" where
  "copyGeoIPFile sys name put_name r t =
     (case r of
        Inl err \<Rightarrow> (Some (Errorf (''Unable to read '' @ name @ '' file: '') [err]), t)
      | Inr None \<Rightarrow> (None, t)
      | Inr (Some r) \<Rightarrow>
          let to = sys_Join sys (t_DataDir t) name; t = effect (CopiedFile to) (put_name name t)
          in case createFile sys to r of
               Some err \<Rightarrow> (Some (Errorf (''Unable to create '' @ name @ '' file: '') [err]), t)
             | None \<Rightarrow> (None, t))"

definition copyGeoIPFiles :: "system \<Rightarrow> StartConf \<Rightarrow> tor \<Rightarrow> error option \<times> tor" where
  "copyGeoIPFiles sys conf t =
     (case GeoIPFileReader conf of
        None \<Rightarrow> (None, t)
      | Some read \<Rightarrow>
          (case copyGeoIPFile sys ''geoip'' (\<lambda>n t. t\<lparr>t_GeoIPCreatedFile := n\<rparr>) (read False) t of
             (Some err, t) \<Rightarrow> (Some err, t)
           | (None, t) \<Rightarrow>
               copyGeoIPFile sys ''geoip6'' (\<lambda>n t. t\<lparr>t_GeoIPv6CreatedFile := n\<rparr>) (read True) t))"

text \<open>A temporary file that is made and closed: its name.\<close>

definition closed_temp_file :: "system \<Rightarrow> string \<Rightarrow> tor \<Rightarrow> string result \<times> tor" where
  "closed_temp_file sys pattern t =
     (case sys_TempFile sys (t_DataDir t) pattern of
        Inl err \<Rightarrow> (Inl err, t)
      | Inr (name, close_err) \<Rightarrow>
          ((case close_err of None \<Rightarrow> Inr name | Some err \<Rightarrow> Inl err), effect (MadeTempFile name) t))"

section \<open>Starting the process\<close>

definition start_args :: "system \<Rightarrow> StartConf \<Rightarrow> tor \<Rightarrow> string list" where
  "start_args sys conf t =
     [''--DataDirectory'', t_DataDir t] @
     (if \<not> DisableCookieAuth conf then [''--CookieAuthentication'', ''1''] else []) @
     (if \<not> sc_EnableNetwork conf then [''--DisableNetwork'', ''1''] else []) @
     (if \<not> NoHush conf then [''--hush''] else []) @
     (if \<not> NoAutoSocksPort conf then [''--SocksPort'', ''auto''] else []) @
     (if t_GeoIPCreatedFile t \<noteq> [] then [''--GeoIPFile'', sys_Join sys (t_DataDir t) (t_GeoIPCreatedFile t)] else []) @
     (if t_GeoIPv6CreatedFile t \<noteq> [] then [''--GeoIPv6File'', sys_Join sys (t_DataDir t) (t_GeoIPv6CreatedFile t)] else [])"

definition torrc_file :: "system \<Rightarrow> StartConf \<Rightarrow> tor \<Rightarrow> string result \<times> tor" where
  "torrc_file sys conf t =
     (if TorrcFile conf = [] then closed_temp_file sys ''torrc-'' t else (Inr (TorrcFile conf), t))"

text \<open>The file Tor writes the port to, if there is one, and the arguments that say so.\<close>

definition control_args :: "system \<Rightarrow> StartConf \<Rightarrow> tor \<Rightarrow> (string \<times> string list) result \<times> tor" where
  "control_args sys conf t =
     (if UseEmbeddedControlConn conf then (Inr ([], []), t)
      else if sc_ControlPort conf = 0 then
        (case closed_temp_file sys ''control-port-'' t of
           (Inl err, t) \<Rightarrow> (Inl err, t)
         | (Inr name, t) \<Rightarrow> (Inr (name, [''--ControlPort'', ''auto'', ''--ControlPortWriteToFile'', name]), t))
      else (Inr ([], [''--ControlPort'', itoa (sc_ControlPort conf)]), t))"

text \<open>The loop that waits for the control port file, from its attempt \<open>i\<close> on.\<close>

function control_port_check :: "system \<Rightarrow> string \<Rightarrow> nat \<Rightarrow> error option \<Rightarrow> tor \<Rightarrow> error option \<times> tor" where
  "control_port_check sys file_name i err t =
     (if i < 10 then
        (case sys_CtxErr sys i of
           Some err \<Rightarrow> (Some err, t)
         | None \<Rightarrow>
             (case sys_ReadPort sys i file_name of
                Inl err \<Rightarrow> (Some err, t)
              | Inr byts \<Rightarrow>
                  let (port, err) = ControlPortFromFileContents byts; t = t\<lparr>t_ControlPort := port\<rparr>
                  in if err = None then (None, t)
                     else control_port_check sys file_name (i + 1) err (effect Slept t)))
      else (err, t))"
  by pat_completeness auto
termination by (relation "measure (\<lambda>(_, _, i, _, _). 10 - i)") auto

declare control_port_check.simps [simp del]

text \<open>The connection shares the writer; here each holds the lines written through it.\<close>

definition set_control :: "text_conn \<Rightarrow> tor \<Rightarrow> tor" where
  "set_control tc t =
     (let c = NewConn (tc_in tc) (tc_fault tc) (tc_close_err tc) (tc_iter tc)
      in t\<lparr>t_Control := Some (c\<lparr>DebugWriter := map_option (\<lambda>_. []) (t_DebugWriter t)\<rparr>)\<rparr>)"

definition embedded_conn :: "system \<Rightarrow> StartConf \<Rightarrow> process_handle \<Rightarrow> tor \<Rightarrow> error option \<times> tor" where
  "embedded_conn sys conf p t =
     (if UseEmbeddedControlConn conf then
        let t = Debugf ''Using embedded control connection'' [] t
        in case EmbeddedControlConn (sys_Embedded sys) p of
             Inl err \<Rightarrow> (Some (Errorf ''Unable to get embedded control conn: '' [err]), t)
           | Inr c \<Rightarrow> (None, set_control c t)
      else (None, t))"

definition await_control_port :: "system \<Rightarrow> StartConf \<Rightarrow> string \<Rightarrow> tor \<Rightarrow> error option \<times> tor" where
  "await_control_port sys conf file_name t =
     (if \<not> UseEmbeddedControlConn conf then
        let t = t\<lparr>t_ControlPort := sc_ControlPort conf\<rparr>
        in if t_ControlPort t = 0 then
             (case control_port_check sys file_name 0 None t of
                (Some err, t) \<Rightarrow> (Some (Errorf ''Unable to read control port file: '' [err]), t)
              | (None, t) \<Rightarrow> (None, t))
           else (None, t)
      else (None, t))"

definition show_strings :: "string list \<Rightarrow> string" where
  "show_strings ss = ''['' @ join ss '' '' @ '']''"

text \<open>What follows once the arguments are known.\<close>

definition start_with :: "system \<Rightarrow> StartConf \<Rightarrow> creator \<Rightarrow> string list \<Rightarrow> string \<Rightarrow> tor \<Rightarrow> error option \<times> tor" where
  "start_with sys conf creator args file_name t =
     (let t = t\<lparr>t_ProcessCancelFunc := True\<rparr>
      in case creator_New creator args of
           (p, Some err) \<Rightarrow> (Some err, t)
         | (p, None) \<Rightarrow>
             (case embedded_conn sys conf p t of
                (Some err, t) \<Rightarrow> (Some err, t)
              | (None, t) \<Rightarrow>
                  let t = Debugf (''Starting tor with args '' @ show_strings args) [] t
                  in case sys_Start sys p of
                       Some err \<Rightarrow> (Some err, t)
                     | None \<Rightarrow>
                         await_control_port sys conf file_name (effect (Started p) (t\<lparr>t_Process := Some p\<rparr>))))"

definition startProcess :: "system \<Rightarrow> StartConf \<Rightarrow> tor \<Rightarrow> error option \<times> tor" where
  "startProcess sys conf t =
     (let creator = (case ProcessCreator conf of
            Some creator \<Rightarrow> creator
          | None \<Rightarrow> NewCreator (if ExePath conf = [] then ''tor'' else ExePath conf));
          args = start_args sys conf t
      in case torrc_file sys conf t of
           (Inl err, t) \<Rightarrow> (Some err, t)
         | (Inr torrcFileName, t) \<Rightarrow>
             let args = args @ [''-f'', torrcFileName]
             in case control_args sys conf t of
                  (Inl err, t) \<Rightarrow> (Some err, t)
                | (Inr (controlPortFileName, more_args), t) \<Rightarrow>
                    start_with sys conf creator (args @ more_args @ ExtraArgs conf) controlPortFileName t)"

definition connectController :: "system \<Rightarrow> tor \<Rightarrow> error option \<times> tor" where
  "connectController sys t =
     (if t_Control t \<noteq> None then (None, t)
      else let t = Debugf (''Connecting to control port '' @ itoa (t_ControlPort t)) [] t
        in case sys_Dial sys (''127.0.0.1:'' @ itoa (t_ControlPort t)) of
             Inl err \<Rightarrow> (Some err, t)
           | Inr c \<Rightarrow> (None, effect Connected (set_control c t)))"

section \<open>Closing\<close>

text \<open>The controller is told to halt if it can be; then its connection is closed.\<close>

definition close_control :: "tor \<Rightarrow> error list \<times> bool \<times> tor" where
  "close_control t =
     (case t_Control t of
        None \<Rightarrow> ([], False, t)
      | Some c \<Rightarrow>
          let (errs, sentHalt, c) =
                (if Authenticated c \<and> t_StopProcessOnClose t then
                   (case Signal ''HALT'' c of
                      (Some err, c) \<Rightarrow> ([Errorf ''Unable to signal halt: '' [err]], False, c)
                    | (None, c) \<Rightarrow> ([], True, c))
                 else ([], False, c))
          in case Close c of
               (Some err, c) \<Rightarrow>
                 (errs @ [Errorf ''Unable to close contrlller: '' [err]], sentHalt, effect (ClosedControl c) (t\<lparr>t_Control := Some c\<rparr>))
             | (None, c) \<Rightarrow> (errs, sentHalt, effect (ClosedControl c) (t\<lparr>t_Control := None\<rparr>)))"

text \<open>The process is killed if it was not told to halt, and waited for.\<close>

definition stop_process :: "system \<Rightarrow> bool \<Rightarrow> tor \<Rightarrow> (error list \<times> tor) run" where
  "stop_process sys sentHalt t =
     (case t_Process t of
        None \<Rightarrow> Returned ([], t)
      | Some p \<Rightarrow>
          if \<not> sentHalt \<and> t_StopProcessOnClose t \<and> \<not> t_ProcessCancelFunc t
          then Panicked ''invalid memory address or nil pointer dereference''
          else let t = (if \<not> sentHalt \<and> t_StopProcessOnClose t then effect Cancelled t else t);
                   t = effect (Waited p) t
            in Returned (case sys_Wait sys p of
                 Some (Some waitErr) \<Rightarrow> ([Errorf ''Process wait failed: '' [waitErr]], t)
               | Some None \<Rightarrow> ([], t\<lparr>t_Process := None\<rparr>)
               | None \<Rightarrow> ([Errorf ''Process did not exit after 300 ms'' []], t\<lparr>t_Process := None\<rparr>)))"

definition remove_data_dir :: "system \<Rightarrow> tor \<Rightarrow> error list \<times> tor" where
  "remove_data_dir sys t =
     (if t_DeleteDataDirOnClose t then
        ((case sys_RemoveAll sys (t_DataDir t) of
            Some err \<Rightarrow> [Errorf (''Failed to remove data dir '' @ t_DataDir t @ '': '') [err]]
          | None \<Rightarrow> []), effect (RemovedAll (t_DataDir t)) t)
      else ([], t))"

definition combine_errors :: "error list \<Rightarrow> tor \<Rightarrow> error option \<times> tor" where
  "combine_errors errs t =
     (if length errs = 0 then (None, t)
      else if length errs = 1 then (Some (errs ! 0), Debugf ''Error while closing Tor: '' [errs ! 0] t)
      else (Some (Errorf (''Got '' @ itoa (int (length errs)) @ '' errors while closing - '') errs),
            Debugf ''Errors while closing Tor: '' errs t))"

definition tor_Close :: "system \<Rightarrow> tor \<Rightarrow> (error option \<times> tor) run" where
  "tor_Close sys t =
     (let t = Debugf ''Closing Tor'' [] t; (errs, sentHalt, t) = close_control t
      in bind_run (stop_process sys sentHalt t) (\<lambda>(errs', t).
           let (errs'', t) = remove_data_dir sys t
           in Returned (combine_errors (errs @ errs' @ errs'') t)))"

section \<open>Starting\<close>

text \<open>The data directory: given, or made in the base directory and to be deleted.\<close>

definition make_data_dir :: "system \<Rightarrow> StartConf \<Rightarrow> tor \<Rightarrow> tor result" where
  "make_data_dir sys conf t =
     (if t_DataDir t = [] then
        (case sys_Abs sys (if TempDataDirBase conf = [] then ''.'' else TempDataDirBase conf) of
           Inl err \<Rightarrow> Inl err
         | Inr tempBase \<Rightarrow>
             (case sys_TempDir sys tempBase ''data-dir-'' of
                Inl err \<Rightarrow> Inl (Errorf ''Unable to create temp data dir: '' [err])
              | Inr dir \<Rightarrow>
                  let t = effect (MadeTempDir dir) (t\<lparr>t_DataDir := dir\<rparr>);
                      t = Debugf (''Created temp data directory at: '' @ dir) [] t
                  in Inr (t\<lparr>t_DeleteDataDirOnClose := \<not> RetainTempDataDir conf\<rparr>)))
      else (case sys_MkdirAll sys (t_DataDir t) of
          Some err \<Rightarrow> Inl (Errorf ''Unable to create data dir: '' [err])
        | None \<Rightarrow> Inr (effect (MadeDir (t_DataDir t)) t)))"

text \<open>A step that runs if there is no error yet.\<close>

definition if_no_error :: "(tor \<Rightarrow> error option \<times> tor) \<Rightarrow> error option \<times> tor \<Rightarrow> error option \<times> tor" where
  "if_no_error step = (\<lambda>(err, t). if err = None then step t else (err, t))"

text \<open>A method called on a nil controller panics.\<close>

definition eager_auth :: "system \<Rightarrow> StartConf \<Rightarrow> tor \<Rightarrow> (error option \<times> tor) run" where
  "eager_auth sys conf t =
     (if DisableEagerAuth conf then Returned (None, t)
      else case t_Control t of
          None \<Rightarrow> Panicked ''invalid memory address or nil pointer dereference''
        | Some c \<Rightarrow>
            (case Authenticate (sys_ReadCookie sys) (sys_Rand sys) [] c of
               (err, c) \<Rightarrow> Returned (err, t\<lparr>t_Control := Some c\<rparr>)))"

definition new_Tor :: "StartConf \<Rightarrow> tor" where
  "new_Tor conf = \<lparr>t_Process = None, t_Control = None, t_ProcessCancelFunc = False, t_ControlPort = 0,
     t_DataDir = sc_DataDir conf, t_DeleteDataDirOnClose = False, t_DebugWriter = sc_DebugWriter conf,
     t_StopProcessOnClose = True, t_GeoIPCreatedFile = [], t_GeoIPv6CreatedFile = [], t_log = []\<rparr>"

definition Start :: "system \<Rightarrow> StartConf option \<Rightarrow> (tor option \<times> error option) run" where
  "Start sys conf =
     (let conf = (case conf of None \<Rightarrow> default_StartConf | Some c \<Rightarrow> c)
      in case make_data_dir sys conf (new_Tor conf) of
           Inl err \<Rightarrow> Returned (None, Some err)
         | Inr t \<Rightarrow>
             bind_run
               (case if_no_error (connectController sys)
                    (if_no_error (startProcess sys conf) (copyGeoIPFiles sys conf t)) of
                  (None, t) \<Rightarrow> eager_auth sys conf t
                | (Some err, t) \<Rightarrow> Returned (Some err, t))
               (\<lambda>(err, t).
                  case err of
                    None \<Rightarrow> Returned (Some t, None)
                  | Some err \<Rightarrow>
                      bind_run (tor_Close sys t) (\<lambda>(closeErr, t).
                        Returned (Some t, Some (case closeErr of
                          None \<Rightarrow> err
                        | Some closeErr \<Rightarrow>
                            Errorf ''Error on start:  (also got error trying to close: )'' [err, closeErr])))))"

end
