(* ===== verification/Tor_Network.thy ===== *)
theory Tor_Network
  imports Tor Command_Props
begin

text \<open>
  \<open>EnableNetwork\<close> of \<open>tor/tor.go\<close> and \<open>tor/dialer.go\<close>: connecting Tor to its network and waiting
  until it has bootstrapped, and dialling through its proxy.
\<close>

section \<open>Commands on Tor's connection\<close>

text \<open>A method called on the connection of a Tor, which panics if there is none.\<close>

definition nil_deref :: string where
  "nil_deref = ''invalid memory address or nil pointer dereference''"

definition with_control :: "tor \<Rightarrow> (conn \<Rightarrow> 'a \<times> conn) \<Rightarrow> ('a \<times> tor) run" where
  "with_control t f =
     (case t_Control t of
        None \<Rightarrow> Panicked nil_deref
      | Some c \<Rightarrow> (case f c of (x, c) \<Rightarrow> Returned (x, t\<lparr>t_Control := Some c\<rparr>)))"

definition tor_EventWait :: "wait_step list \<Rightarrow> EventCode list \<Rightarrow> 's predicate \<Rightarrow> 's \<Rightarrow> tor \<Rightarrow> (event result \<times> tor) run" where
  "tor_EventWait steps events predicate s t =
     (case t_Control t of
        None \<Rightarrow> Panicked nil_deref
      | Some c \<Rightarrow>
          (case EventWait steps events predicate s c of
             None \<Rightarrow> Stuck
           | Some ((res, _), c) \<Rightarrow> Returned (res, t\<lparr>t_Control := Some c\<rparr>)))"

section \<open>Enabling the network\<close>

definition map_get :: "(string \<rightharpoonup> string) \<Rightarrow> string \<Rightarrow> string" where
  "map_get m k = (case m k of None \<Rightarrow> [] | Some v \<Rightarrow> v)"

definition bootstrap_predicate :: "unit predicate" where
  "bootstrap_predicate s evt =
     ((case evt of
         StatusE status \<Rightarrow>
           if status_Action status = ''BOOTSTRAP'' then
             if status_Severity status = ''NOTICE'' \<and> map_get (status_Arguments status) ''PROGRESS'' = ''100'' then Inr True
             else if status_Severity status = ''ERR''
             then Inl (Errorf (''Failing bootstrapping, Tor warning: '' @ map_get (status_Arguments status) ''WARNING'') [])
             else Inr False
           else Inr False
       | _ \<Rightarrow> Inr False), s)"

definition EventCodeStatusClient :: EventCode where "EventCodeStatusClient = ''STATUS_CLIENT''"

text \<open>The arguments of \<open>KeyVals\<close> are a pair, so it does not panic.\<close>

definition EnableNetwork :: "wait_step list \<Rightarrow> bool \<Rightarrow> tor \<Rightarrow> (error option \<times> tor) run" where
  "EnableNetwork steps wait t =
     bind_run (with_control t (GetConf [''DisableNetwork''])) (\<lambda>(vals, t).
       case vals of
         Inl err \<Rightarrow> Returned (Some err, t)
       | Inr vals \<Rightarrow>
           if length vals = 0 \<or> Key (vals ! 0) \<noteq> ''DisableNetwork'' \<or> Val (vals ! 0) \<noteq> ''1'' then Returned (None, t)
           else case KeyVals [''DisableNetwork'', ''0''] of
               Inl p \<Rightarrow> Panicked p
             | Inr entries \<Rightarrow>
                 bind_run (with_control t (SetConf entries)) (\<lambda>(err, t).
                   if err \<noteq> None then Returned (None, t)
                   else if \<not> wait then Returned (None, t)
                   else bind_run (tor_EventWait steps [EventCodeStatusClient] bootstrap_predicate () t) (\<lambda>(res, t).
                     Returned (case res of Inl err \<Rightarrow> Some err | Inr _ \<Rightarrow> None, t))))"

section \<open>Dialling\<close>

text \<open>
  The SOCKS5 dialer is \<open>golang.org/x/net/proxy\<close>'s: \<open>socks5\<close> makes a \<open>'d\<close> from a network, an
  address, an authentication and a dialer to forward to.
\<close>

record ('a, 'f) DialConf =
  ProxyAddress :: string
  ProxyNetwork :: string
  ProxyAuth :: "'a option"
  SkipEnableNetwork :: bool
  dial_Forward :: "'f option"

definition default_DialConf :: "('a, 'f) DialConf" where
  "default_DialConf = \<lparr>ProxyAddress = [], ProxyNetwork = [], ProxyAuth = None, SkipEnableNetwork = False, dial_Forward = None\<rparr>"

text \<open>Where the proxy is: given, or what Tor says of its listeners.\<close>

definition proxy_target :: "string \<Rightarrow> string \<Rightarrow> tor \<Rightarrow> ((string \<times> string) result \<times> tor) run" where
  "proxy_target proxyNetwork proxyAddress t =
     (if proxyAddress = [] then
        bind_run (with_control t (GetInfo [''net/listeners/socks''])) (\<lambda>(info, t).
          Returned (case info of
              Inl err \<Rightarrow> Inl err
            | Inr info \<Rightarrow>
                if length info \<noteq> 1 \<or> Key (info ! 0) \<noteq> ''net/listeners/socks''
                then Inl (Errorf ''Unable to get socks proxy address'' [])
                else let proxyAddress = Val (info ! 0) in
                  if has_prefix proxyAddress ''unix:'' then Inr (''unix'', drop 5 proxyAddress)
                  else Inr (''tcp'', proxyAddress), t))
      else Returned (Inr (if proxyNetwork = [] then ''tcp'' else proxyNetwork, proxyAddress), t))"

definition tor_Dialer ::
    "(string \<Rightarrow> string \<Rightarrow> 'a option \<Rightarrow> 'f option \<Rightarrow> 'd result) \<Rightarrow> wait_step list \<Rightarrow> ('a, 'f) DialConf option \<Rightarrow> tor
      \<Rightarrow> ('d result \<times> tor) run" where
  "tor_Dialer socks5 steps conf t =
     (let conf = (case conf of None \<Rightarrow> default_DialConf | Some c \<Rightarrow> c)
      in bind_run (if \<not> SkipEnableNetwork conf then EnableNetwork steps True t else Returned (None, t)) (\<lambda>(err, t).
           case err of
             Some err \<Rightarrow> Returned (Inl err, t)
           | None \<Rightarrow>
               bind_run (proxy_target (ProxyNetwork conf) (ProxyAddress conf) t) (\<lambda>(target, t).
                 Returned (case target of
                     Inl err \<Rightarrow> Inl err
                   | Inr (network, address) \<Rightarrow> socks5 network address (ProxyAuth conf) (dial_Forward conf), t))))"

text \<open>
  \<open>DialContext\<close>: the goroutine that dials and the \<open>select\<close> that waits. A schedule is a list of
  steps: the dialling goroutine ends and puts what it has on its channel, or closes the
  connection if the context is done; the context is done; a case of the \<open>select\<close> is taken.
  The result holds what was returned, if anything, and the connections closed.
\<close>

datatype dial_step = DialEnds | ContextEnds | SelectErr | SelectConn | SelectDone

record 'c dialling =
  d_running :: bool
  d_errCh :: "error option"
  d_connCh :: "'c option"
  d_ctx :: "error option"
  d_closed :: "'c list"

definition dial_ends :: "'c result \<Rightarrow> 'c dialling \<Rightarrow> 'c dialling" where
  "dial_ends dialled d =
     (if d_running d then
        let d = d\<lparr>d_running := False\<rparr>
        in case dialled of
             Inl err \<Rightarrow> d\<lparr>d_errCh := Some err\<rparr>
           | Inr conn \<Rightarrow>
               if d_ctx d \<noteq> None then d\<lparr>d_closed := d_closed d @ [conn]\<rparr>
               else d\<lparr>d_connCh := Some conn\<rparr>
      else d)"

text \<open>After the call has returned, the dialling goroutine goes on.\<close>

fun dial_background :: "'c result \<Rightarrow> error \<Rightarrow> dial_step list \<Rightarrow> 'c dialling \<Rightarrow> 'c dialling" where
  "dial_background dialled ctxErr [] d = d"
| "dial_background dialled ctxErr (DialEnds # steps) d = dial_background dialled ctxErr steps (dial_ends dialled d)"
| "dial_background dialled ctxErr (ContextEnds # steps) d = dial_background dialled ctxErr steps (d\<lparr>d_ctx := Some ctxErr\<rparr>)"
| "dial_background dialled ctxErr (_ # steps) d = dial_background dialled ctxErr steps d"

fun dial_select :: "'c result \<Rightarrow> error \<Rightarrow> dial_step list \<Rightarrow> 'c dialling \<Rightarrow> 'c result option \<times> 'c dialling" where
  "dial_select dialled ctxErr [] d = (None, d)"
| "dial_select dialled ctxErr (DialEnds # steps) d = dial_select dialled ctxErr steps (dial_ends dialled d)"
| "dial_select dialled ctxErr (ContextEnds # steps) d = dial_select dialled ctxErr steps (d\<lparr>d_ctx := Some ctxErr\<rparr>)"
| "dial_select dialled ctxErr (SelectErr # steps) d =
     (case d_errCh d of
        Some err \<Rightarrow> (Some (Inl err), dial_background dialled ctxErr steps (d\<lparr>d_errCh := None\<rparr>))
      | None \<Rightarrow> dial_select dialled ctxErr steps d)"
| "dial_select dialled ctxErr (SelectConn # steps) d =
     (case d_connCh d of
        Some conn \<Rightarrow> (Some (Inr conn), dial_background dialled ctxErr steps (d\<lparr>d_connCh := None\<rparr>))
      | None \<Rightarrow> dial_select dialled ctxErr steps d)"
| "dial_select dialled ctxErr (SelectDone # steps) d =
     (case d_ctx d of
        Some err \<Rightarrow> (Some (Inl err), dial_background dialled ctxErr steps d)
      | None \<Rightarrow> dial_select dialled ctxErr steps d)"

definition DialContext :: "'c result \<Rightarrow> error \<Rightarrow> dial_step list \<Rightarrow> 'c result option \<times> 'c dialling" where
  "DialContext dialled ctxErr steps =
     dial_select dialled ctxErr steps \<lparr>d_running = True, d_errCh = None, d_connCh = None, d_ctx = None, d_closed = []\<rparr>"

end
