(* ===== verification/Go_Int.thy ===== *)
theory Go_Int
  imports Go_Prelude
begin

text \<open>
  Go's fixed-width signed integers as integers with the wrap-around written out, the shifts
  and masks the curve arithmetic uses on them, and byte arrays as little-endian numbers.
\<close>

unbundle bit_operations_syntax

section \<open>Signed machine integers\<close>

definition i8 :: "int \<Rightarrow> int" where "i8 x = signed_take_bit 7 x"
definition i32 :: "int \<Rightarrow> int" where "i32 x = signed_take_bit 31 x"
definition i64 :: "int \<Rightarrow> int" where "i64 x = signed_take_bit 63 x"

text \<open>\<open>x >> k\<close> on a signed integer is arithmetic; \<open>x << k\<close> on an \<open>int64\<close> wraps.\<close>

definition sar :: "int \<Rightarrow> nat \<Rightarrow> int" where "sar x k = drop_bit k x"
definition shl64 :: "int \<Rightarrow> nat \<Rightarrow> int" where "shl64 x k = i64 (push_bit k x)"
definition shl32 :: "int \<Rightarrow> nat \<Rightarrow> int" where "shl32 x k = i32 (push_bit k x)"

text \<open>The conversion \<open>byte(x)\<close>.\<close>

definition byte_of_int :: "int \<Rightarrow> byte" where "byte_of_int x = word_of_int x"

named_theorems wrap \<open>a machine operation that does not wrap\<close>

lemma i8_id [wrap]: "- 128 \<le> x \<Longrightarrow> x \<le> 127 \<Longrightarrow> i8 x = x"
  by (simp add: i8_def signed_take_bit_int_eq_self)

lemma i32_id [wrap]: "- 2147483648 \<le> x \<Longrightarrow> x \<le> 2147483647 \<Longrightarrow> i32 x = x"
  by (simp add: i32_def signed_take_bit_int_eq_self)

lemma i64_id [wrap]: "- 9223372036854775808 \<le> x \<Longrightarrow> x \<le> 9223372036854775807 \<Longrightarrow> i64 x = x"
  by (simp add: i64_def signed_take_bit_int_eq_self)

lemma i32_abs: "\<bar>x\<bar> \<le> 2147483647 \<Longrightarrow> i32 x = x"
  and i64_abs: "\<bar>x\<bar> \<le> 9223372036854775807 \<Longrightarrow> i64 x = x"
  by (simp_all add: i32_id i64_id abs_le_iff)

lemma i32_bounds: "- 2147483648 \<le> i32 x \<and> i32 x \<le> 2147483647"
  using signed_take_bit_int_greater_eq_minus_exp [of 31 x] signed_take_bit_int_less_exp [of 31 x]
  by (simp add: i32_def)

lemma i64_bounds: "- 9223372036854775808 \<le> i64 x \<and> i64 x \<le> 9223372036854775807"
  using signed_take_bit_int_greater_eq_minus_exp [of 63 x] signed_take_bit_int_less_exp [of 63 x]
  by (simp add: i64_def)

lemma sar_div: "sar x k = x div 2 ^ k"
  by (simp add: sar_def drop_bit_eq_div)

lemma sar_split: "\<exists>r. x = 2 ^ k * sar x k + r \<and> 0 \<le> r \<and> r < 2 ^ k"
proof -
  have "x = 2 ^ k * (x div 2 ^ k) + x mod 2 ^ k" by simp
  then show ?thesis unfolding sar_div by (metis pos_mod_bound pos_mod_sign zero_less_numeral zero_less_power)
qed

lemma or_push: "0 \<le> x \<Longrightarrow> x < 2 ^ k \<Longrightarrow> x OR push_bit k y = x + 2 ^ k * y" for x y :: int
proof -
  assume x: "0 \<le> x" "x < 2 ^ k"
  then have t: "take_bit k x = x" by (simp add: take_bit_int_eq_self)
  have "x AND push_bit k y = 0"
    by (subst t [symmetric]) (auto intro!: bit_eqI simp: bit_simps)
  then show ?thesis by (simp add: disjunctive_add_eq_or [symmetric] push_bit_eq_mult)
qed

section \<open>Numbers in a radix\<close>

fun digits_val :: "int \<Rightarrow> int list \<Rightarrow> int" where
  "digits_val r [] = 0"
| "digits_val r (d # ds) = d + r * digits_val r ds"

lemma digits_val_append: "digits_val r (xs @ ys) = digits_val r xs + r ^ length xs * digits_val r ys"
  by (induction xs) (simp_all add: algebra_simps)

lemma digits_val_update:
  "i < length r \<Longrightarrow> digits_val b (r[i := x]) = digits_val b r + b ^ i * (x - r ! i)"
proof (induction r arbitrary: i)
  case (Cons d r)
  show ?case
  proof (cases i)
    case (Suc j)
    then have "digits_val b ((d # r)[i := x]) = d + b * (digits_val b r + b ^ j * (x - r ! j))"
      using Cons.IH [of j] Cons.prems by simp
    then show ?thesis using Suc by (simp add: algebra_simps)
  qed (simp add: algebra_simps)
qed simp

section \<open>Byte arrays as numbers\<close>

fun le_val :: "bytes \<Rightarrow> int" where
  "le_val [] = 0"
| "le_val (b # bs) = uint b + 256 * le_val bs"

lemma le_val_nonneg [simp]: "0 \<le> le_val bs"
  by (induction bs) simp_all

lemma uint_byte_bounds: "0 \<le> uint b" "uint b < 256" for b :: byte
  using uint_lt2p [of b] by simp_all

lemma le_val_less: "le_val bs < 256 ^ length bs"
proof (induction bs)
  case (Cons b bs)
  have "le_val bs + 1 \<le> 256 ^ length bs" using Cons.IH by linarith
  then have "256 * le_val bs + 256 \<le> 256 * 256 ^ length bs" by linarith
  then show ?case using uint_byte_bounds [of b] by simp
qed simp

lemma le_val_append: "le_val (xs @ ys) = le_val xs + 256 ^ length xs * le_val ys"
  by (induction xs) (simp_all add: algebra_simps)

lemma le_val_inj: "length xs = length ys \<Longrightarrow> le_val xs = le_val ys \<Longrightarrow> xs = ys"
proof (induction xs ys rule: list_induct2)
  case (Cons x xs y ys)
  have "uint z = le_val (z # zs) mod 256" for z :: byte and zs
    using uint_byte_bounds [of z] by simp
  then have xy: "uint x = uint y" using Cons.prems by metis
  then have "le_val xs = le_val ys" using Cons.prems by simp
  then show ?case using Cons.IH xy by (metis word_uint_eqI)
qed simp

lemma le_val_take: "le_val (take k bs) = le_val bs mod 256 ^ k"
proof (cases "k \<le> length bs")
  case True
  have "le_val bs = le_val (take k bs) + 256 ^ k * le_val (drop k bs)"
    using le_val_append [of "take k bs" "drop k bs"] True by simp
  moreover have "le_val (take k bs) < 256 ^ k" using le_val_less [of "take k bs"] True by simp
  ultimately show ?thesis by simp
next
  case False
  have "le_val bs < 256 ^ length bs" by (rule le_val_less)
  also have "\<dots> \<le> 256 ^ k" using False by simp
  finally show ?thesis using False by simp
qed

lemma le_val_drop: "le_val (drop k bs) = le_val bs div 256 ^ k"
proof (cases "k \<le> length bs")
  case True
  have "le_val bs = le_val (take k bs) + 256 ^ k * le_val (drop k bs)"
    using le_val_append [of "take k bs" "drop k bs"] True by simp
  moreover have "le_val (take k bs) < 256 ^ k" using le_val_less [of "take k bs"] True by simp
  ultimately show ?thesis by simp
next
  case False
  have "le_val bs < 256 ^ length bs" by (rule le_val_less)
  also have "\<dots> \<le> 256 ^ k" using False by simp
  finally show ?thesis using False by simp
qed

text \<open>The bytes of a number.\<close>

definition le_bytes :: "nat \<Rightarrow> int \<Rightarrow> bytes" where
  "le_bytes n v = map (\<lambda>k. byte_of_int (drop_bit (8 * k) v)) [0..<n]"

lemma length_le_bytes [simp]: "length (le_bytes n v) = n"
  by (simp add: le_bytes_def)

lemma uint_byte_of_int: "uint (byte_of_int x) = x mod 256"
  by (simp add: byte_of_int_def uint_word_of_int)

lemma le_val_le_bytes: "le_val (le_bytes n v) = v mod 256 ^ n"
proof (induction n)
  case (Suc n)
  have "drop_bit (8 * n) v = v div 256 ^ n"
    by (simp add: drop_bit_eq_div power_mult)
  then have "le_val (le_bytes (Suc n) v) = v mod 256 ^ n + 256 ^ n * (v div 256 ^ n mod 256)"
    using Suc by (simp add: le_bytes_def le_val_append uint_byte_of_int)
  also have "\<dots> = v mod (256 ^ n * 256)" by (simp add: zmod_zmult2_eq)
  finally show ?case by (simp add: mult.commute)
qed (simp add: le_bytes_def)

text \<open>A byte that packs the end of one digit and the start of the next.\<close>

lemma bit_byte_of_int: "bit (byte_of_int x) i \<longleftrightarrow> i < 8 \<and> bit x i"
  by (simp add: byte_of_int_def bit_word_of_int_iff)

lemma byte_one: "8 + j \<le> n \<Longrightarrow>
    byte_of_int (drop_bit j (take_bit n (drop_bit a v))) = byte_of_int (drop_bit (a + j) v)"
  by (rule bit_eqI) (auto simp: bit_byte_of_int bit_simps ac_simps)

lemma byte_two: "j \<le> n \<Longrightarrow> n < 8 + j \<Longrightarrow> 8 + j \<le> n + m \<Longrightarrow>
    byte_of_int (drop_bit j (take_bit n (drop_bit a v)) OR push_bit (n - j) (take_bit m (drop_bit (a + n) v)))
      = byte_of_int (drop_bit (a + j) v)"
proof (rule bit_eqI)
  fix i assume a: "j \<le> n" "n < 8 + j" "8 + j \<le> n + m"
  have e: "i - (n - j) + (a + n) = a + j + i" if "n - j \<le> i" using that a by simp
  show "bit (byte_of_int (drop_bit j (take_bit n (drop_bit a v)) OR push_bit (n - j) (take_bit m (drop_bit (a + n) v)))) i
      \<longleftrightarrow> bit (byte_of_int (drop_bit (a + j) v)) i"
    using a by (cases "n - j \<le> i") (auto simp: bit_byte_of_int bit_simps e ac_simps)
qed

section \<open>Loading a little-endian number\<close>

definition load3 :: "bytes \<Rightarrow> int" where
  "load3 inp =
     (let r = uint (inp ! 0);
          r = r OR shl64 (uint (inp ! 1)) 8;
          r = r OR shl64 (uint (inp ! 2)) 16
      in r)"

definition load4 :: "bytes \<Rightarrow> int" where
  "load4 inp =
     (let r = uint (inp ! 0);
          r = r OR shl64 (uint (inp ! 1)) 8;
          r = r OR shl64 (uint (inp ! 2)) 16;
          r = r OR shl64 (uint (inp ! 3)) 24
      in r)"

lemma shl64_byte: "k \<le> 24 \<Longrightarrow> shl64 (uint b) k = push_bit k (uint b)" for b :: byte
proof -
  assume k: "k \<le> 24"
  have "(2 :: int) ^ k \<le> 2 ^ 24" using k by (rule power_increasing) simp
  then have "uint b * 2 ^ k \<le> 256 * (2 :: int) ^ 24"
    using uint_byte_bounds [of b] by (intro mult_mono) auto
  then have "uint b * 2 ^ k \<le> 4294967296" by simp
  moreover have "0 \<le> uint b * 2 ^ k" by simp
  ultimately show ?thesis unfolding shl64_def push_bit_eq_mult by (intro i64_id) linarith+
qed

lemma load3_le: "2 < length inp \<Longrightarrow> load3 inp = le_val (take 3 inp)"
proof -
  assume "2 < length inp"
  then obtain a b c r where i: "inp = a # b # c # r"
    by (cases inp rule: remdups_adj.cases; cases "tl (tl inp)") auto
  have 1: "uint a OR push_bit 8 (uint b) = uint a + 2 ^ 8 * uint b"
    using uint_byte_bounds [of a] by (intro or_push) simp_all
  have 2: "(uint a + 2 ^ 8 * uint b) OR push_bit 16 (uint c) = (uint a + 2 ^ 8 * uint b) + 2 ^ 16 * uint c"
    using uint_byte_bounds [of a] uint_byte_bounds [of b] by (intro or_push) simp_all
  show ?thesis unfolding i load3_def by (simp add: shl64_byte 1 [simplified] 2 [simplified])
qed

lemma load4_le: "3 < length inp \<Longrightarrow> load4 inp = le_val (take 4 inp)"
proof -
  assume "3 < length inp"
  then obtain a b c d r where i: "inp = a # b # c # d # r"
    by (cases inp rule: remdups_adj.cases; cases "tl (tl inp)" rule: remdups_adj.cases) auto
  have 1: "uint a OR push_bit 8 (uint b) = uint a + 2 ^ 8 * uint b"
    using uint_byte_bounds [of a] by (intro or_push) simp_all
  have 2: "(uint a + 2 ^ 8 * uint b) OR push_bit 16 (uint c) = (uint a + 2 ^ 8 * uint b) + 2 ^ 16 * uint c"
    using uint_byte_bounds [of a] uint_byte_bounds [of b] by (intro or_push) simp_all
  have 3: "(uint a + 2 ^ 8 * uint b + 2 ^ 16 * uint c) OR push_bit 24 (uint d)
      = (uint a + 2 ^ 8 * uint b + 2 ^ 16 * uint c) + 2 ^ 24 * uint d"
    using uint_byte_bounds [of a] uint_byte_bounds [of b] uint_byte_bounds [of c] by (intro or_push) simp_all
  show ?thesis unfolding i load4_def by (simp add: shl64_byte 1 [simplified] 2 [simplified] 3 [simplified])
qed

text \<open>Where a load stands in the number the whole array denotes.\<close>

lemma le_val_drop_load4: "3 < length bs \<Longrightarrow> le_val bs = load4 bs + 4294967296 * le_val (drop 4 bs)"
  using le_val_append [of "take 4 bs" "drop 4 bs"] by (simp add: load4_le)

lemma le_val_drop_load3: "2 < length bs \<Longrightarrow> le_val bs = load3 bs + 16777216 * le_val (drop 3 bs)"
  using le_val_append [of "take 3 bs" "drop 3 bs"] by (simp add: load3_le)

lemma load4_bounds: "3 < length bs \<Longrightarrow> 0 \<le> load4 bs \<and> load4 bs < 4294967296"
  using le_val_less [of "take 4 bs"] by (simp add: load4_le)

lemma load3_bounds: "2 < length bs \<Longrightarrow> 0 \<le> load3 bs \<and> load3 bs < 16777216"
  using le_val_less [of "take 3 bs"] by (simp add: load3_le)

end
