(* ===== verification/Fe25519.thy ===== *)
theory Fe25519
  imports Go_Int
begin

text \<open>
  Field elements of \<open>torutil/ed25519/internal/edwards25519/edwards25519.go\<close>: ten signed limbs
  of alternating 26 and 25 bits, with the 32-bit and 64-bit wrap-around of every assignment
  written out. A statement of the source that adds several products wraps once, at its end,
  which is what wrapping after each of its additions and products gives.
\<close>

unbundle bit_operations_syntax

section \<open>The element and its simple operations\<close>

datatype FieldElement = Fe int int int int int int int int int int

definition FeZero :: FieldElement where "FeZero = Fe 0 0 0 0 0 0 0 0 0 0"

definition FeOne :: FieldElement where "FeOne = Fe 1 0 0 0 0 0 0 0 0 0"

definition FeCopy :: "FieldElement \<Rightarrow> FieldElement" where "FeCopy src = src"

fun FeAdd :: "FieldElement \<Rightarrow> FieldElement \<Rightarrow> FieldElement" where
  "FeAdd (Fe a0 a1 a2 a3 a4 a5 a6 a7 a8 a9) (Fe b0 b1 b2 b3 b4 b5 b6 b7 b8 b9) =
     Fe (i32 (a0 + b0)) (i32 (a1 + b1)) (i32 (a2 + b2)) (i32 (a3 + b3)) (i32 (a4 + b4))
        (i32 (a5 + b5)) (i32 (a6 + b6)) (i32 (a7 + b7)) (i32 (a8 + b8)) (i32 (a9 + b9))"

fun FeSub :: "FieldElement \<Rightarrow> FieldElement \<Rightarrow> FieldElement" where
  "FeSub (Fe a0 a1 a2 a3 a4 a5 a6 a7 a8 a9) (Fe b0 b1 b2 b3 b4 b5 b6 b7 b8 b9) =
     Fe (i32 (a0 - b0)) (i32 (a1 - b1)) (i32 (a2 - b2)) (i32 (a3 - b3)) (i32 (a4 - b4))
        (i32 (a5 - b5)) (i32 (a6 - b6)) (i32 (a7 - b7)) (i32 (a8 - b8)) (i32 (a9 - b9))"

fun FeNeg :: "FieldElement \<Rightarrow> FieldElement" where
  "FeNeg (Fe f0 f1 f2 f3 f4 f5 f6 f7 f8 f9) =
     Fe (i32 (- f0)) (i32 (- f1)) (i32 (- f2)) (i32 (- f3)) (i32 (- f4))
        (i32 (- f5)) (i32 (- f6)) (i32 (- f7)) (i32 (- f8)) (i32 (- f9))"

text \<open>The conditional move without a branch: \<open>b\<close> becomes a mask of all ones or all zeros.\<close>

definition cmov :: "int \<Rightarrow> int \<Rightarrow> int \<Rightarrow> int" where
  "cmov b f g = i32 (f XOR i32 (b AND (f XOR g)))"

fun FeCMove :: "FieldElement \<Rightarrow> FieldElement \<Rightarrow> int \<Rightarrow> FieldElement" where
  "FeCMove (Fe f0 f1 f2 f3 f4 f5 f6 f7 f8 f9) (Fe g0 g1 g2 g3 g4 g5 g6 g7 g8 g9) b =
     (let b = i32 (- b)
      in Fe (cmov b f0 g0) (cmov b f1 g1) (cmov b f2 g2) (cmov b f3 g3) (cmov b f4 g4)
            (cmov b f5 g5) (cmov b f6 g6) (cmov b f7 g7) (cmov b f8 g8) (cmov b f9 g9))"

section \<open>Carrying\<close>

text \<open>
  One carry of \<open>FeCombine\<close>: \<open>c = (lo + (1 << (k-1))) >> k; hi += c; lo -= c << k\<close>. The carry of
  the last limb goes to the first one, times 19.
\<close>

definition carry :: "nat \<Rightarrow> int \<Rightarrow> int \<Rightarrow> int \<times> int" where
  "carry k lo hi =
     (let c = sar (i64 (lo + shl64 1 (k - 1))) k
      in (i64 (lo - shl64 c k), i64 (hi + c)))"

definition carry_top :: "nat \<Rightarrow> int \<Rightarrow> int \<Rightarrow> int \<times> int" where
  "carry_top k lo hi =
     (let c = sar (i64 (lo + shl64 1 (k - 1))) k
      in (i64 (lo - shl64 c k), i64 (hi + i64 (c * 19))))"

definition FeCombine ::
    "int \<Rightarrow> int \<Rightarrow> int \<Rightarrow> int \<Rightarrow> int \<Rightarrow> int \<Rightarrow> int \<Rightarrow> int \<Rightarrow> int \<Rightarrow> int \<Rightarrow> FieldElement" where
  "FeCombine h0 h1 h2 h3 h4 h5 h6 h7 h8 h9 =
     (let (h0, h1) = carry 26 h0 h1;
          (h4, h5) = carry 26 h4 h5;
          (h1, h2) = carry 25 h1 h2;
          (h5, h6) = carry 25 h5 h6;
          (h2, h3) = carry 26 h2 h3;
          (h6, h7) = carry 26 h6 h7;
          (h3, h4) = carry 25 h3 h4;
          (h7, h8) = carry 25 h7 h8;
          (h4, h5) = carry 26 h4 h5;
          (h8, h9) = carry 26 h8 h9;
          (h9, h0) = carry_top 25 h9 h0;
          (h0, h1) = carry 26 h0 h1
      in Fe (i32 h0) (i32 h1) (i32 h2) (i32 h3) (i32 h4)
            (i32 h5) (i32 h6) (i32 h7) (i32 h8) (i32 h9))"

section \<open>Multiplication and squaring\<close>

definition FeMul :: "FieldElement \<Rightarrow> FieldElement \<Rightarrow> FieldElement" where
  "FeMul f g =
     (case (f, g) of (Fe f0 f1 f2 f3 f4 f5 f6 f7 f8 f9,
        Fe g0 g1 g2 g3 g4 g5 g6 g7 g8 g9) \<Rightarrow>
     (let f1_2 = i32 (2 * f1);
          f3_2 = i32 (2 * f3);
          f5_2 = i32 (2 * f5);
          f7_2 = i32 (2 * f7);
          f9_2 = i32 (2 * f9);
          g1_19 = i32 (19 * g1);
          g2_19 = i32 (19 * g2);
          g3_19 = i32 (19 * g3);
          g4_19 = i32 (19 * g4);
          g5_19 = i32 (19 * g5);
          g6_19 = i32 (19 * g6);
          g7_19 = i32 (19 * g7);
          g8_19 = i32 (19 * g8);
          g9_19 = i32 (19 * g9);
          h0 = i64 (f0 * g0 + f1_2 * g9_19 + f2 * g8_19 + f3_2 * g7_19 + f4 * g6_19 + f5_2 * g5_19
                      + f6 * g4_19 + f7_2 * g3_19 + f8 * g2_19 + f9_2 * g1_19);
          h1 = i64 (f0 * g1 + f1 * g0 + f2 * g9_19 + f3 * g8_19 + f4 * g7_19 + f5 * g6_19
                      + f6 * g5_19 + f7 * g4_19 + f8 * g3_19 + f9 * g2_19);
          h2 = i64 (f0 * g2 + f1_2 * g1 + f2 * g0 + f3_2 * g9_19 + f4 * g8_19 + f5_2 * g7_19
                      + f6 * g6_19 + f7_2 * g5_19 + f8 * g4_19 + f9_2 * g3_19);
          h3 = i64 (f0 * g3 + f1 * g2 + f2 * g1 + f3 * g0 + f4 * g9_19 + f5 * g8_19 + f6 * g7_19
                      + f7 * g6_19 + f8 * g5_19 + f9 * g4_19);
          h4 = i64 (f0 * g4 + f1_2 * g3 + f2 * g2 + f3_2 * g1 + f4 * g0 + f5_2 * g9_19
                      + f6 * g8_19 + f7_2 * g7_19 + f8 * g6_19 + f9_2 * g5_19);
          h5 = i64 (f0 * g5 + f1 * g4 + f2 * g3 + f3 * g2 + f4 * g1 + f5 * g0 + f6 * g9_19
                      + f7 * g8_19 + f8 * g7_19 + f9 * g6_19);
          h6 = i64 (f0 * g6 + f1_2 * g5 + f2 * g4 + f3_2 * g3 + f4 * g2 + f5_2 * g1 + f6 * g0
                      + f7_2 * g9_19 + f8 * g8_19 + f9_2 * g7_19);
          h7 = i64 (f0 * g7 + f1 * g6 + f2 * g5 + f3 * g4 + f4 * g3 + f5 * g2 + f6 * g1 + f7 * g0
                      + f8 * g9_19 + f9 * g8_19);
          h8 = i64 (f0 * g8 + f1_2 * g7 + f2 * g6 + f3_2 * g5 + f4 * g4 + f5_2 * g3 + f6 * g2
                      + f7_2 * g1 + f8 * g0 + f9_2 * g9_19);
          h9 = i64 (f0 * g9 + f1 * g8 + f2 * g7 + f3 * g6 + f4 * g5 + f5 * g4 + f6 * g3 + f7 * g2
                      + f8 * g1 + f9 * g0)
      in FeCombine h0 h1 h2 h3 h4 h5 h6 h7 h8 h9))"

text \<open>The ten results of \<open>feSquare\<close>.\<close>

type_synonym wide = "int \<times> int \<times> int \<times> int \<times> int \<times> int \<times> int \<times> int \<times> int \<times> int"

definition feSquare :: "FieldElement \<Rightarrow> wide" where
  "feSquare f =
     (case f of Fe f0 f1 f2 f3 f4 f5 f6 f7 f8 f9 \<Rightarrow>
     (let f0_2 = i32 (2 * f0);
          f1_2 = i32 (2 * f1);
          f2_2 = i32 (2 * f2);
          f3_2 = i32 (2 * f3);
          f4_2 = i32 (2 * f4);
          f5_2 = i32 (2 * f5);
          f6_2 = i32 (2 * f6);
          f7_2 = i32 (2 * f7);
          f5_38 = i64 (38 * f5);
          f6_19 = i64 (19 * f6);
          f7_38 = i64 (38 * f7);
          f8_19 = i64 (19 * f8);
          f9_38 = i64 (38 * f9);
          h0 = i64 (f0 * f0 + f1_2 * f9_38 + f2_2 * f8_19 + f3_2 * f7_38 + f4_2 * f6_19
                      + f5 * f5_38);
          h1 = i64 (f0_2 * f1 + f2 * f9_38 + f3_2 * f8_19 + f4 * f7_38 + f5_2 * f6_19);
          h2 = i64 (f0_2 * f2 + f1_2 * f1 + f3_2 * f9_38 + f4_2 * f8_19 + f5_2 * f7_38
                      + f6 * f6_19);
          h3 = i64 (f0_2 * f3 + f1_2 * f2 + f4 * f9_38 + f5_2 * f8_19 + f6 * f7_38);
          h4 = i64 (f0_2 * f4 + f1_2 * f3_2 + f2 * f2 + f5_2 * f9_38 + f6_2 * f8_19 + f7 * f7_38);
          h5 = i64 (f0_2 * f5 + f1_2 * f4 + f2_2 * f3 + f6 * f9_38 + f7_2 * f8_19);
          h6 = i64 (f0_2 * f6 + f1_2 * f5_2 + f2_2 * f4 + f3_2 * f3 + f7_2 * f9_38 + f8 * f8_19);
          h7 = i64 (f0_2 * f7 + f1_2 * f6 + f2_2 * f5 + f3_2 * f4 + f8 * f9_38);
          h8 = i64 (f0_2 * f8 + f1_2 * f7_2 + f2_2 * f6 + f3_2 * f5_2 + f4 * f4 + f9 * f9_38);
          h9 = i64 (f0_2 * f9 + f1_2 * f8 + f2_2 * f7 + f3_2 * f6 + f4_2 * f5)
      in (h0, h1, h2, h3, h4, h5, h6, h7, h8, h9)))"

definition FeSquare :: "FieldElement \<Rightarrow> FieldElement" where
  "FeSquare f =
     (let (h0, h1, h2, h3, h4, h5, h6, h7, h8, h9) = feSquare f
      in FeCombine h0 h1 h2 h3 h4 h5 h6 h7 h8 h9)"

definition FeSquare2 :: "FieldElement \<Rightarrow> FieldElement" where
  "FeSquare2 f =
     (let (h0, h1, h2, h3, h4, h5, h6, h7, h8, h9) = feSquare f;
          h0 = i64 (h0 + h0);
          h1 = i64 (h1 + h1);
          h2 = i64 (h2 + h2);
          h3 = i64 (h3 + h3);
          h4 = i64 (h4 + h4);
          h5 = i64 (h5 + h5);
          h6 = i64 (h6 + h6);
          h7 = i64 (h7 + h7);
          h8 = i64 (h8 + h8);
          h9 = i64 (h9 + h9)
      in FeCombine h0 h1 h2 h3 h4 h5 h6 h7 h8 h9)"

section \<open>Powers\<close>

text \<open>\<open>for i = 1; i < n; i++ { FeSquare(&t, &t) }\<close>: the loop squares \<open>n - 1\<close> times.\<close>

definition square_loop :: "nat \<Rightarrow> FieldElement \<Rightarrow> FieldElement" where
  "square_loop n t = (FeSquare ^^ (n - 1)) t"

definition FeInvert :: "FieldElement \<Rightarrow> FieldElement" where
  "FeInvert z =
     (let t0 = FeSquare z;
          t1 = FeSquare t0;
          t1 = square_loop 2 t1;
          t1 = FeMul z t1;
          t0 = FeMul t0 t1;
          t2 = FeSquare t0;
          t1 = FeMul t1 t2;
          t2 = FeSquare t1;
          t2 = square_loop 5 t2;
          t1 = FeMul t2 t1;
          t2 = FeSquare t1;
          t2 = square_loop 10 t2;
          t2 = FeMul t2 t1;
          t3 = FeSquare t2;
          t3 = square_loop 20 t3;
          t2 = FeMul t3 t2;
          t2 = FeSquare t2;
          t2 = square_loop 10 t2;
          t1 = FeMul t2 t1;
          t2 = FeSquare t1;
          t2 = square_loop 50 t2;
          t2 = FeMul t2 t1;
          t3 = FeSquare t2;
          t3 = square_loop 100 t3;
          t2 = FeMul t3 t2;
          t2 = FeSquare t2;
          t2 = square_loop 50 t2;
          t1 = FeMul t2 t1;
          t1 = FeSquare t1;
          t1 = square_loop 5 t1
      in FeMul t1 t0)"

definition fePow22523 :: "FieldElement \<Rightarrow> FieldElement" where
  "fePow22523 z =
     (let t0 = FeSquare z;
          t0 = square_loop 1 t0;
          t1 = FeSquare t0;
          t1 = square_loop 2 t1;
          t1 = FeMul z t1;
          t0 = FeMul t0 t1;
          t0 = FeSquare t0;
          t0 = square_loop 1 t0;
          t0 = FeMul t1 t0;
          t1 = FeSquare t0;
          t1 = square_loop 5 t1;
          t0 = FeMul t1 t0;
          t1 = FeSquare t0;
          t1 = square_loop 10 t1;
          t1 = FeMul t1 t0;
          t2 = FeSquare t1;
          t2 = square_loop 20 t2;
          t1 = FeMul t2 t1;
          t1 = FeSquare t1;
          t1 = square_loop 10 t1;
          t0 = FeMul t1 t0;
          t1 = FeSquare t0;
          t1 = square_loop 50 t1;
          t1 = FeMul t1 t0;
          t2 = FeSquare t1;
          t2 = square_loop 100 t2;
          t1 = FeMul t2 t1;
          t1 = FeSquare t1;
          t1 = square_loop 50 t1;
          t0 = FeMul t1 t0;
          t0 = FeSquare t0;
          t0 = square_loop 2 t0
      in FeMul t0 z)"

section \<open>Bytes\<close>

definition FeFromBytes :: "bytes \<Rightarrow> FieldElement" where
  "FeFromBytes src =
     (let h0 = load4 src;
          h1 = shl64 (load3 (drop 4 src)) 6;
          h2 = shl64 (load3 (drop 7 src)) 5;
          h3 = shl64 (load3 (drop 10 src)) 3;
          h4 = shl64 (load3 (drop 13 src)) 2;
          h5 = load4 (drop 16 src);
          h6 = shl64 (load3 (drop 20 src)) 7;
          h7 = shl64 (load3 (drop 23 src)) 5;
          h8 = shl64 (load3 (drop 26 src)) 4;
          h9 = shl64 (load3 (drop 29 src) AND 8388607) 2
      in FeCombine h0 h1 h2 h3 h4 h5 h6 h7 h8 h9)"

text \<open>
  \<open>FeToBytes\<close> in its three steps: the quotient \<open>q\<close> by the prime, the carries that make the limbs
  digits after \<open>19 * q\<close> was added, and the packing of the digits into bytes.
\<close>

definition fe_quotient :: "FieldElement \<Rightarrow> int" where
  "fe_quotient h =
     (case h of Fe h0 h1 h2 h3 h4 h5 h6 h7 h8 h9 \<Rightarrow>
     (let q = sar (i32 (19 * h9 + shl32 1 24)) 25;
          q = sar (i32 (h0 + q)) 26;
          q = sar (i32 (h1 + q)) 25;
          q = sar (i32 (h2 + q)) 26;
          q = sar (i32 (h3 + q)) 25;
          q = sar (i32 (h4 + q)) 26;
          q = sar (i32 (h5 + q)) 25;
          q = sar (i32 (h6 + q)) 26;
          q = sar (i32 (h7 + q)) 25;
          q = sar (i32 (h8 + q)) 26;
          q = sar (i32 (h9 + q)) 25
      in q))"

definition carry32 :: "nat \<Rightarrow> int \<Rightarrow> int \<Rightarrow> int \<times> int" where
  "carry32 k lo hi =
     (let c = sar lo k
      in (i32 (lo - shl32 c k), i32 (hi + c)))"

definition fe_digits :: "FieldElement \<Rightarrow> FieldElement" where
  "fe_digits h =
     (case h of Fe h0 h1 h2 h3 h4 h5 h6 h7 h8 h9 \<Rightarrow>
     (let (h0, h1) = carry32 26 h0 h1;
          (h1, h2) = carry32 25 h1 h2;
          (h2, h3) = carry32 26 h2 h3;
          (h3, h4) = carry32 25 h3 h4;
          (h4, h5) = carry32 26 h4 h5;
          (h5, h6) = carry32 25 h5 h6;
          (h6, h7) = carry32 26 h6 h7;
          (h7, h8) = carry32 25 h7 h8;
          (h8, h9) = carry32 26 h8 h9;
          carry9 = sar h9 25;
          h9 = i32 (h9 - shl32 carry9 25)
      in Fe h0 h1 h2 h3 h4 h5 h6 h7 h8 h9))"

fun fe_pack :: "FieldElement \<Rightarrow> bytes" where
  "fe_pack (Fe h0 h1 h2 h3 h4 h5 h6 h7 h8 h9) =
     [byte_of_int (sar h0 0),
      byte_of_int (sar h0 8),
      byte_of_int (sar h0 16),
      byte_of_int (sar h0 24 OR shl32 h1 2),
      byte_of_int (sar h1 6),
      byte_of_int (sar h1 14),
      byte_of_int (sar h1 22 OR shl32 h2 3),
      byte_of_int (sar h2 5),
      byte_of_int (sar h2 13),
      byte_of_int (sar h2 21 OR shl32 h3 5),
      byte_of_int (sar h3 3),
      byte_of_int (sar h3 11),
      byte_of_int (sar h3 19 OR shl32 h4 6),
      byte_of_int (sar h4 2),
      byte_of_int (sar h4 10),
      byte_of_int (sar h4 18),
      byte_of_int (sar h5 0),
      byte_of_int (sar h5 8),
      byte_of_int (sar h5 16),
      byte_of_int (sar h5 24 OR shl32 h6 1),
      byte_of_int (sar h6 7),
      byte_of_int (sar h6 15),
      byte_of_int (sar h6 23 OR shl32 h7 3),
      byte_of_int (sar h7 5),
      byte_of_int (sar h7 13),
      byte_of_int (sar h7 21 OR shl32 h8 4),
      byte_of_int (sar h8 4),
      byte_of_int (sar h8 12),
      byte_of_int (sar h8 20 OR shl32 h9 6),
      byte_of_int (sar h9 2),
      byte_of_int (sar h9 10),
      byte_of_int (sar h9 18)]"

fun fe_add0 :: "int \<Rightarrow> FieldElement \<Rightarrow> FieldElement" where
  "fe_add0 x (Fe h0 h1 h2 h3 h4 h5 h6 h7 h8 h9) = Fe (i32 (h0 + x)) h1 h2 h3 h4 h5 h6 h7 h8 h9"

text \<open>
  The source works on \<open>*h\<close> itself, so the caller's element comes back reduced: the second
  component is the element after the call.
\<close>

definition FeToBytes :: "FieldElement \<Rightarrow> bytes \<times> FieldElement" where
  "FeToBytes h =
     (let q = fe_quotient h;
          h = fe_add0 (i32 (19 * q)) h;
          h = fe_digits h
      in (fe_pack h, h))"

definition FeIsNegative :: "FieldElement \<Rightarrow> byte \<times> FieldElement" where
  "FeIsNegative f = (let (s, f) = FeToBytes f in (s ! 0 AND 1, f))"

definition FeIsNonZero :: "FieldElement \<Rightarrow> int \<times> FieldElement" where
  "FeIsNonZero f =
     (let (s, f) = FeToBytes f;
          x = fold (\<lambda>b x. x OR b) s 0;
          x = x OR drop_bit 4 x;
          x = x OR drop_bit 2 x;
          x = x OR drop_bit 1 x
      in (uint (x AND 1), f))"

end
