(* ===== verification/Ge25519.thy ===== *)
theory Ge25519
  imports Ed_Const
begin

text \<open>
  The group elements of \<open>edwards25519.go\<close> in their representations, the conversions between
  them, the addition formulas, and the two scalar multiplications with their recodings of the
  scalar. A method that writes to a pointer returns the new value; \<open>FeToBytes\<close> and what calls it
  also return the element they reduce in place.
\<close>

unbundle bit_operations_syntax

section \<open>Representations\<close>

record ProjectiveGroupElement =
  pX :: FieldElement
  pY :: FieldElement
  pZ :: FieldElement

record ExtendedGroupElement =
  eX :: FieldElement
  eY :: FieldElement
  eZ :: FieldElement
  eT :: FieldElement

record CompletedGroupElement =
  cX :: FieldElement
  cY :: FieldElement
  cZ :: FieldElement
  cT :: FieldElement

record CachedGroupElement =
  qyPlusX :: FieldElement
  qyMinusX :: FieldElement
  qZ :: FieldElement
  qT2d :: FieldElement

section \<open>Conversions and doubling\<close>

definition proj_Zero :: ProjectiveGroupElement where
  "proj_Zero = \<lparr>pX = FeZero, pY = FeOne, pZ = FeOne\<rparr>"

definition ext_Zero :: ExtendedGroupElement where
  "ext_Zero = \<lparr>eX = FeZero, eY = FeOne, eZ = FeOne, eT = FeZero\<rparr>"

definition pre_Zero :: PreComputedGroupElement where
  "pre_Zero = precomputed FeOne FeOne FeZero"

definition proj_Double :: "ProjectiveGroupElement \<Rightarrow> CompletedGroupElement" where
  "proj_Double p =
     (let rX = FeSquare (pX p);
          rZ = FeSquare (pY p);
          rT = FeSquare2 (pZ p);
          rY = FeAdd (pX p) (pY p);
          t0 = FeSquare rY;
          rY = FeAdd rZ rX;
          rZ = FeSub rZ rX;
          rX = FeSub t0 rY;
          rT = FeSub rT rZ
      in \<lparr>cX = rX, cY = rY, cZ = rZ, cT = rT\<rparr>)"

definition proj_ToBytes :: "ProjectiveGroupElement \<Rightarrow> bytes" where
  "proj_ToBytes p =
     (let recip = FeInvert (pZ p);
          x = FeMul (pX p) recip;
          y = FeMul (pY p) recip;
          (s, y) = FeToBytes y;
          (neg, x) = FeIsNegative x
      in s[31 := s ! 31 XOR push_bit 7 neg])"

definition ext_ToProjective :: "ExtendedGroupElement \<Rightarrow> ProjectiveGroupElement" where
  "ext_ToProjective p = \<lparr>pX = FeCopy (eX p), pY = FeCopy (eY p), pZ = FeCopy (eZ p)\<rparr>"

definition ext_Double :: "ExtendedGroupElement \<Rightarrow> CompletedGroupElement" where
  "ext_Double p = proj_Double (ext_ToProjective p)"

definition ext_ToCached :: "ExtendedGroupElement \<Rightarrow> CachedGroupElement" where
  "ext_ToCached p =
     \<lparr>qyPlusX = FeAdd (eY p) (eX p), qyMinusX = FeSub (eY p) (eX p), qZ = FeCopy (eZ p),
      qT2d = FeMul (eT p) curve_d2\<rparr>"

definition ext_ToBytes :: "ExtendedGroupElement \<Rightarrow> bytes" where
  "ext_ToBytes p =
     (let recip = FeInvert (eZ p);
          x = FeMul (eX p) recip;
          y = FeMul (eY p) recip;
          (s, y) = FeToBytes y;
          (neg, x) = FeIsNegative x
      in s[31 := s ! 31 XOR push_bit 7 neg])"

text \<open>
  \<open>FromBytes\<close> returns no point when the check fails. \<open>tmp2\<close> of the source is written and never
  read; what its computation leaves is the reduced \<open>X\<close>.
\<close>

definition ext_FromBytes :: "bytes \<Rightarrow> ExtendedGroupElement option" where
  "ext_FromBytes s =
     (let y = FeFromBytes s;
          z = FeOne;
          u = FeSquare y;
          v = FeMul u curve_d;
          u = FeSub u z;
          v = FeAdd v z;
          v3 = FeSquare v;
          v3 = FeMul v3 v;
          x = FeSquare v3;
          x = FeMul x v;
          x = FeMul x u;
          x = fePow22523 x;
          x = FeMul x v3;
          x = FeMul x u;
          vxx = FeSquare x;
          vxx = FeMul vxx v;
          check = FeSub vxx u;
          (nz, check) = FeIsNonZero check;
          root =
            (if nz = 1 then
               let check = FeAdd vxx u;
                   (nz, check) = FeIsNonZero check
               in if nz = 1 then None
                  else let x = FeMul x SqrtM1;
                           (tmpX, x) = FeToBytes x
                       in Some x
             else Some x)
      in case root of
           None \<Rightarrow> None
         | Some x \<Rightarrow>
             (let (neg, x) = FeIsNegative x;
                  x = (if neg \<noteq> drop_bit 7 (s ! 31) then FeNeg x else x)
              in Some \<lparr>eX = x, eY = y, eZ = z, eT = FeMul x y\<rparr>))"

definition com_ToProjective :: "CompletedGroupElement \<Rightarrow> ProjectiveGroupElement" where
  "com_ToProjective p =
     \<lparr>pX = FeMul (cX p) (cT p), pY = FeMul (cY p) (cZ p), pZ = FeMul (cZ p) (cT p)\<rparr>"

definition com_ToExtended :: "CompletedGroupElement \<Rightarrow> ExtendedGroupElement" where
  "com_ToExtended p =
     \<lparr>eX = FeMul (cX p) (cT p), eY = FeMul (cY p) (cZ p), eZ = FeMul (cZ p) (cT p),
      eT = FeMul (cX p) (cY p)\<rparr>"

section \<open>Addition\<close>

definition geAdd :: "ExtendedGroupElement \<Rightarrow> CachedGroupElement \<Rightarrow> CompletedGroupElement" where
  "geAdd p q =
     (let rX = FeAdd (eY p) (eX p);
          rY = FeSub (eY p) (eX p);
          rZ = FeMul rX (qyPlusX q);
          rY = FeMul rY (qyMinusX q);
          rT = FeMul (qT2d q) (eT p);
          rX = FeMul (eZ p) (qZ q);
          t0 = FeAdd rX rX;
          rX = FeSub rZ rY;
          rY = FeAdd rZ rY;
          rZ = FeAdd t0 rT;
          rT = FeSub t0 rT
      in \<lparr>cX = rX, cY = rY, cZ = rZ, cT = rT\<rparr>)"

definition geSub :: "ExtendedGroupElement \<Rightarrow> CachedGroupElement \<Rightarrow> CompletedGroupElement" where
  "geSub p q =
     (let rX = FeAdd (eY p) (eX p);
          rY = FeSub (eY p) (eX p);
          rZ = FeMul rX (qyMinusX q);
          rY = FeMul rY (qyPlusX q);
          rT = FeMul (qT2d q) (eT p);
          rX = FeMul (eZ p) (qZ q);
          t0 = FeAdd rX rX;
          rX = FeSub rZ rY;
          rY = FeAdd rZ rY;
          rZ = FeSub t0 rT;
          rT = FeAdd t0 rT
      in \<lparr>cX = rX, cY = rY, cZ = rZ, cT = rT\<rparr>)"

definition geMixedAdd :: "ExtendedGroupElement \<Rightarrow> PreComputedGroupElement \<Rightarrow> CompletedGroupElement" where
  "geMixedAdd p q =
     (let rX = FeAdd (eY p) (eX p);
          rY = FeSub (eY p) (eX p);
          rZ = FeMul rX (yPlusX q);
          rY = FeMul rY (yMinusX q);
          rT = FeMul (xy2d q) (eT p);
          t0 = FeAdd (eZ p) (eZ p);
          rX = FeSub rZ rY;
          rY = FeAdd rZ rY;
          rZ = FeAdd t0 rT;
          rT = FeSub t0 rT
      in \<lparr>cX = rX, cY = rY, cZ = rZ, cT = rT\<rparr>)"

definition geMixedSub :: "ExtendedGroupElement \<Rightarrow> PreComputedGroupElement \<Rightarrow> CompletedGroupElement" where
  "geMixedSub p q =
     (let rX = FeAdd (eY p) (eX p);
          rY = FeSub (eY p) (eX p);
          rZ = FeMul rX (yMinusX q);
          rY = FeMul rY (yPlusX q);
          rT = FeMul (xy2d q) (eT p);
          t0 = FeAdd (eZ p) (eZ p);
          rX = FeSub rZ rY;
          rY = FeAdd rZ rY;
          rZ = FeSub t0 rT;
          rT = FeAdd t0 rT
      in \<lparr>cX = rX, cY = rY, cZ = rZ, cT = rT\<rparr>)"

section \<open>The sliding window\<close>

text \<open>
  \<open>slide\<close> works on an array of 256 signed bytes. The search of the carry (\<open>for k := i + b\<close>) turns
  ones into zeros until it finds a zero; \<open>slide_bits\<close> is the loop over \<open>b\<close>, which stops at the
  first bit it can neither add nor subtract.
\<close>

definition scalar_bits :: "bytes \<Rightarrow> int list" where
  "scalar_bits a = map (\<lambda>i. i8 (uint (1 AND drop_bit (i mod 8) (a ! (i div 8))))) [0..<256]"

fun slide_carry :: "int list \<Rightarrow> int list" where
  "slide_carry [] = []"
| "slide_carry (x # r) = (if x = 0 then 1 # r else 0 # slide_carry r)"

fun slide_bits :: "nat \<Rightarrow> nat \<Rightarrow> int list \<Rightarrow> nat \<Rightarrow> int list" where
  "slide_bits 0 b r i = r"
| "slide_bits (Suc n) b r i =
     (if \<not> i + b < 256 then r
      else if r ! (i + b) = 0 then slide_bits n (b + 1) r i
      else let sh = i8 (push_bit b (r ! (i + b)))
           in if i8 (r ! i + sh) \<le> 15 then
                slide_bits n (b + 1) (r[i := i8 (r ! i + sh), i + b := 0]) i
              else if i8 (r ! i - sh) \<ge> - 15 then
                (let r = r[i := i8 (r ! i - sh)]
                 in slide_bits n (b + 1) (take (i + b) r @ slide_carry (drop (i + b) r)) i)
              else r)"

definition slide_step :: "nat \<Rightarrow> int list \<Rightarrow> int list" where
  "slide_step i r = (if r ! i \<noteq> 0 then slide_bits 6 1 r i else r)"

definition slide :: "bytes \<Rightarrow> int list" where
  "slide a = fold slide_step [0..<256] (scalar_bits a)"

text \<open>The odd multiples \<open>A, 3A, \<dots>, 15A\<close>.\<close>

fun odd_multiples :: "nat \<Rightarrow> ExtendedGroupElement \<Rightarrow> CachedGroupElement \<Rightarrow> CachedGroupElement list" where
  "odd_multiples 0 A2 Ai = [Ai]"
| "odd_multiples (Suc n) A2 Ai =
     Ai # odd_multiples n A2 (ext_ToCached (com_ToExtended (geAdd A2 Ai)))"

text \<open>One turn of the main loop, from the digits of both scalars at a position.\<close>

definition double_scalar_step ::
    "CachedGroupElement list \<Rightarrow> int \<times> int \<Rightarrow> ProjectiveGroupElement \<Rightarrow> ProjectiveGroupElement" where
  "double_scalar_step Ai ab r =
     (let (x, y) = ab;
          t = proj_Double r;
          t = (if x > 0 then geAdd (com_ToExtended t) (Ai ! nat (x div 2))
               else if x < 0 then geSub (com_ToExtended t) (Ai ! nat (- x div 2))
               else t);
          t = (if y > 0 then geMixedAdd (com_ToExtended t) (bi ! nat (y div 2))
               else if y < 0 then geMixedSub (com_ToExtended t) (bi ! nat (- y div 2))
               else t)
      in com_ToProjective t)"

definition GeDoubleScalarMultVartime ::
    "bytes \<Rightarrow> ExtendedGroupElement \<Rightarrow> bytes \<Rightarrow> ProjectiveGroupElement" where
  "GeDoubleScalarMultVartime a A b =
     (let aSlide = slide a;
          bSlide = slide b;
          A2 = com_ToExtended (ext_Double A);
          Ai = odd_multiples 7 A2 (ext_ToCached A);
          digits = dropWhile (\<lambda>(x, y). x = 0 \<and> y = 0) (rev (zip aSlide bSlide))
      in fold (double_scalar_step Ai) digits proj_Zero)"

section \<open>Selecting a multiple without a branch\<close>

definition ct_equal :: "int \<Rightarrow> int \<Rightarrow> int" where
  "ct_equal b c =
     (let x = (word_of_int (b XOR c) :: 32 word);
          x = x - 1
      in i32 (uint (drop_bit 31 x)))"

definition negative :: "int \<Rightarrow> int" where
  "negative b = sar b 31 AND 1"

definition PreComputedGroupElementCMove ::
    "PreComputedGroupElement \<Rightarrow> PreComputedGroupElement \<Rightarrow> int \<Rightarrow> PreComputedGroupElement" where
  "PreComputedGroupElementCMove t u b =
     precomputed (FeCMove (yPlusX t) (yPlusX u) b) (FeCMove (yMinusX t) (yMinusX u) b)
       (FeCMove (xy2d t) (xy2d u) b)"

definition selectPoint :: "nat \<Rightarrow> int \<Rightarrow> PreComputedGroupElement" where
  "selectPoint pos b =
     (let bNegative = negative b;
          bAbs = i32 (b - shl32 (i32 (- bNegative) AND b) 1);
          t = fold (\<lambda>i t. PreComputedGroupElementCMove t (base ! pos ! i) (ct_equal bAbs (int i + 1)))
                [0..<8] pre_Zero;
          minusT = precomputed (FeCopy (yMinusX t)) (FeCopy (yPlusX t)) (FeNeg (xy2d t))
      in PreComputedGroupElementCMove t minusT bNegative)"

section \<open>Multiplying the base point\<close>

definition nibbles :: "bytes \<Rightarrow> int list" where
  "nibbles a = concat (map (\<lambda>v. [i8 (uint (v AND 15)), i8 (uint (drop_bit 4 v AND 15))]) a)"

text \<open>The carries that make the digits signed: every digit but the last passes its carry on.\<close>

fun signed_digits :: "int \<Rightarrow> int list \<Rightarrow> int list" where
  "signed_digits c [] = []"
| "signed_digits c [e] = [i8 (e + c)]"
| "signed_digits c (e # es) =
     (let e = i8 (e + c);
          c = sar (i8 (e + 8)) 4;
          e = i8 (e - i8 (push_bit 4 c))
      in e # signed_digits c es)"

definition add_digit :: "int list \<Rightarrow> nat \<Rightarrow> ExtendedGroupElement \<Rightarrow> ExtendedGroupElement" where
  "add_digit e i h = com_ToExtended (geMixedAdd h (selectPoint (i div 2) (e ! i)))"

definition GeScalarMultBase :: "bytes \<Rightarrow> ExtendedGroupElement" where
  "GeScalarMultBase a =
     (let e = signed_digits 0 (nibbles a);
          h = fold (add_digit e) (map (\<lambda>i. 2 * i + 1) [0..<32]) ext_Zero;
          s = com_ToProjective (ext_Double h);
          s = com_ToProjective (proj_Double s);
          s = com_ToProjective (proj_Double s);
          h = com_ToExtended (proj_Double s)
      in fold (add_digit e) (map (\<lambda>i. 2 * i) [0..<32]) h)"

end
