(* ===== verification/Fe_Facts.thy ===== *)
theory Fe_Facts
  imports Fe25519
begin

text \<open>
  What the limbs denote, and the correctness of \<open>FeCombine\<close>, \<open>FeMul\<close>, \<open>FeSquare\<close> and \<open>FeSquare2\<close>
  modulo \<open>2^255 - 19\<close>, with the bounds under which no operation wraps.
\<close>

section \<open>The value of an element\<close>

definition p25519 :: int where "p25519 = 2 ^ 255 - 19"

fun fe_val :: "FieldElement \<Rightarrow> int" where
  "fe_val (Fe f0 f1 f2 f3 f4 f5 f6 f7 f8 f9) =
     f0 + 2 ^ 26 * f1 + 2 ^ 51 * f2 + 2 ^ 77 * f3 + 2 ^ 102 * f4 + 2 ^ 128 * f5 + 2 ^ 153 * f6 + 2 ^ 179 * f7 + 2 ^ 204 * f8 + 2 ^ 230 * f9"

fun fe_bnd :: "int \<Rightarrow> int \<Rightarrow> FieldElement \<Rightarrow> bool" where
  "fe_bnd a b (Fe f0 f1 f2 f3 f4 f5 f6 f7 f8 f9) \<longleftrightarrow>
     \<bar>f0\<bar> \<le> a \<and> \<bar>f1\<bar> \<le> b \<and> \<bar>f2\<bar> \<le> a \<and> \<bar>f3\<bar> \<le> b \<and> \<bar>f4\<bar> \<le> a \<and> \<bar>f5\<bar> \<le> b \<and> \<bar>f6\<bar> \<le> a \<and> \<bar>f7\<bar> \<le> b \<and> \<bar>f8\<bar> \<le> a \<and> \<bar>f9\<bar> \<le> b"

text \<open>
  An operand may reach \<open>1.65 * 2^26\<close> in its even limbs and half of it in the odd ones; a product
  stays within \<open>2^25\<close> and \<open>1.01 * 2^24\<close>. The comments of the source promise less: they want
  operands within \<open>1.1 * 2^26\<close>, which the sums of three products in \<open>geAdd\<close> exceed.
\<close>

abbreviation fe_loose :: "FieldElement \<Rightarrow> bool" where "fe_loose \<equiv> fe_bnd 110729625 55364812"
abbreviation fe_tight :: "FieldElement \<Rightarrow> bool" where "fe_tight \<equiv> fe_bnd 33554432 16944988"

lemma fe_bnd_mono: "fe_bnd a b f \<Longrightarrow> a \<le> a' \<Longrightarrow> b \<le> b' \<Longrightarrow> fe_bnd a' b' f"
  by (cases f) auto

lemma tight_loose [intro]: "fe_tight f \<Longrightarrow> fe_loose f"
  by (erule fe_bnd_mono) simp_all

lemma mod_p_eqI: "a = b + p25519 * k \<Longrightarrow> a mod p25519 = b mod p25519"
  by simp

section \<open>Carries\<close>

text \<open>The rounded quotient of a carry, and what subtracting its multiple leaves.\<close>

definition carry_q :: "nat \<Rightarrow> int \<Rightarrow> int" where
  "carry_q k lo = sar (i64 (lo + shl64 1 (k - 1))) k"

lemma carry_round:
  assumes lo: "\<bar>lo\<bar> \<le> 6917529027641081856" and M: "M = 2 ^ j" "1048576 \<le> M" "M \<le> 33554432"
    and c: "c = carry_q (Suc j) lo"
  shows "- M \<le> lo - 2 * M * c" "lo - 2 * M * c < M" "shl64 c (Suc j) = 2 * M * c"
    "\<bar>c\<bar> \<le> 3298534883360" "i64 (lo - 2 * M * c) = lo - 2 * M * c"
proof -
  have s: "shl64 1 (Suc j - 1) = M"
    unfolding shl64_def push_bit_eq_mult using M by (simp add: i64_id)
  have w: "i64 (lo + M) = lo + M" using lo M by (intro i64_id) linarith+
  obtain r where r: "lo + M = 2 * M * c + r" "0 \<le> r" "r < 2 * M"
    using sar_split [of "lo + M" "Suc j"] M(1) unfolding c carry_q_def s w by auto
  show b: "- M \<le> lo - 2 * M * c" "lo - 2 * M * c < M" using r by linarith+
  have "\<bar>2 * M * c\<bar> \<le> 6917529027641081856 + 33554432" using b lo M by linarith
  then have m: "\<bar>2 * M * c\<bar> \<le> 6917529027674636288" by linarith
  have "2097152 * \<bar>c\<bar> \<le> 2 * M * \<bar>c\<bar>" using M by (intro mult_right_mono) linarith+
  also have "\<dots> = \<bar>2 * M * c\<bar>" using M by (simp add: abs_mult)
  finally show "\<bar>c\<bar> \<le> 3298534883360" using m by linarith
  have "push_bit (Suc j) c = 2 * M * c" using M(1) by (simp add: push_bit_eq_mult)
  then show "shl64 c (Suc j) = 2 * M * c"
    unfolding shl64_def using m by (subst i64_id) linarith+
  show "i64 (lo - 2 * M * c) = lo - 2 * M * c" using b M by (intro i64_id) linarith+
qed

lemma carry_eq: "carry k lo hi = (i64 (lo - shl64 (carry_q k lo) k), i64 (hi + carry_q k lo))"
  and carry_top_eq: "carry_top k lo hi = (i64 (lo - shl64 (carry_q k lo) k), i64 (hi + i64 (carry_q k lo * 19)))"
  by (simp_all add: carry_def carry_top_def carry_q_def Let_def)

lemma carry26:
  assumes lo: "\<bar>lo\<bar> \<le> 6917529027641081856" and hi: "\<bar>hi\<bar> \<le> 6917529027641081856"
  obtains c r where "carry 26 lo hi = (r, hi + c)" "lo = 67108864 * c + r" "\<bar>r\<bar> \<le> 33554432"
proof -
  have k: "Suc 25 = 26" by simp
  note r = carry_round [OF lo, of 33554432 25 "carry_q 26 lo", unfolded k, simplified]
  have "i64 (hi + carry_q 26 lo) = hi + carry_q 26 lo" using hi r(4) by (intro i64_id) linarith+
  then have "carry 26 lo hi = (lo - 67108864 * carry_q 26 lo, hi + carry_q 26 lo)"
    using r(3,5) by (simp add: carry_eq)
  moreover have "\<bar>lo - 67108864 * carry_q 26 lo\<bar> \<le> 33554432" using r(1,2) by linarith
  ultimately show thesis using that [of "lo - 67108864 * carry_q 26 lo" "carry_q 26 lo"] by simp
qed

lemma carry25:
  assumes lo: "\<bar>lo\<bar> \<le> 6917529027641081856" and hi: "\<bar>hi\<bar> \<le> 6917529027641081856"
  obtains c r where "carry 25 lo hi = (r, hi + c)" "lo = 33554432 * c + r" "\<bar>r\<bar> \<le> 16777216"
proof -
  have k: "Suc 24 = 25" by simp
  note r = carry_round [OF lo, of 16777216 24 "carry_q 25 lo", unfolded k, simplified]
  have "i64 (hi + carry_q 25 lo) = hi + carry_q 25 lo" using hi r(4) by (intro i64_id) linarith+
  then have "carry 25 lo hi = (lo - 33554432 * carry_q 25 lo, hi + carry_q 25 lo)"
    using r(3,5) by (simp add: carry_eq)
  moreover have "\<bar>lo - 33554432 * carry_q 25 lo\<bar> \<le> 16777216" using r(1,2) by linarith
  ultimately show thesis using that [of "lo - 33554432 * carry_q 25 lo" "carry_q 25 lo"] by simp
qed

lemma carry_top25:
  assumes lo: "\<bar>lo\<bar> \<le> 6917529027641081856" and hi: "\<bar>hi\<bar> \<le> 6917529027641081856"
  obtains c r where "carry_top 25 lo hi = (r, hi + 19 * c)" "lo = 33554432 * c + r" "\<bar>r\<bar> \<le> 16777216"
proof -
  have k: "Suc 24 = 25" by simp
  note r = carry_round [OF lo, of 16777216 24 "carry_q 25 lo", unfolded k, simplified]
  have "i64 (carry_q 25 lo * 19) = 19 * carry_q 25 lo" using r(4) by (subst i64_id) linarith+
  moreover have "i64 (hi + 19 * carry_q 25 lo) = hi + 19 * carry_q 25 lo"
    using hi r(4) by (intro i64_id) linarith+
  ultimately have "carry_top 25 lo hi = (lo - 33554432 * carry_q 25 lo, hi + 19 * carry_q 25 lo)"
    using r(3,5) by (simp add: carry_top_eq)
  moreover have "\<bar>lo - 33554432 * carry_q 25 lo\<bar> \<le> 16777216" using r(1,2) by linarith
  ultimately show thesis using that [of "lo - 33554432 * carry_q 25 lo" "carry_q 25 lo"] by simp
qed

section \<open>The carry chain\<close>

lemma FeCombine_spec:
  assumes b: "\<bar>h0\<bar> \<le> 6000000000000000000"
    "\<bar>h1\<bar> \<le> 6000000000000000000"
    "\<bar>h2\<bar> \<le> 6000000000000000000"
    "\<bar>h3\<bar> \<le> 6000000000000000000"
    "\<bar>h4\<bar> \<le> 6000000000000000000"
    "\<bar>h5\<bar> \<le> 6000000000000000000"
    "\<bar>h6\<bar> \<le> 6000000000000000000"
    "\<bar>h7\<bar> \<le> 6000000000000000000"
    "\<bar>h8\<bar> \<le> 6000000000000000000"
    "\<bar>h9\<bar> \<le> 6000000000000000000"
  shows "fe_tight (FeCombine h0 h1 h2 h3 h4 h5 h6 h7 h8 h9)"
    "fe_val (FeCombine h0 h1 h2 h3 h4 h5 h6 h7 h8 h9) mod p25519 =
       (h0 + 2 ^ 26 * h1 + 2 ^ 51 * h2 + 2 ^ 77 * h3 + 2 ^ 102 * h4 + 2 ^ 128 * h5 + 2 ^ 153 * h6 + 2 ^ 179 * h7 + 2 ^ 204 * h8 + 2 ^ 230 * h9) mod p25519"
proof -
  obtain c0 r0 where s0: "carry 26 h0 h1 = (r0, h1 + c0)"
      "h0 = 67108864 * c0 + r0" "\<bar>r0\<bar> \<le> 33554432"
    by (rule carry26 [of "h0" "h1"]) (use b(1) b(2) in linarith)+
  have m0: "\<bar>h1 + c0\<bar> \<le> 6000000089406967164" using b(1) b(2) s0(2,3) by linarith
  obtain c1 r1 where s1: "carry 26 h4 h5 = (r1, h5 + c1)"
      "h4 = 67108864 * c1 + r1" "\<bar>r1\<bar> \<le> 33554432"
    by (rule carry26 [of "h4" "h5"]) (use b(5) b(6) in linarith)+
  have m1: "\<bar>h5 + c1\<bar> \<le> 6000000089406967164" using b(5) b(6) s1(2,3) by linarith
  obtain c2 r2 where s2: "carry 25 (h1 + c0) h2 = (r2, h2 + c2)"
      "h1 + c0 = 33554432 * c2 + r2" "\<bar>r2\<bar> \<le> 16777216"
    by (rule carry25 [of "h1 + c0" "h2"]) (use m0 b(3) in linarith)+
  have m2: "\<bar>h2 + c2\<bar> \<le> 6000000178813936992" using m0 b(3) s2(2,3) by linarith
  obtain c3 r3 where s3: "carry 25 (h5 + c1) h6 = (r3, h6 + c3)"
      "h5 + c1 = 33554432 * c3 + r3" "\<bar>r3\<bar> \<le> 16777216"
    by (rule carry25 [of "h5 + c1" "h6"]) (use m1 b(7) in linarith)+
  have m3: "\<bar>h6 + c3\<bar> \<le> 6000000178813936992" using m1 b(7) s3(2,3) by linarith
  obtain c4 r4 where s4: "carry 26 (h2 + c2) h3 = (r4, h3 + c4)"
      "h2 + c2 = 67108864 * c4 + r4" "\<bar>r4\<bar> \<le> 33554432"
    by (rule carry26 [of "h2 + c2" "h3"]) (use m2 b(4) in linarith)+
  have m4: "\<bar>h3 + c4\<bar> \<le> 6000000089406969829" using m2 b(4) s4(2,3) by linarith
  obtain c5 r5 where s5: "carry 26 (h6 + c3) h7 = (r5, h7 + c5)"
      "h6 + c3 = 67108864 * c5 + r5" "\<bar>r5\<bar> \<le> 33554432"
    by (rule carry26 [of "h6 + c3" "h7"]) (use m3 b(8) in linarith)+
  have m5: "\<bar>h7 + c5\<bar> \<le> 6000000089406969829" using m3 b(8) s5(2,3) by linarith
  obtain c6 r6 where s6: "carry 25 (h3 + c4) r1 = (r6, r1 + c6)"
      "h3 + c4 = 33554432 * c6 + r6" "\<bar>r6\<bar> \<le> 16777216"
    by (rule carry25 [of "h3 + c4" "r1"]) (use m4 s1(3) in linarith)+
  have m6: "\<bar>r1 + c6\<bar> \<le> 178847491424" using m4 s1(3) s6(2,3) by linarith
  obtain c7 r7 where s7: "carry 25 (h7 + c5) h8 = (r7, h8 + c7)"
      "h7 + c5 = 33554432 * c7 + r7" "\<bar>r7\<bar> \<le> 16777216"
    by (rule carry25 [of "h7 + c5" "h8"]) (use m5 b(9) in linarith)+
  have m7: "\<bar>h8 + c7\<bar> \<le> 6000000178813936992" using m5 b(9) s7(2,3) by linarith
  obtain c8 r8 where s8: "carry 26 (r1 + c6) r3 = (r8, r3 + c8)"
      "r1 + c6 = 67108864 * c8 + r8" "\<bar>r8\<bar> \<le> 33554432"
    by (rule carry26 [of "r1 + c6" "r3"]) (use m6 s3(3) in linarith)+
  have m8: "\<bar>r3 + c8\<bar> \<le> 16779882" using m6 s3(3) s8(2,3) by linarith
  obtain c9 r9 where s9: "carry 26 (h8 + c7) h9 = (r9, h9 + c9)"
      "h8 + c7 = 67108864 * c9 + r9" "\<bar>r9\<bar> \<le> 33554432"
    by (rule carry26 [of "h8 + c7" "h9"]) (use m7 b(10) in linarith)+
  have m9: "\<bar>h9 + c9\<bar> \<le> 6000000089406969829" using m7 b(10) s9(2,3) by linarith
  obtain c10 r10 where s10: "carry_top 25 (h9 + c9) r0 = (r10, r0 + 19 * c10)"
      "h9 + c9 = 33554432 * c10 + r10" "\<bar>r10\<bar> \<le> 16777216"
    by (rule carry_top25 [of "h9 + c9" "r0"]) (use m9 s0(3) in linarith)+
  have m10: "\<bar>r0 + 19 * c10\<bar> \<le> 3397498357280" using m9 s0(3) s10(2,3) by linarith
  obtain c11 r11 where s11: "carry 26 (r0 + 19 * c10) r2 = (r11, r2 + c11)"
      "r0 + 19 * c10 = 67108864 * c11 + r11" "\<bar>r11\<bar> \<le> 33554432"
    by (rule carry26 [of "r0 + 19 * c10" "r2"]) (use m10 s2(3) in linarith)+
  have m11: "\<bar>r2 + c11\<bar> \<le> 16827844" using m10 s2(3) s11(2,3) by linarith
  have w0: "i32 r11 = r11" using s11(3) by (intro i32_abs) linarith
  have w1: "i32 (r2 + c11) = r2 + c11" using m11 by (intro i32_abs) linarith
  have w2: "i32 r4 = r4" using s4(3) by (intro i32_abs) linarith
  have w3: "i32 r6 = r6" using s6(3) by (intro i32_abs) linarith
  have w4: "i32 r8 = r8" using s8(3) by (intro i32_abs) linarith
  have w5: "i32 (r3 + c8) = r3 + c8" using m8 by (intro i32_abs) linarith
  have w6: "i32 r5 = r5" using s5(3) by (intro i32_abs) linarith
  have w7: "i32 r7 = r7" using s7(3) by (intro i32_abs) linarith
  have w8: "i32 r9 = r9" using s9(3) by (intro i32_abs) linarith
  have w9: "i32 r10 = r10" using s10(3) by (intro i32_abs) linarith
  have eq: "FeCombine h0 h1 h2 h3 h4 h5 h6 h7 h8 h9 =
      Fe r11 (r2 + c11) r4 r6 r8 (r3 + c8) r5 r7 r9 r10"
    unfolding FeCombine_def Let_def s0(1) s1(1) s2(1) s3(1) s4(1) s5(1) s6(1) s7(1) s8(1) s9(1) s10(1) s11(1) prod.case w0 w1 w2 w3 w4 w5 w6 w7 w8 w9 ..
  show "fe_tight (FeCombine h0 h1 h2 h3 h4 h5 h6 h7 h8 h9)"
    unfolding eq fe_bnd.simps by (intro conjI; use s11(3) m11 s4(3) s6(3) s8(3) m8 s5(3) s7(3) s9(3) s10(3) in linarith)
  show "fe_val (FeCombine h0 h1 h2 h3 h4 h5 h6 h7 h8 h9) mod p25519 =
       (h0 + 2 ^ 26 * h1 + 2 ^ 51 * h2 + 2 ^ 77 * h3 + 2 ^ 102 * h4 + 2 ^ 128 * h5 + 2 ^ 153 * h6 + 2 ^ 179 * h7 + 2 ^ 204 * h8 + 2 ^ 230 * h9) mod p25519"
    unfolding eq fe_val.simps
  proof (rule mod_p_eqI [where k = "- c10"])
    have h: "r0 = 67108864 * c11 + r11 - 19 * c10" "r1 = 67108864 * c8 + r8 - c6" "h0 = 67108864 * c0 + (67108864 * c11 + r11 - 19 * c10)" "h4 = 67108864 * c1 + (67108864 * c8 + r8 - c6)" "h1 = 33554432 * c2 + r2 - c0" "h5 = 33554432 * c3 + r3 - c1" "h2 = 67108864 * c4 + r4 - c2" "h6 = 67108864 * c5 + r5 - c3" "h3 = 33554432 * c6 + r6 - c4" "h7 = 33554432 * c7 + r7 - c5" "h8 = 67108864 * c9 + r9 - c7" "h9 = 33554432 * c10 + r10 - c9"
      using s0(2) s1(2) s2(2) s3(2) s4(2) s5(2) s6(2) s7(2) s8(2) s9(2) s10(2) s11(2) by linarith+
    show "r11 + 2 ^ 26 * (r2 + c11) + 2 ^ 51 * r4 + 2 ^ 77 * r6 + 2 ^ 102 * r8 + 2 ^ 128 * (r3 + c8) + 2 ^ 153 * r5 + 2 ^ 179 * r7 + 2 ^ 204 * r9 + 2 ^ 230 * r10 = h0 + 2 ^ 26 * h1 + 2 ^ 51 * h2 + 2 ^ 77 * h3 + 2 ^ 102 * h4 + 2 ^ 128 * h5 + 2 ^ 153 * h6 + 2 ^ 179 * h7 + 2 ^ 204 * h8 + 2 ^ 230 * h9 + p25519 * - c10"
      unfolding h p25519_def by (simp add: algebra_simps)
  qed
qed

section \<open>Multiplication\<close>

lemma add_bd: "\<bar>x\<bar> \<le> A \<Longrightarrow> \<bar>y\<bar> \<le> B \<Longrightarrow> \<bar>x + y\<bar> \<le> A + B" for x y :: int
  by linarith

lemma mult_bd: "\<bar>x\<bar> \<le> A \<Longrightarrow> \<bar>y\<bar> \<le> B \<Longrightarrow> \<bar>x * y\<bar> \<le> A * B" for x y :: int
  by (simp add: abs_mult mult_mono')

lemma looseD:
  assumes "fe_loose (Fe f0 f1 f2 f3 f4 f5 f6 f7 f8 f9)"
  shows "\<bar>f0\<bar> \<le> 110729625" "\<bar>f2\<bar> \<le> 110729625" "\<bar>f4\<bar> \<le> 110729625"
    "\<bar>f6\<bar> \<le> 110729625" "\<bar>f8\<bar> \<le> 110729625" "\<bar>f1\<bar> \<le> 55364812" "\<bar>f3\<bar> \<le> 55364812"
    "\<bar>f5\<bar> \<le> 55364812" "\<bar>f7\<bar> \<le> 55364812" "\<bar>f9\<bar> \<le> 55364812"
  using assms by simp_all

lemma odd_scale:
  assumes "\<bar>x\<bar> \<le> 55364812"
  shows "\<bar>x\<bar> \<le> 110729625" "\<bar>2 * x\<bar> \<le> 110729625" "i32 (2 * x) = 2 * x"
  using assms by (linarith, linarith, intro i32_abs, linarith)

lemma scale19:
  assumes "\<bar>x\<bar> \<le> 110729625"
  shows "\<bar>19 * x\<bar> \<le> 2103862875" "i32 (19 * x) = 19 * x"
  using assms by (linarith, intro i32_abs, linarith)

text \<open>The ten coefficients of the product, over the integers.\<close>

lemma mult_congruence:
  "(f0 * g0 + (2 * f1) * (19 * g9) + f2 * (19 * g8) + (2 * f3) * (19 * g7) + f4 * (19 * g6)
     + (2 * f5) * (19 * g5) + f6 * (19 * g4) + (2 * f7) * (19 * g3) + f8 * (19 * g2)
     + (2 * f9) * (19 * g1)) + 2 ^ 26 * (f0 * g1 + f1 * g0 + f2 * (19 * g9) + f3 * (19 * g8)
     + f4 * (19 * g7) + f5 * (19 * g6) + f6 * (19 * g5) + f7 * (19 * g4) + f8 * (19 * g3)
     + f9 * (19 * g2)) + 2 ^ 51 * (f0 * g2 + (2 * f1) * g1 + f2 * g0 + (2 * f3) * (19 * g9)
     + f4 * (19 * g8) + (2 * f5) * (19 * g7) + f6 * (19 * g6) + (2 * f7) * (19 * g5)
     + f8 * (19 * g4) + (2 * f9) * (19 * g3)) + 2 ^ 77 * (f0 * g3 + f1 * g2 + f2 * g1 + f3 * g0
     + f4 * (19 * g9) + f5 * (19 * g8) + f6 * (19 * g7) + f7 * (19 * g6) + f8 * (19 * g5)
     + f9 * (19 * g4)) + 2 ^ 102 * (f0 * g4 + (2 * f1) * g3 + f2 * g2 + (2 * f3) * g1 + f4 * g0
     + (2 * f5) * (19 * g9) + f6 * (19 * g8) + (2 * f7) * (19 * g7) + f8 * (19 * g6)
     + (2 * f9) * (19 * g5)) + 2 ^ 128 * (f0 * g5 + f1 * g4 + f2 * g3 + f3 * g2 + f4 * g1
     + f5 * g0 + f6 * (19 * g9) + f7 * (19 * g8) + f8 * (19 * g7) + f9 * (19 * g6))
     + 2 ^ 153 * (f0 * g6 + (2 * f1) * g5 + f2 * g4 + (2 * f3) * g3 + f4 * g2 + (2 * f5) * g1
     + f6 * g0 + (2 * f7) * (19 * g9) + f8 * (19 * g8) + (2 * f9) * (19 * g7))
     + 2 ^ 179 * (f0 * g7 + f1 * g6 + f2 * g5 + f3 * g4 + f4 * g3 + f5 * g2 + f6 * g1 + f7 * g0
     + f8 * (19 * g9) + f9 * (19 * g8)) + 2 ^ 204 * (f0 * g8 + (2 * f1) * g7 + f2 * g6
     + (2 * f3) * g5 + f4 * g4 + (2 * f5) * g3 + f6 * g2 + (2 * f7) * g1 + f8 * g0
     + (2 * f9) * (19 * g9)) + 2 ^ 230 * (f0 * g9 + f1 * g8 + f2 * g7 + f3 * g6 + f4 * g5
     + f5 * g4 + f6 * g3 + f7 * g2 + f8 * g1 + f9 * g0)
   = (f0 + 2 ^ 26 * f1 + 2 ^ 51 * f2 + 2 ^ 77 * f3 + 2 ^ 102 * f4 + 2 ^ 128 * f5 + 2 ^ 153 * f6
      + 2 ^ 179 * f7 + 2 ^ 204 * f8 + 2 ^ 230 * f9)
     * (g0 + 2 ^ 26 * g1 + 2 ^ 51 * g2 + 2 ^ 77 * g3 + 2 ^ 102 * g4 + 2 ^ 128 * g5 + 2 ^ 153 * g6
        + 2 ^ 179 * g7 + 2 ^ 204 * g8 + 2 ^ 230 * g9)
     + p25519 * - (2 ^ 1 * (f1 * g9) + 2 ^ 0 * (f2 * g8) + 2 ^ 26 * (f2 * g9) + 2 ^ 1 * (f3 * g7)
        + 2 ^ 26 * (f3 * g8) + 2 ^ 52 * (f3 * g9) + 2 ^ 0 * (f4 * g6) + 2 ^ 26 * (f4 * g7)
        + 2 ^ 51 * (f4 * g8) + 2 ^ 77 * (f4 * g9) + 2 ^ 1 * (f5 * g5) + 2 ^ 26 * (f5 * g6)
        + 2 ^ 52 * (f5 * g7) + 2 ^ 77 * (f5 * g8) + 2 ^ 103 * (f5 * g9) + 2 ^ 0 * (f6 * g4)
        + 2 ^ 26 * (f6 * g5) + 2 ^ 51 * (f6 * g6) + 2 ^ 77 * (f6 * g7) + 2 ^ 102 * (f6 * g8)
        + 2 ^ 128 * (f6 * g9) + 2 ^ 1 * (f7 * g3) + 2 ^ 26 * (f7 * g4) + 2 ^ 52 * (f7 * g5)
        + 2 ^ 77 * (f7 * g6) + 2 ^ 103 * (f7 * g7) + 2 ^ 128 * (f7 * g8) + 2 ^ 154 * (f7 * g9)
        + 2 ^ 0 * (f8 * g2) + 2 ^ 26 * (f8 * g3) + 2 ^ 51 * (f8 * g4) + 2 ^ 77 * (f8 * g5)
        + 2 ^ 102 * (f8 * g6) + 2 ^ 128 * (f8 * g7) + 2 ^ 153 * (f8 * g8) + 2 ^ 179 * (f8 * g9)
        + 2 ^ 1 * (f9 * g1) + 2 ^ 26 * (f9 * g2) + 2 ^ 52 * (f9 * g3) + 2 ^ 77 * (f9 * g4)
        + 2 ^ 103 * (f9 * g5) + 2 ^ 128 * (f9 * g6) + 2 ^ 154 * (f9 * g7) + 2 ^ 179 * (f9 * g8)
        + 2 ^ 205 * (f9 * g9))"
  unfolding p25519_def by (simp add: algebra_simps)

lemma product_bounds:
  assumes "fe_loose (Fe f0 f1 f2 f3 f4 f5 f6 f7 f8 f9)" "fe_loose (Fe g0 g1 g2 g3 g4 g5 g6 g7 g8 g9)"
  shows "\<bar>f0 * g0 + (2 * f1) * (19 * g9) + f2 * (19 * g8) + (2 * f3) * (19 * g7)
            + f4 * (19 * g6) + (2 * f5) * (19 * g5) + f6 * (19 * g4) + (2 * f7) * (19 * g3)
            + f8 * (19 * g2) + (2 * f9) * (19 * g1)\<bar> \<le> 2400000000000000000"
    "\<bar>f0 * g1 + f1 * g0 + f2 * (19 * g9) + f3 * (19 * g8) + f4 * (19 * g7) + f5 * (19 * g6)
            + f6 * (19 * g5) + f7 * (19 * g4) + f8 * (19 * g3) + f9 * (19 * g2)\<bar> \<le> 2400000000000000000"
    "\<bar>f0 * g2 + (2 * f1) * g1 + f2 * g0 + (2 * f3) * (19 * g9) + f4 * (19 * g8)
            + (2 * f5) * (19 * g7) + f6 * (19 * g6) + (2 * f7) * (19 * g5) + f8 * (19 * g4)
            + (2 * f9) * (19 * g3)\<bar> \<le> 2400000000000000000"
    "\<bar>f0 * g3 + f1 * g2 + f2 * g1 + f3 * g0 + f4 * (19 * g9) + f5 * (19 * g8)
            + f6 * (19 * g7) + f7 * (19 * g6) + f8 * (19 * g5) + f9 * (19 * g4)\<bar> \<le> 2400000000000000000"
    "\<bar>f0 * g4 + (2 * f1) * g3 + f2 * g2 + (2 * f3) * g1 + f4 * g0 + (2 * f5) * (19 * g9)
            + f6 * (19 * g8) + (2 * f7) * (19 * g7) + f8 * (19 * g6) + (2 * f9) * (19 * g5)\<bar> \<le> 2400000000000000000"
    "\<bar>f0 * g5 + f1 * g4 + f2 * g3 + f3 * g2 + f4 * g1 + f5 * g0 + f6 * (19 * g9)
            + f7 * (19 * g8) + f8 * (19 * g7) + f9 * (19 * g6)\<bar> \<le> 2400000000000000000"
    "\<bar>f0 * g6 + (2 * f1) * g5 + f2 * g4 + (2 * f3) * g3 + f4 * g2 + (2 * f5) * g1 + f6 * g0
            + (2 * f7) * (19 * g9) + f8 * (19 * g8) + (2 * f9) * (19 * g7)\<bar> \<le> 2400000000000000000"
    "\<bar>f0 * g7 + f1 * g6 + f2 * g5 + f3 * g4 + f4 * g3 + f5 * g2 + f6 * g1 + f7 * g0
            + f8 * (19 * g9) + f9 * (19 * g8)\<bar> \<le> 2400000000000000000"
    "\<bar>f0 * g8 + (2 * f1) * g7 + f2 * g6 + (2 * f3) * g5 + f4 * g4 + (2 * f5) * g3 + f6 * g2
            + (2 * f7) * g1 + f8 * g0 + (2 * f9) * (19 * g9)\<bar> \<le> 2400000000000000000"
    "\<bar>f0 * g9 + f1 * g8 + f2 * g7 + f3 * g6 + f4 * g5 + f5 * g4 + f6 * g3 + f7 * g2
            + f8 * g1 + f9 * g0\<bar> \<le> 2400000000000000000"
proof -
  note l = looseD [OF assms(1)] looseD [OF assms(2)]
  note bd = l(1-5) l(6-10) [THEN odd_scale(1)] l(6-10) [THEN odd_scale(2)]
    l(11-15) l(11-15) [THEN scale19(1)] l(16-20) [THEN odd_scale(1)] l(16-20) [THEN odd_scale(1), THEN scale19(1)]
  show "\<bar>f0 * g0 + (2 * f1) * (19 * g9) + f2 * (19 * g8) + (2 * f3) * (19 * g7)
            + f4 * (19 * g6) + (2 * f5) * (19 * g5) + f6 * (19 * g4) + (2 * f7) * (19 * g3)
            + f8 * (19 * g2) + (2 * f9) * (19 * g1)\<bar> \<le> 2400000000000000000"
    by (rule order_trans, (rule bd add_bd | rule mult_bd)+) simp
  show "\<bar>f0 * g1 + f1 * g0 + f2 * (19 * g9) + f3 * (19 * g8) + f4 * (19 * g7) + f5 * (19 * g6)
            + f6 * (19 * g5) + f7 * (19 * g4) + f8 * (19 * g3) + f9 * (19 * g2)\<bar> \<le> 2400000000000000000"
    by (rule order_trans, (rule bd add_bd | rule mult_bd)+) simp
  show "\<bar>f0 * g2 + (2 * f1) * g1 + f2 * g0 + (2 * f3) * (19 * g9) + f4 * (19 * g8)
            + (2 * f5) * (19 * g7) + f6 * (19 * g6) + (2 * f7) * (19 * g5) + f8 * (19 * g4)
            + (2 * f9) * (19 * g3)\<bar> \<le> 2400000000000000000"
    by (rule order_trans, (rule bd add_bd | rule mult_bd)+) simp
  show "\<bar>f0 * g3 + f1 * g2 + f2 * g1 + f3 * g0 + f4 * (19 * g9) + f5 * (19 * g8)
            + f6 * (19 * g7) + f7 * (19 * g6) + f8 * (19 * g5) + f9 * (19 * g4)\<bar> \<le> 2400000000000000000"
    by (rule order_trans, (rule bd add_bd | rule mult_bd)+) simp
  show "\<bar>f0 * g4 + (2 * f1) * g3 + f2 * g2 + (2 * f3) * g1 + f4 * g0 + (2 * f5) * (19 * g9)
            + f6 * (19 * g8) + (2 * f7) * (19 * g7) + f8 * (19 * g6) + (2 * f9) * (19 * g5)\<bar> \<le> 2400000000000000000"
    by (rule order_trans, (rule bd add_bd | rule mult_bd)+) simp
  show "\<bar>f0 * g5 + f1 * g4 + f2 * g3 + f3 * g2 + f4 * g1 + f5 * g0 + f6 * (19 * g9)
            + f7 * (19 * g8) + f8 * (19 * g7) + f9 * (19 * g6)\<bar> \<le> 2400000000000000000"
    by (rule order_trans, (rule bd add_bd | rule mult_bd)+) simp
  show "\<bar>f0 * g6 + (2 * f1) * g5 + f2 * g4 + (2 * f3) * g3 + f4 * g2 + (2 * f5) * g1 + f6 * g0
            + (2 * f7) * (19 * g9) + f8 * (19 * g8) + (2 * f9) * (19 * g7)\<bar> \<le> 2400000000000000000"
    by (rule order_trans, (rule bd add_bd | rule mult_bd)+) simp
  show "\<bar>f0 * g7 + f1 * g6 + f2 * g5 + f3 * g4 + f4 * g3 + f5 * g2 + f6 * g1 + f7 * g0
            + f8 * (19 * g9) + f9 * (19 * g8)\<bar> \<le> 2400000000000000000"
    by (rule order_trans, (rule bd add_bd | rule mult_bd)+) simp
  show "\<bar>f0 * g8 + (2 * f1) * g7 + f2 * g6 + (2 * f3) * g5 + f4 * g4 + (2 * f5) * g3 + f6 * g2
            + (2 * f7) * g1 + f8 * g0 + (2 * f9) * (19 * g9)\<bar> \<le> 2400000000000000000"
    by (rule order_trans, (rule bd add_bd | rule mult_bd)+) simp
  show "\<bar>f0 * g9 + f1 * g8 + f2 * g7 + f3 * g6 + f4 * g5 + f5 * g4 + f6 * g3 + f7 * g2
            + f8 * g1 + f9 * g0\<bar> \<le> 2400000000000000000"
    by (rule order_trans, (rule bd add_bd | rule mult_bd)+) simp
qed

lemma to_comb: "\<bar>x\<bar> \<le> 2400000000000000000 \<Longrightarrow> \<bar>x\<bar> \<le> 6000000000000000000" for x :: int
  by simp

lemma FeMul_eq:
  assumes "fe_loose (Fe f0 f1 f2 f3 f4 f5 f6 f7 f8 f9)" "fe_loose (Fe g0 g1 g2 g3 g4 g5 g6 g7 g8 g9)"
  shows "FeMul (Fe f0 f1 f2 f3 f4 f5 f6 f7 f8 f9) (Fe g0 g1 g2 g3 g4 g5 g6 g7 g8 g9) =
    FeCombine (f0 * g0 + (2 * f1) * (19 * g9) + f2 * (19 * g8) + (2 * f3) * (19 * g7) + f4 * (19 * g6)
        + (2 * f5) * (19 * g5) + f6 * (19 * g4) + (2 * f7) * (19 * g3) + f8 * (19 * g2)
        + (2 * f9) * (19 * g1))
      (f0 * g1 + f1 * g0 + f2 * (19 * g9) + f3 * (19 * g8) + f4 * (19 * g7) + f5 * (19 * g6)
        + f6 * (19 * g5) + f7 * (19 * g4) + f8 * (19 * g3) + f9 * (19 * g2))
      (f0 * g2 + (2 * f1) * g1 + f2 * g0 + (2 * f3) * (19 * g9) + f4 * (19 * g8)
        + (2 * f5) * (19 * g7) + f6 * (19 * g6) + (2 * f7) * (19 * g5) + f8 * (19 * g4)
        + (2 * f9) * (19 * g3))
      (f0 * g3 + f1 * g2 + f2 * g1 + f3 * g0 + f4 * (19 * g9) + f5 * (19 * g8) + f6 * (19 * g7)
        + f7 * (19 * g6) + f8 * (19 * g5) + f9 * (19 * g4))
      (f0 * g4 + (2 * f1) * g3 + f2 * g2 + (2 * f3) * g1 + f4 * g0 + (2 * f5) * (19 * g9)
        + f6 * (19 * g8) + (2 * f7) * (19 * g7) + f8 * (19 * g6) + (2 * f9) * (19 * g5))
      (f0 * g5 + f1 * g4 + f2 * g3 + f3 * g2 + f4 * g1 + f5 * g0 + f6 * (19 * g9)
        + f7 * (19 * g8) + f8 * (19 * g7) + f9 * (19 * g6))
      (f0 * g6 + (2 * f1) * g5 + f2 * g4 + (2 * f3) * g3 + f4 * g2 + (2 * f5) * g1 + f6 * g0
        + (2 * f7) * (19 * g9) + f8 * (19 * g8) + (2 * f9) * (19 * g7))
      (f0 * g7 + f1 * g6 + f2 * g5 + f3 * g4 + f4 * g3 + f5 * g2 + f6 * g1 + f7 * g0
        + f8 * (19 * g9) + f9 * (19 * g8))
      (f0 * g8 + (2 * f1) * g7 + f2 * g6 + (2 * f3) * g5 + f4 * g4 + (2 * f5) * g3 + f6 * g2
        + (2 * f7) * g1 + f8 * g0 + (2 * f9) * (19 * g9))
      (f0 * g9 + f1 * g8 + f2 * g7 + f3 * g6 + f4 * g5 + f5 * g4 + f6 * g3 + f7 * g2 + f8 * g1
        + f9 * g0)"
proof -
  note l = looseD [OF assms(1)] looseD [OF assms(2)]
  note f = l(6-10) [THEN odd_scale(3)] and g = l(11-15) [THEN scale19(2)] l(16-20) [THEN odd_scale(1), THEN scale19(2)]
  have w: "\<bar>x\<bar> \<le> 2400000000000000000 \<Longrightarrow> i64 x = x" for x by (simp add: i64_abs)
  show ?thesis
    unfolding FeMul_def Let_def FieldElement.case prod.case f g product_bounds [OF assms, THEN w] ..
qed

theorem FeMul_spec:
  assumes "fe_loose f" "fe_loose g"
  shows "fe_tight (FeMul f g)" "fe_val (FeMul f g) mod p25519 = fe_val f * fe_val g mod p25519"
proof -
  obtain f0 f1 f2 f3 f4 f5 f6 f7 f8 f9 where f: "f = Fe f0 f1 f2 f3 f4 f5 f6 f7 f8 f9" by (cases f)
  obtain g0 g1 g2 g3 g4 g5 g6 g7 g8 g9 where g: "g = Fe g0 g1 g2 g3 g4 g5 g6 g7 g8 g9" by (cases g)
  note a = assms [unfolded f g]
  show "fe_tight (FeMul f g)"
    unfolding f g FeMul_eq [OF a] by (rule FeCombine_spec(1) [OF product_bounds [OF a, THEN to_comb]])
  show "fe_val (FeMul f g) mod p25519 = fe_val f * fe_val g mod p25519"
    unfolding f g FeMul_eq [OF a] FeCombine_spec(2) [OF product_bounds [OF a, THEN to_comb]] fe_val.simps
    by (rule mod_p_eqI [OF mult_congruence])
qed

end
