(* ===== verification/Fe_Square.thy ===== *)
theory Fe_Square
  imports Fe_Facts
begin

text \<open>
  Squaring agrees with multiplication, and the powers \<open>FeInvert\<close> and \<open>fePow22523\<close> compute by
  repeated squaring.
\<close>

lemma i64_scale:
  assumes "\<bar>x\<bar> \<le> 110729625"
  shows "i32 (2 * x) = 2 * x" "i64 (19 * x) = 19 * x" "i64 (38 * x) = 38 * x"
  using assms by (intro i32_abs i64_abs, linarith)+

section \<open>Squaring\<close>

text \<open>The sums of \<open>feSquare\<close>, which merges the symmetric products, are those of \<open>FeMul f f\<close>.\<close>

lemma square_coefficients:
  fixes f0 f1 f2 f3 f4 f5 f6 f7 f8 f9 :: int
  shows "f0 * f0 + (2 * f1) * (38 * f9) + (2 * f2) * (19 * f8) + (2 * f3) * (38 * f7)
        + (2 * f4) * (19 * f6) + f5 * (38 * f5) =
      f0 * f0 + (2 * f1) * (19 * f9) + f2 * (19 * f8) + (2 * f3) * (19 * f7) + f4 * (19 * f6)
        + (2 * f5) * (19 * f5) + f6 * (19 * f4) + (2 * f7) * (19 * f3) + f8 * (19 * f2)
        + (2 * f9) * (19 * f1)"
    "(2 * f0) * f1 + f2 * (38 * f9) + (2 * f3) * (19 * f8) + f4 * (38 * f7)
        + (2 * f5) * (19 * f6) =
      f0 * f1 + f1 * f0 + f2 * (19 * f9) + f3 * (19 * f8) + f4 * (19 * f7) + f5 * (19 * f6)
        + f6 * (19 * f5) + f7 * (19 * f4) + f8 * (19 * f3) + f9 * (19 * f2)"
    "(2 * f0) * f2 + (2 * f1) * f1 + (2 * f3) * (38 * f9) + (2 * f4) * (19 * f8)
        + (2 * f5) * (38 * f7) + f6 * (19 * f6) =
      f0 * f2 + (2 * f1) * f1 + f2 * f0 + (2 * f3) * (19 * f9) + f4 * (19 * f8)
        + (2 * f5) * (19 * f7) + f6 * (19 * f6) + (2 * f7) * (19 * f5) + f8 * (19 * f4)
        + (2 * f9) * (19 * f3)"
    "(2 * f0) * f3 + (2 * f1) * f2 + f4 * (38 * f9) + (2 * f5) * (19 * f8) + f6 * (38 * f7) =
      f0 * f3 + f1 * f2 + f2 * f1 + f3 * f0 + f4 * (19 * f9) + f5 * (19 * f8) + f6 * (19 * f7)
        + f7 * (19 * f6) + f8 * (19 * f5) + f9 * (19 * f4)"
    "(2 * f0) * f4 + (2 * f1) * (2 * f3) + f2 * f2 + (2 * f5) * (38 * f9)
        + (2 * f6) * (19 * f8) + f7 * (38 * f7) =
      f0 * f4 + (2 * f1) * f3 + f2 * f2 + (2 * f3) * f1 + f4 * f0 + (2 * f5) * (19 * f9)
        + f6 * (19 * f8) + (2 * f7) * (19 * f7) + f8 * (19 * f6) + (2 * f9) * (19 * f5)"
    "(2 * f0) * f5 + (2 * f1) * f4 + (2 * f2) * f3 + f6 * (38 * f9) + (2 * f7) * (19 * f8) =
      f0 * f5 + f1 * f4 + f2 * f3 + f3 * f2 + f4 * f1 + f5 * f0 + f6 * (19 * f9)
        + f7 * (19 * f8) + f8 * (19 * f7) + f9 * (19 * f6)"
    "(2 * f0) * f6 + (2 * f1) * (2 * f5) + (2 * f2) * f4 + (2 * f3) * f3 + (2 * f7) * (38 * f9)
        + f8 * (19 * f8) =
      f0 * f6 + (2 * f1) * f5 + f2 * f4 + (2 * f3) * f3 + f4 * f2 + (2 * f5) * f1 + f6 * f0
        + (2 * f7) * (19 * f9) + f8 * (19 * f8) + (2 * f9) * (19 * f7)"
    "(2 * f0) * f7 + (2 * f1) * f6 + (2 * f2) * f5 + (2 * f3) * f4 + f8 * (38 * f9) =
      f0 * f7 + f1 * f6 + f2 * f5 + f3 * f4 + f4 * f3 + f5 * f2 + f6 * f1 + f7 * f0
        + f8 * (19 * f9) + f9 * (19 * f8)"
    "(2 * f0) * f8 + (2 * f1) * (2 * f7) + (2 * f2) * f6 + (2 * f3) * (2 * f5) + f4 * f4
        + f9 * (38 * f9) =
      f0 * f8 + (2 * f1) * f7 + f2 * f6 + (2 * f3) * f5 + f4 * f4 + (2 * f5) * f3 + f6 * f2
        + (2 * f7) * f1 + f8 * f0 + (2 * f9) * (19 * f9)"
    "(2 * f0) * f9 + (2 * f1) * f8 + (2 * f2) * f7 + (2 * f3) * f6 + (2 * f4) * f5 =
      f0 * f9 + f1 * f8 + f2 * f7 + f3 * f6 + f4 * f5 + f5 * f4 + f6 * f3 + f7 * f2 + f8 * f1
        + f9 * f0"
  by (simp_all add: algebra_simps)

lemma feSquare_eq:
  assumes "fe_loose (Fe f0 f1 f2 f3 f4 f5 f6 f7 f8 f9)"
  shows "feSquare (Fe f0 f1 f2 f3 f4 f5 f6 f7 f8 f9) =
    (f0 * f0 + (2 * f1) * (19 * f9) + f2 * (19 * f8) + (2 * f3) * (19 * f7) + f4 * (19 * f6)
        + (2 * f5) * (19 * f5) + f6 * (19 * f4) + (2 * f7) * (19 * f3) + f8 * (19 * f2)
        + (2 * f9) * (19 * f1),
     f0 * f1 + f1 * f0 + f2 * (19 * f9) + f3 * (19 * f8) + f4 * (19 * f7) + f5 * (19 * f6)
        + f6 * (19 * f5) + f7 * (19 * f4) + f8 * (19 * f3) + f9 * (19 * f2),
     f0 * f2 + (2 * f1) * f1 + f2 * f0 + (2 * f3) * (19 * f9) + f4 * (19 * f8)
        + (2 * f5) * (19 * f7) + f6 * (19 * f6) + (2 * f7) * (19 * f5) + f8 * (19 * f4)
        + (2 * f9) * (19 * f3),
     f0 * f3 + f1 * f2 + f2 * f1 + f3 * f0 + f4 * (19 * f9) + f5 * (19 * f8) + f6 * (19 * f7)
        + f7 * (19 * f6) + f8 * (19 * f5) + f9 * (19 * f4),
     f0 * f4 + (2 * f1) * f3 + f2 * f2 + (2 * f3) * f1 + f4 * f0 + (2 * f5) * (19 * f9)
        + f6 * (19 * f8) + (2 * f7) * (19 * f7) + f8 * (19 * f6) + (2 * f9) * (19 * f5),
     f0 * f5 + f1 * f4 + f2 * f3 + f3 * f2 + f4 * f1 + f5 * f0 + f6 * (19 * f9)
        + f7 * (19 * f8) + f8 * (19 * f7) + f9 * (19 * f6),
     f0 * f6 + (2 * f1) * f5 + f2 * f4 + (2 * f3) * f3 + f4 * f2 + (2 * f5) * f1 + f6 * f0
        + (2 * f7) * (19 * f9) + f8 * (19 * f8) + (2 * f9) * (19 * f7),
     f0 * f7 + f1 * f6 + f2 * f5 + f3 * f4 + f4 * f3 + f5 * f2 + f6 * f1 + f7 * f0
        + f8 * (19 * f9) + f9 * (19 * f8),
     f0 * f8 + (2 * f1) * f7 + f2 * f6 + (2 * f3) * f5 + f4 * f4 + (2 * f5) * f3 + f6 * f2
        + (2 * f7) * f1 + f8 * f0 + (2 * f9) * (19 * f9),
     f0 * f9 + f1 * f8 + f2 * f7 + f3 * f6 + f4 * f5 + f5 * f4 + f6 * f3 + f7 * f2 + f8 * f1
        + f9 * f0)"
proof -
  note l = looseD [OF assms]
  note e = l(1-5) l(6-10) [THEN odd_scale(1)]
  have w: "\<bar>x\<bar> \<le> 2400000000000000000 \<Longrightarrow> i64 x = x" for x by (simp add: i64_abs)
  show ?thesis
    unfolding feSquare_def Let_def FieldElement.case e [THEN i64_scale(1)] e [THEN i64_scale(2)]
      e [THEN i64_scale(3)]
      square_coefficients [where ?f0.0 = f0 and ?f1.0 = f1 and ?f2.0 = f2 and ?f3.0 = f3 and ?f4.0 = f4 and
        ?f5.0 = f5 and ?f6.0 = f6 and ?f7.0 = f7 and ?f8.0 = f8 and ?f9.0 = f9]
      product_bounds [OF assms assms, THEN w] ..
qed

lemma FeSquare_FeMul: "fe_loose f \<Longrightarrow> FeSquare f = FeMul f f"
proof (cases f)
  case (Fe f0 f1 f2 f3 f4 f5 f6 f7 f8 f9)
  assume "fe_loose f"
  then have a: "fe_loose (Fe f0 f1 f2 f3 f4 f5 f6 f7 f8 f9)" by (simp only: Fe)
  show ?thesis unfolding Fe FeSquare_def feSquare_eq [OF a] FeMul_eq [OF a a] Let_def prod.case ..
qed

lemma FeSquare_tight: "fe_loose f \<Longrightarrow> fe_tight (FeSquare f)"
  and FeSquare_val: "fe_loose f \<Longrightarrow> fe_val (FeSquare f) mod p25519 = (fe_val f)\<^sup>2 mod p25519"
  by (simp_all add: FeSquare_FeMul FeMul_spec power2_eq_square)

lemma to_comb2: "\<bar>x\<bar> \<le> 2400000000000000000 \<Longrightarrow> \<bar>x + x\<bar> \<le> 6000000000000000000 \<and> i64 (x + x) = x + x"
  for x :: int
  by (simp add: i64_abs)

lemma FeSquare2_spec:
  assumes "fe_loose f"
  shows "fe_tight (FeSquare2 f)" "fe_val (FeSquare2 f) mod p25519 = 2 * (fe_val f)\<^sup>2 mod p25519"
proof -
  obtain f0 f1 f2 f3 f4 f5 f6 f7 f8 f9 where f: "f = Fe f0 f1 f2 f3 f4 f5 f6 f7 f8 f9" by (cases f)
  note a = assms [unfolded f]
  note b = product_bounds [OF a a, THEN to_comb2]
  note eq = f FeSquare2_def feSquare_eq [OF a] Let_def prod.case b [THEN conjunct2]
  show "fe_tight (FeSquare2 f)"
    unfolding eq by (rule FeCombine_spec(1) [OF b [THEN conjunct1]])
  have dbl: "(a0 + a0) + 2 ^ 26 * (a1 + a1) + 2 ^ 51 * (a2 + a2) + 2 ^ 77 * (a3 + a3) + 2 ^ 102 * (a4 + a4)
      + 2 ^ 128 * (a5 + a5) + 2 ^ 153 * (a6 + a6) + 2 ^ 179 * (a7 + a7) + 2 ^ 204 * (a8 + a8) + 2 ^ 230 * (a9 + a9)
    = 2 * (a0 + 2 ^ 26 * a1 + 2 ^ 51 * a2 + 2 ^ 77 * a3 + 2 ^ 102 * a4 + 2 ^ 128 * a5 + 2 ^ 153 * a6
      + 2 ^ 179 * a7 + 2 ^ 204 * a8 + 2 ^ 230 * a9)" for a0 a1 a2 a3 a4 a5 a6 a7 a8 a9 :: int
    by simp
  have m: "(2 * x) mod p25519 = (2 * y) mod p25519" if "x mod p25519 = y mod p25519" for x y
    using that by (metis mod_mult_right_eq)
  show "fe_val (FeSquare2 f) mod p25519 = 2 * (fe_val f)\<^sup>2 mod p25519"
    unfolding eq FeCombine_spec(2) [OF b [THEN conjunct1]] dbl power2_eq_square fe_val.simps
    by (rule m, rule mod_p_eqI [OF mult_congruence])
qed

end
