(* ===== verification/Fe_Power.thy ===== *)
theory Fe_Power
  imports Fe_Square
begin

text \<open>
  The addition chains of \<open>FeInvert\<close> and \<open>fePow22523\<close>: every intermediate element is a power of
  the argument, whose exponent the rules below compute.
\<close>

definition fe_power :: "FieldElement \<Rightarrow> nat \<Rightarrow> FieldElement \<Rightarrow> bool" where
  "fe_power z n t \<longleftrightarrow> fe_loose t \<and> fe_val t mod p25519 = fe_val z ^ n mod p25519"

lemma fe_power_self: "fe_loose z \<Longrightarrow> fe_power z 1 z"
  by (simp add: fe_power_def)

lemma fe_power_mult: "fe_power z m a \<Longrightarrow> fe_power z n b \<Longrightarrow> fe_power z (m + n) (FeMul a b)"
  unfolding fe_power_def using FeMul_spec [of a b]
  by (auto simp: power_add intro: mod_mult_cong)

lemma fe_power_square: "fe_power z n a \<Longrightarrow> fe_power z (2 * n) (FeSquare a)"
  using fe_power_mult [of z n a n a] by (simp add: FeSquare_FeMul fe_power_def mult_2)

lemma fe_power_loop: "fe_power z n a \<Longrightarrow> fe_power z (2 ^ (k - 1) * n) (square_loop k a)"
  unfolding square_loop_def
proof (induction "k - 1" arbitrary: k)
  case (Suc j)
  have "fe_power z (2 ^ j * n) ((FeSquare ^^ j) a)" using Suc.hyps(1) [of "Suc j"] Suc.prems by simp
  from fe_power_square [OF this] show ?case using Suc.hyps(2) [symmetric] by (simp add: mult.assoc)
qed simp

lemma fe_power_let:
  "fe_power z n a \<Longrightarrow> (\<And>t. fe_power z n t \<Longrightarrow> fe_power z m (f t)) \<Longrightarrow> fe_power z m (Let a f)"
  by simp

lemma fe_power_exp: "fe_power z n t \<Longrightarrow> n = m \<Longrightarrow> fe_power z m t"
  by simp

lemmas fe_power_chain = fe_power_let fe_power_mult fe_power_square fe_power_loop

lemma FeInvert_power:
  assumes "fe_loose z"
  shows "fe_power z (2 ^ 255 - 21) (FeInvert z)"
  unfolding FeInvert_def
  by (rule fe_power_exp, (assumption | rule fe_power_chain fe_power_self [OF assms])+) simp

lemma fePow22523_power:
  assumes "fe_loose z"
  shows "fe_power z (2 ^ 252 - 3) (fePow22523 z)"
  unfolding fePow22523_def
  by (rule fe_power_exp, (assumption | rule fe_power_chain fe_power_self [OF assms])+) simp

text \<open>Both end in a product, so their result is within the bounds of one.\<close>

lemma fe_tight_let:
  "fe_power z n a \<Longrightarrow> (\<And>t. fe_power z n t \<Longrightarrow> fe_tight (f t)) \<Longrightarrow> fe_tight (Let a f)"
  by simp

lemma fe_tight_mult: "fe_power z m a \<Longrightarrow> fe_power z n b \<Longrightarrow> fe_tight (FeMul a b)"
  by (simp add: fe_power_def FeMul_spec)

lemma FeInvert_tight: "fe_loose z \<Longrightarrow> fe_tight (FeInvert z)"
  unfolding FeInvert_def
  by (assumption | rule fe_tight_let fe_tight_mult fe_power_chain fe_power_self)+

lemma fePow22523_tight: "fe_loose z \<Longrightarrow> fe_tight (fePow22523 z)"
  unfolding fePow22523_def
  by (assumption | rule fe_tight_let fe_tight_mult fe_power_chain fe_power_self)+

end
