(* ===== verification/Fe_Bytes.thy ===== *)
theory Fe_Bytes
  imports Fe_Facts
begin

text \<open>
  Reading an element from 32 bytes and writing its canonical residue back.
\<close>

section \<open>From bytes\<close>

lemma shl64_small: "0 \<le> x \<Longrightarrow> x < 16777216 \<Longrightarrow> k \<le> 7 \<Longrightarrow> shl64 x k = 2 ^ k * x"
proof -
  assume x: "0 \<le> x" "x < 16777216" and k: "k \<le> 7"
  have "(2 :: int) ^ k \<le> 2 ^ 7" using k by (rule power_increasing) simp
  then have "x * 2 ^ k \<le> 16777216 * 2 ^ 7" using x by (intro mult_mono) auto
  moreover have "0 \<le> x * 2 ^ k" using x by simp
  ultimately show ?thesis unfolding shl64_def push_bit_eq_mult by (subst i64_id) (auto simp: mult.commute)
qed

lemma FeFromBytes_spec:
  assumes len: "length s = 32"
  shows "fe_tight (FeFromBytes s)" "fe_val (FeFromBytes s) mod p25519 = (le_val s mod 2 ^ 255) mod p25519"
proof -
  have l4: "le_val (drop k s) = load4 (drop k s) + 4294967296 * le_val (drop (k + 4) s)"
    "0 \<le> load4 (drop k s) \<and> load4 (drop k s) < 4294967296" if "k + 3 < 32" for k
    using that le_val_drop_load4 [of "drop k s"] load4_bounds [of "drop k s"] len by (simp_all add: add.commute)
  have l3: "le_val (drop k s) = load3 (drop k s) + 16777216 * le_val (drop (k + 3) s)"
    "0 \<le> load3 (drop k s) \<and> load3 (drop k s) < 16777216" if "k + 2 < 32" for k
    using that le_val_drop_load3 [of "drop k s"] load3_bounds [of "drop k s"] len by (simp_all add: add.commute)
  define t where "t = load3 (drop 29 s)"
  define q where "q = t div 8388608"
  define r where "r = t mod 8388608"
  have "t AND mask 23 = take_bit 23 t" by (simp add: take_bit_eq_mask)
  then have and_r: "t AND 8388607 = r" by (simp add: r_def take_bit_eq_mod mask_eq_exp_minus_1)
  have t: "t = 8388608 * q + r" "0 \<le> r" "r < 8388608" by (simp_all add: q_def r_def)
  have q: "0 \<le> q" using l3(2) [of 29] by (simp add: q_def t_def pos_imp_zdiv_nonneg_iff)
  define X where "X = load4 s + 2 ^ 32 * load3 (drop 4 s) + 2 ^ 56 * load3 (drop 7 s) + 2 ^ 80 * load3 (drop 10 s)
    + 2 ^ 104 * load3 (drop 13 s) + 2 ^ 128 * load4 (drop 16 s) + 2 ^ 160 * load3 (drop 20 s)
    + 2 ^ 184 * load3 (drop 23 s) + 2 ^ 208 * load3 (drop 26 s)"
  have le: "le_val s = X + 2 ^ 232 * r + 2 ^ 255 * q"
    using l4(1) [of 0] l3(1) [of 4] l3(1) [of 7] l3(1) [of 10] l3(1) [of 13] l4(1) [of 16] l3(1) [of 20]
      l3(1) [of 23] l3(1) [of 26] l3(1) [of 29] len t(1) by (simp add: X_def t_def [symmetric])
  have X: "0 \<le> X" "X < 2 ^ 232"
    using l4(2) [of 0] l3(2) [of 4] l3(2) [of 7] l3(2) [of 10] l3(2) [of 13] l4(2) [of 16] l3(2) [of 20]
      l3(2) [of 23] l3(2) [of 26] unfolding X_def by simp_all
  have "0 \<le> X + 2 ^ 232 * r" "X + 2 ^ 232 * r < 2 ^ 255" using X t by simp_all
  then have m: "le_val s mod 2 ^ 255 = X + 2 ^ 232 * r" unfolding le by (simp add: mod_pos_pos_trivial)
  have s: "shl64 (load3 (drop k s)) j = 2 ^ j * load3 (drop k s)" if "k + 2 < 32" "j \<le> 7" for k j
    using l3(2) [OF that(1)] that(2) by (simp add: shl64_small)
  have eq: "FeFromBytes s = FeCombine (load4 s) (2 ^ 6 * load3 (drop 4 s)) (2 ^ 5 * load3 (drop 7 s))
      (2 ^ 3 * load3 (drop 10 s)) (2 ^ 2 * load3 (drop 13 s)) (load4 (drop 16 s)) (2 ^ 7 * load3 (drop 20 s))
      (2 ^ 5 * load3 (drop 23 s)) (2 ^ 4 * load3 (drop 26 s)) (2 ^ 2 * r)"
    unfolding FeFromBytes_def Let_def t_def [symmetric] and_r using t(2,3) by (simp add: s shl64_small)
  have b: "\<bar>load4 s\<bar> \<le> 6000000000000000000" "\<bar>load4 (drop 16 s)\<bar> \<le> 6000000000000000000"
    "\<bar>2 ^ 2 * r\<bar> \<le> 6000000000000000000"
    using l4(2) [of 0] l4(2) [of 16] t(2,3) by simp_all
  have b3: "\<bar>2 ^ j * load3 (drop k s)\<bar> \<le> 6000000000000000000" if "k + 2 < 32" "j \<le> 7" for k j
  proof -
    have "(2 :: int) ^ j \<le> 2 ^ 7" using that(2) by (rule power_increasing) simp
    then have "\<bar>2 ^ j * load3 (drop k s)\<bar> \<le> 2 ^ 7 * 16777216"
      using l3(2) [OF that(1)] by (intro mult_bd) auto
    then show ?thesis by simp
  qed
  have B: "k + 2 < 32 \<Longrightarrow> j \<le> 7 \<Longrightarrow> \<bar>2 ^ j * load3 (drop k s)\<bar> \<le> 6000000000000000000" for k j by (rule b3)
  note c = FeCombine_spec [OF b(1) B B B B b(2) B B B b(3), of 4 6 7 5 10 3 13 2 20 7 23 5 26 4]
  show "fe_tight (FeFromBytes s)" unfolding eq by (rule c(1)) simp_all
  show "fe_val (FeFromBytes s) mod p25519 = (le_val s mod 2 ^ 255) mod p25519"
    unfolding eq m by (subst c(2), simp_all add: X_def)
qed

section \<open>The quotient\<close>

lemma sar25:
  assumes "\<bar>x\<bar> \<le> 2147483647"
  obtains q r where "sar (i32 x) 25 = q" "x = 33554432 * q + r" "0 \<le> r" "r < 33554432"
  proof -
  obtain r where "x = 2 ^ 25 * sar x 25 + r" "0 \<le> r" "r < 2 ^ 25" using sar_split by blast
  then show thesis using that [of "sar x 25" r] i32_abs [OF assms] by simp
qed

lemma sar26:
  assumes "\<bar>x\<bar> \<le> 2147483647"
  obtains q r where "sar (i32 x) 26 = q" "x = 67108864 * q + r" "0 \<le> r" "r < 67108864"
  proof -
  obtain r where "x = 2 ^ 26 * sar x 26 + r" "0 \<le> r" "r < 2 ^ 26" using sar_split by blast
  then show thesis using that [of "sar x 26" r] i32_abs [OF assms] by simp
qed

text \<open>
  The quotient is the floor of the element by the prime, for every element within the bounds of
  an operand; the source's argument asks for tighter ones.
\<close>

lemma fe_quotient_spec:
  assumes "fe_loose (Fe h0 h1 h2 h3 h4 h5 h6 h7 h8 h9)"
  shows "0 \<le> fe_val (Fe h0 h1 h2 h3 h4 h5 h6 h7 h8 h9) - p25519 * fe_quotient (Fe h0 h1 h2 h3 h4 h5 h6 h7 h8 h9)"
    "fe_val (Fe h0 h1 h2 h3 h4 h5 h6 h7 h8 h9) - p25519 * fe_quotient (Fe h0 h1 h2 h3 h4 h5 h6 h7 h8 h9) < p25519"
    "\<bar>fe_quotient (Fe h0 h1 h2 h3 h4 h5 h6 h7 h8 h9)\<bar> \<le> 3"
proof -
  have b: "\<bar>h0\<bar> \<le> 110729625" "\<bar>h1\<bar> \<le> 55364812" "\<bar>h2\<bar> \<le> 110729625" "\<bar>h3\<bar> \<le> 55364812" "\<bar>h4\<bar> \<le> 110729625" "\<bar>h5\<bar> \<le> 55364812" "\<bar>h6\<bar> \<le> 110729625" "\<bar>h7\<bar> \<le> 55364812" "\<bar>h8\<bar> \<le> 110729625" "\<bar>h9\<bar> \<le> 55364812"
    using assms by simp_all
  have "shl32 1 24 = 16777216" by (simp add: shl32_def push_bit_eq_mult i32_id)
  note sh = this
  obtain q0 r0 where s0: "sar (i32 (19 * h9 + 16777216)) 25 = q0" "19 * h9 + 16777216 = 33554432 * q0 + r0"
      "0 \<le> r0" "r0 < 33554432"
    by (rule sar25 [of "19 * h9 + 16777216"]) (use b(10) in linarith)+
  have m0: "\<bar>q0\<bar> \<le> 64" using s0(2-4) b(10) by linarith
  obtain q1 r1 where s1: "sar (i32 (h0 + q0)) 26 = q1" "h0 + q0 = 67108864 * q1 + r1"
      "0 \<le> r1" "r1 < 67108864"
    by (rule sar26 [of "h0 + q0"]) (use b(1) m0 in linarith)+
  have m1: "\<bar>q1\<bar> \<le> 3" using s1(2-4) b(1) m0 by linarith
  obtain q2 r2 where s2: "sar (i32 (h1 + q1)) 25 = q2" "h1 + q1 = 33554432 * q2 + r2"
      "0 \<le> r2" "r2 < 33554432"
    by (rule sar25 [of "h1 + q1"]) (use b(2) m1 in linarith)+
  have m2: "\<bar>q2\<bar> \<le> 3" using s2(2-4) b(2) m1 by linarith
  obtain q3 r3 where s3: "sar (i32 (h2 + q2)) 26 = q3" "h2 + q2 = 67108864 * q3 + r3"
      "0 \<le> r3" "r3 < 67108864"
    by (rule sar26 [of "h2 + q2"]) (use b(3) m2 in linarith)+
  have m3: "\<bar>q3\<bar> \<le> 3" using s3(2-4) b(3) m2 by linarith
  obtain q4 r4 where s4: "sar (i32 (h3 + q3)) 25 = q4" "h3 + q3 = 33554432 * q4 + r4"
      "0 \<le> r4" "r4 < 33554432"
    by (rule sar25 [of "h3 + q3"]) (use b(4) m3 in linarith)+
  have m4: "\<bar>q4\<bar> \<le> 3" using s4(2-4) b(4) m3 by linarith
  obtain q5 r5 where s5: "sar (i32 (h4 + q4)) 26 = q5" "h4 + q4 = 67108864 * q5 + r5"
      "0 \<le> r5" "r5 < 67108864"
    by (rule sar26 [of "h4 + q4"]) (use b(5) m4 in linarith)+
  have m5: "\<bar>q5\<bar> \<le> 3" using s5(2-4) b(5) m4 by linarith
  obtain q6 r6 where s6: "sar (i32 (h5 + q5)) 25 = q6" "h5 + q5 = 33554432 * q6 + r6"
      "0 \<le> r6" "r6 < 33554432"
    by (rule sar25 [of "h5 + q5"]) (use b(6) m5 in linarith)+
  have m6: "\<bar>q6\<bar> \<le> 3" using s6(2-4) b(6) m5 by linarith
  obtain q7 r7 where s7: "sar (i32 (h6 + q6)) 26 = q7" "h6 + q6 = 67108864 * q7 + r7"
      "0 \<le> r7" "r7 < 67108864"
    by (rule sar26 [of "h6 + q6"]) (use b(7) m6 in linarith)+
  have m7: "\<bar>q7\<bar> \<le> 3" using s7(2-4) b(7) m6 by linarith
  obtain q8 r8 where s8: "sar (i32 (h7 + q7)) 25 = q8" "h7 + q7 = 33554432 * q8 + r8"
      "0 \<le> r8" "r8 < 33554432"
    by (rule sar25 [of "h7 + q7"]) (use b(8) m7 in linarith)+
  have m8: "\<bar>q8\<bar> \<le> 3" using s8(2-4) b(8) m7 by linarith
  obtain q9 r9 where s9: "sar (i32 (h8 + q8)) 26 = q9" "h8 + q8 = 67108864 * q9 + r9"
      "0 \<le> r9" "r9 < 67108864"
    by (rule sar26 [of "h8 + q8"]) (use b(9) m8 in linarith)+
  have m9: "\<bar>q9\<bar> \<le> 3" using s9(2-4) b(9) m8 by linarith
  obtain q10 r10 where s10: "sar (i32 (h9 + q9)) 25 = q10" "h9 + q9 = 33554432 * q10 + r10"
      "0 \<le> r10" "r10 < 33554432"
    by (rule sar25 [of "h9 + q9"]) (use b(10) m9 in linarith)+
  have m10: "\<bar>q10\<bar> \<le> 3" using s10(2-4) b(10) m9 by linarith
  have q: "fe_quotient (Fe h0 h1 h2 h3 h4 h5 h6 h7 h8 h9) = q10"
    unfolding fe_quotient_def FieldElement.case Let_def sh s0(1) s1(1) s2(1) s3(1) s4(1) s5(1) s6(1) s7(1) s8(1) s9(1) s10(1) ..
  show "\<bar>fe_quotient (Fe h0 h1 h2 h3 h4 h5 h6 h7 h8 h9)\<bar> \<le> 3" using m10 q by simp
  define W where "W = r1 + 2 ^ 26 * r2 + 2 ^ 51 * r3 + 2 ^ 77 * r4 + 2 ^ 102 * r5 + 2 ^ 128 * r6 + 2 ^ 153 * r7 + 2 ^ 179 * r8 + 2 ^ 204 * r9"
  have W: "0 \<le> W" "W < 2 ^ 230"
    unfolding W_def using s1(3,4) s2(3,4) s3(3,4) s4(3,4) s5(3,4) s6(3,4) s7(3,4) s8(3,4) s9(3,4) by simp_all
  have h: "h0 = 67108864 * q1 + r1 - q0" "h1 = 33554432 * q2 + r2 - q1" "h2 = 67108864 * q3 + r3 - q2" "h3 = 33554432 * q4 + r4 - q3" "h4 = 67108864 * q5 + r5 - q4" "h5 = 33554432 * q6 + r6 - q5" "h6 = 67108864 * q7 + r7 - q6" "h7 = 33554432 * q8 + r8 - q7" "h8 = 67108864 * q9 + r9 - q8" "h9 = 33554432 * q10 + r10 - q9"
    using s1(2) s2(2) s3(2) s4(2) s5(2) s6(2) s7(2) s8(2) s9(2) s10(2) by linarith+
  have v: "fe_val (Fe h0 h1 h2 h3 h4 h5 h6 h7 h8 h9) - p25519 * q10 = W + 2 ^ 230 * r10 - q0 + 19 * q10"
    unfolding fe_val.simps W_def p25519_def h by (simp add: algebra_simps)
  have r: "r0 = 19 * h9 + 16777216 - 33554432 * q0" "r10 = h9 + q9 - 33554432 * q10"
    using s0(2) s10(2) by linarith+
  have "19 * q9 - 19 * r10 - 16777216 + r0 = 33554432 * (19 * q10 - q0)"
    unfolding r by simp
  then show "0 \<le> fe_val (Fe h0 h1 h2 h3 h4 h5 h6 h7 h8 h9) - p25519 * fe_quotient (Fe h0 h1 h2 h3 h4 h5 h6 h7 h8 h9)"
    "fe_val (Fe h0 h1 h2 h3 h4 h5 h6 h7 h8 h9) - p25519 * fe_quotient (Fe h0 h1 h2 h3 h4 h5 h6 h7 h8 h9) < p25519"
    unfolding q v unfolding p25519_def using W m9 s10(3,4) s0(3,4) by simp_all
qed

section \<open>The digits\<close>

lemma same_residue: "v + n * q = w + n * c \<Longrightarrow> 0 \<le> v \<Longrightarrow> v < n \<Longrightarrow> 0 \<le> w \<Longrightarrow> w < n \<Longrightarrow> v = w"
  for v w n :: int
  by (metis mod_mult_self2 mod_pos_pos_trivial)

lemma carry32_25:
  assumes lo: "\<bar>lo\<bar> \<le> 200000000" and hi: "\<bar>hi\<bar> \<le> 200000000"
  obtains c d where "carry32 25 lo hi = (d, hi + c)" "lo = 33554432 * c + d" "0 \<le> d" "d < 33554432"
proof -
  obtain d where d: "lo = 33554432 * sar lo 25 + d" "0 \<le> d" "d < 33554432" using sar_split [of lo 25] by auto
  have "\<bar>33554432 * sar lo 25\<bar> \<le> 300000000" "\<bar>sar lo 25\<bar> \<le> 10" using d lo by linarith+
  then have a: "\<bar>sar lo 25 * 2 ^ 25\<bar> \<le> 2147483647" "\<bar>hi + sar lo 25\<bar> \<le> 2147483647"
    using hi by simp_all
  have l: "\<bar>lo - 33554432 * sar lo 25\<bar> \<le> 2147483647" using d by linarith
  have "shl32 (sar lo 25) 25 = 33554432 * sar lo 25"
    unfolding shl32_def push_bit_eq_mult i32_abs [OF a(1)] by simp
  note w = this i32_abs [OF a(2)] i32_abs [OF l]
  moreover have "lo - 33554432 * sar lo 25 = d" using d(1) by linarith
  ultimately show thesis using that [OF _ d] w by (simp add: carry32_def)
qed

lemma carry32_26:
  assumes lo: "\<bar>lo\<bar> \<le> 200000000" and hi: "\<bar>hi\<bar> \<le> 200000000"
  obtains c d where "carry32 26 lo hi = (d, hi + c)" "lo = 67108864 * c + d" "0 \<le> d" "d < 67108864"
proof -
  obtain d where d: "lo = 67108864 * sar lo 26 + d" "0 \<le> d" "d < 67108864" using sar_split [of lo 26] by auto
  have "\<bar>67108864 * sar lo 26\<bar> \<le> 300000000" "\<bar>sar lo 26\<bar> \<le> 10" using d lo by linarith+
  then have a: "\<bar>sar lo 26 * 2 ^ 26\<bar> \<le> 2147483647" "\<bar>hi + sar lo 26\<bar> \<le> 2147483647"
    using hi by simp_all
  have l: "\<bar>lo - 67108864 * sar lo 26\<bar> \<le> 2147483647" using d by linarith
  have "shl32 (sar lo 26) 26 = 67108864 * sar lo 26"
    unfolding shl32_def push_bit_eq_mult i32_abs [OF a(1)] by simp
  note w = this i32_abs [OF a(2)] i32_abs [OF l]
  moreover have "lo - 67108864 * sar lo 26 = d" using d(1) by linarith
  ultimately show thesis using that [OF _ d] w by (simp add: carry32_def)
qed

text \<open>The digits of a number below \<open>2^255\<close>, and the element they form.\<close>

definition fe_of_nat :: "int \<Rightarrow> FieldElement" where
  "fe_of_nat v = Fe (take_bit 26 (drop_bit 0 v)) (take_bit 25 (drop_bit 26 v)) (take_bit 26 (drop_bit 51 v)) (take_bit 25 (drop_bit 77 v))
      (take_bit 26 (drop_bit 102 v)) (take_bit 25 (drop_bit 128 v)) (take_bit 26 (drop_bit 153 v)) (take_bit 25 (drop_bit 179 v))
      (take_bit 26 (drop_bit 204 v)) (take_bit 25 (drop_bit 230 v))"

lemma digit_unique:
  fixes A d B :: int
  assumes "v = A + 2 ^ m * (d + 2 ^ k * B)" "0 \<le> A" "A < 2 ^ m" "0 \<le> d" "d < 2 ^ k"
  shows "take_bit k (drop_bit m v) = d"
  using assms by (simp add: take_bit_eq_mod drop_bit_eq_div div_pos_pos_trivial)

lemma fe_digits_spec:
  assumes b: "\<bar>h0\<bar> \<le> 120000000" "\<bar>h1\<bar> \<le> 120000000" "\<bar>h2\<bar> \<le> 120000000" "\<bar>h3\<bar> \<le> 120000000" "\<bar>h4\<bar> \<le> 120000000" "\<bar>h5\<bar> \<le> 120000000" "\<bar>h6\<bar> \<le> 120000000" "\<bar>h7\<bar> \<le> 120000000" "\<bar>h8\<bar> \<le> 120000000" "\<bar>h9\<bar> \<le> 120000000"
    and v: "fe_val (Fe h0 h1 h2 h3 h4 h5 h6 h7 h8 h9) = v + 2 ^ 255 * q" and rng: "0 \<le> v" "v < 2 ^ 255"
  shows "fe_digits (Fe h0 h1 h2 h3 h4 h5 h6 h7 h8 h9) = fe_of_nat v" "fe_val (fe_of_nat v) = v" "fe_bnd 67108863 33554431 (fe_of_nat v)"
proof -
  obtain c0 d0 where s0: "carry32 26 h0 h1 = (d0, h1 + c0)" "h0 = 67108864 * c0 + d0"
      "0 \<le> d0" "d0 < 67108864"
    by (rule carry32_26 [of "h0" h1]) (use b(1) b(2) in linarith)+
  have m0: "\<bar>c0\<bar> \<le> 4" using s0(2-4) b(1) by linarith
  obtain c1 d1 where s1: "carry32 25 (h1 + c0) h2 = (d1, h2 + c1)" "h1 + c0 = 33554432 * c1 + d1"
      "0 \<le> d1" "d1 < 33554432"
    by (rule carry32_25 [of "h1 + c0" h2]) (use b(2) b(3) m0 in linarith)+
  have m1: "\<bar>c1\<bar> \<le> 4" using s1(2-4) b(2) m0 by linarith
  obtain c2 d2 where s2: "carry32 26 (h2 + c1) h3 = (d2, h3 + c2)" "h2 + c1 = 67108864 * c2 + d2"
      "0 \<le> d2" "d2 < 67108864"
    by (rule carry32_26 [of "h2 + c1" h3]) (use b(3) b(4) m1 in linarith)+
  have m2: "\<bar>c2\<bar> \<le> 4" using s2(2-4) b(3) m1 by linarith
  obtain c3 d3 where s3: "carry32 25 (h3 + c2) h4 = (d3, h4 + c3)" "h3 + c2 = 33554432 * c3 + d3"
      "0 \<le> d3" "d3 < 33554432"
    by (rule carry32_25 [of "h3 + c2" h4]) (use b(4) b(5) m2 in linarith)+
  have m3: "\<bar>c3\<bar> \<le> 4" using s3(2-4) b(4) m2 by linarith
  obtain c4 d4 where s4: "carry32 26 (h4 + c3) h5 = (d4, h5 + c4)" "h4 + c3 = 67108864 * c4 + d4"
      "0 \<le> d4" "d4 < 67108864"
    by (rule carry32_26 [of "h4 + c3" h5]) (use b(5) b(6) m3 in linarith)+
  have m4: "\<bar>c4\<bar> \<le> 4" using s4(2-4) b(5) m3 by linarith
  obtain c5 d5 where s5: "carry32 25 (h5 + c4) h6 = (d5, h6 + c5)" "h5 + c4 = 33554432 * c5 + d5"
      "0 \<le> d5" "d5 < 33554432"
    by (rule carry32_25 [of "h5 + c4" h6]) (use b(6) b(7) m4 in linarith)+
  have m5: "\<bar>c5\<bar> \<le> 4" using s5(2-4) b(6) m4 by linarith
  obtain c6 d6 where s6: "carry32 26 (h6 + c5) h7 = (d6, h7 + c6)" "h6 + c5 = 67108864 * c6 + d6"
      "0 \<le> d6" "d6 < 67108864"
    by (rule carry32_26 [of "h6 + c5" h7]) (use b(7) b(8) m5 in linarith)+
  have m6: "\<bar>c6\<bar> \<le> 4" using s6(2-4) b(7) m5 by linarith
  obtain c7 d7 where s7: "carry32 25 (h7 + c6) h8 = (d7, h8 + c7)" "h7 + c6 = 33554432 * c7 + d7"
      "0 \<le> d7" "d7 < 33554432"
    by (rule carry32_25 [of "h7 + c6" h8]) (use b(8) b(9) m6 in linarith)+
  have m7: "\<bar>c7\<bar> \<le> 4" using s7(2-4) b(8) m6 by linarith
  obtain c8 d8 where s8: "carry32 26 (h8 + c7) h9 = (d8, h9 + c8)" "h8 + c7 = 67108864 * c8 + d8"
      "0 \<le> d8" "d8 < 67108864"
    by (rule carry32_26 [of "h8 + c7" h9]) (use b(9) b(10) m7 in linarith)+
  have m8: "\<bar>c8\<bar> \<le> 4" using s8(2-4) b(9) m7 by linarith
  obtain c9 d9 where s9: "sar (h9 + c8) 25 = c9" "h9 + c8 = 33554432 * c9 + d9" "0 \<le> d9" "d9 < 33554432"
    using that sar_split [of "h9 + c8" 25] by force
  have m9: "\<bar>c9\<bar> \<le> 4" using s9(2-4) b(10) m8 by linarith
  have "i32 (h9 + c8 - shl32 c9 25) = d9"
    using m9 s9(2-4) unfolding shl32_def push_bit_eq_mult by (simp add: i32_abs)
  then have eq: "fe_digits (Fe h0 h1 h2 h3 h4 h5 h6 h7 h8 h9) = Fe d0 d1 d2 d3 d4 d5 d6 d7 d8 d9"
    unfolding fe_digits_def FieldElement.case Let_def s0(1) s1(1) s2(1) s3(1) s4(1) s5(1) s6(1) s7(1) s8(1) prod.case s9(1) by simp
  have h: "h0 = 67108864 * c0 + d0" "h1 = 33554432 * c1 + d1 - c0" "h2 = 67108864 * c2 + d2 - c1" "h3 = 33554432 * c3 + d3 - c2" "h4 = 67108864 * c4 + d4 - c3" "h5 = 33554432 * c5 + d5 - c4" "h6 = 67108864 * c6 + d6 - c5" "h7 = 33554432 * c7 + d7 - c6" "h8 = 67108864 * c8 + d8 - c7" "h9 = 33554432 * c9 + d9 - c8"
    using s0(2) s1(2) s2(2) s3(2) s4(2) s5(2) s6(2) s7(2) s8(2) s9(2) by linarith+
  have V: "v + 2 ^ 255 * q = (d0 + 2 ^ 26 * d1 + 2 ^ 51 * d2 + 2 ^ 77 * d3 + 2 ^ 102 * d4 + 2 ^ 128 * d5 + 2 ^ 153 * d6 + 2 ^ 179 * d7 + 2 ^ 204 * d8 + 2 ^ 230 * d9) + 2 ^ 255 * c9"
    unfolding v [symmetric] fe_val.simps h by (simp add: algebra_simps)
  have vb: "0 \<le> d0 + 2 ^ 26 * d1 + 2 ^ 51 * d2 + 2 ^ 77 * d3 + 2 ^ 102 * d4 + 2 ^ 128 * d5 + 2 ^ 153 * d6 + 2 ^ 179 * d7 + 2 ^ 204 * d8 + 2 ^ 230 * d9" "d0 + 2 ^ 26 * d1 + 2 ^ 51 * d2 + 2 ^ 77 * d3 + 2 ^ 102 * d4 + 2 ^ 128 * d5 + 2 ^ 153 * d6 + 2 ^ 179 * d7 + 2 ^ 204 * d8 + 2 ^ 230 * d9 < 2 ^ 255"
    using s0(3,4) s1(3,4) s2(3,4) s3(3,4) s4(3,4) s5(3,4) s6(3,4) s7(3,4) s8(3,4) s9(3,4) by simp_all
  have vd: "v = d0 + 2 ^ 26 * d1 + 2 ^ 51 * d2 + 2 ^ 77 * d3 + 2 ^ 102 * d4 + 2 ^ 128 * d5 + 2 ^ 153 * d6 + 2 ^ 179 * d7 + 2 ^ 204 * d8 + 2 ^ 230 * d9" by (rule same_residue [OF V rng vb])
  have t0: "take_bit 26 (drop_bit 0 v) = d0"
  proof -
    have "v = ((0 :: int)) + 2 ^ 0 * (d0 + 2 ^ 26 * (2 ^ 0 * d1 + 2 ^ 25 * d2 + 2 ^ 51 * d3 + 2 ^ 76 * d4 + 2 ^ 102 * d5 + 2 ^ 127 * d6 + 2 ^ 153 * d7 + 2 ^ 178 * d8 + 2 ^ 204 * d9))" unfolding vd by simp
    moreover have "0 \<le> (0 :: int)" "(0 :: int) < 2 ^ 0" using s0(3,4) by simp_all
    moreover have "0 \<le> d0" "d0 < 2 ^ 26" using s0(3,4) by simp_all
    ultimately show ?thesis by (rule digit_unique)
  qed
  have t1: "take_bit 25 (drop_bit 26 v) = d1"
  proof -
    have "v = (d0) + 2 ^ 26 * (d1 + 2 ^ 25 * (2 ^ 0 * d2 + 2 ^ 26 * d3 + 2 ^ 51 * d4 + 2 ^ 77 * d5 + 2 ^ 102 * d6 + 2 ^ 128 * d7 + 2 ^ 153 * d8 + 2 ^ 179 * d9))" unfolding vd by simp
    moreover have "0 \<le> d0" "d0 < 2 ^ 26" using s0(3,4) s1(3,4) by simp_all
    moreover have "0 \<le> d1" "d1 < 2 ^ 25" using s1(3,4) by simp_all
    ultimately show ?thesis by (rule digit_unique)
  qed
  have t2: "take_bit 26 (drop_bit 51 v) = d2"
  proof -
    have "v = (d0 + 2 ^ 26 * d1) + 2 ^ 51 * (d2 + 2 ^ 26 * (2 ^ 0 * d3 + 2 ^ 25 * d4 + 2 ^ 51 * d5 + 2 ^ 76 * d6 + 2 ^ 102 * d7 + 2 ^ 127 * d8 + 2 ^ 153 * d9))" unfolding vd by simp
    moreover have "0 \<le> d0 + 2 ^ 26 * d1" "d0 + 2 ^ 26 * d1 < 2 ^ 51" using s0(3,4) s1(3,4) s2(3,4) by simp_all
    moreover have "0 \<le> d2" "d2 < 2 ^ 26" using s2(3,4) by simp_all
    ultimately show ?thesis by (rule digit_unique)
  qed
  have t3: "take_bit 25 (drop_bit 77 v) = d3"
  proof -
    have "v = (d0 + 2 ^ 26 * d1 + 2 ^ 51 * d2) + 2 ^ 77 * (d3 + 2 ^ 25 * (2 ^ 0 * d4 + 2 ^ 26 * d5 + 2 ^ 51 * d6 + 2 ^ 77 * d7 + 2 ^ 102 * d8 + 2 ^ 128 * d9))" unfolding vd by simp
    moreover have "0 \<le> d0 + 2 ^ 26 * d1 + 2 ^ 51 * d2" "d0 + 2 ^ 26 * d1 + 2 ^ 51 * d2 < 2 ^ 77" using s0(3,4) s1(3,4) s2(3,4) s3(3,4) by simp_all
    moreover have "0 \<le> d3" "d3 < 2 ^ 25" using s3(3,4) by simp_all
    ultimately show ?thesis by (rule digit_unique)
  qed
  have t4: "take_bit 26 (drop_bit 102 v) = d4"
  proof -
    have "v = (d0 + 2 ^ 26 * d1 + 2 ^ 51 * d2 + 2 ^ 77 * d3) + 2 ^ 102 * (d4 + 2 ^ 26 * (2 ^ 0 * d5 + 2 ^ 25 * d6 + 2 ^ 51 * d7 + 2 ^ 76 * d8 + 2 ^ 102 * d9))" unfolding vd by simp
    moreover have "0 \<le> d0 + 2 ^ 26 * d1 + 2 ^ 51 * d2 + 2 ^ 77 * d3" "d0 + 2 ^ 26 * d1 + 2 ^ 51 * d2 + 2 ^ 77 * d3 < 2 ^ 102" using s0(3,4) s1(3,4) s2(3,4) s3(3,4) s4(3,4) by simp_all
    moreover have "0 \<le> d4" "d4 < 2 ^ 26" using s4(3,4) by simp_all
    ultimately show ?thesis by (rule digit_unique)
  qed
  have t5: "take_bit 25 (drop_bit 128 v) = d5"
  proof -
    have "v = (d0 + 2 ^ 26 * d1 + 2 ^ 51 * d2 + 2 ^ 77 * d3 + 2 ^ 102 * d4) + 2 ^ 128 * (d5 + 2 ^ 25 * (2 ^ 0 * d6 + 2 ^ 26 * d7 + 2 ^ 51 * d8 + 2 ^ 77 * d9))" unfolding vd by simp
    moreover have "0 \<le> d0 + 2 ^ 26 * d1 + 2 ^ 51 * d2 + 2 ^ 77 * d3 + 2 ^ 102 * d4" "d0 + 2 ^ 26 * d1 + 2 ^ 51 * d2 + 2 ^ 77 * d3 + 2 ^ 102 * d4 < 2 ^ 128" using s0(3,4) s1(3,4) s2(3,4) s3(3,4) s4(3,4) s5(3,4) by simp_all
    moreover have "0 \<le> d5" "d5 < 2 ^ 25" using s5(3,4) by simp_all
    ultimately show ?thesis by (rule digit_unique)
  qed
  have t6: "take_bit 26 (drop_bit 153 v) = d6"
  proof -
    have "v = (d0 + 2 ^ 26 * d1 + 2 ^ 51 * d2 + 2 ^ 77 * d3 + 2 ^ 102 * d4 + 2 ^ 128 * d5) + 2 ^ 153 * (d6 + 2 ^ 26 * (2 ^ 0 * d7 + 2 ^ 25 * d8 + 2 ^ 51 * d9))" unfolding vd by simp
    moreover have "0 \<le> d0 + 2 ^ 26 * d1 + 2 ^ 51 * d2 + 2 ^ 77 * d3 + 2 ^ 102 * d4 + 2 ^ 128 * d5" "d0 + 2 ^ 26 * d1 + 2 ^ 51 * d2 + 2 ^ 77 * d3 + 2 ^ 102 * d4 + 2 ^ 128 * d5 < 2 ^ 153" using s0(3,4) s1(3,4) s2(3,4) s3(3,4) s4(3,4) s5(3,4) s6(3,4) by simp_all
    moreover have "0 \<le> d6" "d6 < 2 ^ 26" using s6(3,4) by simp_all
    ultimately show ?thesis by (rule digit_unique)
  qed
  have t7: "take_bit 25 (drop_bit 179 v) = d7"
  proof -
    have "v = (d0 + 2 ^ 26 * d1 + 2 ^ 51 * d2 + 2 ^ 77 * d3 + 2 ^ 102 * d4 + 2 ^ 128 * d5 + 2 ^ 153 * d6) + 2 ^ 179 * (d7 + 2 ^ 25 * (2 ^ 0 * d8 + 2 ^ 26 * d9))" unfolding vd by simp
    moreover have "0 \<le> d0 + 2 ^ 26 * d1 + 2 ^ 51 * d2 + 2 ^ 77 * d3 + 2 ^ 102 * d4 + 2 ^ 128 * d5 + 2 ^ 153 * d6" "d0 + 2 ^ 26 * d1 + 2 ^ 51 * d2 + 2 ^ 77 * d3 + 2 ^ 102 * d4 + 2 ^ 128 * d5 + 2 ^ 153 * d6 < 2 ^ 179" using s0(3,4) s1(3,4) s2(3,4) s3(3,4) s4(3,4) s5(3,4) s6(3,4) s7(3,4) by simp_all
    moreover have "0 \<le> d7" "d7 < 2 ^ 25" using s7(3,4) by simp_all
    ultimately show ?thesis by (rule digit_unique)
  qed
  have t8: "take_bit 26 (drop_bit 204 v) = d8"
  proof -
    have "v = (d0 + 2 ^ 26 * d1 + 2 ^ 51 * d2 + 2 ^ 77 * d3 + 2 ^ 102 * d4 + 2 ^ 128 * d5 + 2 ^ 153 * d6 + 2 ^ 179 * d7) + 2 ^ 204 * (d8 + 2 ^ 26 * (2 ^ 0 * d9))" unfolding vd by simp
    moreover have "0 \<le> d0 + 2 ^ 26 * d1 + 2 ^ 51 * d2 + 2 ^ 77 * d3 + 2 ^ 102 * d4 + 2 ^ 128 * d5 + 2 ^ 153 * d6 + 2 ^ 179 * d7" "d0 + 2 ^ 26 * d1 + 2 ^ 51 * d2 + 2 ^ 77 * d3 + 2 ^ 102 * d4 + 2 ^ 128 * d5 + 2 ^ 153 * d6 + 2 ^ 179 * d7 < 2 ^ 204" using s0(3,4) s1(3,4) s2(3,4) s3(3,4) s4(3,4) s5(3,4) s6(3,4) s7(3,4) s8(3,4) by simp_all
    moreover have "0 \<le> d8" "d8 < 2 ^ 26" using s8(3,4) by simp_all
    ultimately show ?thesis by (rule digit_unique)
  qed
  have t9: "take_bit 25 (drop_bit 230 v) = d9"
  proof -
    have "v = (d0 + 2 ^ 26 * d1 + 2 ^ 51 * d2 + 2 ^ 77 * d3 + 2 ^ 102 * d4 + 2 ^ 128 * d5 + 2 ^ 153 * d6 + 2 ^ 179 * d7 + 2 ^ 204 * d8) + 2 ^ 230 * (d9 + 2 ^ 25 * (0))" unfolding vd by simp
    moreover have "0 \<le> d0 + 2 ^ 26 * d1 + 2 ^ 51 * d2 + 2 ^ 77 * d3 + 2 ^ 102 * d4 + 2 ^ 128 * d5 + 2 ^ 153 * d6 + 2 ^ 179 * d7 + 2 ^ 204 * d8" "d0 + 2 ^ 26 * d1 + 2 ^ 51 * d2 + 2 ^ 77 * d3 + 2 ^ 102 * d4 + 2 ^ 128 * d5 + 2 ^ 153 * d6 + 2 ^ 179 * d7 + 2 ^ 204 * d8 < 2 ^ 230" using s0(3,4) s1(3,4) s2(3,4) s3(3,4) s4(3,4) s5(3,4) s6(3,4) s7(3,4) s8(3,4) s9(3,4) by simp_all
    moreover have "0 \<le> d9" "d9 < 2 ^ 25" using s9(3,4) by simp_all
    ultimately show ?thesis by (rule digit_unique)
  qed
  have eqd: "fe_of_nat v = Fe d0 d1 d2 d3 d4 d5 d6 d7 d8 d9" unfolding fe_of_nat_def t0 t1 t2 t3 t4 t5 t6 t7 t8 t9 ..
  show "fe_digits (Fe h0 h1 h2 h3 h4 h5 h6 h7 h8 h9) = fe_of_nat v" unfolding eq eqd ..
  show "fe_val (fe_of_nat v) = v" unfolding eqd fe_val.simps by (rule vd [symmetric])
  show "fe_bnd 67108863 33554431 (fe_of_nat v)" unfolding eqd using s0(3,4) s1(3,4) s2(3,4) s3(3,4) s4(3,4) s5(3,4) s6(3,4) s7(3,4) s8(3,4) s9(3,4) by simp
qed

section \<open>Packing\<close>

lemma bit_i32: "n < 31 \<Longrightarrow> bit (i32 x) n \<longleftrightarrow> bit x n"
  by (simp add: i32_def bit_simps)

lemma byte_or_shl32: "byte_of_int (x OR shl32 y k) = byte_of_int (x OR push_bit k y)"
  by (rule bit_eqI) (auto simp: bit_byte_of_int bit_or_iff shl32_def bit_i32)

lemma fe_pack_spec:
  assumes "0 \<le> v" "v < 2 ^ 255"
  shows "fe_pack (fe_of_nat v) = le_bytes 32 v"
proof -
  have "drop_bit 230 v < 2 ^ 25" "0 \<le> drop_bit 230 v"
    using assms sar_split [of v 230] by (auto simp: sar_def)
  then have top: "take_bit 25 (drop_bit 230 v) = take_bit 26 (drop_bit 230 v)"
    by (simp add: take_bit_int_eq_self)
  have b0: "byte_of_int (drop_bit 0 (take_bit 26 (drop_bit 0 v))) = byte_of_int (drop_bit 0 v)"
    using byte_one [of 0 26 0 v] by simp
  have b1: "byte_of_int (drop_bit 8 (take_bit 26 (drop_bit 0 v))) = byte_of_int (drop_bit 8 v)"
    using byte_one [of 8 26 0 v] by simp
  have b2: "byte_of_int (drop_bit 16 (take_bit 26 (drop_bit 0 v))) = byte_of_int (drop_bit 16 v)"
    using byte_one [of 16 26 0 v] by simp
  have b3: "byte_of_int (drop_bit 24 (take_bit 26 (drop_bit 0 v)) OR push_bit 2 (take_bit 25 (drop_bit 26 v))) = byte_of_int (drop_bit 24 v)"
    using byte_two [of 24 26 25 0 v] by simp
  have b4: "byte_of_int (drop_bit 6 (take_bit 25 (drop_bit 26 v))) = byte_of_int (drop_bit 32 v)"
    using byte_one [of 6 25 26 v] by simp
  have b5: "byte_of_int (drop_bit 14 (take_bit 25 (drop_bit 26 v))) = byte_of_int (drop_bit 40 v)"
    using byte_one [of 14 25 26 v] by simp
  have b6: "byte_of_int (drop_bit 22 (take_bit 25 (drop_bit 26 v)) OR push_bit 3 (take_bit 26 (drop_bit 51 v))) = byte_of_int (drop_bit 48 v)"
    using byte_two [of 22 25 26 26 v] by simp
  have b7: "byte_of_int (drop_bit 5 (take_bit 26 (drop_bit 51 v))) = byte_of_int (drop_bit 56 v)"
    using byte_one [of 5 26 51 v] by simp
  have b8: "byte_of_int (drop_bit 13 (take_bit 26 (drop_bit 51 v))) = byte_of_int (drop_bit 64 v)"
    using byte_one [of 13 26 51 v] by simp
  have b9: "byte_of_int (drop_bit 21 (take_bit 26 (drop_bit 51 v)) OR push_bit 5 (take_bit 25 (drop_bit 77 v))) = byte_of_int (drop_bit 72 v)"
    using byte_two [of 21 26 25 51 v] by simp
  have b10: "byte_of_int (drop_bit 3 (take_bit 25 (drop_bit 77 v))) = byte_of_int (drop_bit 80 v)"
    using byte_one [of 3 25 77 v] by simp
  have b11: "byte_of_int (drop_bit 11 (take_bit 25 (drop_bit 77 v))) = byte_of_int (drop_bit 88 v)"
    using byte_one [of 11 25 77 v] by simp
  have b12: "byte_of_int (drop_bit 19 (take_bit 25 (drop_bit 77 v)) OR push_bit 6 (take_bit 26 (drop_bit 102 v))) = byte_of_int (drop_bit 96 v)"
    using byte_two [of 19 25 26 77 v] by simp
  have b13: "byte_of_int (drop_bit 2 (take_bit 26 (drop_bit 102 v))) = byte_of_int (drop_bit 104 v)"
    using byte_one [of 2 26 102 v] by simp
  have b14: "byte_of_int (drop_bit 10 (take_bit 26 (drop_bit 102 v))) = byte_of_int (drop_bit 112 v)"
    using byte_one [of 10 26 102 v] by simp
  have b15: "byte_of_int (drop_bit 18 (take_bit 26 (drop_bit 102 v))) = byte_of_int (drop_bit 120 v)"
    using byte_one [of 18 26 102 v] by simp
  have b16: "byte_of_int (drop_bit 0 (take_bit 25 (drop_bit 128 v))) = byte_of_int (drop_bit 128 v)"
    using byte_one [of 0 25 128 v] by simp
  have b17: "byte_of_int (drop_bit 8 (take_bit 25 (drop_bit 128 v))) = byte_of_int (drop_bit 136 v)"
    using byte_one [of 8 25 128 v] by simp
  have b18: "byte_of_int (drop_bit 16 (take_bit 25 (drop_bit 128 v))) = byte_of_int (drop_bit 144 v)"
    using byte_one [of 16 25 128 v] by simp
  have b19: "byte_of_int (drop_bit 24 (take_bit 25 (drop_bit 128 v)) OR push_bit 1 (take_bit 26 (drop_bit 153 v))) = byte_of_int (drop_bit 152 v)"
    using byte_two [of 24 25 26 128 v] by simp
  have b20: "byte_of_int (drop_bit 7 (take_bit 26 (drop_bit 153 v))) = byte_of_int (drop_bit 160 v)"
    using byte_one [of 7 26 153 v] by simp
  have b21: "byte_of_int (drop_bit 15 (take_bit 26 (drop_bit 153 v))) = byte_of_int (drop_bit 168 v)"
    using byte_one [of 15 26 153 v] by simp
  have b22: "byte_of_int (drop_bit 23 (take_bit 26 (drop_bit 153 v)) OR push_bit 3 (take_bit 25 (drop_bit 179 v))) = byte_of_int (drop_bit 176 v)"
    using byte_two [of 23 26 25 153 v] by simp
  have b23: "byte_of_int (drop_bit 5 (take_bit 25 (drop_bit 179 v))) = byte_of_int (drop_bit 184 v)"
    using byte_one [of 5 25 179 v] by simp
  have b24: "byte_of_int (drop_bit 13 (take_bit 25 (drop_bit 179 v))) = byte_of_int (drop_bit 192 v)"
    using byte_one [of 13 25 179 v] by simp
  have b25: "byte_of_int (drop_bit 21 (take_bit 25 (drop_bit 179 v)) OR push_bit 4 (take_bit 26 (drop_bit 204 v))) = byte_of_int (drop_bit 200 v)"
    using byte_two [of 21 25 26 179 v] by simp
  have b26: "byte_of_int (drop_bit 4 (take_bit 26 (drop_bit 204 v))) = byte_of_int (drop_bit 208 v)"
    using byte_one [of 4 26 204 v] by simp
  have b27: "byte_of_int (drop_bit 12 (take_bit 26 (drop_bit 204 v))) = byte_of_int (drop_bit 216 v)"
    using byte_one [of 12 26 204 v] by simp
  have b28: "byte_of_int (drop_bit 20 (take_bit 26 (drop_bit 204 v)) OR push_bit 6 (take_bit 26 (drop_bit 230 v))) = byte_of_int (drop_bit 224 v)"
    using byte_two [of 20 26 26 204 v] by simp
  have b29: "byte_of_int (drop_bit 2 (take_bit 26 (drop_bit 230 v))) = byte_of_int (drop_bit 232 v)"
    using byte_one [of 2 26 230 v] by simp
  have b30: "byte_of_int (drop_bit 10 (take_bit 26 (drop_bit 230 v))) = byte_of_int (drop_bit 240 v)"
    using byte_one [of 10 26 230 v] by simp
  have b31: "byte_of_int (drop_bit 18 (take_bit 26 (drop_bit 230 v))) = byte_of_int (drop_bit 248 v)"
    using byte_one [of 18 26 230 v] by simp
  have le: "le_bytes 32 v = [
      byte_of_int (drop_bit 0 v), byte_of_int (drop_bit 8 v), byte_of_int (drop_bit 16 v), byte_of_int (drop_bit 24 v),
      byte_of_int (drop_bit 32 v), byte_of_int (drop_bit 40 v), byte_of_int (drop_bit 48 v), byte_of_int (drop_bit 56 v),
      byte_of_int (drop_bit 64 v), byte_of_int (drop_bit 72 v), byte_of_int (drop_bit 80 v), byte_of_int (drop_bit 88 v),
      byte_of_int (drop_bit 96 v), byte_of_int (drop_bit 104 v), byte_of_int (drop_bit 112 v), byte_of_int (drop_bit 120 v),
      byte_of_int (drop_bit 128 v), byte_of_int (drop_bit 136 v), byte_of_int (drop_bit 144 v), byte_of_int (drop_bit 152 v),
      byte_of_int (drop_bit 160 v), byte_of_int (drop_bit 168 v), byte_of_int (drop_bit 176 v), byte_of_int (drop_bit 184 v),
      byte_of_int (drop_bit 192 v), byte_of_int (drop_bit 200 v), byte_of_int (drop_bit 208 v), byte_of_int (drop_bit 216 v),
      byte_of_int (drop_bit 224 v), byte_of_int (drop_bit 232 v), byte_of_int (drop_bit 240 v), byte_of_int (drop_bit 248 v)]"
    by (simp add: le_bytes_def upt_rec)
  show ?thesis
    unfolding fe_of_nat_def top fe_pack.simps sar_def byte_or_shl32 le
    by (simp only: b0 b1 b2 b3 b4 b5 b6 b7 b8 b9 b10 b11 b12 b13 b14 b15 b16 b17 b18 b19 b20 b21 b22 b23 b24 b25 b26 b27 b28 b29 b30 b31)
qed

section \<open>To bytes\<close>

theorem FeToBytes_spec:
  assumes "fe_loose f"
  shows "FeToBytes f = (le_bytes 32 (fe_val f mod p25519), fe_of_nat (fe_val f mod p25519))"
    "fe_val (fe_of_nat (fe_val f mod p25519)) = fe_val f mod p25519"
    "fe_bnd 67108863 33554431 (fe_of_nat (fe_val f mod p25519))"
proof -
  obtain h0 h1 h2 h3 h4 h5 h6 h7 h8 h9 where f: "f = Fe h0 h1 h2 h3 h4 h5 h6 h7 h8 h9" by (cases f)
  define q where "q = fe_quotient f"
  note q = fe_quotient_spec [OF assms [unfolded f], folded f q_def]
  have v: "fe_val f mod p25519 = fe_val f - p25519 * q"
  proof -
    have "fe_val f mod p25519 = (fe_val f - p25519 * q) mod p25519" by (rule mod_p_eqI [where k = q]) simp
    then show ?thesis using q by (simp add: mod_pos_pos_trivial)
  qed
  have b: "\<bar>h0\<bar> \<le> 120000000" "\<bar>h1\<bar> \<le> 120000000" "\<bar>h2\<bar> \<le> 120000000" "\<bar>h3\<bar> \<le> 120000000" "\<bar>h4\<bar> \<le> 120000000" "\<bar>h5\<bar> \<le> 120000000" "\<bar>h6\<bar> \<le> 120000000" "\<bar>h7\<bar> \<le> 120000000" "\<bar>h8\<bar> \<le> 120000000" "\<bar>h9\<bar> \<le> 120000000" and b0: "\<bar>h0\<bar> \<le> 110729625"
    using assms unfolding f by simp_all
  have q19: "i32 (19 * q) = 19 * q" "\<bar>h0 + 19 * q\<bar> \<le> 120000000" using q(3) b0 by (intro i32_abs, linarith, linarith)
  then have w: "i32 (h0 + 19 * q) = h0 + 19 * q" by (intro i32_abs) linarith
  have a: "fe_add0 (i32 (19 * q)) f = Fe (h0 + 19 * q) h1 h2 h3 h4 h5 h6 h7 h8 h9"
    unfolding f fe_add0.simps q19(1) w ..
  have val: "fe_val (Fe (h0 + 19 * q) h1 h2 h3 h4 h5 h6 h7 h8 h9) = fe_val f mod p25519 + 2 ^ 255 * q"
    unfolding v unfolding f by (simp add: p25519_def)
  have rng: "0 \<le> fe_val f mod p25519" "fe_val f mod p25519 < 2 ^ 255"
    using pos_mod_bound [of p25519 "fe_val f"] by (simp_all add: p25519_def)
  note d = fe_digits_spec [OF q19(2) b(2-10) val rng]
  show "FeToBytes f = (le_bytes 32 (fe_val f mod p25519), fe_of_nat (fe_val f mod p25519))"
    unfolding FeToBytes_def Let_def q_def [symmetric] a d(1) fe_pack_spec [OF rng] ..
  show "fe_val (fe_of_nat (fe_val f mod p25519)) = fe_val f mod p25519" by (rule d(2))
  show "fe_bnd 67108863 33554431 (fe_of_nat (fe_val f mod p25519))" by (rule d(3))
qed

end
