(* ===== verification/Ge_Facts.thy ===== *)
theory Ge_Facts
  imports Ge25519 Fe_Power Fe_Bytes
begin

text \<open>
  The group operations modulo the prime: what each operation makes of the values its operands
  represent, with the bounds that let every multiplication take place, and from that the
  addition law of the twisted Edwards curve.
\<close>

section \<open>Elements that represent a value\<close>

definition frep :: "int \<Rightarrow> FieldElement \<Rightarrow> int \<Rightarrow> bool" where
  "frep n f v \<longleftrightarrow> fe_bnd (n * 33554432) (n * 16944988) f \<and> fe_val f mod p25519 = v mod p25519"

lemma frep_loose: "frep n f v \<Longrightarrow> n \<le> 3 \<Longrightarrow> fe_loose f"
  unfolding frep_def by (erule conjE, erule fe_bnd_mono) simp_all

lemma frep_tight: "frep 1 f v \<longleftrightarrow> fe_tight f \<and> fe_val f mod p25519 = v mod p25519"
  by (simp add: frep_def)

lemma frep_cong: "frep n f v \<Longrightarrow> v mod p25519 = w mod p25519 \<Longrightarrow> frep n f w"
  by (simp add: frep_def)

lemma frep_self: "fe_tight f \<Longrightarrow> frep 1 f (fe_val f)"
  by (simp add: frep_def)

lemma frep_mult: "frep n f v \<Longrightarrow> frep m g w \<Longrightarrow> n \<le> 3 \<Longrightarrow> m \<le> 3 \<Longrightarrow> frep 1 (FeMul f g) (v * w)"
  using FeMul_spec [OF frep_loose frep_loose, of n f v m g w]
  by (auto simp: frep_tight frep_def intro: mod_mult_cong)

lemma frep_square: "frep n f v \<Longrightarrow> n \<le> 3 \<Longrightarrow> frep 1 (FeSquare f) (v * v)"
  using frep_mult [of n f v n f v] by (simp add: FeSquare_FeMul frep_loose)

lemma frep_square2: "frep n f v \<Longrightarrow> n \<le> 3 \<Longrightarrow> frep 1 (FeSquare2 f) (2 * (v * v))"
proof -
  assume r: "frep n f v" "n \<le> 3"
  have "(fe_val f * fe_val f) mod p25519 = (v * v) mod p25519"
    using r by (intro mod_mult_cong) (simp_all add: frep_def)
  then have "(2 * (fe_val f * fe_val f)) mod p25519 = (2 * (v * v)) mod p25519"
    by (metis mod_mult_right_eq)
  then show ?thesis using FeSquare2_spec [OF frep_loose [OF r]] by (simp add: frep_tight power2_eq_square)
qed

lemma FeAdd_exact:
  assumes "fe_bnd a b f" "fe_bnd c d g" "a + c \<le> 2147483647" "b + d \<le> 2147483647"
  shows "fe_bnd (a + c) (b + d) (FeAdd f g)" "fe_val (FeAdd f g) = fe_val f + fe_val g"
    "fe_bnd (a + c) (b + d) (FeSub f g)" "fe_val (FeSub f g) = fe_val f - fe_val g"
proof -
  have w: "i32 (x + y) = x + y" "i32 (x - y) = x - y" "\<bar>x + y\<bar> \<le> e + h" "\<bar>x - y\<bar> \<le> e + h"
    if "\<bar>x\<bar> \<le> e" "\<bar>y\<bar> \<le> h" "e + h \<le> 2147483647" for x y e h
    using that by (intro i32_abs, linarith, intro i32_abs, linarith, linarith, linarith)
  obtain f0 f1 f2 f3 f4 f5 f6 f7 f8 f9 where f: "f = Fe f0 f1 f2 f3 f4 f5 f6 f7 f8 f9" by (cases f)
  obtain g0 g1 g2 g3 g4 g5 g6 g7 g8 g9 where g: "g = Fe g0 g1 g2 g3 g4 g5 g6 g7 g8 g9" by (cases g)
  note ab = assms(1) [unfolded f fe_bnd.simps] assms(2) [unfolded g fe_bnd.simps]
  note e = w [of _ a _ c, OF _ _ assms(3)] w [of _ b _ d, OF _ _ assms(4)]
  show "fe_bnd (a + c) (b + d) (FeAdd f g)" "fe_bnd (a + c) (b + d) (FeSub f g)"
    unfolding f g using ab by (simp_all add: e)
  show "fe_val (FeAdd f g) = fe_val f + fe_val g" "fe_val (FeSub f g) = fe_val f - fe_val g"
    unfolding f g using ab by (simp_all add: e algebra_simps)
qed

lemma FeNeg_exact:
  assumes "fe_bnd a b f" "a \<le> 2147483647" "b \<le> 2147483647"
  shows "fe_bnd a b (FeNeg f)" "fe_val (FeNeg f) = - fe_val f"
proof -
  have w: "i32 (- x) = - x" if "\<bar>x\<bar> \<le> e" "e \<le> 2147483647" for x e
    using that by (intro i32_abs) linarith
  obtain f0 f1 f2 f3 f4 f5 f6 f7 f8 f9 where f: "f = Fe f0 f1 f2 f3 f4 f5 f6 f7 f8 f9" by (cases f)
  note a = assms(1) [unfolded f fe_bnd.simps]
  note e = w [of _ a, OF _ assms(2)] w [of _ b, OF _ assms(3)]
  show "fe_bnd a b (FeNeg f)" unfolding f using a by (simp add: e)
  show "fe_val (FeNeg f) = - fe_val f" unfolding f using a by (simp add: e)
qed

lemma frep_add: "frep n f v \<Longrightarrow> frep m g w \<Longrightarrow> n + m \<le> 60 \<Longrightarrow> frep (n + m) (FeAdd f g) (v + w)"
  and frep_sub: "frep n f v \<Longrightarrow> frep m g w \<Longrightarrow> n + m \<le> 60 \<Longrightarrow> frep (n + m) (FeSub f g) (v - w)"
proof -
  assume a: "frep n f v" "frep m g w" "n + m \<le> 60"
  have b: "n * 33554432 + m * 33554432 \<le> 2147483647" "n * 16944988 + m * 16944988 \<le> 2147483647"
    using a(3) by linarith+
  have c: "fe_bnd (n * 33554432) (n * 16944988) f" "fe_bnd (m * 33554432) (m * 16944988) g"
    "fe_val f mod p25519 = v mod p25519" "fe_val g mod p25519 = w mod p25519"
    using a(1,2) by (simp_all only: frep_def)
  note x = FeAdd_exact [OF c(1,2) b, folded distrib_right]
  show "frep (n + m) (FeAdd f g) (v + w)"
    unfolding frep_def x(2) using x(1) mod_add_cong [OF c(3,4)] by blast
  show "frep (n + m) (FeSub f g) (v - w)"
    unfolding frep_def x(4) using x(3) mod_diff_cong [OF c(3,4)] by blast
qed

lemma frep_neg: "frep n f v \<Longrightarrow> n \<le> 60 \<Longrightarrow> frep n (FeNeg f) (- v)"
proof -
  assume a: "frep n f v" "n \<le> 60"
  have b: "n * 33554432 \<le> 2147483647" "n * 16944988 \<le> 2147483647" using a(2) by linarith+
  have c: "fe_bnd (n * 33554432) (n * 16944988) f" "fe_val f mod p25519 = v mod p25519"
    using a(1) by (simp_all only: frep_def)
  have "(0 - fe_val f) mod p25519 = (0 - v) mod p25519" by (rule mod_diff_cong [OF refl c(2)])
  then show ?thesis
    unfolding frep_def FeNeg_exact(2) [OF c(1) b] using FeNeg_exact(1) [OF c(1) b] by simp
qed

lemma frep_Zero: "frep 1 FeZero 0" and frep_One: "frep 1 FeOne 1"
  by (simp_all add: frep_def FeZero_def FeOne_def)

lemma curve_d_tight: "fe_tight curve_d" "fe_tight curve_d2" "fe_tight SqrtM1"
  by (simp_all add: curve_d_def curve_d2_def SqrtM1_def)

abbreviation ed_d :: int where "ed_d \<equiv> fe_val curve_d"

lemma curve_d_val: "121666 * ed_d mod p25519 = - 121665 mod p25519"
  by (rule mod_p_eqI [where k = "(121666 * fe_val curve_d + 121665) div p25519"]) (simp add: curve_d_def p25519_def)

lemma frep_d2: "frep 1 curve_d2 (2 * ed_d)"
proof -
  have "fe_val curve_d2 mod p25519 = 2 * ed_d mod p25519"
    by (rule mod_p_eqI [where k = "(fe_val curve_d2 - 2 * fe_val curve_d) div p25519"])
      (simp add: curve_d_def curve_d2_def p25519_def)
  then show ?thesis using curve_d_tight by (simp add: frep_tight)
qed

lemma frep_mono: "frep n f v \<Longrightarrow> n \<le> m \<Longrightarrow> frep m f v"
  unfolding frep_def by (erule conjE, intro conjI, erule fe_bnd_mono) simp_all

lemma frep_to3: "frep 1 f v \<Longrightarrow> frep 3 f v" "frep (1 + 1) f v \<Longrightarrow> frep 3 f v" "frep (1 + 1 + 1) f v \<Longrightarrow> frep 3 f v"
  "frep (1 + (1 + 1)) f v \<Longrightarrow> frep 3 f v" "frep (1 + 2) f v \<Longrightarrow> frep 3 f v" "frep (2 + 1) f v \<Longrightarrow> frep 3 f v"
  by (erule frep_mono, simp)+

section \<open>The curve\<close>

text \<open>
  Congruence modulo the prime, and the numbers that have an inverse. The coordinates of a point
  are integers up to congruence.
\<close>

definition eqp :: "int \<Rightarrow> int \<Rightarrow> bool" where "eqp a b \<longleftrightarrow> a mod p25519 = b mod p25519"

definition unit_p :: "int \<Rightarrow> bool" where "unit_p z \<longleftrightarrow> (\<exists>w. eqp (z * w) 1)"

lemma eqp_refl [simp]: "eqp a a"
  and eqp_sym: "eqp a b \<Longrightarrow> eqp b a"
  and eqp_trans: "eqp a b \<Longrightarrow> eqp b c \<Longrightarrow> eqp a c"
  by (simp_all add: eqp_def)

lemma eqp_add: "eqp a b \<Longrightarrow> eqp c e \<Longrightarrow> eqp (a + c) (b + e)"
  unfolding eqp_def by (rule mod_add_cong)

lemma eqp_diff: "eqp a b \<Longrightarrow> eqp c e \<Longrightarrow> eqp (a - c) (b - e)"
  unfolding eqp_def by (rule mod_diff_cong)

lemma eqp_mult: "eqp a b \<Longrightarrow> eqp c e \<Longrightarrow> eqp (a * c) (b * e)"
  unfolding eqp_def by (rule mod_mult_cong)

lemma frep_eqp: "frep n f v \<Longrightarrow> eqp v w \<Longrightarrow> frep n f w"
  by (simp add: frep_def eqp_def)

lemma unit_mult: "unit_p a \<Longrightarrow> unit_p b \<Longrightarrow> unit_p (a * b)"
proof -
  assume "unit_p a" "unit_p b"
  then obtain v w where "eqp (a * v) 1" "eqp (b * w) 1" by (auto simp: unit_p_def)
  then have "eqp ((a * v) * (b * w)) (1 * 1)" by (rule eqp_mult)
  moreover have "a * b * (v * w) = (a * v) * (b * w)" by (simp only: ac_simps)
  ultimately have "eqp (a * b * (v * w)) 1" by (simp only: mult_1_left)
  then show ?thesis unfolding unit_p_def ..
qed

lemma unit_1: "unit_p 1" and unit_2: "unit_p 2"
  unfolding unit_p_def
  by (rule exI [of _ 1], simp, rule exI [of _ "2 ^ 254 - 9"], simp add: eqp_def p25519_def)

lemma unit_eqp: "unit_p a \<Longrightarrow> eqp a b \<Longrightarrow> unit_p b"
  unfolding unit_p_def using eqp_mult eqp_refl eqp_sym eqp_trans by meson

definition on_curve :: "int \<Rightarrow> int \<Rightarrow> bool" where
  "on_curve x y \<longleftrightarrow> eqp (y * y - x * x) (1 + ed_d * x * x * y * y)"

text \<open>The addition law of the curve, without division: \<open>(x3, y3)\<close> is the sum of the two points.\<close>

definition ed_sum :: "int \<times> int \<Rightarrow> int \<times> int \<Rightarrow> int \<times> int \<Rightarrow> bool" where
  "ed_sum = (\<lambda>(x1, y1) (x2, y2) (x3, y3).
     (let t = ed_d * x1 * x2 * y1 * y2
      in unit_p (1 + t) \<and> unit_p (1 - t) \<and> eqp (x3 * (1 + t)) (x1 * y2 + y1 * x2)
         \<and> eqp (y3 * (1 - t)) (y1 * y2 + x1 * x2)))"

section \<open>Which point a representation denotes\<close>

definition proj_rep :: "ProjectiveGroupElement \<Rightarrow> int \<times> int \<Rightarrow> bool" where
  "proj_rep P = (\<lambda>(x, y). \<exists>z. unit_p z \<and> frep 2 (pX P) (x * z) \<and> frep 1 (pY P) (y * z) \<and> frep 1 (pZ P) z)"

definition ext_rep :: "ExtendedGroupElement \<Rightarrow> int \<times> int \<Rightarrow> bool" where
  "ext_rep P = (\<lambda>(x, y). \<exists>z. unit_p z \<and> frep 2 (eX P) (x * z) \<and> frep 1 (eY P) (y * z) \<and> frep 1 (eZ P) z
     \<and> frep 1 (eT P) (x * y * z))"

definition com_rep :: "CompletedGroupElement \<Rightarrow> int \<times> int \<Rightarrow> bool" where
  "com_rep P = (\<lambda>(x, y). \<exists>z t. unit_p z \<and> unit_p t \<and> frep 3 (cX P) (x * z) \<and> frep 3 (cY P) (y * t)
     \<and> frep 3 (cZ P) z \<and> frep 3 (cT P) t)"

definition cached_rep :: "CachedGroupElement \<Rightarrow> int \<times> int \<Rightarrow> bool" where
  "cached_rep Q = (\<lambda>(x, y). \<exists>z. unit_p z \<and> frep 3 (qyPlusX Q) ((y + x) * z) \<and> frep 3 (qyMinusX Q) ((y - x) * z)
     \<and> frep 1 (qZ Q) z \<and> frep 1 (qT2d Q) (2 * ed_d * x * y * z))"

definition pre_rep :: "PreComputedGroupElement \<Rightarrow> int \<times> int \<Rightarrow> bool" where
  "pre_rep Q = (\<lambda>(x, y). frep 1 (yPlusX Q) (y + x) \<and> frep 1 (yMinusX Q) (y - x) \<and> frep 1 (xy2d Q) (2 * ed_d * x * y))"

lemma com_repI:
  assumes "unit_p z" "unit_p t" "frep 3 X a" "eqp a (x * z)" "frep 3 Y b" "eqp b (y * t)"
    "frep 3 Z c" "eqp c z" "frep 3 T' e" "eqp e t"
  shows "com_rep \<lparr>cX = X, cY = Y, cZ = Z, cT = T'\<rparr> (x, y)"
  unfolding com_rep_def prod.case
  by (rule exI [of _ z], rule exI [of _ t])
    (use assms(1,2) frep_eqp [OF assms(3,4)] frep_eqp [OF assms(5,6)] frep_eqp [OF assms(7,8)]
      frep_eqp [OF assms(9,10)] in simp)

lemma ToExtended_rep: "com_rep R q \<Longrightarrow> ext_rep (com_ToExtended R) q"
proof (cases q)
  case (Pair x y)
  assume "com_rep R q"
  then obtain z t where r: "unit_p z" "unit_p t" "frep 3 (cX R) (x * z)" "frep 3 (cY R) (y * t)"
    "frep 3 (cZ R) z" "frep 3 (cT R) t" unfolding com_rep_def Pair by auto
  note m = frep_mult [OF _ _ order_refl order_refl]
  have "frep 1 (FeMul (cX R) (cT R)) (x * (z * t))" "frep 1 (FeMul (cY R) (cZ R)) (y * (z * t))"
    "frep 1 (FeMul (cX R) (cY R)) (x * y * (z * t))"
    using m [OF r(3,6)] m [OF r(4,5)] m [OF r(3,4)] by (simp_all add: ac_simps)
  note f = this this(1) [THEN frep_mono, of 2]
  then show ?thesis unfolding Pair ext_rep_def com_ToExtended_def
    using f(4) unit_mult [OF r(1,2)] m [OF r(5,6)] by (auto intro!: exI [of _ "z * t"])
qed

lemma ToProjective_rep: "com_rep R q \<Longrightarrow> proj_rep (com_ToProjective R) q"
  using ToExtended_rep [of R q] unfolding ext_rep_def proj_rep_def com_ToExtended_def com_ToProjective_def by auto

lemma ext_ToProjective_rep: "ext_rep P q \<Longrightarrow> proj_rep (ext_ToProjective P) q"
  unfolding ext_rep_def proj_rep_def ext_ToProjective_def FeCopy_def by auto

lemma ToCached_rep: "ext_rep P q \<Longrightarrow> cached_rep (ext_ToCached P) q"
proof (cases q)
  case (Pair x y)
  assume "ext_rep P q"
  then obtain z where r: "unit_p z" "frep 2 (eX P) (x * z)" "frep 1 (eY P) (y * z)" "frep 1 (eZ P) z"
    "frep 1 (eT P) (x * y * z)" unfolding ext_rep_def Pair by auto
  have "frep 3 (FeAdd (eY P) (eX P)) ((y + x) * z)" "frep 3 (FeSub (eY P) (eX P)) ((y - x) * z)"
    using frep_to3(5) [OF frep_add [OF r(3,2)]] frep_to3(5) [OF frep_sub [OF r(3,2)]] by (simp_all add: algebra_simps)
  moreover have "frep 1 (FeMul (eT P) curve_d2) (2 * ed_d * x * y * z)"
    using frep_mult [OF r(5) frep_d2] by (simp add: ac_simps)
  ultimately show ?thesis unfolding cached_rep_def Pair ext_ToCached_def FeCopy_def using r by auto
qed

section \<open>The formulas\<close>

text \<open>
  The four products of the addition, and what they make: the two numerators, each a multiple of
  a coordinate of the sum, and the two denominators.
\<close>

lemma sum_numerators:
  assumes "ed_sum (x1, y1) (x2, y2) (x3, y3)"
  defines "t \<equiv> ed_d * x1 * x2 * y1 * y2"
  shows "eqp ((y1 + x1) * z1 * ((y2 + x2) * z2) - (y1 - x1) * z1 * ((y2 - x2) * z2)) (x3 * (2 * (z1 * z2) * (1 + t)))"
    "eqp ((y1 + x1) * z1 * ((y2 + x2) * z2) + (y1 - x1) * z1 * ((y2 - x2) * z2)) (y3 * (2 * (z1 * z2) * (1 - t)))"
    "unit_p z1 \<Longrightarrow> unit_p z2 \<Longrightarrow> unit_p (2 * (z1 * z2) * (1 + t)) \<and> unit_p (2 * (z1 * z2) * (1 - t))"
proof -
  have s: "unit_p (1 + t)" "unit_p (1 - t)" "eqp (x3 * (1 + t)) (x1 * y2 + y1 * x2)"
    "eqp (y3 * (1 - t)) (y1 * y2 + x1 * x2)"
    using assms(1) by (simp_all add: ed_sum_def t_def Let_def)
  have "eqp (2 * (z1 * z2) * (x1 * y2 + y1 * x2)) (2 * (z1 * z2) * (x3 * (1 + t)))"
    "eqp (2 * (z1 * z2) * (y1 * y2 + x1 * x2)) (2 * (z1 * z2) * (y3 * (1 - t)))"
    by (rule eqp_mult [OF eqp_refl eqp_sym [OF s(3)]], rule eqp_mult [OF eqp_refl eqp_sym [OF s(4)]])
  moreover have "(y1 + x1) * z1 * ((y2 + x2) * z2) - (y1 - x1) * z1 * ((y2 - x2) * z2) = 2 * (z1 * z2) * (x1 * y2 + y1 * x2)"
    "(y1 + x1) * z1 * ((y2 + x2) * z2) + (y1 - x1) * z1 * ((y2 - x2) * z2) = 2 * (z1 * z2) * (y1 * y2 + x1 * x2)"
    by (simp_all add: algebra_simps)
  moreover have "2 * (z1 * z2) * (x3 * (1 + t)) = x3 * (2 * (z1 * z2) * (1 + t))"
    "2 * (z1 * z2) * (y3 * (1 - t)) = y3 * (2 * (z1 * z2) * (1 - t))"
    by (simp_all only: ac_simps)
  ultimately show "eqp ((y1 + x1) * z1 * ((y2 + x2) * z2) - (y1 - x1) * z1 * ((y2 - x2) * z2)) (x3 * (2 * (z1 * z2) * (1 + t)))"
    "eqp ((y1 + x1) * z1 * ((y2 + x2) * z2) + (y1 - x1) * z1 * ((y2 - x2) * z2)) (y3 * (2 * (z1 * z2) * (1 - t)))"
    by simp_all
  show "unit_p z1 \<Longrightarrow> unit_p z2 \<Longrightarrow> unit_p (2 * (z1 * z2) * (1 + t)) \<and> unit_p (2 * (z1 * z2) * (1 - t))"
    using s(1,2) by (intro conjI unit_mult unit_2)
qed

lemma sum_denominators:
  "z1 * z2 + z1 * z2 + 2 * ed_d * x2 * y2 * z2 * (x1 * y1 * z1) = 2 * (z1 * z2) * (1 + ed_d * x1 * x2 * y1 * y2)"
  "z1 * z2 + z1 * z2 - 2 * ed_d * x2 * y2 * z2 * (x1 * y1 * z1) = 2 * (z1 * z2) * (1 - ed_d * x1 * x2 * y1 * y2)"
  by (simp_all add: algebra_simps)

lemma sum_com_rep:
  assumes u: "unit_p z1" "unit_p z2" and s: "ed_sum (x1, y1) (x2, y2) (x3, y3)"
    and A: "frep 1 A ((y1 + x1) * z1 * ((y2 + x2) * z2))" and B: "frep 1 B ((y1 - x1) * z1 * ((y2 - x2) * z2))"
    and t0: "frep (1 + 1) t0 (z1 * z2 + z1 * z2)"
  shows "frep 1 C (2 * ed_d * x2 * y2 * z2 * (x1 * y1 * z1)) \<Longrightarrow>
      com_rep \<lparr>cX = FeSub A B, cY = FeAdd A B, cZ = FeAdd t0 C, cT = FeSub t0 C\<rparr> (x3, y3)"
    "frep 1 C (- (2 * ed_d * x2 * y2 * z2 * (x1 * y1 * z1))) \<Longrightarrow>
      com_rep \<lparr>cX = FeSub A B, cY = FeAdd A B, cZ = FeSub t0 C, cT = FeAdd t0 C\<rparr> (x3, y3)"
proof -
  note n = sum_numerators [OF s]
  have nm: "frep 3 (FeSub A B) (x3 * (2 * (z1 * z2) * (1 + ed_d * x1 * x2 * y1 * y2)))"
    "frep 3 (FeAdd A B) (y3 * (2 * (z1 * z2) * (1 - ed_d * x1 * x2 * y1 * y2)))"
    using frep_to3(2) [OF frep_sub [OF A B]] frep_to3(2) [OF frep_add [OF A B]] frep_eqp n(1,2) by auto
  note uu = n(3) [OF u]
  have com: "com_rep \<lparr>cX = FeSub A B, cY = FeAdd A B, cZ = Z, cT = T'\<rparr> (x3, y3)"
    if "frep 3 Z (2 * (z1 * z2) * (1 + ed_d * x1 * x2 * y1 * y2))"
      "frep 3 T' (2 * (z1 * z2) * (1 - ed_d * x1 * x2 * y1 * y2))" for Z T'
    by (rule com_repI [OF uu [THEN conjunct1] uu [THEN conjunct2] nm(1) eqp_refl nm(2) eqp_refl that(1) eqp_refl that(2) eqp_refl])
  show "com_rep \<lparr>cX = FeSub A B, cY = FeAdd A B, cZ = FeAdd t0 C, cT = FeSub t0 C\<rparr> (x3, y3)"
    if C: "frep 1 C (2 * ed_d * x2 * y2 * z2 * (x1 * y1 * z1))"
    using com frep_to3(3) [OF frep_add [OF t0 C]] frep_to3(3) [OF frep_sub [OF t0 C]]
    unfolding sum_denominators by simp
  show "com_rep \<lparr>cX = FeSub A B, cY = FeAdd A B, cZ = FeSub t0 C, cT = FeAdd t0 C\<rparr> (x3, y3)"
    if C: "frep 1 C (- (2 * ed_d * x2 * y2 * z2 * (x1 * y1 * z1)))"
    using com frep_to3(3) [OF frep_sub [OF t0 C]] frep_to3(3) [OF frep_add [OF t0 C]]
    unfolding diff_minus_eq_add add_uminus_conv_diff sum_denominators by simp
qed

lemma ext_repE:
  assumes "ext_rep P (x, y)"
  obtains z where "unit_p z" "frep 2 (eX P) (x * z)" "frep 1 (eY P) (y * z)" "frep 1 (eZ P) z"
    "frep 1 (eT P) (x * y * z)" "frep 3 (FeAdd (eY P) (eX P)) ((y + x) * z)" "frep 3 (FeSub (eY P) (eX P)) ((y - x) * z)"
proof -
  obtain z where r: "unit_p z" "frep 2 (eX P) (x * z)" "frep 1 (eY P) (y * z)" "frep 1 (eZ P) z"
    "frep 1 (eT P) (x * y * z)" using assms unfolding ext_rep_def by auto
  have "frep 3 (FeAdd (eY P) (eX P)) ((y + x) * z)" "frep 3 (FeSub (eY P) (eX P)) ((y - x) * z)"
    using frep_to3(5) [OF frep_add [OF r(3,2)]] frep_to3(5) [OF frep_sub [OF r(3,2)]] by (simp_all add: algebra_simps)
  then show thesis using that r by blast
qed

lemma cached_repE:
  assumes "cached_rep Q (x, y)"
  obtains z where "unit_p z" "frep 3 (qyPlusX Q) ((y + x) * z)" "frep 3 (qyMinusX Q) ((y - x) * z)"
    "frep 1 (qZ Q) z" "frep 1 (qT2d Q) (2 * ed_d * x * y * z)"
  using assms unfolding cached_rep_def by auto

text \<open>The negative of a point, as its two precomputed forms have it.\<close>

definition neg_point :: "int \<times> int \<Rightarrow> int \<times> int" where "neg_point = (\<lambda>(x, y). (- x, y))"

lemma geAdd_rep:
  assumes "ext_rep P a" "cached_rep Q b"
  shows "ed_sum a b c \<Longrightarrow> com_rep (geAdd P Q) c" "ed_sum a (neg_point b) c \<Longrightarrow> com_rep (geSub P Q) c"
proof -
  obtain x1 y1 x2 y2 x3 y3 where abc: "a = (x1, y1)" "b = (x2, y2)" "c = (x3, y3)" by (metis surj_pair)
  obtain z1 where p: "unit_p z1" "frep 2 (eX P) (x1 * z1)" "frep 1 (eY P) (y1 * z1)" "frep 1 (eZ P) z1"
    "frep 1 (eT P) (x1 * y1 * z1)" "frep 3 (FeAdd (eY P) (eX P)) ((y1 + x1) * z1)"
    "frep 3 (FeSub (eY P) (eX P)) ((y1 - x1) * z1)" using ext_repE [OF assms(1) [unfolded abc]] .
  obtain z2 where q: "unit_p z2" "frep 3 (qyPlusX Q) ((y2 + x2) * z2)" "frep 3 (qyMinusX Q) ((y2 - x2) * z2)"
    "frep 1 (qZ Q) z2" "frep 1 (qT2d Q) (2 * ed_d * x2 * y2 * z2)" using cached_repE [OF assms(2) [unfolded abc]] .
  have T: "frep 1 (FeMul (qT2d Q) (eT P)) (2 * ed_d * x2 * y2 * z2 * (x1 * y1 * z1))"
    by (rule frep_mult [OF q(5) p(5)]) simp_all
  have zz: "frep 1 (FeMul (eZ P) (qZ Q)) (z1 * z2)" by (rule frep_mult [OF p(4) q(4)]) simp_all
  have t0: "frep (1 + 1) (FeAdd (FeMul (eZ P) (qZ Q)) (FeMul (eZ P) (qZ Q))) (z1 * z2 + z1 * z2)"
    by (rule frep_add [OF zz zz]) simp
  note m = frep_mult [OF _ _ order_refl order_refl]
  show "com_rep (geAdd P Q) c" if "ed_sum a b c"
    unfolding geAdd_def Let_def abc
    by (rule sum_com_rep(1) [OF p(1) q(1) that [unfolded abc] m [OF p(6) q(2)] m [OF p(7) q(3)] t0 T])
  show "com_rep (geSub P Q) c" if "ed_sum a (neg_point b) c"
    unfolding geSub_def Let_def abc
    by (rule sum_com_rep(2) [of z1 z2 x1 y1 "- x2" y2])
      (use p q that m [OF p(6) q(3)] m [OF p(7) q(2)] t0 T in \<open>simp_all add: abc neg_point_def\<close>)
qed

lemma geMixedAdd_rep:
  assumes "ext_rep P a" "pre_rep Q b"
  shows "ed_sum a b c \<Longrightarrow> com_rep (geMixedAdd P Q) c" "ed_sum a (neg_point b) c \<Longrightarrow> com_rep (geMixedSub P Q) c"
proof -
  obtain x1 y1 x2 y2 x3 y3 where abc: "a = (x1, y1)" "b = (x2, y2)" "c = (x3, y3)" by (metis surj_pair)
  obtain z1 where p: "unit_p z1" "frep 2 (eX P) (x1 * z1)" "frep 1 (eY P) (y1 * z1)" "frep 1 (eZ P) z1"
    "frep 1 (eT P) (x1 * y1 * z1)" "frep 3 (FeAdd (eY P) (eX P)) ((y1 + x1) * z1)"
    "frep 3 (FeSub (eY P) (eX P)) ((y1 - x1) * z1)" using ext_repE [OF assms(1) [unfolded abc]] .
  have q: "frep 1 (yPlusX Q) ((y2 + x2) * 1)" "frep 1 (yMinusX Q) ((y2 - x2) * 1)" "frep 1 (xy2d Q) (2 * ed_d * x2 * y2 * 1)"
    using assms(2) by (simp_all add: pre_rep_def abc)
  have T: "frep 1 (FeMul (xy2d Q) (eT P)) (2 * ed_d * x2 * y2 * 1 * (x1 * y1 * z1))"
    by (rule frep_mult [OF q(3) p(5)]) simp_all
  have t0: "frep (1 + 1) (FeAdd (eZ P) (eZ P)) (z1 * 1 + z1 * 1)"
    using frep_add [OF p(4) p(4)] by simp
  note m = frep_mult [OF _ frep_to3(1) order_refl order_refl]
  show "com_rep (geMixedAdd P Q) c" if "ed_sum a b c"
    unfolding geMixedAdd_def Let_def abc
    by (rule sum_com_rep(1) [OF p(1) unit_1 that [unfolded abc] m [OF p(6) q(1)] m [OF p(7) q(2)] t0 T])
  show "com_rep (geMixedSub P Q) c" if "ed_sum a (neg_point b) c"
    unfolding geMixedSub_def Let_def abc
    by (rule sum_com_rep(2) [of z1 1 x1 y1 "- x2" y2])
      (use p unit_1 that m [OF p(6) q(2)] m [OF p(7) q(1)] t0 T in \<open>simp_all add: abc neg_point_def\<close>)
qed

lemma Double_rep:
  assumes "proj_rep P (x, y)" "on_curve x y" "ed_sum (x, y) (x, y) (x3, y3)"
  shows "com_rep (proj_Double P) (x3, y3)"
proof -
  obtain z where p: "unit_p z" "frep 2 (pX P) (x * z)" "frep 1 (pY P) (y * z)" "frep 1 (pZ P) z"
    using assms(1) by (auto simp: proj_rep_def)
  define t where "t = ed_d * x * x * y * y"
  have s: "unit_p (1 + t)" "unit_p (1 - t)" "eqp (x3 * (1 + t)) (x * y + y * x)" "eqp (y3 * (1 - t)) (y * y + x * x)"
    using assms(3) by (simp_all add: ed_sum_def t_def Let_def)
  have c: "eqp (y * y - x * x) (1 + t)" using assms(2) by (simp add: on_curve_def t_def)
  have zz: "unit_p (z * z)" using p(1) p(1) by (rule unit_mult)
  have XX: "frep 1 (FeSquare (pX P)) (x * z * (x * z))" and YY: "frep 1 (FeSquare (pY P)) (y * z * (y * z))"
    and Z2: "frep 1 (FeSquare2 (pZ P)) (2 * (z * z))"
    using frep_square [OF p(2)] frep_square [OF p(3)] frep_square2 [OF p(4)] by simp_all
  have S: "frep 1 (FeSquare (FeAdd (pX P) (pY P))) ((x * z + y * z) * (x * z + y * z))"
    by (rule frep_square [OF frep_to3(6) [OF frep_add [OF p(2,3)]]]) simp_all
  note Y = frep_add [OF YY XX] and Z = frep_sub [OF YY XX]
  have e: "eqp ((x * z + y * z) * (x * z + y * z) - (y * z * (y * z) + x * z * (x * z))) (x3 * (z * z * (1 + t)))"
    "eqp (y * z * (y * z) + x * z * (x * z)) (y3 * (z * z * (1 - t)))"
    "eqp (y * z * (y * z) - x * z * (x * z)) (z * z * (1 + t))"
    "eqp (2 * (z * z) - (y * z * (y * z) - x * z * (x * z))) (z * z * (1 - t))"
  proof -
    note l = eqp_mult [OF eqp_refl [of "z * z"]]
    show "eqp ((x * z + y * z) * (x * z + y * z) - (y * z * (y * z) + x * z * (x * z))) (x3 * (z * z * (1 + t)))"
      using eqp_sym [OF l [OF s(3)]] by (simp add: algebra_simps)
    show "eqp (y * z * (y * z) + x * z * (x * z)) (y3 * (z * z * (1 - t)))"
      using eqp_sym [OF l [OF s(4)]] by (simp add: algebra_simps)
    show z1: "eqp (y * z * (y * z) - x * z * (x * z)) (z * z * (1 + t))"
      using l [OF c] by (simp add: algebra_simps)
    have "2 * (z * z) - z * z * (1 + t) = z * z * (1 - t)" by (simp add: algebra_simps)
    then show "eqp (2 * (z * z) - (y * z * (y * z) - x * z * (x * z))) (z * z * (1 - t))"
      using eqp_diff [OF eqp_refl [of "2 * (z * z)"] z1] by simp
  qed
  show ?thesis
    unfolding proj_Double_def Let_def
    by (rule com_repI [OF unit_mult [OF zz s(1)] unit_mult [OF zz s(2)] frep_to3(4) [OF frep_sub [OF S Y]] e(1)
        frep_to3(2) [OF Y] e(2) frep_to3(2) [OF Z] e(3) frep_to3(4) [OF frep_sub [OF Z2 Z]] e(4)]) simp_all
qed

end
