(* ===== verification/Ge_Recode.thy ===== *)
theory Ge_Recode
  imports Ge_Facts
begin

text \<open>
  The recodings of a scalar: the signed radix-16 digits of \<open>GeScalarMultBase\<close> and the sliding
  window of \<open>GeDoubleScalarMultVartime\<close>; and the branchless selection of a table entry.
\<close>

unbundle bit_operations_syntax

section \<open>Radix 16\<close>

lemma nibble_values:
  fixes v :: byte
  shows "i8 (uint (v AND 15)) = uint v mod 16" "i8 (uint (drop_bit 4 v AND 15)) = uint v div 16"
proof -
  have m: "uint (x AND 15) = uint x mod 16" for x :: byte
  proof -
    have "uint x AND 15 = take_bit 4 (uint x)" by (simp add: take_bit_eq_mask mask_eq_exp_minus_1)
    then show ?thesis by (simp only: unsigned_and_eq) (simp add: take_bit_eq_mod)
  qed
  have d: "uint (drop_bit 4 v) = uint v div 16"
    by (subst unsigned_drop_bit_eq) (simp add: drop_bit_eq_div take_bit_int_eq_self uint_byte_bounds)
  have b: "uint v div 16 < 16" "0 \<le> uint v div 16"
    using uint_byte_bounds [of v] by (simp_all add: pos_imp_zdiv_nonneg_iff)
  have q: "uint (drop_bit 4 v) mod 16 = uint v div 16" unfolding d using b by (rule mod_pos_pos_trivial [rotated])
  have "0 \<le> uint v mod 16" "uint v mod 16 < 16" by simp_all
  then show "i8 (uint (v AND 15)) = uint v mod 16" unfolding m by (intro i8_id) linarith+
  show "i8 (uint (drop_bit 4 v AND 15)) = uint v div 16" unfolding m q using b by (intro i8_id) linarith+
qed

lemma nibbles_spec:
  "length (nibbles a) = 2 * length a" "digits_val 16 (nibbles a) = le_val a" "\<forall>e\<in>set (nibbles a). 0 \<le> e \<and> e \<le> 15"
proof (induction a)
  case (Cons v a)
  have n: "nibbles (v # a) = uint v mod 16 # uint v div 16 # nibbles a"
    unfolding nibbles_def list.map concat.simps nibble_values [of v] append.simps ..
  case 1 show ?case using Cons by (simp add: n)
  case 2 show ?case using Cons by (simp add: n)
  case 3
  have "uint v div 16 \<le> 15" "0 \<le> uint v div 16"
    using uint_byte_bounds [of v] by (simp_all add: pos_imp_zdiv_nonneg_iff)
  then show ?case using Cons(3) by (simp add: n)
qed (simp_all add: nibbles_def)

lemma signed_digits_step:
  assumes "0 \<le> e" "e \<le> 15" "c = 0 \<or> c = 1"
  defines "c' \<equiv> sar (i8 (i8 (e + c) + 8)) 4"
  shows "c' = 0 \<or> c' = 1" "i8 (i8 (e + c) - i8 (push_bit 4 c')) = e + c - 16 * c'"
    "- 8 \<le> e + c - 16 * c' \<and> e + c - 16 * c' \<le> 7"
proof -
  have "i8 (e + c) = e + c" "i8 (e + c + 8) = e + c + 8" using assms(1-3) by (auto intro!: i8_id)
  then have c: "c' = (e + c + 8) div 16" by (simp add: c'_def sar_div)
  show c01: "c' = 0 \<or> c' = 1" unfolding c using assms(1-3) by auto
  show "- 8 \<le> e + c - 16 * c' \<and> e + c - 16 * c' \<le> 7" unfolding c using assms(1-3) by presburger
  then show "i8 (i8 (e + c) - i8 (push_bit 4 c')) = e + c - 16 * c'"
    using c01 \<open>i8 (e + c) = e + c\<close> by (auto simp: push_bit_eq_mult i8_id)
qed

lemma signed_digits_spec:
  assumes "\<forall>e\<in>set es. 0 \<le> e \<and> e \<le> 15" "c = 0 \<or> c = 1" "es \<noteq> []" "last es \<le> 7"
  shows "digits_val 16 (signed_digits c es) = digits_val 16 es + c \<and> length (signed_digits c es) = length es
    \<and> (\<forall>d\<in>set (signed_digits c es). - 8 \<le> d \<and> d \<le> 8)"
  using assms
proof (induction c es rule: signed_digits.induct)
  case (2 c e)
  have "i8 (e + c) = e + c" "0 \<le> e + c" "e + c \<le> 8" using "2.prems" by (auto intro!: i8_id)
  then show ?case by simp
next
  case (3 c e e' es)
  define c' where "c' = sar (i8 (i8 (e + c) + 8)) 4"
  have e: "0 \<le> e" "e \<le> 15" using "3.prems"(1) by simp_all
  note s = signed_digits_step [OF e "3.prems"(2), folded c'_def]
  have eq: "signed_digits c (e # e' # es) = (e + c - 16 * c') # signed_digits c' (e' # es)"
    by (simp only: signed_digits.simps Let_def c'_def [symmetric] s(2))
  have "\<forall>e\<in>set (e' # es). 0 \<le> e \<and> e \<le> 15" "e' # es \<noteq> []" "last (e' # es) \<le> 7" using "3.prems" by simp_all
  note IH = "3.IH" [OF refl refl refl, folded c'_def, OF this(1) s(1) this(2,3)]
  show ?case unfolding eq using IH s(3) by (simp add: algebra_simps)
qed simp

section \<open>The sliding window\<close>

text \<open>
  The state of \<open>slide\<close> after position \<open>i\<close>: the digits up to \<open>i\<close> are settled (zero, or odd within
  \<open>15\<close>), what follows are bits, and the number is unchanged modulo \<open>2^256\<close>.
\<close>

definition settled :: "int \<Rightarrow> bool" where
  "settled d \<longleftrightarrow> d = 0 \<or> (odd d \<and> - 15 \<le> d \<and> d \<le> 15)"

definition bits_from :: "nat \<Rightarrow> int list \<Rightarrow> bool" where
  "bits_from i r \<longleftrightarrow> (\<forall>k. i \<le> k \<longrightarrow> k < length r \<longrightarrow> r ! k = 0 \<or> r ! k = 1)"

lemma slide_carry_spec:
  assumes "\<forall>x\<in>set r. x = 0 \<or> x = 1"
  shows "length (slide_carry r) = length r" "\<forall>x\<in>set (slide_carry r). x = 0 \<or> x = 1"
    "digits_val 2 (slide_carry r) mod 2 ^ length r = (digits_val 2 r + 1) mod 2 ^ length r"
  using assms
proof (induction r)
  case (Cons x r)
  { case 1 then show ?case using Cons.IH by simp next
    case 2 then show ?case using Cons.IH by simp next
    case 3
    show ?case
    proof (cases "x = 0")
      case False
      then have x: "x = 1" using 3 by simp
      have "(2 * digits_val 2 (slide_carry r)) mod (2 * 2 ^ length r) = (2 * (digits_val 2 r + 1)) mod (2 * 2 ^ length r)"
        using Cons.IH(3) 3 by (simp only: mult_mod_right [symmetric]) simp
      then show ?thesis using x by (simp add: add.commute)
    qed (simp add: add.commute) }
qed simp_all

text \<open>
  What one turn of the loop over \<open>b\<close> keeps: the array's length, the settled digits below \<open>i\<close>, the
  bits above, and the number. The digit at \<open>i\<close> stays odd and within \<open>15\<close>, and \<open>2^b\<close> divides
  what is added to it.
\<close>

definition slide_inv :: "nat \<Rightarrow> nat \<Rightarrow> int \<Rightarrow> int list \<Rightarrow> bool" where
  "slide_inv i b v r \<longleftrightarrow> length r = 256 \<and> (\<forall>k<i. settled (r ! k)) \<and> bits_from (i + 1) r
     \<and> digits_val 2 r mod 2 ^ 256 = v \<and> odd (r ! i) \<and> - 15 \<le> r ! i \<and> r ! i \<le> 15"

lemma i8_digit:
  assumes "- 15 \<le> d" "d \<le> 15" "1 \<le> b" "b \<le> 6"
  shows "i8 (push_bit b 1) = 2 ^ b" "i8 (d + 2 ^ b) = d + 2 ^ b" "i8 (d - 2 ^ b) = d - 2 ^ b" "i8 (2 ^ b) = 2 ^ b"
proof -
  have "(2 :: int) ^ b \<le> 2 ^ 6" using assms(4) by (rule power_increasing) simp
  then have p: "(2 :: int) ^ b \<le> 64" by simp
  have z: "(0 :: int) < 2 ^ b" by (rule zero_less_power) simp
  show "i8 (push_bit b 1) = 2 ^ b" unfolding push_bit_eq_mult mult_1_left using p z by (intro i8_id) linarith+
  show "i8 (d + 2 ^ b) = d + 2 ^ b" "i8 (d - 2 ^ b) = d - 2 ^ b"
    using p z assms(1,2) by (intro i8_id, linarith+)+
  show "i8 (2 ^ b) = 2 ^ b" using p z by (intro i8_id) linarith+
qed

lemma slide_add:
  assumes inv: "slide_inv i b v r" and b: "1 \<le> b" "b \<le> 6" "i + b < 256" and one: "r ! (i + b) = 1"
    and le: "r ! i + 2 ^ b \<le> 15"
  shows "slide_inv i (b + 1) v (r[i := r ! i + 2 ^ b, i + b := 0])"
proof -
  have r: "length r = 256" "- 15 \<le> r ! i" "r ! i \<le> 15" "odd (r ! i)" "i < 256" using inv b(3) by (simp_all add: slide_inv_def)
  have "digits_val 2 (r[i := r ! i + 2 ^ b, i + b := 0]) = digits_val 2 r"
    using r(1,5) b one by (simp add: digits_val_update power_add)
  moreover have "even ((2 :: int) ^ b)" using b by simp
  moreover have "(0 :: int) < 2 ^ b" by (rule zero_less_power) simp
  then have "- 15 \<le> r ! i + 2 ^ b" using r(2) by linarith
  ultimately show ?thesis
    using inv le r b unfolding slide_inv_def bits_from_def
    by (auto simp: nth_list_update)
qed

text \<open>The carry after a subtraction adds \<open>2^(i+b)\<close> to what follows, modulo \<open>2^256\<close>.\<close>

lemma slide_sub:
  assumes inv: "slide_inv i b v r" and b: "1 \<le> b" "b \<le> 6" "i + b < 256"
    and ge: "- 15 \<le> r ! i - 2 ^ b"
  defines "r' \<equiv> r[i := r ! i - 2 ^ b]"
  shows "slide_inv i (b + 1) v (take (i + b) r' @ slide_carry (drop (i + b) r'))"
proof -
  define m where "m = i + b"
  have r: "length r = 256" "r ! i \<le> 15" "odd (r ! i)" "i < m" "m < 256" "bits_from (i + 1) r"
    using inv b by (simp_all add: slide_inv_def m_def)
  define lo where "lo = take m r'"
  define hi where "hi = drop m r'"
  have split: "r' = lo @ hi" "length lo = m" "length hi = 256 - m" "hi = drop m r"
    unfolding lo_def hi_def append_take_drop_id using r by (simp_all add: r'_def)
  have bits: "\<forall>x\<in>set hi. x = 0 \<or> x = 1"
  proof
    fix x assume "x \<in> set hi"
    then obtain k where "k < length hi" "x = r ! (m + k)" by (auto simp: split(4) in_set_conv_nth)
    then show "x = 0 \<or> x = 1"
      using r(6) [unfolded bits_from_def, rule_format, of "m + k"] r(1,4) split(3) by simp
  qed
  note c = slide_carry_spec [OF bits]
  have p: "(2 :: int) ^ 256 = 2 ^ m * 2 ^ length hi" using r(5) split(3) by (simp flip: power_add)
  have "(2 ^ m * digits_val 2 (slide_carry hi)) mod 2 ^ 256 = (2 ^ m * (digits_val 2 hi + 1)) mod 2 ^ 256"
    unfolding p using c(3) by (simp only: mult_mod_right [symmetric])
  then have "(digits_val 2 lo + 2 ^ m * digits_val 2 (slide_carry hi)) mod 2 ^ 256
      = (digits_val 2 lo + 2 ^ m * (digits_val 2 hi + 1)) mod 2 ^ 256"
    by (rule mod_add_cong [OF refl])
  also have "digits_val 2 lo + 2 ^ m * (digits_val 2 hi + 1) = digits_val 2 r' + 2 ^ m"
    unfolding split(1) digits_val_append split(2) by (simp add: algebra_simps)
  also have "digits_val 2 r' = digits_val 2 r - 2 ^ m"
    unfolding r'_def using r by (simp add: digits_val_update m_def power_add)
  finally have val: "digits_val 2 (lo @ slide_carry hi) mod 2 ^ 256 = v"
    using inv unfolding slide_inv_def digits_val_append split(2) by simp
  have nth: "(lo @ slide_carry hi) ! k = (if k < m then r' ! k else slide_carry hi ! (k - m))" for k
    using split(2) by (simp add: nth_append lo_def)
  have sc: "slide_carry hi ! (k - m) = 0 \<or> slide_carry hi ! (k - m) = 1" if "m \<le> k" "k < 256" for k
    using c(1,2) that split(3) by (simp add: all_set_conv_all_nth)
  have "even ((2 :: int) ^ b)" using b by simp
  moreover have "(0 :: int) < 2 ^ b" by (rule zero_less_power) simp
  then have "r ! i - 2 ^ b \<le> 15" using r(2) by linarith
  ultimately have "slide_inv i (b + 1) v (lo @ slide_carry hi)"
    using inv ge r val sc c(1) split(2,3) unfolding slide_inv_def bits_from_def nth r'_def
    by (auto simp: nth_list_update)
  then show ?thesis unfolding lo_def hi_def m_def .
qed

lemma slide_bits_inv:
  assumes "slide_inv i b v r" "1 \<le> b" "b + n \<le> 7"
  shows "\<exists>b'. slide_inv i b' v (slide_bits n b r i)"
  using assms
proof (induction n b r i rule: slide_bits.induct)
  case (2 n b r i)
  show ?case
  proof (cases "i + b < 256 \<and> r ! (i + b) \<noteq> 0")
    case True
    then have ib: "i + b < 256" by simp
    have "bits_from (i + 1) r" "length r = 256" using "2.prems"(1) by (simp_all add: slide_inv_def)
    then have one: "r ! (i + b) = 1"
      using True "2.prems"(2) unfolding bits_from_def by (metis add_left_mono)
    have b: "1 \<le> b" "b \<le> 6" using "2.prems" by simp_all
    have d: "- 15 \<le> r ! i" "r ! i \<le> 15" using "2.prems"(1) by (simp_all add: slide_inv_def)
    note e = i8_digit [OF d b]
    note IH = "2.IH"(2,3) [OF _ _ refl, unfolded one e(1-3)]
    consider "r ! i + 2 ^ b \<le> 15" | "\<not> r ! i + 2 ^ b \<le> 15" "r ! i - 2 ^ b \<ge> - 15"
      | "\<not> r ! i + 2 ^ b \<le> 15" "\<not> r ! i - 2 ^ b \<ge> - 15" by blast
    then show ?thesis
    proof cases
      case 1
      have "\<exists>b'. slide_inv i b' v (slide_bits n (b + 1) (r[i := r ! i + 2 ^ b, i + b := 0]) i)"
        using IH(1) ib one 1 slide_add [OF "2.prems"(1) b ib one 1] "2.prems" by simp
      then show ?thesis using ib one 1 by (simp add: Let_def e)
    next
      case 2
      have "\<exists>b'. slide_inv i b' v (slide_bits n (b + 1)
          (take (i + b) (r[i := r ! i - 2 ^ b]) @ slide_carry (drop (i + b) (r[i := r ! i - 2 ^ b]))) i)"
        using IH(2) ib one 2 slide_sub [OF "2.prems"(1) b ib 2(2)] "2.prems" by simp
      then show ?thesis using ib one 2 by (simp add: Let_def e)
    next
      case 3
      then show ?thesis using ib one "2.prems"(1) by (auto simp add: Let_def e)
    qed
  next
    case False
    then show ?thesis
      using "2.prems" "2.IH"(1) by (cases "i + b < 256") (auto simp: slide_inv_def)
  qed
qed auto

definition slide_pre :: "nat \<Rightarrow> int \<Rightarrow> int list \<Rightarrow> bool" where
  "slide_pre i v r \<longleftrightarrow> length r = 256 \<and> (\<forall>k<i. settled (r ! k)) \<and> bits_from i r \<and> digits_val 2 r mod 2 ^ 256 = v"

lemma slide_step_inv:
  assumes "slide_pre i v r" "i < 256"
  shows "slide_pre (Suc i) v (slide_step i r)"
proof -
  have bit: "r ! i = 0 \<or> r ! i = 1" and b: "bits_from (Suc i) r"
    using assms unfolding slide_pre_def bits_from_def by auto
  show ?thesis
  proof (cases "r ! i = 0")
    case True
    then show ?thesis using assms b by (simp add: slide_pre_def slide_step_def less_Suc_eq settled_def)
  next
    case False
    then have "slide_inv i 1 v r" using assms b bit by (simp add: slide_inv_def slide_pre_def)
    then obtain b' where "slide_inv i b' v (slide_step i r)"
      using slide_bits_inv [of i 1 v r 6] False by (auto simp: slide_step_def)
    then show ?thesis by (auto simp: slide_inv_def slide_pre_def less_Suc_eq settled_def)
  qed
qed

lemma slide_fold:
  assumes "slide_pre 0 v r" "n \<le> 256"
  shows "slide_pre n v (fold slide_step [0..<n] r)"
  using assms(2)
proof (induction n)
  case (Suc n)
  then show ?case using slide_step_inv [of n v "fold slide_step [0..<n] r"] by simp
qed (use assms in simp)

text \<open>The bits of the scalar, and their number.\<close>

lemma digits_val_bits: "digits_val 2 (map (\<lambda>i. of_bool (bit x i)) [0..<n]) = take_bit n x" for x :: int
  by (induction n) (simp_all add: digits_val_append take_bit_Suc_from_most)

lemma bit_le_val: "i < 8 * length a \<Longrightarrow> bit (le_val a) i \<longleftrightarrow> bit (a ! (i div 8)) (i mod 8)"
proof (induction a arbitrary: i)
  case (Cons b a)
  have e: "le_val (b # a) = uint b OR push_bit 8 (le_val a)"
    using or_push [of "uint b" 8 "le_val a"] uint_byte_bounds [of b] by simp
  show ?case
  proof (cases "i < 8")
    case True
    then show ?thesis unfolding e by (simp add: bit_or_iff bit_push_bit_iff bit_uint_iff)
  next
    case False
    then have i: "i div 8 = Suc ((i - 8) div 8)" "i mod 8 = (i - 8) mod 8" by (simp_all add: le_div_geq le_mod_geq)
    have "\<not> bit (uint b) i" using False by (simp add: bit_uint_iff)
    then show ?thesis unfolding e i using Cons.IH [of "i - 8"] Cons.prems False
      by (simp add: bit_or_iff bit_push_bit_iff)
  qed
qed simp

lemma scalar_bits_spec:
  assumes "length a = 32"
  shows "length (scalar_bits a) = 256" "bits_from 0 (scalar_bits a)" "digits_val 2 (scalar_bits a) = le_val a"
proof -
  have bit: "i8 (uint (1 AND drop_bit n w)) = of_bool (bit w n)" for w :: byte and n
  proof -
    have "1 AND drop_bit n w = of_bool (bit w n)"
      by (rule bit_eqI) (auto simp: bit_and_iff bit_1_iff bit_drop_bit_eq)
    then show ?thesis by (simp add: i8_id)
  qed
  have s: "scalar_bits a = map (\<lambda>i. of_bool (bit (le_val a) i)) [0..<256]"
    unfolding scalar_bits_def bit by (rule map_cong [OF refl]) (use assms in \<open>simp add: bit_le_val\<close>)
  show "length (scalar_bits a) = 256" by (simp add: s)
  show "bits_from 0 (scalar_bits a)" unfolding bits_from_def s by simp
  show "digits_val 2 (scalar_bits a) = le_val a"
    unfolding s digits_val_bits using le_val_less [of a] assms by (simp add: take_bit_int_eq_self)
qed

lemma slide_pre_scalar: "length a = 32 \<Longrightarrow> slide_pre 0 (le_val a) (scalar_bits a)"
  using scalar_bits_spec [of a] le_val_less [of a] by (simp add: slide_pre_def)

section \<open>Selecting without a branch\<close>

lemma signed_take_bit_xor_int: "signed_take_bit n (x XOR y) = signed_take_bit n x XOR signed_take_bit n y" for x y :: int
  by (rule bit_eqI) (auto simp: bit_simps)

lemma cmov_spec:
  assumes "\<bar>f\<bar> \<le> 2147483647" "\<bar>g\<bar> \<le> 2147483647"
  shows "cmov 0 f g = f" "cmov (- 1) f g = g"
proof -
  have id: "signed_take_bit 31 f = f" "signed_take_bit 31 g = g"
    using i32_abs [OF assms(1)] i32_abs [OF assms(2)] by (simp_all add: i32_def)
  show "cmov 0 f g = f" unfolding cmov_def i32_def using id by simp
  have "i32 (f XOR g) = f XOR g"
    unfolding i32_def signed_take_bit_xor_int id ..
  moreover have "f XOR (f XOR g) = g" by (simp flip: xor.assoc)
  ultimately show "cmov (- 1) f g = g" unfolding cmov_def using id by (simp add: i32_def)
qed

lemma FeCMove_spec:
  assumes "fe_bnd a b f" "fe_bnd a b g" "a \<le> 2147483647" "b \<le> 2147483647"
  shows "FeCMove f g 1 = g" "FeCMove f g 0 = f"
proof -
  obtain f0 f1 f2 f3 f4 f5 f6 f7 f8 f9 where f: "f = Fe f0 f1 f2 f3 f4 f5 f6 f7 f8 f9" by (cases f)
  obtain g0 g1 g2 g3 g4 g5 g6 g7 g8 g9 where g: "g = Fe g0 g1 g2 g3 g4 g5 g6 g7 g8 g9" by (cases g)
  have m: "i32 (- 1) = - 1" "i32 (- 0) = 0" by (simp_all add: i32_id)
  have w: "cmov 0 x y = x" "cmov (- 1) x y = y"
    if "\<bar>x\<bar> \<le> e" "\<bar>y\<bar> \<le> e" "e \<le> 2147483647" for x y e
    using cmov_spec [of x y] that by simp_all
  note e = w [of _ a, OF _ _ assms(3)] w [of _ b, OF _ _ assms(4)]
  show "FeCMove f g 1 = g" "FeCMove f g 0 = f"
    using assms(1,2) unfolding f g FeCMove.simps Let_def m by (simp_all add: e)
qed

definition pre_tight :: "PreComputedGroupElement \<Rightarrow> bool" where
  "pre_tight p \<longleftrightarrow> fe_tight (yPlusX p) \<and> fe_tight (yMinusX p) \<and> fe_tight (xy2d p)"

lemma base_rows_tight:
  "list_all pre_tight base_0"
  "list_all pre_tight base_1"
  "list_all pre_tight base_2"
  "list_all pre_tight base_3"
  "list_all pre_tight base_4"
  "list_all pre_tight base_5"
  "list_all pre_tight base_6"
  "list_all pre_tight base_7"
  "list_all pre_tight base_8"
  "list_all pre_tight base_9"
  "list_all pre_tight base_10"
  "list_all pre_tight base_11"
  "list_all pre_tight base_12"
  "list_all pre_tight base_13"
  "list_all pre_tight base_14"
  "list_all pre_tight base_15"
  "list_all pre_tight base_16"
  "list_all pre_tight base_17"
  "list_all pre_tight base_18"
  "list_all pre_tight base_19"
  "list_all pre_tight base_20"
  "list_all pre_tight base_21"
  "list_all pre_tight base_22"
  "list_all pre_tight base_23"
  "list_all pre_tight base_24"
  "list_all pre_tight base_25"
  "list_all pre_tight base_26"
  "list_all pre_tight base_27"
  "list_all pre_tight base_28"
  "list_all pre_tight base_29"
  "list_all pre_tight base_30"
  "list_all pre_tight base_31"
  by (simp_all add: pre_tight_def PreComputedGroupElement.make_def
    base_0_def base_1_def base_2_def base_3_def base_4_def base_5_def base_6_def base_7_def
    base_8_def base_9_def base_10_def base_11_def base_12_def base_13_def base_14_def base_15_def
    base_16_def base_17_def base_18_def base_19_def base_20_def base_21_def base_22_def base_23_def
    base_24_def base_25_def base_26_def base_27_def base_28_def base_29_def base_30_def base_31_def)

lemma base_rows_length:
  "length base_0 = 8" "length base_1 = 8" "length base_2 = 8" "length base_3 = 8"
  "length base_4 = 8" "length base_5 = 8" "length base_6 = 8" "length base_7 = 8"
  "length base_8 = 8" "length base_9 = 8" "length base_10 = 8" "length base_11 = 8"
  "length base_12 = 8" "length base_13 = 8" "length base_14 = 8" "length base_15 = 8"
  "length base_16 = 8" "length base_17 = 8" "length base_18 = 8" "length base_19 = 8"
  "length base_20 = 8" "length base_21 = 8" "length base_22 = 8" "length base_23 = 8"
  "length base_24 = 8" "length base_25 = 8" "length base_26 = 8" "length base_27 = 8"
  "length base_28 = 8" "length base_29 = 8" "length base_30 = 8" "length base_31 = 8"
  by (simp_all add:
    base_0_def base_1_def base_2_def base_3_def base_4_def base_5_def base_6_def base_7_def
    base_8_def base_9_def base_10_def base_11_def base_12_def base_13_def base_14_def base_15_def
    base_16_def base_17_def base_18_def base_19_def base_20_def base_21_def base_22_def base_23_def
    base_24_def base_25_def base_26_def base_27_def base_28_def base_29_def base_30_def base_31_def)

lemma base_tight: "length base = 32" "list_all (\<lambda>row. length row = 8 \<and> list_all pre_tight row) base"
  unfolding base_def by (simp_all add: base_rows_tight base_rows_length)

lemma base_entry: "pos < 32 \<Longrightarrow> i < 8 \<Longrightarrow> pre_tight (base ! pos ! i)"
  using base_tight by (auto simp: list_all_length)

lemma bi_tight: "length bi = 8" "list_all pre_tight bi"
  by (simp_all add: pre_tight_def PreComputedGroupElement.make_def bi_def)

lemma ct_equal_small: "\<forall>b\<in>set [0, 1, 2, 3, 4, 5, 6, 7, 8]. \<forall>c\<in>set [0, 1, 2, 3, 4, 5, 6, 7, 8]. ct_equal b c = (if b = c then 1 else 0)"
  by code_simp

lemma pre_cmove:
  assumes "pre_tight t" "pre_tight u"
  shows "PreComputedGroupElementCMove t u 1 = u" "PreComputedGroupElementCMove t u 0 = t"
  using assms FeCMove_spec [of 33554432 16944988]
  by (simp_all add: PreComputedGroupElementCMove_def pre_tight_def PreComputedGroupElement.make_def)

lemma pre_Zero_tight: "pre_tight pre_Zero"
  by (simp add: pre_tight_def pre_Zero_def PreComputedGroupElement.make_def FeZero_def FeOne_def)

definition pre_neg :: "PreComputedGroupElement \<Rightarrow> PreComputedGroupElement" where
  "pre_neg t = precomputed (yMinusX t) (yPlusX t) (FeNeg (xy2d t))"

lemma pre_neg_tight: "pre_tight t \<Longrightarrow> pre_tight (pre_neg t)"
  using FeNeg_exact(1) [of 33554432 16944988]
  by (simp add: pre_tight_def pre_neg_def PreComputedGroupElement.make_def)

lemma select_loop:
  assumes row: "\<forall>i<8. pre_tight (row ! i)" and m: "0 \<le> m" "m \<le> 8" and n: "n \<le> 8"
  shows "fold (\<lambda>i t. PreComputedGroupElementCMove t (row ! i) (ct_equal m (int i + 1))) [0..<n] pre_Zero
    = (if 1 \<le> m \<and> m \<le> int n then row ! (nat m - 1) else pre_Zero)"
  using n
proof (induction n)
  case (Suc n)
  have "m \<in> set [0, 1, 2, 3, 4, 5, 6, 7, 8]" "int n + 1 \<in> set [0, 1, 2, 3, 4, 5, 6, 7, 8]"
    using m Suc.prems by auto
  then have c: "ct_equal m (int n + 1) = (if m = int n + 1 then 1 else 0)" using ct_equal_small by blast
  define t where "t = (if 1 \<le> m \<and> m \<le> int n then row ! (nat m - 1) else pre_Zero)"
  have "nat m - 1 < 8" using m by simp
  then have "pre_tight t" using row pre_Zero_tight by (simp add: t_def)
  then have step: "PreComputedGroupElementCMove t (row ! n) (ct_equal m (int n + 1)) = (if m = int n + 1 then row ! n else t)"
    using row Suc.prems pre_cmove [of t "row ! n"] by (simp add: c)
  have "nat (int n + 1) = Suc n" by simp
  then show ?case using Suc step unfolding t_def by auto
qed auto

lemma select_sign:
  assumes "- 8 \<le> b" "b \<le> 8"
  shows "negative b = (if b < 0 then 1 else 0)"
    "i32 (b - shl32 (i32 (- (negative b)) AND b) 1) = \<bar>b\<bar>"
proof -
  obtain r where r: "b = 2147483648 * sar b 31 + r" "0 \<le> r" "r < 2147483648"
    using sar_split [of b 31] by auto
  then have "sar b 31 = - 1" if "b < 0" using assms that by linarith
  moreover have "sar b 31 = 0" if "\<not> b < 0" using r assms that by linarith
  ultimately have "sar b 31 = (if b < 0 then - 1 else 0)" by simp
  then show n: "negative b = (if b < 0 then 1 else 0)" by (simp add: negative_def)
  show "i32 (b - shl32 (i32 (- (negative b)) AND b) 1) = \<bar>b\<bar>"
    unfolding n using assms by (auto simp: i32_id shl32_def push_bit_eq_mult)
qed

lemma selectPoint_eq:
  assumes "pos < 32" "- 8 \<le> b" "b \<le> 8"
  shows "selectPoint pos b =
    (if b = 0 then pre_Zero else if 0 < b then base ! pos ! (nat b - 1) else pre_neg (base ! pos ! (nat (- b) - 1)))"
proof -
  note s = select_sign [OF assms(2,3)]
  define t where "t = (if 1 \<le> \<bar>b\<bar> then base ! pos ! (nat \<bar>b\<bar> - 1) else pre_Zero)"
  have "fold (\<lambda>i t. PreComputedGroupElementCMove t (base ! pos ! i) (ct_equal \<bar>b\<bar> (int i + 1))) [0..<8] pre_Zero = t"
    unfolding t_def using select_loop [of "base ! pos" "\<bar>b\<bar>" 8] base_entry [OF assms(1)] assms(2,3) by simp
  then have e: "selectPoint pos b = PreComputedGroupElementCMove t (pre_neg t) (negative b)"
    unfolding selectPoint_def Let_def s(2) pre_neg_def FeCopy_def by simp
  have "nat \<bar>b\<bar> - 1 < 8" using assms by simp
  then have tt: "pre_tight t" unfolding t_def using base_entry [OF assms(1)] pre_Zero_tight by simp
  show ?thesis unfolding e s(1) using pre_cmove [OF tt pre_neg_tight [OF tt]] by (auto simp: t_def)
qed

lemma selectPoint_tight:
  assumes "pos < 32" "- 8 \<le> b" "b \<le> 8"
  shows "pre_tight (selectPoint pos b)"
proof -
  have "nat b - 1 < 8" "nat (- b) - 1 < 8" using assms by simp_all
  then show ?thesis
    unfolding selectPoint_eq [OF assms] using base_entry [OF assms(1)] pre_Zero_tight pre_neg_tight by simp
qed

section \<open>The limbs through a scalar multiplication\<close>

definition ext_tight :: "ExtendedGroupElement \<Rightarrow> bool" where
  "ext_tight P \<longleftrightarrow> fe_tight (eX P) \<and> fe_tight (eY P) \<and> fe_tight (eZ P) \<and> fe_tight (eT P)"

definition com_loose :: "CompletedGroupElement \<Rightarrow> bool" where
  "com_loose P \<longleftrightarrow> fe_loose (cX P) \<and> fe_loose (cY P) \<and> fe_loose (cZ P) \<and> fe_loose (cT P)"

definition proj_tight :: "ProjectiveGroupElement \<Rightarrow> bool" where
  "proj_tight P \<longleftrightarrow> fe_tight (pX P) \<and> fe_tight (pY P) \<and> fe_tight (pZ P)"

lemma com_tight: "com_loose P \<Longrightarrow> ext_tight (com_ToExtended P) \<and> proj_tight (com_ToProjective P)"
  by (simp add: com_loose_def ext_tight_def proj_tight_def com_ToExtended_def com_ToProjective_def FeMul_spec(1))

lemma ext_Zero_tight: "ext_tight ext_Zero"
  by (simp add: ext_tight_def ext_Zero_def FeZero_def FeOne_def)

lemmas limb_sum = frep_loose [OF frep_add] frep_loose [OF frep_sub]
lemmas limb_tight = FeMul_spec(1) FeSquare_tight FeSquare2_spec(1)

lemma geMixedAdd_loose: "ext_tight P \<Longrightarrow> pre_tight Q \<Longrightarrow> com_loose (geMixedAdd P Q)"
  unfolding ext_tight_def pre_tight_def com_loose_def geMixedAdd_def Let_def CompletedGroupElement.simps
  by (elim conjE, intro conjI)
    (assumption | rule limb_tight | rule tight_loose, assumption | rule limb_sum frep_add frep_sub frep_self | simp)+

lemma proj_Double_loose: "proj_tight P \<Longrightarrow> com_loose (proj_Double P)"
  unfolding proj_tight_def com_loose_def proj_Double_def Let_def CompletedGroupElement.simps
  by (elim conjE, intro conjI)
    (assumption | rule limb_tight | rule tight_loose, assumption | rule limb_sum frep_add frep_sub frep_self | simp)+

lemma ext_Double_loose: "ext_tight P \<Longrightarrow> com_loose (ext_Double P)"
  unfolding ext_Double_def
  by (rule proj_Double_loose) (simp add: ext_tight_def proj_tight_def ext_ToProjective_def FeCopy_def)

lemma add_digit_tight:
  assumes "\<forall>i<64. - 8 \<le> e ! i \<and> e ! i \<le> 8" "i < 64" "ext_tight h"
  shows "ext_tight (add_digit e i h)"
  unfolding add_digit_def using assms
  by (intro com_tight [THEN conjunct1] geMixedAdd_loose selectPoint_tight) auto

lemma add_digits_tight:
  assumes "\<forall>i<64. - 8 \<le> e ! i \<and> e ! i \<le> 8" "\<forall>i\<in>set is. i < 64" "ext_tight h"
  shows "ext_tight (fold (add_digit e) is h)"
  using assms(2,3)
proof (induction "is" arbitrary: h)
  case (Cons i "is")
  then show ?case using add_digit_tight [OF assms(1), of i h] by simp
qed simp

lemma scalar_digits:
  assumes "length a = 32" "uint (a ! 31) \<le> 127"
  shows "digits_val 16 (signed_digits 0 (nibbles a)) = le_val a" "length (signed_digits 0 (nibbles a)) = 64"
    "\<forall>d\<in>set (signed_digits 0 (nibbles a)). - 8 \<le> d \<and> d \<le> 8"
proof -
  have a: "a = take 31 a @ [a ! 31]" using assms(1) by (simp add: take_Suc_conv_app_nth [symmetric])
  have n: "nibbles a = nibbles (take 31 a) @ [uint (a ! 31) mod 16, uint (a ! 31) div 16]"
    by (subst a) (simp add: nibbles_def nibble_values [of "a ! 31"])
  have "last (nibbles a) \<le> 7" using assms(2) by (simp add: n)
  moreover have "nibbles a \<noteq> []" by (simp add: n)
  ultimately show "digits_val 16 (signed_digits 0 (nibbles a)) = le_val a" "length (signed_digits 0 (nibbles a)) = 64"
    "\<forall>d\<in>set (signed_digits 0 (nibbles a)). - 8 \<le> d \<and> d \<le> 8"
    using signed_digits_spec [of "nibbles a" 0] nibbles_spec [of a] assms(1) by simp_all
qed

lemma GeScalarMultBase_tight:
  assumes "length a = 32" "uint (a ! 31) \<le> 127"
  shows "ext_tight (GeScalarMultBase a)"
proof -
  note d = scalar_digits [OF assms]
  define e where "e = signed_digits 0 (nibbles a)"
  have e: "\<forall>i<64. - 8 \<le> e ! i \<and> e ! i \<le> 8" using d(2,3) unfolding e_def by (metis nth_mem)
  note t = add_digits_tight [OF e] com_tight proj_Double_loose ext_Double_loose
  have "ext_tight (fold (add_digit e) (map (\<lambda>i. 2 * i + 1) [0..<32]) ext_Zero)"
    by (rule t(1)) (use ext_Zero_tight in auto)
  then show ?thesis
    unfolding GeScalarMultBase_def Let_def e_def [symmetric]
    by (intro t(1)) (auto intro!: t(3) t(4) t(2) [THEN conjunct1] t(2) [THEN conjunct2])
qed

end
