(* ===== verification/Ge_Encode.thy ===== *)
theory Ge_Encode
  imports Ge_Facts
begin

text \<open>
  The tests on an element's canonical bytes, and the encoding and decoding of points.
\<close>

unbundle bit_operations_syntax

lemma le_bytes_nth: "i < n \<Longrightarrow> le_bytes n v ! i = byte_of_int (drop_bit (8 * i) v)"
  by (simp add: le_bytes_def)

definition sign_bit :: "int \<Rightarrow> byte" where
  "sign_bit v = (if odd (v mod p25519) then 1 else 0)"

lemma byte_and_one: "byte_of_int v AND 1 = (if odd v then 1 else 0)"
  by (rule bit_eqI) (auto simp: bit_and_iff bit_byte_of_int bit_0 bit_1_iff intro: gr0I)

lemma FeIsNegative_spec:
  assumes "fe_loose f"
  shows "FeIsNegative f = (sign_bit (fe_val f), fe_of_nat (fe_val f mod p25519))"
  unfolding FeIsNegative_def Let_def FeToBytes_spec [OF assms] prod.case
  by (simp add: le_bytes_nth byte_and_one sign_bit_def)

lemma smear_byte:
  fixes x :: byte
  defines "y \<equiv> x OR drop_bit 4 x"
  defines "z \<equiv> y OR drop_bit 2 y"
  shows "(z OR drop_bit 1 z) AND 1 = (if x = 0 then 0 else 1)"
proof (cases "x = 0")
  case False
  then obtain n where n: "bit x n" using bit_eqI [of x 0] by (auto simp: bit_0_eq)
  then have "n < 8" using bit_imp_le_length by fastforce
  then have "n = 0 \<or> n = 1 \<or> n = 2 \<or> n = 3 \<or> n = 4 \<or> n = 5 \<or> n = 6 \<or> n = 7" by auto
  then have "bit (z OR drop_bit 1 z) 0"
    using n by (auto simp: y_def z_def bit_or_iff bit_drop_bit_eq eval_nat_numeral)
  then have "(z OR drop_bit 1 z) AND 1 = 1" by (intro bit_eqI) (auto simp: bit_and_iff bit_1_iff)
  then show ?thesis using False by simp
qed (simp add: y_def z_def)

lemma fold_or_zero: "fold (\<lambda>b x. x OR b) bs a = (0 :: byte) \<longleftrightarrow> a = 0 \<and> (\<forall>b\<in>set bs. b = 0)"
proof (induction bs arbitrary: a)
  case (Cons b bs)
  have "a OR b = 0 \<longleftrightarrow> a = 0 \<and> b = 0" by (metis or.right_neutral or_eq_0_iff)
  then show ?case using Cons by simp
qed simp

lemma le_val_zero: "le_val bs = 0 \<longleftrightarrow> (\<forall>b\<in>set bs. b = 0)"
proof (induction bs)
  case (Cons b bs)
  have "le_val (b # bs) = 0 \<longleftrightarrow> uint b = 0 \<and> le_val bs = 0"
    using uint_byte_bounds(1) [of b] le_val_nonneg [of bs] by (simp only: le_val.simps) linarith
  then show ?case using Cons by (simp add: uint_0_iff)
qed simp

lemma residue_bytes:
  "le_val (le_bytes 32 (v mod p25519)) = v mod p25519"
proof -
  have "0 \<le> v mod p25519" "v mod p25519 < 256 ^ 32"
    using pos_mod_bound [of p25519 v] by (simp_all add: p25519_def)
  then show ?thesis by (simp add: le_val_le_bytes mod_pos_pos_trivial)
qed

lemma FeIsNonZero_spec:
  assumes "fe_loose f"
  shows "FeIsNonZero f = (if eqp (fe_val f) 0 then 0 else 1, fe_of_nat (fe_val f mod p25519))"
proof -
  define s where "s = le_bytes 32 (fe_val f mod p25519)"
  have "fold (\<lambda>b x. x OR b) s 0 = 0 \<longleftrightarrow> le_val s = 0" by (simp add: fold_or_zero le_val_zero)
  then have "fold (\<lambda>b x. x OR b) s 0 = 0 \<longleftrightarrow> eqp (fe_val f) 0"
    unfolding s_def residue_bytes by (simp add: eqp_def)
  then show ?thesis
    unfolding FeIsNonZero_def Let_def FeToBytes_spec [OF assms] prod.case s_def [symmetric] smear_byte by simp
qed

section \<open>Encoding a point\<close>

lemma frep_residue: "fe_loose f \<Longrightarrow> frep 2 (fe_of_nat (fe_val f mod p25519)) (fe_val f)"
  unfolding frep_def using FeToBytes_spec(2,3) [of f] by (auto elim!: fe_bnd_mono)

lemma xor_top_byte:
  assumes "length s = 32" "le_val s < 2 ^ 255" "b = 0 \<or> b = (1 :: byte)"
  shows "le_val (s[31 := s ! 31 XOR push_bit 7 b]) = le_val s + 2 ^ 255 * uint b"
proof -
  define r where "r = take 31 s"
  define t where "t = s ! 31"
  have s: "s = r @ [t]" "length r = 31" using assms(1) by (simp_all add: r_def t_def take_Suc_conv_app_nth [symmetric])
  have v: "le_val s = le_val r + 2 ^ 248 * uint t" using s(2) by (simp add: s(1) le_val_append)
  have "2 ^ 248 * uint t < 2 ^ 255" using v assms(2) le_val_nonneg [of r] by linarith
  then have t: "uint t < 128" by simp
  have "uint (t XOR push_bit 7 b) = uint t + 128 * uint b"
  proof (cases "b = 0")
    case False
    then have b: "b = 1" using assms(3) by simp
    have "\<not> bit t 7"
    proof
      assume "bit t 7"
      then have "bit (uint t) 7" by (simp add: bit_uint_iff)
      moreover have "take_bit 7 (uint t) = uint t" using t by (simp add: take_bit_int_eq_self)
      ultimately show False by (metis bit_take_bit_iff less_irrefl)
    qed
    then have "\<not> bit (t AND 2 ^ 7) n" for n by (auto simp only: bit_and_iff bit_exp_iff)
    then have "t AND 2 ^ 7 = 0" by (intro bit_eqI) (simp only: bit_0_eq bot_fun_def bot_bool_def)
    then have "t AND push_bit 7 1 = 0" by (simp only: push_bit_eq_mult mult_1_left)
    moreover have "t XOR push_bit 7 1 = t OR push_bit 7 1"
      using calculation by (metis disjunctive_add_eq_or disjunctive_add_eq_xor)
    ultimately have "t XOR push_bit 7 1 = t + 128" by (simp add: disjunctive_add_eq_or [symmetric])
    then show ?thesis using t b by (simp add: uint_word_ariths mod_pos_pos_trivial)
  qed simp
  then show ?thesis unfolding v using s(2) by (simp add: s(1) le_val_append nth_append list_update_append algebra_simps)
qed

lemma frep_mod: "frep n f v \<Longrightarrow> fe_val f mod p25519 = v mod p25519"
  by (simp add: frep_def)

text \<open>
  The encoding of an affine point: its \<open>y\<close> with the parity of its \<open>x\<close> in the top bit. The inverse is
  a power, so the statement asks for what Fermat's theorem says of the denominator.
\<close>

lemma encode_point:
  assumes X: "frep 2 X (x * z)" and Y: "frep 1 Y (y * z)" and Z: "frep 1 Z z"
    and fermat: "z ^ (2 ^ 255 - 20) mod p25519 = 1"
  defines "recip \<equiv> FeInvert Z"
  shows "le_val ((fst (FeToBytes (FeMul Y recip)))[31 := fst (FeToBytes (FeMul Y recip)) ! 31
      XOR push_bit 7 (fst (FeIsNegative (FeMul X recip)))])
    = y mod p25519 + 2 ^ 255 * (x mod p25519 mod 2)"
proof -
  have "fe_power Z (2 ^ 255 - 21) recip" unfolding recip_def using frep_loose [OF Z] by (intro FeInvert_power) simp
  then have r0: "fe_loose recip" "fe_val recip mod p25519 = fe_val Z ^ (2 ^ 255 - 21) mod p25519"
    by (simp_all only: fe_power_def)
  have tight: "fe_tight recip" unfolding recip_def using frep_loose [OF Z] by (intro FeInvert_tight) simp
  then have r: "frep 1 recip (z ^ (2 ^ 255 - 21))"
    using r0(2) frep_mod [OF Z] unfolding frep_tight by (metis power_mod)
  have e: "Suc (2 ^ 255 - 21) = (2 ^ 255 - 20 :: nat)" by simp
  have zz: "eqp (z * z ^ (2 ^ 255 - 21)) 1"
    using fermat unfolding eqp_def power_Suc [symmetric] e by (simp add: p25519_def)
  have c: "eqp (a * z * z ^ (2 ^ 255 - 21)) a" for a
    using eqp_mult [OF eqp_refl [of a] zz] by (simp only: mult.assoc mult_1_right)
  have x: "frep 1 (FeMul X recip) x" and y: "frep 1 (FeMul Y recip) y"
    by (rule frep_eqp [OF frep_mult [OF X r] c]; simp) (rule frep_eqp [OF frep_mult [OF Y r] c]; simp)
  define s where "s = le_bytes 32 (y mod p25519)"
  have Y: "fst (FeToBytes (FeMul Y recip)) = s"
    using FeToBytes_spec(1) [OF frep_loose [OF y]] by (simp add: frep_mod [OF y] s_def)
  have X: "fst (FeIsNegative (FeMul X recip)) = sign_bit x"
    using FeIsNegative_spec [OF frep_loose [OF x]] by (simp add: sign_bit_def frep_mod [OF x])
  have sv: "le_val s = y mod p25519" unfolding s_def by (rule residue_bytes)
  have "le_val s < 2 ^ 255" unfolding sv using pos_mod_bound [of p25519 y] by (simp add: p25519_def)
  then have "le_val (s[31 := s ! 31 XOR push_bit 7 (sign_bit x)]) = le_val s + 2 ^ 255 * uint (sign_bit x)"
    by (intro xor_top_byte) (simp_all add: s_def sign_bit_def)
  moreover have "uint (sign_bit x) = x mod p25519 mod 2" by (simp add: sign_bit_def mod2_eq_if)
  ultimately show ?thesis unfolding X Y sv by simp
qed

lemma ext_ToBytes_eq: "ext_ToBytes P =
    (let s = fst (FeToBytes (FeMul (eY P) (FeInvert (eZ P))))
     in s[31 := s ! 31 XOR push_bit 7 (fst (FeIsNegative (FeMul (eX P) (FeInvert (eZ P)))))])"
  and proj_ToBytes_eq: "proj_ToBytes Q =
    (let s = fst (FeToBytes (FeMul (pY Q) (FeInvert (pZ Q))))
     in s[31 := s ! 31 XOR push_bit 7 (fst (FeIsNegative (FeMul (pX Q) (FeInvert (pZ Q)))))])"
  by (simp_all add: ext_ToBytes_def proj_ToBytes_def Let_def split: prod.splits)

section \<open>Decoding a point\<close>

lemma SqrtM1_square: "eqp (fe_val SqrtM1 * fe_val SqrtM1) (- 1)"
  unfolding eqp_def
  by (rule mod_p_eqI [where k = "6690407189080634018507799843845558368979872843924222843531373839242004886245"])
    (simp add: SqrtM1_def p25519_def)

text \<open>The two ways the check passes, and that each puts the point on the curve.\<close>

lemma root_on_curve:
  assumes "eqp (x * x * (y * y * ed_d + 1)) (y * y - 1)"
  shows "on_curve x y" "on_curve (- x) y"
proof -
  have a: "y * y - x * x = 1 + ed_d * x * x * y * y + ((y * y - 1) - x * x * (y * y * ed_d + 1))"
    by (simp add: algebra_simps)
  have "eqp ((y * y - 1) - x * x * (y * y * ed_d + 1)) ((y * y - 1) - (y * y - 1))"
    by (rule eqp_diff [OF eqp_refl assms])
  then have "eqp (y * y - x * x) (1 + ed_d * x * x * y * y + ((y * y - 1) - (y * y - 1)))"
    by (subst a) (rule eqp_add [OF eqp_refl])
  then have "eqp (y * y - x * x) (1 + ed_d * x * x * y * y)" by simp
  then show "on_curve x y" "on_curve (- x) y" by (simp_all add: on_curve_def)
qed

lemma sign_bit_cases: "sign_bit v = 0 \<or> sign_bit v = 1"
  by (simp add: sign_bit_def)

lemma sign_bit_minus: "\<not> eqp v 0 \<Longrightarrow> sign_bit (- v) \<noteq> sign_bit v"
proof -
  assume "\<not> eqp v 0"
  then have "(- v) mod p25519 = p25519 - v mod p25519" by (simp add: eqp_def zmod_zminus1_eq_if)
  then have "even ((- v) mod p25519) \<longleftrightarrow> odd (v mod p25519)" by (simp add: p25519_def)
  then show ?thesis by (auto simp: sign_bit_def)
qed

lemma frep_SqrtM1: "frep 1 SqrtM1 (fe_val SqrtM1)"
  by (rule frep_self [OF curve_d_tight(3)])

text \<open>The candidate root and the two checks of \<open>FromBytes\<close>, as one function of \<open>u\<close>, \<open>v\<close> and \<open>x\<close>.\<close>

definition pick_root :: "FieldElement \<Rightarrow> FieldElement \<Rightarrow> FieldElement \<Rightarrow> FieldElement option" where
  "pick_root u v x =
     (let vxx = FeMul (FeSquare x) v
      in if fst (FeIsNonZero (FeSub vxx u)) = 1 then
           (if fst (FeIsNonZero (FeAdd vxx u)) = 1 then None
            else Some (snd (FeToBytes (FeMul x SqrtM1))))
         else Some x)"

lemma pick_root_sound:
  assumes u: "frep (1 + 1) u (y * y - 1)" and v: "frep (1 + 1) v (y * y * ed_d + 1)" and x: "frep 1 x X"
    and r: "pick_root u v x = Some r"
  shows "\<exists>R. frep 2 r R \<and> on_curve R y \<and> on_curve (- R) y"
proof -
  have vxx: "frep 1 (FeMul (FeSquare x) v) (X * X * (y * y * ed_d + 1))"
    by (rule frep_mult [OF frep_square [OF x] v]) simp_all
  define w where "w = FeMul (FeSquare x) v"
  have s: "frep 3 (FeSub w u) (X * X * (y * y * ed_d + 1) - (y * y - 1))"
    and a: "frep 3 (FeAdd w u) (X * X * (y * y * ed_d + 1) + (y * y - 1))"
    unfolding w_def by (rule frep_to3(4) [OF frep_sub [OF vxx u]], simp) (rule frep_to3(4) [OF frep_add [OF vxx u]], simp)
  have nz: "fst (FeIsNonZero f) = 1 \<longleftrightarrow> \<not> eqp V 0" if "frep 3 f V" for f V
    using FeIsNonZero_spec [OF frep_loose [OF that order_refl]] frep_mod [OF that] by (simp add: eqp_def)
  show ?thesis
  proof (cases "eqp (X * X * (y * y * ed_d + 1) - (y * y - 1)) 0")
    case True
    then have e: "eqp (X * X * (y * y * ed_d + 1)) (y * y - 1)"
      using eqp_add [OF True eqp_refl [of "y * y - 1"]] by simp
    have "r = x" using r True nz [OF s] by (simp add: pick_root_def w_def)
    then show ?thesis using frep_mono [OF x, of 2] root_on_curve [OF e] by auto
  next
    case False
    then have r': "r = snd (FeToBytes (FeMul x SqrtM1))" and e: "eqp (X * X * (y * y * ed_d + 1) + (y * y - 1)) 0"
      using r nz [OF s] nz [OF a] by (auto simp: pick_root_def w_def Let_def split: if_splits)
    define R where "R = X * fe_val SqrtM1"
    have f: "frep 1 (FeMul x SqrtM1) R" unfolding R_def by (rule frep_mult [OF x frep_SqrtM1]) simp_all
    have "eqp (0 - (X * X * (y * y * ed_d + 1) + (y * y - 1))) (0 - 0)" by (rule eqp_diff [OF eqp_refl e])
    then have "eqp (0 - (X * X * (y * y * ed_d + 1) + (y * y - 1)) + (y * y - 1)) (0 - 0 + (y * y - 1))"
      by (rule eqp_add [OF _ eqp_refl])
    then have m: "eqp (X * X * (y * y * ed_d + 1) * (- 1)) (y * y - 1)" by simp
    have "eqp (X * X * (y * y * ed_d + 1) * (fe_val SqrtM1 * fe_val SqrtM1)) (X * X * (y * y * ed_d + 1) * (- 1))"
      by (rule eqp_mult [OF eqp_refl SqrtM1_square])
    then have "eqp (R * R * (y * y * ed_d + 1)) (y * y - 1)"
      using eqp_trans [OF _ m] unfolding R_def by (simp only: ac_simps)
    then have "on_curve R y \<and> on_curve (- R) y" by (auto dest: root_on_curve)
    moreover have "r = fe_of_nat (fe_val (FeMul x SqrtM1) mod p25519)"
      unfolding r' using FeToBytes_spec(1) [OF frep_loose [OF f]] by simp
    then have "frep 2 r R" using frep_residue [OF frep_loose [OF f]] f by (auto simp: frep_def)
    ultimately show ?thesis by blast
  qed
qed

lemma ext_FromBytes_eq:
  "ext_FromBytes s =
    (let y = FeFromBytes s; u = FeSub (FeSquare y) FeOne; v = FeAdd (FeMul (FeSquare y) curve_d) FeOne;
         v3 = FeMul (FeSquare v) v;
         x = FeMul (FeMul (fePow22523 (FeMul (FeMul (FeSquare v3) v) u)) v3) u
     in case pick_root u v x of None \<Rightarrow> None
        | Some x \<Rightarrow>
          (let x' = snd (FeIsNegative x);
               x' = (if fst (FeIsNegative x) \<noteq> drop_bit 7 (s ! 31) then FeNeg x' else x')
           in Some \<lparr>eX = x', eY = y, eZ = FeOne, eT = FeMul x' y\<rparr>))"
  unfolding ext_FromBytes_def pick_root_def Let_def case_prod_beta by (simp split: option.splits)

lemma finish_root:
  fixes r :: FieldElement and b :: byte
  assumes "frep 2 r R"
  defines "x' \<equiv> (if fst (FeIsNegative r) \<noteq> b then FeNeg (snd (FeIsNegative r)) else snd (FeIsNegative r))"
  shows "\<exists>x\<in>{R, - R}. frep 2 x' x \<and> (b \<in> {0, 1} \<longrightarrow> sign_bit x = b \<or> eqp x 0)"
proof -
  have l: "fe_loose r" by (rule frep_loose [OF assms(1)]) simp
  have m: "fe_val r mod p25519 = R mod p25519" by (rule frep_mod [OF assms(1)])
  have i: "FeIsNegative r = (sign_bit R, fe_of_nat (fe_val r mod p25519))"
    using FeIsNegative_spec [OF l] m by (simp add: sign_bit_def)
  have f: "frep 2 (fe_of_nat (fe_val r mod p25519)) R" using frep_residue [OF l] m by (simp add: frep_def)
  show ?thesis
  proof (cases "sign_bit R = b")
    case True
    then show ?thesis using f by (auto simp: x'_def i)
  next
    case False
    have "frep 2 x' (- R)" using False frep_neg [OF f] by (simp add: x'_def i)
    moreover have "sign_bit (- R) = b \<or> eqp (- R) 0" if "b \<in> {0, 1}"
      using that False sign_bit_minus [of "- R"] sign_bit_cases [of R] sign_bit_cases [of "- R"] by auto
    ultimately show ?thesis by blast
  qed
qed

lemma decode_point:
  assumes len: "length s = 32" and P: "ext_FromBytes s = Some P"
  shows "\<exists>x. ext_rep P (x, le_val s mod 2 ^ 255) \<and> on_curve x (le_val s mod 2 ^ 255)
    \<and> (sign_bit x = drop_bit 7 (s ! 31) \<or> eqp x 0)"
proof -
  define y where "y = FeFromBytes s"
  define v where "v = le_val s mod 2 ^ 255"
  have y: "frep 1 y v" using FeFromBytes_spec [OF len] by (simp add: y_def v_def frep_tight)
  define u where "u = FeSub (FeSquare y) FeOne"
  define w where "w = FeAdd (FeMul (FeSquare y) curve_d) FeOne"
  define v3 where "v3 = FeMul (FeSquare w) w"
  define x where "x = FeMul (FeMul (fePow22523 (FeMul (FeMul (FeSquare v3) w) u)) v3) u"
  note m = frep_mult and sq = frep_square
  have d: "frep 1 curve_d ed_d" by (rule frep_self [OF curve_d_tight(1)])
  have u: "frep (1 + 1) u (v * v - 1)" unfolding u_def by (rule frep_sub [OF sq [OF y] frep_One]) simp_all
  have w: "frep (1 + 1) w (v * v * ed_d + 1)"
    unfolding w_def by (rule frep_add [OF m [OF sq [OF y] d] frep_One]) simp_all
  note u3 = frep_to3(2) [OF u] and w3 = frep_to3(2) [OF w]
  have v3: "frep 1 v3 ((v * v * ed_d + 1) * (v * v * ed_d + 1) * (v * v * ed_d + 1))"
    unfolding v3_def by (rule m [OF sq [OF w3] w3]) simp_all
  have "fe_loose (FeMul (FeMul (FeSquare v3) w) u)"
    by (rule frep_loose [OF m [OF m [OF sq [OF v3] w3] u3]]) simp_all
  note pw = frep_self [OF fePow22523_tight [OF this]]
  define X where "X = fe_val x"
  have "fe_tight x" unfolding x_def using m [OF m [OF pw v3] u3] by (simp add: frep_tight)
  then have x: "frep 1 x X" unfolding X_def by (rule frep_self)
  define top where "top = drop_bit 7 (s ! 31)"
  define sgn where "sgn = (\<lambda>r. if fst (FeIsNegative r) \<noteq> top then FeNeg (snd (FeIsNegative r)) else snd (FeIsNegative r))"
  have "ext_FromBytes s = map_option (\<lambda>r. \<lparr>eX = sgn r, eY = y, eZ = FeOne, eT = FeMul (sgn r) y\<rparr>) (pick_root u w x)"
    unfolding ext_FromBytes_eq Let_def y_def [symmetric] u_def [symmetric] w_def [symmetric]
      v3_def [symmetric] x_def [symmetric] top_def [symmetric] sgn_def by (simp split: option.split)
  then obtain r where r: "pick_root u w x = Some r"
    and Pe: "P = \<lparr>eX = sgn r, eY = y, eZ = FeOne, eT = FeMul (sgn r) y\<rparr>"
    using P by (auto simp: map_option_case split: option.splits)
  obtain R where R: "frep 2 r R" "on_curve R v" "on_curve (- R) v" using pick_root_sound [OF u w x r] by auto
  have "uint top = uint (s ! 31) div 128"
    unfolding top_def by (subst unsigned_drop_bit_eq) (simp add: drop_bit_eq_div take_bit_int_eq_self uint_byte_bounds)
  then have "uint top < 2" using uint_byte_bounds [of "s ! 31"] by simp
  then have "uint top = 0 \<or> uint top = 1" using uint_byte_bounds(1) [of top] by linarith
  then have b: "top \<in> {0, 1}" by (metis insertI1 insertI2 uint_0_iff unsigned_1 word_uint_eqI)
  obtain z where z: "z \<in> {R, - R}" "frep 2 (sgn r) z" "sign_bit z = top \<or> eqp z 0"
    using finish_root [OF R(1), of top] b unfolding sgn_def by auto
  have T: "frep 1 (FeMul (sgn r) y) (z * v * 1)" using m [OF z(2) y] by simp
  have "ext_rep P (z, v)"
    unfolding Pe ext_rep_def prod.case using z(2) y frep_One T unit_1 by (intro exI [of _ 1]) simp
  moreover have "on_curve z v" using z(1) R(2,3) by auto
  ultimately show ?thesis using z(3) unfolding v_def top_def by blast
qed

end
