(* ===== verification/Sc25519.thy ===== *)
theory Sc25519
  imports Go_Int
begin

text \<open>
  Arithmetic modulo the order of the curve's group, of \<open>edwards25519.go\<close>: \<open>ScReduce\<close>,
  \<open>ScMulAdd\<close> and \<open>ScMinimal\<close>. The variables \<open>s0\<close> to \<open>s23\<close> of the source are a list of 24
  integers of 64 bits, and each of its three-line carries and six-line folds is a step on it.
\<close>

unbundle bit_operations_syntax

section \<open>Loading the limbs\<close>

definition limb :: "int \<Rightarrow> nat \<Rightarrow> int" where "limb x j = 2097151 AND sar x j"

definition limbs32 :: "bytes \<Rightarrow> int list" where
  "limbs32 a =
     [limb (load3 (drop 0 a)) 0,
      limb (load4 (drop 2 a)) 5,
      limb (load3 (drop 5 a)) 2,
      limb (load4 (drop 7 a)) 7,
      limb (load4 (drop 10 a)) 4,
      limb (load3 (drop 13 a)) 1,
      limb (load4 (drop 15 a)) 6,
      limb (load3 (drop 18 a)) 3,
      limb (load3 (drop 21 a)) 0,
      limb (load4 (drop 23 a)) 5,
      limb (load3 (drop 26 a)) 2,
      sar (load4 (drop 28 a)) 7]"

definition limbs64 :: "bytes \<Rightarrow> int list" where
  "limbs64 a =
     [limb (load3 (drop 0 a)) 0,
      limb (load4 (drop 2 a)) 5,
      limb (load3 (drop 5 a)) 2,
      limb (load4 (drop 7 a)) 7,
      limb (load4 (drop 10 a)) 4,
      limb (load3 (drop 13 a)) 1,
      limb (load4 (drop 15 a)) 6,
      limb (load3 (drop 18 a)) 3,
      limb (load3 (drop 21 a)) 0,
      limb (load4 (drop 23 a)) 5,
      limb (load3 (drop 26 a)) 2,
      limb (load4 (drop 28 a)) 7,
      limb (load4 (drop 31 a)) 4,
      limb (load3 (drop 34 a)) 1,
      limb (load4 (drop 36 a)) 6,
      limb (load3 (drop 39 a)) 3,
      limb (load3 (drop 42 a)) 0,
      limb (load4 (drop 44 a)) 5,
      limb (load3 (drop 47 a)) 2,
      limb (load4 (drop 49 a)) 7,
      limb (load4 (drop 52 a)) 4,
      limb (load3 (drop 55 a)) 1,
      limb (load4 (drop 57 a)) 6,
      sar (load4 (drop 60 a)) 3]"

section \<open>The steps\<close>

text \<open>\<open>carry[i] = (s_i + (1 << 20)) >> 21; s_{i+1} += carry[i]; s_i -= carry[i] << 21\<close>.\<close>

definition sc_carry :: "nat \<Rightarrow> int list \<Rightarrow> int list" where
  "sc_carry i s =
     (let c = sar (i64 (s ! i + shl64 1 20)) 21
      in s[i + 1 := i64 (s ! (i + 1) + c), i := i64 (s ! i - shl64 c 21)])"

text \<open>The last two rounds carry without rounding.\<close>

definition sc_floor :: "nat \<Rightarrow> int list \<Rightarrow> int list" where
  "sc_floor i s =
     (let c = sar (s ! i) 21
      in s[i + 1 := i64 (s ! (i + 1) + c), i := i64 (s ! i - shl64 c 21)])"

text \<open>A limb from the twelfth on, folded into the limbs twelve to seven places below it.\<close>

definition sc_add :: "nat \<Rightarrow> nat \<Rightarrow> int \<Rightarrow> int list \<Rightarrow> int list" where
  "sc_add i t k s = s[t := i64 (s ! t + i64 (s ! i * k))]"

definition sc_sub :: "nat \<Rightarrow> nat \<Rightarrow> int \<Rightarrow> int list \<Rightarrow> int list" where
  "sc_sub i t k s = s[t := i64 (s ! t - i64 (s ! i * k))]"

definition sc_fold :: "nat \<Rightarrow> int list \<Rightarrow> int list" where
  "sc_fold i s =
     (let s = sc_add i (i - 12) 666643 s;
          s = sc_add i (i - 11) 470296 s;
          s = sc_add i (i - 10) 654183 s;
          s = sc_sub i (i - 9) 997805 s;
          s = sc_add i (i - 8) 136657 s;
          s = sc_sub i (i - 7) 683901 s
      in s[i := 0])"

section \<open>Reducing\<close>

definition sc_fold_high :: "int list \<Rightarrow> int list" where
  "sc_fold_high s = fold sc_fold [23, 22, 21, 20, 19, 18] s"

definition sc_carry_mid :: "int list \<Rightarrow> int list" where
  "sc_carry_mid s = fold sc_carry [7, 9, 11, 13, 15] (fold sc_carry [6, 8, 10, 12, 14, 16] s)"

definition sc_fold_mid :: "int list \<Rightarrow> int list" where
  "sc_fold_mid s = fold sc_fold [17, 16, 15, 14, 13, 12] s"

definition sc_carry_low :: "int list \<Rightarrow> int list" where
  "sc_carry_low s = fold sc_carry [1, 3, 5, 7, 9, 11] (fold sc_carry [0, 2, 4, 6, 8, 10] s)"

definition sc_finish :: "int list \<Rightarrow> int list" where
  "sc_finish s =
     (let s = sc_fold 12 s;
          s = fold sc_floor [0, 1, 2, 3, 4, 5, 6, 7, 8, 9, 10, 11] s;
          s = sc_fold 12 s
      in fold sc_floor [0, 1, 2, 3, 4, 5, 6, 7, 8, 9, 10] s)"

definition sc_pack :: "int list \<Rightarrow> bytes" where
  "sc_pack s =
     (let s0 = s ! 0; s1 = s ! 1; s2 = s ! 2; s3 = s ! 3; s4 = s ! 4; s5 = s ! 5;
          s6 = s ! 6; s7 = s ! 7; s8 = s ! 8; s9 = s ! 9; s10 = s ! 10; s11 = s ! 11
      in [byte_of_int (sar s0 0),
          byte_of_int (sar s0 8),
          byte_of_int (sar s0 16 OR shl64 s1 5),
          byte_of_int (sar s1 3),
          byte_of_int (sar s1 11),
          byte_of_int (sar s1 19 OR shl64 s2 2),
          byte_of_int (sar s2 6),
          byte_of_int (sar s2 14 OR shl64 s3 7),
          byte_of_int (sar s3 1),
          byte_of_int (sar s3 9),
          byte_of_int (sar s3 17 OR shl64 s4 4),
          byte_of_int (sar s4 4),
          byte_of_int (sar s4 12),
          byte_of_int (sar s4 20 OR shl64 s5 1),
          byte_of_int (sar s5 7),
          byte_of_int (sar s5 15 OR shl64 s6 6),
          byte_of_int (sar s6 2),
          byte_of_int (sar s6 10),
          byte_of_int (sar s6 18 OR shl64 s7 3),
          byte_of_int (sar s7 5),
          byte_of_int (sar s7 13),
          byte_of_int (sar s8 0),
          byte_of_int (sar s8 8),
          byte_of_int (sar s8 16 OR shl64 s9 5),
          byte_of_int (sar s9 3),
          byte_of_int (sar s9 11),
          byte_of_int (sar s9 19 OR shl64 s10 2),
          byte_of_int (sar s10 6),
          byte_of_int (sar s10 14 OR shl64 s11 7),
          byte_of_int (sar s11 1),
          byte_of_int (sar s11 9),
          byte_of_int (sar s11 17)])"

definition sc_reduce :: "int list \<Rightarrow> bytes" where
  "sc_reduce s = sc_pack (sc_finish (sc_carry_low (sc_fold_mid (sc_carry_mid (sc_fold_high s)))))"

definition ScReduce :: "bytes \<Rightarrow> bytes" where
  "ScReduce s = sc_reduce (limbs64 s)"

section \<open>Multiplying and adding\<close>

text \<open>\<open>s_k := c_k + a_0 * b_k + \<dots> + a_k * b_0\<close>, with the terms whose limbs exist.\<close>

definition sc_product :: "int list \<Rightarrow> int list \<Rightarrow> int list \<Rightarrow> int list" where
  "sc_product a b c =
     map (\<lambda>k. i64 ((if k < 12 then c ! k else 0)
                  + sum_list (map (\<lambda>i. a ! i * b ! (k - i)) (filter (\<lambda>i. k - i < 12) [0..<min 12 (Suc k)])))) [0..<23]
     @ [0]"

definition sc_carry_all :: "int list \<Rightarrow> int list" where
  "sc_carry_all s = fold sc_carry [1, 3, 5, 7, 9, 11, 13, 15, 17, 19, 21]
     (fold sc_carry [0, 2, 4, 6, 8, 10, 12, 14, 16, 18, 20, 22] s)"

definition ScMulAdd :: "bytes \<Rightarrow> bytes \<Rightarrow> bytes \<Rightarrow> bytes" where
  "ScMulAdd a b c = sc_reduce (sc_carry_all (sc_product (limbs32 a) (limbs32 b) (limbs32 c)))"

section \<open>Comparing with the order\<close>

definition curve_order_words :: "int list" where
  "curve_order_words = [0x5812631a5cf5d3ed, 0x14def9dea2f79cd6, 0, 0x1000000000000000]"

text \<open>\<open>binary.LittleEndian.Uint64\<close>.\<close>

definition le_uint64 :: "bytes \<Rightarrow> int" where "le_uint64 b = le_val (take 8 b)"

fun ScMinimal_from :: "nat \<Rightarrow> bytes \<Rightarrow> bool" where
  "ScMinimal_from i scalar =
     (let v = le_uint64 (drop (i * 8) scalar)
      in if v > curve_order_words ! i then False
         else if v < curve_order_words ! i then True
         else (case i of 0 \<Rightarrow> False | Suc j \<Rightarrow> ScMinimal_from j scalar))"

definition ScMinimal :: "bytes \<Rightarrow> bool" where "ScMinimal scalar = ScMinimal_from 3 scalar"

end
