(* ===== verification/Sc_Box.thy ===== *)
theory Sc_Box
  imports Sc25519
begin

text \<open>
  Intervals for the limbs: an abstract run of each step that also checks that no intermediate
  value leaves 63 bits, and its soundness. The bounds of the whole reduction are then computed,
  not proved step by step.
\<close>

section \<open>Boxes\<close>

type_synonym box = "(int \<times> int) list"

definition in_iv :: "int \<times> int \<Rightarrow> int \<Rightarrow> bool" where
  "in_iv iv x \<longleftrightarrow> fst iv \<le> x \<and> x \<le> snd iv"

definition in_box :: "box \<Rightarrow> int list \<Rightarrow> bool" where
  "in_box b s \<longleftrightarrow> list_all2 in_iv b s"

definition iv_ok :: "int \<times> int \<Rightarrow> bool" where
  "iv_ok iv \<longleftrightarrow> - 4611686018427387904 \<le> fst iv \<and> snd iv \<le> 4611686018427387904"

definition iv_scale :: "int \<Rightarrow> int \<times> int \<Rightarrow> int \<times> int" where
  "iv_scale k iv = (fst iv * k, snd iv * k)"

definition iv_add :: "int \<times> int \<Rightarrow> int \<times> int \<Rightarrow> int \<times> int" where
  "iv_add a b = (fst a + fst b, snd a + snd b)"

definition iv_sub :: "int \<times> int \<Rightarrow> int \<times> int \<Rightarrow> int \<times> int" where
  "iv_sub a b = (fst a - snd b, snd a - fst b)"

definition iv_shift :: "int \<Rightarrow> int \<times> int \<Rightarrow> int \<times> int" where
  "iv_shift r iv = ((fst iv + r) div 2097152, (snd iv + r) div 2097152)"

definition checked :: "(int \<times> int) list \<Rightarrow> box \<Rightarrow> box option" where
  "checked ivs b = (if list_all iv_ok ivs then Some b else None)"

lemma in_box_length: "in_box b s \<Longrightarrow> length s = length b"
  by (auto simp: in_box_def dest: list_all2_lengthD)

lemma in_box_nth: "in_box b s \<Longrightarrow> i < length b \<Longrightarrow> in_iv (b ! i) (s ! i)"
  by (simp add: in_box_def list_all2_nthD)

lemma in_box_update: "in_box b s \<Longrightarrow> in_iv v x \<Longrightarrow> in_box (b[i := v]) (s[i := x])"
  by (simp add: in_box_def list_all2_update_cong)

lemma iv_ok_bound: "in_iv v x \<Longrightarrow> iv_ok v \<Longrightarrow> - 4611686018427387904 \<le> x \<and> x \<le> 4611686018427387904"
  by (auto simp: in_iv_def iv_ok_def)

lemma iv_ok_i64: "in_iv v x \<Longrightarrow> iv_ok v \<Longrightarrow> i64 x = x"
  using iv_ok_bound [of v x] by (intro i64_id) linarith+

lemma in_iv_scale: "in_iv v x \<Longrightarrow> 0 \<le> k \<Longrightarrow> in_iv (iv_scale k v) (x * k)"
  by (simp add: in_iv_def iv_scale_def mult_right_mono)

lemma in_iv_add: "in_iv v x \<Longrightarrow> in_iv w y \<Longrightarrow> in_iv (iv_add v w) (x + y)"
  and in_iv_sub: "in_iv v x \<Longrightarrow> in_iv w y \<Longrightarrow> in_iv (iv_sub v w) (x - y)"
  by (simp_all add: in_iv_def iv_add_def iv_sub_def)

lemma in_iv_shift: "in_iv v x \<Longrightarrow> in_iv (iv_shift r v) ((x + r) div 2097152)"
  by (auto simp: in_iv_def iv_shift_def intro: zdiv_mono1)

section \<open>Abstract steps\<close>

definition box_add :: "nat \<Rightarrow> nat \<Rightarrow> int \<Rightarrow> box \<Rightarrow> box option" where
  "box_add i t k b =
     (let x = iv_scale k (b ! i); y = iv_add (b ! t) x in checked [x, y] (b[t := y]))"

definition box_sub :: "nat \<Rightarrow> nat \<Rightarrow> int \<Rightarrow> box \<Rightarrow> box option" where
  "box_sub i t k b =
     (let x = iv_scale k (b ! i); y = iv_sub (b ! t) x in checked [x, y] (b[t := y]))"

definition box_carry :: "int \<Rightarrow> nat \<Rightarrow> box \<Rightarrow> box option" where
  "box_carry r i b =
     (let c = iv_shift r (b ! i); y = iv_add (b ! (i + 1)) c
      in checked [b ! i, c, y] (b[i + 1 := y, i := (- r, 2097151 - r)]))"

definition box_fold :: "nat \<Rightarrow> box \<Rightarrow> box option" where
  "box_fold i b =
     Option.bind (box_add i (i - 12) 666643 b) (\<lambda>b.
     Option.bind (box_add i (i - 11) 470296 b) (\<lambda>b.
     Option.bind (box_add i (i - 10) 654183 b) (\<lambda>b.
     Option.bind (box_sub i (i - 9) 997805 b) (\<lambda>b.
     Option.bind (box_add i (i - 8) 136657 b) (\<lambda>b.
     Option.bind (box_sub i (i - 7) 683901 b) (\<lambda>b. Some (b[i := (0, 0)])))))))"

lemma box_add_sound:
  assumes "in_box b s" "box_add i t k b = Some b'" "i < length b" "t < length b" "0 \<le> k"
  shows "sc_add i t k s = s[t := s ! t + s ! i * k]" "in_box b' (sc_add i t k s)"
proof -
  define x where "x = iv_scale k (b ! i)"
  define y where "y = iv_add (b ! t) x"
  have ok: "iv_ok x" "iv_ok y" and b': "b' = b[t := y]"
    using assms(2) by (simp_all add: box_add_def checked_def x_def y_def Let_def split: if_splits)
  have xi: "in_iv x (s ! i * k)" unfolding x_def using in_box_nth [OF assms(1,3)] assms(5) by (rule in_iv_scale)
  have yi: "in_iv y (s ! t + s ! i * k)" unfolding y_def by (rule in_iv_add [OF in_box_nth [OF assms(1,4)] xi])
  show eq: "sc_add i t k s = s[t := s ! t + s ! i * k]"
    unfolding sc_add_def iv_ok_i64 [OF xi ok(1)] iv_ok_i64 [OF yi ok(2)] ..
  show "in_box b' (sc_add i t k s)" unfolding eq b' by (rule in_box_update [OF assms(1) yi])
qed

lemma box_sub_sound:
  assumes "in_box b s" "box_sub i t k b = Some b'" "i < length b" "t < length b" "0 \<le> k"
  shows "sc_sub i t k s = s[t := s ! t - s ! i * k]" "in_box b' (sc_sub i t k s)"
proof -
  define x where "x = iv_scale k (b ! i)"
  define y where "y = iv_sub (b ! t) x"
  have ok: "iv_ok x" "iv_ok y" and b': "b' = b[t := y]"
    using assms(2) by (simp_all add: box_sub_def checked_def x_def y_def Let_def split: if_splits)
  have xi: "in_iv x (s ! i * k)" unfolding x_def using in_box_nth [OF assms(1,3)] assms(5) by (rule in_iv_scale)
  have yi: "in_iv y (s ! t - s ! i * k)" unfolding y_def by (rule in_iv_sub [OF in_box_nth [OF assms(1,4)] xi])
  show eq: "sc_sub i t k s = s[t := s ! t - s ! i * k]"
    unfolding sc_sub_def iv_ok_i64 [OF xi ok(1)] iv_ok_i64 [OF yi ok(2)] ..
  show "in_box b' (sc_sub i t k s)" unfolding eq b' by (rule in_box_update [OF assms(1) yi])
qed

text \<open>Both carries: with \<open>r = 2^20\<close> the rounding one, with \<open>r = 0\<close> the other.\<close>

definition carry_by :: "int \<Rightarrow> nat \<Rightarrow> int list \<Rightarrow> int list" where
  "carry_by r i s = (let c = (s ! i + r) div 2097152 in s[i + 1 := s ! (i + 1) + c, i := s ! i - 2097152 * c])"

lemma box_carry_sound:
  assumes box: "in_box b s" and run: "box_carry r i b = Some b'" and i: "i + 1 < length b" and r: "0 \<le> r" "r \<le> 1048576"
  shows "in_box b' (carry_by r i s)" "r = 1048576 \<Longrightarrow> sc_carry i s = carry_by r i s"
    "r = 0 \<Longrightarrow> sc_floor i s = carry_by r i s"
proof -
  define c where "c = (s ! i + r) div 2097152"
  define civ where "civ = iv_shift r (b ! i)"
  define y where "y = iv_add (b ! (i + 1)) civ"
  have ok: "iv_ok (b ! i)" "iv_ok civ" "iv_ok y" and b': "b' = b[i + 1 := y, i := (- r, 2097151 - r)]"
    using run by (simp_all add: box_carry_def checked_def civ_def y_def Let_def split: if_splits)
  have si: "in_iv (b ! i) (s ! i)" using in_box_nth [OF box] i by simp
  have ci: "in_iv civ c" unfolding civ_def c_def by (rule in_iv_shift [OF si])
  have yi: "in_iv y (s ! (i + 1) + c)" unfolding y_def by (rule in_iv_add [OF in_box_nth [OF box i] ci])
  have "s ! i + r = 2097152 * c + (s ! i + r) mod 2097152" by (simp add: c_def)
  then have d: "- r \<le> s ! i - 2097152 * c" "s ! i - 2097152 * c \<le> 2097151 - r"
    using pos_mod_bound [of 2097152 "s ! i + r"] pos_mod_sign [of 2097152 "s ! i + r"] by linarith+
  then have di: "in_iv (- r, 2097151 - r) (s ! i - 2097152 * c)" by (simp add: in_iv_def)
  show "in_box b' (carry_by r i s)"
    unfolding b' carry_by_def Let_def c_def [symmetric] by (intro in_box_update box yi di)
  have sb: "- 4611686018427387904 \<le> s ! i \<and> s ! i \<le> 4611686018427387904" by (rule iv_ok_bound [OF si ok(1)])
  have e: "push_bit 21 c = 2097152 * c" by (simp add: push_bit_eq_mult)
  have p: "shl64 c 21 = 2097152 * c"
    unfolding shl64_def e using d sb r by (intro i64_id) linarith+
  have w: "i64 (s ! (i + 1) + c) = s ! (i + 1) + c" "i64 (s ! i - 2097152 * c) = s ! i - 2097152 * c"
    using iv_ok_i64 [OF yi ok(3)] d r by (simp_all add: i64_id)
  have "shl64 1 20 = 1048576" by (simp add: shl64_def push_bit_eq_mult i64_id)
  moreover have "i64 (s ! i + 1048576) = s ! i + 1048576" using sb by (intro i64_id) linarith+
  ultimately show "sc_carry i s = carry_by r i s" if "r = 1048576"
    using that p w by (simp add: sc_carry_def carry_by_def sar_div c_def)
  show "sc_floor i s = carry_by r i s" if "r = 0"
    using that p w by (simp add: sc_floor_def carry_by_def sar_div c_def)
qed

section \<open>What the steps do to the number\<close>

definition curve_order :: int where
  "curve_order = 2 ^ 252 + 27742317777372353535851937790883648493"

definition sc_val :: "int list \<Rightarrow> int" where "sc_val s = digits_val 2097152 s"

lemma sc_val_carry: "i + 1 < length s \<Longrightarrow> sc_val (carry_by r i s) = sc_val s"
  by (simp add: sc_val_def carry_by_def Let_def digits_val_update algebra_simps)

lemma fold_identity:
  "666643 + 2097152 * 470296 + 2097152 ^ 2 * 654183 - 2097152 ^ 3 * 997805 + 2097152 ^ 4 * 136657
     - 2097152 ^ 5 * 683901 = 2097152 ^ 12 - curve_order"
  by (simp add: curve_order_def)

lemma box_length:
  "box_add i t k b = Some b' \<Longrightarrow> length b' = length b"
  "box_sub i t k b = Some b' \<Longrightarrow> length b' = length b"
  "box_carry r i b = Some b' \<Longrightarrow> length b' = length b"
  by (auto simp: box_add_def box_sub_def box_carry_def checked_def Let_def split: if_splits)

lemma box_fold_sound:
  assumes box: "in_box b s" and run: "box_fold i b = Some b'" and i: "12 \<le> i" "i < length b"
  shows "in_box b' (sc_fold i s)" "length b' = length b"
    "sc_val (sc_fold i s) = sc_val s - curve_order * (2097152 ^ (i - 12) * (s ! i))"
proof -
  obtain b1 b2 b3 b4 b5 b6 where r: "box_add i (i - 12) 666643 b = Some b1" "box_add i (i - 11) 470296 b1 = Some b2"
    "box_add i (i - 10) 654183 b2 = Some b3" "box_sub i (i - 9) 997805 b3 = Some b4"
    "box_add i (i - 8) 136657 b4 = Some b5" "box_sub i (i - 7) 683901 b5 = Some b6" "b' = b6[i := (0, 0)]"
    using run unfolding box_fold_def by (auto simp: bind_eq_Some_conv)
  note l = box_length(1) [OF r(1)] box_length(1) [OF r(2)] box_length(1) [OF r(3)] box_length(2) [OF r(4)]
    box_length(1) [OF r(5)] box_length(2) [OF r(6)]
  have len: "length s = length b" by (rule in_box_length [OF box])
  define x where "x = s ! i"
  define s1 where "s1 = sc_add i (i - 12) 666643 s"
  define s2 where "s2 = sc_add i (i - 11) 470296 s1"
  define s3 where "s3 = sc_add i (i - 10) 654183 s2"
  define s4 where "s4 = sc_sub i (i - 9) 997805 s3"
  define s5 where "s5 = sc_add i (i - 8) 136657 s4"
  define s6 where "s6 = sc_sub i (i - 7) 683901 s5"
  have 1: "s1 = s[i - 12 := s ! (i - 12) + s ! i * 666643]" "in_box b1 s1"
    using box_add_sound [OF box r(1)] i by (simp_all add: s1_def)
  have 2: "s2 = s1[i - 11 := s1 ! (i - 11) + s1 ! i * 470296]" "in_box b2 s2"
    using box_add_sound [OF 1(2) r(2)] i l by (simp_all add: s2_def)
  have 3: "s3 = s2[i - 10 := s2 ! (i - 10) + s2 ! i * 654183]" "in_box b3 s3"
    using box_add_sound [OF 2(2) r(3)] i l by (simp_all add: s3_def)
  have 4: "s4 = s3[i - 9 := s3 ! (i - 9) - s3 ! i * 997805]" "in_box b4 s4"
    using box_sub_sound [OF 3(2) r(4)] i l by (simp_all add: s4_def)
  have 5: "s5 = s4[i - 8 := s4 ! (i - 8) + s4 ! i * 136657]" "in_box b5 s5"
    using box_add_sound [OF 4(2) r(5)] i l by (simp_all add: s5_def)
  have 6: "s6 = s5[i - 7 := s5 ! (i - 7) - s5 ! i * 683901]" "in_box b6 s6"
    using box_sub_sound [OF 5(2) r(6)] i l by (simp_all add: s6_def)
  have eq: "sc_fold i s = s6[i := 0]"
    by (simp add: sc_fold_def Let_def s1_def s2_def s3_def s4_def s5_def s6_def)
  show "in_box b' (sc_fold i s)" unfolding eq r(7) by (rule in_box_update [OF 6(2)]) (simp add: in_iv_def)
  show "length b' = length b" using l r(7) by simp
  have at: "s1 ! i = x" "s2 ! i = x" "s3 ! i = x" "s4 ! i = x" "s5 ! i = x" "s6 ! i = x"
    using i by (simp_all add: 1(1) 2(1) 3(1) 4(1) 5(1) 6(1) x_def)
  have ln: "length s1 = length s" "length s2 = length s" "length s3 = length s" "length s4 = length s"
    "length s5 = length s" "length s6 = length s"
    by (simp_all add: 1(1) 2(1) 3(1) 4(1) 5(1) 6(1))
  let ?v = "digits_val 2097152"
  have v1: "?v s1 = ?v s + 2097152 ^ (i - 12) * (x * 666643)"
    unfolding 1(1) using i len by (subst digits_val_update) (simp_all add: x_def)
  have v2: "?v s2 = ?v s1 + 2097152 ^ (i - 11) * (x * 470296)"
    by (subst 2(1), subst digits_val_update) (use i len ln at in simp_all)
  have v3: "?v s3 = ?v s2 + 2097152 ^ (i - 10) * (x * 654183)"
    by (subst 3(1), subst digits_val_update) (use i len ln at in simp_all)
  have v4: "?v s4 = ?v s3 - 2097152 ^ (i - 9) * (x * 997805)"
    by (subst 4(1), subst digits_val_update) (use i len ln at in simp_all)
  have v5: "?v s5 = ?v s4 + 2097152 ^ (i - 8) * (x * 136657)"
    by (subst 5(1), subst digits_val_update) (use i len ln at in simp_all)
  have v6: "?v s6 = ?v s5 - 2097152 ^ (i - 7) * (x * 683901)"
    by (subst 6(1), subst digits_val_update) (use i len ln at in simp_all)
  have v7: "?v (s6[i := 0]) = ?v s6 - 2097152 ^ i * x"
    by (subst digits_val_update) (use i len ln at in simp_all)
  obtain j where j: "i = j + 12" using i(1) by (metis add.commute le_Suc_ex)
  have k: "i - 12 = j" "i - 11 = j + 1" "i - 10 = j + 2" "i - 9 = j + 3" "i - 8 = j + 4" "i - 7 = j + 5"
    using j by simp_all
  have "?v (s6[i := 0]) = ?v s + 2097152 ^ j * x *
     (666643 + 2097152 * 470296 + 2097152 ^ 2 * 654183 - 2097152 ^ 3 * 997805 + 2097152 ^ 4 * 136657
     - 2097152 ^ 5 * 683901 - 2097152 ^ 12)"
    unfolding v7 v6 v5 v4 v3 v2 v1 k unfolding j power_add by (simp only: algebra_simps power_one_right)
  also have "666643 + 2097152 * 470296 + 2097152 ^ 2 * 654183 - 2097152 ^ 3 * 997805 + 2097152 ^ 4 * 136657
     - 2097152 ^ 5 * 683901 - 2097152 ^ 12 = - curve_order"
    using fold_identity by linarith
  finally show "sc_val (sc_fold i s) = sc_val s - curve_order * (2097152 ^ (i - 12) * (s ! i))"
    unfolding sc_val_def eq k by (simp add: x_def algebra_simps)
qed

end
