(* ===== verification/Sc_Reduce.thy ===== *)
theory Sc_Reduce
  imports Sc_Box "HOL-Library.Code_Target_Nat" "HOL-Library.Code_Target_Int"
begin

text \<open>
  The reduction modulo the order: every phase keeps the number modulo the order and stays within
  64 bits, and the last rounds leave the residue itself, in 21-bit digits.
\<close>

unbundle bit_operations_syntax

section \<open>Runs of steps\<close>

fun box_run :: "(nat \<Rightarrow> box \<Rightarrow> box option) \<Rightarrow> nat list \<Rightarrow> box \<Rightarrow> box option" where
  "box_run f [] b = Some b"
| "box_run f (i # is) b = Option.bind (f i b) (box_run f is)"

text \<open>What a run of steps promises: the result lies in the computed box, and the number is kept.\<close>

definition reaches :: "box \<Rightarrow> int list \<Rightarrow> int list \<Rightarrow> bool" where
  "reaches b s t \<longleftrightarrow> in_box b t \<and> sc_val t mod curve_order = sc_val s mod curve_order"

lemma box_run_fold:
  assumes "in_box b s" "box_run box_fold is b = Some b'" "\<forall>i\<in>set is. 12 \<le> i \<and> i < length b"
  shows "reaches b' s (fold sc_fold is s) \<and> length b' = length b"
  using assms
proof (induction "is" arbitrary: b s)
  case (Cons i "is")
  obtain c where c: "box_fold i b = Some c" "box_run box_fold is c = Some b'"
    using Cons.prems(2) by (auto simp: bind_eq_Some_conv)
  note f = box_fold_sound [OF Cons.prems(1) c(1)]
  have "reaches b' (sc_fold i s) (fold sc_fold is (sc_fold i s)) \<and> length b' = length c"
    using Cons.IH [OF f(1) c(2)] f(2) Cons.prems(3) by simp
  moreover have "sc_val (sc_fold i s) mod curve_order = sc_val s mod curve_order"
    using f(3) Cons.prems(3) by (simp add: mod_diff_eq [symmetric])
  ultimately show ?case using f(2) Cons.prems(3) by (simp add: reaches_def)
qed (simp add: reaches_def)

lemma box_run_carry:
  assumes "in_box b s" "box_run (box_carry r) is b = Some b'" "\<forall>i\<in>set is. i + 1 < length b"
    and r: "0 \<le> r" "r \<le> 1048576"
    and f: "\<And>i s b b'. in_box b s \<Longrightarrow> box_carry r i b = Some b' \<Longrightarrow> i + 1 < length b \<Longrightarrow> f i s = carry_by r i s"
  shows "in_box b' (fold f is s) \<and> sc_val (fold f is s) = sc_val s \<and> length b' = length b"
  using assms(1-3)
proof (induction "is" arbitrary: b s)
  case (Cons i "is")
  obtain c where c: "box_carry r i b = Some c" "box_run (box_carry r) is c = Some b'"
    using Cons.prems(2) by (auto simp: bind_eq_Some_conv)
  have i: "i + 1 < length b" using Cons.prems(3) by simp
  have e: "f i s = carry_by r i s" by (rule f [OF Cons.prems(1) c(1) i])
  have b: "in_box c (f i s)" unfolding e by (rule box_carry_sound(1) [OF Cons.prems(1) c(1) i r])
  have l: "length c = length b" by (rule box_length(3) [OF c(1)])
  have "sc_val (f i s) = sc_val s" unfolding e by (rule sc_val_carry) (use i in_box_length [OF Cons.prems(1)] in simp)
  then show ?case using Cons.IH [OF b c(2)] Cons.prems(3) l by simp
qed simp

lemma box_run_round:
  assumes "in_box b s" "box_run (box_carry 1048576) is b = Some b'" "\<forall>i\<in>set is. i + 1 < length b"
  shows "in_box b' (fold sc_carry is s) \<and> sc_val (fold sc_carry is s) = sc_val s \<and> length b' = length b"
  by (rule box_run_carry [OF assms]) (simp_all add: box_carry_sound(2))

lemma box_run_floor:
  assumes "in_box b s" "box_run (box_carry 0) is b = Some b'" "\<forall>i\<in>set is. i + 1 < length b"
  shows "in_box b' (fold sc_floor is s) \<and> sc_val (fold sc_floor is s) = sc_val s \<and> length b' = length b"
  by (rule box_run_carry [OF assms]) (simp_all add: box_carry_sound(3))

section \<open>The bounds of the whole reduction\<close>

definition box_before_finish :: "box \<Rightarrow> box option" where
  "box_before_finish b =
     Option.bind (box_run box_fold [23, 22, 21, 20, 19, 18] b) (\<lambda>b.
     Option.bind (box_run (box_carry 1048576) [6, 8, 10, 12, 14, 16] b) (\<lambda>b.
     Option.bind (box_run (box_carry 1048576) [7, 9, 11, 13, 15] b) (\<lambda>b.
     Option.bind (box_run box_fold [17, 16, 15, 14, 13, 12] b) (\<lambda>b.
     Option.bind (box_run (box_carry 1048576) [0, 2, 4, 6, 8, 10] b) (\<lambda>b.
     box_run (box_carry 1048576) [1, 3, 5, 7, 9, 11] b)))))"

definition digit_box :: "int \<times> int \<Rightarrow> box" where
  "digit_box t = replicate 12 (0, 2097151) @ [t] @ replicate 11 (0, 0)"

definition iv_le :: "int \<times> int \<Rightarrow> int \<times> int \<Rightarrow> bool" where
  "iv_le a b \<longleftrightarrow> fst b \<le> fst a \<and> snd a \<le> snd b"

definition box_le :: "box \<Rightarrow> box \<Rightarrow> bool" where "box_le a b = list_all2 iv_le a b"

lemma in_box_mono: "in_box a s \<Longrightarrow> box_le a b \<Longrightarrow> in_box b s"
  unfolding in_box_def box_le_def by (auto simp: list_all2_conv_all_nth in_iv_def iv_le_def) (meson order_trans)+

text \<open>The one test that stands for all the bounds: the run of the intervals ends, and ends in digits.\<close>

definition bounds_ok :: "box \<Rightarrow> bool" where
  "bounds_ok b =
     (length b = 24 \<and>
      (case Option.bind (box_before_finish b) (\<lambda>b. Option.bind (box_run box_fold [12] b)
              (box_run (box_carry 0) [0, 1, 2, 3, 4, 5, 6, 7, 8, 9, 10, 11])) of
         None \<Rightarrow> False | Some c \<Rightarrow> box_le c (digit_box (- 1, 0))))"

definition product_box :: box where
  "product_box = replicate 23 (0, 2097151) @ [(0, 536870911)]"

lemma bounds_ok_reduce: "bounds_ok product_box"
  by code_simp

definition finish_ok :: bool where
  "finish_ok =
     (case Option.bind (box_run box_fold [12] (digit_box (- 1, 0)))
        (box_run (box_carry 0) [0, 1, 2, 3, 4, 5, 6, 7, 8, 9, 10]) of
        None \<Rightarrow> False
      | Some c \<Rightarrow> box_le c (replicate 11 (0, 2097151) @ [(- 4194304, 4194304)] @ replicate 12 (0, 0)))"

lemma finish_ok: "finish_ok"
  by code_simp

section \<open>Digits\<close>

definition digits21 :: "nat \<Rightarrow> int \<Rightarrow> int list" where
  "digits21 n v = map (\<lambda>i. take_bit 21 (drop_bit (21 * i) v)) [0..<n]"

lemma digits21_Suc: "digits21 (Suc n) v = digits21 n v @ [take_bit 21 (drop_bit (21 * n) v)]"
  by (simp add: digits21_def)

lemma length_digits21 [simp]: "length (digits21 n v) = n"
  by (simp add: digits21_def)

lemma drop_bit_21: "drop_bit 21 d = d div 2097152" for d :: int
  by (simp add: drop_bit_eq_div)

lemma sc_val_digits21: "sc_val (digits21 n v @ [drop_bit (21 * n) v]) = v"
proof (induction n)
  case (Suc n)
  define d where "d = drop_bit (21 * n) v"
  have "drop_bit (21 * Suc n) v = d div 2097152"
    using drop_bit_21 [of d] by (simp add: d_def)
  moreover have "take_bit 21 d = d mod 2097152" by (simp add: take_bit_eq_mod)
  ultimately have "digits_val 2097152 [take_bit 21 d, drop_bit (21 * Suc n) v] = digits_val 2097152 [d]" by simp
  then have "sc_val (digits21 n v @ [take_bit 21 d, drop_bit (21 * Suc n) v]) = sc_val (digits21 n v @ [d])"
    unfolding sc_val_def digits_val_append by simp
  then show ?case using Suc.IH by (simp add: digits21_Suc d_def)
qed (simp add: sc_val_def digits21_def)

text \<open>A list of digits in range is the list of the digits of its number.\<close>

lemma digits_are_digits21:
  "\<forall>d\<in>set ds. 0 \<le> d \<and> d < 2097152 \<Longrightarrow> ds @ [t] = digits21 (length ds) (sc_val (ds @ [t])) @ [drop_bit (21 * length ds) (sc_val (ds @ [t]))]"
proof (induction ds arbitrary: t rule: rev_induct)
  case (snoc d ds)
  define v where "v = sc_val (ds @ [d + 2097152 * t])"
  have v: "v = sc_val ((ds @ [d]) @ [t])" by (simp add: v_def sc_val_def digits_val_append)
  have r: "0 \<le> d" "d < 2097152" using snoc.prems by simp_all
  have "ds @ [d + 2097152 * t] = digits21 (length ds) v @ [drop_bit (21 * length ds) v]"
    unfolding v_def by (rule snoc.IH) (use snoc.prems in simp)
  then have a: "ds = digits21 (length ds) v" "d + 2097152 * t = drop_bit (21 * length ds) v" by simp_all
  have b1: "take_bit 21 (drop_bit (21 * length ds) v) = d"
    using r by (simp add: a(2) [symmetric] take_bit_eq_mod)
  have "drop_bit 21 (drop_bit (21 * length ds) v) = t" using r unfolding a(2) [symmetric] drop_bit_21 by simp
  then have b2: "drop_bit (21 + 21 * length ds) v = t" by simp
  show ?case using a(1) b1 b2 unfolding v [symmetric] by (simp add: digits21_Suc)
qed (simp add: sc_val_def digits21_def)

section \<open>The limbs of the input\<close>

lemma limb_take: "limb x j = take_bit 21 (drop_bit j x)"
  by (simp add: limb_def sar_def take_bit_eq_mask mask_eq_exp_minus_1 and.commute)

lemma load_bits:
  "k + 3 < length a \<Longrightarrow> load4 (drop k a) = take_bit 32 (drop_bit (8 * k) (le_val a))"
  "k + 2 < length a \<Longrightarrow> load3 (drop k a) = take_bit 24 (drop_bit (8 * k) (le_val a))"
  by (simp_all add: load4_le load3_le le_val_take le_val_drop take_bit_eq_mod drop_bit_eq_div power_mult)

lemma limb_digit:
  "k + 3 < length a \<Longrightarrow> j \<le> 11 \<Longrightarrow> limb (load4 (drop k a)) j = take_bit 21 (drop_bit (8 * k + j) (le_val a))"
  "k + 2 < length a \<Longrightarrow> j \<le> 3 \<Longrightarrow> limb (load3 (drop k a)) j = take_bit 21 (drop_bit (8 * k + j) (le_val a))"
  by (simp_all add: limb_take load_bits drop_bit_take_bit add.commute)

lemma last_limb:
  assumes "length a = k + 4"
  shows "sar (load4 (drop k a)) j = drop_bit (8 * k + j) (le_val a)"
proof -
  have "drop_bit (8 * k) (le_val a) = le_val (drop k a)"
    by (simp add: le_val_drop drop_bit_eq_div power_mult)
  moreover have "le_val (drop k a) < 2 ^ 32" using le_val_less [of "drop k a"] assms by simp
  ultimately have "take_bit 32 (drop_bit (8 * k) (le_val a)) = drop_bit (8 * k) (le_val a)"
    by (simp add: take_bit_int_eq_self)
  then show ?thesis using assms by (simp add: load_bits sar_def add.commute)
qed

lemma limbs64_digits: "length a = 64 \<Longrightarrow> limbs64 a = digits21 23 (le_val a) @ [drop_bit 483 (le_val a)]"
  unfolding limbs64_def by (simp add: limb_digit limb_digit(2) [of 0 a 0, simplified] last_limb digits21_def upt_rec)

lemma limbs32_digits: "length a = 32 \<Longrightarrow> limbs32 a = digits21 11 (le_val a) @ [drop_bit 231 (le_val a)]"
  unfolding limbs32_def by (simp add: limb_digit limb_digit(2) [of 0 a 0, simplified] last_limb digits21_def upt_rec)

section \<open>Packing\<close>

lemma bit_i64: "n < 63 \<Longrightarrow> bit (i64 x) n \<longleftrightarrow> bit x n"
  by (simp add: i64_def bit_simps)

lemma byte_or_shl64: "byte_of_int (x OR shl64 y k) = byte_of_int (x OR push_bit k y)"
  by (rule bit_eqI) (auto simp: bit_byte_of_int bit_or_iff shl64_def bit_i64)

lemma sc_pack_spec:
  assumes "take 12 s = digits21 11 v @ [drop_bit 231 v]" "12 \<le> length s" "0 \<le> v" "v < 2 ^ 256"
  shows "sc_pack s = le_bytes 32 v"
proof -
  have "drop_bit 231 v < 2 ^ 25" "0 \<le> drop_bit 231 v"
    using assms(3,4) sar_split [of v 231] by (auto simp: sar_def)
  then have "drop_bit 231 v = take_bit 25 (drop_bit 231 v)" by (simp add: take_bit_int_eq_self)
  then have t: "take 12 s = digits21 11 v @ [take_bit 25 (drop_bit 231 v)]" using assms(1) by simp
  have n: "s ! i = (digits21 11 v @ [take_bit 25 (drop_bit 231 v)]) ! i" if "i < 12" for i
    using that unfolding t [symmetric] by simp
  have d0: "s ! 0 = take_bit 21 (drop_bit 0 v)" by (subst n) (simp_all add: digits21_def nth_append)
  have d1: "s ! 1 = take_bit 21 (drop_bit 21 v)" by (subst n) (simp_all add: digits21_def nth_append)
  have d2: "s ! 2 = take_bit 21 (drop_bit 42 v)" by (subst n) (simp_all add: digits21_def nth_append)
  have d3: "s ! 3 = take_bit 21 (drop_bit 63 v)" by (subst n) (simp_all add: digits21_def nth_append)
  have d4: "s ! 4 = take_bit 21 (drop_bit 84 v)" by (subst n) (simp_all add: digits21_def nth_append)
  have d5: "s ! 5 = take_bit 21 (drop_bit 105 v)" by (subst n) (simp_all add: digits21_def nth_append)
  have d6: "s ! 6 = take_bit 21 (drop_bit 126 v)" by (subst n) (simp_all add: digits21_def nth_append)
  have d7: "s ! 7 = take_bit 21 (drop_bit 147 v)" by (subst n) (simp_all add: digits21_def nth_append)
  have d8: "s ! 8 = take_bit 21 (drop_bit 168 v)" by (subst n) (simp_all add: digits21_def nth_append)
  have d9: "s ! 9 = take_bit 21 (drop_bit 189 v)" by (subst n) (simp_all add: digits21_def nth_append)
  have d10: "s ! 10 = take_bit 21 (drop_bit 210 v)" by (subst n) (simp_all add: digits21_def nth_append)
  have d11: "s ! 11 = take_bit 25 (drop_bit 231 v)" by (subst n) (simp_all add: digits21_def nth_append)
  have b0: "byte_of_int (drop_bit 0 (take_bit 21 (drop_bit 0 v))) = byte_of_int (drop_bit 0 v)"
    using byte_one [of 0 21 0 v] by simp
  have b1: "byte_of_int (drop_bit 8 (take_bit 21 (drop_bit 0 v))) = byte_of_int (drop_bit 8 v)"
    using byte_one [of 8 21 0 v] by simp
  have b2: "byte_of_int (drop_bit 16 (take_bit 21 (drop_bit 0 v)) OR push_bit 5 (take_bit 21 (drop_bit 21 v))) = byte_of_int (drop_bit 16 v)"
    using byte_two [of 16 21 21 0 v] by simp
  have b3: "byte_of_int (drop_bit 3 (take_bit 21 (drop_bit 21 v))) = byte_of_int (drop_bit 24 v)"
    using byte_one [of 3 21 21 v] by simp
  have b4: "byte_of_int (drop_bit 11 (take_bit 21 (drop_bit 21 v))) = byte_of_int (drop_bit 32 v)"
    using byte_one [of 11 21 21 v] by simp
  have b5: "byte_of_int (drop_bit 19 (take_bit 21 (drop_bit 21 v)) OR push_bit 2 (take_bit 21 (drop_bit 42 v))) = byte_of_int (drop_bit 40 v)"
    using byte_two [of 19 21 21 21 v] by simp
  have b6: "byte_of_int (drop_bit 6 (take_bit 21 (drop_bit 42 v))) = byte_of_int (drop_bit 48 v)"
    using byte_one [of 6 21 42 v] by simp
  have b7: "byte_of_int (drop_bit 14 (take_bit 21 (drop_bit 42 v)) OR push_bit 7 (take_bit 21 (drop_bit 63 v))) = byte_of_int (drop_bit 56 v)"
    using byte_two [of 14 21 21 42 v] by simp
  have b8: "byte_of_int (drop_bit 1 (take_bit 21 (drop_bit 63 v))) = byte_of_int (drop_bit 64 v)"
    using byte_one [of 1 21 63 v] by simp
  have b9: "byte_of_int (drop_bit 9 (take_bit 21 (drop_bit 63 v))) = byte_of_int (drop_bit 72 v)"
    using byte_one [of 9 21 63 v] by simp
  have b10: "byte_of_int (drop_bit 17 (take_bit 21 (drop_bit 63 v)) OR push_bit 4 (take_bit 21 (drop_bit 84 v))) = byte_of_int (drop_bit 80 v)"
    using byte_two [of 17 21 21 63 v] by simp
  have b11: "byte_of_int (drop_bit 4 (take_bit 21 (drop_bit 84 v))) = byte_of_int (drop_bit 88 v)"
    using byte_one [of 4 21 84 v] by simp
  have b12: "byte_of_int (drop_bit 12 (take_bit 21 (drop_bit 84 v))) = byte_of_int (drop_bit 96 v)"
    using byte_one [of 12 21 84 v] by simp
  have b13: "byte_of_int (drop_bit 20 (take_bit 21 (drop_bit 84 v)) OR push_bit 1 (take_bit 21 (drop_bit 105 v))) = byte_of_int (drop_bit 104 v)"
    using byte_two [of 20 21 21 84 v] by simp
  have b14: "byte_of_int (drop_bit 7 (take_bit 21 (drop_bit 105 v))) = byte_of_int (drop_bit 112 v)"
    using byte_one [of 7 21 105 v] by simp
  have b15: "byte_of_int (drop_bit 15 (take_bit 21 (drop_bit 105 v)) OR push_bit 6 (take_bit 21 (drop_bit 126 v))) = byte_of_int (drop_bit 120 v)"
    using byte_two [of 15 21 21 105 v] by simp
  have b16: "byte_of_int (drop_bit 2 (take_bit 21 (drop_bit 126 v))) = byte_of_int (drop_bit 128 v)"
    using byte_one [of 2 21 126 v] by simp
  have b17: "byte_of_int (drop_bit 10 (take_bit 21 (drop_bit 126 v))) = byte_of_int (drop_bit 136 v)"
    using byte_one [of 10 21 126 v] by simp
  have b18: "byte_of_int (drop_bit 18 (take_bit 21 (drop_bit 126 v)) OR push_bit 3 (take_bit 21 (drop_bit 147 v))) = byte_of_int (drop_bit 144 v)"
    using byte_two [of 18 21 21 126 v] by simp
  have b19: "byte_of_int (drop_bit 5 (take_bit 21 (drop_bit 147 v))) = byte_of_int (drop_bit 152 v)"
    using byte_one [of 5 21 147 v] by simp
  have b20: "byte_of_int (drop_bit 13 (take_bit 21 (drop_bit 147 v))) = byte_of_int (drop_bit 160 v)"
    using byte_one [of 13 21 147 v] by simp
  have b21: "byte_of_int (drop_bit 0 (take_bit 21 (drop_bit 168 v))) = byte_of_int (drop_bit 168 v)"
    using byte_one [of 0 21 168 v] by simp
  have b22: "byte_of_int (drop_bit 8 (take_bit 21 (drop_bit 168 v))) = byte_of_int (drop_bit 176 v)"
    using byte_one [of 8 21 168 v] by simp
  have b23: "byte_of_int (drop_bit 16 (take_bit 21 (drop_bit 168 v)) OR push_bit 5 (take_bit 21 (drop_bit 189 v))) = byte_of_int (drop_bit 184 v)"
    using byte_two [of 16 21 21 168 v] by simp
  have b24: "byte_of_int (drop_bit 3 (take_bit 21 (drop_bit 189 v))) = byte_of_int (drop_bit 192 v)"
    using byte_one [of 3 21 189 v] by simp
  have b25: "byte_of_int (drop_bit 11 (take_bit 21 (drop_bit 189 v))) = byte_of_int (drop_bit 200 v)"
    using byte_one [of 11 21 189 v] by simp
  have b26: "byte_of_int (drop_bit 19 (take_bit 21 (drop_bit 189 v)) OR push_bit 2 (take_bit 21 (drop_bit 210 v))) = byte_of_int (drop_bit 208 v)"
    using byte_two [of 19 21 21 189 v] by simp
  have b27: "byte_of_int (drop_bit 6 (take_bit 21 (drop_bit 210 v))) = byte_of_int (drop_bit 216 v)"
    using byte_one [of 6 21 210 v] by simp
  have b28: "byte_of_int (drop_bit 14 (take_bit 21 (drop_bit 210 v)) OR push_bit 7 (take_bit 25 (drop_bit 231 v))) = byte_of_int (drop_bit 224 v)"
    using byte_two [of 14 21 25 210 v] by simp
  have b29: "byte_of_int (drop_bit 1 (take_bit 25 (drop_bit 231 v))) = byte_of_int (drop_bit 232 v)"
    using byte_one [of 1 25 231 v] by simp
  have b30: "byte_of_int (drop_bit 9 (take_bit 25 (drop_bit 231 v))) = byte_of_int (drop_bit 240 v)"
    using byte_one [of 9 25 231 v] by simp
  have b31: "byte_of_int (drop_bit 17 (take_bit 25 (drop_bit 231 v))) = byte_of_int (drop_bit 248 v)"
    using byte_one [of 17 25 231 v] by simp
  have le: "le_bytes 32 v = [byte_of_int (drop_bit 0 v), byte_of_int (drop_bit 8 v), byte_of_int (drop_bit 16 v), byte_of_int (drop_bit 24 v), byte_of_int (drop_bit 32 v), byte_of_int (drop_bit 40 v), byte_of_int (drop_bit 48 v), byte_of_int (drop_bit 56 v), byte_of_int (drop_bit 64 v), byte_of_int (drop_bit 72 v), byte_of_int (drop_bit 80 v), byte_of_int (drop_bit 88 v), byte_of_int (drop_bit 96 v), byte_of_int (drop_bit 104 v), byte_of_int (drop_bit 112 v), byte_of_int (drop_bit 120 v), byte_of_int (drop_bit 128 v), byte_of_int (drop_bit 136 v), byte_of_int (drop_bit 144 v), byte_of_int (drop_bit 152 v), byte_of_int (drop_bit 160 v), byte_of_int (drop_bit 168 v), byte_of_int (drop_bit 176 v), byte_of_int (drop_bit 184 v), byte_of_int (drop_bit 192 v), byte_of_int (drop_bit 200 v), byte_of_int (drop_bit 208 v), byte_of_int (drop_bit 216 v), byte_of_int (drop_bit 224 v), byte_of_int (drop_bit 232 v), byte_of_int (drop_bit 240 v), byte_of_int (drop_bit 248 v)]"
    by (simp add: le_bytes_def upt_rec)
  show ?thesis
    unfolding sc_pack_def Let_def d0 d1 d2 d3 d4 d5 d6 d7 d8 d9 d10 d11 sar_def byte_or_shl64 le
    by (simp only: b0 b1 b2 b3 b4 b5 b6 b7 b8 b9 b10 b11 b12 b13 b14 b15 b16 b17 b18 b19 b20 b21 b22 b23 b24 b25 b26 b27 b28 b29 b30 b31)
qed

end
