(* ===== verification/Sc_Exact.thy ===== *)
theory Sc_Exact
  imports Sc_Reduce
begin

text \<open>The reduction is exact: what the last rounds pack is the residue modulo the order.\<close>

section \<open>Before the last rounds\<close>

lemma reaches_trans: "reaches b s t \<Longrightarrow> reaches c t u \<Longrightarrow> reaches c s u"
  by (simp add: reaches_def)

lemma before_finish_reaches:
  assumes box: "in_box b s" and run: "box_before_finish b = Some b'" and len: "length b = 24"
  shows "reaches b' s (sc_carry_low (sc_fold_mid (sc_carry_mid (sc_fold_high s)))) \<and> length b' = 24"
proof -
  obtain c1 c2 c3 c4 c5 where r:
    "box_run box_fold [23, 22, 21, 20, 19, 18] b = Some c1"
    "box_run (box_carry 1048576) [6, 8, 10, 12, 14, 16] c1 = Some c2"
    "box_run (box_carry 1048576) [7, 9, 11, 13, 15] c2 = Some c3"
    "box_run box_fold [17, 16, 15, 14, 13, 12] c3 = Some c4"
    "box_run (box_carry 1048576) [0, 2, 4, 6, 8, 10] c4 = Some c5"
    "box_run (box_carry 1048576) [1, 3, 5, 7, 9, 11] c5 = Some b'"
    using run unfolding box_before_finish_def bind_eq_Some_conv by blast
  define s1 where "s1 = sc_fold_high s"
  have 1: "reaches c1 s s1 \<and> length c1 = 24"
    unfolding s1_def sc_fold_high_def using box_run_fold [OF box r(1)] len by simp
  define s2 where "s2 = fold sc_carry [6, 8, 10, 12, 14, 16] s1"
  have 2: "in_box c2 s2 \<and> sc_val s2 = sc_val s1 \<and> length c2 = 24"
    unfolding s2_def using box_run_round [OF _ r(2), of s1] 1 by (simp add: reaches_def)
  define s3 where "s3 = sc_carry_mid s1"
  have 3: "in_box c3 s3 \<and> sc_val s3 = sc_val s1 \<and> length c3 = 24"
    unfolding s3_def sc_carry_mid_def s2_def [symmetric] using box_run_round [OF _ r(3), of s2] 2 by simp
  define s4 where "s4 = sc_fold_mid s3"
  have 4: "reaches c4 s3 s4 \<and> length c4 = 24"
    unfolding s4_def sc_fold_mid_def using box_run_fold [OF _ r(4), of s3] 3 by simp
  define s5 where "s5 = fold sc_carry [0, 2, 4, 6, 8, 10] s4"
  have 5: "in_box c5 s5 \<and> sc_val s5 = sc_val s4 \<and> length c5 = 24"
    unfolding s5_def using box_run_round [OF _ r(5), of s4] 4 by (simp add: reaches_def)
  have 6: "in_box b' (sc_carry_low s4) \<and> sc_val (sc_carry_low s4) = sc_val s4 \<and> length b' = 24"
    unfolding sc_carry_low_def s5_def [symmetric] using box_run_round [OF _ r(6), of s5] 5 by simp
  show ?thesis
    unfolding s1_def [symmetric] s3_def [symmetric] s4_def [symmetric]
    using 1 3 4 6 by (simp add: reaches_def)
qed

section \<open>The last rounds\<close>

lemma in_box_append: "in_box (b @ c) s \<Longrightarrow> in_box b (take (length b) s) \<and> in_box c (drop (length b) s)"
  unfolding in_box_def list_all2_append1 by (auto dest: list_all2_lengthD)

lemma in_box_zeros: "in_box (replicate n (0, 0)) s \<Longrightarrow> s = replicate n 0"
  by (auto simp: in_box_def in_iv_def list_all2_conv_all_nth list_eq_iff_nth_eq)

lemma in_box_digits: "in_box (replicate n (0, 2097151)) s \<Longrightarrow> \<forall>d\<in>set s. 0 \<le> d \<and> d < 2097152"
  by (fastforce simp: in_box_def in_iv_def list_all2_conv_all_nth in_set_conv_nth)

lemma sc_val_zeros: "sc_val (xs @ replicate n 0) = sc_val xs"
proof -
  have "digits_val 2097152 (replicate n 0) = 0" by (induction n) simp_all
  then show ?thesis by (simp add: sc_val_def digits_val_append)
qed

lemma sc_val_digit_bounds:
  "\<forall>d\<in>set ds. 0 \<le> d \<and> d < 2097152 \<Longrightarrow> 0 \<le> sc_val ds \<and> sc_val ds < 2097152 ^ length ds"
proof (induction ds)
  case (Cons d ds)
  have "0 \<le> sc_val ds" "sc_val ds + 1 \<le> 2097152 ^ length ds" "0 \<le> d" "d < 2097152"
    using Cons by auto
  moreover have "sc_val (d # ds) = d + 2097152 * sc_val ds" by (simp add: sc_val_def)
  moreover have "(2097152 :: int) ^ length (d # ds) = 2097152 * 2097152 ^ length ds" by simp
  ultimately show ?case by linarith
qed (simp add: sc_val_def)

text \<open>A list with the shape the last rounds leave: digits, one more limb, zeros.\<close>

lemma in_box_shape:
  assumes "in_box (replicate n (0, 2097151) @ [v] @ replicate m (0, 0)) s"
  obtains ds t where "s = ds @ [t] @ replicate m 0" "length ds = n" "\<forall>d\<in>set ds. 0 \<le> d \<and> d < 2097152" "in_iv v t"
proof -
  let ?d = "drop n s"
  have a: "in_box (replicate n (0, 2097151)) (take n s)" "in_box ([v] @ replicate m (0, 0)) ?d"
    using in_box_append [OF assms] by simp_all
  have b: "in_box [v] (take 1 ?d)" "in_box (replicate m (0, 0)) (drop 1 ?d)"
    using in_box_append [OF a(2)] by simp_all
  obtain t where t: "take 1 ?d = [t]" "in_iv v t"
    using b(1) by (auto simp: in_box_def list_all2_Cons1)
  have "s = take n s @ take 1 ?d @ drop 1 ?d" by (metis append_take_drop_id)
  then have "s = take n s @ [t] @ replicate m 0" unfolding t(1) using in_box_zeros [OF b(2)] by simp
  moreover have "length (take n s) = n" using in_box_length [OF a(1)] by simp
  ultimately show thesis using that in_box_digits [OF a(1)] t(2) by blast
qed

lemma curve_order_pos: "0 < curve_order" "2 ^ 252 < curve_order" "curve_order < 2 ^ 253"
  by (simp_all add: curve_order_def)

lemma mod_order: "0 \<le> x mod curve_order" "x mod curve_order < 2 ^ 253"
  by (rule pos_mod_sign [OF curve_order_pos(1)],
      rule order_less_trans [OF pos_mod_bound [OF curve_order_pos(1)] curve_order_pos(3)])

text \<open>The second fold of the top limb, which is \<open>0\<close> or \<open>-1\<close>, makes the number the residue.\<close>

lemma last_fold:
  assumes box: "in_box (digit_box (- 1, 0)) s"
  defines "t \<equiv> fold sc_floor [0, 1, 2, 3, 4, 5, 6, 7, 8, 9, 10] (sc_fold 12 s)"
  shows "take 12 t = digits21 11 (sc_val s mod curve_order) @ [drop_bit 231 (sc_val s mod curve_order)] \<and> 12 \<le> length t"
proof -
  obtain c1 c2 where r: "box_run box_fold [12] (digit_box (- 1, 0)) = Some c1"
      "box_run (box_carry 0) [0, 1, 2, 3, 4, 5, 6, 7, 8, 9, 10] c1 = Some c2"
    and le: "box_le c2 (replicate 11 (0, 2097151) @ [(- 4194304, 4194304)] @ replicate 12 (0, 0))"
    using finish_ok unfolding finish_ok_def by (auto split: option.splits simp: bind_eq_Some_conv simp del: box_run.simps)
  have l24: "length (digit_box (- 1, 0)) = 24" by (simp add: digit_box_def)
  have f: "box_fold 12 (digit_box (- 1, 0)) = Some c1" using r(1) by (simp add: bind_eq_Some_conv)
  define s1 where "s1 = sc_fold 12 s"
  note fs = box_fold_sound [OF box f, folded s1_def]
  have v1: "sc_val s1 = sc_val s - curve_order * s ! 12" and b1: "in_box c1 s1" and l1: "length c1 = 24"
    using fs l24 by simp_all
  have t: "t = fold sc_floor [0, 1, 2, 3, 4, 5, 6, 7, 8, 9, 10] s1" by (simp only: t_def s1_def)
  have b2: "in_box c2 t" and v2: "sc_val t = sc_val s1" using box_run_floor [OF b1 r(2)] l1 unfolding t by simp_all
  obtain ds x where s: "s = ds @ [x] @ replicate 11 0" "length ds = 12" "\<forall>d\<in>set ds. 0 \<le> d \<and> d < 2097152" "in_iv (- 1, 0) x"
    using in_box_shape [OF box [unfolded digit_box_def]] by blast
  have x: "s ! 12 = x" "x = 0 \<or> x = - 1" using s by (auto simp: nth_append in_iv_def)
  have vs: "sc_val s = sc_val ds + 2 ^ 252 * x"
    using sc_val_zeros [of "ds @ [x]" 11] s(1,2) by (simp add: sc_val_def digits_val_append)
  have vd: "0 \<le> sc_val ds" "sc_val ds < 2 ^ 252" using sc_val_digit_bounds [OF s(3)] s(2) by simp_all
  have "0 \<le> sc_val t \<and> sc_val t < curve_order"
    unfolding v2 v1 x(1) vs using x(2) vd curve_order_pos by auto
  moreover have "sc_val t mod curve_order = sc_val s mod curve_order"
    unfolding v2 v1 by (simp add: mod_diff_eq [symmetric])
  ultimately have vt: "sc_val t = sc_val s mod curve_order" by (simp add: mod_pos_pos_trivial)
  obtain es y where e: "t = es @ [y] @ replicate 12 0" "length es = 11" "\<forall>d\<in>set es. 0 \<le> d \<and> d < 2097152"
    using in_box_shape [OF in_box_mono [OF b2 le]] by blast
  have ve: "sc_val (es @ [y]) = sc_val t" using sc_val_zeros [of "es @ [y]" 12] e(1) by simp
  have "take 12 t = es @ [y]" using e(1,2) by simp
  also have "\<dots> = digits21 11 (sc_val t) @ [drop_bit 231 (sc_val t)]"
    using digits_are_digits21 [OF e(3), of y] e(2) unfolding ve by simp
  finally show ?thesis using vt e(1,2) by simp
qed

theorem sc_reduce_spec:
  assumes ok: "bounds_ok b" and box: "in_box b s"
  shows "sc_reduce s = le_bytes 32 (sc_val s mod curve_order)"
proof -
  obtain c d e where r: "box_before_finish b = Some c" "box_run box_fold [12] c = Some d"
    "box_run (box_carry 0) [0, 1, 2, 3, 4, 5, 6, 7, 8, 9, 10, 11] d = Some e" and le: "box_le e (digit_box (- 1, 0))"
    and len: "length b = 24"
    using ok unfolding bounds_ok_def by (auto split: option.splits simp: bind_eq_Some_conv simp del: box_run.simps)
  define u where "u = sc_carry_low (sc_fold_mid (sc_carry_mid (sc_fold_high s)))"
  have u: "in_box c u" "sc_val u mod curve_order = sc_val s mod curve_order" "length c = 24"
    using before_finish_reaches [OF box r(1) len, folded u_def] by (simp_all add: reaches_def)
  define v where "v = fold sc_floor [0, 1, 2, 3, 4, 5, 6, 7, 8, 9, 10, 11] (sc_fold 12 u)"
  have "reaches d u (sc_fold 12 u) \<and> length d = 24" using box_run_fold [OF u(1) r(2)] u(3) by simp
  then have v: "in_box e v" "sc_val v mod curve_order = sc_val u mod curve_order"
    using box_run_floor [OF _ r(3), of "sc_fold 12 u"] unfolding v_def by (simp_all add: reaches_def)
  define w where "w = sc_val s mod curve_order"
  have w: "0 \<le> w" "w < 2 ^ 256"
    unfolding w_def by (rule mod_order, rule order_less_trans [OF mod_order(2)]) simp
  have "sc_val v mod curve_order = w" using u(2) v(2) by (simp add: w_def)
  then have t: "take 12 (sc_finish u) = digits21 11 w @ [drop_bit 231 w] \<and> 12 \<le> length (sc_finish u)"
    using last_fold [OF in_box_mono [OF v(1) le]] unfolding sc_finish_def Let_def v_def by simp
  have "sc_reduce s = sc_pack (sc_finish u)" by (simp add: sc_reduce_def u_def)
  also have "\<dots> = le_bytes 32 w" using sc_pack_spec [of "sc_finish u" w] t w by blast
  finally show ?thesis by (simp add: w_def)
qed

end
