(* ===== verification/Sc_Facts.thy ===== *)
theory Sc_Facts
  imports Sc_Exact
begin

text \<open>What the arithmetic modulo the order of the group computes.\<close>

unbundle bit_operations_syntax

section \<open>Reducing 64 bytes\<close>

lemma mod_order_bytes: "x mod curve_order mod 256 ^ 32 = x mod curve_order"
  by (intro mod_pos_pos_trivial mod_order order_less_trans [OF mod_order(2)]) simp

lemma in_box_digits21:
  assumes "0 \<le> drop_bit (21 * n) v" "drop_bit (21 * n) v \<le> m"
  shows "in_box (replicate n (0, 2097151) @ [(0, m)]) (digits21 n v @ [drop_bit (21 * n) v])"
proof -
  have "take_bit 21 (drop_bit (21 * i) v) \<le> 2097151" for i
    using take_bit_int_less_exp [of 21 "drop_bit (21 * i) v"] by simp
  then have "list_all2 in_iv (replicate n (0, 2097151)) (digits21 n v)"
    by (simp add: list_all2_conv_all_nth digits21_def in_iv_def)
  then show ?thesis using assms by (simp add: in_box_def in_iv_def list_all2_appendI)
qed

lemma drop_bit_bound:
  assumes "0 \<le> v" "v < 2 ^ (n + k)"
  shows "0 \<le> drop_bit n v \<and> drop_bit n v < (2 :: int) ^ k"
proof -
  obtain r where "v = 2 ^ n * drop_bit n v + r" "0 \<le> r" using sar_split [of v n] by (auto simp: sar_def)
  then have "2 ^ n * drop_bit n v < 2 ^ n * 2 ^ k" using assms(2) unfolding power_add by linarith
  then show ?thesis using assms(1) by (simp add: mult_less_cancel_left_pos)
qed

lemma ScReduce_val:
  assumes "length s = 64"
  shows "le_val (ScReduce s) = le_val s mod curve_order"
proof -
  have "le_val s < 2 ^ (483 + 29)" using le_val_less [of s] assms by simp
  then have "0 \<le> drop_bit 483 (le_val s) \<and> drop_bit 483 (le_val s) < 2 ^ 29"
    by (intro drop_bit_bound) simp_all
  then have "in_box product_box (limbs64 s)"
    using in_box_digits21 [of 23 "le_val s" 536870911] unfolding limbs64_digits [OF assms] product_box_def by simp
  then have "ScReduce s = le_bytes 32 (sc_val (limbs64 s) mod curve_order)"
    unfolding ScReduce_def by (rule sc_reduce_spec [OF bounds_ok_reduce])
  moreover have "sc_val (limbs64 s) = le_val s"
    using sc_val_digits21 [of 23 "le_val s"] by (simp add: limbs64_digits assms)
  ultimately show ?thesis by (simp add: le_val_le_bytes mod_order_bytes del: power_numeral)
qed

lemma length_sc_pack [simp]: "length (sc_pack s) = 32"
  by (simp add: sc_pack_def Let_def)

lemma length_ScReduce [simp]: "length (ScReduce s) = 32"
  and length_ScMulAdd [simp]: "length (ScMulAdd a b c) = 32"
  by (simp_all add: ScReduce_def ScMulAdd_def sc_reduce_def)

section \<open>The product\<close>

lemma digits_val_sum: "digits_val r (map f [0..<n]) = (\<Sum>k<n. r ^ k * f k)"
  by (induction n) (simp_all add: digits_val_append)

lemma digits_val_nth: "digits_val r xs = (\<Sum>i<length xs. r ^ i * xs ! i)"
  using digits_val_sum [of r "\<lambda>i. xs ! i" "length xs"] by (simp add: map_nth)

lemma product_digits:
  fixes a b :: "int list"
  assumes l: "length a = 12" "length b = 12"
  shows "(\<Sum>k<23. r ^ k * (\<Sum>i\<in>{i. i < min 12 (Suc k) \<and> k - i < 12}. a ! i * b ! (k - i)))
    = digits_val r a * digits_val r b"
proof -
  have "(\<Sum>k<23. r ^ k * (\<Sum>i\<in>{i. i < min 12 (Suc k) \<and> k - i < 12}. a ! i * b ! (k - i)))
      = (\<Sum>(k, i)\<in>(SIGMA k:{..<23}. {i. i < min 12 (Suc k) \<and> k - i < 12}). r ^ k * (a ! i * b ! (k - i)))"
    by (simp add: sum_distrib_left sum.Sigma)
  also have "\<dots> = (\<Sum>(i, j)\<in>{..<12} \<times> {..<12}. r ^ (i + j) * (a ! i * b ! j))"
    by (rule sum.reindex_bij_witness [of _ "\<lambda>(i, j). (i + j, i)" "\<lambda>(k, i). (i, k - i)"]) auto
  also have "\<dots> = (\<Sum>i<12. \<Sum>j<12. r ^ (i + j) * (a ! i * b ! j))"
    by (simp add: sum.cartesian_product)
  also have "\<dots> = digits_val r a * digits_val r b"
    unfolding digits_val_nth l sum_product by (simp add: power_add algebra_simps)
  finally show ?thesis .
qed

definition product_limb :: "int list \<Rightarrow> int list \<Rightarrow> int list \<Rightarrow> nat \<Rightarrow> int" where
  "product_limb a b c k =
     (if k < 12 then c ! k else 0) + (\<Sum>i\<in>{i. i < min 12 (Suc k) \<and> k - i < 12}. a ! i * b ! (k - i))"

lemma sc_product_limbs: "sc_product a b c = map (\<lambda>k. i64 (product_limb a b c k)) [0..<23] @ [0]"
proof -
  have "sum_list (map f (filter P [0..<n])) = (\<Sum>i\<in>{i. i < n \<and> P i}. f i)" for f :: "nat \<Rightarrow> int" and P n
    by (subst sum_list_distinct_conv_sum_set) (auto intro: sum.cong)
  then show ?thesis by (simp only: sc_product_def product_limb_def)
qed

lemma product_limb_bounds:
  assumes "length a = 12" "length b = 12" "length c = 12"
    "\<forall>x\<in>set a \<union> set b \<union> set c. 0 \<le> x \<and> x \<le> 33554431"
  shows "0 \<le> product_limb a b c k \<and> product_limb a b c k \<le> 18014398509481984"
proof -
  let ?I = "{i. i < min 12 (Suc k) \<and> k - i < 12}"
  have i: "0 \<le> a ! i * b ! (k - i) \<and> a ! i * b ! (k - i) \<le> 1125899839733761" if "i \<in> ?I" for i
  proof -
    have "i < 12" "k - i < 12" using that by (auto simp: min_def split: if_splits)
    then have "a ! i \<in> set a" "b ! (k - i) \<in> set b" using assms(1,2) by simp_all
    then have "0 \<le> a ! i" "a ! i \<le> 33554431" "0 \<le> b ! (k - i)" "b ! (k - i) \<le> 33554431"
      using assms(4) by blast+
    then show ?thesis using mult_mono [of "a ! i" 33554431 "b ! (k - i)" 33554431] by simp
  qed
  have "?I \<subseteq> {..<12}" by (auto simp: min_def split: if_splits)
  then have card: "card ?I \<le> 12" using card_mono [of "{..<12 :: nat}" ?I] by simp
  have "(\<Sum>i\<in>?I. a ! i * b ! (k - i)) \<le> of_nat (card ?I) * 1125899839733761"
    using i by (intro sum_bounded_above) blast
  also have "\<dots> \<le> 12 * 1125899839733761" using card by simp
  finally have "(\<Sum>i\<in>?I. a ! i * b ! (k - i)) \<le> 13510798076805132" by simp
  moreover have "0 \<le> (\<Sum>i\<in>?I. a ! i * b ! (k - i))" using i by (intro sum_nonneg) blast
  moreover have "0 \<le> (if k < 12 then c ! k else 0)" "(if k < 12 then c ! k else 0) \<le> 33554431"
    using assms(3,4) nth_mem [of k c] by auto
  ultimately show ?thesis unfolding product_limb_def by linarith
qed

definition muladd_box :: box where "muladd_box = replicate 23 (0, 18014398509481984) @ [(0, 0)]"

definition carried_box :: "box option" where
  "carried_box = Option.bind (box_run (box_carry 1048576) [0, 2, 4, 6, 8, 10, 12, 14, 16, 18, 20, 22] muladd_box)
     (box_run (box_carry 1048576) [1, 3, 5, 7, 9, 11, 13, 15, 17, 19, 21])"

lemma carried_ok: "case carried_box of None \<Rightarrow> False | Some b \<Rightarrow> bounds_ok b"
  by code_simp

lemma limbs32_bounds:
  assumes "length a = 32"
  shows "length (limbs32 a) = 12" "\<forall>x\<in>set (limbs32 a). 0 \<le> x \<and> x \<le> 33554431" "sc_val (limbs32 a) = le_val a"
proof -
  have "le_val a < 2 ^ (231 + 25)" using le_val_less [of a] assms by simp
  then have t: "0 \<le> drop_bit 231 (le_val a) \<and> drop_bit 231 (le_val a) < 2 ^ 25"
    by (intro drop_bit_bound) simp_all
  have "take_bit 21 x \<le> 33554431" for x :: int
    using take_bit_int_less_exp [of 21 x] by simp
  then show "\<forall>x\<in>set (limbs32 a). 0 \<le> x \<and> x \<le> 33554431"
    using t by (auto simp: limbs32_digits assms digits21_def)
  show "length (limbs32 a) = 12" by (simp add: limbs32_digits assms)
  show "sc_val (limbs32 a) = le_val a" using sc_val_digits21 [of 11 "le_val a"] by (simp add: limbs32_digits assms)
qed

lemma ScMulAdd_val:
  assumes "length a = 32" "length b = 32" "length c = 32"
  shows "le_val (ScMulAdd a b c) = (le_val a * le_val b + le_val c) mod curve_order"
proof -
  note a = limbs32_bounds [OF assms(1)] and b = limbs32_bounds [OF assms(2)] and c = limbs32_bounds [OF assms(3)]
  let ?p = "product_limb (limbs32 a) (limbs32 b) (limbs32 c)"
  have bd: "0 \<le> ?p k \<and> ?p k \<le> 18014398509481984" for k
    using a b c by (intro product_limb_bounds) auto
  have i: "i64 (?p k) = ?p k" for k using bd [of k] by (intro i64_id) linarith+
  define s where "s = sc_product (limbs32 a) (limbs32 b) (limbs32 c)"
  have s: "s = map ?p [0..<23] @ [0]" by (simp add: s_def sc_product_limbs i)
  have box: "in_box muladd_box s"
    unfolding s muladd_box_def in_box_def
    by (rule list_all2_appendI) (use bd in \<open>simp_all add: in_iv_def list_all2_conv_all_nth\<close>)
  have "sc_val s = (\<Sum>k<23. 2097152 ^ k * ?p k)"
    unfolding sc_val_def s digits_val_append digits_val_sum by simp
  also have "\<dots> = (\<Sum>k<23. 2097152 ^ k * (if k < 12 then limbs32 c ! k else 0)) + sc_val (limbs32 a) * sc_val (limbs32 b)"
    unfolding product_limb_def distrib_left sum.distrib product_digits [OF a(1) b(1)] sc_val_def ..
  also have "(\<Sum>k<23. 2097152 ^ k * (if k < 12 then limbs32 c ! k else 0)) = (\<Sum>k<12. 2097152 ^ k * limbs32 c ! k)"
    by (rule sum.mono_neutral_cong_right) auto
  also have "\<dots> = sc_val (limbs32 c)" unfolding sc_val_def digits_val_nth c(1) ..
  finally have v: "sc_val s = le_val c + le_val a * le_val b" by (simp add: a(3) b(3) c(3))
  obtain d e where r: "box_run (box_carry 1048576) [0, 2, 4, 6, 8, 10, 12, 14, 16, 18, 20, 22] muladd_box = Some d"
    "box_run (box_carry 1048576) [1, 3, 5, 7, 9, 11, 13, 15, 17, 19, 21] d = Some e" and ok: "bounds_ok e"
    using carried_ok unfolding carried_box_def
    by (auto split: option.splits simp: bind_eq_Some_conv simp del: box_run.simps)
  have len: "length muladd_box = 24" by (simp add: muladd_box_def)
  define s1 where "s1 = fold sc_carry [0, 2, 4, 6, 8, 10, 12, 14, 16, 18, 20, 22] s"
  have 1: "in_box d s1 \<and> sc_val s1 = sc_val s \<and> length d = 24"
    unfolding s1_def using box_run_round [OF box r(1)] len by simp
  have 2: "in_box e (sc_carry_all s) \<and> sc_val (sc_carry_all s) = sc_val s"
    unfolding sc_carry_all_def s1_def [symmetric] using box_run_round [OF _ r(2), of s1] 1 by simp
  have "ScMulAdd a b c = le_bytes 32 ((le_val c + le_val a * le_val b) mod curve_order)"
    unfolding ScMulAdd_def s_def [symmetric] using sc_reduce_spec [OF ok, of "sc_carry_all s"] 2 v by simp
  then show ?thesis by (simp add: le_val_le_bytes mod_order_bytes add.commute del: power_numeral)
qed

section \<open>The canonical scalars\<close>

lemma le_words:
  assumes "length s = 32"
  shows "le_val s = le_uint64 (drop 0 s) + 2 ^ 64 * (le_uint64 (drop 8 s) + 2 ^ 64 * (le_uint64 (drop 16 s) + 2 ^ 64 * le_uint64 (drop 24 s)))"
proof -
  have "le_val x = le_uint64 x + 2 ^ 64 * le_val (drop 8 x)" if "8 \<le> length x" for x
    using le_val_append [of "take 8 x" "drop 8 x"] that by (simp add: le_uint64_def)
  from this [of s] this [of "drop 8 s"] this [of "drop 16 s"] this [of "drop 24 s"] show ?thesis
    using assms by simp
qed

lemma le_uint64_bounds: "0 \<le> le_uint64 s" "le_uint64 s < 2 ^ 64"
  using le_val_less [of "take 8 s"] order_less_le_trans [OF le_val_less [of "take 8 s"], of "256 ^ 8"]
    power_increasing [of "length (take 8 s)" 8 "256 :: int"] by (simp_all add: le_uint64_def)

lemma ScMinimal_val:
  assumes "length s = 32"
  shows "ScMinimal s \<longleftrightarrow> le_val s < curve_order"
proof -
  define v0 v1 v2 v3 where v: "v0 = le_uint64 (drop 0 s)" "v1 = le_uint64 (drop 8 s)"
    "v2 = le_uint64 (drop 16 s)" "v3 = le_uint64 (drop 24 s)"
  have e: "le_val s = v0 + 18446744073709551616 * v1 + 340282366920938463463374607431768211456 * v2
      + 6277101735386680763835789423207666416102355444464034512896 * v3"
    unfolding le_words [OF assms] v by simp
  have b: "0 \<le> v0" "v0 < 18446744073709551616" "0 \<le> v1" "v1 < 18446744073709551616"
    "0 \<le> v2" "v2 < 18446744073709551616" "0 \<le> v3" "v3 < 18446744073709551616"
    unfolding v using le_uint64_bounds [of "drop 0 s"] le_uint64_bounds [of "drop 8 s"]
      le_uint64_bounds [of "drop 16 s"] le_uint64_bounds [of "drop 24 s"] by simp_all
  have m: "ScMinimal s =
      (if v3 > 1152921504606846976 then False else if v3 < 1152921504606846976 then True
       else if v2 > 0 then False else if v2 < 0 then True
       else if v1 > 1503914060200516822 then False else if v1 < 1503914060200516822 then True
       else if v0 > 6346243789798364141 then False else v0 < 6346243789798364141)"
    unfolding ScMinimal_def v by (simp add: numeral_3_eq_3 curve_order_words_def)
  have o: "curve_order = 6346243789798364141 + 18446744073709551616 * 1503914060200516822
      + 6277101735386680763835789423207666416102355444464034512896 * 1152921504606846976"
    by (simp add: curve_order_def)
  consider "v3 > 1152921504606846976" | "v3 < 1152921504606846976"
    | "v3 = 1152921504606846976" "v2 > 0" | "v3 = 1152921504606846976" "v2 = 0"
    using b by linarith
  then show ?thesis
  proof cases
    case 4
    consider "v1 > 1503914060200516822" | "v1 < 1503914060200516822" | "v1 = 1503914060200516822" by linarith
    then show ?thesis
    proof cases
      case 3
      then show ?thesis using 4 by (simp add: m e o)
    qed (use 4 b in \<open>simp_all add: m e o\<close>)
  qed (use b in \<open>simp_all add: m e o\<close>)
qed

end
