(* ===== verification/Go_Hashes.thy ===== *)
theory Go_Hashes
  imports Go_Sha256
begin

text \<open>
  \<open>crypto/sha512\<close> and \<open>crypto/sha1\<close> as far as the program uses them: the hashes of FIPS 180-4.
\<close>

unbundle bit_operations_syntax

section \<open>SHA-512\<close>

type_synonym word64 = "64 word"

definition int_root64 :: "nat \<Rightarrow> nat \<Rightarrow> nat" where
  "int_root64 k n = fold (\<lambda>b r. if (r + 2 ^ b) ^ k \<le> n then r + 2 ^ b else r) (rev [0..<68]) 0"

definition sha512_k :: "word64 list" where
  "sha512_k = map (\<lambda>p. word_of_nat (int_root64 3 (p * 2 ^ 192))) (primes_upto 409)"

definition sha512_init :: "word64 list" where
  "sha512_init = map (\<lambda>p. word_of_nat (int_root64 2 (p * 2 ^ 128))) (primes_upto 19)"

definition rotr64 :: "nat \<Rightarrow> word64 \<Rightarrow> word64" where
  "rotr64 n x = drop_bit n x OR push_bit (64 - n) x"

definition sha512_pad :: "bytes \<Rightarrow> bytes" where
  "sha512_pad m =
     m @ [0x80] @ replicate ((239 - length m mod 128) mod 128) 0 @ be_bytes 16 (8 * length m)"

definition be_word64 :: "bytes \<Rightarrow> word64" where
  "be_word64 b = fold (\<lambda>x w. push_bit 8 w OR ucast x) b 0"

fun be_words64 :: "bytes \<Rightarrow> word64 list" where
  "be_words64 (a # b # c # d # e # f # g # h # bs) = be_word64 [a, b, c, d, e, f, g, h] # be_words64 bs"
| "be_words64 _ = []"

definition schedule_next64 :: "word64 list \<Rightarrow> word64" where
  "schedule_next64 w =
     (let w2 = w ! 1; w7 = w ! 6; w15 = w ! 14; w16 = w ! 15;
          s1 = rotr64 19 w2 XOR rotr64 61 w2 XOR drop_bit 6 w2;
          s0 = rotr64 1 w15 XOR rotr64 8 w15 XOR drop_bit 7 w15
      in s1 + w7 + s0 + w16)"

fun schedule64 :: "nat \<Rightarrow> word64 list \<Rightarrow> word64 list" where
  "schedule64 0 w = []"
| "schedule64 (Suc n) w = (let x = schedule_next64 w in x # schedule64 n (x # take 15 w))"

definition sha512_round :: "word64 \<times> word64 \<Rightarrow> word64 list \<Rightarrow> word64 list" where
  "sha512_round kw st =
     (case st of [a, b, c, d, e, f, g, h] \<Rightarrow>
        let t1 = h + (rotr64 14 e XOR rotr64 18 e XOR rotr64 41 e) + ((e AND f) XOR (NOT e AND g)) + fst kw + snd kw;
            t2 = (rotr64 28 a XOR rotr64 34 a XOR rotr64 39 a) + ((a AND b) XOR (a AND c) XOR (b AND c))
        in [t1 + t2, a, b, c, d + t1, e, f, g]
      | _ \<Rightarrow> st)"

definition sha512_block :: "word64 list \<Rightarrow> word64 list \<Rightarrow> word64 list" where
  "sha512_block w st =
     map2 (+) st (fold sha512_round (zip sha512_k (w @ schedule64 64 (rev w))) st)"

definition word64_bytes :: "word64 \<Rightarrow> bytes" where
  "word64_bytes w = map (\<lambda>i. ucast (drop_bit (56 - 8 * i) w)) [0..<8]"

definition sha512 :: "bytes \<Rightarrow> bytes" where
  "sha512 m = concat (map word64_bytes (fold sha512_block (blocks (be_words64 (sha512_pad m))) sha512_init))"

lemma length_sha512_round: "length (sha512_round kw st) = length st"
  by (auto simp: sha512_round_def Let_def split: list.splits)

lemma length_fold_round64: "length (fold sha512_round xs st) = length st"
  by (induction xs arbitrary: st) (simp_all add: length_sha512_round)

lemma length_fold_block64: "length (fold sha512_block ws st) = length st"
  by (induction ws arbitrary: st) (simp_all add: sha512_block_def length_fold_round64)

lemma length_concat_word64_bytes: "length (concat (map word64_bytes ws)) = 8 * length ws"
  by (induction ws) (simp_all add: word64_bytes_def)

lemma length_sha512 [simp]: "length (sha512 m) = 64"
proof -
  have "length (primes_upto 19) = 8" by code_simp
  then show ?thesis by (simp add: sha512_def length_concat_word64_bytes length_fold_block64 sha512_init_def)
qed

section \<open>SHA-1\<close>

definition rotl :: "nat \<Rightarrow> word32 \<Rightarrow> word32" where
  "rotl n x = push_bit n x OR drop_bit (32 - n) x"

definition sha1_init :: "word32 list" where
  "sha1_init = [0x67452301, 0xefcdab89, 0x98badcfe, 0x10325476, 0xc3d2e1f0]"

fun schedule1 :: "nat \<Rightarrow> word32 list \<Rightarrow> word32 list" where
  "schedule1 0 w = []"
| "schedule1 (Suc n) w = (let x = rotl 1 (w ! 2 XOR w ! 7 XOR w ! 13 XOR w ! 15) in x # schedule1 n (x # take 15 w))"

definition sha1_round :: "nat \<times> word32 \<Rightarrow> word32 list \<Rightarrow> word32 list" where
  "sha1_round tw st =
     (case st of [a, b, c, d, e] \<Rightarrow>
        let t = fst tw;
            fk = (if t < 20 then ((b AND c) OR (NOT b AND d), 0x5a827999)
                  else if t < 40 then (b XOR c XOR d, 0x6ed9eba1)
                  else if t < 60 then ((b AND c) OR (b AND d) OR (c AND d), 0x8f1bbcdc)
                  else (b XOR c XOR d, 0xca62c1d6))
        in [rotl 5 a + fst fk + e + snd fk + snd tw, a, rotl 30 b, c, d]
      | _ \<Rightarrow> st)"

definition sha1_block :: "word32 list \<Rightarrow> word32 list \<Rightarrow> word32 list" where
  "sha1_block w st = map2 (+) st (fold sha1_round (zip [0..<80] (w @ schedule1 64 (rev w))) st)"

definition sha1 :: "bytes \<Rightarrow> bytes" where
  "sha1 m = concat (map word_bytes (fold sha1_block (blocks (be_words (sha256_pad m))) sha1_init))"

lemma length_sha1_round: "length (sha1_round kw st) = length st"
  by (auto simp: sha1_round_def Let_def split: list.splits)

lemma length_fold_round1: "length (fold sha1_round xs st) = length st"
  by (induction xs arbitrary: st) (simp_all add: length_sha1_round)

lemma length_fold_block1: "length (fold sha1_block ws st) = length st"
  by (induction ws arbitrary: st) (simp_all add: sha1_block_def length_fold_round1)

lemma length_sha1 [simp]: "length (sha1 m) = 20"
  by (simp add: sha1_def length_concat_word_bytes length_fold_block1 sha1_init_def)

end
