(* ===== verification/Ed25519.thy ===== *)
theory Ed25519
  imports Ge_Recode Ge_Encode Sc_Facts Go_Hashes
begin

text \<open>
  \<open>torutil/ed25519/ed25519.go\<close>: the keys of Tor's onion services, which are the digest of a
  seed rather than the seed, and signing with them. Of \<open>golang.org/x/crypto\<close> the file uses
  \<open>ed25519.Verify\<close>, a parameter of the definitions that call it; a private key of that package
  is its 64 bytes, seed and public key.
\<close>

unbundle bit_operations_syntax

definition PublicKeySize :: nat where "PublicKeySize = 32"
definition PrivateKeySize :: nat where "PrivateKeySize = 64"
definition SignatureSize :: nat where "SignatureSize = 64"

section \<open>Key pairs\<close>

text \<open>The two types that implement the interface \<open>KeyPair\<close>.\<close>

datatype KeyPair = PrivateKey bytes | precomputedKeyPair bytes bytes

text \<open>\<open>copy\<close> of a slice into an array of 32 bytes: what is missing stays zero.\<close>

definition array32 :: "bytes \<Rightarrow> bytes" where
  "array32 p = take 32 p @ replicate (32 - length p) 0"

definition priv_PublicKey :: "bytes \<Rightarrow> bytes" where
  "priv_PublicKey p = (let A = GeScalarMultBase (array32 p) in ext_ToBytes A)"

fun kp_PrivateKey :: "KeyPair \<Rightarrow> bytes" where
  "kp_PrivateKey (PrivateKey p) = p"
| "kp_PrivateKey (precomputedKeyPair priv pub) = priv"

fun kp_PublicKey :: "KeyPair \<Rightarrow> bytes" where
  "kp_PublicKey (PrivateKey p) = priv_PublicKey p"
| "kp_PublicKey (precomputedKeyPair priv pub) = pub"

definition kp_Public :: "KeyPair \<Rightarrow> bytes" where "kp_Public k = kp_PublicKey k"

definition priv_KeyPair :: "bytes \<Rightarrow> KeyPair" where
  "priv_KeyPair p = precomputedKeyPair p (priv_PublicKey p)"

text \<open>\<open>digest[0] &= 248; digest[31] &= 127; digest[31] |= 64\<close>.\<close>

definition clamp :: "bytes \<Rightarrow> bytes" where
  "clamp digest =
     (let digest = digest[0 := digest ! 0 AND 248];
          digest = digest[31 := digest ! 31 AND 127]
      in digest[31 := digest ! 31 OR 64])"

text \<open>A key shorter than its seed panics when it is sliced.\<close>

definition FromCryptoPrivateKey :: "bytes \<Rightarrow> KeyPair panicking" where
  "FromCryptoPrivateKey key =
     (if length key < 32 then Inl ''slice bounds out of range''
      else Inr (precomputedKeyPair (clamp (sha512 (take 32 key))) (drop 32 key)))"

definition FromCryptoPublicKey :: "bytes \<Rightarrow> bytes" where "FromCryptoPublicKey key = key"

text \<open>
  \<open>io.ReadFull\<close> of 32 bytes: a reader is the bytes it will give before it ends. A nil reader
  means the system's entropy.
\<close>

definition ReadFull32 :: "bytes \<Rightarrow> bytes result" where
  "ReadFull32 r =
     (if r = [] then Inl EOF else if length r < 32 then Inl UnexpectedEOF else Inr (take 32 r))"

definition GenerateKey :: "bytes \<Rightarrow> bytes option \<Rightarrow> KeyPair result" where
  "GenerateKey system rnd =
     (let rnd = (case rnd of None \<Rightarrow> system | Some r \<Rightarrow> r)
      in case ReadFull32 rnd of
           Inl err \<Rightarrow> Inl err
         | Inr rndByts \<Rightarrow> Inr (priv_KeyPair (clamp (sha512 rndByts))))"

section \<open>Signing\<close>

definition Sign :: "KeyPair \<Rightarrow> bytes \<Rightarrow> bytes panicking" where
  "Sign keyPair message =
     (let privateKeyA = array32 (kp_PrivateKey keyPair)
      in if length (kp_PrivateKey keyPair) < 32 then Inl ''slice bounds out of range''
         else
           (let messageDigest = sha512 (drop 32 (kp_PrivateKey keyPair) @ message);
                messageDigestReduced = ScReduce messageDigest;
                R = GeScalarMultBase messageDigestReduced;
                encodedR = ext_ToBytes R;
                hramDigest = sha512 (encodedR @ kp_PublicKey keyPair @ message);
                hramDigestReduced = ScReduce hramDigest;
                s = ScMulAdd hramDigestReduced privateKeyA messageDigestReduced
            in Inr (encodedR @ s)))"

text \<open>
  The method \<open>Sign\<close> of both types: \<open>hash\<close> is \<open>opts.HashFunc()\<close>, zero for a message that is not
  hashed.
\<close>

definition kp_Sign :: "KeyPair \<Rightarrow> bytes \<Rightarrow> nat \<Rightarrow> bytes result panicking" where
  "kp_Sign p message hash =
     (if hash \<noteq> 0 then Inr (Inl (ErrorString ''ed25519: cannot sign hashed message''))
      else (case Sign p message of Inl panic \<Rightarrow> Inl panic | Inr sig \<Rightarrow> Inr (Inr sig)))"

type_synonym verifier = "bytes \<Rightarrow> bytes \<Rightarrow> bytes \<Rightarrow> bool"

definition Verify :: "verifier \<Rightarrow> bytes \<Rightarrow> bytes \<Rightarrow> bytes \<Rightarrow> bool" where
  "Verify crypto_verify p message sig = crypto_verify p message sig"

definition pub_Verify :: "verifier \<Rightarrow> bytes \<Rightarrow> bytes \<Rightarrow> bytes \<Rightarrow> bool" where
  "pub_Verify crypto_verify p message sig = Verify crypto_verify p message sig"

definition kp_Verify :: "verifier \<Rightarrow> KeyPair \<Rightarrow> bytes \<Rightarrow> bytes \<Rightarrow> bool" where
  "kp_Verify crypto_verify k message sig = pub_Verify crypto_verify (kp_PublicKey k) message sig"

section \<open>Lengths\<close>

lemma length_array32 [simp]: "length (array32 p) = 32"
  by (simp add: array32_def min_def)

lemma length_fe_pack [simp]: "length (fe_pack f) = 32"
  by (cases f) simp

lemma length_ext_ToBytes [simp]: "length (ext_ToBytes p) = 32"
  by (simp add: ext_ToBytes_eq FeToBytes_def Let_def)

lemma length_clamp [simp]: "length (clamp d) = length d"
  by (simp add: clamp_def Let_def)

section \<open>Clamped scalars\<close>

text \<open>A multiple of eight with the bit of weight \<open>2^254\<close> as its highest.\<close>

definition clamped :: "bytes \<Rightarrow> bool" where
  "clamped p \<longleftrightarrow> 8 dvd le_val (take 32 p) \<and> 2 ^ 254 \<le> le_val (take 32 p) \<and> le_val (take 32 p) < 2 ^ 255"

lemma or_64: "(x AND 127) OR 64 = (x AND 63) + (64 :: int)"
proof -
  have m: "(127 :: int) = mask 7" "(63 :: int) = mask 6" by (simp_all add: mask_eq_exp_minus_1)
  have b: "bit (64 :: int) n \<longleftrightarrow> n = 6" for n using bit_exp_iff [of 6 n, where 'a = int] by auto
  have "(x AND 127) OR 64 = (x AND 63) OR (64 :: int)"
    unfolding m by (rule bit_eqI) (auto simp: bit_and_iff bit_or_iff bit_mask_iff b)
  also have "\<dots> = (x AND 63) + 2 ^ 6 * 1"
    using or_push [of "x AND 63" 6 1] AND_upper2 [of 63 x] by simp
  finally show ?thesis by simp
qed

lemma clamp_bytes:
  fixes b :: byte
  shows "8 dvd uint (b AND 248)" "64 \<le> uint ((b AND 127) OR 64)" "uint ((b AND 127) OR 64) \<le> 127"
proof -
  have "take_bit 3 (uint (b AND 248)) = 0"
    by (simp add: unsigned_and_eq)
  then show "8 dvd uint (b AND 248)" by (simp add: take_bit_eq_mod mod_eq_0_iff_dvd)
  have "uint ((b AND 127) OR 64) = (uint b AND 63) + 64"
    by (simp add: unsigned_and_eq unsigned_or_eq or_64)
  then show "64 \<le> uint ((b AND 127) OR 64)" "uint ((b AND 127) OR 64) \<le> 127"
    using AND_upper2 [of 63 "uint b"] AND_lower [of "uint b" 63] by simp_all
qed

lemma clamped_range:
  fixes c m e :: int
  assumes "0 \<le> c" "c < 256" "0 \<le> m" "m < 256 ^ 30" "64 \<le> e" "e \<le> 127"
  shows "2 ^ 254 \<le> c + 256 * (m + 256 ^ 30 * e) \<and> c + 256 * (m + 256 ^ 30 * e) < 2 ^ 255"
  using assms by simp

lemma clamp_clamped:
  assumes "32 \<le> length d"
  shows "clamped (clamp d)"
proof -
  obtain x d1 where d: "d = x # d1" using assms by (cases d) auto
  define m y r where "m = take 30 d1" and "y = d1 ! 30" and "r = drop 31 d1"
  have "d1 = m @ y # r" unfolding m_def y_def r_def using id_take_nth_drop [of 30 d1] assms d by simp
  then have d: "d = x # m @ y # r" and m: "length m = 30" using d assms by (simp_all add: m_def)
  define c e where "c = x AND 248" and "e = (y AND 127) OR 64"
  have "clamp d = c # m @ e # r"
    unfolding d clamp_def Let_def c_def e_def using m by (simp add: list_update_append nth_append nth_Cons numeral_eq_Suc)
  then have "take 32 (clamp d) = c # m @ [e]" using m by simp
  then have v: "le_val (take 32 (clamp d)) = uint c + 256 * (le_val m + 256 ^ 30 * uint e)"
    using m by (simp add: le_val_append)
  have b: "8 dvd uint c" "64 \<le> uint e" "uint e \<le> 127" unfolding c_def e_def by (rule clamp_bytes)+
  have bd: "0 \<le> uint c" "uint c < 256" "0 \<le> le_val m" "le_val m < 256 ^ 30"
    using uint_byte_bounds [of c] le_val_less [of m] m by simp_all
  have "8 dvd 256 * (le_val m + 256 ^ 30 * uint e)" by (rule dvd_mult2) simp
  then have "8 dvd le_val (take 32 (clamp d))" unfolding v using b(1) by (rule dvd_add [rotated])
  moreover have "2 ^ 254 \<le> le_val (take 32 (clamp d))" "le_val (take 32 (clamp d)) < 2 ^ 255"
    unfolding v using clamped_range [OF bd b(2,3)] by blast+
  ultimately show ?thesis by (simp add: clamped_def)
qed

end
