(* ===== verification/Go_Base.thy ===== *)
theory Go_Base
  imports Go_Strconv
begin

text \<open>
  \<open>encoding/base64\<close> (standard alphabet, padded) and \<open>encoding/base32\<close> (standard alphabet,
  no padding), encoders and decoders. The decoders are as lenient as Go's: they skip line
  breaks, and the base32 decoder drops a last group whose length no encoding has.
\<close>

text \<open>\<open>byte(n)\<close>, which keeps the low eight bits.\<close>

definition byte_of :: "nat \<Rightarrow> byte" where
  "byte_of n = word_of_nat n"

lemma unat_byte: "unat (b :: byte) < 256"
  using unsigned_less [of b, where 'a = nat] by simp

lemma byte_of_eqI: "n = unat b \<Longrightarrow> byte_of n = b"
  by (simp add: byte_of_def)

section \<open>Base64\<close>

text \<open>Letters, small letters, digits, plus and slash.\<close>

definition b64_char :: "nat \<Rightarrow> char" where
  "b64_char n = char_of (if n < 26 then n + 65 else if n < 52 then n + 71 else if n < 62 then n - 4
     else if n = 62 then 43 else 47)"

definition b64_val :: "char \<Rightarrow> nat option" where
  "b64_val c =
     (let n = of_char c in
      if 65 \<le> n \<and> n \<le> 90 then Some (n - 65) else if 97 \<le> n \<and> n \<le> 122 then Some (n - 71)
      else if 48 \<le> n \<and> n \<le> 57 then Some (n + 4) else if n = 43 then Some 62
      else if n = 47 then Some 63 else None)"

fun b64_encode :: "bytes \<Rightarrow> string" where
  "b64_encode (a # b # c # bs) =
     [b64_char (unat a div 4), b64_char (unat a mod 4 * 16 + unat b div 16),
      b64_char (unat b mod 16 * 4 + unat c div 64), b64_char (unat c mod 64)] @ b64_encode bs"
| "b64_encode [a, b] =
     [b64_char (unat a div 4), b64_char (unat a mod 4 * 16 + unat b div 16),
      b64_char (unat b mod 16 * 4), CHR ''='']"
| "b64_encode [a] = [b64_char (unat a div 4), b64_char (unat a mod 4 * 16), CHR ''='', CHR ''='']"
| "b64_encode [] = []"

text \<open>The bytes of a group of two, three or four values.\<close>

definition b64_bytes :: "nat list \<Rightarrow> bytes" where
  "b64_bytes v = take (length v - 1)
     [byte_of (v ! 0 * 4 + v ! 1 div 16),
      byte_of (v ! 1 mod 16 * 16 + (if 2 < length v then v ! 2 else 0) div 4),
      byte_of ((if 2 < length v then v ! 2 else 0) mod 4 * 64 + (if 3 < length v then v ! 3 else 0))]"

definition skip_newlines :: "nat \<Rightarrow> string \<Rightarrow> nat \<times> string" where
  "skip_newlines si s =
     (let s' = dropWhile (\<lambda>c. c = CHR 10 \<or> c = CHR 13) s in (si + (length s - length s'), s'))"

text \<open>What follows the first padding character after \<open>v\<close>; \<open>si\<close> is its position plus one.\<close>

definition b64_padding :: "nat \<Rightarrow> nat list \<Rightarrow> string \<Rightarrow> bytes result" where
  "b64_padding si v s =
     (if length v < 2 then Inl (CorruptInput (si - 1))
      else if length v = 2 then
        (case skip_newlines si s of
           (si', []) \<Rightarrow> Inl (CorruptInput si')
         | (si', c # s') \<Rightarrow>
             if c \<noteq> CHR ''='' then Inl (CorruptInput si')
             else (case skip_newlines (si' + 1) s' of
                 (_, []) \<Rightarrow> Inr (b64_bytes v) | (si'', _ # _) \<Rightarrow> Inl (CorruptInput si'')))
      else (case skip_newlines si s of
              (_, []) \<Rightarrow> Inr (b64_bytes v) | (si', _ # _) \<Rightarrow> Inl (CorruptInput si')))"

fun b64_decode_loop :: "nat \<Rightarrow> nat list \<Rightarrow> string \<Rightarrow> bytes result" where
  "b64_decode_loop si v [] = (if v = [] then Inr [] else Inl (CorruptInput (si - length v)))"
| "b64_decode_loop si v (c # cs) =
     (case b64_val c of
        Some n \<Rightarrow>
          if length v = 3
          then (case b64_decode_loop (si + 1) [] cs of
                  Inl e \<Rightarrow> Inl e | Inr bs \<Rightarrow> Inr (b64_bytes (v @ [n]) @ bs))
          else b64_decode_loop (si + 1) (v @ [n]) cs
      | None \<Rightarrow>
          if c = CHR 10 \<or> c = CHR 13 then b64_decode_loop (si + 1) v cs
          else if c \<noteq> CHR ''='' then Inl (CorruptInput si)
          else b64_padding (si + 1) v cs)"

definition b64_decode :: "string \<Rightarrow> bytes result" where
  "b64_decode s = b64_decode_loop 0 [] s"

lemma b64_val_char [simp]: "n < 64 \<Longrightarrow> b64_val (b64_char n) = Some n"
  by (auto simp: b64_val_def b64_char_def Let_def)

lemma b64_val_pad [simp]: "b64_val (CHR ''='') = None"
  by code_simp

lemma digit_split:
  "(y :: nat) < k \<Longrightarrow> (x * k + y) div k = x" "y < k \<Longrightarrow> (x * k + y) mod k = y"
  by simp_all

lemma byte_digits:
  fixes n :: nat
  assumes "n < 256"
  shows "n div 4 < 64" "n div 8 < 32" "n div 16 < 16" "n div 32 < 8" "n div 64 < 4" "n div 128 < 2"
  using assms by simp_all

text \<open>Packing two digits, with variables for them, and taking them apart again.\<close>

lemma pack_less:
  fixes x y :: nat
  shows "x < 4 \<Longrightarrow> y < 16 \<Longrightarrow> x * 16 + y < 64" "x < 16 \<Longrightarrow> y < 4 \<Longrightarrow> x * 4 + y < 64"
    "x < 4 \<Longrightarrow> x * 16 < 64" "x < 16 \<Longrightarrow> x * 4 < 64"
    "x < 8 \<Longrightarrow> y < 4 \<Longrightarrow> x * 4 + y < 32" "x < 2 \<Longrightarrow> y < 16 \<Longrightarrow> x * 16 + y < 32"
    "x < 16 \<Longrightarrow> y < 2 \<Longrightarrow> x * 2 + y < 32" "x < 4 \<Longrightarrow> y < 8 \<Longrightarrow> x * 8 + y < 32"
  by linarith+

lemma b64_arith:
  fixes a b c :: nat
  assumes "a < 256" "b < 256" "c < 256"
  shows "a div 4 < 64" "a mod 4 * 16 + b div 16 < 64" "b mod 16 * 4 + c div 64 < 64" "c mod 64 < 64"
    "a mod 4 * 16 < 64" "b mod 16 * 4 < 64"
    "a div 4 * 4 + (a mod 4 * 16 + b div 16) div 16 = a"
    "(a mod 4 * 16 + b div 16) mod 16 * 16 + (b mod 16 * 4 + c div 64) div 4 = b"
    "(b mod 16 * 4 + c div 64) mod 4 * 64 + c mod 64 = c"
    "a div 4 * 4 + a mod 4 * 16 div 16 = a"
    "(a mod 4 * 16 + b div 16) mod 16 * 16 + b mod 16 * 4 div 4 = b"
proof -
  note d = byte_digits(1) [OF assms(1)] byte_digits(3) [OF assms(2)] byte_digits(5) [OF assms(3)]
  have m: "a mod 4 < 4" "b mod 16 < 16" "c mod 64 < 64" by (rule mod_less_divisor, simp)+
  have c: "x * 16 div 16 = x" "x * 4 div 4 = x" for x :: nat by (rule nonzero_mult_div_cancel_right, simp)+
  show "a div 4 < 64" "c mod 64 < 64" by (rule d(1), rule m(3))
  show "a mod 4 * 16 + b div 16 < 64" by (rule pack_less(1) [OF m(1) d(2)])
  show "b mod 16 * 4 + c div 64 < 64" by (rule pack_less(2) [OF m(2) d(3)])
  show "a mod 4 * 16 < 64" "b mod 16 * 4 < 64" by (rule pack_less(3) [OF m(1)], rule pack_less(4) [OF m(2)])
  show "a div 4 * 4 + (a mod 4 * 16 + b div 16) div 16 = a"
    unfolding digit_split(1) [OF d(2)] by (rule div_mult_mod_eq)
  show "(a mod 4 * 16 + b div 16) mod 16 * 16 + (b mod 16 * 4 + c div 64) div 4 = b"
    unfolding digit_split(2) [OF d(2)] digit_split(1) [OF d(3)] by (rule div_mult_mod_eq)
  show "(b mod 16 * 4 + c div 64) mod 4 * 64 + c mod 64 = c"
    unfolding digit_split(2) [OF d(3)] by (rule div_mult_mod_eq)
  show "a div 4 * 4 + a mod 4 * 16 div 16 = a" unfolding c by (rule div_mult_mod_eq)
  show "(a mod 4 * 16 + b div 16) mod 16 * 16 + b mod 16 * 4 div 4 = b"
    unfolding digit_split(2) [OF d(2)] c by (rule div_mult_mod_eq)
qed

lemma b64_bytes_groups:
  "b64_bytes [unat a div 4, unat a mod 4 * 16 + unat b div 16, unat b mod 16 * 4 + unat c div 64, unat c mod 64] = [a, b, c]"
  "b64_bytes [unat a div 4, unat a mod 4 * 16 + unat b div 16, unat b mod 16 * 4] = [a, b]"
  "b64_bytes [unat a div 4, unat a mod 4 * 16] = [a]"
  using b64_arith [OF unat_byte [of a] unat_byte [of b] unat_byte [of c]]
  by (simp_all add: b64_bytes_def byte_of_eqI)

lemmas b64_less = b64_arith(1-6) [OF unat_byte unat_byte unat_byte]

lemma b64_decode_encode: "b64_decode_loop si [] (b64_encode bs) = Inr bs"
proof (induction bs arbitrary: si rule: b64_encode.induct)
  case (1 a b c bs)
  then show ?case by (simp add: b64_less b64_bytes_groups)
qed (simp_all add: b64_less b64_bytes_groups b64_padding_def skip_newlines_def)

interpretation base64: codec b64_encode b64_decode "\<lambda>_. True"
  by unfold_locales (simp add: b64_decode_def b64_decode_encode)

definition b64_text :: "char \<Rightarrow> bool" where
  "b64_text c \<longleftrightarrow> b64_val c \<noteq> None \<or> c = CHR ''=''"

lemma b64_encode_text: "c \<in> set (b64_encode bs) \<Longrightarrow> b64_text c"
  by (induction bs rule: b64_encode.induct) (auto simp: b64_text_def b64_less)

section \<open>Base32\<close>

text \<open>Letters and the digits from 2 to 7.\<close>

definition b32_char :: "nat \<Rightarrow> char" where
  "b32_char n = char_of (if n < 26 then n + 65 else n + 24)"

definition b32_val :: "char \<Rightarrow> nat option" where
  "b32_val c =
     (let n = of_char c in
      if 65 \<le> n \<and> n \<le> 90 then Some (n - 65) else if 50 \<le> n \<and> n \<le> 55 then Some (n - 24) else None)"

text \<open>The eight values of a group of five bytes; a shorter group has zeros for the missing bytes.\<close>

definition b32_values :: "bytes \<Rightarrow> nat list" where
  "b32_values b =
     (let n = \<lambda>i. (if i < length b then unat (b ! i) else 0) in
      [n 0 div 8, n 0 mod 8 * 4 + n 1 div 64, n 1 div 2 mod 32, n 1 mod 2 * 16 + n 2 div 16,
       n 2 mod 16 * 2 + n 3 div 128, n 3 div 4 mod 32, n 3 mod 4 * 8 + n 4 div 32, n 4 mod 32])"

function b32_encode :: "bytes \<Rightarrow> string" where
  "b32_encode bs =
     (if bs = [] then []
      else map b32_char (take ((8 * min 5 (length bs) + 4) div 5) (b32_values (take 5 bs))) @
        b32_encode (drop 5 bs))"
  by pat_completeness auto
termination by (relation "measure length") auto

declare b32_encode.simps [simp del]

text \<open>
  The bytes of a group of values. Go's switch over the length has cases for 2, 4, 5, 7 and 8
  only: of a group of another length nothing is kept.
\<close>

definition b32_bytes :: "nat list \<Rightarrow> bytes" where
  "b32_bytes v =
     (let n = \<lambda>i. (if i < length v then v ! i else 0) in
      if length v \<in> {2, 4, 5, 7, 8} then
        take (5 * length v div 8)
          [byte_of (n 0 * 8 + n 1 div 4), byte_of (n 1 mod 4 * 64 + n 2 * 2 + n 3 div 16),
           byte_of (n 3 mod 16 * 16 + n 4 div 2), byte_of (n 4 mod 2 * 128 + n 5 * 4 + n 6 div 8),
           byte_of (n 6 mod 8 * 32 + n 7)]
      else [])"

fun b32_decode_loop :: "nat \<Rightarrow> nat list \<Rightarrow> string \<Rightarrow> bytes result" where
  "b32_decode_loop pos v [] = Inr (b32_bytes v)"
| "b32_decode_loop pos v (c # cs) =
     (case b32_val c of
        None \<Rightarrow> Inl (CorruptInput pos)
      | Some n \<Rightarrow>
          if length v = 7
          then (case b32_decode_loop (pos + 1) [] cs of
                  Inl e \<Rightarrow> Inl e | Inr bs \<Rightarrow> Inr (b32_bytes (v @ [n]) @ bs))
          else b32_decode_loop (pos + 1) (v @ [n]) cs)"

definition b32_decode :: "string \<Rightarrow> bytes result" where
  "b32_decode s = b32_decode_loop 0 [] (filter (\<lambda>c. c \<noteq> CHR 10 \<and> c \<noteq> CHR 13) s)"

lemma b32_val_char [simp]: "n < 32 \<Longrightarrow> b32_val (b32_char n) = Some n"
  by (auto simp: b32_val_def b32_char_def Let_def)

text \<open>Reading a whole group of eight, and a last group.\<close>

lemma b32_decode_values:
  "\<forall>n\<in>set ns. n < 32 \<Longrightarrow> length v + length ns < 8 \<Longrightarrow>
     b32_decode_loop pos v (map b32_char ns @ cs) = b32_decode_loop (pos + length ns) (v @ ns) cs"
  by (induction ns arbitrary: pos v) auto

lemma b32_decode_group:
  assumes "\<forall>n\<in>set ns. n < 32" and "length ns = 8"
  shows "b32_decode_loop pos [] (map b32_char ns @ cs) =
    (case b32_decode_loop (pos + 8) [] cs of Inl e \<Rightarrow> Inl e | Inr bs \<Rightarrow> Inr (b32_bytes ns @ bs))"
proof -
  obtain ms n where ns: "ns = ms @ [n]" using assms(2) by (metis length_0_conv rev_exhaust zero_neq_numeral)
  with assms show ?thesis
    using b32_decode_values [of ms "[]" pos "map b32_char [n] @ cs"]
    unfolding ns by (simp add: add.commute)
qed

lemma b32_arith:
  fixes a b c d e :: nat
  assumes "a < 256" "b < 256" "c < 256" "d < 256" "e < 256"
  shows "a div 8 < 32" "a mod 8 * 4 + b div 64 < 32" "b div 2 mod 32 < 32" "b mod 2 * 16 + c div 16 < 32"
    "c mod 16 * 2 + d div 128 < 32" "d div 4 mod 32 < 32" "d mod 4 * 8 + e div 32 < 32" "e mod 32 < 32"
proof -
  have m: "a mod 8 < 8" "b mod 2 < 2" "c mod 16 < 16" "d mod 4 < 4" by (rule mod_less_divisor, simp)+
  show "b div 2 mod 32 < 32" "d div 4 mod 32 < 32" "e mod 32 < 32" by (rule mod_less_divisor, simp)+
  show "a div 8 < 32" by (rule byte_digits(2) [OF assms(1)])
  show "a mod 8 * 4 + b div 64 < 32" by (rule pack_less(5) [OF m(1) byte_digits(5) [OF assms(2)]])
  show "b mod 2 * 16 + c div 16 < 32" by (rule pack_less(6) [OF m(2) byte_digits(3) [OF assms(3)]])
  show "c mod 16 * 2 + d div 128 < 32" by (rule pack_less(7) [OF m(3) byte_digits(6) [OF assms(4)]])
  show "d mod 4 * 8 + e div 32 < 32" by (rule pack_less(8) [OF m(4) byte_digits(4) [OF assms(5)]])
qed

lemma three_digits:
  fixes n :: nat
  shows "n div 64 * 64 + n div 2 mod 32 * 2 + n mod 2 = n" "n div 128 * 128 + n div 4 mod 32 * 4 + n mod 4 = n"
proof -
  have g: "x * 32 + y = w \<Longrightarrow> w * 2 + z = n \<Longrightarrow> x * 64 + y * 2 + z = n"
    "x * 32 + y = w \<Longrightarrow> w * 4 + z = n \<Longrightarrow> x * 128 + y * 4 + z = n" for x y z w :: nat by linarith+
  have e: "n div 64 = n div 2 div 32" "n div 128 = n div 4 div 32" by (simp_all only: div_mult2_eq [symmetric]) simp_all
  show "n div 64 * 64 + n div 2 mod 32 * 2 + n mod 2 = n" "n div 128 * 128 + n div 4 mod 32 * 4 + n mod 4 = n"
    unfolding e by (rule g(1) [OF div_mult_mod_eq div_mult_mod_eq], rule g(2) [OF div_mult_mod_eq div_mult_mod_eq])
qed

lemma b32_arith_back:
  fixes a b c d e :: nat
  assumes "a < 256" "b < 256" "c < 256" "d < 256" "e < 256"
  shows "a div 8 * 8 + (a mod 8 * 4 + b div 64) div 4 = a"
    "(a mod 8 * 4 + b div 64) mod 4 * 64 + b div 2 mod 32 * 2 + (b mod 2 * 16 + c div 16) div 16 = b"
    "(b mod 2 * 16 + c div 16) mod 16 * 16 + (c mod 16 * 2 + d div 128) div 2 = c"
    "(c mod 16 * 2 + d div 128) mod 2 * 128 + d div 4 mod 32 * 4 + (d mod 4 * 8 + e div 32) div 8 = d"
    "(d mod 4 * 8 + e div 32) mod 8 * 32 + e mod 32 = e"
proof -
  note b = byte_digits(5) [OF assms(2)] and c = byte_digits(3) [OF assms(3)]
    and d = byte_digits(6) [OF assms(4)] and e = byte_digits(4) [OF assms(5)]
  show "a div 8 * 8 + (a mod 8 * 4 + b div 64) div 4 = a"
    unfolding digit_split(1) [OF b] by (rule div_mult_mod_eq)
  show "(a mod 8 * 4 + b div 64) mod 4 * 64 + b div 2 mod 32 * 2 + (b mod 2 * 16 + c div 16) div 16 = b"
    unfolding digit_split(2) [OF b] digit_split(1) [OF c] by (rule three_digits(1))
  show "(b mod 2 * 16 + c div 16) mod 16 * 16 + (c mod 16 * 2 + d div 128) div 2 = c"
    unfolding digit_split(2) [OF c] digit_split(1) [OF d] by (rule div_mult_mod_eq)
  show "(c mod 16 * 2 + d div 128) mod 2 * 128 + d div 4 mod 32 * 4 + (d mod 4 * 8 + e div 32) div 8 = d"
    unfolding digit_split(2) [OF d] digit_split(1) [OF e] by (rule three_digits(2))
  show "(d mod 4 * 8 + e div 32) mod 8 * 32 + e mod 32 = e"
    unfolding digit_split(2) [OF e] by (rule div_mult_mod_eq)
qed

definition nth0 :: "bytes \<Rightarrow> nat \<Rightarrow> nat" where
  "nth0 b i = (if i < length b then unat (b ! i) else 0)"

lemma nth0_less: "nth0 b i < 256"
  using unat_byte [of "b ! i"] by (simp add: nth0_def)

lemma b32_values_nth0:
  "b32_values b =
     [nth0 b 0 div 8, nth0 b 0 mod 8 * 4 + nth0 b 1 div 64, nth0 b 1 div 2 mod 32,
      nth0 b 1 mod 2 * 16 + nth0 b 2 div 16, nth0 b 2 mod 16 * 2 + nth0 b 3 div 128,
      nth0 b 3 div 4 mod 32, nth0 b 3 mod 4 * 8 + nth0 b 4 div 32, nth0 b 4 mod 32]"
  by (simp only: b32_values_def nth0_def Let_def)

lemma b32_values_less: "\<forall>n\<in>set (b32_values b). n < 32"
  unfolding list_all_iff [symmetric] b32_values_nth0
  by (simp only: list.pred_inject simp_thms b32_arith [OF nth0_less nth0_less nth0_less nth0_less nth0_less])

lemma b32_bytes_eight:
  "b32_bytes [n0, n1, n2, n3, n4, n5, n6, n7] =
     [byte_of (n0 * 8 + n1 div 4), byte_of (n1 mod 4 * 64 + n2 * 2 + n3 div 16), byte_of (n3 mod 16 * 16 + n4 div 2),
      byte_of (n4 mod 2 * 128 + n5 * 4 + n6 div 8), byte_of (n6 mod 8 * 32 + n7)]"
  by (simp add: b32_bytes_def)

lemma b32_bytes_values:
  assumes "length b = 5" shows "b32_bytes (b32_values b) = b"
proof -
  obtain v w x y z where b: "b = [v, w, x, y, z]"
    using assms by (auto simp: numeral_eq_Suc length_Suc_conv)
  have n: "nth0 b 0 = unat v" "nth0 b 1 = unat w" "nth0 b 2 = unat x" "nth0 b 3 = unat y" "nth0 b 4 = unat z"
    by (simp_all add: b nth0_def)
  have u: "byte_of (unat c) = c" for c by (rule byte_of_eqI) (rule refl)
  show ?thesis
    unfolding b32_values_nth0 n b32_bytes_eight
      b32_arith_back [OF unat_byte [of v] unat_byte [of w] unat_byte [of x] unat_byte [of y] unat_byte [of z]] u
    by (rule b [symmetric])
qed

lemma length_b32_values [simp]: "length (b32_values b) = 8"
  by (simp add: b32_values_def Let_def)

text \<open>Encodings of a multiple of five bytes, as service identifiers are, have only whole groups.\<close>

lemma b32_encode_group: "length b = 5 \<Longrightarrow> b32_encode (b @ bs) = map b32_char (b32_values b) @ b32_encode bs"
  by (subst b32_encode.simps) auto

lemma b32_decode_encode_loop:
  "5 dvd length bs \<Longrightarrow> b32_decode_loop pos [] (b32_encode bs) = Inr bs"
proof (induction bs arbitrary: pos rule: length_induct)
  case (1 bs)
  show ?case
  proof (cases "bs = []")
    case True
    then show ?thesis by (simp add: b32_encode.simps [of "[]"] b32_bytes_def Let_def)
  next
    case False
    with 1(2) have l: "5 \<le> length bs" by (meson dvd_imp_le length_greater_0_conv)
    let ?b = "take 5 bs" and ?c = "drop 5 bs"
    have "5 dvd length ?c" using 1(2) l by (simp add: dvd_diff_nat)
    moreover have "length ?c < length bs" using False by simp
    ultimately have IH: "b32_decode_loop p [] (b32_encode ?c) = Inr ?c" for p using 1(1) by blast
    have "b32_encode bs = map b32_char (b32_values ?b) @ b32_encode ?c"
      using b32_encode_group [of ?b ?c] l by simp
    then show ?thesis
      using b32_decode_group [OF b32_values_less [of ?b], of pos "b32_encode ?c"] IH
        b32_bytes_values [of ?b] l by simp
  qed
qed

lemma b32_encode_text: "c \<in> set (b32_encode bs) \<Longrightarrow> b32_val c \<noteq> None"
proof (induction bs rule: b32_encode.induct)
  case (1 bs)
  have "\<forall>c\<in>set (map b32_char (take n (b32_values (take 5 bs)))). b32_val c \<noteq> None" for n
    using b32_values_less [of "take 5 bs"] by (auto dest: in_set_takeD)
  then show ?case using 1 by (subst (asm) b32_encode.simps) (auto split: if_splits)
qed

lemma length_b32_encode: "5 dvd length bs \<Longrightarrow> length (b32_encode bs) = length bs div 5 * 8"
proof (induction bs rule: length_induct)
  case (1 bs)
  show ?case
  proof (cases "bs = []")
    case False
    with 1(2) have l: "5 \<le> length bs" by (meson dvd_imp_le length_greater_0_conv)
    have "5 dvd length (drop 5 bs)" using 1(2) l by (simp add: dvd_diff_nat)
    with 1(1) False have "length (b32_encode (drop 5 bs)) = length (drop 5 bs) div 5 * 8" by simp
    then show ?thesis using l False
      by (subst b32_encode.simps) (simp add: min_def le_div_geq)
  qed (simp add: b32_encode.simps [of "[]"])
qed

interpretation base32: codec b32_encode b32_decode "\<lambda>bs. 5 dvd length bs"
proof
  fix bs :: bytes assume "5 dvd length bs"
  have "b32_val (CHR 10) = None" "b32_val (CHR 13) = None" by code_simp+
  then have "\<forall>c\<in>set (b32_encode bs). c \<noteq> CHR 10 \<and> c \<noteq> CHR 13"
    using b32_encode_text by metis
  then have "filter (\<lambda>c. c \<noteq> CHR 10 \<and> c \<noteq> CHR 13) (b32_encode bs) = b32_encode bs"
    by (rule filter_True)
  then show "b32_decode (b32_encode bs) = Inr bs"
    using b32_decode_encode_loop [OF \<open>5 dvd length bs\<close>] by (simp add: b32_decode_def)
qed

end
