(* ===== verification/Torutil_Key.thy ===== *)
theory Torutil_Key
  imports Ed25519 Go_Base Go_Utf8
begin

text \<open>
  \<open>torutil/key.go\<close>: the identifiers of onion services. SHA3-256 is \<open>golang.org/x/crypto\<close>'s, a
  parameter \<open>sha3\<close>; SHA-1, base32 and the DER encoding of an RSA public key are the standard
  library's and are computed.
\<close>

unbundle bit_operations_syntax

definition string_bytes :: "string \<Rightarrow> bytes" where "string_bytes s = map (\<lambda>c. word_of_nat (of_char c)) s"

section \<open>RSA keys\<close>

text \<open>The fields of \<open>rsa.PublicKey\<close> and \<open>rsa.PrivateKey\<close>.\<close>

record rsa_public_key =
  rsa_N :: int
  rsa_E :: int

record rsa_private_key = rsa_public_key +
  rsa_D :: int
  rsa_Primes :: "int list"

fun bit_length :: "nat \<Rightarrow> nat" where
  "bit_length n = (if n = 0 then 0 else Suc (bit_length (n div 2)))"

declare bit_length.simps [simp del]

text \<open>\<open>x509.MarshalPKCS1PublicKey\<close>: the DER of the sequence of the two integers.\<close>

definition be_int :: "nat \<Rightarrow> int \<Rightarrow> bytes" where "be_int n x = rev (le_bytes n x)"

definition der_length :: "nat \<Rightarrow> bytes" where
  "der_length n =
     (if n < 128 then [word_of_nat n]
      else let k = (bit_length n + 7) div 8 in word_of_nat (128 + k) # be_int k (int n))"

definition der_int :: "int \<Rightarrow> bytes" where
  "der_int x =
     (let n = bit_length (nat (if 0 \<le> x then x else - x - 1)) div 8 + 1
      in [2] @ der_length n @ be_int n x)"

definition MarshalPKCS1PublicKey :: "rsa_public_key \<Rightarrow> bytes" where
  "MarshalPKCS1PublicKey k =
     (let body = der_int (rsa_N k) @ der_int (rsa_E k) in [48] @ der_length (length body) @ body)"

section \<open>Letter case\<close>

text \<open>\<open>strings.ToLower\<close> on the text of an encoding, which is ASCII.\<close>

definition lower_char :: "char \<Rightarrow> char" where
  "lower_char c = (let n = of_char c :: nat in if 65 \<le> n \<and> n \<le> 90 then char_of (n + 32) else c)"

definition to_lower :: "string \<Rightarrow> string" where "to_lower s = map lower_char s"

text \<open>
  \<open>strings.ToUpper\<close> maps the runes of its argument. The two runes outside ASCII whose upper case
  is an ASCII letter are the dotless i and the long s. The upper case of any other is outside
  ASCII too, and is left as it is here: base32, the only reader of the result, refuses either
  at the same place.
\<close>

definition upper_rune :: "rune \<Rightarrow> rune" where
  "upper_rune r = (if 97 \<le> r \<and> r \<le> 122 then r - 32 else if r = 0x131 then 73 else if r = 0x17f then 83 else r)"

definition to_upper :: "string \<Rightarrow> string" where
  "to_upper s = encode_runes (map upper_rune (range_string s))"

section \<open>Identifiers\<close>

definition OnionServiceIDFromV2PublicKey :: "rsa_public_key \<Rightarrow> string panicking" where
  "OnionServiceIDFromV2PublicKey key =
     (if bit_length (nat \<bar>rsa_N key\<bar>) \<noteq> 1024 then Inl ''RSA key not 1024 bit''
      else Inr (to_lower (b32_encode (take 10 (sha1 (MarshalPKCS1PublicKey key))))))"

text \<open>\<open>copy\<close> into an array of 35 bytes, of which the last three are then set.\<close>

definition array35 :: "bytes \<Rightarrow> bytes" where "array35 k = take 35 k @ replicate (35 - length k) 0"

definition onion_checksum :: "(bytes \<Rightarrow> bytes) \<Rightarrow> bytes \<Rightarrow> bytes" where
  "onion_checksum sha3 key = sha3 (string_bytes ''.onion checksum'' @ key @ [3])"

definition OnionServiceIDFromV3PublicKey :: "(bytes \<Rightarrow> bytes) \<Rightarrow> bytes \<Rightarrow> string" where
  "OnionServiceIDFromV3PublicKey sha3 key =
     (let checkSum = onion_checksum sha3 key;
          keyBytes = (array35 key)[32 := checkSum ! 0, 33 := checkSum ! 1, 34 := 3]
      in to_lower (b32_encode keyBytes))"

definition PublicKeyFromV3OnionServiceID :: "(bytes \<Rightarrow> bytes) \<Rightarrow> string \<Rightarrow> bytes result" where
  "PublicKeyFromV3OnionServiceID sha3 sid =
     (case b32_decode (to_upper sid) of
        Inl err \<Rightarrow> Inl err
      | Inr byts \<Rightarrow>
          if length byts \<noteq> 35 then Inl (Errorf ''Invalid id length'' [])
          else if byts ! 34 \<noteq> 3 then Inl (Errorf ''Invalid version'' [])
          else let key = take 32 byts; checkSum = onion_checksum sha3 key in
            if byts ! 32 \<noteq> checkSum ! 0 \<or> byts ! 33 \<noteq> checkSum ! 1 then Inl (Errorf ''Invalid checksum'' [])
            else Inr key)"

text \<open>
  The arguments of type \<open>crypto.PrivateKey\<close> and \<open>crypto.PublicKey\<close>, which any Go value has; what
  \<open>%T\<close> prints of another type is its name.
\<close>

datatype any_private_key = RsaPrivate rsa_private_key | KeyPairPrivate KeyPair | OtherPrivate string
datatype any_public_key = RsaPublic rsa_public_key | Ed25519Public bytes | OtherPublic string

definition OnionServiceIDFromPrivateKey :: "(bytes \<Rightarrow> bytes) \<Rightarrow> any_private_key \<Rightarrow> string panicking" where
  "OnionServiceIDFromPrivateKey sha3 key =
     (case key of
        RsaPrivate k \<Rightarrow> OnionServiceIDFromV2PublicKey (rsa_public_key.truncate k)
      | KeyPairPrivate k \<Rightarrow> Inr (OnionServiceIDFromV3PublicKey sha3 (kp_PublicKey k))
      | OtherPrivate t \<Rightarrow> Inl (''Unrecognized private key type: '' @ t))"

definition OnionServiceIDFromPublicKey :: "(bytes \<Rightarrow> bytes) \<Rightarrow> any_public_key \<Rightarrow> string panicking" where
  "OnionServiceIDFromPublicKey sha3 key =
     (case key of
        RsaPublic k \<Rightarrow> OnionServiceIDFromV2PublicKey k
      | Ed25519Public k \<Rightarrow> Inr (OnionServiceIDFromV3PublicKey sha3 k)
      | OtherPublic t \<Rightarrow> Inl (''Unrecognized public key type: '' @ t))"

section \<open>Facts\<close>

lemma to_upper_ascii: "\<forall>c\<in>set s. (of_char c :: nat) < 128 \<Longrightarrow> to_upper s = map (\<lambda>c. char_of (upper_rune (of_char c))) s"
proof (induction s)
  case (Cons c s)
  have c: "(of_char c :: nat) < 128" using Cons.prems by simp
  have "range_string (c # s) = of_char c # range_string s"
    using range_encode_rune [of "of_char c" s] c by (simp add: encode_rune_ascii scalar_def)
  moreover have "upper_rune (of_char c) < 128" using c by (auto simp: upper_rune_def)
  ultimately show ?case using Cons by (simp add: to_upper_def encode_runes_def encode_rune_ascii)
qed (simp add: to_upper_def encode_runes_def)

lemma upper_lower_b32: "b32_val c \<noteq> None \<Longrightarrow> char_of (upper_rune (of_char (lower_char c))) = c"
  by (auto simp: b32_val_def lower_char_def upper_rune_def Let_def split: if_splits)

lemma lower_b32_ascii: "b32_val c \<noteq> None \<Longrightarrow> (of_char (lower_char c) :: nat) < 128"
  by (auto simp: b32_val_def lower_char_def Let_def split: if_splits)

lemma to_upper_to_lower:
  assumes "\<forall>c\<in>set s. b32_val c \<noteq> None"
  shows "to_upper (to_lower s) = s"
proof -
  have "to_upper (to_lower s) = map (\<lambda>c. char_of (upper_rune (of_char (lower_char c)))) s"
    using to_upper_ascii [of "to_lower s"] assms lower_b32_ascii by (simp add: to_lower_def)
  also have "\<dots> = s" using assms upper_lower_b32 by (intro map_idI) blast
  finally show ?thesis .
qed

end
