(* ===== verification/Onion_Id.thy ===== *)
theory Onion_Id
  imports Torutil_Key
begin

text \<open>
  Which identifiers of onion services are accepted: those of a key, and those followed by
  characters that base32 drops.
\<close>

section \<open>Decoding group by group\<close>

lemma middle_digits:
  fixes a b c :: nat
  shows "b < 32 \<Longrightarrow> c < 2 \<Longrightarrow> (a * 64 + b * 2 + c) div 64 = a" "b < 32 \<Longrightarrow> c < 2 \<Longrightarrow> (a * 64 + b * 2 + c) div 2 mod 32 = b"
    "c < 2 \<Longrightarrow> (a * 64 + b * 2 + c) mod 2 = c"
    "b < 32 \<Longrightarrow> c < 4 \<Longrightarrow> (a * 128 + b * 4 + c) div 128 = a" "b < 32 \<Longrightarrow> c < 4 \<Longrightarrow> (a * 128 + b * 4 + c) div 4 mod 32 = b"
    "c < 4 \<Longrightarrow> (a * 128 + b * 4 + c) mod 4 = c"
proof -
  have e: "a * 64 + b * 2 + c = a * 64 + (b * 2 + c)" "a * 64 + b * 2 + c = (a * 32 + b) * 2 + c"
    "a * 128 + b * 4 + c = a * 128 + (b * 4 + c)" "a * 128 + b * 4 + c = (a * 32 + b) * 4 + c" by simp_all
  show "b < 32 \<Longrightarrow> c < 2 \<Longrightarrow> (a * 64 + b * 2 + c) div 64 = a" unfolding e(1) by (rule digit_split(1)) simp
  show "b < 32 \<Longrightarrow> c < 2 \<Longrightarrow> (a * 64 + b * 2 + c) div 2 mod 32 = b"
    unfolding e(2) by (subst digit_split(1), assumption, rule digit_split(2))
  show "c < 2 \<Longrightarrow> (a * 64 + b * 2 + c) mod 2 = c" unfolding e(2) by (rule digit_split(2))
  show "b < 32 \<Longrightarrow> c < 4 \<Longrightarrow> (a * 128 + b * 4 + c) div 128 = a" unfolding e(3) by (rule digit_split(1)) simp
  show "b < 32 \<Longrightarrow> c < 4 \<Longrightarrow> (a * 128 + b * 4 + c) div 4 mod 32 = b"
    unfolding e(4) by (subst digit_split(1), assumption, rule digit_split(2))
  show "c < 4 \<Longrightarrow> (a * 128 + b * 4 + c) mod 4 = c" unfolding e(4) by (rule digit_split(2))
qed

lemma value_digits:
  fixes n :: nat
  assumes "n < 32"
  shows "n div 4 < 8" "n div 16 < 2" "n div 2 < 16" "n div 8 < 4" "n mod 16 < 16" "n mod 4 < 4" "n mod 2 < 2" "n mod 8 < 8"
  using assms by simp_all

lemma unat_byte_of: "n < 256 \<Longrightarrow> unat (byte_of n) = n"
  by (simp add: byte_of_def unat_of_nat)

lemma byte_sums:
  fixes a b c :: nat
  shows "a < 32 \<Longrightarrow> b < 8 \<Longrightarrow> a * 8 + b < 256" "a < 4 \<Longrightarrow> b < 32 \<Longrightarrow> c < 2 \<Longrightarrow> a * 64 + b * 2 + c < 256"
    "a < 16 \<Longrightarrow> b < 16 \<Longrightarrow> a * 16 + b < 256" "a < 2 \<Longrightarrow> b < 32 \<Longrightarrow> c < 4 \<Longrightarrow> a * 128 + b * 4 + c < 256"
    "a < 8 \<Longrightarrow> b < 32 \<Longrightarrow> a * 32 + b < 256"
  by linarith+

lemma b32_values_bytes:
  assumes "\<forall>n\<in>set [n0, n1, n2, n3, n4, n5, n6, n7]. n < 32"
  shows "b32_values (b32_bytes [n0, n1, n2, n3, n4, n5, n6, n7]) = [n0, n1, n2, n3, n4, n5, n6, n7]"
proof -
  have l: "n0 < 32" "n1 < 32" "n2 < 32" "n3 < 32" "n4 < 32" "n5 < 32" "n6 < 32" "n7 < 32" using assms by simp_all
  note d1 = value_digits [OF l(2)] and d3 = value_digits [OF l(4)] and d4 = value_digits [OF l(5)] and d6 = value_digits [OF l(7)]
  define b where "b = b32_bytes [n0, n1, n2, n3, n4, n5, n6, n7]"
  have b: "b = [byte_of (n0 * 8 + n1 div 4), byte_of (n1 mod 4 * 64 + n2 * 2 + n3 div 16), byte_of (n3 mod 16 * 16 + n4 div 2),
      byte_of (n4 mod 2 * 128 + n5 * 4 + n6 div 8), byte_of (n6 mod 8 * 32 + n7)]" unfolding b_def by (rule b32_bytes_eight)
  have n: "nth0 b 0 = n0 * 8 + n1 div 4" "nth0 b 1 = n1 mod 4 * 64 + n2 * 2 + n3 div 16" "nth0 b 2 = n3 mod 16 * 16 + n4 div 2"
    "nth0 b 3 = n4 mod 2 * 128 + n5 * 4 + n6 div 8" "nth0 b 4 = n6 mod 8 * 32 + n7"
    unfolding b nth0_def
    using unat_byte_of [OF byte_sums(1) [OF l(1) d1(1)]] unat_byte_of [OF byte_sums(2) [OF d1(6) l(3) d3(2)]]
      unat_byte_of [OF byte_sums(3) [OF d3(5) d4(3)]] unat_byte_of [OF byte_sums(4) [OF d4(7) l(6) d6(4)]]
      unat_byte_of [OF byte_sums(5) [OF d6(8) l(8)]]
    by simp_all
  show ?thesis
    unfolding b_def [symmetric] b32_values_nth0 n digit_split(1) [OF d1(1)] digit_split(2) [OF d1(1)]
      middle_digits(1) [OF l(3) d3(2)] middle_digits(2) [OF l(3) d3(2)] middle_digits(3) [OF d3(2)]
      digit_split(1) [OF d4(3)] digit_split(2) [OF d4(3)] middle_digits(4) [OF l(6) d6(4)]
      middle_digits(5) [OF l(6) d6(4)] middle_digits(6) [OF d6(4)] digit_split(1) [OF l(8)] digit_split(2) [OF l(8)]
      div_mult_mod_eq ..
qed

function b32_groups :: "nat list \<Rightarrow> bytes" where
  "b32_groups ns = (if length ns < 8 then b32_bytes ns else b32_bytes (take 8 ns) @ b32_groups (drop 8 ns))"
  by pat_completeness auto
termination by (relation "measure length") auto

declare b32_groups.simps [simp del]

lemma b32_decode_loop_groups:
  "b32_decode_loop pos v s = Inr bs \<Longrightarrow> length v < 8 \<Longrightarrow>
     \<exists>ns. map b32_val s = map Some ns \<and> bs = b32_groups (v @ ns)"
proof (induction pos v s arbitrary: bs rule: b32_decode_loop.induct)
  case (1 pos v)
  then show ?case by (simp add: b32_groups.simps)
next
  case (2 pos v c cs)
  obtain n where n: "b32_val c = Some n" using "2.prems"(1) by (cases "b32_val c") auto
  show ?case
  proof (cases "length v = 7")
    case True
    obtain bs' where r: "b32_decode_loop (pos + 1) [] cs = Inr bs'" "bs = b32_bytes (v @ [n]) @ bs'"
      using "2.prems"(1) n True by (auto split: sum.splits)
    then obtain ns where ns: "map b32_val cs = map Some ns" "bs' = b32_groups ns" using "2.IH"(1) [OF n True r(1)] by auto
    have "b32_groups ((v @ [n]) @ ns) = b32_bytes (v @ [n]) @ b32_groups ns"
      using True by (subst b32_groups.simps) simp
    then show ?thesis using r(2) ns n by (intro exI [of _ "n # ns"]) simp
  next
    case False
    have r: "b32_decode_loop (pos + 1) (v @ [n]) cs = Inr bs" using "2.prems"(1) n False by simp
    then obtain ns where "map b32_val cs = map Some ns" "bs = b32_groups ((v @ [n]) @ ns)"
      using "2.IH"(2) [OF n False r] "2.prems"(2) False by auto
    then show ?thesis using n by (intro exI [of _ "n # ns"]) simp
  qed
qed

lemma b32_char_val: "b32_val c = Some n \<Longrightarrow> b32_char n = c \<and> n < 32"
  by (auto simp: b32_val_def b32_char_def Let_def split: if_splits)

lemma b32_chars_vals: "map b32_val s = map Some ns \<Longrightarrow> s = map b32_char ns \<and> (\<forall>n\<in>set ns. n < 32)"
proof (induction s arbitrary: ns)
  case (Cons c s)
  then obtain n ms where "ns = n # ms" "b32_val c = Some n" "map b32_val s = map Some ms" by (cases ns) auto
  then show ?case using Cons.IH [of ms] b32_char_val by auto
qed simp

lemma length_b32_bytes: "length (b32_bytes v) = (if length v \<in> {2, 4, 5, 7, 8} then 5 * length v div 8 else 0)"
  by (auto simp: b32_bytes_def Let_def)

text \<open>Bytes in a multiple of five come from the text of their encoding and what is dropped.\<close>

lemma b32_groups_encode:
  "\<forall>n\<in>set ns. n < 32 \<Longrightarrow> 5 dvd length (b32_groups ns) \<Longrightarrow>
     \<exists>t. map b32_char ns = b32_encode (b32_groups ns) @ t \<and> length t \<in> {0, 1, 3, 6}"
proof (induction ns rule: b32_groups.induct)
  case (1 ns)
  show ?case
  proof (cases "length ns < 8")
    case True
    then have g: "b32_groups ns = b32_bytes ns" by (simp add: b32_groups.simps)
    have "length ns \<notin> {2, 4, 5, 7}" using "1.prems"(2) unfolding g length_b32_bytes by auto
    then have l: "length ns \<in> {0, 1, 3, 6}" using True by (auto simp: less_Suc_eq numeral_eq_Suc)
    then have "length (b32_groups ns) = 0" unfolding g length_b32_bytes by auto
    then show ?thesis using l by (intro exI [of _ "map b32_char ns"]) (simp add: b32_encode.simps)
  next
    case False
    define ms where "ms = take 8 ns"
    have ms: "length ms = 8" "\<forall>n\<in>set ms. n < 32" using False "1.prems"(1) by (auto simp: ms_def dest: in_set_takeD)
    have g: "b32_groups ns = b32_bytes ms @ b32_groups (drop 8 ns)"
      using False by (subst b32_groups.simps) (simp add: ms_def)
    have l: "length (b32_bytes ms) = 5" using ms(1) by (simp add: length_b32_bytes)
    obtain t where t: "map b32_char (drop 8 ns) = b32_encode (b32_groups (drop 8 ns)) @ t" "length t \<in> {0, 1, 3, 6}"
      using "1.IH" [OF False] "1.prems" l unfolding g by (auto dest: in_set_dropD)
    obtain n0 n1 n2 n3 n4 n5 n6 n7 where e: "ms = [n0, n1, n2, n3, n4, n5, n6, n7]"
      using ms(1) by (auto simp: numeral_eq_Suc length_Suc_conv)
    have "b32_values (b32_bytes ms) = ms" using b32_values_bytes [of n0 n1 n2 n3 n4 n5 n6 n7] ms(2) unfolding e by blast
    then have "b32_encode (b32_groups ns) = map b32_char ms @ b32_encode (b32_groups (drop 8 ns))"
      unfolding g by (simp add: b32_encode_group l)
    moreover have "map b32_char ns = map b32_char ms @ map b32_char (drop 8 ns)"
      unfolding ms_def map_append [symmetric] by simp
    ultimately show ?thesis using t by auto
  qed
qed

section \<open>The two functions\<close>

lemma onion_id_bytes:
  assumes "length key = 32"
  shows "(array35 key)[32 := a, 33 := b, 34 := 3] = key @ [a, b, 3]"
  using assms by (simp add: array35_def list_update_append numeral_eq_Suc)

lemma b32_decode_to_upper_lower:
  "5 dvd length bs \<Longrightarrow> b32_decode (to_upper (to_lower (b32_encode bs))) = Inr bs"
  using b32_encode_text [of _ bs] by (subst to_upper_to_lower) (blast, rule base32.dec_enc)

lemma onion_id_decode:
  assumes "length key = 32"
  shows "PublicKeyFromV3OnionServiceID sha3 (OnionServiceIDFromV3PublicKey sha3 key) = Inr key"
proof -
  have "b32_decode (to_upper (OnionServiceIDFromV3PublicKey sha3 key)) =
      Inr (key @ [onion_checksum sha3 key ! 0, onion_checksum sha3 key ! 1, 3])"
    unfolding OnionServiceIDFromV3PublicKey_def Let_def onion_id_bytes [OF assms]
    by (rule b32_decode_to_upper_lower) (simp add: assms)
  then show ?thesis using assms by (simp add: PublicKeyFromV3OnionServiceID_def nth_append)
qed

interpretation onion_id: codec "OnionServiceIDFromV3PublicKey sha3" "PublicKeyFromV3OnionServiceID sha3" "\<lambda>key. length key = 32"
  for sha3
  by unfold_locales (rule onion_id_decode)

lemma lower_upper_b32: "b32_val c \<noteq> None \<Longrightarrow> b32_val d \<noteq> None \<Longrightarrow> lower_char c = lower_char d \<Longrightarrow> c = d"
  by (metis upper_lower_b32)

lemma length_three: "length xs = 3 \<Longrightarrow> \<exists>x y z. xs = [x, y, z]"
  by (auto simp: numeral_eq_Suc length_Suc_conv)

lemma onion_id_accepted:
  assumes "PublicKeyFromV3OnionServiceID sha3 sid = Inr key"
  shows "length key = 32 \<and> (\<exists>t. to_lower (filter (\<lambda>c. c \<noteq> CHR 10 \<and> c \<noteq> CHR 13) (to_upper sid)) =
    OnionServiceIDFromV3PublicKey sha3 key @ t \<and> length t \<in> {0, 1, 3, 6})"
proof -
  define s where "s = filter (\<lambda>c. c \<noteq> CHR 10 \<and> c \<noteq> CHR 13) (to_upper sid)"
  obtain byts where b: "b32_decode_loop 0 [] s = Inr byts" "length byts = 35" "byts ! 34 = 3" "key = take 32 byts"
    "byts ! 32 = onion_checksum sha3 key ! 0" "byts ! 33 = onion_checksum sha3 key ! 1"
    using assms by (auto simp: PublicKeyFromV3OnionServiceID_def b32_decode_def s_def Let_def split: sum.splits if_splits)
  obtain ns where ns: "map b32_val s = map Some ns" "byts = b32_groups ns"
    using b32_decode_loop_groups [OF b(1)] by auto
  have s: "s = map b32_char ns" "\<forall>n\<in>set ns. n < 32" using b32_chars_vals [OF ns(1)] by auto
  obtain t where t: "s = b32_encode byts @ t" "length t \<in> {0, 1, 3, 6}"
    using b32_groups_encode [OF s(2)] b(2) s(1) ns(2) by auto
  have l: "length key = 32" using b(2,4) by simp
  have "length (drop 32 byts) = 3" using b(2) by simp
  then obtain x y z where d: "drop 32 byts = [x, y, z]" using length_three by blast
  have "byts ! 32 = drop 32 byts ! 0" "byts ! 33 = drop 32 byts ! 1" "byts ! 34 = drop 32 byts ! 2" using b(2) by simp_all
  then have "byts = take 32 byts @ [byts ! 32, byts ! 33, byts ! 34]"
    unfolding d using append_take_drop_id [of 32 byts] d by simp
  then have "byts = (array35 key)[32 := onion_checksum sha3 key ! 0, 33 := onion_checksum sha3 key ! 1, 34 := 3]"
    unfolding onion_id_bytes [OF l] using b(3-6) by simp
  then have "OnionServiceIDFromV3PublicKey sha3 key = to_lower (b32_encode byts)"
    by (simp add: OnionServiceIDFromV3PublicKey_def Let_def)
  then have "to_lower s = OnionServiceIDFromV3PublicKey sha3 key @ to_lower t"
    using t(1) by (simp add: to_lower_def)
  then show ?thesis using l t(2) unfolding s_def by (auto simp: to_lower_def)
qed

end
