(* ===== verification/Onion.thy ===== *)
theory Onion
  imports Onion_Id Command_Props
begin

text \<open>
  \<open>control/cmd_onion.go\<close>: the keys of \<open>ADD_ONION\<close> and the two commands. Reading and writing the
  PKCS#1 form of an RSA private key is \<open>crypto/x509\<close>'s, whose checks depend on its version: the
  parameters \<open>parse\<close> and \<open>marshal\<close>.
\<close>

section \<open>Keys\<close>

definition KeyTypeNew :: string where "KeyTypeNew = ''NEW''"
definition KeyTypeRSA1024 :: string where "KeyTypeRSA1024 = ''RSA1024''"
definition KeyTypeED25519V3 :: string where "KeyTypeED25519V3 = ''ED25519-V3''"

definition KeyAlgoBest :: string where "KeyAlgoBest = ''BEST''"
definition KeyAlgoRSA1024 :: string where "KeyAlgoRSA1024 = ''RSA1024''"
definition KeyAlgoED25519V3 :: string where "KeyAlgoED25519V3 = ''ED25519-V3''"

datatype Key = GenKey string | RSAKey rsa_private_key | ED25519Key KeyPair

type_synonym pkcs1_parser = "bytes \<Rightarrow> rsa_private_key result"
type_synonym pkcs1_writer = "rsa_private_key \<Rightarrow> bytes"

fun key_Type :: "Key \<Rightarrow> string" where
  "key_Type (GenKey _) = KeyTypeNew"
| "key_Type (RSAKey _) = KeyTypeRSA1024"
| "key_Type (ED25519Key _) = KeyTypeED25519V3"

fun key_Blob :: "pkcs1_writer \<Rightarrow> Key \<Rightarrow> string" where
  "key_Blob marshal (GenKey g) = g"
| "key_Blob marshal (RSAKey r) = b64_encode (marshal r)"
| "key_Blob marshal (ED25519Key e) = b64_encode (kp_PrivateKey e)"

definition GenKeyFromBlob :: "string \<Rightarrow> Key" where "GenKeyFromBlob blob = GenKey blob"

definition RSA1024KeyFromBlob :: "pkcs1_parser \<Rightarrow> string \<Rightarrow> Key result" where
  "RSA1024KeyFromBlob parse blob =
     (case b64_decode blob of
        Inl err \<Rightarrow> Inl err
      | Inr byts \<Rightarrow> (case parse byts of Inl err \<Rightarrow> Inl err | Inr rsaKey \<Rightarrow> Inr (RSAKey rsaKey)))"

definition ED25519KeyFromBlob :: "string \<Rightarrow> Key result" where
  "ED25519KeyFromBlob blob =
     (case b64_decode blob of
        Inl err \<Rightarrow> Inl err
      | Inr byts \<Rightarrow> Inr (ED25519Key (priv_KeyPair byts)))"

definition KeyFromString :: "pkcs1_parser \<Rightarrow> string \<Rightarrow> Key result" where
  "KeyFromString parse str =
     (let (typ, blob, _) = PartitionString str (CHR '':'') in
      if typ = KeyTypeNew then Inr (GenKeyFromBlob blob)
      else if typ = KeyTypeRSA1024 then RSA1024KeyFromBlob parse blob
      else if typ = KeyTypeED25519V3 then ED25519KeyFromBlob blob
      else Inl (Errorf (''Unrecognized key type: '' @ typ) []))"

section \<open>Commands\<close>

record AddOnionRequest =
  req_Key :: "Key option"
  req_Flags :: "string list"
  req_MaxStreams :: int
  req_Ports :: "key_val list"
  req_ClientAuths :: "string list"

record AddOnionResponse =
  ServiceID :: string
  resp_Key :: "Key option"
  RawResponse :: response

definition add_onion_text :: "pkcs1_writer \<Rightarrow> Key \<Rightarrow> AddOnionRequest \<Rightarrow> string" where
  "add_onion_text marshal key req =
     ''ADD_ONION '' @ key_Type key @ '':'' @ key_Blob marshal key @
     (if 0 < length (req_Flags req) then '' Flags='' @ join (req_Flags req) '','' else []) @
     (if 0 < req_MaxStreams req then '' MaxStreams='' @ itoa (req_MaxStreams req) else []) @
     concat (map (\<lambda>port. '' Port='' @ Keyval.key_val.Key port @ (if Val port \<noteq> [] then '','' @ Val port else [])) (req_Ports req)) @
     concat (map (\<lambda>blob. '' ClientAuthV3='' @ blob) (req_ClientAuths req))"

text \<open>One line of the reply.\<close>

definition onion_line :: "pkcs1_parser \<Rightarrow> string \<Rightarrow> AddOnionResponse \<Rightarrow> AddOnionResponse result" where
  "onion_line parse data ret =
     (let (key, val, _) = PartitionString data (CHR ''='') in
      if key = ''ServiceID'' then Inr (ret\<lparr>ServiceID := val\<rparr>)
      else if key = ''PrivateKey'' then
        (case KeyFromString parse val of Inl err \<Rightarrow> Inl err | Inr k \<Rightarrow> Inr (ret\<lparr>resp_Key := Some k\<rparr>))
      else Inr ret)"

fun onion_lines :: "pkcs1_parser \<Rightarrow> string list \<Rightarrow> AddOnionResponse \<Rightarrow> AddOnionResponse result" where
  "onion_lines parse [] ret = Inr ret"
| "onion_lines parse (data # ds) ret =
     (case onion_line parse data ret of Inl err \<Rightarrow> Inl err | Inr ret' \<Rightarrow> onion_lines parse ds ret')"

definition AddOnion :: "pkcs1_parser \<Rightarrow> pkcs1_writer \<Rightarrow> AddOnionRequest \<Rightarrow> conn \<Rightarrow> AddOnionResponse result \<times> conn" where
  "AddOnion parse marshal req c =
     (case req_Key req of
        None \<Rightarrow> (Inl (ProtocolError ''Key required''), c)
      | Some key \<Rightarrow>
          (case request (add_onion_text marshal key req) [] c of
             (Inl err, c') \<Rightarrow> (Inl err, c')
           | (Inr resp, c') \<Rightarrow>
               (onion_lines parse (Data resp) \<lparr>ServiceID = [], resp_Key = None, RawResponse = resp\<rparr>, c')))"

definition DelOnion :: "string \<Rightarrow> conn \<Rightarrow> error option \<times> conn" where
  "DelOnion serviceID = sendRequestIgnoreResponse ''DEL_ONION %v'' [serviceID]"

end
