(* ===== verification/Tor_Onion.thy ===== *)
theory Tor_Onion
  imports Tor_Network Onion
begin

text \<open>
  \<open>tor/listen.go\<close> and \<open>tor/forward.go\<close>: publishing onion services, in front of a local listener or
  forwarding to given targets, and waiting until they are published. The two files share their
  configuration, their flags, the switch on the key and the wait; here these are shared.
\<close>

section \<open>Configuration\<close>

text \<open>
  The dynamic types a private key can have. A \<open>*control.ED25519Key\<close> embeds a key pair and so
  implements its interface: it matches the case of \<open>ed25519.KeyPair\<close>, and its own case is
  never reached.
\<close>

datatype private_key =
    NilKey | ControlGenKey string | AKeyPair KeyPair | CryptoPrivateKey bytes
  | ControlED25519Key KeyPair | OtherKey string

record onion_conf =
  oc_Key :: private_key
  ClientAuths :: "string list"
  MaxStreams :: int
  DiscardKey :: bool
  Detach :: bool
  NonAnonymous :: bool
  MaxStreamsCloseCircuit :: bool
  NoWait :: bool

text \<open>
  A listener as far as it is used: a number that identifies it, the port if its address is a TCP address, the
  address as a string, whether it is a unix listener, and the error of closing it.
\<close>

record listener =
  l_id :: nat
  l_tcp_port :: "int option"
  l_addr :: string
  l_unix :: bool
  l_close_err :: "error option"

record ListenConf = onion_conf +
  LocalPort :: int
  lc_LocalListener :: "listener option"
  lc_RemotePorts :: "int list"

text \<open>The port forwards are in the order in which the runtime ranges over the map.\<close>

record ForwardConf = onion_conf +
  fc_PortForwards :: "(string \<times> int list) list"

section \<open>The request\<close>

definition onion_flags :: "('a) onion_conf_scheme \<Rightarrow> string list" where
  "onion_flags conf =
     (if DiscardKey conf then [''DiscardPK''] else []) @
     (if Detach conf then [''Detach''] else []) @
     (if 0 < length (ClientAuths conf) then [''V3Auth''] else []) @
     (if NonAnonymous conf then [''NonAnonymous''] else []) @
     (if MaxStreamsCloseCircuit conf then [''MaxStreamsCloseCircuit''] else [])"

text \<open>The key of the service and the key of the request.\<close>

fun onion_key :: "private_key \<Rightarrow> (private_key \<times> Onion.Key) result panicking" where
  "onion_key NilKey = Inr (Inr (NilKey, GenKey KeyAlgoED25519V3))"
| "onion_key (ControlGenKey key) = Inr (Inr (NilKey, GenKey key))"
| "onion_key (AKeyPair key) = Inr (Inr (AKeyPair key, ED25519Key key))"
| "onion_key (ControlED25519Key key) = Inr (Inr (ControlED25519Key key, ED25519Key key))"
| "onion_key (CryptoPrivateKey key) =
     (case FromCryptoPrivateKey key of
        Inl p \<Rightarrow> Inl p
      | Inr properKey \<Rightarrow> Inr (Inr (AKeyPair properKey, ED25519Key properKey)))"
| "onion_key (OtherKey typ) = Inr (Inl (Errorf (''Unrecognized key type: '' @ typ) []))"

definition onion_request :: "('a) onion_conf_scheme \<Rightarrow> Onion.Key option \<Rightarrow> key_val list \<Rightarrow> AddOnionRequest" where
  "onion_request conf key ports =
     \<lparr>req_Key = key, req_Flags = onion_flags conf, req_MaxStreams = MaxStreams conf, req_Ports = ports,
      req_ClientAuths = ClientAuths conf\<rparr>"

text \<open>The key that Tor sent, if any.\<close>

fun response_key :: "Onion.Key option \<Rightarrow> private_key \<Rightarrow> error option \<times> private_key" where
  "response_key None key = (None, key)"
| "response_key (Some (ED25519Key k)) key = (None, AKeyPair k)"
| "response_key (Some (GenKey _)) key = (Some (Errorf ''Unrecognized result key type: control.GenKey'' []), key)"
| "response_key (Some (RSAKey _)) key = (Some (Errorf ''Unrecognized result key type: *control.RSAKey'' []), key)"

section \<open>Waiting for publication\<close>

definition EventCodeHSDesc :: EventCode where "EventCodeHSDesc = ''HS_DESC''"

text \<open>The uploads attempted and the failures.\<close>

definition upload_predicate :: "string \<Rightarrow> (nat \<times> string list) predicate" where
  "upload_predicate ID s evt =
     (case s of (uploadsAttempted, failures) \<Rightarrow>
        (case evt of
           HSDescE hs \<Rightarrow>
             if hsdesc_Address hs = ID then
               if hsdesc_Action hs = ''UPLOAD'' then (Inr False, (uploadsAttempted + 1, failures))
               else if hsdesc_Action hs = ''FAILED'' then
                 (let failures = failures @ [''Failed uploading to dir '' @ hsdesc_HSDir hs @ '' - reason: '' @ hsdesc_Reason hs]
                  in if length failures = uploadsAttempted
                     then (Inl (Errorf (''Failed all uploads, reasons: '' @ show_strings failures) []), (uploadsAttempted, failures))
                     else (Inr False, (uploadsAttempted, failures)))
               else if hsdesc_Action hs = ''UPLOADED'' then (Inr True, s)
               else (Inr False, s)
             else (Inr False, s)
         | _ \<Rightarrow> (Inr False, s)))"

text \<open>\<open>enable\<close> and \<open>publish\<close> are the schedules of the two waits.\<close>

definition await_publication :: "wait_step list \<Rightarrow> wait_step list \<Rightarrow> string \<Rightarrow> tor \<Rightarrow> (error option \<times> tor) run" where
  "await_publication enable publish ID t =
     (let t = Debugf ''Enabling network before waiting for publication'' [] t
      in bind_run (EnableNetwork enable True t) (\<lambda>(err, t).
           if err \<noteq> None then Returned (err, t)
           else let t = Debugf ''Waiting for publication'' [] t
             in bind_run (tor_EventWait publish [EventCodeHSDesc] (upload_predicate ID) (0, []) t) (\<lambda>(res, t).
                  Returned (case res of Inl err \<Rightarrow> Some err | Inr _ \<Rightarrow> None, t))))"

text \<open>
  The steps both have in common, on a service \<open>svc\<close> that \<open>put_id\<close> and \<open>put_key\<close> fill in: the request, the key
  of the response, the wait.
\<close>

definition publish ::
    "pkcs1_parser \<Rightarrow> pkcs1_writer \<Rightarrow> wait_step list \<Rightarrow> wait_step list \<Rightarrow> bool \<Rightarrow> AddOnionRequest
     \<Rightarrow> (string \<Rightarrow> 's \<Rightarrow> 's) \<Rightarrow> (private_key \<Rightarrow> 's \<Rightarrow> 's) \<Rightarrow> ('s \<Rightarrow> private_key) \<Rightarrow> 's \<Rightarrow> tor \<Rightarrow> (error option \<times> 's \<times> tor) run" where
  "publish parse marshal enable wait noWait req put_id put_key get_key svc t =
     bind_run (with_control t (AddOnion parse marshal req)) (\<lambda>(resp, t).
       case resp of
         Inl err \<Rightarrow> Returned (Some err, svc, t)
       | Inr resp \<Rightarrow>
           let svc = put_id (ServiceID resp) svc; (err, key) = response_key (resp_Key resp) (get_key svc); svc = put_key key svc
           in if err = None \<and> \<not> noWait
              then bind_run (await_publication enable wait (ServiceID resp) t) (\<lambda>(err, t). Returned (err, svc, t))
              else Returned (err, svc, t))"

section \<open>Listening\<close>

record OnionService =
  svc_ID :: string
  svc_Key :: private_key
  LocalListener :: "listener option"
  RemotePorts :: "int list"
  CloseLocalListenerOnClose :: bool

text \<open>\<open>String\<close> panics without remote ports; \<open>fmt\<close> recovers and prints that.\<close>

definition svc_String :: "OnionService \<Rightarrow> string panicking" where
  "svc_String o1 =
     (if RemotePorts o1 = [] then Inl ''runtime error: index out of range [0] with length 0''
      else Inr (svc_ID o1 @ ''.onion:'' @ itoa (RemotePorts o1 ! 0)))"

definition printed :: "string panicking \<Rightarrow> string" where
  "printed s = (case s of Inl p \<Rightarrow> ''%!v(PANIC=String method: '' @ p @ '')'' | Inr s \<Rightarrow> s)"

text \<open>A named error result and a close error, combined.\<close>

definition also_close_listener :: "error option \<Rightarrow> error option \<Rightarrow> error option" where
  "also_close_listener err closeErr =
     (case (closeErr, err) of
        (None, _) \<Rightarrow> err
      | (Some ce, Some e) \<Rightarrow> Some (Errorf ''Unable to close onion:  (also unable to close local listener: )'' [e, ce])
      | (Some ce, None) \<Rightarrow> Some ce)"

text \<open>Deleting the service if it has an identifier, and forgetting that.\<close>

definition del_onion :: "string \<Rightarrow> tor \<Rightarrow> (error option \<times> tor) run" where
  "del_onion ID t = (if ID \<noteq> [] then with_control t (DelOnion ID) else Returned (None, t))"

definition failed_closing :: "error option \<Rightarrow> tor \<Rightarrow> tor" where
  "failed_closing err t = (case err of Some e \<Rightarrow> Debugf ''Failed closing onion: '' [e] t | None \<Rightarrow> t)"

definition svc_Close :: "OnionService \<Rightarrow> tor \<Rightarrow> (error option \<times> OnionService \<times> tor) run" where
  "svc_Close o1 t =
     (let t = Debugf (''Closing onion '' @ printed (svc_String o1)) [] t
      in bind_run (del_onion (svc_ID o1) t) (\<lambda>(err, t).
           let o1 = o1\<lparr>svc_ID := []\<rparr>;
               (err, o1, t) =
                 (case (CloseLocalListenerOnClose o1, LocalListener o1) of
                    (True, Some l) \<Rightarrow>
                      (also_close_listener err (l_close_err l), o1\<lparr>LocalListener := None\<rparr>, effect (ClosedListener (l_id l)) t)
                  | _ \<Rightarrow> (err, o1, t))
           in Returned (err, o1, failed_closing err t)))"

text \<open>The remote ports: given, or the port of the local listener.\<close>

definition remote_ports :: "int list \<Rightarrow> listener \<Rightarrow> int list result" where
  "remote_ports ports l =
     (if length ports = 0 then
        (case l_tcp_port l of None \<Rightarrow> Inl (Errorf ''Unable to derive local TCP port'' []) | Some port \<Rightarrow> Inr [port])
      else Inr ports)"

definition listen_ports :: "int list \<Rightarrow> listener \<Rightarrow> key_val list" where
  "listen_ports ports l =
     (let localAddr = (if l_unix l then ''unix:'' @ l_addr l else l_addr l)
      in map (\<lambda>p. \<lparr>Key = itoa p, Val = localAddr, ValSetAndEmpty = False\<rparr>) ports)"

text \<open>\<open>Listen\<close> up to its error handling, on a service with its listener.\<close>

definition listen_steps ::
    "pkcs1_parser \<Rightarrow> pkcs1_writer \<Rightarrow> wait_step list \<Rightarrow> wait_step list \<Rightarrow> ListenConf \<Rightarrow> listener \<Rightarrow> OnionService \<Rightarrow> tor
     \<Rightarrow> (error option \<times> OnionService \<times> tor) run" where
  "listen_steps parse marshal enable wait conf l svc t =
     (case onion_key (oc_Key conf) of
        Inl p \<Rightarrow> Panicked p
      | Inr (Inl err) \<Rightarrow> Returned (Some err, svc, t)
      | Inr (Inr (key, req_key)) \<Rightarrow>
          let svc = svc\<lparr>svc_Key := key\<rparr>
          in case remote_ports (lc_RemotePorts conf) l of
               Inl err \<Rightarrow> Returned (Some err, svc, t)
             | Inr ports \<Rightarrow>
                 publish parse marshal enable wait (NoWait conf) (onion_request conf (Some req_key) (listen_ports ports l))
                   (\<lambda>i svc. svc\<lparr>svc_ID := i\<rparr>) (\<lambda>k svc. svc\<lparr>svc_Key := k\<rparr>) svc_Key (svc\<lparr>RemotePorts := ports\<rparr>) t)"

text \<open>Giving back the error, and closing what was made.\<close>

definition on_listen_error :: "error \<Rightarrow> error option \<Rightarrow> error" where
  "on_listen_error err closeErr =
     (case closeErr of
        None \<Rightarrow> err
      | Some closeErr \<Rightarrow> Errorf ''Error on listen:  (also got error trying to close: )'' [err, closeErr])"

text \<open>\<open>net_Listen\<close> is \<open>net.Listen\<close> on TCP. A nil configuration panics at its first use.\<close>

definition Listen ::
    "pkcs1_parser \<Rightarrow> pkcs1_writer \<Rightarrow> (string \<Rightarrow> listener result) \<Rightarrow> wait_step list \<Rightarrow> wait_step list \<Rightarrow> ListenConf option
     \<Rightarrow> tor \<Rightarrow> (OnionService option \<times> error option \<times> tor) run" where
  "Listen parse marshal net_Listen enable wait conf t =
     (case conf of
        None \<Rightarrow> Panicked nil_deref
      | Some conf \<Rightarrow>
          let svc = \<lparr>svc_ID = [], svc_Key = NilKey, LocalListener = lc_LocalListener conf, RemotePorts = [],
                CloseLocalListenerOnClose = (lc_LocalListener conf = None)\<rparr>
          in case (case LocalListener svc of
                Some l \<Rightarrow> Inr l | None \<Rightarrow> net_Listen (''127.0.0.1:'' @ itoa (LocalPort conf))) of
               Inl err \<Rightarrow> Returned (None, Some err, t)
             | Inr l \<Rightarrow>
                 bind_run (listen_steps parse marshal enable wait conf l (svc\<lparr>LocalListener := Some l\<rparr>) t) (\<lambda>(err, svc, t).
                   case err of
                     None \<Rightarrow> Returned (Some svc, None, t)
                   | Some err \<Rightarrow>
                       bind_run (svc_Close svc t) (\<lambda>(closeErr, _, t).
                         Returned (None, Some (on_listen_error err closeErr), t))))"

section \<open>Forwarding\<close>

record OnionForward =
  fwd_ID :: string
  fwd_Key :: private_key
  PortForwards :: "(string \<times> int list) list"

definition fwd_String :: "OnionForward \<Rightarrow> string" where
  "fwd_String o1 = fwd_ID o1 @ ''.onion''"

definition fwd_Close :: "OnionForward \<Rightarrow> tor \<Rightarrow> (error option \<times> OnionForward \<times> tor) run" where
  "fwd_Close o1 t =
     (let t = Debugf (''Closing onion '' @ fwd_String o1) [] t
      in bind_run (del_onion (fwd_ID o1) t) (\<lambda>(err, t). Returned (err, o1\<lparr>fwd_ID := []\<rparr>, failed_closing err t)))"

definition forward_ports :: "(string \<times> int list) list \<Rightarrow> key_val list" where
  "forward_ports fs =
     concat (map (\<lambda>(localPort, remotePorts). map (\<lambda>p. \<lparr>Key = itoa p, Val = localPort, ValSetAndEmpty = False\<rparr>) remotePorts) fs)"

definition Forward ::
    "pkcs1_parser \<Rightarrow> pkcs1_writer \<Rightarrow> wait_step list \<Rightarrow> wait_step list \<Rightarrow> ForwardConf option
     \<Rightarrow> tor \<Rightarrow> (OnionForward option \<times> error option \<times> tor) run" where
  "Forward parse marshal enable wait conf t =
     (case conf of
        None \<Rightarrow> Panicked nil_deref
      | Some conf \<Rightarrow>
          let fwd = \<lparr>fwd_ID = [], fwd_Key = NilKey, PortForwards = []\<rparr>
          in bind_run
               (case onion_key (oc_Key conf) of
                  Inl p \<Rightarrow> Panicked p
                | Inr (Inl err) \<Rightarrow> Returned (Some err, fwd\<lparr>PortForwards := fc_PortForwards conf\<rparr>, t)
                | Inr (Inr (key, req_key)) \<Rightarrow>
                    publish parse marshal enable wait (NoWait conf)
                      (onion_request conf (Some req_key) (forward_ports (fc_PortForwards conf)))
                      (\<lambda>i fwd. fwd\<lparr>fwd_ID := i\<rparr>) (\<lambda>k fwd. fwd\<lparr>fwd_Key := k\<rparr>) fwd_Key
                      (fwd\<lparr>fwd_Key := key, PortForwards := fc_PortForwards conf\<rparr>) t)
               (\<lambda>(err, fwd, t).
                  case err of
                    None \<Rightarrow> Returned (Some fwd, None, t)
                  | Some err \<Rightarrow>
                      bind_run (fwd_Close fwd t) (\<lambda>(closeErr, _, t).
                        Returned (None, Some (on_listen_error err closeErr), t))))"

end
