(* ===== verification/Network_Props.thy ===== *)
theory Network_Props
  imports Tor_Network Fair_Wait Auth_Props
begin

text \<open>Enabling the network, the wait for its bootstrap, and dialling.\<close>

section \<open>Enabling the network\<close>

definition disable_network :: "string \<Rightarrow> key_val" where
  "disable_network v = NewKeyVal ''DisableNetwork'' v"

lemma disable_network_ok: "valid_string v \<Longrightarrow> v \<noteq> [] \<Longrightarrow> entry_ok (disable_network v)"
  by (simp add: entry_ok_def disable_network_def NewKeyVal_def ValSet_def plain_line_def)

lemma GetConf_disable_network:
  assumes "valid_string v" "v \<noteq> []" "dialogue c evs (conf_reply [] (disable_network v)) rest"
  shows "GetConf [''DisableNetwork''] c = (Inr [disable_network v],
    after_dialogue evs (conf_reply [] (disable_network v)) rest (after_write ''GETCONF DisableNetwork'' c))"
  using GetConf_dialogue [of "[]" "disable_network v" c evs rest "[''DisableNetwork'']"] assms disable_network_ok by simp

lemma KeyVals_disable_network: "KeyVals [''DisableNetwork'', ''0''] = Inr [disable_network ''0'']"
  by (simp add: KeyVals_pair disable_network_def)

lemma SetConf_disable_network:
  assumes "dialogue c evs r rest"
  shows "SetConf [disable_network ''0''] c = (answer_error r, after_dialogue evs r rest (after_write ''SETCONF DisableNetwork=0'' c))"
proof -
  have "set_conf_line ''SETCONF'' [disable_network ''0''] = ''SETCONF DisableNetwork=0''" by code_simp
  moreover have "entries_plain [disable_network ''0'']" by (simp add: entries_plain_def disable_network_def NewKeyVal_def)
  ultimately show ?thesis using set_conf.cmd_dialogue [OF _ assms] by simp
qed

text \<open>The connection after the two requests.\<close>

definition network_asked :: "reply \<Rightarrow> string \<Rightarrow> conn \<Rightarrow> conn" where
  "network_asked r rest c =
     after_dialogue [] r rest (after_write ''SETCONF DisableNetwork=0''
       (after_dialogue [] (conf_reply [] (disable_network ''1'')) (render_reply r @ rest) (after_write ''GETCONF DisableNetwork'' c)))"

lemma network_asked_frame [conn_frame]:
  "c_in (network_asked r rest c) = rest" "eventListeners (network_asked r rest c) = eventListeners c"
  "c_fault (network_asked r rest c) = c_fault c" "c_iter (network_asked r rest c) = c_iter c"
  "c_out (network_asked r rest c) = c_out c @ ''GETCONF DisableNetwork'' @ CRLF @ ''SETCONF DisableNetwork=0'' @ CRLF"
  by (simp_all add: network_asked_def conn_frame) (simp add: after_dialogue_def after_write_def log_lines_def)

lemma one_valid: "valid_string ''1''"
  by code_simp

lemma EnableNetwork_requests:
  assumes "t_Control t = Some c" "c_fault c = None" "is_answer r"
    and "c_in c = render_reply (conf_reply [] (disable_network ''1'')) @ render_reply r @ rest"
  shows "EnableNetwork steps wait t =
    (if answer_error r \<noteq> None \<or> \<not> wait then Returned (None, t\<lparr>t_Control := Some (network_asked r rest c)\<rparr>)
     else bind_run (tor_EventWait steps [EventCodeStatusClient] bootstrap_predicate ()
         (t\<lparr>t_Control := Some (network_asked r rest c)\<rparr>)) (\<lambda>(res, t). Returned (case res of Inl err \<Rightarrow> Some err | Inr _ \<Rightarrow> None, t)))"
proof -
  let ?r0 = "conf_reply [] (disable_network ''1'')"
  let ?c1 = "after_dialogue [] ?r0 (render_reply r @ rest) (after_write ''GETCONF DisableNetwork'' c)"
  have "is_answer ?r0" using conf_reply_answer [of "[]" "disable_network ''1''"] disable_network_ok [OF one_valid] by simp
  then have g: "GetConf [''DisableNetwork''] c = (Inr [disable_network ''1''], ?c1)"
    using assms(2,4) one_valid by (intro GetConf_disable_network) (simp_all add: dialogue_def)
  have "dialogue ?c1 [] r rest" using assms(2,3) by (simp add: dialogue_def conn_frame)
  note s = SetConf_disable_network [OF this]
  have k: "Key (disable_network ''1'') = ''DisableNetwork''" "Val (disable_network ''1'') = ''1''"
    by (simp_all add: disable_network_def NewKeyVal_def)
  show ?thesis
    unfolding EnableNetwork_def with_control_def assms(1)
    using g s k by (simp add: KeyVals_disable_network assms(1) network_asked_def)
qed

text \<open>The code does not report that Tor refused to enable the network.\<close>

lemma enable_network_refused:
  assumes "t_Control t = Some c" "c_fault c = None" "is_answer r" "answer_error r = Some err"
    and "c_in c = render_reply (conf_reply [] (disable_network ''1'')) @ render_reply r @ rest"
  shows "\<exists>t'. EnableNetwork steps wait t = Returned (None, t')"
  using EnableNetwork_requests [OF assms(1,2,3,5)] assms(4) by simp
















section \<open>Dialling\<close>

text \<open>Tor's answer to the question where its SOCKS listener is.\<close>

definition socks_reply :: "string \<Rightarrow> reply" where
  "socks_reply addr = \<lparr>code = 250, parts = [Mid (''net/listeners/socks='' @ EscapeSimpleQuotedString addr)], final = ''OK''\<rparr>"

lemma GetInfo_socks:
  assumes "valid_string addr" "dialogue c evs (socks_reply addr) rest"
  shows "GetInfo [''net/listeners/socks''] c = (Inr [NewKeyVal ''net/listeners/socks'' addr],
    after_dialogue evs (socks_reply addr) rest (after_write ''GETINFO net/listeners/socks'' c))"
proof -
  have "PartitionString (''net/listeners/socks='' @ EscapeSimpleQuotedString addr) (CHR ''='')
      = (''net/listeners/socks'', EscapeSimpleQuotedString addr, True)"
    using PartitionString_append [of "CHR ''=''" "''net/listeners/socks''" "EscapeSimpleQuotedString addr"] by simp
  moreover have "UnescapeSimpleQuotedStringIfNeeded (EscapeSimpleQuotedString addr) = Inr addr"
    using unescape_escape_quoted [OF assms(1)]
    by (simp add: UnescapeSimpleQuotedStringIfNeeded_def EscapeSimpleQuotedString_def nth_append)
  ultimately have e: "info_entry (''net/listeners/socks='' @ EscapeSimpleQuotedString addr) = Inr (NewKeyVal ''net/listeners/socks'' addr)"
    by (simp only: info_entry_def NewKeyVal_def Let_def prod.case sum.case)
  have "traverse info_entry (Data (view_reply (socks_reply addr))) = Inr [NewKeyVal ''net/listeners/socks'' addr]"
    unfolding view_reply_def socks_reply_def using e by simp
  then show ?thesis
    using request_dialogue [OF assms(2), of "''GETINFO %v''" "[''net/listeners/socks'']"]
    by (simp add: GetInfo_def answer_error_def socks_reply_def)
qed

text \<open>C36: without a proxy address, a dialer asks Tor where its SOCKS listener is and is made for the address in Tor's answer,
  on a unix socket if the address says so and on TCP if not, whatever network the configuration names; with a given
  address Tor is not asked, and the network is TCP unless it is named.\<close>
theorem dialer_finds_proxy:
  assumes "SkipEnableNetwork conf" "t_Control t = Some c" "valid_string addr" "dialogue c evs (socks_reply addr) rest"
    and "proxy \<noteq> []"
  shows "\<exists>c'. tor_Dialer socks5 steps (Some (conf\<lparr>ProxyAddress := []\<rparr>)) t
      = Returned (if has_prefix addr ''unix:'' then socks5 ''unix'' (drop 5 addr) (ProxyAuth conf) (dial_Forward conf)
          else socks5 ''tcp'' addr (ProxyAuth conf) (dial_Forward conf), t\<lparr>t_Control := Some c'\<rparr>)
    \<and> c_out c' = c_out c @ ''GETINFO net/listeners/socks'' @ CRLF
    \<and> tor_Dialer socks5 steps (Some (conf\<lparr>ProxyAddress := proxy\<rparr>)) t
      = Returned (socks5 (if ProxyNetwork conf = [] then ''tcp'' else ProxyNetwork conf) proxy (ProxyAuth conf) (dial_Forward conf), t)"
proof -
  let ?c' = "after_dialogue evs (socks_reply addr) rest (after_write ''GETINFO net/listeners/socks'' c)"
  have k: "Key (NewKeyVal ''net/listeners/socks'' addr) = ''net/listeners/socks''" "Val (NewKeyVal ''net/listeners/socks'' addr) = addr"
    by (simp_all add: NewKeyVal_def)
  have "proxy_target (ProxyNetwork conf) [] t = Returned (Inr (if has_prefix addr ''unix:'' then (''unix'', drop 5 addr) else (''tcp'', addr)),
      t\<lparr>t_Control := Some ?c'\<rparr>)"
    unfolding proxy_target_def with_control_def assms(2) using GetInfo_socks [OF assms(3,4)] k by simp
  then have "tor_Dialer socks5 steps (Some (conf\<lparr>ProxyAddress := []\<rparr>)) t
      = Returned (if has_prefix addr ''unix:'' then socks5 ''unix'' (drop 5 addr) (ProxyAuth conf) (dial_Forward conf)
          else socks5 ''tcp'' addr (ProxyAuth conf) (dial_Forward conf), t\<lparr>t_Control := Some ?c'\<rparr>)"
    using assms(1) by (simp add: tor_Dialer_def)
  then show ?thesis
    using assms(1,5) by (intro exI [of _ ?c']) (simp add: tor_Dialer_def proxy_target_def conn_frame)
qed

theorem dialer_finds_proxy_witness:
  "let c = example_conn (concat (map render_reply []) @ render_reply (socks_reply ''unix:/tor/s'') @ []) [];
       t = (new_Tor default_StartConf)\<lparr>t_Control := Some c\<rparr>;
       conf = \<lparr>ProxyAddress = [], ProxyNetwork = ''tcp'', ProxyAuth = None, SkipEnableNetwork = True, dial_Forward = None\<rparr>
   in \<exists>c'. tor_Dialer (\<lambda>n a (_ :: unit option) (_ :: unit option). Inr (n, a)) [] (Some (conf\<lparr>ProxyAddress := []\<rparr>)) t
     = Returned (Inr (''unix'', ''/tor/s''), t\<lparr>t_Control := Some c'\<rparr>)"
proof -
  let ?c = "example_conn (concat (map render_reply []) @ render_reply (socks_reply ''unix:/tor/s'') @ []) []"
  let ?t = "(new_Tor default_StartConf)\<lparr>t_Control := Some ?c\<rparr>"
  let ?conf = "\<lparr>ProxyAddress = [], ProxyNetwork = ''tcp'', ProxyAuth = None, SkipEnableNetwork = True, dial_Forward = None\<rparr>
    :: (unit, unit) DialConf"
  have "plain_line (EscapeSimpleQuotedString ''unix:/tor/s'')" unfolding plain_line_def by code_simp
  then have d: "dialogue ?c [] (socks_reply ''unix:/tor/s'') []"
    by (simp add: dialogue_def is_answer_def reply_ok_def socks_reply_def) (simp add: plain_line_def)
  have v: "valid_string ''unix:/tor/s''" by code_simp
  have h: "has_prefix ''unix:/tor/s'' ''unix:''" "drop 5 ''unix:/tor/s'' = ''/tor/s''" by code_simp+
  have "SkipEnableNetwork ?conf" by simp
  from dialer_finds_proxy [OF this _ v d, of ?t "''a''" "\<lambda>n a _ _. Inr (n, a)" "[]"]
  show ?thesis unfolding Let_def using h by auto
qed

text \<open>
  The invariant of a dial: the goroutine has ended or not, and its connection is in one place.
\<close>

definition dialling_ok :: "'c \<Rightarrow> 'c dialling \<Rightarrow> bool" where
  "dialling_ok conn d \<longleftrightarrow> (if d_running d then d_connCh d = None \<and> d_closed d = []
     else d_connCh d = None \<and> d_closed d = [conn] \<or> d_connCh d = Some conn \<and> d_closed d = [])"

lemma dialling_ok_ends: "dialling_ok conn d \<Longrightarrow> dialling_ok conn (dial_ends (Inr conn) d)"
  by (simp add: dialling_ok_def dial_ends_def Let_def)

lemma dial_background_ended:
  "\<not> d_running d \<Longrightarrow> d_closed (dial_background dialled e steps d) = d_closed d"
  by (induction dialled e steps d rule: dial_background.induct) (simp_all add: dial_ends_def)

lemma dial_select_conn:
  "dialling_ok conn d \<Longrightarrow> dial_select (Inr conn) e steps d = (Some (Inr c), d') \<Longrightarrow> c = conn \<and> d_closed d' = []"
proof (induction "Inr conn :: 'a result" e steps d rule: dial_select.induct)
  case (2 e steps d)
  show ?case using 2(1) [OF dialling_ok_ends [OF 2(2)]] 2(3) by simp
next
  case (3 e steps d)
  then show ?case by (simp add: dialling_ok_def)
next
  case (5 e steps d)
  then show ?case
    by (cases "d_connCh d") (auto simp: dialling_ok_def dial_background_ended split: if_splits)
qed (auto split: option.splits)

text \<open>Whatever the order in which the dial ends, the context ends and the caller looks, a connection that DialContext
  returns is the one dialled, and it has not been closed.\<close>
theorem dial_context_open:
  assumes "DialContext (Inr conn) ctxErr steps = (Some (Inr c), d)"
  shows "c = conn \<and> d_closed d = []"
  by (rule dial_select_conn [OF _ assms [unfolded DialContext_def]]) (simp add: dialling_ok_def)

theorem dial_context_open_witness:
  "DialContext (Inr (7 :: nat)) EOF [SelectErr, DialEnds, SelectConn, ContextEnds]
     = (Some (Inr 7), snd (DialContext (Inr (7 :: nat)) EOF [SelectErr, DialEnds, SelectConn, ContextEnds]))
   \<and> d_closed (snd (DialContext (Inr (7 :: nat)) EOF [SelectErr, DialEnds, SelectConn, ContextEnds])) = []"
proof -
  have e: "DialContext (Inr (7 :: nat)) EOF [SelectErr, DialEnds, SelectConn, ContextEnds]
     = (Some (Inr 7), snd (DialContext (Inr (7 :: nat)) EOF [SelectErr, DialEnds, SelectConn, ContextEnds]))"
    by (simp add: DialContext_def dial_ends_def Let_def)
  show ?thesis using dial_context_open [OF e] e by blast
qed

text \<open>
  But a connection can be lost: dialled before the context ends and not yet received, it is
  neither returned nor closed when the caller sees the end of the context first.
\<close>

lemma dial_context_leak:
  "\<exists>d. DialContext (Inr conn) ctxErr [DialEnds, ContextEnds, SelectDone] = (Some (Inl ctxErr), d)
     \<and> d_closed d = [] \<and> d_connCh d = Some conn"
  by (simp add: DialContext_def dial_ends_def Let_def)

end
