(* ===== verification/Onion_Request.thy ===== *)
theory Onion_Request
  imports Onion
begin

text \<open>
  The line that asks Tor for an onion service, as the control protocol defines it: what Tor reads
  in it. This says what \<open>AddOnion\<close> of \<open>control/cmd_onion.go\<close> and \<open>Listen\<close> of \<open>tor/listen.go\<close> ask
  for, whatever way they build the text.
\<close>

section \<open>Reading the line\<close>

text \<open>
  The key or the kind of key to make, the flags, the limit of streams (0 for none), each port with
  its target (empty if there is none), and the keys of the clients.
\<close>

record onion_ask =
  ask_Key :: "string \<times> string"
  ask_Flags :: "string list"
  ask_MaxStreams :: int
  ask_Ports :: "(string \<times> string) list"
  ask_ClientAuths :: "string list"

definition before_char :: "char \<Rightarrow> string \<Rightarrow> string" where
  "before_char c s = takeWhile (\<lambda>x. x \<noteq> c) s"

definition after_char :: "char \<Rightarrow> string \<Rightarrow> string" where
  "after_char c s = drop 1 (dropWhile (\<lambda>x. x \<noteq> c) s)"

definition read_word :: "string \<Rightarrow> onion_ask \<Rightarrow> onion_ask option" where
  "read_word w q =
     (let name = before_char (CHR ''='') w; val = after_char (CHR ''='') w in
      if name = ''Flags'' then Some (q\<lparr>ask_Flags := ask_Flags q @ split_byte val (CHR '','')\<rparr>)
      else if name = ''MaxStreams'' then Some (q\<lparr>ask_MaxStreams := fst (Atoi val)\<rparr>)
      else if name = ''Port'' then Some (q\<lparr>ask_Ports := ask_Ports q @ [(before_char (CHR '','') val, after_char (CHR '','') val)]\<rparr>)
      else if name = ''ClientAuthV3'' then Some (q\<lparr>ask_ClientAuths := ask_ClientAuths q @ [val]\<rparr>)
      else None)"

fun read_words :: "string list \<Rightarrow> onion_ask \<Rightarrow> onion_ask option" where
  "read_words [] q = Some q"
| "read_words (w # ws) q = (case read_word w q of None \<Rightarrow> None | Some q \<Rightarrow> read_words ws q)"

definition read_add_onion :: "string \<Rightarrow> onion_ask option" where
  "read_add_onion line =
     (case split_byte line (CHR '' '') of
        cmd # key # ws \<Rightarrow>
          if cmd = ''ADD_ONION''
          then read_words ws \<lparr>ask_Key = (before_char (CHR '':'') key, after_char (CHR '':'') key), ask_Flags = [],
            ask_MaxStreams = 0, ask_Ports = [], ask_ClientAuths = []\<rparr>
          else None
      | _ \<Rightarrow> None)"

text \<open>A word of a line, which can be written as it is.\<close>

definition plain_word :: "string \<Rightarrow> bool" where
  "plain_word w \<longleftrightarrow> set w \<inter> {CHR '' '', CHR ''%'', CHR 13, CHR 10} = {}"

text \<open>A key to make is asked for by its algorithm, a given one sent in base64.\<close>

fun asked_key :: "pkcs1_writer \<Rightarrow> Key \<Rightarrow> string \<times> string" where
  "asked_key marshal (GenKey algorithm) = (''NEW'', algorithm)"
| "asked_key marshal (RSAKey k) = (''RSA1024'', b64_encode (marshal k))"
| "asked_key marshal (ED25519Key k) = (''ED25519-V3'', b64_encode (kp_PrivateKey k))"

text \<open>The words of a request; a flag and a virtual port have no comma.\<close>

definition request_plain :: "Key \<Rightarrow> AddOnionRequest \<Rightarrow> bool" where
  "request_plain key req \<longleftrightarrow> (\<forall>g. key = GenKey g \<longrightarrow> plain_word g)
     \<and> (\<forall>f\<in>set (req_Flags req). plain_word f \<and> CHR '','' \<notin> set f) \<and> req_MaxStreams req < 2 ^ 63
     \<and> (\<forall>p\<in>set (req_Ports req). plain_word (key_val.Key p) \<and> CHR '','' \<notin> set (key_val.Key p) \<and> plain_word (Val p))
     \<and> (\<forall>a\<in>set (req_ClientAuths req). plain_word a)"

section \<open>What AddOnion writes\<close>

lemma before_after [simp]:
  "c \<notin> set a \<Longrightarrow> before_char c (a @ c # b) = a" "c \<notin> set a \<Longrightarrow> after_char c (a @ c # b) = b"
  "c \<notin> set a \<Longrightarrow> before_char c a = a" "c \<notin> set a \<Longrightarrow> after_char c a = []"
  by (auto simp: before_char_def after_char_def takeWhile_append dropWhile_append takeWhile_eq_all_conv dropWhile_eq_Nil_conv)

lemma plain_word_append [simp]: "plain_word (a @ b) \<longleftrightarrow> plain_word a \<and> plain_word b"
  by (auto simp: plain_word_def)

lemma plain_word_base64 [simp]: "plain_word (b64_encode bs)"
proof -
  have v: "b64_val (CHR '' '') = None" "b64_val (CHR ''%'') = None" "b64_val (CHR 13) = None" "b64_val (CHR 10) = None"
    by code_simp+
  have c: "b64_char n \<notin> {CHR '' '', CHR ''%'', CHR 13, CHR 10}" if "n < 64" for n
    using b64_val_char [OF that] v by fastforce
  note d = b64_arith(1-6) [OF unat_byte unat_byte unat_byte]
  show ?thesis
    by (induction bs rule: b64_encode.induct) (use c d in \<open>auto simp: plain_word_def\<close>)
qed

lemma plain_word_itoa [simp]: "plain_word (itoa i)"
proof -
  have "c \<notin> {CHR '' '', CHR ''%'', CHR 13, CHR 10}" if "is_digit c" for c
    using that by (auto simp: is_digit_def)
  then show ?thesis using nat_digits_is_digit by (fastforce simp: plain_word_def itoa_def)
qed

definition add_onion_words :: "pkcs1_writer \<Rightarrow> Key \<Rightarrow> AddOnionRequest \<Rightarrow> string list" where
  "add_onion_words marshal key req =
     [key_Type key @ '':'' @ key_Blob marshal key] @
     (if req_Flags req \<noteq> [] then [''Flags='' @ join (req_Flags req) '',''] else []) @
     (if 0 < req_MaxStreams req then [''MaxStreams='' @ itoa (req_MaxStreams req)] else []) @
     map (\<lambda>p. ''Port='' @ key_val.Key p @ (if Val p \<noteq> [] then '','' @ Val p else [])) (req_Ports req) @
     map (\<lambda>a. ''ClientAuthV3='' @ a) (req_ClientAuths req)"

lemma add_onion_text_words:
  "add_onion_text marshal key req = ''ADD_ONION'' @ concat (map (\<lambda>w. '' '' @ w) (add_onion_words marshal key req))"
  by (simp add: add_onion_text_def add_onion_words_def o_def)

lemma split_words:
  "CHR '' '' \<notin> set a \<Longrightarrow> \<forall>w\<in>set ws. CHR '' '' \<notin> set w \<Longrightarrow> split_byte (a @ concat (map (\<lambda>w. '' '' @ w) ws)) (CHR '' '') = a # ws"
  by (induction ws arbitrary: a) (simp_all add: split_byte_single split_byte_append)

lemma plain_join: "plain_word sep \<Longrightarrow> \<forall>w\<in>set ws. plain_word w \<Longrightarrow> plain_word (join ws sep)"
  by (induction ws sep rule: join.induct) (simp_all add: plain_word_def)

lemma plain_add_onion_words:
  assumes "request_plain key req" "w \<in> set (add_onion_words marshal key req)"
  shows "plain_word w"
proof -
  have "plain_word (key_Type key)" by (cases key) (simp_all add: KeyTypeNew_def KeyTypeRSA1024_def KeyTypeED25519V3_def plain_word_def)
  moreover have "plain_word (key_Blob marshal key)" using assms(1) by (cases key) (simp_all add: request_plain_def)
  moreover have "plain_word '':''" "plain_word '',''" "plain_word ''Flags=''" "plain_word ''MaxStreams=''" "plain_word ''Port=''" "plain_word ''ClientAuthV3=''"
    by (simp_all add: plain_word_def)
  moreover have "plain_word (join (req_Flags req) '','')"
    using assms(1) by (intro plain_join) (simp_all add: request_plain_def plain_word_def)
  ultimately show ?thesis using assms by (auto simp only: add_onion_words_def request_plain_def plain_word_append set_append
      plain_word_itoa set_map list.set Un_iff insert_iff empty_iff image_iff split: if_splits)
qed

lemma read_words_append:
  "read_words (a @ b) q = (case read_words a q of None \<Rightarrow> None | Some q \<Rightarrow> read_words b q)"
  by (induction a arbitrary: q) (auto split: option.split)

lemma read_word_flags: "read_word (''Flags='' @ v) q = Some (q\<lparr>ask_Flags := ask_Flags q @ split_byte v (CHR '','')\<rparr>)"
  using before_after(1,2) [of "CHR ''=''" "''Flags''" v] by (simp add: read_word_def)

lemma read_word_streams: "read_word (''MaxStreams='' @ v) q = Some (q\<lparr>ask_MaxStreams := fst (Atoi v)\<rparr>)"
  using before_after(1,2) [of "CHR ''=''" "''MaxStreams''" v] by (simp add: read_word_def)

lemma read_word_port:
  "read_word (''Port='' @ v) q = Some (q\<lparr>ask_Ports := ask_Ports q @ [(before_char (CHR '','') v, after_char (CHR '','') v)]\<rparr>)"
  using before_after(1,2) [of "CHR ''=''" "''Port''" v] by (simp add: read_word_def)

lemma read_word_auth: "read_word (''ClientAuthV3='' @ v) q = Some (q\<lparr>ask_ClientAuths := ask_ClientAuths q @ [v]\<rparr>)"
  using before_after(1,2) [of "CHR ''=''" "''ClientAuthV3''" v] by (simp add: read_word_def)

lemma read_ports:
  "\<forall>p\<in>set ps. CHR '','' \<notin> set (key_val.Key p) \<Longrightarrow>
     read_words (map (\<lambda>p. ''Port='' @ key_val.Key p @ (if Val p \<noteq> [] then '','' @ Val p else [])) ps) q
     = Some (q\<lparr>ask_Ports := ask_Ports q @ map (\<lambda>p. (key_val.Key p, Val p)) ps\<rparr>)"
proof (induction ps arbitrary: q)
  case (Cons p ps)
  have "before_char (CHR '','') (key_val.Key p @ (if Val p \<noteq> [] then '','' @ Val p else [])) = key_val.Key p"
    "after_char (CHR '','') (key_val.Key p @ (if Val p \<noteq> [] then '','' @ Val p else [])) = Val p"
    using Cons.prems by simp_all
  then show ?case using Cons by (simp only: list.map read_words.simps read_word_port) simp
qed simp

lemma read_auths:
  "read_words (map (\<lambda>a. ''ClientAuthV3='' @ a) as) q = Some (q\<lparr>ask_ClientAuths := ask_ClientAuths q @ as\<rparr>)"
  by (induction as arbitrary: q) (simp_all only: list.map read_words.simps read_word_auth, simp_all)

lemma read_flags:
  assumes "\<forall>f\<in>set fs. CHR '','' \<notin> set f"
  shows "read_words (if fs \<noteq> [] then [''Flags='' @ join fs '',''] else []) q = Some (q\<lparr>ask_Flags := ask_Flags q @ fs\<rparr>)"
proof (cases "fs = []")
  case False
  then have "split_byte (join fs '','') (CHR '','') = fs" using assms by (intro split_byte_join) simp_all
  then show ?thesis using False by (simp only: if_True read_words.simps read_word_flags not_False_eq_True option.case)
qed simp

lemma read_streams:
  assumes "m < 2 ^ 63"
  shows "read_words (if 0 < m then [''MaxStreams='' @ itoa m] else []) q = Some (if 0 < m then q\<lparr>ask_MaxStreams := m\<rparr> else q)"
proof (cases "0 < m")
  case True
  then have "fst (Atoi (itoa m)) = m" using assms by (subst Atoi_itoa) simp_all
  then show ?thesis using True by (simp only: if_True read_words.simps read_word_streams option.case)
qed simp

text \<open>Tor reads in the line what the request has.\<close>

lemma read_add_onion_text:
  assumes "request_plain key req"
  shows "read_add_onion (add_onion_text marshal key req) = Some \<lparr>ask_Key = asked_key marshal key, ask_Flags = req_Flags req,
    ask_MaxStreams = max 0 (req_MaxStreams req), ask_Ports = map (\<lambda>p. (key_val.Key p, Val p)) (req_Ports req),
    ask_ClientAuths = req_ClientAuths req\<rparr>"
proof -
  let ?k = "key_Type key @ '':'' @ key_Blob marshal key"
  have "CHR '':'' \<notin> set (key_Type key)" by (cases key) (simp_all add: KeyTypeNew_def KeyTypeRSA1024_def KeyTypeED25519V3_def)
  then have k: "(before_char (CHR '':'') ?k, after_char (CHR '':'') ?k) = asked_key marshal key"
    by (cases key) (simp_all add: KeyTypeNew_def KeyTypeRSA1024_def KeyTypeED25519V3_def before_char_def after_char_def)
  have "\<forall>w\<in>set (add_onion_words marshal key req). CHR '' '' \<notin> set w"
    using plain_add_onion_words [OF assms] by (auto simp: plain_word_def)
  then have s: "split_byte (add_onion_text marshal key req) (CHR '' '') = ''ADD_ONION'' # add_onion_words marshal key req"
    unfolding add_onion_text_words by (intro split_words) simp_all
  have p: "\<forall>p\<in>set (req_Ports req). CHR '','' \<notin> set (key_val.Key p)" and f: "\<forall>f\<in>set (req_Flags req). CHR '','' \<notin> set f"
    and m: "req_MaxStreams req < 2 ^ 63" using assms by (simp_all add: request_plain_def)
  let ?ws = "(if req_Flags req \<noteq> [] then [''Flags='' @ join (req_Flags req) '',''] else []) @
     (if 0 < req_MaxStreams req then [''MaxStreams='' @ itoa (req_MaxStreams req)] else []) @
     map (\<lambda>p. ''Port='' @ key_val.Key p @ (if Val p \<noteq> [] then '','' @ Val p else [])) (req_Ports req) @
     map (\<lambda>a. ''ClientAuthV3='' @ a) (req_ClientAuths req)"
  let ?q = "\<lparr>ask_Key = asked_key marshal key, ask_Flags = [], ask_MaxStreams = 0, ask_Ports = [], ask_ClientAuths = []\<rparr>"
  have w: "add_onion_words marshal key req = ?k # ?ws" unfolding add_onion_words_def by simp
  have "read_add_onion (add_onion_text marshal key req) = read_words ?ws ?q"
    unfolding read_add_onion_def s w by (simp only: list.case simp_thms if_True k)
  also have "\<dots> = Some \<lparr>ask_Key = asked_key marshal key, ask_Flags = req_Flags req,
      ask_MaxStreams = max 0 (req_MaxStreams req), ask_Ports = map (\<lambda>p. (key_val.Key p, Val p)) (req_Ports req),
      ask_ClientAuths = req_ClientAuths req\<rparr>"
    unfolding read_words_append read_flags [OF f] option.case read_streams [OF m] read_ports [OF p] read_auths by simp
  finally show ?thesis .
qed

lemma add_onion_text_plain:
  assumes "request_plain key req"
  shows "CHR ''%'' \<notin> set (add_onion_text marshal key req)" "CHR 13 \<notin> set (add_onion_text marshal key req)"
    "CHR 10 \<notin> set (add_onion_text marshal key req)"
proof -
  have "CHR ''%'' \<notin> set w \<and> CHR 13 \<notin> set w \<and> CHR 10 \<notin> set w" if "w \<in> set (add_onion_words marshal key req)" for w
    using plain_add_onion_words [OF assms that] by (simp add: plain_word_def)
  then show "CHR ''%'' \<notin> set (add_onion_text marshal key req)" "CHR 13 \<notin> set (add_onion_text marshal key req)"
    "CHR 10 \<notin> set (add_onion_text marshal key req)" by (auto simp: add_onion_text_words)
qed

end
