(* ===== verification/Onion_Props.thy ===== *)
theory Onion_Props
  imports Onion_Request
begin

text \<open>The claims on identifiers of onion services, their keys and \<open>ADD_ONION\<close>.\<close>

section \<open>Identifiers\<close>

text \<open>C11: reading back the identifier of a 32-byte key gives the key, and the identifier is 56 characters that all are
  lower-case letters or digits of base32; so different keys have different identifiers. For every hash.\<close>
theorem onion_id_roundtrip:
  assumes "length key = 32"
  shows "PublicKeyFromV3OnionServiceID sha3 (OnionServiceIDFromV3PublicKey sha3 key) = Inr key
    \<and> length (OnionServiceIDFromV3PublicKey sha3 key) = 56
    \<and> set (OnionServiceIDFromV3PublicKey sha3 key) \<subseteq> {c. \<exists>n < 32. c = lower_char (b32_char n)}
    \<and> (\<forall>key'. length key' = 32 \<longrightarrow> OnionServiceIDFromV3PublicKey sha3 key = OnionServiceIDFromV3PublicKey sha3 key' \<longrightarrow> key = key')"
proof -
  let ?b = "(array35 key)[32 := onion_checksum sha3 key ! 0, 33 := onion_checksum sha3 key ! 1, 34 := 3]"
  have e: "OnionServiceIDFromV3PublicKey sha3 key = to_lower (b32_encode ?b)"
    by (simp add: OnionServiceIDFromV3PublicKey_def Let_def)
  have l: "length ?b = 35" unfolding onion_id_bytes [OF assms] using assms by simp
  have "length (b32_encode ?b) = 56" using length_b32_encode [of ?b] l by simp
  then have "length (OnionServiceIDFromV3PublicKey sha3 key) = 56" by (simp add: e to_lower_def)
  moreover have "set (OnionServiceIDFromV3PublicKey sha3 key) \<subseteq> {c. \<exists>n < 32. c = lower_char (b32_char n)}"
  proof -
    have "\<exists>n<32. lower_char c = lower_char (b32_char n)" if "c \<in> set (b32_encode ?b)" for c
      using b32_encode_text [OF that] b32_char_val by (metis option.exhaust)
    then show ?thesis by (auto simp: e to_lower_def)
  qed
  ultimately show ?thesis
    using onion_id.dec_enc [OF assms, of sha3] onion_id.enc_inject [OF assms, of _ sha3] by blast
qed

theorem onion_id_roundtrip_witness:
  "PublicKeyFromV3OnionServiceID sha512 (OnionServiceIDFromV3PublicKey sha512 (replicate 32 9)) = Inr (replicate 32 9)"
  by (rule onion_id_roundtrip [THEN conjunct1]) simp

text \<open>C28: an identifier that is accepted is, in lower case and without line breaks, the identifier of the key that is
  returned, followed by no, one, three or six characters of base32 that the decoder drops.\<close>
theorem onion_id_sound:
  assumes "PublicKeyFromV3OnionServiceID sha3 sid = Inr key"
  shows "length key = 32 \<and> (\<exists>t. to_lower (filter (\<lambda>c. c \<noteq> CHR 10 \<and> c \<noteq> CHR 13) (to_upper sid)) =
    OnionServiceIDFromV3PublicKey sha3 key @ t \<and> length t \<in> {0, 1, 3, 6})"
  by (rule onion_id_accepted [OF assms])

theorem onion_id_sound_witness:
  "\<exists>t. to_lower (filter (\<lambda>c. c \<noteq> CHR 10 \<and> c \<noteq> CHR 13) (to_upper (OnionServiceIDFromV3PublicKey sha512 (replicate 32 9)))) =
    OnionServiceIDFromV3PublicKey sha512 (replicate 32 9) @ t \<and> length t \<in> {0, 1, 3, 6}"
  by (rule onion_id_sound [THEN conjunct2]) (rule onion_id_decode, simp)

text \<open>So an identifier with one character too many is accepted.\<close>

lemma b32_decode_append:
  "5 dvd length bs \<Longrightarrow> \<exists>p. b32_decode_loop pos [] (b32_encode bs @ cs) =
     (case b32_decode_loop p [] cs of Inl e \<Rightarrow> Inl e | Inr bs' \<Rightarrow> Inr (bs @ bs'))"
proof (induction bs arbitrary: pos rule: length_induct)
  case (1 bs)
  show ?case
  proof (cases "bs = []")
    case True
    then show ?thesis by (intro exI [of _ pos]) (simp add: b32_encode.simps [of "[]"] split: sum.split)
  next
    case False
    with 1(2) have l: "5 \<le> length bs" by (meson dvd_imp_le length_greater_0_conv)
    let ?b = "take 5 bs" and ?c = "drop 5 bs"
    have "5 dvd length ?c" "length ?c < length bs" using 1(2) l False by (simp_all add: dvd_diff_nat)
    then obtain p where p: "b32_decode_loop (pos + 8) [] (b32_encode ?c @ cs) =
        (case b32_decode_loop p [] cs of Inl e \<Rightarrow> Inl e | Inr bs' \<Rightarrow> Inr (?c @ bs'))" using 1(1) by blast
    have "b32_encode bs = map b32_char (b32_values ?b) @ b32_encode ?c" using b32_encode_group [of ?b ?c] l by simp
    then have "b32_decode_loop pos [] (b32_encode bs @ cs) =
        (case b32_decode_loop p [] cs of Inl e \<Rightarrow> Inl e | Inr bs' \<Rightarrow> Inr (bs @ bs'))"
      using b32_decode_group [OF b32_values_less [of ?b], of pos "b32_encode ?c @ cs"] p b32_bytes_values [of ?b] l
      by (simp split: sum.split)
    then show ?thesis by blast
  qed
qed

lemma lower_A: "lower_char (CHR ''A'') = CHR ''a''"
  by code_simp

lemma onion_id_one_more:
  assumes "length key = 32"
  shows "PublicKeyFromV3OnionServiceID sha3 (OnionServiceIDFromV3PublicKey sha3 key @ ''a'') = Inr key"
proof -
  define bs where "bs = key @ [onion_checksum sha3 key ! 0, onion_checksum sha3 key ! 1, 3]"
  have i: "OnionServiceIDFromV3PublicKey sha3 key @ ''a'' = to_lower (b32_encode bs @ ''A'')"
    unfolding OnionServiceIDFromV3PublicKey_def Let_def onion_id_bytes [OF assms] bs_def [symmetric]
    using lower_A by (simp add: to_lower_def)
  have v: "\<forall>c\<in>set (b32_encode bs @ ''A''). b32_val c \<noteq> None"
  proof -
    have "b32_val (CHR ''A'') \<noteq> None" by code_simp
    then show ?thesis using b32_encode_text by auto
  qed
  have "b32_val (CHR 10) = None" "b32_val (CHR 13) = None" by code_simp+
  then have "\<forall>c\<in>set (b32_encode bs @ ''A''). c \<noteq> CHR 10 \<and> c \<noteq> CHR 13" using v by metis
  then have f: "filter (\<lambda>c. c \<noteq> CHR 10 \<and> c \<noteq> CHR 13) (b32_encode bs @ ''A'') = b32_encode bs @ ''A''" by (rule filter_True)
  have a: "b32_val (CHR ''A'') = Some 0" by code_simp
  have "5 dvd length bs" using assms by (simp add: bs_def)
  then obtain p where "b32_decode_loop 0 [] (b32_encode bs @ ''A'') =
      (case b32_decode_loop p [] ''A'' of Inl e \<Rightarrow> Inl e | Inr bs' \<Rightarrow> Inr (bs @ bs'))"
    using b32_decode_append [of bs 0 "''A''"] by blast
  then have "b32_decode_loop 0 [] (b32_encode bs @ ''A'') = Inr bs" by (simp add: a b32_bytes_def)
  then have "b32_decode (to_upper (to_lower (b32_encode bs @ ''A''))) = Inr bs"
    unfolding to_upper_to_lower [OF v] b32_decode_def f .
  then show ?thesis unfolding i PublicKeyFromV3OnionServiceID_def using assms by (simp add: bs_def nth_append)
qed

section \<open>Keys\<close>

text \<open>What is read back of a key: an ed25519 key comes with the public key computed anew.\<close>

fun key_read_back :: "Key \<Rightarrow> Key" where
  "key_read_back (GenKey g) = GenKey g"
| "key_read_back (RSAKey r) = RSAKey r"
| "key_read_back (ED25519Key e) = ED25519Key (priv_KeyPair (kp_PrivateKey e))"

definition key_text :: "pkcs1_writer \<Rightarrow> Key \<Rightarrow> string" where
  "key_text marshal k = key_Type k @ '':'' @ key_Blob marshal k"

definition rsa_ok :: "pkcs1_parser \<Rightarrow> pkcs1_writer \<Rightarrow> Key \<Rightarrow> bool" where
  "rsa_ok parse marshal k \<longleftrightarrow> (\<forall>r. k = RSAKey r \<longrightarrow> parse (marshal r) = Inr r)"

lemma KeyFromString_text:
  assumes "rsa_ok parse marshal k"
  shows "KeyFromString parse (key_text marshal k) = Inr (key_read_back k)"
proof -
  have c: "CHR '':'' \<notin> set (key_Type k)"
    by (cases k) (simp_all add: KeyTypeNew_def KeyTypeRSA1024_def KeyTypeED25519V3_def)
  have p: "PartitionString (key_text marshal k) (CHR '':'') = (key_Type k, key_Blob marshal k, True)"
    unfolding key_text_def using PartitionString_append [OF c, of "key_Blob marshal k"] by simp
  have d: "b64_decode (b64_encode bs) = Inr bs" for bs by (rule base64.dec_enc) simp
  have t: "KeyTypeRSA1024 \<noteq> KeyTypeNew" "KeyTypeED25519V3 \<noteq> KeyTypeNew" "KeyTypeED25519V3 \<noteq> KeyTypeRSA1024"
    by (simp_all add: KeyTypeNew_def KeyTypeRSA1024_def KeyTypeED25519V3_def)
  have "KeyFromString parse (key_text marshal k) =
      (if key_Type k = KeyTypeNew then Inr (GenKeyFromBlob (key_Blob marshal k))
       else if key_Type k = KeyTypeRSA1024 then RSA1024KeyFromBlob parse (key_Blob marshal k)
       else if key_Type k = KeyTypeED25519V3 then ED25519KeyFromBlob (key_Blob marshal k)
       else Inl (Errorf (''Unrecognized key type: '' @ key_Type k) []))"
    unfolding KeyFromString_def p Let_def by (simp only: prod.case)
  then show ?thesis
    using assms by (cases k) (simp_all add: t GenKeyFromBlob_def RSA1024KeyFromBlob_def ED25519KeyFromBlob_def rsa_ok_def d)
qed

interpretation key_text: codec "key_text marshal" "KeyFromString parse" "\<lambda>k. rsa_ok parse marshal k \<and> key_read_back k = k"
  for marshal parse
  by unfold_locales (simp add: KeyFromString_text)

text \<open>A blob of any length makes an ed25519 key, on which signing panics if it is too short.\<close>

lemma short_ed25519_key:
  "KeyFromString parse ''ED25519-V3:'' = Inr (ED25519Key (priv_KeyPair [])) \<and>
   Sign (priv_KeyPair []) m = Inl ''slice bounds out of range''"
  using KeyFromString_text [of parse "\<lambda>_. []" "ED25519Key (PrivateKey [])"]
  by (simp add: rsa_ok_def key_text_def KeyTypeED25519V3_def Sign_def priv_KeyPair_def)

interpretation del_onion: line_command DelOnion "\<lambda>i. ''DEL_ONION '' @ i" "\<lambda>_. True"
  by (rule line_commandI [OF DelOnion_def]) simp

text \<open>Tor's answer to \<open>ADD_ONION\<close>.\<close>

definition onion_reply :: "pkcs1_writer \<Rightarrow> string \<Rightarrow> Key option \<Rightarrow> reply" where
  "onion_reply marshal sid k =
     \<lparr>code = 250, parts = Mid (''ServiceID='' @ sid) #
        (case k of None \<Rightarrow> [] | Some k \<Rightarrow> [Mid (''PrivateKey='' @ key_text marshal k)]), final = ''OK''\<rparr>"

lemma onion_line_id: "onion_line parse (''ServiceID='' @ sid) ret = Inr (ret\<lparr>ServiceID := sid\<rparr>)"
proof -
  have "PartitionString (''ServiceID='' @ sid) (CHR ''='') = (''ServiceID'', sid, True)"
    using PartitionString_append [of "CHR ''=''" "''ServiceID''" sid] by simp
  then show ?thesis unfolding onion_line_def by simp
qed

lemma onion_line_key:
  assumes "rsa_ok parse marshal k"
  shows "onion_line parse (''PrivateKey='' @ key_text marshal k) ret = Inr (ret\<lparr>resp_Key := Some (key_read_back k)\<rparr>)"
proof -
  have "PartitionString (''PrivateKey='' @ key_text marshal k) (CHR ''='') = (''PrivateKey'', key_text marshal k, True)"
    using PartitionString_append [of "CHR ''=''" "''PrivateKey''" "key_text marshal k"] by simp
  then show ?thesis unfolding onion_line_def by (simp add: KeyFromString_text [OF assms])
qed

lemma AddOnion_dialogue:
  assumes "dialogue c evs (onion_reply marshal sid k) rest" "req_Key req = Some key"
    "no_percent (add_onion_text marshal key req)" "\<forall>k'. k = Some k' \<longrightarrow> rsa_ok parse marshal k'"
  shows "AddOnion parse marshal req c =
      (Inr \<lparr>ServiceID = sid, resp_Key = map_option key_read_back k, RawResponse = view_reply (onion_reply marshal sid k)\<rparr>,
       after_dialogue evs (onion_reply marshal sid k) rest (after_write (add_onion_text marshal key req) c))"
proof -
  let ?r = "onion_reply marshal sid k"
  have "request (add_onion_text marshal key req) [] c =
      (Inr (view_reply ?r), after_dialogue evs ?r rest (after_write (add_onion_text marshal key req) c))"
    using request_dialogue [OF assms(1), of "add_onion_text marshal key req" "[]"] assms(3)
    by (simp add: sprintf0_id answer_error_def onion_reply_def)
  moreover have "Data (view_reply ?r) =
      (''ServiceID='' @ sid) # (case k of None \<Rightarrow> [] | Some k \<Rightarrow> [''PrivateKey='' @ key_text marshal k])"
    by (simp add: view_reply_def onion_reply_def split: option.split)
  then have "onion_lines parse (Data (view_reply ?r)) \<lparr>ServiceID = [], resp_Key = None, RawResponse = view_reply ?r\<rparr> =
      Inr \<lparr>ServiceID = sid, resp_Key = map_option key_read_back k, RawResponse = view_reply ?r\<rparr>"
    using assms(4)
    by (cases k) (simp_all only: onion_lines.simps onion_line_id onion_line_key option.case sum.case option.map option.inject simp_thms
        AddOnionResponse.simps)
  ultimately show ?thesis using assms(2) by (simp add: AddOnion_def)
qed

text \<open>C24: AddOnion writes one line, in which Tor reads exactly the request, by the control protocol's grammar: the key or the kind
  of key to make, all flags, the limit of streams if there is one, every port with its target if it has one, and the key of
  every client. It returns the identifier and the key, if there is one, of Tor's answer, whatever events come before it.
  Without a key it writes nothing and returns an error.\<close>
theorem add_onion_exchange:
  assumes "dialogue c evs (onion_reply marshal sid k) rest" "req_Key req = Some key"
    "request_plain key req" "\<forall>k'. k = Some k' \<longrightarrow> rsa_ok parse marshal k'"
  shows "\<exists>line c'. AddOnion parse marshal req c =
      (Inr \<lparr>ServiceID = sid, resp_Key = map_option key_read_back k, RawResponse = view_reply (onion_reply marshal sid k)\<rparr>, c')
    \<and> c_out c' = c_out c @ line @ CRLF \<and> CHR 13 \<notin> set line \<and> CHR 10 \<notin> set line \<and> c_in c' = rest
    \<and> read_add_onion line = Some \<lparr>ask_Key = asked_key marshal key, ask_Flags = req_Flags req, ask_MaxStreams = max 0 (req_MaxStreams req),
        ask_Ports = map (\<lambda>p. (key_val.Key p, Val p)) (req_Ports req), ask_ClientAuths = req_ClientAuths req\<rparr>
    \<and> AddOnion parse marshal (req\<lparr>req_Key := None\<rparr>) c = (Inl (ProtocolError ''Key required''), c)"
  using AddOnion_dialogue [OF assms(1,2) add_onion_text_plain(1) [OF assms(3)] assms(4)] read_add_onion_text [OF assms(3)]
    add_onion_text_plain(2,3) [OF assms(3)]
  by (intro exI [of _ "add_onion_text marshal key req"]) (simp add: AddOnion_def conn_frame)

definition example_request :: AddOnionRequest where
  "example_request = \<lparr>req_Key = Some (GenKey KeyAlgoED25519V3), req_Flags = [''Detach'', ''V3Auth''], req_MaxStreams = 3,
     req_Ports = [NewKeyVal ''80'' ''127.0.0.1:8080'', NewKeyVal ''443'' []], req_ClientAuths = [''AAAA'', ''BBBB'']\<rparr>"

text \<open>The line it sends.\<close>

lemma example_request_line:
  "add_onion_text (\<lambda>_. []) (GenKey KeyAlgoED25519V3) example_request =
     ''ADD_ONION NEW:ED25519-V3 Flags=Detach,V3Auth MaxStreams=3 Port=80,127.0.0.1:8080 Port=443 ClientAuthV3=AAAA ClientAuthV3=BBBB''"
  by code_simp

lemma example_key_text: "key_text (\<lambda>_. []) (ED25519Key (PrivateKey [1, 2, 3])) = ''ED25519-V3:AQID''"
  by code_simp

theorem add_onion_exchange_witness:
  "let c = example_conn (render_reply (onion_reply (\<lambda>_. []) ''abc'' (Some (ED25519Key (PrivateKey [1, 2, 3])))) @ []) []
   in \<exists>line c' resp. AddOnion (\<lambda>_. Inl EOF) (\<lambda>_. []) example_request c = (Inr resp, c') \<and> resp_Key resp = Some (ED25519Key (priv_KeyPair [1, 2, 3]))
     \<and> c_out c' = line @ CRLF
     \<and> read_add_onion line = Some \<lparr>ask_Key = (''NEW'', ''ED25519-V3''), ask_Flags = [''Detach'', ''V3Auth''], ask_MaxStreams = 3,
         ask_Ports = [(''80'', ''127.0.0.1:8080''), (''443'', [])], ask_ClientAuths = [''AAAA'', ''BBBB'']\<rparr>"
proof -
  define k where "k = Some (ED25519Key (PrivateKey [1, 2, 3]))"
  define c where "c = example_conn (render_reply (onion_reply (\<lambda>_. []) ''abc'' k) @ []) []"
  have d: "dialogue c [] (onion_reply (\<lambda>_. []) ''abc'' k) []"
    by (simp add: c_def k_def dialogue_def onion_reply_def is_answer_def reply_ok_def plain_line_def example_key_text)
  have q: "req_Key example_request = Some (GenKey KeyAlgoED25519V3)" by (simp add: example_request_def)
  have p: "request_plain (GenKey KeyAlgoED25519V3) example_request"
    by (simp add: request_plain_def example_request_def plain_word_def KeyAlgoED25519V3_def NewKeyVal_def)
  obtain line c' where *: "AddOnion (\<lambda>_. Inl EOF) (\<lambda>_. []) example_request c =
      (Inr \<lparr>ServiceID = ''abc'', resp_Key = map_option key_read_back k, RawResponse = view_reply (onion_reply (\<lambda>_. []) ''abc'' k)\<rparr>, c')"
    "c_out c' = c_out c @ line @ CRLF"
    "read_add_onion line = Some \<lparr>ask_Key = asked_key (\<lambda>_. []) (GenKey KeyAlgoED25519V3), ask_Flags = req_Flags example_request,
        ask_MaxStreams = max 0 (req_MaxStreams example_request),
        ask_Ports = map (\<lambda>p. (key_val.Key p, Val p)) (req_Ports example_request), ask_ClientAuths = req_ClientAuths example_request\<rparr>"
    using add_onion_exchange [OF d q p, of "\<lambda>_. Inl EOF"] by (auto simp: k_def rsa_ok_def)
  have "c_out c = []" by (simp add: c_def)
  then show ?thesis
    unfolding k_def [symmetric] c_def [symmetric] Let_def
    using * by (auto simp: k_def example_request_def KeyAlgoED25519V3_def NewKeyVal_def)
qed

end
