(* ===== verification/Start_Props.thy ===== *)
theory Start_Props
  imports Tor Auth_Props
begin

text \<open>
  What starting Tor leaves: an invariant of the state that every step of \<open>Start\<close> keeps, the port
  that is polled for, and what happens to the process and the directory when a step fails.
\<close>

section \<open>The steps of Start\<close>

text \<open>
  While Tor is being started, \<open>t_log\<close> says which process was started, a process is there only
  with a cancel function, and nothing was closed or removed. A step changes neither where the
  data is nor whether it is deleted, and it only adds to \<open>t_log\<close>.
\<close>

definition no_close :: "effect list \<Rightarrow> bool" where
  "no_close l \<longleftrightarrow> (\<forall>e\<in>set l. case e of ClosedControl _ \<Rightarrow> False | Cancelled \<Rightarrow> False | Waited _ \<Rightarrow> False
     | RemovedAll _ \<Rightarrow> False | _ \<Rightarrow> True)"

definition starting :: "tor \<Rightarrow> bool" where
  "starting t \<longleftrightarrow> (\<forall>p. Started p \<in> set (t_log t) \<longleftrightarrow> t_Process t = Some p)
     \<and> (t_Process t \<noteq> None \<longrightarrow> t_ProcessCancelFunc t) \<and> no_close (t_log t) \<and> t_StopProcessOnClose t"

definition same_place :: "tor \<Rightarrow> tor \<Rightarrow> bool" where
  "same_place t t' \<longleftrightarrow> t_DataDir t' = t_DataDir t \<and> t_DeleteDataDirOnClose t' = t_DeleteDataDirOnClose t
     \<and> prefix (t_log t) (t_log t')"

lemma same_place_trans [trans]: "same_place a b \<Longrightarrow> same_place b c \<Longrightarrow> same_place a c"
  by (auto simp: same_place_def intro: prefix_order.trans)

text \<open>A step that starts no process keeps all this; \<open>quiet\<close> says what it may change.\<close>

definition quiet :: "tor \<Rightarrow> tor \<Rightarrow> bool" where
  "quiet t t' \<longleftrightarrow> same_place t t' \<and> t_Process t' = t_Process t
     \<and> (t_ProcessCancelFunc t \<longrightarrow> t_ProcessCancelFunc t') \<and> t_StopProcessOnClose t' = t_StopProcessOnClose t
     \<and> (\<exists>l. t_log t' = t_log t @ l \<and> no_close l \<and> (\<forall>p. Started p \<notin> set l))"

lemma quiet_refl [simp]: "quiet t t"
  by (simp add: quiet_def same_place_def no_close_def)

lemma quiet_trans [trans]: "quiet a b \<Longrightarrow> quiet b c \<Longrightarrow> quiet a c"
  unfolding quiet_def same_place_def no_close_def by fastforce

lemma quiet_starting: "quiet t t' \<Longrightarrow> starting t \<Longrightarrow> starting t'"
  unfolding quiet_def starting_def no_close_def by fastforce

lemma quiet_Debugf: "quiet t (Debugf line errs t)"
  by (simp add: Debugf_def quiet_def same_place_def no_close_def split: option.split)

lemma quiet_set_control: "quiet t (set_control c t)"
  by (simp add: set_control_def Let_def quiet_def same_place_def no_close_def)

lemma quiet_effect:
  "no_close [e] \<Longrightarrow> \<forall>p. e \<noteq> Started p \<Longrightarrow> quiet t (effect e t)"
  by (auto simp: effect_def quiet_def same_place_def)

lemma quiet_port: "quiet t (t\<lparr>t_ControlPort := p\<rparr>)"
  by (simp add: quiet_def same_place_def no_close_def)

lemma quiet_cancel: "quiet t (t\<lparr>t_ProcessCancelFunc := True\<rparr>)"
  by (simp add: quiet_def same_place_def no_close_def)

lemma quiet_copyGeoIPFile:
  assumes "\<And>t. quiet t (put_name name t)"
  shows "copyGeoIPFile sys name put_name r t = (err, t') \<Longrightarrow> quiet t t'"
  using quiet_trans [OF assms quiet_effect]
  by (auto simp: copyGeoIPFile_def Let_def no_close_def split: sum.splits option.splits)

lemma quiet_copyGeoIPFiles: "copyGeoIPFiles sys conf t = (err, t') \<Longrightarrow> quiet t t'"
proof -
  have a: "quiet t (t\<lparr>t_GeoIPCreatedFile := n\<rparr>)" "quiet t (t\<lparr>t_GeoIPv6CreatedFile := n\<rparr>)" for t n
    by (simp_all add: quiet_def same_place_def no_close_def)
  assume "copyGeoIPFiles sys conf t = (err, t')"
  then show "quiet t t'"
    by (auto simp: copyGeoIPFiles_def split: option.splits prod.splits
        dest!: quiet_copyGeoIPFile [rotated] intro: a quiet_trans)
qed

lemma quiet_closed_temp_file: "closed_temp_file sys pattern t = (r, t') \<Longrightarrow> quiet t t'"
  by (auto simp: closed_temp_file_def no_close_def intro!: quiet_effect split: sum.splits)

lemma quiet_control_port_check: "control_port_check sys f i err t = (err', t') \<Longrightarrow> quiet t t'"
proof (induction sys f i err t rule: control_port_check.induct)
  case (1 sys f i err t)
  have q: "quiet t (effect Slept (t\<lparr>t_ControlPort := p\<rparr>))" for p
    by (rule quiet_trans [OF quiet_port quiet_effect]) (simp_all add: no_close_def)
  note eq = control_port_check.simps [of sys f i err t]
  show ?case
  proof (cases "i < 10 \<and> sys_CtxErr sys i = None \<and> (\<exists>b. sys_ReadPort sys i f = Inr b)")
    case True
    then obtain b where b: "i < 10" "sys_CtxErr sys i = None" "sys_ReadPort sys i f = Inr b" by blast
    obtain port e where e: "ControlPortFromFileContents b = (port, e)" by (metis prod.exhaust)
    show ?thesis
    proof (cases e)
      case None
      then show ?thesis using 1(2) eq b e quiet_port by auto
    next
      case (Some x)
      then have "control_port_check sys f (i + 1) e (effect Slept (t\<lparr>t_ControlPort := port\<rparr>)) = (err', t')"
        using 1(2) eq b e by simp
      then have "quiet (effect Slept (t\<lparr>t_ControlPort := port\<rparr>)) t'" using 1(1) [OF b(1-3) e [symmetric]] e Some by simp
      then show ?thesis by (rule quiet_trans [OF q])
    qed
  qed (use 1(2) eq in \<open>auto split: if_splits option.splits sum.splits\<close>)
qed

lemma quiet_embedded_conn: "embedded_conn sys conf p t = (err, t') \<Longrightarrow> quiet t t'"
  by (auto simp: embedded_conn_def Let_def split: if_splits sum.splits
      intro: quiet_trans [OF quiet_Debugf quiet_set_control] quiet_Debugf)

lemma quiet_await_control_port: "await_control_port sys conf f t = (err, t') \<Longrightarrow> quiet t t'"
  by (auto simp: await_control_port_def Let_def split: if_splits option.splits prod.splits
      dest!: quiet_control_port_check intro: quiet_trans [OF quiet_port] quiet_port)

lemma quiet_connectController: "connectController sys t = (err, t') \<Longrightarrow> quiet t t'"
  by (auto simp: connectController_def Let_def no_close_def split: if_splits sum.splits
      intro: quiet_Debugf intro!: quiet_trans [OF quiet_Debugf quiet_trans [OF quiet_set_control quiet_effect]])

lemma quiet_eager_auth: "eager_auth sys conf t = Returned (err, t') \<Longrightarrow> quiet t t'"
  by (auto simp: eager_auth_def quiet_def same_place_def no_close_def split: if_splits option.splits prod.splits)

lemma starting_start_with:
  assumes "start_with sys conf creator args f t = (err, t')" "starting t" "t_Process t = None"
  shows "starting t' \<and> same_place t t' \<and> (err = None \<longrightarrow> t_Process t' \<noteq> None)"
proof -
  let ?t1 = "t\<lparr>t_ProcessCancelFunc := True\<rparr>"
  obtain p e1 where n: "creator_New creator args = (p, e1)" by (metis prod.exhaust)
  obtain e2 t2 where c: "embedded_conn sys conf p ?t1 = (e2, t2)" by (metis prod.exhaust)
  let ?t3 = "Debugf (''Starting tor with args '' @ show_strings args) [] t2"
  let ?t4 = "effect (Started p) (?t3\<lparr>t_Process := Some p\<rparr>)"
  have q2: "quiet ?t1 t2" by (rule quiet_embedded_conn [OF c])
  then have q3: "quiet ?t1 ?t3" by (rule quiet_trans [OF _ quiet_Debugf])
  note st = quiet_starting [OF quiet_trans [OF quiet_cancel]] and place = quiet_trans [OF quiet_cancel]
  have s: "starting ?t1" "starting t2" "starting ?t3"
    using quiet_starting [OF quiet_cancel assms(2)] st [OF q2 assms(2)] st [OF q3 assms(2)] by auto
  have p: "same_place t ?t1" "same_place t t2" "same_place t ?t3"
    using quiet_cancel place [OF q2] place [OF q3] by (auto simp: quiet_def)
  have none: "t_Process ?t3 = None" "t_ProcessCancelFunc ?t3" using q3 assms(3) by (auto simp: quiet_def)
  have s4: "starting ?t4" "same_place t ?t4"
    using s(3) p(3) none by (auto simp: starting_def effect_def no_close_def same_place_def)
  have "starting t' \<and> same_place t t' \<and> t_Process t' \<noteq> None"
    if "await_control_port sys conf f ?t4 = (err, t')"
    using quiet_starting [OF quiet_await_control_port [OF that] s4(1)] quiet_await_control_port [OF that] s4(2)
    by (auto simp: quiet_def effect_def intro: same_place_trans)
  then show ?thesis
    using assms(1) s p by (auto simp: start_with_def n c Let_def split: option.splits)
qed

lemma starting_startProcess:
  assumes "startProcess sys conf t = (err, t')" "starting t" "t_Process t = None"
  shows "starting t' \<and> same_place t t' \<and> (err = None \<longrightarrow> t_Process t' \<noteq> None)"
proof -
  obtain r1 t1 where 1: "torrc_file sys conf t = (r1, t1)" by (metis prod.exhaust)
  obtain r2 t2 where 2: "control_args sys conf t1 = (r2, t2)" by (metis prod.exhaust)
  have q1: "quiet t t1" using 1 by (auto simp: torrc_file_def dest: quiet_closed_temp_file split: if_splits)
  have q2: "quiet t1 t2"
    using 2 by (auto simp: control_args_def dest: quiet_closed_temp_file split: if_splits prod.splits sum.splits)
  note q = q1 quiet_trans [OF q1 q2]
  have s: "starting t1" "starting t2" "same_place t t1" "same_place t t2" "t_Process t2 = None"
    using quiet_starting [OF q(1) assms(2)] quiet_starting [OF q(2) assms(2)] q assms(3) by (auto simp: quiet_def)
  show ?thesis
    using assms(1) s starting_start_with [OF _ s(2,5)] same_place_trans [OF s(4)]
    by (auto simp: startProcess_def 1 2 Let_def split: sum.splits prod.splits)
qed

section \<open>All of Start\<close>

text \<open>The steps before the outcome is looked at.\<close>

definition start_steps :: "system \<Rightarrow> StartConf \<Rightarrow> tor \<Rightarrow> (error option \<times> tor) run" where
  "start_steps sys conf t =
     (case if_no_error (connectController sys) (if_no_error (startProcess sys conf) (copyGeoIPFiles sys conf t)) of
        (None, t) \<Rightarrow> eager_auth sys conf t
      | (Some err, t) \<Rightarrow> Returned (Some err, t))"

text \<open>A controller that is connected is there to authenticate on, so nothing panics.\<close>

lemma connectController_control:
  assumes "connectController sys u = (None, u')"
  shows "t_Control u' \<noteq> None"
proof -
  have "t_Control (effect x (set_control tc v)) \<noteq> None" for x tc v
    by (simp add: effect_def set_control_def Let_def)
  then show ?thesis using assms by (auto simp: connectController_def Let_def split: if_splits sum.splits)
qed

lemma start_steps_return: "\<exists>err t'. start_steps sys conf t = Returned (err, t')"
proof -
  obtain e2 t2 where 2: "if_no_error (startProcess sys conf) (copyGeoIPFiles sys conf t) = (e2, t2)" by (metis prod.exhaust)
  obtain e3 t3 where 3: "if_no_error (connectController sys) (e2, t2) = (e3, t3)" by (metis prod.exhaust)
  have "e3 = None \<Longrightarrow> t_Control t3 \<noteq> None" using 3 connectController_control by (auto simp: if_no_error_def split: if_splits)
  then show ?thesis by (cases e3) (auto simp: start_steps_def 2 3 eager_auth_def split: option.split prod.split)
qed

lemma unauthenticated_set_control: "t_Control (set_control c t) = Some d \<Longrightarrow> \<not> Authenticated d"
  by (auto simp: set_control_def NewConn_def)

text \<open>No step before the last authenticates, and the last does it exactly when it gives no error.\<close>

definition unauthenticated :: "tor \<Rightarrow> bool" where
  "unauthenticated t \<longleftrightarrow> (case t_Control t of None \<Rightarrow> True | Some c \<Rightarrow> \<not> Authenticated c)"

lemma unauthenticated_simps [simp]:
  "unauthenticated (Debugf line errs t) = unauthenticated t" "unauthenticated (effect e t) = unauthenticated t"
  "unauthenticated (set_control c t)"
  "unauthenticated (t\<lparr>t_ControlPort := p\<rparr>) = unauthenticated t"
  "unauthenticated (t\<lparr>t_Process := q\<rparr>) = unauthenticated t"
  "unauthenticated (t\<lparr>t_ProcessCancelFunc := b\<rparr>) = unauthenticated t"
  "unauthenticated (t\<lparr>t_GeoIPCreatedFile := n\<rparr>) = unauthenticated t"
  "unauthenticated (t\<lparr>t_GeoIPv6CreatedFile := n\<rparr>) = unauthenticated t"
  by (auto simp: unauthenticated_def Debugf_def effect_def dest: unauthenticated_set_control split: option.split)

definition sleeps :: "tor \<Rightarrow> nat" where
  "sleeps t = length (filter ((=) Slept) (t_log t))"

lemma sleeps_simps [simp]:
  "sleeps (Debugf line errs t) = sleeps t" "sleeps (effect e t) = sleeps t + (if e = Slept then 1 else 0)"
  "sleeps (set_control c t) = sleeps t" "sleeps (t\<lparr>t_Control := oc\<rparr>) = sleeps t"
  "sleeps (t\<lparr>t_ControlPort := p\<rparr>) = sleeps t"
  "sleeps (t\<lparr>t_Process := q\<rparr>) = sleeps t"
  "sleeps (t\<lparr>t_ProcessCancelFunc := b\<rparr>) = sleeps t"
  "sleeps (t\<lparr>t_GeoIPCreatedFile := n\<rparr>) = sleeps t"
  "sleeps (t\<lparr>t_GeoIPv6CreatedFile := n\<rparr>) = sleeps t"
  by (auto simp: sleeps_def Debugf_def effect_def set_control_def Let_def split: option.split)

text \<open>A step that does not authenticate and sleeps at most \<open>n\<close> times.\<close>

definition calm :: "nat \<Rightarrow> tor \<Rightarrow> tor \<Rightarrow> bool" where
  "calm n t t' \<longleftrightarrow> (unauthenticated t \<longrightarrow> unauthenticated t') \<and> sleeps t' \<le> sleeps t + n"

lemma calm_trans: "calm m a b \<Longrightarrow> calm n b c \<Longrightarrow> calm (m + n) a c"
  by (simp add: calm_def)

lemma calm_copyGeoIPFiles: "copyGeoIPFiles sys conf t = (err, t') \<Longrightarrow> calm 0 t t'"
  by (auto simp: copyGeoIPFiles_def copyGeoIPFile_def calm_def Let_def split: option.splits sum.splits prod.splits)

lemma calm_closed_temp_file: "closed_temp_file sys pattern t = (r, t') \<Longrightarrow> calm 0 t t'"
  by (auto simp: closed_temp_file_def calm_def split: sum.splits)

lemma calm_control_port_check: "control_port_check sys f i err t = (err', t') \<Longrightarrow> calm (10 - i) t t'"
proof (induction sys f i err t rule: control_port_check.induct)
  case (1 sys f i err t)
  note eq = control_port_check.simps [of sys f i err t]
  show ?case
  proof (cases "i < 10 \<and> sys_CtxErr sys i = None \<and> (\<exists>b. sys_ReadPort sys i f = Inr b)")
    case True
    then obtain b where b: "i < 10" "sys_CtxErr sys i = None" "sys_ReadPort sys i f = Inr b" by blast
    obtain port e where e: "ControlPortFromFileContents b = (port, e)" by (metis prod.exhaust)
    show ?thesis
    proof (cases e)
      case None
      then show ?thesis using 1(2) eq b e by (auto simp: calm_def)
    next
      case (Some x)
      then have "control_port_check sys f (i + 1) e (effect Slept (t\<lparr>t_ControlPort := port\<rparr>)) = (err', t')"
        using 1(2) eq b e by simp
      then have "calm (10 - (i + 1)) (effect Slept (t\<lparr>t_ControlPort := port\<rparr>)) t'" using 1(1) [OF b(1-3) e [symmetric]] e Some by simp
      then show ?thesis using b(1) by (auto simp: calm_def)
    qed
  qed (use 1(2) eq in \<open>auto simp: calm_def split: if_splits option.splits sum.splits\<close>)
qed

lemma calm_embedded_conn: "embedded_conn sys conf p t = (err, t') \<Longrightarrow> calm 0 t t'"
  by (auto simp: embedded_conn_def calm_def Let_def split: if_splits sum.splits)

lemma calm_await_control_port: "await_control_port sys conf f t = (err, t') \<Longrightarrow> calm 10 t t'"
  using calm_control_port_check [of sys f 0 None "t\<lparr>t_ControlPort := sc_ControlPort conf\<rparr>"]
  by (auto simp: await_control_port_def calm_def Let_def split: if_splits option.splits prod.splits)

lemma calm_start_with:
  assumes "start_with sys conf creator args f t = (err, t')" shows "calm 10 t t'"
proof -
  let ?t1 = "t\<lparr>t_ProcessCancelFunc := True\<rparr>"
  obtain p e1 where n: "creator_New creator args = (p, e1)" by (metis prod.exhaust)
  obtain e2 t2 where c: "embedded_conn sys conf p ?t1 = (e2, t2)" by (metis prod.exhaust)
  let ?t3 = "Debugf (''Starting tor with args '' @ show_strings args) [] t2"
  let ?t4 = "effect (Started p) (?t3\<lparr>t_Process := Some p\<rparr>)"
  have 1: "calm 0 t ?t1" by (simp add: calm_def)
  have 2: "calm 0 t t2" using calm_trans [OF 1 calm_embedded_conn [OF c]] by simp
  then have 3: "calm 0 t ?t3" "calm 0 t ?t4" by (simp_all add: calm_def)
  have 4: "calm 10 t u" if "calm 0 t u" for u using that by (simp add: calm_def)
  have 5: "await_control_port sys conf f ?t4 = (err, t') \<Longrightarrow> calm 10 t t'"
    using calm_trans [OF 3(2) calm_await_control_port] by simp
  show ?thesis
    using assms 4 [OF 1] 4 [OF 2] 4 [OF 3(1)] 5 by (auto simp: start_with_def n c Let_def split: option.splits)
qed

lemma calm_startProcess:
  assumes "startProcess sys conf t = (err, t')" shows "calm 10 t t'"
proof -
  obtain r1 t1 where 1: "torrc_file sys conf t = (r1, t1)" by (metis prod.exhaust)
  obtain r2 t2 where 2: "control_args sys conf t1 = (r2, t2)" by (metis prod.exhaust)
  have q1: "calm 0 t t1" using 1 by (auto simp: torrc_file_def calm_def dest: calm_closed_temp_file split: if_splits)
  have "calm 0 t1 t2"
    using 2 by (auto simp: control_args_def calm_def dest: calm_closed_temp_file split: if_splits prod.splits sum.splits)
  then have q2: "calm 0 t t2" using calm_trans [OF q1] by simp
  have "start_with sys conf creator args f t2 = (err, t') \<Longrightarrow> calm 10 t t'" for creator args f
    using calm_trans [OF q2 calm_start_with] by simp
  moreover have "calm 10 t t1" "calm 10 t t2" using q1 q2 by (simp_all add: calm_def)
  ultimately show ?thesis
    using assms by (auto simp: startProcess_def 1 2 Let_def split: sum.splits prod.splits)
qed

lemma Authenticate_unauthenticated:
  "Authenticate rf rd pw c = (err, c') \<Longrightarrow> (err = None \<longleftrightarrow> Authenticated c')"
  using Authenticate_marks [of rf rd pw c err c'] by blast

lemma start_steps_ok:
  assumes "start_steps sys conf t = Returned (err, t')" "starting t" "t_Process t = None" "unauthenticated t" "sleeps t = 0"
  shows "starting t'" "same_place t t'" "sleeps t' \<le> 10" "err \<noteq> None \<longrightarrow> unauthenticated t'"
    "err = None \<longrightarrow> t_Process t' \<noteq> None \<and> (\<exists>c. t_Control t' = Some c \<and> (DisableEagerAuth conf \<or> Authenticated c))"
proof -
  obtain e1 t1 where 1: "copyGeoIPFiles sys conf t = (e1, t1)" by (metis prod.exhaust)
  note q1 = quiet_copyGeoIPFiles [OF 1] and c1 = calm_copyGeoIPFiles [OF 1]
  have s1: "starting t1" "same_place t t1" "t_Process t1 = None" "unauthenticated t1" "sleeps t1 = 0"
    using quiet_starting [OF q1] q1 c1 assms by (auto simp: quiet_def calm_def)
  obtain e2 t2 where 2: "if_no_error (startProcess sys conf) (e1, t1) = (e2, t2)" by (metis prod.exhaust)
  have s2: "starting t2 \<and> same_place t t2 \<and> unauthenticated t2 \<and> sleeps t2 \<le> 10 \<and> (e2 = None \<longrightarrow> t_Process t2 \<noteq> None)"
    using 2 s1 starting_startProcess [of sys conf t1 e2 t2] calm_startProcess [of sys conf t1 e2 t2]
    by (auto simp: if_no_error_def calm_def intro: same_place_trans split: if_splits)
  obtain e3 t3 where 3: "if_no_error (connectController sys) (e2, t2) = (e3, t3)" by (metis prod.exhaust)
  have c: "calm 0 u u' \<and> (e = None \<longrightarrow> t_Control u' \<noteq> None)" if "connectController sys u = (e, u')" for u e u'
    using that connectController_control [of sys u u']
    by (auto simp: connectController_def calm_def Let_def split: if_splits sum.splits)
  have s3: "starting t3 \<and> same_place t t3 \<and> unauthenticated t3 \<and> sleeps t3 \<le> 10 \<and>
      (e3 = None \<longrightarrow> t_Process t3 \<noteq> None \<and> t_Control t3 \<noteq> None)"
  proof (cases e2)
    case None
    then have cc: "connectController sys t2 = (e3, t3)" using 3 by (simp add: if_no_error_def)
    note q3 = quiet_connectController [OF cc]
    show ?thesis using s2 None quiet_starting [OF q3] q3 c [OF cc] by (auto simp: quiet_def calm_def intro: same_place_trans)
  next
    case (Some e)
    then show ?thesis using 3 s2 by (auto simp: if_no_error_def)
  qed
  have 4: "(case e3 of None \<Rightarrow> eager_auth sys conf t3 | Some e \<Rightarrow> Returned (Some e, t3)) = Returned (err, t')"
    using assms(1) by (simp add: start_steps_def 1 2 3)
  have "starting t' \<and> same_place t t' \<and> sleeps t' \<le> 10 \<and> (err \<noteq> None \<longrightarrow> unauthenticated t')
    \<and> (err = None \<longrightarrow> t_Process t' \<noteq> None \<and> (\<exists>c. t_Control t' = Some c \<and> (DisableEagerAuth conf \<or> Authenticated c)))"
  proof (cases e3)
    case None
    then have ea: "eager_auth sys conf t3 = Returned (err, t')" using 4 by simp
    note q4 = quiet_eager_auth [OF ea]
    have "sleeps t' = sleeps t3" using ea by (auto simp: eager_auth_def split: if_splits option.splits prod.splits)
    moreover have "(err \<noteq> None \<longrightarrow> unauthenticated t') \<and>
        (err = None \<longrightarrow> (\<exists>c. t_Control t' = Some c \<and> (DisableEagerAuth conf \<or> Authenticated c)))"
      using ea s3 None
      by (auto simp: eager_auth_def unauthenticated_def dest: Authenticate_unauthenticated
          split: if_splits option.splits prod.splits)
    ultimately show ?thesis using s3 None quiet_starting [OF q4] q4 by (auto simp: quiet_def intro: same_place_trans)
  next
    case (Some e)
    then show ?thesis using 4 s3 by auto
  qed
  then show "starting t'" "same_place t t'" "sleeps t' \<le> 10" "err \<noteq> None \<longrightarrow> unauthenticated t'"
    "err = None \<longrightarrow> t_Process t' \<noteq> None \<and> (\<exists>c. t_Control t' = Some c \<and> (DisableEagerAuth conf \<or> Authenticated c))"
    by blast+
qed

text \<open>The directory is made, and nothing else, before anything can fail with a Tor to close.\<close>

lemma make_data_dir_ok:
  assumes "make_data_dir sys conf (new_Tor conf) = Inr t"
  shows "starting t" "t_Process t = None" "unauthenticated t" "sleeps t = 0"
    "t_DeleteDataDirOnClose t \<longleftrightarrow> sc_DataDir conf = [] \<and> \<not> RetainTempDataDir conf"
    "if sc_DataDir conf = [] then t_log t = [MadeTempDir (t_DataDir t)]
     else t_DataDir t = sc_DataDir conf \<and> t_log t = [MadeDir (sc_DataDir conf)]"
  using assms
  by (auto simp: make_data_dir_def new_Tor_def starting_def no_close_def unauthenticated_def sleeps_def effect_def
      Debugf_def Let_def split: if_splits sum.splits option.splits)

section \<open>Closing what was started\<close>

lemma Debugf_frame [simp]:
  "t_log (Debugf line errs t) = t_log t" "t_Process (Debugf line errs t) = t_Process t"
  "t_Control (Debugf line errs t) = t_Control t" "t_DataDir (Debugf line errs t) = t_DataDir t"
  "t_DeleteDataDirOnClose (Debugf line errs t) = t_DeleteDataDirOnClose t"
  "t_StopProcessOnClose (Debugf line errs t) = t_StopProcessOnClose t"
  "t_ProcessCancelFunc (Debugf line errs t) = t_ProcessCancelFunc t"
  by (simp_all add: Debugf_def split: option.split)

text \<open>What closing does to a Tor that never authenticated.\<close>

definition closing_effects :: "tor \<Rightarrow> effect list" where
  "closing_effects t =
     (case t_Control t of None \<Rightarrow> [] | Some c \<Rightarrow> [ClosedControl (snd (Close c))]) @
     (case t_Process t of None \<Rightarrow> [] | Some p \<Rightarrow> [Cancelled, Waited p]) @
     (if t_DeleteDataDirOnClose t then [RemovedAll (t_DataDir t)] else [])"

lemma stop_process_kills:
  assumes "t_StopProcessOnClose t" "t_Process t \<noteq> None \<longrightarrow> t_ProcessCancelFunc t"
  shows "\<exists>es t'. stop_process sys False t = Returned (es, t')
    \<and> t_log t' = t_log t @ (case t_Process t of None \<Rightarrow> [] | Some p \<Rightarrow> [Cancelled, Waited p])
    \<and> t_DataDir t' = t_DataDir t \<and> t_DeleteDataDirOnClose t' = t_DeleteDataDirOnClose t"
proof (cases "t_Process t")
  case None then show ?thesis by (simp add: stop_process_def)
next
  case (Some p)
  then show ?thesis
    using assms by (cases "sys_Wait sys p")
      (auto simp: stop_process_def effect_def Let_def split: option.split)
qed

lemma tor_Close_unauthenticated:
  assumes "unauthenticated t" "starting t"
  shows "\<exists>err t'. tor_Close sys t = Returned (err, t') \<and> t_log t' = t_log t @ closing_effects t
    \<and> t_DataDir t' = t_DataDir t"
proof -
  let ?t = "Debugf ''Closing Tor'' [] t"
  obtain es sent t1 where 1: "close_control ?t = (es, sent, t1)" by (metis prod.exhaust)
  have s1: "\<not> sent" "t_log t1 = t_log t @ (case t_Control t of None \<Rightarrow> [] | Some c \<Rightarrow> [ClosedControl (snd (Close c))])"
    "t_Process t1 = t_Process t" "t_DataDir t1 = t_DataDir t" "t_DeleteDataDirOnClose t1 = t_DeleteDataDirOnClose t"
    "t_StopProcessOnClose t1" "t_ProcessCancelFunc t1 = t_ProcessCancelFunc t"
    using 1 assms by (auto simp: close_control_def unauthenticated_def starting_def effect_def Let_def split: option.splits prod.splits)
  obtain es2 t2 where 2: "stop_process sys sent t1 = Returned (es2, t2)"
    "t_log t2 = t_log t1 @ (case t_Process t of None \<Rightarrow> [] | Some p \<Rightarrow> [Cancelled, Waited p])"
    "t_DataDir t2 = t_DataDir t1" "t_DeleteDataDirOnClose t2 = t_DeleteDataDirOnClose t1"
    using stop_process_kills [of t1 sys] s1 assms(2) by (auto simp: starting_def)
  show ?thesis
    using 1 2 s1
    by (auto simp: tor_Close_def closing_effects_def remove_data_dir_def combine_errors_def effect_def Let_def split: option.splits)
qed

section \<open>The outcomes of Start\<close>

definition given_conf :: "StartConf option \<Rightarrow> StartConf" where
  "given_conf conf = (case conf of None \<Rightarrow> default_StartConf | Some c \<Rightarrow> c)"

lemma Start_eq:
  "Start sys conf =
     (case make_data_dir sys (given_conf conf) (new_Tor (given_conf conf)) of
        Inl err \<Rightarrow> Returned (None, Some err)
      | Inr t \<Rightarrow>
          bind_run (start_steps sys (given_conf conf) t) (\<lambda>(err, t).
            case err of
              None \<Rightarrow> Returned (Some t, None)
            | Some err \<Rightarrow>
                bind_run (tor_Close sys t) (\<lambda>(closeErr, t).
                  Returned (Some t, Some (case closeErr of
                    None \<Rightarrow> err
                  | Some closeErr \<Rightarrow>
                      Errorf ''Error on start:  (also got error trying to close: )'' [err, closeErr])))))"
  by (simp only: Start_def Let_def given_conf_def start_steps_def)

lemma Start_cases:
  obtains (no_dir) err where "Start sys conf = Returned (None, Some err)"
  | (ready) t1 t where "make_data_dir sys (given_conf conf) (new_Tor (given_conf conf)) = Inr t1"
      "start_steps sys (given_conf conf) t1 = Returned (None, t)" "Start sys conf = Returned (Some t, None)"
  | (failed) t1 err t2 err' t where "make_data_dir sys (given_conf conf) (new_Tor (given_conf conf)) = Inr t1"
      "start_steps sys (given_conf conf) t1 = Returned (Some err, t2)" "Start sys conf = Returned (Some t, Some err')"
      "t_log t = t_log t2 @ closing_effects t2" "t_DataDir t = t_DataDir t2"
proof (cases "make_data_dir sys (given_conf conf) (new_Tor (given_conf conf))")
  case (Inl err)
  then show ?thesis using no_dir by (simp add: Start_eq)
next
  case (Inr t1)
  note m = make_data_dir_ok [OF Inr]
  obtain e t2 where st: "start_steps sys (given_conf conf) t1 = Returned (e, t2)" using start_steps_return by metis
  note ok = start_steps_ok [OF st m(1-4)]
  show ?thesis
  proof (cases e)
    case None
    then show ?thesis using ready [OF Inr] st Inr by (simp add: Start_eq)
  next
    case (Some err)
    then obtain ce t where "tor_Close sys t2 = Returned (ce, t)" "t_log t = t_log t2 @ closing_effects t2" "t_DataDir t = t_DataDir t2"
      using tor_Close_unauthenticated [of t2 sys] ok by auto
    then show ?thesis using failed [OF Inr] st Inr Some by (simp add: Start_eq)
  qed
qed

lemma no_sleep_closing: "filter ((=) Slept) (closing_effects t) = []"
  by (simp add: closing_effects_def split: option.split)

text \<open>C21: whatever the system answers, Start dereferences neither a nil controller nor a nil cancel function: the controller is
  set whenever it is authenticated on, and a process that must be killed has its cancel function. It returns no Tor only
  with an error, and the loop that polls for the control port sleeps at most ten times. That Tor answers at all is not
  part of this.\<close>
theorem start_never_panics:
  "\<exists>t err. Start sys conf = Returned (t, err) \<and> (case t of None \<Rightarrow> err \<noteq> None | Some tor \<Rightarrow> sleeps tor \<le> 10)"
proof (cases rule: Start_cases [of sys conf])
  case (ready t1 t)
  then show ?thesis using start_steps_ok(3) [OF ready(2) make_data_dir_ok(1-4) [OF ready(1)]] by simp
next
  case (failed t1 err t2 err' t)
  then show ?thesis
    using start_steps_ok(3) [OF failed(2) make_data_dir_ok(1-4) [OF failed(1)]] by (simp add: sleeps_def no_sleep_closing)
qed simp

definition example_system :: "text_conn result \<Rightarrow> system" where
  "example_system dial = \<lparr>sys_Abs = \<lambda>p. Inr (''/abs/'' @ p), sys_Join = \<lambda>a b. a @ ''/'' @ b,
     sys_TempDir = \<lambda>base pattern. Inr (base @ ''/'' @ pattern @ ''1''), sys_MkdirAll = \<lambda>_. None,
     sys_Create = \<lambda>_. Inr (None, None), sys_TempFile = \<lambda>dir pattern. Inr (dir @ ''/'' @ pattern @ ''1'', None),
     sys_ReadPort = \<lambda>i _. Inr (if i = 0 then [] else control_port_line ''127.0.0.1'' 9151), sys_CtxErr = \<lambda>_. None,
     sys_Embedded = \<lambda>_. Inl EOF, sys_Start = \<lambda>_. None, sys_Dial = \<lambda>_. dial, sys_Wait = \<lambda>_. Some None,
     sys_RemoveAll = \<lambda>_. None, sys_ReadCookie = \<lambda>_. Inl EOF, sys_Rand = Inl EOF\<rparr>"

definition example_conf :: StartConf where
  "example_conf = default_StartConf\<lparr>sc_ControlPort := 9051, DisableEagerAuth := True\<rparr>"

lemma example_start:
  "\<exists>t. Start (example_system (Inr \<lparr>tc_in = [], tc_fault = None, tc_close_err = None, tc_iter = id\<rparr>)) (Some example_conf)
     = Returned (Some t, None)"
  "\<exists>t err. Start (example_system (Inl EOF)) (Some example_conf) = Returned (Some t, Some err)"
  by (simp_all add: Start_def Let_def example_conf_def default_StartConf_def make_data_dir_def new_Tor_def example_system_def
      copyGeoIPFiles_def if_no_error_def startProcess_def torrc_file_def closed_temp_file_def control_args_def start_with_def
      NewCreator_def embedded_conn_def await_control_port_def connectController_def eager_auth_def Debugf_def effect_def
      set_control_def tor_Close_def close_control_def stop_process_def remove_data_dir_def combine_errors_def)

text \<open>C19: a Tor that is returned without an error runs the one process that was started, which closing it can cancel, and has a
  connection, which is authenticated unless that was not asked for; nothing was closed, and the data directory will be
  deleted exactly if it was made here and is not to be retained.\<close>
theorem start_ready:
  assumes "Start sys conf = Returned (Some t, None)"
  shows "\<exists>p c. t_Process t = Some p \<and> (\<forall>q. Started q \<in> set (t_log t) \<longleftrightarrow> q = p) \<and> t_ProcessCancelFunc t
    \<and> t_Control t = Some c \<and> (DisableEagerAuth (given_conf conf) \<or> Authenticated c) \<and> no_close (t_log t)
    \<and> (t_DeleteDataDirOnClose t \<longleftrightarrow> sc_DataDir (given_conf conf) = [] \<and> \<not> RetainTempDataDir (given_conf conf))"
proof (cases rule: Start_cases [of sys conf])
  case (ready t1 t')
  note m = make_data_dir_ok [OF ready(1)] and ok = start_steps_ok [OF ready(2) make_data_dir_ok(1-4) [OF ready(1)]]
  show ?thesis using ready(3) assms m(5) ok(1,2,5) by (fastforce simp: starting_def same_place_def)
qed (use assms in simp_all)

theorem start_ready_witness:
  "\<exists>t p c. Start (example_system (Inr \<lparr>tc_in = [], tc_fault = None, tc_close_err = None, tc_iter = id\<rparr>)) (Some example_conf)
     = Returned (Some t, None) \<and> t_Process t = Some p \<and> t_Control t = Some c"
  using start_ready example_start(1) by blast

text \<open>C16: when starting fails after the data directory was made, the Tor that comes back with the error has been closed: the
  process, if it was started, was cancelled and waited for, and then the directory was removed, if it was made here and
  is not to be retained.\<close>
theorem start_failure_cleans_up:
  assumes "Start sys conf = Returned (Some t, Some err)"
  shows "\<exists>opened stop. t_log t = opened @ stop @
        (if sc_DataDir (given_conf conf) = [] \<and> \<not> RetainTempDataDir (given_conf conf) then [RemovedAll (t_DataDir t)] else [])
    \<and> no_close opened \<and> (\<forall>p. Started p \<in> set opened \<longrightarrow> suffix [Cancelled, Waited p] stop)
    \<and> prefix [if sc_DataDir (given_conf conf) = [] then MadeTempDir (t_DataDir t) else MadeDir (sc_DataDir (given_conf conf))] opened"
proof (cases rule: Start_cases [of sys conf])
  case (failed t1 err1 t2 err2 t')
  note m = make_data_dir_ok [OF failed(1)] and ok = start_steps_ok [OF failed(2) make_data_dir_ok(1-4) [OF failed(1)]]
  have t: "t' = t" using failed(3) assms by simp
  let ?stop = "(case t_Control t2 of None \<Rightarrow> [] | Some c \<Rightarrow> [ClosedControl (snd (Close c))]) @
     (case t_Process t2 of None \<Rightarrow> [] | Some p \<Rightarrow> [Cancelled, Waited p])"
  have "\<forall>p. Started p \<in> set (t_log t2) \<longrightarrow> suffix [Cancelled, Waited p] ?stop"
    using ok(1) by (auto simp: starting_def suffix_Cons split: option.split)
  moreover have "no_close (t_log t2)" using ok(1) by (simp add: starting_def)
  moreover have "t_DeleteDataDirOnClose t2 \<longleftrightarrow> sc_DataDir (given_conf conf) = [] \<and> \<not> RetainTempDataDir (given_conf conf)"
    "t_DataDir t2 = t_DataDir t" "t_DataDir t1 = t_DataDir t" "prefix (t_log t1) (t_log t2)"
    using ok(2) m(5) failed(5) t by (auto simp: same_place_def)
  moreover have "t_log t = t_log t2 @ closing_effects t2" using failed(4) t by simp
  ultimately show ?thesis
    using m(6) by (intro exI [of _ "t_log t2"] exI [of _ ?stop]) (auto simp: closing_effects_def split: if_splits)
qed (use assms in simp_all)

theorem start_failure_cleans_up_witness:
  "\<exists>t err opened stop. Start (example_system (Inl EOF)) (Some example_conf) = Returned (Some t, Some err)
     \<and> t_log t = opened @ stop @ (if sc_DataDir (given_conf (Some example_conf)) = []
          \<and> \<not> RetainTempDataDir (given_conf (Some example_conf)) then [RemovedAll (t_DataDir t)] else [])"
  using start_failure_cleans_up example_start(2) by metis

section \<open>The control port\<close>

lemma last_itoa: "is_digit (last (itoa i))"
  by (simp add: itoa_def nat_digits_last)

lemma is_digit_no_space: "is_digit c \<Longrightarrow> (of_char c :: nat) < 128 \<and> \<not> is_space (of_char c)"
  by (simp add: is_digit_def is_space_def)

lemma ControlPortFromFileContents_line:
  assumes "CHR '':'' \<notin> set addr" "- (2 ^ 63) \<le> port" "port < 2 ^ 63"
  shows "ControlPortFromFileContents (control_port_line addr port) = (port, None)"
proof -
  define s where "s = ''PORT='' @ addr @ '':'' @ itoa port"
  have line: "control_port_line addr port = s @ [CHR 10]" by (simp add: control_port_line_def s_def)
  have h: "s \<noteq> []" "hd s = CHR ''P''" "last s = last (itoa port)" by (simp_all add: s_def itoa_def)
  have "(of_char (CHR ''P'') :: nat) < 128 \<and> \<not> is_space (of_char (CHR ''P''))" by (simp add: is_space_def)
  then have "trim_space (s @ [CHR 10]) = s"
    using h is_digit_no_space [OF last_itoa, of port] by (intro trim_space_newline) simp_all
  moreover have "PartitionString s (CHR '':'') = (''PORT='' @ addr, itoa port, True)"
    using PartitionString_append [of "CHR '':''" "''PORT='' @ addr" "itoa port"] assms(1) by (simp add: s_def)
  moreover have "has_prefix s ''PORT=''" by (simp add: has_prefix_def s_def)
  ultimately show ?thesis
    using Atoi_itoa [OF assms(2,3)] by (simp add: ControlPortFromFileContents_def line Let_def)
qed

lemma control_port_check_found:
  assumes "n < 10" "i \<le> n" "sys_ReadPort sys n f = Inr b" "ControlPortFromFileContents b = (port, None)"
    "\<forall>k\<in>{i..n}. sys_CtxErr sys k = None"
    "\<forall>k\<in>{i..<n}. \<exists>b p e. sys_ReadPort sys k f = Inr b \<and> ControlPortFromFileContents b = (p, Some e)"
  shows "\<exists>t'. control_port_check sys f i err t = (None, t') \<and> t_ControlPort t' = port \<and> sleeps t' = sleeps t + (n - i)"
  using assms(2,5,6)
proof (induction "n - i" arbitrary: i err t)
  case 0
  then show ?case using assms(1,3,4) by (simp add: control_port_check.simps [of _ _ i])
next
  case (Suc d)
  then obtain b p e where b: "sys_ReadPort sys i f = Inr b" "ControlPortFromFileContents b = (p, Some e)" "i < n"
    by (metis Suc_neq_Zero atLeastLessThan_iff diff_is_0_eq le_refl not_less)
  have "control_port_check sys f i err t = control_port_check sys f (i + 1) (Some e) (effect Slept (t\<lparr>t_ControlPort := p\<rparr>))"
    using b Suc.prems(2) assms(1) by (simp add: control_port_check.simps [of _ _ i])
  moreover have "\<exists>t'. control_port_check sys f (i + 1) (Some e) (effect Slept (t\<lparr>t_ControlPort := p\<rparr>)) = (None, t')
      \<and> t_ControlPort t' = port \<and> sleeps t' = sleeps (effect Slept (t\<lparr>t_ControlPort := p\<rparr>)) + (n - (i + 1))"
    using Suc.hyps(2) Suc.prems b(3) by (intro Suc.hyps(1)) auto
  ultimately show ?case using b(3) by auto
qed

text \<open>C34: a process that was not told its port is asked for it: when Tor has written its port file by one of the ten attempts
  and the context is not done before, the port is the one Tor wrote, after one sleep per attempt that failed.\<close>
theorem control_port_found:
  assumes "\<not> UseEmbeddedControlConn conf" "sc_ControlPort conf = 0" "n < 10"
    and written: "sys_ReadPort sys n f = Inr (control_port_line addr port)" "CHR '':'' \<notin> set addr" "0 \<le> port" "port < 65536"
    and before: "\<forall>k\<in>{0..n}. sys_CtxErr sys k = None"
      "\<forall>k\<in>{0..<n}. \<exists>b p e. sys_ReadPort sys k f = Inr b \<and> ControlPortFromFileContents b = (p, Some e)"
  shows "\<exists>t'. await_control_port sys conf f t = (None, t') \<and> t_ControlPort t' = port \<and> sleeps t' = sleeps t + n"
proof -
  have "ControlPortFromFileContents (control_port_line addr port) = (port, None)"
    using written by (intro ControlPortFromFileContents_line) simp_all
  then obtain t' where "control_port_check sys f 0 None (t\<lparr>t_ControlPort := 0\<rparr>) = (None, t')"
      "t_ControlPort t' = port" "sleeps t' = sleeps (t\<lparr>t_ControlPort := 0\<rparr>) + (n - 0)"
    using control_port_check_found [of n 0 sys f] assms(3) written(1) before by blast
  then show ?thesis using assms(1,2) by (simp add: await_control_port_def)
qed

theorem control_port_found_witness:
  "\<exists>t'. await_control_port (example_system (Inl EOF)) default_StartConf ''f'' (new_Tor default_StartConf) = (None, t')
     \<and> t_ControlPort t' = 9151 \<and> sleeps t' = sleeps (new_Tor default_StartConf) + 1"
proof -
  have e: "snd (ControlPortFromFileContents []) = Some (Errorf ''Invalid port format: '' [])" by code_simp
  then obtain p where "ControlPortFromFileContents [] = (p, Some (Errorf ''Invalid port format: '' []))" by (metis prod.collapse)
  then show ?thesis
    by (intro control_port_found [where addr = "''127.0.0.1''"]) (simp_all add: example_system_def default_StartConf_def)
qed

end
