(* ===== verification/Close_Props.thy ===== *)
theory Close_Props
  imports Start_Props
begin

text \<open>Closing Tor: the halt, the order of the steps and what is left of the state.\<close>

section \<open>A Tor that obeys\<close>

text \<open>\<open>Close\<close> of the connection ignores what comes of \<open>QUIT\<close>.\<close>

lemma Close_frame:
  "\<exists>c'. Close c = (c_close_err c, c') \<and> c_closed c' \<and> prefix (c_out c) (c_out c')"
proof -
  obtain e c1 where q: "Quit c = (e, c1)" by (metis prod.exhaust)
  then have "extends c c1" unfolding Quit_def by (rule extends_sendRequest)
  then show ?thesis using q by (auto simp: Close_def extends_def)
qed

lemma close_control_halts:
  assumes "t_Control t = Some c" "Authenticated c" "t_StopProcessOnClose t" "dialogue c evs r rest"
  shows "\<exists>c'. close_control t =
      ((if code r \<in> {250, 251} then [] else [Errorf ''Unable to signal halt: '' [the (answer_error r)]])
         @ (case c_close_err c of None \<Rightarrow> [] | Some e \<Rightarrow> [Errorf ''Unable to close contrlller: '' [e]]),
       code r \<in> {250, 251},
       effect (ClosedControl c') (t\<lparr>t_Control := if c_close_err c = None then None else Some c'\<rparr>))
    \<and> c_closed c' \<and> prefix (c_out c @ ''SIGNAL HALT'' @ CRLF) (c_out c')"
proof -
  let ?c1 = "after_dialogue evs r rest (after_write ''SIGNAL HALT'' c)"
  have s: "Signal ''HALT'' c = (answer_error r, ?c1)"
    using signal.cmd_dialogue [OF _ assms(4), of "''HALT''"] by simp
  have e: "c_close_err ?c1 = c_close_err c" by (simp add: after_dialogue_def after_write_def log_lines_def)
  obtain c' where c': "Close ?c1 = (c_close_err c, c')" "c_closed c'" "prefix (c_out ?c1) (c_out c')"
    using Close_frame [of ?c1] e by auto
  show ?thesis
    using assms s c' by (auto simp: close_control_def answer_error_def conn_frame split: option.split)
qed

text \<open>C35: closing a Tor that runs and is authenticated tells it to halt, closes the connection and waits for the process,
  which is not killed; if nothing fails there is no error, and neither process nor connection is left. The data
  directory is removed last, if it is to be.\<close>
theorem close_halts:
  assumes "t_Control t = Some c" "Authenticated c" "t_StopProcessOnClose t" "t_Process t = Some p"
    and "dialogue c evs r rest" "code r \<in> {250, 251}" "c_close_err c = None"
    and "sys_Wait sys p = Some None" "sys_RemoveAll sys (t_DataDir t) = None"
  shows "\<exists>t' c'. tor_Close sys t = Returned (None, t') \<and> t_Process t' = None \<and> t_Control t' = None
    \<and> t_log t' = t_log t @ [ClosedControl c', Waited p] @ (if t_DeleteDataDirOnClose t then [RemovedAll (t_DataDir t)] else [])
    \<and> c_closed c' \<and> prefix (c_out c @ ''SIGNAL HALT'' @ CRLF) (c_out c')"
proof -
  let ?t = "Debugf ''Closing Tor'' [] t"
  obtain c' where c': "close_control ?t = ([], True, effect (ClosedControl c') (?t\<lparr>t_Control := None\<rparr>))"
    "c_closed c'" "prefix (c_out c @ ''SIGNAL HALT'' @ CRLF) (c_out c')"
    using close_control_halts [of ?t c evs r rest] assms by auto
  then show ?thesis
    using assms(4,8,9)
    by (auto simp: tor_Close_def stop_process_def remove_data_dir_def combine_errors_def effect_def Let_def)
qed

theorem close_halts_witness:
  "let t = (new_Tor default_StartConf)\<lparr>t_Process := Some (OtherProcess 1), t_ProcessCancelFunc := True,
       t_Control := Some ((example_conn (concat (map render_reply []) @ render_reply ok_reply @ []) [])\<lparr>Authenticated := True\<rparr>)\<rparr>
   in \<exists>t'. tor_Close (example_system (Inl EOF)) t = Returned (None, t') \<and> t_Process t' = None \<and> t_Control t' = None"
proof -
  let ?c = "(example_conn (concat (map render_reply []) @ render_reply ok_reply @ []) [])\<lparr>Authenticated := True\<rparr>"
  let ?t = "(new_Tor default_StartConf)\<lparr>t_Process := Some (OtherProcess 1), t_ProcessCancelFunc := True, t_Control := Some ?c\<rparr>"
  have "dialogue ?c [] ok_reply []" by (simp add: dialogue_def example_replies(1-4))
  then have "\<exists>t' c'. tor_Close (example_system (Inl EOF)) ?t = Returned (None, t') \<and> t_Process t' = None \<and> t_Control t' = None
    \<and> t_log t' = t_log ?t @ [ClosedControl c', Waited (OtherProcess 1)] @ (if t_DeleteDataDirOnClose ?t then [RemovedAll (t_DataDir ?t)] else [])
    \<and> c_closed c' \<and> prefix (c_out ?c @ ''SIGNAL HALT'' @ CRLF) (c_out c')"
    by (intro close_halts [where c = ?c and p = "OtherProcess 1" and evs = "[]" and r = ok_reply and rest = "[]"])
      (simp_all add: new_Tor_def example_system_def example_replies(3) example_conn_def NewConn_def)
  then show ?thesis by (auto simp: Let_def)
qed

section \<open>A Tor that does not\<close>

text \<open>
  A process that has not exited after 300 milliseconds is reported, and forgotten: closing
  again does not wait for it or kill it.
\<close>

lemma close_forgets_process:
  assumes "t_Control t = None" "t_Process t = Some p" "t_StopProcessOnClose t" "t_ProcessCancelFunc t"
    and "sys_Wait sys p = None" "\<not> t_DeleteDataDirOnClose t"
  shows "\<exists>t'. tor_Close sys t = Returned (Some (Errorf ''Process did not exit after 300 ms'' []), t') \<and> t_Process t' = None
    \<and> (\<exists>t''. tor_Close sys t' = Returned (None, t'') \<and> t_log t'' = t_log t')"
  using assms
  by (auto simp: tor_Close_def close_control_def stop_process_def remove_data_dir_def combine_errors_def effect_def Let_def)

text \<open>
  A process without a cancel function, which the field is documented to allow, makes closing
  panic when the process could not be told to halt.
\<close>

lemma close_nil_cancel:
  assumes "t_Control t = None" "t_Process t = Some p" "t_StopProcessOnClose t" "\<not> t_ProcessCancelFunc t"
  shows "\<exists>msg. tor_Close sys t = Panicked msg"
  using assms by (simp add: tor_Close_def close_control_def stop_process_def Let_def)

end
