(* ===== verification/Service_Props.thy ===== *)
theory Service_Props
  imports Tor_Onion Network_Props Onion_Props Close_Props
begin

text \<open>Publishing onion services: the request, the wait for publication, errors and closing.\<close>

section \<open>The wait for publication\<close>

text \<open>What an event says of the service \<open>ID\<close>.\<close>

definition hs_action :: "string \<Rightarrow> string \<Rightarrow> event \<Rightarrow> bool" where
  "hs_action ID action e \<longleftrightarrow> (case e of HSDescE hs \<Rightarrow> hsdesc_Address hs = ID \<and> hsdesc_Action hs = action | _ \<Rightarrow> False)"

text \<open>
  An attempt to upload is known by its directory and the descriptor. It is open from the event
  that reports it to the one that reports its failure.
\<close>

definition attempt :: "event \<Rightarrow> string \<times> string" where
  "attempt e = (case e of HSDescE hs \<Rightarrow> (hsdesc_HSDir hs, hsdesc_DescID hs) | _ \<Rightarrow> ([], []))"

definition open_step :: "string \<Rightarrow> event \<Rightarrow> (string \<times> string) set \<Rightarrow> (string \<times> string) set" where
  "open_step ID e A =
     (if hs_action ID ''UPLOAD'' e then insert (attempt e) A
      else if hs_action ID ''FAILED'' e then A - {attempt e} else A)"

definition open_attempts :: "string \<Rightarrow> event list \<Rightarrow> (string \<times> string) set" where
  "open_attempts ID es = fold (open_step ID) es {}"

text \<open>Tor reports each attempt before its failure, and again only after it.\<close>

definition orderly :: "string \<Rightarrow> event list \<Rightarrow> bool" where
  "orderly ID es \<longleftrightarrow> (\<forall>a e b. es = a @ e # b \<longrightarrow>
     (hs_action ID ''UPLOAD'' e \<longrightarrow> attempt e \<notin> open_attempts ID a) \<and> (hs_action ID ''FAILED'' e \<longrightarrow> attempt e \<in> open_attempts ID a))"

text \<open>
  The outcome is settled by an event that reports an upload, or a failure after which no attempt
  is open.
\<close>

definition settles :: "string \<Rightarrow> event list \<Rightarrow> event \<Rightarrow> bool" where
  "settles ID before e \<longleftrightarrow> hs_action ID ''UPLOADED'' e \<or> hs_action ID ''FAILED'' e \<and> open_attempts ID (before @ [e]) = {}"

text \<open>The reasons given for the failures.\<close>

definition failure_text :: "event \<Rightarrow> string" where
  "failure_text e = (case e of
     HSDescE hs \<Rightarrow> ''Failed uploading to dir '' @ hsdesc_HSDir hs @ '' - reason: '' @ hsdesc_Reason hs | _ \<Rightarrow> [])"

definition all_failed :: "string \<Rightarrow> event list \<Rightarrow> error" where
  "all_failed ID es =
     Errorf (''Failed all uploads, reasons: '' @ show_strings (map failure_text (filter (hs_action ID ''FAILED'') es))) []"

lemma open_attempts_simps [simp]:
  "open_attempts ID [] = {}" "open_attempts ID (es @ [e]) = open_step ID e (open_attempts ID es)"
  by (simp_all add: open_attempts_def)

lemma finite_open [simp]: "finite (open_attempts ID es)"
  by (induction es rule: rev_induct) (auto simp: open_step_def)

lemma orderly_at:
  assumes "orderly ID (before @ e # es)"
  shows "hs_action ID ''UPLOAD'' e \<Longrightarrow> attempt e \<notin> open_attempts ID before"
    "hs_action ID ''FAILED'' e \<Longrightarrow> attempt e \<in> open_attempts ID before"
  using assms by (auto simp: orderly_def)

text \<open>The counts of the code: as many uploads as failures and open attempts.\<close>

definition upload_state :: "string \<Rightarrow> event list \<Rightarrow> nat \<times> string list \<Rightarrow> bool" where
  "upload_state ID es s \<longleftrightarrow> snd s = map failure_text (filter (hs_action ID ''FAILED'') es)
     \<and> fst s = length (snd s) + card (open_attempts ID es)"

lemma upload_predicate_step:
  assumes "upload_state ID before s" "orderly ID (before @ e # es)"
  obtains (goes_on) s' where "upload_predicate ID s e = (Inr False, s')" "\<not> settles ID before e" "upload_state ID (before @ [e]) s'"
  | (uploaded) s' where "upload_predicate ID s e = (Inr True, s')" "settles ID before e" "hs_action ID ''UPLOADED'' e"
  | (failed) s' where "upload_predicate ID s e = (Inl (all_failed ID (before @ [e])), s')" "settles ID before e" "\<not> hs_action ID ''UPLOADED'' e"
proof (cases "\<exists>hs. e = HSDescE hs \<and> hsdesc_Address hs = ID")
  case True
  then obtain hs where hs: "e = HSDescE hs" "hsdesc_Address hs = ID" by blast
  obtain n fs where s: "s = (n, fs)" by fastforce
  have st: "fs = map failure_text (filter (hs_action ID ''FAILED'') before)" "n = length fs + card (open_attempts ID before)"
    using assms(1) by (simp_all add: upload_state_def s)
  consider "hsdesc_Action hs = ''UPLOAD''" | "hsdesc_Action hs = ''FAILED''" | "hsdesc_Action hs = ''UPLOADED''"
    | "hsdesc_Action hs \<notin> {''UPLOAD'', ''FAILED'', ''UPLOADED''}" by blast
  then show thesis
  proof cases
    case 1
    then have h: "hs_action ID ''UPLOAD'' e" "\<not> hs_action ID ''FAILED'' e" "\<not> hs_action ID ''UPLOADED'' e"
      using hs by (simp_all add: hs_action_def)
    have "card (insert (attempt e) (open_attempts ID before)) = Suc (card (open_attempts ID before))"
      using orderly_at(1) [OF assms(2) h(1)] by simp
    then show thesis using h st 1 hs
      by (intro goes_on [of "(n + 1, fs)"]) (simp_all add: upload_predicate_def s settles_def upload_state_def open_step_def)
  next
    case 2
    then have h: "\<not> hs_action ID ''UPLOAD'' e" "hs_action ID ''FAILED'' e" "\<not> hs_action ID ''UPLOADED'' e"
      using hs by (simp_all add: hs_action_def)
    have a: "attempt e \<in> open_attempts ID before" by (rule orderly_at(2) [OF assms(2) h(2)])
    obtain m where c: "card (open_attempts ID before - {attempt e}) = m" "card (open_attempts ID before) = Suc m"
      using card.remove [OF finite_open a] by blast
    have o: "open_attempts ID (before @ [e]) = open_attempts ID before - {attempt e}" using h by (simp add: open_step_def)
    have z: "open_attempts ID before - {attempt e} = {} \<longleftrightarrow> m = 0" using c(1) by (metis card_eq_0_iff finite_Diff finite_open)
    have f: "map failure_text (filter (hs_action ID ''FAILED'') (before @ [e])) = fs @ [failure_text e]" using st h by simp
    have t: "failure_text e = ''Failed uploading to dir '' @ hsdesc_HSDir hs @ '' - reason: '' @ hsdesc_Reason hs"
      by (simp add: failure_text_def hs)
    have e: "settles ID before e \<longleftrightarrow> length (fs @ [failure_text e]) = n"
      using h st(2) c(2) z unfolding settles_def o by simp
    show thesis
    proof (cases "settles ID before e")
      case True
      then show thesis using 2 hs h e f t
        by (intro failed [of "(n, fs @ [failure_text e])"]) (simp_all add: upload_predicate_def s Let_def all_failed_def)
    next
      case False
      have "upload_state ID (before @ [e]) (n, fs @ [failure_text e])"
        unfolding upload_state_def o c(1) f fst_conv snd_conv using st(2) c(2) by simp
      moreover have "upload_predicate ID s e = (Inr False, (n, fs @ [failure_text e]))"
        using False 2 hs e t by (simp add: upload_predicate_def s Let_def)
      ultimately show thesis using False by (intro goes_on)
    qed
  next
    case 3
    then have "hs_action ID ''UPLOADED'' e" using hs by (simp add: hs_action_def)
    then show thesis using hs 3 by (intro uploaded [of s]) (simp_all add: upload_predicate_def s settles_def)
  next
    case 4
    then have "\<not> hs_action ID ''UPLOAD'' e" "\<not> hs_action ID ''FAILED'' e" "\<not> hs_action ID ''UPLOADED'' e"
      using hs by (simp_all add: hs_action_def)
    then show thesis using hs 4 assms(1)
      by (intro goes_on [of s]) (auto simp: upload_predicate_def s settles_def upload_state_def open_step_def)
  qed
next
  case False
  then have "\<not> hs_action ID action e" for action by (auto simp: hs_action_def split: event.splits)
  moreover have "upload_predicate ID s e = (Inr False, s)"
    using False by (auto simp: upload_predicate_def split: event.splits prod.splits)
  ultimately show thesis using assms(1) by (intro goes_on [of s]) (simp_all add: settles_def upload_state_def open_step_def)
qed

definition settled :: "string \<Rightarrow> event list \<Rightarrow> event list \<Rightarrow> bool" where
  "settled ID before es \<longleftrightarrow> (\<exists>a e b. es = a @ e # b \<and> settles ID (before @ a) e)"

lemma settled_simps:
  "\<not> settled ID before []" "settled ID before (x # es) \<longleftrightarrow> settles ID before x \<or> settled ID (before @ [x]) es"
proof -
  show "\<not> settled ID before []" by (simp add: settled_def)
  show "settled ID before (x # es) \<longleftrightarrow> settles ID before x \<or> settled ID (before @ [x]) es"
  proof
    assume "settled ID before (x # es)"
    then obtain a e b where "x # es = a @ e # b" "settles ID (before @ a) e" unfolding settled_def by blast
    then show "settles ID before x \<or> settled ID (before @ [x]) es"
      by (cases a) (auto simp: settled_def)
  next
    assume "settles ID before x \<or> settled ID (before @ [x]) es"
    then show "settled ID before (x # es)"
    proof
      assume "settles ID before x"
      then show ?thesis unfolding settled_def by (intro exI [of _ "[]"] exI [of _ x] exI [of _ es]) simp
    next
      assume "settled ID (before @ [x]) es"
      then obtain a e b where "es = a @ e # b" "settles ID (before @ [x] @ a) e" unfolding settled_def by auto
      then show ?thesis unfolding settled_def by (intro exI [of _ "x # a"] exI [of _ e] exI [of _ b]) simp
    qed
  qed
qed

lemma first_match_uploads:
  assumes "upload_state ID before s" "orderly ID (before @ es @ later)"
  shows "first_match (upload_predicate ID) s es = None \<longleftrightarrow> \<not> settled ID before es"
    "\<not> settled ID before es \<Longrightarrow> settles ID (before @ es) e \<Longrightarrow> later = e # rest \<Longrightarrow>
      \<exists>s'. first_match (upload_predicate ID) s (es @ e # rest)
        = Some (if hs_action ID ''UPLOADED'' e then Inr e else Inl (all_failed ID (before @ es @ [e])), s')"
  using assms
proof (induction es arbitrary: before s)
  case Nil
  {
    case 1 show ?case by (simp add: settled_simps)
  next
    case 2
    show ?case by (rule upload_predicate_step [of ID before s e rest]) (use 2 in auto)
  }
next
  case (Cons x es)
  {
    case 1
    then have o: "orderly ID (before @ x # es @ later)" "orderly ID ((before @ [x]) @ es @ later)" by simp_all
    show ?case
    proof (cases rule: upload_predicate_step [OF 1(1) o(1), case_names goes_on uploaded failed])
      case (goes_on s')
      then show ?thesis using Cons.IH(1) [OF goes_on(3) o(2)] by (simp add: settled_simps)
    qed (simp_all add: settled_simps)
  next
    case 2
    then have o: "orderly ID (before @ x # es @ later)" "orderly ID ((before @ [x]) @ es @ later)" by simp_all
    have n: "\<not> settles ID before x" "\<not> settled ID (before @ [x]) es" using 2(1) by (simp_all add: settled_simps)
    show ?case
    proof (cases rule: upload_predicate_step [OF 2(4) o(1), case_names goes_on uploaded failed])
      case (goes_on s')
      then show ?thesis using Cons.IH(2) [OF n(2) _ 2(3) goes_on(3) o(2)] 2(2) by (auto split: if_splits)
    qed (use n(1) in simp_all)
  }
qed

lemma upload_state_start: "upload_state ID [] (0, [])"
  by (simp add: upload_state_def)

text \<open>C37: when Tor reports every attempt to upload before its failure, the wait for publication goes on exactly while no event
  of the service has settled it: none reported an upload, and after no failure were all attempts reported so far closed by
  their failures. It ends at the first that does: with that event if it is an upload, and else with an error that gives
  the reason of every failure. Events of other services do not count.\<close>
theorem publication_decides:
  assumes "orderly ID es"
  shows "(first_match (upload_predicate ID) (0, []) es = None \<longleftrightarrow> (\<forall>a e b. es = a @ e # b \<longrightarrow> \<not> settles ID a e))
   \<and> (\<forall>a e b. es = a @ e # b \<and> first_match (upload_predicate ID) (0, []) a = None \<and> settles ID a e \<longrightarrow>
      (\<exists>s'. first_match (upload_predicate ID) (0, []) es
        = Some (if hs_action ID ''UPLOADED'' e then Inr e else Inl (all_failed ID (a @ [e])), s')))"
proof (intro conjI allI impI)
  show "first_match (upload_predicate ID) (0, []) es = None \<longleftrightarrow> (\<forall>a e b. es = a @ e # b \<longrightarrow> \<not> settles ID a e)"
    using first_match_uploads(1) [OF upload_state_start, of ID es "[]"] assms by (auto simp: settled_def)
  fix a e b
  assume e: "es = a @ e # b \<and> first_match (upload_predicate ID) (0, []) a = None \<and> settles ID a e"
  then have o: "orderly ID ([] @ a @ e # b)" using assms by simp
  then have "\<not> settled ID [] a" using first_match_uploads(1) [OF upload_state_start o] e by simp
  then show "\<exists>s'. first_match (upload_predicate ID) (0, []) es
      = Some (if hs_action ID ''UPLOADED'' e then Inr e else Inl (all_failed ID (a @ [e])), s')"
    using first_match_uploads(2) [OF upload_state_start o _ _ refl] e by auto
qed

definition example_hs :: "string \<Rightarrow> event" where
  "example_hs action = HSDescE \<lparr>hsdesc_Raw = [], hsdesc_Action = action, hsdesc_Address = ''abc'', hsdesc_AuthType = [],
     hsdesc_HSDir = ''d'', hsdesc_DescID = [], hsdesc_Reason = ''r'', hsdesc_Replica = 0, hsdesc_HSDirIndex = []\<rparr>"

lemma orderly_snoc:
  "orderly ID (es @ [e]) \<longleftrightarrow> orderly ID es \<and> (hs_action ID ''UPLOAD'' e \<longrightarrow> attempt e \<notin> open_attempts ID es)
     \<and> (hs_action ID ''FAILED'' e \<longrightarrow> attempt e \<in> open_attempts ID es)"
proof
  assume o: "orderly ID (es @ [e])"
  have "orderly ID es"
    unfolding orderly_def
  proof (intro allI impI)
    fix a x b assume "es = a @ x # b"
    then have "es @ [e] = a @ x # (b @ [e])" by simp
    then show "(hs_action ID ''UPLOAD'' x \<longrightarrow> attempt x \<notin> open_attempts ID a) \<and> (hs_action ID ''FAILED'' x \<longrightarrow> attempt x \<in> open_attempts ID a)"
      using o unfolding orderly_def by blast
  qed
  then show "orderly ID es \<and> (hs_action ID ''UPLOAD'' e \<longrightarrow> attempt e \<notin> open_attempts ID es)
     \<and> (hs_action ID ''FAILED'' e \<longrightarrow> attempt e \<in> open_attempts ID es)" using o orderly_at [of ID es e "[]"] by blast
next
  assume r: "orderly ID es \<and> (hs_action ID ''UPLOAD'' e \<longrightarrow> attempt e \<notin> open_attempts ID es)
     \<and> (hs_action ID ''FAILED'' e \<longrightarrow> attempt e \<in> open_attempts ID es)"
  show "orderly ID (es @ [e])"
    unfolding orderly_def
  proof (intro allI impI)
    fix a x b assume s: "es @ [e] = a @ x # b"
    show "(hs_action ID ''UPLOAD'' x \<longrightarrow> attempt x \<notin> open_attempts ID a) \<and> (hs_action ID ''FAILED'' x \<longrightarrow> attempt x \<in> open_attempts ID a)"
    proof (cases b rule: rev_cases)
      case Nil
      then show ?thesis using s r by simp
    next
      case (snoc b' y)
      then have "es = a @ x # b'" using s by simp
      then show ?thesis using r unfolding orderly_def by blast
    qed
  qed
qed

lemma orderly_Nil [simp]: "orderly ID []"
  by (simp add: orderly_def)

text \<open>Two attempts fail, then the service has failed; events of another service are in between.\<close>

theorem publication_decides_witness:
  "let d = (\<lambda>action id dir. HSDescE \<lparr>hsdesc_Raw = [], hsdesc_Action = action, hsdesc_Address = id, hsdesc_AuthType = [],
     hsdesc_HSDir = dir, hsdesc_DescID = [], hsdesc_Reason = ''r'', hsdesc_Replica = 0, hsdesc_HSDirIndex = []\<rparr>);
     es = [d ''UPLOAD'' ''abc'' ''x'', d ''UPLOAD'' ''abc'' ''y'', d ''FAILED'' ''abc'' ''y'', d ''UPLOADED'' ''def'' ''x''] @ d ''FAILED'' ''abc'' ''x'' # []
   in \<exists>s'. first_match (upload_predicate ''abc'') (0, []) es = Some (Inl (all_failed ''abc'' es), s')"
proof -
  define d where "d = (\<lambda>action id dir. HSDescE \<lparr>hsdesc_Raw = [], hsdesc_Action = action, hsdesc_Address = id, hsdesc_AuthType = [],
     hsdesc_HSDir = dir, hsdesc_DescID = [], hsdesc_Reason = ''r'', hsdesc_Replica = 0, hsdesc_HSDirIndex = []\<rparr>)"
  let ?b = "[d ''UPLOAD'' ''abc'' ''x'', d ''UPLOAD'' ''abc'' ''y'', d ''FAILED'' ''abc'' ''y'', d ''UPLOADED'' ''def'' ''x'']"
  let ?e = "d ''FAILED'' ''abc'' ''x''"
  have h: "hs_action ''abc'' action (d action' id dir) \<longleftrightarrow> id = ''abc'' \<and> action' = action" "attempt (d action id dir) = (dir, [])" for action action' id dir
    by (auto simp: hs_action_def attempt_def d_def)
  have snoc: "es @ [x, y] = (es @ [x]) @ [y]" "es @ [x, y, z] = (es @ [x]) @ [y, z]" for es and x y z :: event by simp_all
  have "?b @ [?e] = (((([] @ [d ''UPLOAD'' ''abc'' ''x'']) @ [d ''UPLOAD'' ''abc'' ''y'']) @ [d ''FAILED'' ''abc'' ''y'']) @ [d ''UPLOADED'' ''def'' ''x'']) @ [?e]"
    by simp
  then have o: "orderly ''abc'' (?b @ ?e # [])" "settles ''abc'' ?b ?e"
    by (simp_all only: settles_def orderly_snoc open_attempts_simps open_step_def h orderly_Nil) (simp_all add: open_attempts_def open_step_def h)
  have "first_match (upload_predicate ''abc'') (0, []) ?b = None" by (simp add: upload_predicate_def d_def Let_def)
  then have "\<exists>s'. first_match (upload_predicate ''abc'') (0, []) (?b @ ?e # [])
      = Some (if hs_action ''abc'' ''UPLOADED'' ?e then Inr ?e else Inl (all_failed ''abc'' (?b @ [?e])), s')"
    using publication_decides [OF o(1)] o(2) by blast
  then show ?thesis unfolding d_def [symmetric] Let_def by (simp add: h)
qed

text \<open>
  A failure that is reported before its attempt, as one left from an earlier upload is, makes the
  count of failures overtake that of the attempts: then the wait goes on although the only
  attempt has failed, or ends with an error although one of two attempts is open.
\<close>

lemma upload_overshoot:
  "first_match (upload_predicate ''abc'') (0, []) [example_hs ''FAILED'', example_hs ''UPLOAD'', example_hs ''FAILED''] = None"
  "\<exists>err s. first_match (upload_predicate ''abc'') (0, [])
     [example_hs ''FAILED'', example_hs ''UPLOAD'', example_hs ''UPLOAD'', example_hs ''FAILED''] = Some (Inl err, s)"
  by (simp_all add: upload_predicate_def example_hs_def Let_def)

section \<open>Waiting in order\<close>









section \<open>What errors leave\<close>

text \<open>Publishing and its waits record no effect; neither does closing the forward.\<close>

lemma run_log:
  "with_control t f = Returned (x, t') \<Longrightarrow> t_log t' = t_log t"
  "tor_EventWait steps events p s t = Returned (r, t') \<Longrightarrow> t_log t' = t_log t"
  by (auto simp: with_control_def tor_EventWait_def split: option.splits prod.splits)

lemma bind_run_Returned: "bind_run m f = Returned y \<longleftrightarrow> (\<exists>x. m = Returned x \<and> f x = Returned y)"
  by (cases m) auto

lemma bind_run_elim:
  assumes "bind_run m f = Returned y" obtains x where "m = Returned x" "f x = Returned y"
  using assms by (auto simp: bind_run_Returned)

lemma EnableNetwork_log: "EnableNetwork steps wait t = Returned (err, t') \<Longrightarrow> t_log t' = t_log t"
  by (auto simp: EnableNetwork_def elim!: bind_run_elim dest!: run_log split: sum.splits if_splits)

lemma await_publication_log: "await_publication enable wait ID t = Returned (err, t') \<Longrightarrow> t_log t' = t_log t"
  by (auto simp: await_publication_def Let_def elim!: bind_run_elim dest!: run_log EnableNetwork_log split: if_splits)

lemma publish_log:
  "publish parse marshal enable wait noWait req put_id put_key get_key svc t = Returned (err, svc', t') \<Longrightarrow> t_log t' = t_log t"
  by (auto simp: publish_def Let_def elim!: bind_run_elim dest!: run_log await_publication_log split: if_splits sum.splits prod.splits)

text \<open>What the service keeps of the configuration.\<close>

lemma publish_keeps:
  assumes "publish parse marshal enable wait noWait req put_id put_key get_key svc t = Returned (err, svc', t')"
    "\<And>i s. keep (put_id i s) = keep s" "\<And>k s. keep (put_key k s) = keep s"
  shows "keep svc' = keep svc"
  using assms by (auto simp: publish_def Let_def elim!: bind_run_elim split: if_splits sum.splits prod.splits)

lemma listen_steps_keeps:
  assumes "listen_steps parse marshal enable wait conf l svc t = Returned (err, svc', t')"
  shows "t_log t' = t_log t" "LocalListener svc' = LocalListener svc"
    "CloseLocalListenerOnClose svc' = CloseLocalListenerOnClose svc"
  using assms publish_log
    publish_keeps [where put_id = "\<lambda>i svc. svc\<lparr>svc_ID := i\<rparr>" and put_key = "\<lambda>k svc. svc\<lparr>svc_Key := k\<rparr>" and keep = LocalListener]
    publish_keeps [where put_id = "\<lambda>i svc. svc\<lparr>svc_ID := i\<rparr>" and put_key = "\<lambda>k svc. svc\<lparr>svc_Key := k\<rparr>" and keep = CloseLocalListenerOnClose]
  by (fastforce simp: listen_steps_def Let_def split: sum.splits prod.splits)+

lemma svc_Close_log:
  assumes "svc_Close o1 t = Returned (err, o2, t')" "LocalListener o1 = Some l"
  shows "t_log t' = t_log t @ (if CloseLocalListenerOnClose o1 then [ClosedListener (l_id l)] else [])"
  using assms
  by (auto simp: svc_Close_def del_onion_def failed_closing_def effect_def Let_def
      elim!: bind_run_elim dest!: run_log split: if_splits option.splits prod.splits)

text \<open>C39: Listen gives back a service or an error, never both and never neither. With the error, a listener that it made is
  closed and one that it was given is not; with the service, none is.\<close>
theorem listen_error_closes:
  assumes "Listen parse marshal net_Listen enable wait (Some conf) t = Returned (svc, err, t')"
  shows "(svc = None \<longleftrightarrow> err \<noteq> None) \<and>
    t_log t' = t_log t @ (case (err, lc_LocalListener conf, net_Listen (''127.0.0.1:'' @ itoa (LocalPort conf))) of
        (Some _, None, Inr l) \<Rightarrow> [ClosedListener (l_id l)]
      | _ \<Rightarrow> [])"
proof -
  let ?net = "net_Listen (''127.0.0.1:'' @ itoa (LocalPort conf))"
  let ?svc = "\<lparr>svc_ID = [], svc_Key = NilKey, LocalListener = lc_LocalListener conf, RemotePorts = [],
                CloseLocalListenerOnClose = (lc_LocalListener conf = None)\<rparr>"
  define made where "made = (case lc_LocalListener conf of Some l \<Rightarrow> Inr l | None \<Rightarrow> ?net)"
  show ?thesis
  proof (cases made)
    case (Inl e)
    then show ?thesis using assms by (auto simp: Listen_def made_def split: option.splits)
  next
    case (Inr l)
    obtain err1 svc1 t1 where s: "listen_steps parse marshal enable wait conf l (?svc\<lparr>LocalListener := Some l\<rparr>) t = Returned (err1, svc1, t1)"
      using assms Inr by (auto simp: Listen_def made_def bind_run_Returned)
    note k = listen_steps_keeps [OF s]
    show ?thesis
    proof (cases err1)
      case None
      then show ?thesis using assms Inr s k(1) by (auto simp: Listen_def made_def split: option.splits)
    next
      case (Some e)
      then obtain ce o2 where c: "svc_Close svc1 t1 = Returned (ce, o2, t')" "svc = None" "err \<noteq> None"
        using assms Inr s by (auto simp: Listen_def made_def bind_run_Returned)
      have "t_log t' = t_log t @ (if lc_LocalListener conf = None then [ClosedListener (l_id l)] else [])"
        using svc_Close_log [OF c(1), of l] k by simp
      then show ?thesis using c(2,3) Inr by (auto simp: made_def split: option.splits)
    qed
  qed
qed

theorem listen_error_closes_witness:
  "\<exists>err t'. Listen (\<lambda>_. Inl EOF) (\<lambda>_. []) (\<lambda>a. Inr \<lparr>l_id = 4, l_tcp_port = Some 80, l_addr = a, l_unix = False, l_close_err = None\<rparr>) [] []
      (Some \<lparr>oc_Key = OtherKey ''string'', ClientAuths = [], MaxStreams = 0, DiscardKey = False, Detach = False, NonAnonymous = False,
        MaxStreamsCloseCircuit = False, NoWait = True, LocalPort = 80, lc_LocalListener = None, lc_RemotePorts = []\<rparr>)
      (new_Tor default_StartConf) = Returned (None, Some err, t') \<and> t_log t' = [ClosedListener 4]"
proof -
  let ?net = "\<lambda>a. Inr \<lparr>l_id = 4, l_tcp_port = Some 80, l_addr = a, l_unix = False, l_close_err = None\<rparr>"
  let ?conf = "\<lparr>oc_Key = OtherKey ''string'', ClientAuths = [], MaxStreams = 0, DiscardKey = False, Detach = False, NonAnonymous = False,
        MaxStreamsCloseCircuit = False, NoWait = True, LocalPort = 80, lc_LocalListener = None, lc_RemotePorts = []\<rparr>"
  have "\<exists>err t'. Listen (\<lambda>_. Inl EOF) (\<lambda>_. []) ?net [] [] (Some ?conf) (new_Tor default_StartConf) = Returned (None, Some err, t')"
    by (simp add: Listen_def listen_steps_def svc_Close_def del_onion_def Let_def)
  then obtain err t' where l: "Listen (\<lambda>_. Inl EOF) (\<lambda>_. []) ?net [] [] (Some ?conf) (new_Tor default_StartConf) = Returned (None, Some err, t')"
    by blast
  have "t_log (new_Tor default_StartConf) = []" by (simp add: new_Tor_def)
  then show ?thesis using listen_error_closes [OF l] l by auto
qed

section \<open>A service that is published\<close>

lemma publish_no_wait:
  assumes "t_Control t = Some c" "dialogue c evs (onion_reply marshal sid (map_option ED25519Key k)) rest"
    "req_Key req = Some rk" "no_percent (add_onion_text marshal rk req)"
  shows "publish parse marshal enable wait True req put_id put_key get_key svc t =
    Returned (None, put_key (case k of None \<Rightarrow> get_key (put_id sid svc) | Some kp \<Rightarrow> AKeyPair (priv_KeyPair (kp_PrivateKey kp))) (put_id sid svc),
      t\<lparr>t_Control := Some (after_dialogue evs (onion_reply marshal sid (map_option ED25519Key k)) rest
        (after_write (add_onion_text marshal rk req) c))\<rparr>)"
  using AddOnion_dialogue [OF assms(2,3,4), of parse] assms(1)
  by (cases k) (simp_all add: publish_def with_control_def rsa_ok_def Let_def)

text \<open>
  What \<open>ListenConf\<close> documents. The key is generated by Tor, with a given algorithm or as
  ED25519-V3, or it is given as a key pair or as a key of Go's \<open>crypto/ed25519\<close>.
\<close>

fun given_key :: "private_key \<Rightarrow> KeyPair option" where
  "given_key (AKeyPair k) = Some k"
| "given_key (ControlED25519Key k) = Some k"
| "given_key (CryptoPrivateKey bs) = (case FromCryptoPrivateKey bs of Inl _ \<Rightarrow> None | Inr k \<Rightarrow> Some k)"
| "given_key _ = None"

fun generated_key :: "private_key \<Rightarrow> string option" where
  "generated_key NilKey = Some ''ED25519-V3''"
| "generated_key (ControlGenKey algorithm) = Some algorithm"
| "generated_key _ = None"

definition wanted_key :: "private_key \<Rightarrow> string \<times> string" where
  "wanted_key key = (case given_key key of
     Some k \<Rightarrow> (''ED25519-V3'', b64_encode (kp_PrivateKey k)) | None \<Rightarrow> (''NEW'', the (generated_key key)))"

definition wanted_flags :: "ListenConf \<Rightarrow> string set" where
  "wanted_flags conf = {f. (f = ''DiscardPK'' \<and> DiscardKey conf) \<or> (f = ''Detach'' \<and> Detach conf)
     \<or> (f = ''V3Auth'' \<and> ClientAuths conf \<noteq> []) \<or> (f = ''NonAnonymous'' \<and> NonAnonymous conf)
     \<or> (f = ''MaxStreamsCloseCircuit'' \<and> MaxStreamsCloseCircuit conf)}"

definition wanted_ports :: "ListenConf \<Rightarrow> listener \<Rightarrow> int list" where
  "wanted_ports conf l = (if lc_RemotePorts conf = [] then [the (l_tcp_port l)] else lc_RemotePorts conf)"

lemma wanted_key_onion:
  assumes "given_key pk \<noteq> None \<or> generated_key pk \<noteq> None"
  obtains key rk where "onion_key pk = Inr (Inr (key, rk))" "given_key key = given_key pk" "asked_key marshal rk = wanted_key pk"
    "\<forall>g. rk = GenKey g \<longrightarrow> generated_key pk = Some g"
proof (cases pk)
  case (CryptoPrivateKey bs)
  then obtain k where "FromCryptoPrivateKey bs = Inr k" using assms by (cases "FromCryptoPrivateKey bs") auto
  then show thesis using that CryptoPrivateKey by (simp add: wanted_key_def)
qed (use assms that in \<open>auto simp: wanted_key_def KeyAlgoED25519V3_def\<close>)

lemma wanted_flags_onion: "distinct (onion_flags conf)" "set (onion_flags conf) = wanted_flags conf"
  by (auto simp: onion_flags_def wanted_flags_def)

lemma itoa_no_comma: "CHR '','' \<notin> set (itoa i)"
proof -
  have "is_digit c \<Longrightarrow> c \<noteq> CHR '',''" for c by (auto simp: is_digit_def)
  then have "CHR '','' \<notin> set (nat_digits n)" for n using nat_digits_is_digit by blast
  then show ?thesis by (simp add: itoa_def)
qed

text \<open>C18: Listen writes one line, in which Tor reads what the configuration documents: the key that is given or the kind to make,
  exactly the flags that are set, the limit of streams, the key of every client, and every remote port, or the port of the
  listener if none is given, with the address of the local listener, marked if it is a unix socket. Without a wait the
  service it returns has the identifier of Tor's answer, the key Tor generated or else the one given, the listener and the
  ports. That a generated key is to be discarded is only asked for when none is given.\<close>
theorem listen_serves:
  assumes conf: "NoWait conf" "given_key (oc_Key conf) \<noteq> None \<or> generated_key (oc_Key conf) \<noteq> None"
      "given_key (oc_Key conf) \<noteq> None \<longrightarrow> \<not> DiscardKey conf" "lc_RemotePorts conf \<noteq> [] \<or> l_tcp_port l \<noteq> None"
    and plain: "\<forall>g. generated_key (oc_Key conf) = Some g \<longrightarrow> plain_word g" "\<forall>a\<in>set (ClientAuths conf). plain_word a"
      "plain_word (l_addr l)" "MaxStreams conf < 2 ^ 63"
    and l: "lc_LocalListener conf = Some l \<or> lc_LocalListener conf = None \<and> net_Listen (''127.0.0.1:'' @ itoa (LocalPort conf)) = Inr l"
    and c: "t_Control t = Some c" "dialogue c evs (onion_reply marshal sid (map_option ED25519Key k)) rest"
  shows "\<exists>svc c' line flags. Listen parse marshal net_Listen enable wait (Some conf) t = Returned (Some svc, None, t\<lparr>t_Control := Some c'\<rparr>)
    \<and> svc_ID svc = sid \<and> LocalListener svc = Some l \<and> RemotePorts svc = wanted_ports conf l
    \<and> CloseLocalListenerOnClose svc = (lc_LocalListener conf = None)
    \<and> given_key (svc_Key svc) = (case k of Some kp \<Rightarrow> Some (priv_KeyPair (kp_PrivateKey kp)) | None \<Rightarrow> given_key (oc_Key conf))
    \<and> c_out c' = c_out c @ line @ CRLF \<and> distinct flags \<and> set flags = wanted_flags conf
    \<and> read_add_onion line = Some \<lparr>ask_Key = wanted_key (oc_Key conf), ask_Flags = flags, ask_MaxStreams = max 0 (MaxStreams conf),
        ask_Ports = map (\<lambda>p. (itoa p, if l_unix l then ''unix:'' @ l_addr l else l_addr l)) (wanted_ports conf l),
        ask_ClientAuths = ClientAuths conf\<rparr>"
proof -
  obtain key rk where key: "onion_key (oc_Key conf) = Inr (Inr (key, rk))" "given_key key = given_key (oc_Key conf)"
      "asked_key marshal rk = wanted_key (oc_Key conf)" "\<forall>g. rk = GenKey g \<longrightarrow> generated_key (oc_Key conf) = Some g"
    by (rule wanted_key_onion [OF conf(2)]) blast
  define ports where "ports = wanted_ports conf l"
  define req where "req = onion_request conf (Some rk) (listen_ports ports l)"
  have ports: "remote_ports (lc_RemotePorts conf) l = Inr ports"
    using conf(4) by (auto simp: remote_ports_def ports_def wanted_ports_def)
  have rk: "req_Key req = Some rk" by (simp add: req_def onion_request_def)
  have flags: "plain_word f \<and> CHR '','' \<notin> set f" if "f \<in> set (onion_flags conf)" for f
    using that by (auto simp: wanted_flags_onion(2) wanted_flags_def plain_word_def)
  have "plain_word (if l_unix l then ''unix:'' @ l_addr l else l_addr l)"
  proof -
    have "plain_word ''unix:''" by (simp add: plain_word_def)
    then show ?thesis using plain(3) by (simp only: plain_word_append simp_thms split: if_split)
  qed
  then have rp: "request_plain rk req"
    using plain(1,2,4) key(4) flags
    by (auto simp: request_plain_def req_def onion_request_def listen_ports_def Let_def itoa_no_comma)
  define line where "line = add_onion_text marshal rk req"
  have rd: "read_add_onion line = Some \<lparr>ask_Key = wanted_key (oc_Key conf), ask_Flags = onion_flags conf, ask_MaxStreams = max 0 (MaxStreams conf),
        ask_Ports = map (\<lambda>p. (itoa p, if l_unix l then ''unix:'' @ l_addr l else l_addr l)) ports, ask_ClientAuths = ClientAuths conf\<rparr>"
    unfolding line_def read_add_onion_text [OF rp] key(3) by (simp add: req_def onion_request_def listen_ports_def Let_def)
  note p = publish_no_wait [OF c rk add_onion_text_plain(1) [OF rp], folded line_def]
  define svc where "svc = \<lparr>svc_ID = sid, svc_Key = (case k of None \<Rightarrow> key | Some kp \<Rightarrow> AKeyPair (priv_KeyPair (kp_PrivateKey kp))),
        LocalListener = Some l, RemotePorts = ports, CloseLocalListenerOnClose = (lc_LocalListener conf = None)\<rparr>"
  define c' where "c' = after_dialogue evs (onion_reply marshal sid (map_option ED25519Key k)) rest (after_write line c)"
  have "Listen parse marshal net_Listen enable wait (Some conf) t = Returned (Some svc, None, t\<lparr>t_Control := Some c'\<rparr>)"
    using l conf(1) key(1) ports
    by (auto simp: Listen_def listen_steps_def req_def [symmetric] p Let_def svc_def c'_def split: option.split)
  moreover have "given_key (svc_Key svc) = (case k of Some kp \<Rightarrow> Some (priv_KeyPair (kp_PrivateKey kp)) | None \<Rightarrow> given_key (oc_Key conf))"
    using key(2) by (simp add: svc_def split: option.split)
  moreover have "c_out c' = c_out c @ line @ CRLF" by (simp add: c'_def conn_frame)
  ultimately show ?thesis
    using rd wanted_flags_onion [of conf] unfolding ports_def [symmetric]
    by (intro exI [of _ svc] exI [of _ c'] exI [of _ line] exI [of _ "onion_flags conf"]) (simp add: svc_def)
qed

definition example_listener :: listener where
  "example_listener = \<lparr>l_id = 4, l_tcp_port = Some 8080, l_addr = ''127.0.0.1:8080'', l_unix = False, l_close_err = None\<rparr>"

definition example_listen :: ListenConf where
  "example_listen = \<lparr>oc_Key = NilKey, ClientAuths = [''AAAA''], MaxStreams = 3, DiscardKey = False, Detach = True,
     NonAnonymous = False, MaxStreamsCloseCircuit = False, NoWait = True, LocalPort = 0, lc_LocalListener = Some example_listener,
     lc_RemotePorts = [80, 81]\<rparr>"

text \<open>The line that is sent.\<close>

lemma example_line:
  "add_onion_text (\<lambda>_. []) (GenKey KeyAlgoED25519V3) (onion_request example_listen (Some (GenKey KeyAlgoED25519V3))
     (listen_ports [80, 81] example_listener))
   = ''ADD_ONION NEW:ED25519-V3 Flags=Detach,V3Auth MaxStreams=3 Port=80,127.0.0.1:8080 Port=81,127.0.0.1:8080 ClientAuthV3=AAAA''"
  by code_simp

lemma example_itoa: "itoa 80 = ''80''" "itoa 81 = ''81''"
  by code_simp+

theorem listen_serves_witness:
  "let c = example_conn (concat (map render_reply []) @ render_reply (onion_reply (\<lambda>_. []) ''abc'' (map_option ED25519Key None)) @ []) [];
       t = (new_Tor default_StartConf)\<lparr>t_Control := Some c\<rparr>
   in \<exists>svc c' line flags. Listen (\<lambda>_. Inl EOF) (\<lambda>_. []) (\<lambda>_. Inl EOF) [] [] (Some example_listen) t =
      Returned (Some svc, None, t\<lparr>t_Control := Some c'\<rparr>) \<and> svc_ID svc = ''abc'' \<and> RemotePorts svc = [80, 81] \<and> c_out c' = line @ CRLF
    \<and> read_add_onion line = Some \<lparr>ask_Key = (''NEW'', ''ED25519-V3''), ask_Flags = flags, ask_MaxStreams = 3,
        ask_Ports = [(''80'', ''127.0.0.1:8080''), (''81'', ''127.0.0.1:8080'')], ask_ClientAuths = [''AAAA'']\<rparr>
    \<and> set flags = {''Detach'', ''V3Auth''}"
proof -
  define c where "c = example_conn (concat (map render_reply []) @ render_reply (onion_reply (\<lambda>_. []) ''abc'' (map_option ED25519Key None)) @ []) []"
  let ?t = "(new_Tor default_StartConf)\<lparr>t_Control := Some c\<rparr>"
  have d: "dialogue c [] (onion_reply (\<lambda>_. []) ''abc'' (map_option ED25519Key None)) []"
    by (simp add: c_def dialogue_def is_answer_def reply_ok_def onion_reply_def plain_line_def)
  have k: "NoWait example_listen" "given_key (oc_Key example_listen) \<noteq> None \<or> generated_key (oc_Key example_listen) \<noteq> None"
    "given_key (oc_Key example_listen) \<noteq> None \<longrightarrow> \<not> DiscardKey example_listen"
    "lc_RemotePorts example_listen \<noteq> [] \<or> l_tcp_port example_listener \<noteq> None"
    "\<forall>g. generated_key (oc_Key example_listen) = Some g \<longrightarrow> plain_word g" "\<forall>a\<in>set (ClientAuths example_listen). plain_word a"
    "plain_word (l_addr example_listener)" "MaxStreams example_listen < 2 ^ 63" "lc_LocalListener example_listen = Some example_listener"
    by (simp_all add: example_listen_def example_listener_def plain_word_def)
  have w: "wanted_ports example_listen example_listener = [80, 81]" "wanted_key (oc_Key example_listen) = (''NEW'', ''ED25519-V3'')"
    "wanted_flags example_listen = {''Detach'', ''V3Auth''}"
    "map (\<lambda>p. (itoa p, if l_unix example_listener then ''unix:'' @ l_addr example_listener else l_addr example_listener)) [80, 81]
      = [(''80'', ''127.0.0.1:8080''), (''81'', ''127.0.0.1:8080'')]"
    by (auto simp: example_listen_def example_listener_def wanted_ports_def wanted_key_def wanted_flags_def example_itoa)
  have m: "max 0 (MaxStreams example_listen) = 3" "ClientAuths example_listen = [''AAAA'']" by (simp_all add: example_listen_def)
  have "c_out c = []" by (simp add: c_def)
  then show ?thesis
    using listen_serves [where net_Listen = "\<lambda>_. Inl EOF" and t = ?t and parse = "\<lambda>_. Inl EOF" and enable = "[]" and wait = "[]",
        OF k(1-8) disjI1 [OF k(9)] _ d]
    unfolding c_def [symmetric] Let_def w m by auto
qed

text \<open>Closing a service deletes it at Tor by the identifier it was published with and forgets that, so that closing it again
  sends nothing; the listener is closed if the service owns it. The error is Tor's refusal or that of closing.\<close>
theorem close_deletes_service:
  assumes "t_Control t = Some c" "svc_ID svc \<noteq> []" "LocalListener svc = Some l" "dialogue c evs r rest"
  shows "\<exists>svc' t' c'. svc_Close svc t = Returned
      (if CloseLocalListenerOnClose svc then also_close_listener (answer_error r) (l_close_err l) else answer_error r, svc', t')
    \<and> t_Control t' = Some c' \<and> c_out c' = c_out c @ ''DEL_ONION '' @ svc_ID svc @ CRLF
    \<and> t_log t' = t_log t @ (if CloseLocalListenerOnClose svc then [ClosedListener (l_id l)] else [])
    \<and> (\<exists>svc'' t''. svc_Close svc' t' = Returned (None, svc'', t'') \<and> t_Control t'' = Some c' \<and> t_log t'' = t_log t')"
proof -
  have d: "DelOnion (svc_ID svc) c = (answer_error r, after_dialogue evs r rest (after_write (''DEL_ONION '' @ svc_ID svc) c))"
    using del_onion.cmd_dialogue [OF _ assms(4), of "svc_ID svc"] by simp
  have f: "t_Control (failed_closing e u) = t_Control u" "t_log (failed_closing e u) = t_log u" for e u
    by (simp_all add: failed_closing_def split: option.split)
  show ?thesis
    using assms d
    by (auto simp: svc_Close_def del_onion_def with_control_def effect_def f conn_frame also_close_listener_def Let_def)
qed

theorem close_deletes_service_witness:
  "let c = example_conn (concat (map render_reply []) @ render_reply ok_reply @ []) [];
       svc = \<lparr>svc_ID = ''abc'', svc_Key = NilKey, LocalListener = Some example_listener, RemotePorts = [80], CloseLocalListenerOnClose = True\<rparr>;
       t = (new_Tor default_StartConf)\<lparr>t_Control := Some c\<rparr>
   in \<exists>svc' t'. svc_Close svc t = Returned (None, svc', t') \<and> t_log t' = [ClosedListener 4]"
proof -
  let ?c = "example_conn (concat (map render_reply []) @ render_reply ok_reply @ []) []"
  let ?svc = "\<lparr>svc_ID = ''abc'', svc_Key = NilKey, LocalListener = Some example_listener, RemotePorts = [80], CloseLocalListenerOnClose = True\<rparr>"
  let ?t = "(new_Tor default_StartConf)\<lparr>t_Control := Some ?c\<rparr>"
  have d: "dialogue ?c [] ok_reply []" by (simp add: dialogue_def example_replies(1-4))
  have e: "also_close_listener (answer_error ok_reply) (l_close_err example_listener) = None"
    by (simp add: also_close_listener_def answer_error_def example_replies(3) example_listener_def)
  show ?thesis
    using close_deletes_service [of ?t ?c ?svc example_listener "[]" ok_reply "[]", OF _ _ _ d] e
    by (auto simp: Let_def new_Tor_def example_listener_def)
qed

section \<open>Configurations that do not work\<close>

text \<open>
  A nil configuration, documented to mean the default, panics; an RSA key of \<open>control\<close>,
  documented to be accepted, is not; an RSA key that Tor is asked to generate makes Listen
  fail when Tor has done so; the flag that discards a generated key is sent with a given key.
\<close>

lemma listen_nil: "Listen parse marshal net_Listen enable wait None t = Panicked nil_deref"
  by (simp add: Listen_def)

lemma rsa_key_refused: "onion_key (OtherKey ''*control.RSAKey'') = Inr (Inl (Errorf ''Unrecognized key type: *control.RSAKey'' []))"
  by simp

lemma rsa_response_refused: "\<exists>err. response_key (Some (RSAKey k)) key = (Some err, key)"
  by simp

lemma discard_with_key: "DiscardKey conf \<Longrightarrow> ''DiscardPK'' \<in> set (req_Flags (onion_request conf (Some (ED25519Key k)) ports))"
  by (simp add: onion_request_def onion_flags_def)

end
