(* ===== verification/Fast_Nat.thy ===== *)
theory Fast_Nat
  imports Main
begin

text \<open>
  Natural numbers as hexadecimal numerals, for arithmetic the simplifier carries out: the checks on
  constants of 255 bits (primality, the table of multiples of the base point) are hundreds of
  products of that size, and a rewrite step that takes four bits is worth the rules. Every
  operation has its value as a lemma; the bundle \<open>hex_rules\<close> evaluates them.
\<close>

section \<open>Numerals\<close>

datatype hex = XZ | X0 hex | X1 hex | X2 hex | X3 hex | X4 hex | X5 hex | X6 hex | X7 hex | X8 hex | X9 hex | XA hex | XB hex | XC hex | XD hex | XE hex | XF hex

primrec hval :: "hex \<Rightarrow> nat" where
  "hval XZ = 0"
| "hval (X0 m) = 0 + 16 * hval m" | "hval (X1 m) = 1 + 16 * hval m" | "hval (X2 m) = 2 + 16 * hval m" | "hval (X3 m) = 3 + 16 * hval m"
| "hval (X4 m) = 4 + 16 * hval m" | "hval (X5 m) = 5 + 16 * hval m" | "hval (X6 m) = 6 + 16 * hval m" | "hval (X7 m) = 7 + 16 * hval m"
| "hval (X8 m) = 8 + 16 * hval m" | "hval (X9 m) = 9 + 16 * hval m" | "hval (XA m) = 10 + 16 * hval m" | "hval (XB m) = 11 + 16 * hval m"
| "hval (XC m) = 12 + 16 * hval m" | "hval (XD m) = 13 + 16 * hval m" | "hval (XE m) = 14 + 16 * hval m" | "hval (XF m) = 15 + 16 * hval m"

primrec low :: "hex \<Rightarrow> nat" where
  "low XZ = 0"
| "low (X0 m) = 0" | "low (X1 m) = 1" | "low (X2 m) = 2" | "low (X3 m) = 3"
| "low (X4 m) = 4" | "low (X5 m) = 5" | "low (X6 m) = 6" | "low (X7 m) = 7"
| "low (X8 m) = 8" | "low (X9 m) = 9" | "low (XA m) = 10" | "low (XB m) = 11"
| "low (XC m) = 12" | "low (XD m) = 13" | "low (XE m) = 14" | "low (XF m) = 15"

primrec high :: "hex \<Rightarrow> hex" where
  "high XZ = XZ"
| "high (X0 m) = m" | "high (X1 m) = m" | "high (X2 m) = m" | "high (X3 m) = m"
| "high (X4 m) = m" | "high (X5 m) = m" | "high (X6 m) = m" | "high (X7 m) = m"
| "high (X8 m) = m" | "high (X9 m) = m" | "high (XA m) = m" | "high (XB m) = m"
| "high (XC m) = m" | "high (XD m) = m" | "high (XE m) = m" | "high (XF m) = m"

definition digit :: "nat \<Rightarrow> hex \<Rightarrow> hex" where
  "digit k = [X0, X1, X2, X3, X4, X5, X6, X7, X8, X9, XA, XB, XC, XD, XE, XF] ! k"

lemma less_16: "k < 16 \<longleftrightarrow> k = 0 \<or> k = 1 \<or> k = 2 \<or> k = 3 \<or> k = 4 \<or> k = 5 \<or> k = 6 \<or> k = 7 \<or> k = 8 \<or> k = 9
    \<or> k = 10 \<or> k = 11 \<or> k = 12 \<or> k = 13 \<or> k = 14 \<or> k = 15" for k :: nat
  by (auto simp: less_Suc_eq numeral_eq_Suc)

lemma digit_simps:
  "digit 0 = X0" "digit 1 = X1" "digit 2 = X2" "digit 3 = X3"
  "digit 4 = X4" "digit 5 = X5" "digit 6 = X6" "digit 7 = X7"
  "digit 8 = X8" "digit 9 = X9" "digit 10 = XA" "digit 11 = XB"
  "digit 12 = XC" "digit 13 = XD" "digit 14 = XE" "digit 15 = XF"
  "digit (Suc 0) = X1" "digit (Suc (Suc 0)) = X2"
  by (simp_all add: digit_def)

lemma hval_digit: "k < 16 \<Longrightarrow> hval (digit k m) = k + 16 * hval m"
  by (simp only: less_16, elim disjE) (simp_all only: digit_simps hval.simps)

lemma hval_split: "hval m = low m + 16 * hval (high m)" and low_less: "low m < 16"
  by (cases m; simp)+

lemma high_size: "m \<noteq> XZ \<Longrightarrow> size (high m) < size m"
  by (cases m) simp_all

section \<open>Addition\<close>

primrec hinc :: "hex \<Rightarrow> hex" where
  "hinc XZ = X1 XZ"
| "hinc (X0 m) = X1 m" | "hinc (X1 m) = X2 m" | "hinc (X2 m) = X3 m" | "hinc (X3 m) = X4 m"
| "hinc (X4 m) = X5 m" | "hinc (X5 m) = X6 m" | "hinc (X6 m) = X7 m" | "hinc (X7 m) = X8 m"
| "hinc (X8 m) = X9 m" | "hinc (X9 m) = XA m" | "hinc (XA m) = XB m" | "hinc (XB m) = XC m"
| "hinc (XC m) = XD m" | "hinc (XD m) = XE m" | "hinc (XE m) = XF m" | "hinc (XF m) = X0 (hinc m)"

lemma hval_hinc: "hval (hinc m) = hval m + 1"
  by (induction m) simp_all

function hadd :: "hex \<Rightarrow> hex \<Rightarrow> hex" where
  "hadd m n =
     (if m = XZ then n else if n = XZ then m
      else digit ((low m + low n) mod 16)
        (if low m + low n < 16 then hadd (high m) (high n) else hinc (hadd (high m) (high n))))"
  by auto
termination by (relation "measure (size \<circ> fst)") (auto simp: high_size)

declare hadd.simps [simp del]

lemma hval_hadd: "hval (hadd m n) = hval m + hval n"
proof (induction m n rule: hadd.induct)
  case (1 m n)
  have "low m + low n - 16 = (low m + low n) mod 16" if "16 \<le> low m + low n"
    using that low_less [of m] low_less [of n] by (simp add: mod_if)
  then show ?case
    using 1 hval_split [of m] hval_split [of n] by (auto simp: hadd.simps [of m n] hval_digit hval_hinc)
qed

lemma hadd_digit: "m \<noteq> XZ \<Longrightarrow> n \<noteq> XZ \<Longrightarrow> hadd m n = digit ((low m + low n) mod 16)
    (if low m + low n < 16 then hadd (high m) (high n) else hinc (hadd (high m) (high n)))"
  by (subst hadd.simps) simp

lemma hadd_end: "hadd XZ n = n" "hadd m XZ = m"
  by (subst hadd.simps, simp)+

lemma hadd_rules:
  "hadd (X0 m) (X0 n) = X0 (hadd m n)" "hadd (X0 m) (X1 n) = X1 (hadd m n)"
  "hadd (X0 m) (X2 n) = X2 (hadd m n)" "hadd (X0 m) (X3 n) = X3 (hadd m n)"
  "hadd (X0 m) (X4 n) = X4 (hadd m n)" "hadd (X0 m) (X5 n) = X5 (hadd m n)"
  "hadd (X0 m) (X6 n) = X6 (hadd m n)" "hadd (X0 m) (X7 n) = X7 (hadd m n)"
  "hadd (X0 m) (X8 n) = X8 (hadd m n)" "hadd (X0 m) (X9 n) = X9 (hadd m n)"
  "hadd (X0 m) (XA n) = XA (hadd m n)" "hadd (X0 m) (XB n) = XB (hadd m n)"
  "hadd (X0 m) (XC n) = XC (hadd m n)" "hadd (X0 m) (XD n) = XD (hadd m n)"
  "hadd (X0 m) (XE n) = XE (hadd m n)" "hadd (X0 m) (XF n) = XF (hadd m n)"
  "hadd (X1 m) (X0 n) = X1 (hadd m n)" "hadd (X1 m) (X1 n) = X2 (hadd m n)"
  "hadd (X1 m) (X2 n) = X3 (hadd m n)" "hadd (X1 m) (X3 n) = X4 (hadd m n)"
  "hadd (X1 m) (X4 n) = X5 (hadd m n)" "hadd (X1 m) (X5 n) = X6 (hadd m n)"
  "hadd (X1 m) (X6 n) = X7 (hadd m n)" "hadd (X1 m) (X7 n) = X8 (hadd m n)"
  "hadd (X1 m) (X8 n) = X9 (hadd m n)" "hadd (X1 m) (X9 n) = XA (hadd m n)"
  "hadd (X1 m) (XA n) = XB (hadd m n)" "hadd (X1 m) (XB n) = XC (hadd m n)"
  "hadd (X1 m) (XC n) = XD (hadd m n)" "hadd (X1 m) (XD n) = XE (hadd m n)"
  "hadd (X1 m) (XE n) = XF (hadd m n)" "hadd (X1 m) (XF n) = X0 (hinc (hadd m n))"
  "hadd (X2 m) (X0 n) = X2 (hadd m n)" "hadd (X2 m) (X1 n) = X3 (hadd m n)"
  "hadd (X2 m) (X2 n) = X4 (hadd m n)" "hadd (X2 m) (X3 n) = X5 (hadd m n)"
  "hadd (X2 m) (X4 n) = X6 (hadd m n)" "hadd (X2 m) (X5 n) = X7 (hadd m n)"
  "hadd (X2 m) (X6 n) = X8 (hadd m n)" "hadd (X2 m) (X7 n) = X9 (hadd m n)"
  "hadd (X2 m) (X8 n) = XA (hadd m n)" "hadd (X2 m) (X9 n) = XB (hadd m n)"
  "hadd (X2 m) (XA n) = XC (hadd m n)" "hadd (X2 m) (XB n) = XD (hadd m n)"
  "hadd (X2 m) (XC n) = XE (hadd m n)" "hadd (X2 m) (XD n) = XF (hadd m n)"
  "hadd (X2 m) (XE n) = X0 (hinc (hadd m n))" "hadd (X2 m) (XF n) = X1 (hinc (hadd m n))"
  "hadd (X3 m) (X0 n) = X3 (hadd m n)" "hadd (X3 m) (X1 n) = X4 (hadd m n)"
  "hadd (X3 m) (X2 n) = X5 (hadd m n)" "hadd (X3 m) (X3 n) = X6 (hadd m n)"
  "hadd (X3 m) (X4 n) = X7 (hadd m n)" "hadd (X3 m) (X5 n) = X8 (hadd m n)"
  "hadd (X3 m) (X6 n) = X9 (hadd m n)" "hadd (X3 m) (X7 n) = XA (hadd m n)"
  "hadd (X3 m) (X8 n) = XB (hadd m n)" "hadd (X3 m) (X9 n) = XC (hadd m n)"
  "hadd (X3 m) (XA n) = XD (hadd m n)" "hadd (X3 m) (XB n) = XE (hadd m n)"
  "hadd (X3 m) (XC n) = XF (hadd m n)" "hadd (X3 m) (XD n) = X0 (hinc (hadd m n))"
  "hadd (X3 m) (XE n) = X1 (hinc (hadd m n))" "hadd (X3 m) (XF n) = X2 (hinc (hadd m n))"
  "hadd (X4 m) (X0 n) = X4 (hadd m n)" "hadd (X4 m) (X1 n) = X5 (hadd m n)"
  "hadd (X4 m) (X2 n) = X6 (hadd m n)" "hadd (X4 m) (X3 n) = X7 (hadd m n)"
  "hadd (X4 m) (X4 n) = X8 (hadd m n)" "hadd (X4 m) (X5 n) = X9 (hadd m n)"
  "hadd (X4 m) (X6 n) = XA (hadd m n)" "hadd (X4 m) (X7 n) = XB (hadd m n)"
  "hadd (X4 m) (X8 n) = XC (hadd m n)" "hadd (X4 m) (X9 n) = XD (hadd m n)"
  "hadd (X4 m) (XA n) = XE (hadd m n)" "hadd (X4 m) (XB n) = XF (hadd m n)"
  "hadd (X4 m) (XC n) = X0 (hinc (hadd m n))" "hadd (X4 m) (XD n) = X1 (hinc (hadd m n))"
  "hadd (X4 m) (XE n) = X2 (hinc (hadd m n))" "hadd (X4 m) (XF n) = X3 (hinc (hadd m n))"
  "hadd (X5 m) (X0 n) = X5 (hadd m n)" "hadd (X5 m) (X1 n) = X6 (hadd m n)"
  "hadd (X5 m) (X2 n) = X7 (hadd m n)" "hadd (X5 m) (X3 n) = X8 (hadd m n)"
  "hadd (X5 m) (X4 n) = X9 (hadd m n)" "hadd (X5 m) (X5 n) = XA (hadd m n)"
  "hadd (X5 m) (X6 n) = XB (hadd m n)" "hadd (X5 m) (X7 n) = XC (hadd m n)"
  "hadd (X5 m) (X8 n) = XD (hadd m n)" "hadd (X5 m) (X9 n) = XE (hadd m n)"
  "hadd (X5 m) (XA n) = XF (hadd m n)" "hadd (X5 m) (XB n) = X0 (hinc (hadd m n))"
  "hadd (X5 m) (XC n) = X1 (hinc (hadd m n))" "hadd (X5 m) (XD n) = X2 (hinc (hadd m n))"
  "hadd (X5 m) (XE n) = X3 (hinc (hadd m n))" "hadd (X5 m) (XF n) = X4 (hinc (hadd m n))"
  "hadd (X6 m) (X0 n) = X6 (hadd m n)" "hadd (X6 m) (X1 n) = X7 (hadd m n)"
  "hadd (X6 m) (X2 n) = X8 (hadd m n)" "hadd (X6 m) (X3 n) = X9 (hadd m n)"
  "hadd (X6 m) (X4 n) = XA (hadd m n)" "hadd (X6 m) (X5 n) = XB (hadd m n)"
  "hadd (X6 m) (X6 n) = XC (hadd m n)" "hadd (X6 m) (X7 n) = XD (hadd m n)"
  "hadd (X6 m) (X8 n) = XE (hadd m n)" "hadd (X6 m) (X9 n) = XF (hadd m n)"
  "hadd (X6 m) (XA n) = X0 (hinc (hadd m n))" "hadd (X6 m) (XB n) = X1 (hinc (hadd m n))"
  "hadd (X6 m) (XC n) = X2 (hinc (hadd m n))" "hadd (X6 m) (XD n) = X3 (hinc (hadd m n))"
  "hadd (X6 m) (XE n) = X4 (hinc (hadd m n))" "hadd (X6 m) (XF n) = X5 (hinc (hadd m n))"
  "hadd (X7 m) (X0 n) = X7 (hadd m n)" "hadd (X7 m) (X1 n) = X8 (hadd m n)"
  "hadd (X7 m) (X2 n) = X9 (hadd m n)" "hadd (X7 m) (X3 n) = XA (hadd m n)"
  "hadd (X7 m) (X4 n) = XB (hadd m n)" "hadd (X7 m) (X5 n) = XC (hadd m n)"
  "hadd (X7 m) (X6 n) = XD (hadd m n)" "hadd (X7 m) (X7 n) = XE (hadd m n)"
  "hadd (X7 m) (X8 n) = XF (hadd m n)" "hadd (X7 m) (X9 n) = X0 (hinc (hadd m n))"
  "hadd (X7 m) (XA n) = X1 (hinc (hadd m n))" "hadd (X7 m) (XB n) = X2 (hinc (hadd m n))"
  "hadd (X7 m) (XC n) = X3 (hinc (hadd m n))" "hadd (X7 m) (XD n) = X4 (hinc (hadd m n))"
  "hadd (X7 m) (XE n) = X5 (hinc (hadd m n))" "hadd (X7 m) (XF n) = X6 (hinc (hadd m n))"
  "hadd (X8 m) (X0 n) = X8 (hadd m n)" "hadd (X8 m) (X1 n) = X9 (hadd m n)"
  "hadd (X8 m) (X2 n) = XA (hadd m n)" "hadd (X8 m) (X3 n) = XB (hadd m n)"
  "hadd (X8 m) (X4 n) = XC (hadd m n)" "hadd (X8 m) (X5 n) = XD (hadd m n)"
  "hadd (X8 m) (X6 n) = XE (hadd m n)" "hadd (X8 m) (X7 n) = XF (hadd m n)"
  "hadd (X8 m) (X8 n) = X0 (hinc (hadd m n))" "hadd (X8 m) (X9 n) = X1 (hinc (hadd m n))"
  "hadd (X8 m) (XA n) = X2 (hinc (hadd m n))" "hadd (X8 m) (XB n) = X3 (hinc (hadd m n))"
  "hadd (X8 m) (XC n) = X4 (hinc (hadd m n))" "hadd (X8 m) (XD n) = X5 (hinc (hadd m n))"
  "hadd (X8 m) (XE n) = X6 (hinc (hadd m n))" "hadd (X8 m) (XF n) = X7 (hinc (hadd m n))"
  "hadd (X9 m) (X0 n) = X9 (hadd m n)" "hadd (X9 m) (X1 n) = XA (hadd m n)"
  "hadd (X9 m) (X2 n) = XB (hadd m n)" "hadd (X9 m) (X3 n) = XC (hadd m n)"
  "hadd (X9 m) (X4 n) = XD (hadd m n)" "hadd (X9 m) (X5 n) = XE (hadd m n)"
  "hadd (X9 m) (X6 n) = XF (hadd m n)" "hadd (X9 m) (X7 n) = X0 (hinc (hadd m n))"
  "hadd (X9 m) (X8 n) = X1 (hinc (hadd m n))" "hadd (X9 m) (X9 n) = X2 (hinc (hadd m n))"
  "hadd (X9 m) (XA n) = X3 (hinc (hadd m n))" "hadd (X9 m) (XB n) = X4 (hinc (hadd m n))"
  "hadd (X9 m) (XC n) = X5 (hinc (hadd m n))" "hadd (X9 m) (XD n) = X6 (hinc (hadd m n))"
  "hadd (X9 m) (XE n) = X7 (hinc (hadd m n))" "hadd (X9 m) (XF n) = X8 (hinc (hadd m n))"
  "hadd (XA m) (X0 n) = XA (hadd m n)" "hadd (XA m) (X1 n) = XB (hadd m n)"
  "hadd (XA m) (X2 n) = XC (hadd m n)" "hadd (XA m) (X3 n) = XD (hadd m n)"
  "hadd (XA m) (X4 n) = XE (hadd m n)" "hadd (XA m) (X5 n) = XF (hadd m n)"
  "hadd (XA m) (X6 n) = X0 (hinc (hadd m n))" "hadd (XA m) (X7 n) = X1 (hinc (hadd m n))"
  "hadd (XA m) (X8 n) = X2 (hinc (hadd m n))" "hadd (XA m) (X9 n) = X3 (hinc (hadd m n))"
  "hadd (XA m) (XA n) = X4 (hinc (hadd m n))" "hadd (XA m) (XB n) = X5 (hinc (hadd m n))"
  "hadd (XA m) (XC n) = X6 (hinc (hadd m n))" "hadd (XA m) (XD n) = X7 (hinc (hadd m n))"
  "hadd (XA m) (XE n) = X8 (hinc (hadd m n))" "hadd (XA m) (XF n) = X9 (hinc (hadd m n))"
  "hadd (XB m) (X0 n) = XB (hadd m n)" "hadd (XB m) (X1 n) = XC (hadd m n)"
  "hadd (XB m) (X2 n) = XD (hadd m n)" "hadd (XB m) (X3 n) = XE (hadd m n)"
  "hadd (XB m) (X4 n) = XF (hadd m n)" "hadd (XB m) (X5 n) = X0 (hinc (hadd m n))"
  "hadd (XB m) (X6 n) = X1 (hinc (hadd m n))" "hadd (XB m) (X7 n) = X2 (hinc (hadd m n))"
  "hadd (XB m) (X8 n) = X3 (hinc (hadd m n))" "hadd (XB m) (X9 n) = X4 (hinc (hadd m n))"
  "hadd (XB m) (XA n) = X5 (hinc (hadd m n))" "hadd (XB m) (XB n) = X6 (hinc (hadd m n))"
  "hadd (XB m) (XC n) = X7 (hinc (hadd m n))" "hadd (XB m) (XD n) = X8 (hinc (hadd m n))"
  "hadd (XB m) (XE n) = X9 (hinc (hadd m n))" "hadd (XB m) (XF n) = XA (hinc (hadd m n))"
  "hadd (XC m) (X0 n) = XC (hadd m n)" "hadd (XC m) (X1 n) = XD (hadd m n)"
  "hadd (XC m) (X2 n) = XE (hadd m n)" "hadd (XC m) (X3 n) = XF (hadd m n)"
  "hadd (XC m) (X4 n) = X0 (hinc (hadd m n))" "hadd (XC m) (X5 n) = X1 (hinc (hadd m n))"
  "hadd (XC m) (X6 n) = X2 (hinc (hadd m n))" "hadd (XC m) (X7 n) = X3 (hinc (hadd m n))"
  "hadd (XC m) (X8 n) = X4 (hinc (hadd m n))" "hadd (XC m) (X9 n) = X5 (hinc (hadd m n))"
  "hadd (XC m) (XA n) = X6 (hinc (hadd m n))" "hadd (XC m) (XB n) = X7 (hinc (hadd m n))"
  "hadd (XC m) (XC n) = X8 (hinc (hadd m n))" "hadd (XC m) (XD n) = X9 (hinc (hadd m n))"
  "hadd (XC m) (XE n) = XA (hinc (hadd m n))" "hadd (XC m) (XF n) = XB (hinc (hadd m n))"
  "hadd (XD m) (X0 n) = XD (hadd m n)" "hadd (XD m) (X1 n) = XE (hadd m n)"
  "hadd (XD m) (X2 n) = XF (hadd m n)" "hadd (XD m) (X3 n) = X0 (hinc (hadd m n))"
  "hadd (XD m) (X4 n) = X1 (hinc (hadd m n))" "hadd (XD m) (X5 n) = X2 (hinc (hadd m n))"
  "hadd (XD m) (X6 n) = X3 (hinc (hadd m n))" "hadd (XD m) (X7 n) = X4 (hinc (hadd m n))"
  "hadd (XD m) (X8 n) = X5 (hinc (hadd m n))" "hadd (XD m) (X9 n) = X6 (hinc (hadd m n))"
  "hadd (XD m) (XA n) = X7 (hinc (hadd m n))" "hadd (XD m) (XB n) = X8 (hinc (hadd m n))"
  "hadd (XD m) (XC n) = X9 (hinc (hadd m n))" "hadd (XD m) (XD n) = XA (hinc (hadd m n))"
  "hadd (XD m) (XE n) = XB (hinc (hadd m n))" "hadd (XD m) (XF n) = XC (hinc (hadd m n))"
  "hadd (XE m) (X0 n) = XE (hadd m n)" "hadd (XE m) (X1 n) = XF (hadd m n)"
  "hadd (XE m) (X2 n) = X0 (hinc (hadd m n))" "hadd (XE m) (X3 n) = X1 (hinc (hadd m n))"
  "hadd (XE m) (X4 n) = X2 (hinc (hadd m n))" "hadd (XE m) (X5 n) = X3 (hinc (hadd m n))"
  "hadd (XE m) (X6 n) = X4 (hinc (hadd m n))" "hadd (XE m) (X7 n) = X5 (hinc (hadd m n))"
  "hadd (XE m) (X8 n) = X6 (hinc (hadd m n))" "hadd (XE m) (X9 n) = X7 (hinc (hadd m n))"
  "hadd (XE m) (XA n) = X8 (hinc (hadd m n))" "hadd (XE m) (XB n) = X9 (hinc (hadd m n))"
  "hadd (XE m) (XC n) = XA (hinc (hadd m n))" "hadd (XE m) (XD n) = XB (hinc (hadd m n))"
  "hadd (XE m) (XE n) = XC (hinc (hadd m n))" "hadd (XE m) (XF n) = XD (hinc (hadd m n))"
  "hadd (XF m) (X0 n) = XF (hadd m n)" "hadd (XF m) (X1 n) = X0 (hinc (hadd m n))"
  "hadd (XF m) (X2 n) = X1 (hinc (hadd m n))" "hadd (XF m) (X3 n) = X2 (hinc (hadd m n))"
  "hadd (XF m) (X4 n) = X3 (hinc (hadd m n))" "hadd (XF m) (X5 n) = X4 (hinc (hadd m n))"
  "hadd (XF m) (X6 n) = X5 (hinc (hadd m n))" "hadd (XF m) (X7 n) = X6 (hinc (hadd m n))"
  "hadd (XF m) (X8 n) = X7 (hinc (hadd m n))" "hadd (XF m) (X9 n) = X8 (hinc (hadd m n))"
  "hadd (XF m) (XA n) = X9 (hinc (hadd m n))" "hadd (XF m) (XB n) = XA (hinc (hadd m n))"
  "hadd (XF m) (XC n) = XB (hinc (hadd m n))" "hadd (XF m) (XD n) = XC (hinc (hadd m n))"
  "hadd (XF m) (XE n) = XD (hinc (hadd m n))" "hadd (XF m) (XF n) = XE (hinc (hadd m n))"
  by (simp_all add: hadd_digit digit_simps)

section \<open>Multiplication\<close>

text \<open>The product, from the multiples \<open>n, 2n, \<dots>, 15n\<close> of the second factor.\<close>

primrec hmul_by :: "hex \<Rightarrow> hex \<Rightarrow> hex \<Rightarrow> hex \<Rightarrow> hex \<Rightarrow> hex \<Rightarrow> hex \<Rightarrow> hex \<Rightarrow> hex \<Rightarrow> hex \<Rightarrow> hex \<Rightarrow> hex \<Rightarrow> hex \<Rightarrow> hex \<Rightarrow> hex \<Rightarrow> hex \<Rightarrow> hex" where
  "hmul_by XZ n1 n2 n3 n4 n5 n6 n7 n8 n9 n10 n11 n12 n13 n14 n15 = XZ"
| "hmul_by (X0 m) n1 n2 n3 n4 n5 n6 n7 n8 n9 n10 n11 n12 n13 n14 n15
     = X0 (hmul_by m n1 n2 n3 n4 n5 n6 n7 n8 n9 n10 n11 n12 n13 n14 n15)"
| "hmul_by (X1 m) n1 n2 n3 n4 n5 n6 n7 n8 n9 n10 n11 n12 n13 n14 n15
     = hadd (X0 (hmul_by m n1 n2 n3 n4 n5 n6 n7 n8 n9 n10 n11 n12 n13 n14 n15)) n1"
| "hmul_by (X2 m) n1 n2 n3 n4 n5 n6 n7 n8 n9 n10 n11 n12 n13 n14 n15
     = hadd (X0 (hmul_by m n1 n2 n3 n4 n5 n6 n7 n8 n9 n10 n11 n12 n13 n14 n15)) n2"
| "hmul_by (X3 m) n1 n2 n3 n4 n5 n6 n7 n8 n9 n10 n11 n12 n13 n14 n15
     = hadd (X0 (hmul_by m n1 n2 n3 n4 n5 n6 n7 n8 n9 n10 n11 n12 n13 n14 n15)) n3"
| "hmul_by (X4 m) n1 n2 n3 n4 n5 n6 n7 n8 n9 n10 n11 n12 n13 n14 n15
     = hadd (X0 (hmul_by m n1 n2 n3 n4 n5 n6 n7 n8 n9 n10 n11 n12 n13 n14 n15)) n4"
| "hmul_by (X5 m) n1 n2 n3 n4 n5 n6 n7 n8 n9 n10 n11 n12 n13 n14 n15
     = hadd (X0 (hmul_by m n1 n2 n3 n4 n5 n6 n7 n8 n9 n10 n11 n12 n13 n14 n15)) n5"
| "hmul_by (X6 m) n1 n2 n3 n4 n5 n6 n7 n8 n9 n10 n11 n12 n13 n14 n15
     = hadd (X0 (hmul_by m n1 n2 n3 n4 n5 n6 n7 n8 n9 n10 n11 n12 n13 n14 n15)) n6"
| "hmul_by (X7 m) n1 n2 n3 n4 n5 n6 n7 n8 n9 n10 n11 n12 n13 n14 n15
     = hadd (X0 (hmul_by m n1 n2 n3 n4 n5 n6 n7 n8 n9 n10 n11 n12 n13 n14 n15)) n7"
| "hmul_by (X8 m) n1 n2 n3 n4 n5 n6 n7 n8 n9 n10 n11 n12 n13 n14 n15
     = hadd (X0 (hmul_by m n1 n2 n3 n4 n5 n6 n7 n8 n9 n10 n11 n12 n13 n14 n15)) n8"
| "hmul_by (X9 m) n1 n2 n3 n4 n5 n6 n7 n8 n9 n10 n11 n12 n13 n14 n15
     = hadd (X0 (hmul_by m n1 n2 n3 n4 n5 n6 n7 n8 n9 n10 n11 n12 n13 n14 n15)) n9"
| "hmul_by (XA m) n1 n2 n3 n4 n5 n6 n7 n8 n9 n10 n11 n12 n13 n14 n15
     = hadd (X0 (hmul_by m n1 n2 n3 n4 n5 n6 n7 n8 n9 n10 n11 n12 n13 n14 n15)) n10"
| "hmul_by (XB m) n1 n2 n3 n4 n5 n6 n7 n8 n9 n10 n11 n12 n13 n14 n15
     = hadd (X0 (hmul_by m n1 n2 n3 n4 n5 n6 n7 n8 n9 n10 n11 n12 n13 n14 n15)) n11"
| "hmul_by (XC m) n1 n2 n3 n4 n5 n6 n7 n8 n9 n10 n11 n12 n13 n14 n15
     = hadd (X0 (hmul_by m n1 n2 n3 n4 n5 n6 n7 n8 n9 n10 n11 n12 n13 n14 n15)) n12"
| "hmul_by (XD m) n1 n2 n3 n4 n5 n6 n7 n8 n9 n10 n11 n12 n13 n14 n15
     = hadd (X0 (hmul_by m n1 n2 n3 n4 n5 n6 n7 n8 n9 n10 n11 n12 n13 n14 n15)) n13"
| "hmul_by (XE m) n1 n2 n3 n4 n5 n6 n7 n8 n9 n10 n11 n12 n13 n14 n15
     = hadd (X0 (hmul_by m n1 n2 n3 n4 n5 n6 n7 n8 n9 n10 n11 n12 n13 n14 n15)) n14"
| "hmul_by (XF m) n1 n2 n3 n4 n5 n6 n7 n8 n9 n10 n11 n12 n13 n14 n15
     = hadd (X0 (hmul_by m n1 n2 n3 n4 n5 n6 n7 n8 n9 n10 n11 n12 n13 n14 n15)) n15"

lemma hval_hmul_by:
  assumes "hval n2 = 2 * hval n1" "hval n3 = 3 * hval n1" "hval n4 = 4 * hval n1" "hval n5 = 5 * hval n1" "hval n6 = 6 * hval n1" "hval n7 = 7 * hval n1" "hval n8 = 8 * hval n1" "hval n9 = 9 * hval n1" "hval n10 = 10 * hval n1" "hval n11 = 11 * hval n1" "hval n12 = 12 * hval n1" "hval n13 = 13 * hval n1" "hval n14 = 14 * hval n1" "hval n15 = 15 * hval n1"
  shows "hval (hmul_by m n1 n2 n3 n4 n5 n6 n7 n8 n9 n10 n11 n12 n13 n14 n15) = hval m * hval n1"
  by (induction m) (simp_all add: assms hval_hadd algebra_simps)

definition hmul_8 :: "hex \<Rightarrow> hex \<Rightarrow> hex \<Rightarrow> hex \<Rightarrow> hex \<Rightarrow> hex \<Rightarrow> hex \<Rightarrow> hex \<Rightarrow> hex \<Rightarrow> hex" where
  "hmul_8 m n1 n2 n3 n4 n5 n6 n7 n8 = hmul_by m n1 n2 n3 n4 n5 n6 n7 n8
     (hadd n8 n1) (hadd n8 n2) (hadd n8 n3) (hadd n8 n4) (hadd n8 n5) (hadd n8 n6) (hadd n8 n7)"

definition hmul_4 :: "hex \<Rightarrow> hex \<Rightarrow> hex \<Rightarrow> hex \<Rightarrow> hex \<Rightarrow> hex" where
  "hmul_4 m n1 n2 n3 n4 = hmul_8 m n1 n2 n3 n4 (hadd n4 n1) (hadd n4 n2) (hadd n4 n3) (hadd n4 n4)"

definition hmul_2 :: "hex \<Rightarrow> hex \<Rightarrow> hex \<Rightarrow> hex" where
  "hmul_2 m n1 n2 = hmul_4 m n1 n2 (hadd n2 n1) (hadd n2 n2)"

definition hmul :: "hex \<Rightarrow> hex \<Rightarrow> hex" where
  "hmul m n = hmul_2 m n (hadd n n)"

lemma hval_hmul: "hval (hmul m n) = hval m * hval n"
  unfolding hmul_def hmul_2_def hmul_4_def hmul_8_def by (rule hval_hmul_by) (simp_all add: hval_hadd)

section \<open>Numerals of Isabelle\<close>

function hex_of :: "nat \<Rightarrow> hex" where
  "hex_of n = (if n = 0 then XZ else digit (n mod 16) (hex_of (n div 16)))"
  by auto
termination by (relation "measure id") auto

declare hex_of.simps [simp del]

lemma hval_hex_of: "hval (hex_of n) = n"
  by (induction n rule: hex_of.induct) (subst hex_of.simps, simp add: hval_digit)

lemma hex_of_digit: "0 < n \<Longrightarrow> k < 16 \<Longrightarrow> hex_of (k + 16 * n) = digit k (hex_of n)"
  by (subst hex_of.simps) simp

lemma hex_of_small: "0 < k \<Longrightarrow> k < 16 \<Longrightarrow> hex_of k = digit k XZ"
  by (subst hex_of.simps) (simp add: hex_of.simps)

lemma hex_of_rules:
  "hex_of 0 = XZ" "hex_of 1 = X1 XZ" "hex_of (numeral num.One) = X1 XZ"
  "hex_of (numeral (num.Bit0 num.One)) = X2 XZ" "hex_of (numeral (num.Bit1 num.One)) = X3 XZ"
  "hex_of (numeral (num.Bit0 (num.Bit0 num.One))) = X4 XZ" "hex_of (numeral (num.Bit1 (num.Bit0 num.One))) = X5 XZ"
  "hex_of (numeral (num.Bit0 (num.Bit1 num.One))) = X6 XZ" "hex_of (numeral (num.Bit1 (num.Bit1 num.One))) = X7 XZ"
  "hex_of (numeral (num.Bit0 (num.Bit0 (num.Bit0 num.One)))) = X8 XZ" "hex_of (numeral (num.Bit1 (num.Bit0 (num.Bit0 num.One)))) = X9 XZ"
  "hex_of (numeral (num.Bit0 (num.Bit1 (num.Bit0 num.One)))) = XA XZ" "hex_of (numeral (num.Bit1 (num.Bit1 (num.Bit0 num.One)))) = XB XZ"
  "hex_of (numeral (num.Bit0 (num.Bit0 (num.Bit1 num.One)))) = XC XZ" "hex_of (numeral (num.Bit1 (num.Bit0 (num.Bit1 num.One)))) = XD XZ"
  "hex_of (numeral (num.Bit0 (num.Bit1 (num.Bit1 num.One)))) = XE XZ" "hex_of (numeral (num.Bit1 (num.Bit1 (num.Bit1 num.One)))) = XF XZ"
  "hex_of (numeral (num.Bit0 (num.Bit0 (num.Bit0 (num.Bit0 m))))) = X0 (hex_of (numeral m))"
  "hex_of (numeral (num.Bit1 (num.Bit0 (num.Bit0 (num.Bit0 m))))) = X1 (hex_of (numeral m))"
  "hex_of (numeral (num.Bit0 (num.Bit1 (num.Bit0 (num.Bit0 m))))) = X2 (hex_of (numeral m))"
  "hex_of (numeral (num.Bit1 (num.Bit1 (num.Bit0 (num.Bit0 m))))) = X3 (hex_of (numeral m))"
  "hex_of (numeral (num.Bit0 (num.Bit0 (num.Bit1 (num.Bit0 m))))) = X4 (hex_of (numeral m))"
  "hex_of (numeral (num.Bit1 (num.Bit0 (num.Bit1 (num.Bit0 m))))) = X5 (hex_of (numeral m))"
  "hex_of (numeral (num.Bit0 (num.Bit1 (num.Bit1 (num.Bit0 m))))) = X6 (hex_of (numeral m))"
  "hex_of (numeral (num.Bit1 (num.Bit1 (num.Bit1 (num.Bit0 m))))) = X7 (hex_of (numeral m))"
  "hex_of (numeral (num.Bit0 (num.Bit0 (num.Bit0 (num.Bit1 m))))) = X8 (hex_of (numeral m))"
  "hex_of (numeral (num.Bit1 (num.Bit0 (num.Bit0 (num.Bit1 m))))) = X9 (hex_of (numeral m))"
  "hex_of (numeral (num.Bit0 (num.Bit1 (num.Bit0 (num.Bit1 m))))) = XA (hex_of (numeral m))"
  "hex_of (numeral (num.Bit1 (num.Bit1 (num.Bit0 (num.Bit1 m))))) = XB (hex_of (numeral m))"
  "hex_of (numeral (num.Bit0 (num.Bit0 (num.Bit1 (num.Bit1 m))))) = XC (hex_of (numeral m))"
  "hex_of (numeral (num.Bit1 (num.Bit0 (num.Bit1 (num.Bit1 m))))) = XD (hex_of (numeral m))"
  "hex_of (numeral (num.Bit0 (num.Bit1 (num.Bit1 (num.Bit1 m))))) = XE (hex_of (numeral m))"
  "hex_of (numeral (num.Bit1 (num.Bit1 (num.Bit1 (num.Bit1 m))))) = XF (hex_of (numeral m))"
proof -
  show "hex_of 0 = XZ" by (simp add: hex_of.simps)
  show "hex_of 1 = X1 XZ" "hex_of (numeral num.One) = X1 XZ" by (simp_all add: hex_of_small digit_simps)
  have "x + x + (x + x) + (x + x + (x + x)) + (x + x + (x + x) + (x + x + (x + x))) = 16 * x" for x :: nat by simp
  then have z: "numeral (num.Bit0 (num.Bit0 (num.Bit0 (num.Bit0 m)))) = 16 * (numeral m :: nat)"
    unfolding numeral_Bit0 [of m] numeral_Bit0 [of "num.Bit0 m"] numeral_Bit0 [of "num.Bit0 (num.Bit0 m)"]
      numeral_Bit0 [of "num.Bit0 (num.Bit0 (num.Bit0 m))"] .
  have d: "hex_of (k + numeral (num.Bit0 (num.Bit0 (num.Bit0 (num.Bit0 m))))) = digit k (hex_of (numeral m))" if "k < 16" for k
    unfolding z by (rule hex_of_digit) (simp_all add: that)
  show "hex_of (numeral (num.Bit0 num.One)) = X2 XZ" using hex_of_small [of 2] by (simp add: digit_simps)
  show "hex_of (numeral (num.Bit1 num.One)) = X3 XZ" using hex_of_small [of 3] by (simp add: digit_simps)
  show "hex_of (numeral (num.Bit0 (num.Bit0 num.One))) = X4 XZ" using hex_of_small [of 4] by (simp add: digit_simps)
  show "hex_of (numeral (num.Bit1 (num.Bit0 num.One))) = X5 XZ" using hex_of_small [of 5] by (simp add: digit_simps)
  show "hex_of (numeral (num.Bit0 (num.Bit1 num.One))) = X6 XZ" using hex_of_small [of 6] by (simp add: digit_simps)
  show "hex_of (numeral (num.Bit1 (num.Bit1 num.One))) = X7 XZ" using hex_of_small [of 7] by (simp add: digit_simps)
  show "hex_of (numeral (num.Bit0 (num.Bit0 (num.Bit0 num.One)))) = X8 XZ" using hex_of_small [of 8] by (simp add: digit_simps)
  show "hex_of (numeral (num.Bit1 (num.Bit0 (num.Bit0 num.One)))) = X9 XZ" using hex_of_small [of 9] by (simp add: digit_simps)
  show "hex_of (numeral (num.Bit0 (num.Bit1 (num.Bit0 num.One)))) = XA XZ" using hex_of_small [of 10] by (simp add: digit_simps)
  show "hex_of (numeral (num.Bit1 (num.Bit1 (num.Bit0 num.One)))) = XB XZ" using hex_of_small [of 11] by (simp add: digit_simps)
  show "hex_of (numeral (num.Bit0 (num.Bit0 (num.Bit1 num.One)))) = XC XZ" using hex_of_small [of 12] by (simp add: digit_simps)
  show "hex_of (numeral (num.Bit1 (num.Bit0 (num.Bit1 num.One)))) = XD XZ" using hex_of_small [of 13] by (simp add: digit_simps)
  show "hex_of (numeral (num.Bit0 (num.Bit1 (num.Bit1 num.One)))) = XE XZ" using hex_of_small [of 14] by (simp add: digit_simps)
  show "hex_of (numeral (num.Bit1 (num.Bit1 (num.Bit1 num.One)))) = XF XZ" using hex_of_small [of 15] by (simp add: digit_simps)
  show "hex_of (numeral (num.Bit0 (num.Bit0 (num.Bit0 (num.Bit0 m))))) = X0 (hex_of (numeral m))"
    using d [of 0] by (simp add: digit_simps)
  show "hex_of (numeral (num.Bit1 (num.Bit0 (num.Bit0 (num.Bit0 m))))) = X1 (hex_of (numeral m))"
    using d [of 1] by (simp add: digit_simps)
  show "hex_of (numeral (num.Bit0 (num.Bit1 (num.Bit0 (num.Bit0 m))))) = X2 (hex_of (numeral m))"
    using d [of 2] by (simp add: digit_simps)
  show "hex_of (numeral (num.Bit1 (num.Bit1 (num.Bit0 (num.Bit0 m))))) = X3 (hex_of (numeral m))"
    using d [of 3] by (simp add: digit_simps)
  show "hex_of (numeral (num.Bit0 (num.Bit0 (num.Bit1 (num.Bit0 m))))) = X4 (hex_of (numeral m))"
    using d [of 4] by (simp add: digit_simps)
  show "hex_of (numeral (num.Bit1 (num.Bit0 (num.Bit1 (num.Bit0 m))))) = X5 (hex_of (numeral m))"
    using d [of 5] by (simp add: digit_simps)
  show "hex_of (numeral (num.Bit0 (num.Bit1 (num.Bit1 (num.Bit0 m))))) = X6 (hex_of (numeral m))"
    using d [of 6] by (simp add: digit_simps)
  show "hex_of (numeral (num.Bit1 (num.Bit1 (num.Bit1 (num.Bit0 m))))) = X7 (hex_of (numeral m))"
    using d [of 7] by (simp add: digit_simps)
  show "hex_of (numeral (num.Bit0 (num.Bit0 (num.Bit0 (num.Bit1 m))))) = X8 (hex_of (numeral m))"
    using d [of 8] by (simp add: digit_simps)
  show "hex_of (numeral (num.Bit1 (num.Bit0 (num.Bit0 (num.Bit1 m))))) = X9 (hex_of (numeral m))"
    using d [of 9] by (simp add: digit_simps)
  show "hex_of (numeral (num.Bit0 (num.Bit1 (num.Bit0 (num.Bit1 m))))) = XA (hex_of (numeral m))"
    using d [of 10] by (simp add: digit_simps)
  show "hex_of (numeral (num.Bit1 (num.Bit1 (num.Bit0 (num.Bit1 m))))) = XB (hex_of (numeral m))"
    using d [of 11] by (simp add: digit_simps)
  show "hex_of (numeral (num.Bit0 (num.Bit0 (num.Bit1 (num.Bit1 m))))) = XC (hex_of (numeral m))"
    using d [of 12] by (simp add: digit_simps)
  show "hex_of (numeral (num.Bit1 (num.Bit0 (num.Bit1 (num.Bit1 m))))) = XD (hex_of (numeral m))"
    using d [of 13] by (simp add: digit_simps)
  show "hex_of (numeral (num.Bit0 (num.Bit1 (num.Bit1 (num.Bit1 m))))) = XE (hex_of (numeral m))"
    using d [of 14] by (simp add: digit_simps)
  show "hex_of (numeral (num.Bit1 (num.Bit1 (num.Bit1 (num.Bit1 m))))) = XF (hex_of (numeral m))"
    using d [of 15] by (simp add: digit_simps)
qed

section \<open>Parts and comparisons\<close>

text \<open>The first argument is a ruler: the digits of the second are counted along it.\<close>

fun hlow :: "hex \<Rightarrow> hex \<Rightarrow> hex" where
  "hlow (X0 r) m = (if m = XZ then XZ else digit (low m) (hlow r (high m)))"
| "hlow r m = XZ"

fun hhigh :: "hex \<Rightarrow> hex \<Rightarrow> hex" where
  "hhigh (X0 r) m = hhigh r (high m)"
| "hhigh r m = m"

fun ruler :: "nat \<Rightarrow> hex" where
  "ruler 0 = XZ"
| "ruler (Suc n) = X0 (ruler n)"

lemma hval_parts: "hval (hlow (ruler n) m) + 16 ^ n * hval (hhigh (ruler n) m) = hval m"
proof (induction n arbitrary: m)
  case (Suc n)
  show ?case
    using Suc [of "high m"] hval_split [of m] low_less [of m]
    by (cases "m = XZ") (simp_all add: hval_digit algebra_simps)
qed simp

lemma parts_rules:
  "hlow XZ m = XZ" "hlow (X0 r) XZ = XZ" "hhigh XZ m = m" "hhigh (X0 r) XZ = hhigh r XZ"
  "hlow (X0 r) (X0 m) = X0 (hlow r m)" "hlow (X0 r) (X1 m) = X1 (hlow r m)"
  "hlow (X0 r) (X2 m) = X2 (hlow r m)" "hlow (X0 r) (X3 m) = X3 (hlow r m)"
  "hlow (X0 r) (X4 m) = X4 (hlow r m)" "hlow (X0 r) (X5 m) = X5 (hlow r m)"
  "hlow (X0 r) (X6 m) = X6 (hlow r m)" "hlow (X0 r) (X7 m) = X7 (hlow r m)"
  "hlow (X0 r) (X8 m) = X8 (hlow r m)" "hlow (X0 r) (X9 m) = X9 (hlow r m)"
  "hlow (X0 r) (XA m) = XA (hlow r m)" "hlow (X0 r) (XB m) = XB (hlow r m)"
  "hlow (X0 r) (XC m) = XC (hlow r m)" "hlow (X0 r) (XD m) = XD (hlow r m)"
  "hlow (X0 r) (XE m) = XE (hlow r m)" "hlow (X0 r) (XF m) = XF (hlow r m)"
  "hhigh (X0 r) (X0 m) = hhigh r m" "hhigh (X0 r) (X1 m) = hhigh r m" "hhigh (X0 r) (X2 m) = hhigh r m"
  "hhigh (X0 r) (X3 m) = hhigh r m" "hhigh (X0 r) (X4 m) = hhigh r m" "hhigh (X0 r) (X5 m) = hhigh r m"
  "hhigh (X0 r) (X6 m) = hhigh r m" "hhigh (X0 r) (X7 m) = hhigh r m" "hhigh (X0 r) (X8 m) = hhigh r m"
  "hhigh (X0 r) (X9 m) = hhigh r m" "hhigh (X0 r) (XA m) = hhigh r m" "hhigh (X0 r) (XB m) = hhigh r m"
  "hhigh (X0 r) (XC m) = hhigh r m" "hhigh (X0 r) (XD m) = hhigh r m" "hhigh (X0 r) (XE m) = hhigh r m"
  "hhigh (X0 r) (XF m) = hhigh r m"
  by (simp_all add: digit_simps)

text \<open>Whether a numeral is \<open>16 ^ n - 1\<close>, along a ruler.\<close>

fun all_F :: "hex \<Rightarrow> hex \<Rightarrow> bool" where
  "all_F (X0 r) m \<longleftrightarrow> m \<noteq> XZ \<and> low m = 15 \<and> all_F r (high m)"
| "all_F r m \<longleftrightarrow> m = XZ"

lemma hval_all_F: "all_F (ruler n) m \<Longrightarrow> hval m + 1 = 16 ^ n"
proof (induction n arbitrary: m)
  case (Suc n)
  then show ?case using hval_split [of m] by fastforce
qed simp

lemma all_F_rules:
  "all_F XZ XZ = True" "all_F (X0 r) XZ = False"
  "all_F XZ (X0 m) = False" "all_F XZ (X1 m) = False" "all_F XZ (X2 m) = False"
  "all_F XZ (X3 m) = False" "all_F XZ (X4 m) = False" "all_F XZ (X5 m) = False"
  "all_F XZ (X6 m) = False" "all_F XZ (X7 m) = False" "all_F XZ (X8 m) = False"
  "all_F XZ (X9 m) = False" "all_F XZ (XA m) = False" "all_F XZ (XB m) = False"
  "all_F XZ (XC m) = False" "all_F XZ (XD m) = False" "all_F XZ (XE m) = False"
  "all_F XZ (XF m) = False"
  "all_F (X0 r) (X0 m) = False" "all_F (X0 r) (X1 m) = False" "all_F (X0 r) (X2 m) = False"
  "all_F (X0 r) (X3 m) = False" "all_F (X0 r) (X4 m) = False" "all_F (X0 r) (X5 m) = False"
  "all_F (X0 r) (X6 m) = False" "all_F (X0 r) (X7 m) = False" "all_F (X0 r) (X8 m) = False"
  "all_F (X0 r) (X9 m) = False" "all_F (X0 r) (XA m) = False" "all_F (X0 r) (XB m) = False"
  "all_F (X0 r) (XC m) = False" "all_F (X0 r) (XD m) = False" "all_F (X0 r) (XE m) = False"
  "all_F (X0 r) (XF m) = all_F r m"
  by simp_all

lemmas hex_rules = hadd_end hadd_rules hinc.simps hmul_by.simps hmul_8_def hmul_4_def hmul_2_def hmul_def
  hex_of_rules parts_rules all_F_rules

end
