(* ===== verification/Prime_Cert.thy ===== *)
theory Prime_Cert
  imports Fast_Nat Complex_Main
begin

text \<open>
  Primality from the factors of \<open>n - 1\<close>: Fermat's theorem, and Pocklington's criterion, by which a number
  is prime when enough is known of the factors of its predecessor. The powers it asks for are
  chains of squarings that the simplifier checks.
\<close>

section \<open>Primes\<close>

definition is_prime :: "nat \<Rightarrow> bool" where
  "is_prime p \<longleftrightarrow> 1 < p \<and> (\<forall>d. d dvd p \<longrightarrow> d = 1 \<or> d = p)"

lemma prime_coprime: "is_prime p \<Longrightarrow> \<not> p dvd a \<Longrightarrow> coprime p a"
  unfolding is_prime_def coprime_iff_gcd_eq_1 by (metis gcd_dvd1 gcd_dvd2)

lemma prime_dvd_mult: "is_prime p \<Longrightarrow> p dvd a * b \<longleftrightarrow> p dvd a \<or> p dvd b"
  using prime_coprime [of p a] coprime_dvd_mult_right_iff [of p a b] by auto

lemma prime_divisor:
  assumes "1 < n"
  shows "\<exists>q. is_prime q \<and> q dvd n"
  using assms
proof (induction n rule: less_induct)
  case (less n)
  show ?case
  proof (cases "is_prime n")
    case False
    then obtain d where d: "d dvd n" "d \<noteq> 1" "d \<noteq> n" using less.prems by (auto simp: is_prime_def)
    then have "d < n" "1 < d" using less.prems dvd_imp_le [of d n] by (auto intro: Suc_lessI dvd_pos_nat)
    then show ?thesis using less.IH [of d] d(1) by (blast intro: dvd_trans)
  qed (use dvd_refl in blast)
qed

lemma small_divisor:
  assumes "1 < n" "\<not> is_prime n"
  shows "\<exists>q. is_prime q \<and> q dvd n \<and> q * q \<le> n"
proof -
  obtain d where d: "d dvd n" "d \<noteq> 1" "d \<noteq> n" using assms by (auto simp: is_prime_def)
  then obtain e where e: "n = d * e" by (auto elim: dvdE)
  have de: "1 < d" "1 < e" using d e assms(1) by (auto intro!: Suc_lessI Nat.gr0I)
  have "\<exists>c. 1 < c \<and> c dvd n \<and> c * c \<le> n"
  proof (cases "d \<le> e")
    case True then show ?thesis using d e de by (intro exI [of _ d]) simp
  next
    case False then show ?thesis using e de by (intro exI [of _ e]) simp
  qed
  then obtain c where c: "1 < c" "c dvd n" "c * c \<le> n" by blast
  obtain q where q: "is_prime q" "q dvd c" using prime_divisor [OF c(1)] by blast
  then have "q \<le> c" using c(1) by (simp add: dvd_imp_le)
  then have "q * q \<le> n" using c(3) mult_le_mono by (blast intro: le_trans)
  then show ?thesis using q c(2) by (blast intro: dvd_trans)
qed

text \<open>A number is prime when nothing up to its root divides it.\<close>

lemma prime_by_trial:
  assumes "1 < n" "n < k * k" "list_all (\<lambda>d. n mod d \<noteq> 0) [2..<k]"
  shows "is_prime n"
proof (rule ccontr)
  assume "\<not> is_prime n"
  then obtain q where q: "is_prime q" "q dvd n" "q * q \<le> n" using small_divisor assms(1) by blast
  have "q < k"
  proof (rule ccontr)
    assume "\<not> q < k"
    then have "k * k \<le> q * q" by (intro mult_le_mono) simp_all
    then show False using q(3) assms(2) by simp
  qed
  then have "q \<in> set [2..<k]" using q(1) by (simp add: is_prime_def)
  then have "n mod q \<noteq> 0" using assms(3) unfolding list_all_iff by blast
  then show False using q(2) by (simp add: dvd_eq_mod_eq_0)
qed

section \<open>Fermat's theorem\<close>

lemma prime_dvd_choose:
  assumes "is_prime p" "0 < k" "k < p"
  shows "p dvd (p choose k)"
proof -
  obtain j where j: "k = Suc j" using assms(2) by (cases k) auto
  have "k * (p choose k) = p * ((p - 1) choose j)" unfolding j by (rule binomial_absorption)
  then have "p dvd k * (p choose k)" by simp
  moreover have "\<not> p dvd k" using assms(2,3) by (auto dest: dvd_imp_le)
  ultimately show ?thesis using prime_dvd_mult [OF assms(1)] by blast
qed

lemma fermat:
  assumes "is_prime p"
  shows "a ^ p mod p = a mod p"
proof (induction a)
  case 0 then show ?case using assms by (simp add: is_prime_def power_0_left)
next
  case (Suc a)
  have p: "0 < p" using assms by (simp add: is_prime_def)
  have "(a + 1) ^ p = (\<Sum>k\<le>p. (p choose k) * a ^ k)"
    using binomial [of a 1 p] by simp
  also have "{..p} = insert 0 (insert p {0<..<p})" using p by auto
  also have "(\<Sum>k\<in>insert 0 (insert p {0<..<p}). (p choose k) * a ^ k) = 1 + (a ^ p + (\<Sum>k\<in>{0<..<p}. (p choose k) * a ^ k))"
    using p by simp
  finally have e: "Suc a ^ p = 1 + (a ^ p + (\<Sum>k\<in>{0<..<p}. (p choose k) * a ^ k))" by simp
  have "p dvd (\<Sum>k\<in>{0<..<p}. (p choose k) * a ^ k)"
    by (rule dvd_sum) (use prime_dvd_choose [OF assms] in auto)
  then have "Suc a ^ p mod p = (1 + a ^ p) mod p" unfolding e by (auto elim!: dvdE simp flip: add.assoc)
  also have "\<dots> = (1 + a) mod p" using Suc by (metis mod_add_right_eq)
  finally show ?case by simp
qed

lemma fermat_power:
  assumes "is_prime p" "\<not> p dvd a"
  shows "a ^ (p - 1) mod p = 1"
proof -
  have p: "1 < p" using assms(1) by (simp add: is_prime_def)
  have a: "0 < a" using assms(2) by (auto intro: Nat.gr0I)
  have "a * a ^ (p - 1) mod p = a mod p" using fermat [OF assms(1), of a] p by (simp flip: power_Suc)
  then have "p dvd a * a ^ (p - 1) - a" using a by (subst (asm) mod_eq_dvd_iff_nat) simp_all
  then have "p dvd a * (a ^ (p - 1) - 1)" by (simp add: diff_mult_distrib2)
  then have "p dvd a ^ (p - 1) - 1" using assms prime_dvd_mult by blast
  then have "a ^ (p - 1) mod p = 1 mod p" using a by (subst mod_eq_dvd_iff_nat) simp_all
  then show ?thesis using p by simp
qed

text \<open>Two exponents of one: their greatest common divisor is a third.\<close>

lemma power_mod_one: "a ^ m mod r = 1 mod r \<Longrightarrow> a ^ (m * k) mod r = 1 mod r" for a r :: nat
  by (metis power_mod power_mult power_one)

lemma power_gcd_one:
  fixes a m n r :: nat
  assumes "a ^ m mod r = 1 mod r" "a ^ n mod r = 1 mod r" "0 < m"
  shows "a ^ gcd m n mod r = 1 mod r"
proof -
  obtain x y where xy: "m * x = n * y + gcd m n" using bezout_nat [of m n] assms(3) by auto
  have "a ^ gcd m n mod r = (a ^ (n * y) mod r) * a ^ gcd m n mod r"
    using power_mod_one [OF assms(2), of y] by (metis mod_mult_left_eq mult_1)
  also have "\<dots> = a ^ (m * x) mod r" unfolding xy power_add by (simp add: mod_mult_left_eq)
  finally show ?thesis using power_mod_one [OF assms(1), of x] by simp
qed

section \<open>Pocklington's criterion\<close>

text \<open>The witness for one prime factor \<open>q\<close> of \<open>n - 1\<close>: \<open>b\<close> is the power \<open>a ^ ((n - 1) div q)\<close>, and \<open>s\<close> shows that \<open>b - 1\<close> is a unit.\<close>

definition pocklington :: "nat \<Rightarrow> nat \<Rightarrow> nat \<Rightarrow> bool" where
  "pocklington n q m \<longleftrightarrow> is_prime q \<and> n = q * m + 1 \<and>
     (\<exists>a b s. a ^ m mod n = b \<and> b ^ q mod n = 1 \<and> (b - 1) * s mod n = 1)"

lemma pocklington_factor:
  assumes "pocklington n q m" "is_prime r" "r dvd n"
  shows "q dvd r - 1"
proof (rule ccontr)
  assume nq: "\<not> q dvd r - 1"
  obtain a b s where w: "is_prime q" "n = q * m + 1" "a ^ m mod n = b" "b ^ q mod n = 1" "(b - 1) * s mod n = 1"
    using assms(1) by (auto simp: pocklington_def)
  have r: "1 < r" using assms(2) by (simp add: is_prime_def)
  have n: "1 < n" using assms(3) r w(2) by (cases "n = 1") auto
  have red: "x mod r = y mod r" if "x mod n = y mod n" for x y
    using that assms(3) by (metis mod_mod_cancel)
  have m: "a ^ (m * q) mod r = 1 mod r"
    using red [of "a ^ (m * q)" 1] w(3,4) n by (metis mod_less power_mod power_mult)
  have a: "\<not> r dvd a"
  proof
    assume "r dvd a"
    moreover have "m * q \<noteq> 0" using n w(2) by auto
    ultimately have "r dvd a ^ (m * q)" by (metis dvd_power dvd_trans gr0I)
    then show False using m r by simp
  qed
  have f: "a ^ (r - 1) mod r = 1 mod r" using fermat_power [OF assms(2) a] r by simp
  have "coprime q (r - 1)" by (rule prime_coprime [OF w(1) nq])
  then have "gcd (r - 1) (m * q) dvd m"
    by (metis coprime_commute coprime_dvd_mult_left_iff coprime_divisors dvd_refl gcd_dvd1 gcd_dvd2)
  then obtain k where "m = gcd (r - 1) (m * q) * k" by (auto elim: dvdE)
  then have "a ^ m mod r = 1 mod r"
    using power_mod_one [OF power_gcd_one [OF f m], of k] r by simp
  then have "b mod r = 1 mod r" using red [of b "a ^ m"] unfolding w(3) [symmetric] mod_mod_trivial by simp
  then have "r dvd b - 1" using mod_eq_dvd_iff_nat [of 1 b r] by (cases b) simp_all
  then have "r dvd (b - 1) * s" by simp
  then have "(b - 1) * s mod r = 0" by simp
  moreover have "(b - 1) * s mod r = 1 mod r" using red [of "(b - 1) * s" 1] w(5) n by simp
  ultimately show False using r by simp
qed

lemma pocklington_one:
  assumes "pocklington n q m" "n < q * q" "1 < n"
  shows "is_prime n"
proof (rule ccontr)
  assume "\<not> is_prime n"
  then obtain r where r: "is_prime r" "r dvd n" "r * r \<le> n" using small_divisor assms(3) by blast
  then have "q \<le> r - 1" using pocklington_factor [OF assms(1) r(1,2)] by (intro dvd_imp_le) (simp_all add: is_prime_def)
  then have "q * q \<le> r * r" by (intro mult_le_mono) simp_all
  then show False using r(3) assms(2) by simp
qed

lemma pocklington_two:
  assumes "pocklington n q m" "pocklington n q' m'" "q \<noteq> q'" "n < (q * q') * (q * q')" "1 < n"
  shows "is_prime n"
proof (rule ccontr)
  assume "\<not> is_prime n"
  then obtain r where r: "is_prime r" "r dvd n" "r * r \<le> n" using small_divisor assms(5) by blast
  have "is_prime q" "is_prime q'" using assms(1,2) by (simp_all add: pocklington_def)
  then have "coprime q q'" using assms(3) by (intro prime_coprime) (auto simp: is_prime_def)
  then have "q * q' dvd r - 1"
    using divides_mult [OF pocklington_factor [OF assms(1) r(1,2)] pocklington_factor [OF assms(2) r(1,2)]] by blast
  then have "q * q' \<le> r - 1" using r(1) by (intro dvd_imp_le) (simp_all add: is_prime_def)
  then have "(q * q') * (q * q') \<le> r * r" by (intro mult_le_mono) simp_all
  then show False using r(3) assms(4) by simp
qed

section \<open>Powers along a chain\<close>

definition power_is :: "nat \<Rightarrow> nat \<Rightarrow> nat \<Rightarrow> nat \<Rightarrow> bool" where
  "power_is n a e r \<longleftrightarrow> a ^ e mod n = r mod n"

text \<open>
  A chain squares, multiplies by the base where the flag says so, and reduces: it gives the quotient and the
  remainder of every step.
\<close>

primrec chain_ok :: "hex \<Rightarrow> hex \<Rightarrow> hex \<Rightarrow> (bool \<times> nat \<times> nat) list \<Rightarrow> bool" where
  "chain_ok n a r [] \<longleftrightarrow> True"
| "chain_ok n a r (c # cs) \<longleftrightarrow>
     (if fst c then hmul (hmul r r) a else hmul r r) = hadd (hmul (hex_of (fst (snd c))) n) (hex_of (snd (snd c)))
     \<and> chain_ok n a (hex_of (snd (snd c))) cs"

primrec chain_exp :: "nat \<Rightarrow> (bool \<times> nat \<times> nat) list \<Rightarrow> nat" where
  "chain_exp e [] = e"
| "chain_exp e (c # cs) = chain_exp (if fst c then 2 * e + 1 else 2 * e) cs"

primrec chain_end :: "nat \<Rightarrow> (bool \<times> nat \<times> nat) list \<Rightarrow> nat" where
  "chain_end r [] = r"
| "chain_end r (c # cs) = chain_end (snd (snd c)) cs"

lemma chain_power:
  assumes "chain_ok (hex_of n) (hex_of a) (hex_of r) cs" "power_is n a e r"
  shows "power_is n a (chain_exp e cs) (chain_end r cs)"
  using assms
proof (induction cs arbitrary: e r)
  case (Cons c cs)
  obtain b k r' where c: "c = (b, k, r')" by (metis surj_pair)
  have "(if b then hmul (hmul (hex_of r) (hex_of r)) (hex_of a) else hmul (hex_of r) (hex_of r)) = hadd (hmul (hex_of k) (hex_of n)) (hex_of r')"
    using Cons.prems(1) c by simp
  from arg_cong [OF this, of hval] have eq: "(if b then r * r * a else r * r) = k * n + r'"
    by (simp add: hval_hmul hval_hadd hval_hex_of split: if_splits)
  have sq: "a ^ (2 * e) mod n = (r * r) mod n"
    using Cons.prems(2) unfolding power_is_def power2_eq_square power_mult mult.commute [of 2] by (metis mod_mult_eq)
  have "power_is n a (if b then 2 * e + 1 else 2 * e) r'"
  proof (cases b)
    case True
    have "a ^ (2 * e + 1) mod n = (a ^ (2 * e) mod n) * a mod n" by (simp only: power_add power_one_right mod_mult_left_eq)
    also have "\<dots> = (r * r * a) mod n" unfolding sq by (simp add: mod_mult_left_eq)
    finally show ?thesis using True eq by (simp add: power_is_def)
  next
    case False
    then show ?thesis using sq eq by (simp add: power_is_def)
  qed
  then show ?case using Cons.IH [of r' "if b then 2 * e + 1 else 2 * e"] Cons.prems(1) c by simp
qed simp

lemma chain_segment:
  assumes "power_is n a e r" "chain_ok (hex_of n) (hex_of a) (hex_of r) cs" "chain_exp e cs = e'" "chain_end r cs = r'"
  shows "power_is n a e' r'"
  using chain_power [OF assms(2,1)] assms(3,4) by simp

lemma power_is_1: "power_is n a 1 a" by (simp add: power_is_def)

text \<open>A unit modulo \<open>n\<close>, from the quotient of its product with the inverse.\<close>

definition unit_ok :: "hex \<Rightarrow> nat \<Rightarrow> nat \<Rightarrow> nat \<Rightarrow> bool" where
  "unit_ok n b s k \<longleftrightarrow> hmul (hex_of b) (hex_of s) = hadd (hadd (hmul (hex_of k) n) (hex_of s)) (hex_of 1)"

lemma unit_ok: "unit_ok (hex_of n) b s k \<Longrightarrow> (b - 1) * s = k * n + 1"
  unfolding unit_ok_def
  by (drule arg_cong [of _ _ hval]) (simp add: hval_hmul hval_hadd hval_hex_of diff_mult_distrib)

lemma pocklingtonI:
  assumes "is_prime q" "n = q * m + 1" "power_is n a m b" "power_is n b q 1" "unit_ok (hex_of n) b s k" "b < n" "1 < n"
  shows "pocklington n q m"
proof -
  have "(b - 1) * s mod n = 1" unfolding unit_ok [OF assms(5)] mod_mult_self3 using assms(7) by simp
  then show ?thesis using assms unfolding pocklington_def power_is_def by (intro conjI exI [of _ a] exI [of _ b] exI [of _ s]) simp_all
qed

text \<open>When the power of the whole exponent is known, the power of a part need not be raised again.\<close>

lemma power_is_rest:
  assumes "power_is n a (q * m) 1" "power_is n a m b"
  shows "power_is n b q 1"
  using assms unfolding power_is_def by (metis mult.commute power_mod power_mult)

lemma power_is_join:
  assumes "power_is n a m b" "power_is n b q r"
  shows "power_is n a (q * m) r"
  using assms unfolding power_is_def by (metis mult.commute power_mod power_mult)

lemma power_is_minus_one:
  assumes "power_is n a e (n - 1)" "1 < n"
  shows "power_is n a (e * 2) 1"
proof -
  obtain m where m: "n = m + 1" using assms(2) by (cases n) simp_all
  have "a ^ (e * 2) mod n = (n - 1) * (n - 1) mod n"
    using assms(1) unfolding power_is_def power2_eq_square power_mult by (metis mod_mult_eq)
  also have "(n - 1) * (n - 1) = (m - 1) * n + 1" unfolding m using assms(2) m by (cases m) simp_all
  finally show ?thesis unfolding power_is_def mod_mult_self3 .
qed

lemmas chain_rules = chain_ok.simps chain_exp.simps chain_end.simps fst_conv snd_conv if_True if_False simp_thms hex_rules

end
