(* ===== verification/Curve_Prime.thy ===== *)
theory Curve_Prime
  imports Prime_Cert
begin

text \<open>
  The prime of the curve: a chain of Pocklington certificates from small primes to
  \<open>2 ^ 255 - 19\<close>. The last of them also shows that 2 is not a square modulo the prime.
\<close>

section \<open>Certificates\<close>

lemma prime_353: "is_prime 353"
  by (rule prime_by_trial [of _ 19]) (simp_all add: upt_rec)

lemma prime_75707: "is_prime 75707"
  by (rule prime_by_trial [of _ 276]) (simp_all add: upt_rec)

lemma prime_127: "is_prime 127"
  by (rule prime_by_trial [of _ 12]) (simp_all add: upt_rec)

lemma prime_991: "is_prime 991"
  by (rule prime_by_trial [of _ 32]) (simp_all add: upt_rec)

lemma prime_103: "is_prime 103"
  by (rule prime_by_trial [of _ 11]) (simp_all add: upt_rec)

subsection \<open>8574133\<close>

lemma prime_24_a103_0: "power_is 8574133 2 1 2 \<Longrightarrow> power_is 8574133 2 83244 4321357"
  by (rule chain_segment [where cs = "[(False, 0, 4),
     (True, 0, 32),
     (False, 0, 1024),
     (False, 0, 1048576),
     (False, 128235, 7682521),
     (True, 13767252, 8138366),
     (False, 7724746, 1554738),
     (True, 563837, 7068967),
     (False, 5828028, 7247365),
     (False, 6125902, 950259),
     (True, 210631, 6126239),
     (False, 4377212, 6427925),
     (True, 9637877, 375609),
     (True, 32908, 6672998),
     (False, 5193399, 8559937),
     (False, 8545764, 4321357)]"], assumption, simp only: chain_rules, simp_all)

lemma prime_24_a103: "power_is 8574133 2 83244 4321357"
  by (rule prime_24_a103_0 [OF power_is_1])

lemma prime_24_b103_0: "power_is 8574133 4321357 1 4321357 \<Longrightarrow> power_is 8574133 4321357 103 1"
  by (rule chain_segment [where cs = "[(True, 9411746528550, 1889143),
     (False, 416235, 7025194),
     (False, 5756074, 6703794),
     (True, 22650158796794, 2240050),
     (True, 2528979767163, 6797821),
     (True, 23289994145892, 1)]"], assumption, simp only: chain_rules, simp_all)

lemma prime_24_b103: "power_is 8574133 4321357 103 1"
  by (rule prime_24_b103_0 [OF power_is_1])

lemma prime_24_whole: "power_is 8574133 2 (103 * 83244) 1"
  by (rule power_is_join [OF prime_24_a103 prime_24_b103])

lemma prime_24_a3_0: "power_is 8574133 2 1 2 \<Longrightarrow> power_is 8574133 2 8652 3435729"
  by (rule chain_segment [where cs = "[(False, 0, 4),
     (False, 0, 16),
     (False, 0, 256),
     (False, 0, 65536),
     (True, 1001, 7227459),
     (True, 12184593, 6260493),
     (True, 9142329, 430341),
     (False, 21599, 677614),
     (False, 53551, 7336713),
     (True, 12555755, 2003323),
     (True, 936142, 69772),
     (False, 567, 6598573),
     (False, 5078200, 3435729)]"], assumption, simp only: chain_rules, simp_all)

lemma prime_24_a3: "power_is 8574133 2 8652 3435729"
  by (rule prime_24_a3_0 [OF power_is_1])

lemma prime_24_a3_rest: "power_is 8574133 3435729 991 1"
  by (rule power_is_rest [OF _ prime_24_a3]) (use prime_24_whole in simp)

lemma prime_24_a3_unit: "pocklington 8574133 991 8652"
proof (rule pocklingtonI [OF prime_991 _ prime_24_a3 prime_24_a3_rest])
  show "unit_ok (hex_of 8574133) 3435729 1014251 406419" by (simp only: unit_ok_def hex_rules)
qed simp_all

lemma prime_24_a103_unit: "pocklington 8574133 103 83244"
proof (rule pocklingtonI [OF prime_103 _ prime_24_a103 prime_24_b103])
  show "unit_ok (hex_of 8574133) 4321357 3531099 1779671" by (simp only: unit_ok_def hex_rules)
qed simp_all

lemma prime_24: "is_prime 8574133"
  by (rule pocklington_two [OF prime_24_a3_unit prime_24_a103_unit]) simp_all

subsection \<open>1919519569386763\<close>

lemma prime_51_a127_0: "power_is 1919519569386763 2 1 2 \<Longrightarrow> power_is 1919519569386763 2 28828291 81880778242677"
  by (rule chain_segment [where cs = "[(True, 0, 8),
     (False, 0, 64),
     (True, 0, 8192),
     (True, 0, 134217728),
     (False, 9, 738722385001117),
     (True, 568590985791386, 727545914671860),
     (True, 551516188110359, 1496445553941283),
     (True, 2333239349704621, 1627791866040355),
     (True, 2760801610367175, 474034962347525),
     (True, 234130611754698, 1592438502988676),
     (True, 2642182373385187, 1321066390386271),
     (False, 909194381574220, 308700615235581),
     (False, 49645792294407, 1422904383673020),
     (False, 1054772724053406, 23971194455622),
     (True, 598710398990, 1823960500244398),
     (False, 1733158629643266, 389468657894446),
     (True, 158045625479672, 413167392912096),
     (False, 88932302274112, 1405857012733760),
     (False, 1029650320722758, 575143645685246),
     (False, 172329690432796, 1040347118601168),
     (False, 563850530332194, 1740461794616202),
     (False, 1578106994494671, 866923939464831),
     (True, 783067939294127, 1399712894276221),
     (True, 2041340153702135, 81880778242677)]"], assumption, simp only: chain_rules, simp_all)

lemma prime_51_a127_1: "power_is 1919519569386763 2 28828291 81880778242677 \<Longrightarrow> power_is 1919519569386763 2 15114327318006 576774792492622"
  by (rule chain_segment [where cs = "[(True, 6985562379828, 1080451766835894),
     (False, 608160520515949, 984174035796149),
     (False, 504604666804580, 1149642923455661),
     (False, 688546692896661, 348237932648578),
     (True, 126354177023678, 1876761100069854),
     (False, 1834955101739687, 659314630018135),
     (True, 452921437518685, 568675053589795),
     (True, 336950267903412, 597897700948694),
     (True, 372469931019187, 695314063789591),
     (False, 251865964282952, 1569228264582905),
     (True, 2565722575209351, 1320941823257237),
     (True, 1818045857159560, 59742302844058),
     (True, 3718787561255, 1233058283147163),
     (True, 1584180493792588, 308972555184494),
     (True, 99466597142047, 1691588563548211),
     (False, 1490722946492942, 1316385673573775),
     (True, 1805525996428251, 66860336859737),
     (True, 4657732816368, 1714022174481554),
     (False, 1530524648703138, 576774792492622)]"], assumption, simp only: chain_rules, simp_all)

lemma prime_51_a127: "power_is 1919519569386763 2 15114327318006 576774792492622"
  by (rule prime_51_a127_1 [OF prime_51_a127_0 [OF power_is_1]])

lemma prime_51_b127_0: "power_is 1919519569386763 576774792492622 1 576774792492622 \<Longrightarrow> power_is 1919519569386763 576774792492622 127 1"
  by (rule chain_segment [where cs = "[(True, 99960005363630057612912578179, 1357890764181271),
     (True, 554042903304687066388446861394, 759458092768680),
     (True, 173309095677900155873037740976, 78454425872112),
     (True, 1849475679403096546725255872, 1320549840644032),
     (True, 523990389680395695422278738274, 1693956375729866),
     (True, 862220156110467774875479440837, 1)]"], assumption, simp only: chain_rules, simp_all)

lemma prime_51_b127: "power_is 1919519569386763 576774792492622 127 1"
  by (rule prime_51_b127_0 [OF power_is_1])

lemma prime_51_whole: "power_is 1919519569386763 2 (127 * 15114327318006) 1"
  by (rule power_is_join [OF prime_51_a127 prime_51_b127])

lemma prime_51_a7_0: "power_is 1919519569386763 2 1 2 \<Longrightarrow> power_is 1919519569386763 2 27984164 1001669444392439"
  by (rule chain_segment [where cs = "[(True, 0, 8),
     (False, 0, 64),
     (True, 0, 8192),
     (False, 0, 67108864),
     (True, 4, 1329120977193940),
     (False, 920314958071172, 1050703024027364),
     (True, 1150263703800570, 1672969091722082),
     (True, 2916173011720386, 925947007178930),
     (False, 446662734664136, 1131232746713132),
     (False, 666670737639295, 1867384059597339),
     (False, 1816664587145774, 439825148891359),
     (False, 100778426374213, 1175992818124362),
     (False, 720471481685335, 1417188017686439),
     (False, 1046314874568149, 230433742489034),
     (False, 27663020749752, 1384618485920380),
     (True, 1997550201756923, 708183098878551),
     (False, 261275430339817, 821990456217230),
     (False, 351998656793099, 1538409348524363),
     (True, 2465932998415072, 1639521232619602),
     (False, 1400365964004865, 1373123636036409),
     (False, 982260639543366, 280066608751023),
     (True, 81725976216389, 1337932286834251),
     (False, 932557725746660, 661679051269421),
     (False, 228087889215254, 1001669444392439)]"], assumption, simp only: chain_rules, simp_all)

lemma prime_51_a7_1: "power_is 1919519569386763 2 27984164 1001669444392439 \<Longrightarrow> power_is 1919519569386763 2 223873314 1059928654987441"
  by (rule chain_segment [where cs = "[(False, 522704582871222, 1817493499934335),
     (True, 3441780615301434, 364420849266308),
     (False, 69185309437821, 1059928654987441)]"], assumption, simp only: chain_rules, simp_all)

lemma prime_51_a7: "power_is 1919519569386763 2 223873314 1059928654987441"
  by (rule prime_51_a7_1 [OF prime_51_a7_0 [OF power_is_1]])

lemma prime_51_a7_rest: "power_is 1919519569386763 1059928654987441 8574133 1"
  by (rule power_is_rest [OF _ prime_51_a7]) (use prime_51_whole in simp)

lemma prime_51_a7_unit: "pocklington 1919519569386763 8574133 223873314"
proof (rule pocklingtonI [OF prime_24 _ prime_51_a7 prime_51_a7_rest])
  show "unit_ok (hex_of 1919519569386763) 1059928654987441 1290547218147893 712619969572013" by (simp only: unit_ok_def hex_rules)
qed simp_all

lemma prime_51_a127_unit: "pocklington 1919519569386763 127 15114327318006"
proof (rule pocklingtonI [OF prime_127 _ prime_51_a127 prime_51_b127])
  show "unit_ok (hex_of 1919519569386763) 576774792492622 1870148777187772 561939919808897" by (simp only: unit_ok_def hex_rules)
qed simp_all

lemma prime_51: "is_prime 1919519569386763"
  by (rule pocklington_two [OF prime_51_a7_unit prime_51_a127_unit]) simp_all

subsection \<open>75445702479781427272750846543864801\<close>

lemma prime_116_a75707_0: "power_is 75445702479781427272750846543864801 2 1 2 \<Longrightarrow> power_is 75445702479781427272750846543864801 2 26378420 48722524022719171530304120725524154"
  by (rule chain_segment [where cs = "[(True, 0, 8),
     (False, 0, 64),
     (False, 0, 4096),
     (True, 0, 33554432),
     (False, 0, 1125899906842624),
     (False, 0, 1267650600228229401496703205376),
     (True, 42598530902131397692302465, 25028188176008862889154256311568287),
     (False, 8302795027212855711539266651471154, 56580480564233741879249161936664015),
     (True, 84865026784993010618038025825407746, 525363819010122823253469691904),
     (False, 3658354727346700791659368, 14187239010502343284810216046039448),
     (False, 2667849116986611795293650679997269, 51139903851012766799841363386916235),
     (False, 34664529322815938034415672982567991, 46469137633079275752444980012390434),
     (False, 28621653472452636738302808173806704, 68799981630686892325136022371282452),
     (False, 62739656690867980549186651123673367, 17778224489758711899071023030677337),
     (False, 4189307748747627281285879544883499, 40229968882241094293474412253592870),
     (False, 21451856674007544512826447089137044, 47720347233806189130984452018048656),
     (True, 60367428899619713464892154359793151, 18468560993401677925031625497034721),
     (False, 4520969836001003900679748253625498, 23229343619428092347787326881251943),
     (True, 14304390767229500134328427429145024, 32753961333840442901222442004650274),
     (True, 28439578340362558012409913764209779, 68078847400754717137517535718461173),
     (False, 61431324927450983923808694074680668, 45073371629930336582682358468168861),
     (True, 53856184336921152443866387410453229, 42971102267807749004224332110182213),
     (False, 24474762238515003949023892223821416, 47592774870363352653081534189199153),
     (False, 30022547943908435447259870133669255, 48722524022719171530304120725524154)]"], assumption, simp only: chain_rules, simp_all)

lemma prime_116_a75707_1: "power_is 75445702479781427272750846543864801 2 26378420 48722524022719171530304120725524154 \<Longrightarrow> power_is 75445702479781427272750846543864801 2 442556466387903 56416211138244615478970957223928934"
  by (rule chain_segment [where cs = "[(True, 62929610809326620485237223997537011, 72470085821247444221854319097181621),
     (True, 139223657976978123548098563605010033, 30185174562706640841310388719826849),
     (True, 24153655766549413971250243271509081, 43182654324332621718837631774779721),
     (True, 49432680012344824871973740121451064, 24394824322588466860512193392077418),
     (True, 15775781367783956747019089499640594, 8891098993496774299914354183761654),
     (False, 1047795152193649141149779394994449, 23595845868659150720624967079326067),
     (False, 7379664102229353439890419172914504, 66054479624436950297568087597714785),
     (False, 57832244051600442884978381402323044, 57717149401524061738423806944821981),
     (True, 88309054738554283617631556052193399, 22419998889373521538783833000880123),
     (True, 13324982965973867308974719003647883, 43874627144610674934498493071123975),
     (False, 25514811895276353835763086803845420, 52515920781592351666453534436739205),
     (True, 73110113495929725347808450291310559, 41672254019365585796099223168330291),
     (True, 46035140451370669874676762202439919, 32631694856710357160549963474898243),
     (False, 14113825893619568221663336485811347, 16717871859475926632856969644790102),
     (True, 7408963806381322079476735189832602, 69301567322411981641162605964298606),
     (True, 127315594539791580635701739021983678, 73082926810477674181821447406368394),
     (True, 141588295042172695017508381179996721, 13080760679869461802587987436960951),
     (False, 2267939648515745310803544522701920, 28265797496513903534567906995706481),
     (True, 21179610815554203562541471390826910, 31554374427373445403772805978211812),
     (True, 26394572859062702637153813624048275, 12121373420814968771162584375378413),
     (True, 3894925457052096368584428765520046, 18898575225627432890697522413496292),
     (True, 9467899000726056683018652081381280, 73762737377122410642220517343173248),
     (True, 144234628256644324806569158031908487, 60740852850531118790461157353272921),
     (True, 97804144801981383802409641647825148, 56416211138244615478970957223928934)]"], assumption, simp only: chain_rules, simp_all)

lemma prime_116_a75707_2: "power_is 75445702479781427272750846543864801 2 442556466387903 56416211138244615478970957223928934 \<Longrightarrow> power_is 75445702479781427272750846543864801 2 7424865428786604227095 3869545526819738024999201475857420"
  by (rule chain_segment [where cs = "[(True, 84372966904190369116004620616517456, 69706658412228872767717147444286456),
     (True, 128808350039588239502399209979227813, 37973693337307203418635291319169659),
     (True, 38226203435836232806469042077517048, 18835109685187376995509574567725114),
     (True, 9404415233541267865563960183605005, 47375774832446200791976864625696987),
     (False, 29749395488445921237199068136613824, 67436377777297514487714233337269145),
     (False, 60277323932945120608381249281617278, 16662989012179295954836684311399347),
     (False, 3680199053013209352763500625022216, 8297311239036995625174430186607393),
     (True, 1825031023228908360696315126632241, 6263616174217836768483578692863857),
     (False, 520014875445519891172401512401641, 58621416916463026388768312822378008),
     (False, 45548923375916762083808296582432069, 74479183516488317568236808739344795),
     (True, 147050092847086064529722041560293846, 36831176152643509158522233730869404),
     (True, 35960578063424930184591182118372467, 65703077708265174835656217197796365),
     (True, 114437119105497354116264193440422181, 52356073070347622633435783188875469),
     (False, 36332863201614143283045847432757229, 74962918486997024416429791558573532),
     (True, 148966447746817778816659529407771403, 40981923851260910790607849355824245),
     (False, 22261282317579841980344365832942963, 26295697550299259786407481513474662),
     (False, 9165050982753043382534953011130485, 66503615601871986970065930506455759),
     (False, 58621375939958829550933299778228906, 48484292070966935031564891730128375),
     (False, 31157859233304834676317237177767605, 47061944961031701413151483862569020),
     (True, 58713129859417108480005669020021846, 62166810483162451604049506237078154),
     (False, 51225082392004169399235201478950101, 44682465458225267026310350734752815),
     (True, 52926082037887818499234544606350509, 69624864708664340427325341387314741),
     (True, 128506240285824617580352041517421475, 6741280296826016773998122657792687),
     (True, 1204703741808312115097361180656118, 3869545526819738024999201475857420)]"], assumption, simp only: chain_rules, simp_all)

lemma prime_116_a75707_3: "power_is 75445702479781427272750846543864801 2 7424865428786604227095 3869545526819738024999201475857420 \<Longrightarrow> power_is 75445702479781427272750846543864801 2 124568571069685477024500453300 14281652194242824389558143059825003"
  by (rule chain_segment [where cs = "[(True, 396931358367120689461753135672907, 56012821311071537282793054771466293),
     (True, 83170705503519600676979449058380503, 61273529767374573486054482823948795),
     (False, 49763542875877996687565308300948617, 49289954941203021712510947086021808),
     (True, 64403924365523719259072635669552328, 4814181911819773191492140276371000),
     (True, 614384828249261212117907278340725, 38378231988225607398047279269679275),
     (True, 39044999042504252237643592091170335, 973410096174288688281784627172915),
     (True, 25118122946445206773623527411566, 8265492855759132608943725231506084),
     (False, 905530333777643494620962777424248, 21767116697772311521554812997920408),
     (True, 12560221556990951375978798263433660, 16322684511537938205665612333171268),
     (False, 3531414260932896163581913804611494, 63236324164720114890707018754105130),
     (False, 53002789588143948851952649505038705, 11590085039701198534304173300194195),
     (False, 1780486718425140689908568698552712, 15224751006321649690840473011807713),
     (True, 6144632115172098254261958843030674, 47268426716319166950666568420674864),
     (True, 59229461474887934699912627349407735, 65135068534416543053955085139201257),
     (True, 112467032939884189489682678632930130, 56057939102309228668685882701405968),
     (True, 83304745879736795921726647073356983, 1482455650503981732309621930778665),
     (True, 58258447690910823295204421840294, 53042832934621817754314490888272956),
     (False, 37292278198141208079881155389365953, 71927292451670417597059894816457583),
     (True, 137145926921803708604734375089767899, 73275829268763987217162248150580679),
     (True, 142336726375209290060964844232698058, 31208691616004150014705254768945624),
     (False, 12909713878585247628338140486312281, 24000136134063440218256366738828295),
     (True, 15269432599105049898885048662617748, 8977201520408285696053653330125902),
     (False, 1068187378328382064407749740254610, 54393837718160944054781688014330994),
     (False, 39216144650552132506400627819584633, 14281652194242824389558143059825003)]"], assumption, simp only: chain_rules, simp_all)

lemma prime_116_a75707_4: "power_is 75445702479781427272750846543864801 2 124568571069685477024500453300 14281652194242824389558143059825003 \<Longrightarrow> power_is 75445702479781427272750846543864801 2 996548568557483816196003626400 58781699294900834553279248901967638"
  by (rule chain_segment [where cs = "[(False, 2703475250322989457919249483072732, 12040871634077962324165912726243677),
     (False, 1921681221633491320056724558244172, 38264440729169784307155934868290557),
     (False, 19406902927420250779764491783849811, 58781699294900834553279248901967638)]"], assumption, simp only: chain_rules, simp_all)

lemma prime_116_a75707: "power_is 75445702479781427272750846543864801 2 996548568557483816196003626400 58781699294900834553279248901967638"
  by (rule prime_116_a75707_4 [OF prime_116_a75707_3 [OF prime_116_a75707_2 [OF prime_116_a75707_1 [OF prime_116_a75707_0 [OF power_is_1]]]]])

lemma prime_116_b75707_0: "power_is 75445702479781427272750846543864801 58781699294900834553279248901967638 1 58781699294900834553279248901967638 \<Longrightarrow> power_is 75445702479781427272750846543864801 58781699294900834553279248901967638 75707 1"
  by (rule chain_segment [where cs = "[(False, 45798343158407497127110698474487382, 19272071963980053171874812410858062),
     (False, 4922914699937485409093593917388130, 10857113732875552884559949348183714),
     (True, 91840957877180881110913198929353031571142600442094525979038936990163, 37861386965902158392126361241741285),
     (False, 19000215729530029768929209346235067, 67447059549274550976172462060274558),
     (False, 60296421032894417933556479848271721, 22845150612647514685709838606502843),
     (True, 406626502771258384626839286840504921532460706886956658990527318229393, 13032174792409769475902886973017269),
     (True, 132324853739995484638156464563060657737712730072296071587475154681938, 56396309446115810308722588662736980),
     (True, 2478043922289624257075121456674227204280892226305861979167589615577624, 43606569418259492473421754424002376),
     (True, 1481533490224101692426377460478284064674388656315761628082875592551862, 41247452127839348557193559971532426),
     (False, 22550685474687461188533698279991918, 60273352786765568393059048004767158),
     (True, 2830468531294361339117184979205289432250470129610101459365817752158747, 17935781077466366980090080633886685),
     (True, 250638751627977546088509627534906123767498057850020208414223720953601, 16430842475225517589341425812002149),
     (True, 210342627282259299897734220191521447840753650730859262819788437242576, 36588309395503799027174081950811862),
     (False, 17743944855969348485054655524703778, 46635804452740277961578082113988866),
     (True, 1694519517152726864228517750540109700725612696090640641098102685850609, 28334687151944976347191379370218119),
     (True, 625524715261228240168469009716221690756391951814349776644785459932117, 1)]"], assumption, simp only: chain_rules, simp_all)

lemma prime_116_b75707: "power_is 75445702479781427272750846543864801 58781699294900834553279248901967638 75707 1"
  by (rule prime_116_b75707_0 [OF power_is_1])

lemma prime_116_whole: "power_is 75445702479781427272750846543864801 2 (75707 * 996548568557483816196003626400) 1"
  by (rule power_is_join [OF prime_116_a75707 prime_116_b75707])

lemma prime_116_a16_0: "power_is 75445702479781427272750846543864801 2 1 2 \<Longrightarrow> power_is 75445702479781427272750846543864801 2 17873604 25515915370493845880933608929334539"
  by (rule chain_segment [where cs = "[(False, 0, 4),
     (False, 0, 16),
     (False, 0, 256),
     (True, 0, 131072),
     (False, 0, 17179869184),
     (False, 0, 295147905179352825856),
     (False, 1154635, 37249017818367551225803357327630101),
     (False, 18390568088419540713180144552603353, 102469992448),
     (True, 0, 21000198704586354065408),
     (False, 5845373972, 57540172156127493524011025089846892),
     (True, 87768323520986892609440763078941370, 54651969301387637110966512518401958),
     (True, 79178472738596464028603992035732427, 61606591580989321780200720816865501),
     (True, 100612016363528196112949330697066484, 51294626676562810936092654843532318),
     (False, 34874600400109785010110741815565865, 70907221727050507061373817639835259),
     (True, 133283511924261151466384833446453474, 32799974849867834837920162526425488),
     (False, 14259769805182405020291244956113789, 38671091502185017926787332828197155),
     (True, 39643167703849810160785550627061568, 64134687226725695320034102205120082),
     (True, 109038897391729833739089875975893259, 49129946330668696747602969976096989),
     (False, 31993228866829677464604812351954812, 52731668160668534429276816145493709),
     (False, 36856026726665311569831140646019472, 53232007837694667884745803777171609),
     (False, 37558755042300401026910323427360228, 6815899006979597721589967479114253),
     (True, 1231520888437489561043967924920373, 27351563169514572318976779253005245),
     (False, 9915846538991804092978480448020986, 36418643877802785581023883602796239),
     (False, 17579763701632442834351678143176982, 25515915370493845880933608929334539)]"], assumption, simp only: chain_rules, simp_all)

lemma prime_116_a16_1: "power_is 75445702479781427272750846543864801 2 17873604 25515915370493845880933608929334539 \<Longrightarrow> power_is 75445702479781427272750846543864801 2 299869320993403 14314454708794176124149993472713247"
  by (rule chain_segment [where cs = "[(False, 8629543046122224655388998502785386, 57793553327652931187992881475744335),
     (True, 88543010309470439154820839753932743, 62153849922490962393205786330105307),
     (False, 51203725768512740208766088776196223, 61109090482572984699313167350717626),
     (True, 98993602468160378399605572779308692, 74425325943528844932868703682001460),
     (True, 146837499280623176155056190186076751, 12989690226474060391927371730921649),
     (False, 2236470025910010689164230430725332, 9010903371459702397200566003040269),
     (True, 2152445451523061074391132479695943, 41483535797710063532135253890982379),
     (True, 45619132322111234617260342837222865, 36992927490348523016874968511124417),
     (False, 18138563752825011389988221154025764, 513309348704093895960925166856925),
     (True, 6984797776589922606771900453178, 25107384053856714034524019378123672),
     (False, 8355422685563742011965376336700514, 48786791113838861753548469283555870),
     (True, 63095733990234880993683556426399714, 23550372780047042618185787221846886),
     (True, 14702495698222504060133497094678883, 34192708828629508492652582794096709),
     (False, 15496460349782741374426957909312839, 23725588849222751655399262015150642),
     (True, 14922084300115426627936480004087657, 74284037970676428699992465145163071),
     (False, 73140260026178284946026360103387949, 1679490236568257179254066873467892),
     (False, 37386986428869317886938646893687, 57875049575816904056842656006512377),
     (True, 88792900146987093422421437432117938, 69140185463195222053869748749479920),
     (True, 126723327870560004734161261178324345, 12685289843374237635476675559532455),
     (True, 4265758634921249914798644829340890, 13171760403748371563029534295641160),
     (True, 4599208872904276656265734953986787, 38784832849308944787944580903906813),
     (False, 19938355793717465847682208159383547, 3782964574628778339320135515987822),
     (True, 379367425910877502586785532538328, 38877602689008559621761620122014640),
     (True, 40067702762777282563722963685911553, 14314454708794176124149993472713247)]"], assumption, simp only: chain_rules, simp_all)

lemma prime_116_a16_2: "power_is 75445702479781427272750846543864801 2 299869320993403 14314454708794176124149993472713247 \<Longrightarrow> power_is 75445702479781427272750846543864801 2 39304471641247389600 56747016255153332959347766392083459"
  by (rule chain_segment [where cs = "[(True, 5431816707254639246062512913804549, 72466306610823254233320016583786269),
     (False, 69604568864888641168444927591077276, 52923723913192322483970867785578285),
     (False, 37124984734424324294785152761527766, 43675134191290428119386496951976659),
     (False, 25283313481485823676523318387740688, 11400356044965588482423009162079193),
     (True, 3445341846656232865445853964758427, 18935679146042012693248632693634471),
     (False, 4752556248222889451123733574281160, 60679732404325505920101321558000681),
     (True, 97607413110038762878864400532412072, 41712449112149596090570426404649850),
     (True, 46123989935674606507037057687651255, 6531672565481006475695702252069745),
     (True, 1130952329964462953850246691678513, 13823227504923762148479631860009137),
     (True, 5065407634161494487114558160920292, 72088510220800202732826346861527646),
     (False, 68880706720798111363682571039351209, 1888738652562569663194994370406907),
     (True, 94566915819754618137492420024240, 67921444504051573029934253803837058),
     (False, 61147586567349870743199647966593842, 44692679468887818587537417286939922),
     (False, 26475140829181573416469200498415960, 25373835843271755692855209936742124),
     (False, 8533707345012022015661890767769502, 65810772782638593774538249456932274),
     (False, 57406289184049389055471778293765177, 2709456275567807824939095492976299),
     (False, 97303796875390224746540460292342, 56747016255153332959347766392083459)]"], assumption, simp only: chain_rules, simp_all)

lemma prime_116_a16: "power_is 75445702479781427272750846543864801 2 39304471641247389600 56747016255153332959347766392083459"
  by (rule prime_116_a16_2 [OF prime_116_a16_1 [OF prime_116_a16_0 [OF power_is_1]]])

lemma prime_116_a16_rest: "power_is 75445702479781427272750846543864801 56747016255153332959347766392083459 1919519569386763 1"
  by (rule power_is_rest [OF _ prime_116_a16]) (use prime_116_whole in simp)

lemma prime_116_a16_unit: "pocklington 75445702479781427272750846543864801 1919519569386763 39304471641247389600"
proof (rule pocklingtonI [OF prime_51 _ prime_116_a16 prime_116_a16_rest])
  show "unit_ok (hex_of 75445702479781427272750846543864801) 56747016255153332959347766392083459 74602835786463724888147869570305675 56113048138023733339996598108928949" by (simp only: unit_ok_def hex_rules)
qed simp_all

lemma prime_116_a75707_unit: "pocklington 75445702479781427272750846543864801 75707 996548568557483816196003626400"
proof (rule pocklingtonI [OF prime_75707 _ prime_116_a75707 prime_116_b75707])
  show "unit_ok (hex_of 75445702479781427272750846543864801) 58781699294900834553279248901967638 8986369574106813140303762220009459 7001513097443202581781503170404782" by (simp only: unit_ok_def hex_rules)
qed simp_all

lemma prime_116: "is_prime 75445702479781427272750846543864801"
  by (rule pocklington_two [OF prime_116_a16_unit prime_116_a75707_unit]) simp_all

subsection \<open>74058212732561358302231226437062788676166966415465897661863160754340907\<close>

lemma prime_236_a353_0: "power_is 74058212732561358302231226437062788676166966415465897661863160754340907 2 1 2 \<Longrightarrow> power_is 74058212732561358302231226437062788676166966415465897661863160754340907 2 32639191 13217105514832371164874350797534255318866630777056687337293298564101378"
  by (rule chain_segment [where cs = "[(True, 0, 8),
     (True, 0, 128),
     (True, 0, 32768),
     (True, 0, 2147483648),
     (False, 0, 4611686018427387904),
     (False, 0, 21267647932558653966460912964485513216),
     (True, 12215, 4628638295785084893889451652316424292260435400966618603866447547146307),
     (False, 289289893486567805868090728269776518266277212560413662741652971696644, 15332364354788093711008808598298155468112692265701924125307607499922141),
     (False, 3174278557827222526107292405116414999257705820633601479067590615218255, 57330250649429861309007214520744422270324382128232290437001094582366596),
     (False, 44380731295738604031217392185683086777349348121820202495428108695178291, 41106090973708891838101389897987714768736839254975085150187961576977279),
     (False, 22815980197101250396353439345019791913419994164348262890903783749068163, 23945242826029513411849172299223580994042798784118784000000000000000),
     (False, 7742215654975168201809911598809088000000000000000000000000000000, 198070406285660843983859875840000000000000000000000000000000),
     (True, 1059487783963697360434252914274111390113830566406, 18514553183140339575557806636370751481179352454052794437214332974229758),
     (False, 4628638295785084893889451665868951448329240826059778624661076752504728, 22914942042852180170664216294543208430710239546165972272005422331430268),
     (False, 7090294910619748390873257264641946082797972629726671066270942065486944, 14556239066459110530593896064555539865210973445970372691665299812933616),
     (False, 2861047923544484770963286807087786429260562555975460421288474399800722, 68374371026855152641020612544231144033750809634219457695849954770100602),
     (True, 126253508984900373354894381026556239490875790012191310470543944215950217, 13117417266156877797757596079978814322790869001603665404876095842897989),
     (True, 4646794174086721182574813275080574011610525751401744707066584651780110, 20047679271587532369755212499414624199142545264439366494282172378528472),
     (False, 5426939556694593158492829974889293897153386824601573955133766377775606, 64961799547994725065874281182578296004886195168546757757473856842140142),
     (True, 113965359000850265500475501379898387801606939683658142839113474071742806, 23740934965209364792489286609899571911150519750110856637283834186795286),
     (False, 7610661562380469182187706429772284095640119586126409798233905499992688, 8168755345600245717537703177195216996862285761691292375714674112533780),
     (True, 1802057096280258366422318409445296181808458439402809291761354300483179, 17652139274713192475544312847887692193788048695010724881718111497073447),
     (True, 8414948443304004208377296041950108749011417039776825210267541608986450, 28455648359439874638310784023988518796125517754969208118393413381213468),
     (True, 21867228324295757698424031770360050426719985751073422790390933818334810, 13217105514832371164874350797534255318866630777056687337293298564101378)]"], assumption, simp only: chain_rules, simp_all)

lemma prime_236_a353_1: "power_is 74058212732561358302231226437062788676166966415465897661863160754340907 2 32639191 13217105514832371164874350797534255318866630777056687337293298564101378 \<Longrightarrow> power_is 74058212732561358302231226437062788676166966415465897661863160754340907 2 547594772165176 72505816021625066873862501123160121680444432004743548101967399656540584"
  by (rule chain_segment [where cs = "[(True, 4717690901373996224545563920339630105883539908989457187338350096159787, 10355961428643959130093307169085410106276413062513769988111674380490959),
     (True, 2896260472794487072834764081197825087086219409236579974944177308289603, 57035043278730106897932816711537688585886666385181500225138726015789441),
     (True, 87849707460638283582040663310452147561727958065694330265323838437427119, 24504666612123307174344106069026368832488527002103757337821001201328029),
     (False, 8108198451125958728243069729309306779934426031820993775425201082515915, 57333618419977659353137420462752924873889950472721819865373196097989936),
     (False, 44385945593881917678109450023528970064193873808447348281956677181305848, 32322130936274366114109323046357490458016210026336583110500802732559960),
     (False, 14106742651680678881231215163064095388364561891079370352466739291393256, 6288415898620855136697447113532924530965474995816487699568848970478408),
     (False, 533960691933374887117170649062053045108925557229559736765992858062559, 24789395127676740506121990795443316172680824908037540651963435375413451),
     (False, 8297717270267020319423526823271646156295967462149949919078816131373209, 412024349816548200141943086364028596205517079726380246156891559168838),
     (False, 2292305722456473688039764557035625897552157670017815108944858956363, 18234178220537412970595170876934857876166469715542623238989895451429003),
     (False, 4489512278388218762246303671360266340972211597267651463785352310666021, 25794811537514061671217865641243215712386975086486431578608802694352962),
     (True, 17968899807470580714141723340550681164582422670931817930760761954139069, 40801009893562285752088204383937393116806614912566750335843769962751305),
     (True, 44957131610675095031255730070583083281749073793569577713573758169051603, 12402681362103566692191755834799521852194165119430417263967805021582129),
     (False, 2077102583144541685242326127672162811647713990422651619505854892412169, 37082647931882427398623371648276235824123678039450548771032855310875358),
     (False, 18568133457470550370777040577134308829285887907753606579000865367363526, 54119559549342178926661259191292698713063070265658336630313617810070082),
     (True, 79097958693432679668243128677238253014342254934894011126043702800806459, 13522653977406570011191870511382612755586722156293166353504226889455135),
     (False, 2469168021283752410045389909565289833859967097509021997008509955452717, 21974114212019433659559660885945426361873837407520300720211005040473906),
     (False, 6520029009430488931262510949138141787328616628130623655396124800334453, 54495183552685901177359966483180201528264348421552890689088231887527965),
     (False, 40099874421290504340187538185617285456326844351806929734499171147174200, 3338405103414837600900035204796466079523471613102897481086102142041825),
     (True, 300978060995147545441833166969803906961763571229604732709914793424780, 45181290734804820693966866965428402133636454326555877874946793917185790),
     (True, 55128228379873794493023451068970309018449561489588914095850358748740367, 25090574961964846402298022528070477250387338432928092988165513205555331),
     (True, 17001138123474783195659206062376382745404209548572281437047941991774898, 14541532422772412483748781938097092185207008066522560550988657107886636),
     (False, 2855269623723579966550247597830641256128266587148771158916400279213662, 18346078597584348673254757592498050935287390712506105197126223187525062),
     (False, 4544784264834926983471176612646611394478991574621241456337662787999083, 5452087856263391085256716616465325049151910063893275817725643892715563),
     (False, 401376982992533921267512837329705217395970707643497608865068155509555, 72505816021625066873862501123160121680444432004743548101967399656540584)]"], assumption, simp only: chain_rules, simp_all)

lemma prime_236_a353_2: "power_is 74058212732561358302231226437062788676166966415465897661863160754340907 2 547594772165176 72505816021625066873862501123160121680444432004743548101967399656540584 \<Longrightarrow> power_is 74058212732561358302231226437062788676166966415465897661863160754340907 2 9187115773085945990820 32997167712020870889150033703062422367684660713007268013937588004634268"
  by (rule chain_segment [where cs = "[(False, 70985960408552270512257613973153696665374176021924420496983989056354645, 41798357946418270781223368229444732245813545296590575318260733416098041),
     (False, 23590938297769025257350609883988914696325603026261888440487171577370445, 54731198991751086546378799100606212665379413009075113482341243567744066),
     (False, 40447966978247294471429758181847003027684113724936888807286097294640580, 48636049292114472676226644015720072480608741892091854138199179122006296),
     (False, 31940620809837052685532854334485987923845457375964309451959536526787031, 32259316831568265355352392339602711620692714114865623199353385503262499),
     (True, 28103932947924152958568233603747755856523720923198329223729239517512616, 34535417097994849432405185257297814202705981869685441557695476662067290),
     (False, 16104831457917155487947090163203813410013277337496650015491013158244677, 46044699715115020722601546994748792867612014162035495430954632311842061),
     (False, 28627674009785511873408953310599454761089369664240943228112994979959481, 46389651697010524134938358111421301458016973469895535079709533287938454),
     (False, 29058219273279549620232043962920005585761822011042624151113372093434624, 58200707597908217134997745259242940674930352514941598826230714278546148),
     (True, 91477291711845453117543010867639101704696851923500383262015351603129772, 23997387110787384666528813709573122059851639669270839368906264882092604),
     (False, 7775971994147089255172121501948519516665230751954317818886965694141944, 33828936007762808497011543111955492414843289246320578888850315407797608),
     (False, 15452667154552479117107796661539700549656603670573182241988508596892387, 71444372820857717399609969332438524086096280756345732322071908499546655),
     (False, 68922786810941946472402910131973171096285919234692883434002606166247200, 25417467184575767252357029680349076241909971139576215162319634887478625),
     (True, 17447022126012949566229890284461315328947227518565930934691319836051188, 49954247018267400639478274547700329328558255211456670764941595209433734),
     (True, 67390953766965726180723078294745559273563073828075200480878732674237704, 17611019148409857174361663737420163928569641209229863495708252705407984),
     (True, 8375789368983653899108393696229725780619171974719757379839924572006575, 26788317098301379794708081893306661271820128609810925290400693186424987),
     (False, 9689862966995839431746891580240697014075254306888873815680736103536343, 67429644204731085953302479634755481906596003546785610421793126891867068),
     (True, 122788729293153482221397663909818675452932321035539722313486820866865055, 30009215115541763554853515178287582130448806152292901562420694130528363),
     (False, 12160069202627568826768925635170203097944076071368026945468608781916044, 13522026498945079246315372398662500917260781449168065402207743718647861),
     (True, 4937877755663982255414859388128517380901383347537199742509518653019080, 48767240351105272681846202336369063706393231135441187185315757144245082),
     (False, 32113166706449857278408108537660862150949786827887356489590268411960754, 56291050344972431097370445655682286159912054361944766578846226860422846),
     (False, 42786373475997192366056389435546215041784759307172639035452978688310192, 72412170662463890774635813112111773266119935688429115245967565388115572),
     (True, 141605428124094160127696051237130738741294689332582939549791155518714135, 16609732155360190970712018114430129616440436255891635592624638388153923),
     (False, 3725220905196217926987936659760321673503953262316346065050446772032281, 7728265321625027696338631433613288712049994190752233219535202857471062),
     (False, 806474834831817062245357752294925013392455561811990818145222136151768, 32997167712020870889150033703062422367684660713007268013937588004634268)]"], assumption, simp only: chain_rules, simp_all)

lemma prime_236_a353_3: "power_is 74058212732561358302231226437062788676166966415465897661863160754340907 2 9187115773085945990820 32997167712020870889150033703062422367684660713007268013937588004634268 \<Longrightarrow> power_is 74058212732561358302231226437062788676166966415465897661863160754340907 2 154134225742069902452327961523 17913953209660076527292640574682677218388229127185038142443348322536544"
  by (rule chain_segment [where cs = "[(False, 14702124677882099711576890093211156815047128536655385694965810102295148, 999975625649500912286080534088863466101960910698492601649879715876588),
     (True, 27004466216437862716813113653160490515364571609130839941541039813990, 1864007810010288188741399701514243311252431279415540092930578165154558),
     (True, 93832270252768267045241884392711392277937358282070450456510946269989, 28626218806576921961340045529540666170926452197371841027680180287210705),
     (False, 11065084788384638720774662473529561443632848024689134225127493801739167, 31803514822572220289156062795099342274597864049633584675715267654392556),
     (False, 13657682487182926999483253099115111144353355767747567851330477906861009, 19220884436601480912781608216877013296231675185376818870401086296217973),
     (True, 9977081133710788878485526474363420629491015063254761544021916303032567, 60983384935866775461507939732031772304301220030237765593725493615139189),
     (True, 100433783128578596075660806593151298307391274749996097749833075409486189, 9493807042797032635944806014273850683361501286064614536484703472922019),
     (True, 2434095256696191210425617451567549021243371358161409553576415563169008, 34076489444048659561239079338855008208513262077725104410136794821062466),
     (True, 31359307495677893923776046633313933209912949013680927524003958787110046, 61826313265009004440978468937703330075124509582068344407818590139550590),
     (True, 103229415642173157332354731388292763624024471603445041509215906481121715, 38092472508530124247277835993581080589771685417685710040505201468200695),
     (False, 19593187686733661777179124367570306802826125902673235613780615050313823, 8412580975695549096026250807984425299818270467453959999309020922025564),
     (True, 1911240254425378198394069666322209062758283115833186340756343381492217, 46397760927443049928415372891242081617255358156376832411987395353815373),
     (False, 29068379314717853493542162360855650911583375388995232738741341263095680, 65589060776501598804290563247178321167876036293823549237683067292147369),
     (False, 58088424427398887390421738175633245779690077504038796011149788900762317, 51974344635063833093859512245483510711692929980955080034350232016420642),
     (True, 72951598494536368442853167799595569172070949922480415073401006051893341, 33704913627529117480563717855944730838173458350426385312579779050184041),
     (True, 30679141737908042974541609281600598861056693571474527201873994475459461, 15607226933549849188412149648224408871015677297701428383776792889708235),
     (True, 6578217960375540432540592136579209082276806818183506171261852720236680, 60840064566666828104449604088800235050184082297816170272097412407761690),
     (False, 49981134028214738225382228819800608877294010371404312491505000770877156, 11210151264481738265985691976016405560279917407136710771250022789035608),
     (True, 3393748964112091712815680115978767796354162236799456625737792077547311, 64293498626265640742137369508071102737650948951467008432370672468708251),
     (True, 111632560740644715262469357563434341425259886502961409882676947901799077, 65555377648132053839042557023093953082877476083703538010095354435015163),
     (False, 58028777363401262300656498997494618029694395334940420642747655701797475, 59667082426660110222103230901360162163469589987456409263204967218106744),
     (False, 48072463457446456042174531528150491318497362222841198371994029972178126, 2181215040708824600356432598135265150220121148342789236529255445881254),
     (True, 128485386786078082077997155462607710793785404711978971514549341896487, 24071774613980400442812981948208126497856776931130937112981896233531323),
     (True, 15648509778619134562261096402222013461505232876840768348622742805718902, 17913953209660076527292640574682677218388229127185038142443348322536544)]"], assumption, simp only: chain_rules, simp_all)

lemma prime_236_a353_4: "power_is 74058212732561358302231226437062788676166966415465897661863160754340907 2 154134225742069902452327961523 17913953209660076527292640574682677218388229127185038142443348322536544 \<Longrightarrow> power_is 74058212732561358302231226437062788676166966415465897661863160754340907 2 2585943198267467040541635913323919771 65083176086450438169915310746334562236446053633666714105479013111252319"
  by (rule chain_segment [where cs = "[(True, 8666418152886246588920173943680706393321348206460280069608117129750659, 371480846283010113703753303046957061135269162680402538856103637020159),
     (True, 3726744517950470528587764136716307820738736654655478185329452673567, 29682276558738579352704453691857994359974866308418655819795561839065293),
     (False, 11896554199748784873370513820251028919381540430158295878868795670217483, 9220796693537925466429222464983529936214869305308595239663502903698768),
     (False, 1148057568855933585365137051191848748038273768035305316328413691795685, 35794930560100010156687473970915806510700091833258447157997559803131529),
     (False, 17300944844960312723884608215048401310858970016077908536651247554015185, 54743736280258971203675187500593751096345844666405799066233728729205046),
     (True, 80932999902248468300140484708958273679120605613601074079381214884534541, 5092182106714500945711176257032935062977714911214900685274704292955545),
     (False, 350134274797891328558426599429231013316711410271054919481954330883196, 63808867822073275735339792176675800114600049258448985760339943164548253),
     (False, 54977989104841849702467888481816180570208579150423492501256016086916437, 35476441234520760154751879380824823710469324108163379177643229645563650),
     (False, 16994440403407721095180102669028555888129994255248381400710365588779318, 22247507280918396323159760377723998739059027688696390462137866438361074),
     (False, 6683277410459305693945189275478059230743375277505621395135183221794089, 46866325779079349965483339549245942405815508686002849629816023934934753),
     (True, 59316918704549776903951995802729445429243142322064680747842771604196845, 39850845740953440373997890176948611699563490201265686624961367670503603),
     (True, 42887610912355370015888114187438130839146419209063439058190216577855108, 66354439529274802338907210702568782542386312007989526581484428988660262),
     (True, 118904075126521311668244674786232120397609892262779498434135373874161371, 29965181031249678405723905968250453312745013050990373647487418851313791),
     (False, 12124409179007614758904799660461443281886896336870353894168351523299318, 55567812703539821419447705102927664296609580495506865073393127574190255),
     (False, 41693982270491235626468547074978269675489815906770234181207839877212791, 28874889429504002371803893919545977715965480028873194812282193542023588),
     (True, 22516320845520512438922002336095406480062694714654069063788486020137599, 21477345617446243029579794320946064375794653516798976151512819202325195),
     (True, 12457129540433179075315357907440973171955336139097326397920688076702739, 57216739906273391685808761994764577953080657488179029705530519356931777),
     (False, 44205162462187774578243397150906005315376262742905674936391271963664313, 37378628906462158650990154137639227099388006261582363094841530520425838),
     (False, 18865725317628612289742045265138668221658491394939474687962686433483746, 7035380711417227666590810876491978822955165334061094923159248730604622),
     (True, 1336693931119385263280408430137987105443356298827608855859412689711823, 50792696317277242369046217246118328072763882147087315497958045245082307),
     (True, 69672164746823250823516556564095626911724196281838181570851449872051530, 9448940617414280564426539794122015663432469453192897163986749317946788),
     (False, 1205571610455113189981588535391267288854845976016400096653587335283049, 34242479913380061653905295380126776521067449906465867298438615715131501),
     (True, 31665561113459065534266705461683568934148602871803704960684806013317803, 12954832177252748741321047107951247501585509024404147741027901850758681),
     (True, 4532317768640775825270421807451857074321569495346476720971889619678729, 65083176086450438169915310746334562236446053633666714105479013111252319)]"], assumption, simp only: chain_rules, simp_all)

lemma prime_236_a353_5: "power_is 74058212732561358302231226437062788676166966415465897661863160754340907 2 2585943198267467040541635913323919771 65083176086450438169915310746334562236446053633666714105479013111252319 \<Longrightarrow> power_is 74058212732561358302231226437062788676166966415465897661863160754340907 2 43384927601064120312047782711192679976543348 33188750509360569261085627736760487340967385603443871443859640257349543"
  by (rule chain_segment [where cs = "[(True, 114391629319932015003163795194559478888348103099460613753702987044236185, 55642909715198949110656087579556631896400339459121389187075772050635727),
     (False, 41806752922252158735596479174163529461356403712226178273903218759619610, 11447567268194517353183948652276325861307116256737891499257993266432259),
     (True, 3539021305660562191999783395918862747168363200382171270428034792484508, 27776136964880079797717353398993835669243404303021470977641444723517406),
     (True, 20835333617295470855143312424381716154887940821417030786255438287687357, 39748278539264179113990270542757607627332245816611136643167201758124873),
     (False, 21333564348093961926429523082724672791810150060330214511904012628521992, 52173173888014548970949275744013812715644183618233431788780815546539385),
     (True, 73510822719387529850489296395753060385937702661971596107747178078667893, 2353221616674908972258510492962087853460559898516759426930962954957499),
     (False, 74774312974357252137633898932304500715453093311543352621227682470558, 63805005042265740056709226483707767089215524259352690504020272173818895),
     (False, 54971332931636024280426825074046159453777899469404178702163951710453047, 626112192816100370689606523811757047494990467139121588476015404127396),
     (False, 5293355909203933438352634986306151018504358565628923629904904434711, 46388703870742957232210582411727828543221734029460777230051043979717939),
     (False, 29057031859227493852266308409074861207991107942558299955656666464273525, 1853133077678783669732589300477660516315778736200186463272420053820546),
     (True, 92740617870119369668745050242639088461795947722020802733360176337415, 35957690506634113901026339818457221689457701810761477657651136774340827),
     (False, 17458637723813285065138791757272801454391709755840357215103144007236507, 14806834559799583892244899064339596776476858801114407515710139105152080),
     (False, 2960405626760156864625271605876512786590740138580979970811686237055276, 66349444636844600717434566013060067732219112580049021606643346021351068),
     (True, 118886174569593929341682195049628978964668654916786429665844807138992149, 32372565889325925750827761063411896528178707044507442638887595466942105),
     (False, 14150800884747508470947732456307022066365304082157526922933190536408789, 33043686473833781118526975552679152800414294939021190964458217004799402),
     (False, 14743607433844453272152371810057383954043066064353069740413925056151192, 11582302045526555329138884773835695608530111208948770234021666157146460),
     (False, 1811409102704779249029401526406743553180501091481076882641532959048827, 27301679723501585401460767615670887770107452447813736014387123874065511),
     (True, 20129616641340678067037797244560795859005254776208234714578649294633163, 45104934616076462866244328011141574532125779587487763859516876629683401),
     (True, 54942053059458693494945595447807063674377921411159363806588286190025115, 11858656629378446595141726962850593051525347841258325105880955387974297),
     (True, 3797762108068568976302454833587514878473904658124609741837010814679179, 43260051023609302975491150684566069111933147291935841245043109464413065),
     (False, 25269743158984758228451521196446114751408410054336282179881244499513720, 42322980176811199642362744024224961170990067864946489520710524338950185),
     (True, 48373693745898277032287970570038675460846786508684826675655875425786258, 6132545310875193596639989263877865828778173237518013901740318775212444),
     (False, 507818250026469689324209658195430110994438532854668710701813408286861, 51885826342212165621691213901146674622773511135095544600296085289530209),
     (False, 36351660077674794459353553932430767993937784602915847485834149109561934, 33188750509360569261085627736760487340967385603443871443859640257349543)]"], assumption, simp only: chain_rules, simp_all)

lemma prime_236_a353_6: "power_is 74058212732561358302231226437062788676166966415465897661863160754340907 2 43384927601064120312047782711192679976543348 33188750509360569261085627736760487340967385603443871443859640257349543 \<Longrightarrow> power_is 74058212732561358302231226437062788676166966415465897661863160754340907 2 727878301507414576325213052866745209585342696333927 28639085084386858783498765131685447929846558743848312644172332453958694"
  by (rule chain_segment [where cs = "[(True, 29746684931495388691628493085791724300422628752477270454657922851268659, 28945544552793275899767817501475414754652520982321346619971188233883985),
     (True, 22626647836705443279147844734272476205419649885257686257808192343406103, 69824840827227745672769668983798096560565983835542829108679261672605029),
     (False, 65833460147817795911791652320291189009223681026777771519878090484501812, 50895834909172221693614782924561765196331698218989366824051576728867357),
     (False, 34977700858864938848290626201430506115828471939274621147291211568964424, 27450854856517511367776299244938734878355786778542976268575531449272881),
     (True, 20350192221754119901861332669184747915475586022127161026725137460557278, 62332064015015688639835604837305395205175155152392083907816553392109176),
     (True, 104925194951775018922431486257493154316619262420383503350502041714678503, 67668597600384744556199357078620570984818645165174480099408626640375731),
     (True, 123660534929153603953171358482755215821990937304580891081787771202504209, 16180694220211356100336635633467895081170332421819851797538632019191159),
     (True, 7070515363189919197201295583885612170130557483168536571884249398304446, 46436929596591669777751169727202855041550095936709070120414013109754040),
     (False, 29117478680534059427401300385442718514046663951617747741647854723575635, 4614004437487054384285262317171949693491267101563482123878110507320655),
     (False, 287463552840913016074676089086878835924494597168463829841462645672267, 36179307482845481609848339157336807716876725707440959508771589476102856),
     (True, 35349011045273933580995719120250611256328896255596423504691270962671496, 66535307369269490224587868172340758950271256682969042274128855547026600),
     (False, 59776586058182850195738120940399189034211244870270602024576258623581666, 15064173813767005617549706363041070602460953666876671126720375588548938),
     (False, 3064202123144257133875752436949582284389887177835242866259525688106178, 59279143469451421606871590215296782828910826651011419913255058996104398),
     (False, 47449387729104467184769564176575990418930694227434410184122241356277951, 20506425541384661940473463327449387608860530765032982500561360013500847),
     (True, 11356295891258121486153372028982093085975014327421594348089246775199623, 56324376241442258303437058929130016990699267228540246103312637019556757),
     (False, 42837049962896452722328982594077857896854986435168225520314096918435483, 71425356840474608203703619733383876824721614982639628445214077477153968),
     (False, 68886102048019150418790140434710688719715605809539799104289227233685389, 44693149602587541354497543334952465106079324455869737856534403887237201),
     (True, 53943446586067420974610678965091634003468324309760035231940365969664047, 15602241204812307391118315165715968669053200433916792364806881977358173),
     (True, 6574015808137739710967859373089481240629933992603236535085615363979918, 9273395263634300767696774319545712325282663412431569638073022185890232),
     (False, 1161192750169962843865903453472105257014596667558364102500607726991748, 70075214107254112078977021390084843345536754053461903193563542785178388),
     (False, 66306429104769339488936337081166482283677644283007426828043540882635747, 14510760050501711443706871544543005827908166750461271079486143039676015),
     (True, 5686395862768587843066433539489329222067225831633110943352416020439609, 49719901405035636036265182483128730562551148702430787287584767140775087),
     (True, 66760147308809251780071736063550526925870542574672137548337879938548554, 24777049483517085618852688866200250497962635893108293957661705751816660),
     (True, 16578908900369354518254541934570153708355215919024080091464809233035758, 28639085084386858783498765131685447929846558743848312644172332453958694)]"], assumption, simp only: chain_rules, simp_all)

lemma prime_236_a353_7: "power_is 74058212732561358302231226437062788676166966415465897661863160754340907 2 727878301507414576325213052866745209585342696333927 28639085084386858783498765131685447929846558743848312644172332453958694 \<Longrightarrow> power_is 74058212732561358302231226437062788676166966415465897661863160754340907 2 12211771486103019948556585633964803598178564850416706183377 37556798836145457201763531410746608071951528303248769561781797324942827"
  by (rule chain_segment [where cs = "[(False, 11075033601373041412661846728414921298080877836754276180785666230635341, 13383330637015548203237439836505144976208604605500713258433017541991349),
     (True, 4837101310734918797114316701476581090360198562645569122596520865268619, 47324601305947084540464286818508181546177197573896245462661781926582169),
     (False, 30241317014421415286831014750091908379321879219355721136285242509847384, 32897744681744235800756307744508132168458248768409235825753821830607273),
     (False, 14613660865047996262795482575979055296300180208236562041827007747246969, 47879316742206143557453855281468530878464992872339500386272362612035646),
     (True, 61908838658553896780964453496261386802865247684966131926051865095109242, 25407539996202799629132552559164991317066582373393508883427605074912138),
     (False, 8716698187003605968920797014723273034828638335227160721477247278420866, 57842258273074398787967867736816757434061530349917377050586970833565582),
     (False, 45176986031395538946938580356028913343968550981403472638362960881760874, 69506124794764796401103234442390986621400446984907827537409802044726006),
     (False, 65233837082073076656520398050464688750222366199495359011406566433509709, 12681981443826589886290857067318826209650547822167824500792130532345973),
     (True, 4343411686759442018080762121229260591210238215793903620571281355112921, 15244284679672908704527728977362369453742005427831922143696000024074111),
     (True, 6275825646349562875542860723600411650996551915151488639129719752422868, 71635378315474223223417269613213002416450063839495860258741763946219366),
     (True, 138583615160479809560034963871452750908259161824293588883796260572835388, 52976724263460053885640491682516899118269251854729982699764143041266996),
     (False, 37896314400964765887697272355304545568530099034835275048797323441155253, 8819153439228122662293007935925798180710268810710648156998926283029545),
     (False, 1050220691464953650079042283070608766978255051838413705695873118230603, 62913363721103368732084362876491747483978346392781557758194592040730104),
     (False, 53445677240379603014502806702664011303321704712582572098431644455970374, 21671272607125531633107094959960235442768959299508678612014023883561598),
     (False, 6341552666256282314713580885011815265319622175597899443429754683221209, 47316323692617170561732539502443216879721213874520936394969580981617041),
     (False, 30230738836074706891029202410208279965400971969166871244391439495187206, 38234585936263188113153204429568957384070363044741245686231476072759839),
     (True, 39479309796379809129611735756360718810119034473621825901809617699309342, 26342544640302110572830294888487896043360725568301993982296462024758648),
     (True, 18740113554514870869022685295414701225509379963160564210805404736455884, 20563039294965368949738648941513438898316124257909778544205817799529020),
     (False, 5709543471879917066919053490882991514023224675141840779218256514787748, 6896058679297699710658809421963827842280400631326248736978005083352964),
     (True, 1284276883106800510536245701210732555347355381867082183902455919129326, 64874347957920409721412932292940663748872908420433960939529018790031910),
     (False, 56829362574056432745216415320614330021786633040205600814182473719099018, 57426701668729306414677340445338648848696353241708013710933482357318774),
     (False, 44530187036221492969856947398350378863655475919913390499204559555890388, 4459955485037572473818550997453445193442650770193213446026889776361160),
     (False, 268588751936908595670426710425923510931638869976668730379277935040847, 47887171865484411856107134848445943704501965459176375777178811148517371),
     (True, 61929153963128065607913293274239194351547214819835482165648339871764565, 37556798836145457201763531410746608071951528303248769561781797324942827)]"], assumption, simp only: chain_rules, simp_all)

lemma prime_236_a353_8: "power_is 74058212732561358302231226437062788676166966415465897661863160754340907 2 12211771486103019948556585633964803598178564850416706183377 37556798836145457201763531410746608071951528303248769561781797324942827 \<Longrightarrow> power_is 74058212732561358302231226437062788676166966415465897661863160754340907 2 204879527964991363929242725403524446364218989065448769647063011116 26780777205520382730579362102228773197482138869253922947930486528568870"
  by (rule chain_segment [where cs = "[(True, 38092011318510606025749967934120300129414187725968381160172876860675557, 12899785298278094841703870254182536624268901905842378209794725337393659),
     (False, 2246941353318782075002555254433772431291292761630154236313876410339338, 35815698170274133831563290439177935804152398086230910138082670728708715),
     (True, 34642052193630154975055039381013290843893399962514850419104161256064008, 22711565639774933199425807663053267021599759811328948513390119589127194),
     (False, 6964996788033687110325645405788953319250937053291919228737158335739891, 35191527780886979788517868408230402756336644898875445135762822817292499),
     (True, 33445139488450832974554405725121852470707691920190860735169466093318723, 9185722203123450671068554281284446950767608631582595847138297695428241),
     (True, 2278680224100430626051639603860028983830817913470935310970898867450331, 21638755944905968009233527687489337650299478667948462912039469296717945),
     (True, 12645073154387183679835398003695119246394575422633111970335020785137857, 15289781587890675861074756926396696876767179997665361435795034600629751),
     (True, 6313342231188228988786324112506105749512539030632878352591428275619042, 26628249750296532395393132740292489487593362137408879855189697443892908),
     (False, 9574409894615395555665040991300614684233230794749678494919893844821750, 56802009321903528046981429517583031124354115013163065476002109624369214),
     (False, 43566650395102310976939017577196204175794383952337922455758021979060783, 51770086851464221031503262704826230357568244217811678366516641334627615),
     (False, 36189664774745015968648624204716943539415473283419829094416352821245656, 7845580415297430537001397616598205509202838329586982744014653703738233),
     (False, 831145254276915383771082263331854857234225563761833047377794720719736, 35528976449811584508150190885668864274641475587387522367290501238921737),
     (True, 34089620070354844429175994708083366799804649260081899579752981343015680, 40893758467365630351063314254951495285793407343491451367654814655772578),
     (True, 45161756404417632474059009953854559906387647220453277771009049131914001, 46634709408715577863556897612186331440953414947790026646158585953193261),
     (True, 58732071471639693794714070493736675179006875286083744721163605789223311, 8778702619832253067542701701468412290173713593426012803781602386345165),
     (True, 2081217378705819918947979522440587317151491730317446653454693353252618, 45030490995686100096740603283331699454190651584175022797890161775509924),
     (False, 27380422028751217842135288746132709076165806817820814704100458199767014, 66463201670347013562418462857099900992745033074548712428999093693044078),
     (False, 59647093999218639721063414982967700134800166938112654256218183568401638, 5331569481725367790062574531437839647434604643913577963615933901664418),
     (True, 767656471568273161786462420567970701532289280890140415344848122551561, 14078465667482432715888675118206186499682954554370671364949869695551621),
     (False, 2676316214465395659683621272418952095356492362344408073831287299426183, 49218799300941621700777887577765091126079783831576242523622348011959660),
     (True, 65421244052282379343272204262619076524169700747057758374444932680293910, 8156591871279275182395866881698132356801490183586965861250337838654830),
     (True, 1796694478568417886431897533707137244298432479577852528570076412132511, 23433340034704093956194687962317574205731089868991311340412583612730323),
     (False, 7414726941427146900160989402489161233918997662185173758158321202089766, 50906434636095091736247996684001393581293815696839039451544782343826567),
     (False, 34992271508324236463999505286980292924110077295756354663577721689171617, 26780777205520382730579362102228773197482138869253922947930486528568870)]"], assumption, simp only: chain_rules, simp_all)

lemma prime_236_a353_9: "power_is 74058212732561358302231226437062788676166966415465897661863160754340907 2 204879527964991363929242725403524446364218989065448769647063011116 26780777205520382730579362102228773197482138869253922947930486528568870 \<Longrightarrow> power_is 74058212732561358302231226437062788676166966415465897661863160754340907 2 209796636636151156663544550813209033076960244803019540118592523383402 8562916886866218785688304546164188478888058893729309188831496247839076"
  by (rule chain_segment [where cs = "[(True, 19368818157189543031186771993446766939301900279879436592672367896474404, 71522607620235096512517193311528298171072696053002182409632556650509372),
     (False, 69073816556593381106987232309692144585304886737801033222161439736667023, 10864939143422089567638043214629093725665990101315150269836183773024523),
     (False, 1593974499716269206829805050555781098113515926362814959940807772099933, 62156819562095676488270028837045028973653681345601922808711538405518298),
     (True, 104336037166510182854375989103820988133003090867079671482271055584479246, 17564772476073511330041565379811759915519947610164092978358626475317486),
     (True, 8331857352549403176711054629940944240751053207949383179210916877082605, 50523779390368070268484767231227937176772014727309034411098469225097657),
     (False, 34468186440100928947827365128929908919616287024146760054091035271244917, 73926523866934479236542481615125229561745467175177673880405619477969930),
     (True, 147590138335746401317321989853089706382967488980365680673441764939057403, 44959815557586498266090964058205806185499758380963867850274346864325279),
     (False, 27294542230877380581320241156882998978864796723958969590123338442248351, 10416633099259662391457093178282627508095659035421849953000507705833484),
     (True, 2930296077125953899085710482706011428431587986971336322078142600629895, 63797401156125459217029563212514065561112378388747629925304672505541747),
     (False, 54958231424967718877258341434290271805353661695748862791366131167415119, 8562916886866218785688304546164188478888058893729309188831496247839076)]"], assumption, simp only: chain_rules, simp_all)

lemma prime_236_a353: "power_is 74058212732561358302231226437062788676166966415465897661863160754340907 2 209796636636151156663544550813209033076960244803019540118592523383402 8562916886866218785688304546164188478888058893729309188831496247839076"
  by (rule prime_236_a353_9 [OF prime_236_a353_8 [OF prime_236_a353_7 [OF prime_236_a353_6 [OF prime_236_a353_5 [OF prime_236_a353_4 [OF prime_236_a353_3 [OF prime_236_a353_2 [OF prime_236_a353_1 [OF prime_236_a353_0 [OF power_is_1]]]]]]]]]])

lemma prime_236_b353_0: "power_is 74058212732561358302231226437062788676166966415465897661863160754340907 8562916886866218785688304546164188478888058893729309188831496247839076 1 8562916886866218785688304546164188478888058893729309188831496247839076 \<Longrightarrow> power_is 74058212732561358302231226437062788676166966415465897661863160754340907 8562916886866218785688304546164188478888058893729309188831496247839076 353 1"
  by (rule chain_segment [where cs = "[(False, 990079869685274089067819496795799193426049271434876125113348038497139, 16153155050223087298160014462763671619986142323395781531433756842368703),
     (True, 30169160492865393294054143833401762548208918982329592005660227869004719281274025612133219534816225468054389441639174688116868354607966756625, 25171928313862840063030770210551396004168855366508115988049527562160009),
     (True, 73262456133059995953719285988050171171837018829497139122467050040976296774118623241088425066893638730490919989607843143335050951779397211136, 53380830016128662912109928654360594796415752176364461903178265429104804),
     (False, 38476664613835196748834781468705115678974470112494513702026977008765452, 44834681646896416774739443742377987341720075798897526609092454803933452),
     (False, 27142819198696964090932012945428575420921880469737623229143591720974848, 67130183245633195639869939918442703710504314834311865919213873480129168),
     (False, 60850260036196156930366811057474256033212425607645421547079812641604177, 38818018837063819385421431524313588415600254480646167217742265151203685),
     (False, 20346677712519600861533358236967420646558390703252951092134017590391550, 1249425937017005171791187917337941369870552391118378404367688045443375),
     (True, 180496812309892443193697792878939623467674572699199295326432597883446956961395001597358992175585778875269285056957973826939049435818524457, 1)]"], assumption, simp only: chain_rules, simp_all)

lemma prime_236_b353: "power_is 74058212732561358302231226437062788676166966415465897661863160754340907 8562916886866218785688304546164188478888058893729309188831496247839076 353 1"
  by (rule prime_236_b353_0 [OF power_is_1])

lemma prime_236_whole: "power_is 74058212732561358302231226437062788676166966415465897661863160754340907 2 (353 * 209796636636151156663544550813209033076960244803019540118592523383402) 1"
  by (rule power_is_join [OF prime_236_a353 prime_236_b353])

lemma prime_236_a35_0: "power_is 74058212732561358302231226437062788676166966415465897661863160754340907 2 1 2 \<Longrightarrow> power_is 74058212732561358302231226437062788676166966415465897661863160754340907 2 24779305 66794171489631038307525793128576800918843618272561686581786016898594614"
  by (rule chain_segment [where cs = "[(False, 0, 4),
     (True, 0, 32),
     (True, 0, 2048),
     (True, 0, 8388608),
     (True, 0, 140737488355328),
     (False, 0, 19807040628566084398385987584),
     (True, 0, 784637716923335095479473677900958302012794430558004314112),
     (False, 8313140759174391779718174581384026376896512, 212676479325586539664609129644855132160),
     (False, 610753, 9257276591570169787778903304632848584520870801933237207732895094292629),
     (False, 1157159573946271223472362913079106073065108850241654650966611886786580, 42814904236012035268477427783926924703409027458941222085764639811103581),
     (False, 24752366511444457889588512937582753344158343999700394018332682390794398, 67350303327341567303664872675307345658867663549221305857041082473184575),
     (True, 122499941354661786233472485700937432900040061875414728670643570416423129, 35611163889389469987654922301840199380342240245497212783977253210223247),
     (True, 34247518182392854538658558488959479179165561695714089566764733098606499, 18418446759371592376799735687423774052183681127705011041697004266691425),
     (False, 4580709802609802649694377758614016532721444361670007055497436936751638, 50018382064960117726139413037012994628874463203589051724205103925874959),
     (True, 67564108073494849678595397947439726516616132207039525643727448587378233, 10820701348675090188781782904093358004259012783131519068556942373226031),
     (False, 1581020839647386328200544932585097837298665051318182793897979002137636, 53882086226459911720719223514639819256392573009799262795782854936937109),
     (False, 39202663809886529253829340683248242738319684636566099630114377491659839, 31026804441375728781910736262517853733312237591303124398479010334543908),
     (False, 12998728410037856559383389039278423275684310698596745005302581405835765, 47195183252526024137441526692345440730174986827957158703624900316773609),
     (True, 60152283995376325647994584946875018567274401010329036844172158211024392, 36291934579476949170961539441498659148733234289554665606497081457366218),
     (False, 17784719167843759080248451890735372301385571443822841055181066035614389, 42939280187358984190817754633417682473964471607542586091661680867112701),
     (True, 49792770173019843489725682141248297432707771882927195984556953030874538, 45426864663646518485482412603622655631572460763133737969073214472904836),
     (False, 27864567034871860577519570032741016091881146573544984347461671156536517, 10649518422501175337413347620245076517440441695780975935993576699785977),
     (False, 1531393189851146376704041272811734152287088311846553906206315285154993, 26468137062010504766510494899990372716311976644238514025378256550645878),
     (True, 18919232686946983744373444805709571712730402048416539839092954989149622, 66794171489631038307525793128576800918843618272561686581786016898594614)]"], assumption, simp only: chain_rules, simp_all)

lemma prime_236_a35_1: "power_is 74058212732561358302231226437062788676166966415465897661863160754340907 2 24779305 66794171489631038307525793128576800918843618272561686581786016898594614 \<Longrightarrow> power_is 74058212732561358302231226437062788676166966415465897661863160754340907 2 415727762731470 59905247070155557589792938963250773898075121489390557708937474376224310"
  by (rule chain_segment [where cs = "[(True, 120485255594742648986484332523939123206351848922475636959752293680741737, 73723555997206006869384972328794329770427073036451337622245846298282533),
     (False, 73390411519929622829017518506288214258016127354227274680845614202410503, 47260047413850295524340801117859846689527409952507389999000405073549868),
     (False, 30158870963103383167930169422001574142469989357132966553994989329114467, 29758508075917093950376460550151922150999953377758899990487414539215855),
     (True, 23915478654673573194654470649307953392326271387887334466044588590288941, 15533081651677870270914748886790375115989360391793347345549385420752563),
     (True, 6515864120809629562991073281810391185062248833494516442093267749654094, 33032251797657976845775598082804288848602308872313537746715500337914680),
     (True, 29466810460688823946860703076646646679531392451812386380617098723491770, 6555666814127633506350188197211693389805847507378088565552137930169410),
     (True, 1160621240835282919050951948335245017146723158855308505665375786774892, 23106016685637634157287559334335934391370487219714175683276611963389156),
     (False, 7209031751886025387357323333454626263696774267179995147736760732841760, 9873998029049892886497741387572415978018053328879846957763859972516016),
     (True, 2632951390003365084335973123342242516486752734134481300714631218267153, 55979328769682415423166058127506160050484147169866874315296139590696741),
     (True, 84627622889592046404741497839485731337406975361735117551817279388666868, 3972333587906236889512936773951033395330448889846802252475024928072886),
     (True, 426135969297305335777391151775550010303196914667681621025775474146311, 27761516180245189731908187747824767962457452781687581946686976166293915),
     (True, 20813404811946240880143617252782535100322497885252814408259941941988084, 54086688036442362388769764764538014158049767788699155274639419664302262),
     (False, 39500950871114295143440728316281270050926568457830745950227210798568014, 62243176476028797547480952347273962206710983379796077722592821316367946),
     (False, 52313077441074672624183715521083514587340275789277486460515344096561948, 51023904306648405031493181512252039755800111751213581856066693820252080),
     (False, 35153951393554941235147189430086615163186688036328760545643930766393754, 71590560715488230603160546455438943176626670054473393316687045232831522),
     (True, 138410263884334697668989585783302797008286071685872971375087258913406678, 39357750593411277626853990861866899611033627664285504489485487331296022),
     (True, 41832835943989741901730126654307403538393699855890783072761033985881251, 73994299027674238557536821761741624074404976648766356356064316312414311),
     (True, 147860880963161488871598148691873729884102879153389967580661187774800616, 3030880329163152304462673657469374079447722318864915893063539017610730),
     (False, 124040740800502784159158201309001499428680217044235259742974989680252, 20186061522064547348942138738928635052949347431942743397747040877464336),
     (False, 5502118735217848572772976548618763168088411846233689071287546854155947, 31080597194559010657524423485039797717674499604036372503093027172496967),
     (True, 26087681199082037160337956481740719429391040715835570765273587255223214, 58440526477421557842028399989200600975360531510958556328261883512183080),
     (True, 92232718261552073960188940938004804758259176366793297784778916704704998, 41516042357108640934693520320558199706115539433164765985243275517819614),
     (True, 46546674822451590717534199232606053465495981671076303325335704820198264, 56850440753119798199641765124701563093724562108599945471550834900632544),
     (False, 43640975046147379448907198182990012079866321109616377133488698686605918, 59905247070155557589792938963250773898075121489390557708937474376224310)]"], assumption, simp only: chain_rules, simp_all)

lemma prime_236_a35_2: "power_is 74058212732561358302231226437062788676166966415465897661863160754340907 2 415727762731470 59905247070155557589792938963250773898075121489390557708937474376224310 \<Longrightarrow> power_is 74058212732561358302231226437062788676166966415465897661863160754340907 2 6974754472542632948837 67956744329022132767714645437480684503377926765859351246559220350355059"
  by (rule chain_segment [where cs = "[(True, 96913994927089439735818909119857892936373873868475114751776280327832044, 51610221560379778677873092924641887428558216155829860483579101455328292),
     (False, 35966503527844003029378274477109145875613536457707873368619714971706678, 12607433573230962643467891411585419083539293033581933793753662675160318),
     (True, 4292498439772539875113245926749808401244742909257348505721785574529891, 7644206704861915064519872494262899263124054706753901718355019928171111),
     (False, 789026550744237461417279879360768391737729621402180595280289091941320, 3656616792795971615964429652879790037527250914219750234205407575397081),
     (False, 180545085764386863080941208067206450607736793694004694604330827698515, 44910072599201880858785016335765272683153853309518365827614176295667456),
     (True, 54468357969940630847903070755584533619290143295762725935134971578551561, 42823733237427961866644958426854511007334944364622345030286946804018045),
     (False, 24762576096899098336158060060456886499967271944551491259875345372347245, 44229501098471092128779605976169943203831069068326638942217283173370810),
     (False, 26415014557319269354969579381474410077524440398545516613213450453762340, 15709313432981918239605436276139977726167899692337037488190852642013720),
     (False, 3332277669552274439986146704874254702288430677915795500904412771491518, 64736048859960574996725171318638238837341298743207500270134321237311574),
     (False, 56587323233587066496277858691136475818689270052206261830675480492579315, 7070111891805060864548757543425365476045914473664363518210803907818771),
     (True, 1349924075082780276702753767445467218150842080270606888311729582469349, 73006098937535659217249858779868473560363143744827874117540793935541339),
     (True, 143937864158956110630592553985582406544529904432008671955108538038374068, 26261028886456709935438836247269744776045331597228431455996526695426166),
     (False, 9312156109758469703849824938210800892317925220974681000635591841851007, 59164004801848140152236676725967919273956568472762473385950375178216207),
     (True, 94530487167808446290027239163393343673157767949897615521410548333089510, 5074814565478457957282033174263980056348248120341405154030853789348128),
     (False, 347749991847549650111835462083637654481009403032134019260908499036193, 70469177349291559466123681724612771667726699584267318722499984723657333),
     (False, 67054075072251032263986933927948862439647103053025031552768932082185748, 55224902731661154825095012409331249029123573085174738085104203915879453),
     (False, 41180981408973794870941102491021225379444826167519209874220736658769210, 12219301287136083619979772169428104279429169654296992171429375052505739),
     (True, 4032269168714558224485966390252941702192553538323437086566338828580863, 43395268309710450924767376581795593145242126782251477239918119537609501),
     (True, 50855921097425868668342240572447226372236984656075340425431102992866322, 55268776644369205451234458373855931073298096374039012089695711263703948),
     (False, 41246440591215224387854183769107645143015597121762276314351387414069189, 31449701159615089460857935188139667440059681354380461699459251599772281),
     (False, 13355489776682415329489866032965129616121053900198373837916608007368668, 4270266321051578943348609850947362855436106466744013275257027353441085),
     (True, 492455158715702634150911974863731001342068732473452735588521925698743, 32447942494260381179317789457463668218690385819077244298629524728574549),
     (False, 14216775334734902284854741485048253965239136015444041419028832683728650, 54980755414433188203062458250353229448483829906751478486261111467667851),
     (True, 81635334000239669851652805874673961220647979182055961350941960933546749, 67956744329022132767714645437480684503377926765859351246559220350355059)]"], assumption, simp only: chain_rules, simp_all)

lemma prime_236_a35_3: "power_is 74058212732561358302231226437062788676166966415465897661863160754340907 2 6974754472542632948837 67956744329022132767714645437480684503377926765859351246559220350355059 \<Longrightarrow> power_is 74058212732561358302231226437062788676166966415465897661863160754340907 2 117016962332813822191357596115 10980063351514778157005549468018301628451670697274289593367167498595287"
  by (rule chain_segment [where cs = "[(False, 62357960439539771786128189601645106508750870812756374588267956349195311, 65059046996379679682899910575007640085683652944613117515805467747006404),
     (False, 57153412699306839625973651182967669345816692900568340219861985411391345, 24299272528052384420260690148753539293873449786856489604039988297761301),
     (True, 15945689846035256996305345415711374281493662633141366364906721213568476, 63451802044238897392199271441770955419508672762410507456557591853977470),
     (False, 54364411914724758443541641883992307341046508006289583044300701856578485, 22597814082411409699612966302411864418534596497329094182886460976015005),
     (False, 6895402717148043514959193901617493506645197422235451317313759372319685, 41038390859567015992972922737202606252633949239260025002469908108295730),
     (False, 22740888042010760031754550134738071144892501565620546614805772040026926, 6863649637622606812243395657090806345933121645807069554558333472971018),
     (True, 1272233952449249670485281565529823906902578794808389441858449973350695, 17624207582733641917495387846056778294471677926149874945567454640532283),
     (True, 8388338887976380979233632060637142191133287221350053799020984786454163, 49193208058566577959104148180871418100167009799773547090851024499038337),
     (False, 32676615189626696606969688926059182374810154778338336992834428126877671, 61578077530096916426596978715402478932905687967287143836897864375537972),
     (False, 51201068624161522796693086448446449429537990654770489420832469529821372, 4105875347237545186198470304769667924697171896217700108781547111408380),
     (False, 227634609924105556505695070201995370181179909042028064268988017474773, 10828997928446210701989189866324491273221686470919068671602815019785289),
     (True, 3166892416314906918693693430858285187093676442534392119535258251078632, 48346849457390357025693369405251523959762280159930721241142046330427818),
     (False, 31561899298008145797706081370360994443202422805003922511586819844195260, 47059771906714119819812480879258455447475740669393630153716347794740304),
     (False, 29903802025433582900323457948355307970738108896316002842234649276338173, 40688680805101588592102734332792292787896502688139661668364615742469505),
     (False, 22354964892793509691491052911460174674276674138938529269381598747491505, 68648931893065637410210464875532471739450541519771408167643509998449990),
     (True, 127269499929120772464615526585854164988136094233458206394173569538618142, 17818161401505918158556069249545863733577477380957474073626904299065406),
     (True, 8573981575186599190983813337084739610965500400993071700566079170689824, 44777293032195950306999229438824625693916416402529125060476520480059304),
     (True, 54146755567315981072578964901811582330213354162598612804536251080325523, 39730253019602770864519918142779519123052512407983580023337025838859471),
     (False, 21314219541077787215780681680441156076396487056065405556911207908716445, 69739347985785909195117120511593078001038509240396491072119825759284226),
     (True, 131344694343242240387140996989731845634947517757697103505563730114988853, 5714243634965736365600732601690172024192946701703246837947486037928481),
     (False, 440904244309287667153166437186660481486210696506512803525611201829458, 8966701809750480175132281441372376453010733244796307400251428263928955),
     (False, 1085655977620320063290744023886737844277678485243321116528451044092305, 38083218005577667609334965538993191743775586963748294557364486941971390),
     (True, 39167337156725204457292637679172753909629793556775606512403684320159701, 25367839317771031639952215701897139861415218974366781842116251919875393),
     (True, 17378957657975145986220623857802246461732111946846172678789774784278273, 10980063351514778157005549468018301628451670697274289593367167498595287)]"], assumption, simp only: chain_rules, simp_all)

lemma prime_236_a35_4: "power_is 74058212732561358302231226437062788676166966415465897661863160754340907 2 117016962332813822191357596115 10980063351514778157005549468018301628451670697274289593367167498595287 \<Longrightarrow> power_is 74058212732561358302231226437062788676166966415465897661863160754340907 2 981609426360740691344999861639072106 69490809710348678725736597923071784769591275419387514694139338586948360"
  by (rule chain_segment [where cs = "[(True, 3255865534823263176614466836109888802190293622813622970500202692453021, 10622552789254092636906058105188141289654609219000383430847022521194691),
     (True, 3047295461152220427189866373814562132881496811975363930449659464845927, 37997587183541663779003367602879257353611870065895468345626288664735173),
     (True, 38991398212234826587318456173136271795483567459637684363610044019533792, 21856358015838061538321139640202557757811906244077066571949230072250514),
     (True, 12900672811037390088026761126188186993060667560218988915459697638922959, 21775303980155605413463449083452253346837572633045873128875810151344579),
     (False, 6402583129307733717762468072347783353048882562596280557838598256236721, 37207812695334010458645991763120351975762241618636847401056575066841294),
     (True, 37387381479768463221894128959083980892545541552905982316545567930718411, 37066768459898215312323199364324727412010576745391323375440717851850095),
     (False, 18552234429708552230906066971278449227825349130870566166955128734613604, 65626805947523963538669627678002060436780939641818486051885986015610197),
     (False, 58155301079529712686891825227722310086196770252801774077643867699556862, 25627939115667223615495161442228810027303364201690768059766515471224975),
     (True, 17737162134553459723163524430514104903164791560191599596628031593964703, 22215998879008375740440568544676670894116847390171418840696984340495629),
     (False, 6664360210452402490315611173150786364623480370785771235336876870711858, 35672966278453353814284990201267606061600807179621978912351760668730435),
     (False, 17183246477998790248640666963798796068560927665391050837232183657209882, 593108134046836163611118372097765501214679492636961049514195218046251),
     (True, 9500020205533612460863607035023226341966507504527386742282590405388, 66000338066974899546734582618282039671499733981041187452017325268703086),
     (False, 58819197280462360685460293366817666672279025779735201958445338425775591, 25128021495193710391433785416588563254141892544643471369982176932522359),
     (False, 8525961415556822751429961544556541119070489617166438859227337066592683, 43572807545398728076739399730915348192078017524923048607277794141141400),
     (True, 51272897018039938331575911114022356578353089632635441588719792364967345, 64430789838214670370977400022716497713195584758074789776176847535238085),
     (False, 56054913101500797078504486632617290810907833942075047478446719477245190, 23925621013128056732313651708555195202385702977930316835875695148479895),
     (True, 15459064423577447528741810599168204838058394903725897591957194247937479, 59871792106663572955832521242387634588680708476662779603162677650268597),
     (True, 96805779070265861016038157719736767487428588851836723333874565562545129, 39745327798338992893948292242152723184584720464885888454686274650404815),
     (False, 21330397041878268220440035344430235221085025770882907312885155271526734, 31696639904365753107769442767829799140366231137872339266966295574876487),
     (True, 27132088235915598731399234909181487362125011788829694942919061461604934, 44759233612880384862059565985245276826796294382194269589621359021687200),
     (False, 27051543909748800298682990317910115598901721947196911740163252889717035, 43289307772775068289359397777382943891461722110298613870449815488589255),
     (True, 50607869088423557493687882383678272885283588652159591838997884593648727, 25581444385703881019328578566098791501234095168041173362738593038334661),
     (False, 8836431135896618987616964895708495005000121305835174671583745728515123, 69490809710348678725736597923071784769591275419387514694139338586948360)]"], assumption, simp only: chain_rules, simp_all)

lemma prime_236_a35: "power_is 74058212732561358302231226437062788676166966415465897661863160754340907 2 981609426360740691344999861639072106 69490809710348678725736597923071784769591275419387514694139338586948360"
  by (rule prime_236_a35_4 [OF prime_236_a35_3 [OF prime_236_a35_2 [OF prime_236_a35_1 [OF prime_236_a35_0 [OF power_is_1]]]]])

lemma prime_236_a35_rest: "power_is 74058212732561358302231226437062788676166966415465897661863160754340907 69490809710348678725736597923071784769591275419387514694139338586948360 75445702479781427272750846543864801 1"
  by (rule power_is_rest [OF _ prime_236_a35]) (use prime_236_whole in simp)

lemma prime_236_a35_unit: "pocklington 74058212732561358302231226437062788676166966415465897661863160754340907 75445702479781427272750846543864801 981609426360740691344999861639072106"
proof (rule pocklingtonI [OF prime_116 _ prime_236_a35 prime_236_a35_rest])
  show "unit_ok (hex_of 74058212732561358302231226437062788676166966415465897661863160754340907) 69490809710348678725736597923071784769591275419387514694139338586948360 70463328703800545008217672123162676565183935400628861884889913886334520 66117633491858138461393741777649859022484251587227054915412604379442197" by (simp only: unit_ok_def hex_rules)
qed simp_all

lemma prime_236_a353_unit: "pocklington 74058212732561358302231226437062788676166966415465897661863160754340907 353 209796636636151156663544550813209033076960244803019540118592523383402"
proof (rule pocklingtonI [OF prime_353 _ prime_236_a353 prime_236_b353])
  show "unit_ok (hex_of 74058212732561358302231226437062788676166966415465897661863160754340907) 8562916886866218785688304546164188478888058893729309188831496247839076 37940283535957283147790493383286696582099159842122763948555891970476459 4386812516739286907093083275457056104889941688880599415971985667035232" by (simp only: unit_ok_def hex_rules)
qed simp_all

lemma prime_236: "is_prime 74058212732561358302231226437062788676166966415465897661863160754340907"
  by (rule pocklington_two [OF prime_236_a35_unit prime_236_a353_unit]) simp_all

subsection \<open>2^255 - 19\<close>

lemma prime_255_half_0: "power_is 57896044618658097711785492504343953926634992332820282019728792003956564819949 2 1 2 \<Longrightarrow> power_is 57896044618658097711785492504343953926634992332820282019728792003956564819949 2 33554431 55874371979775216649385573191891013441786433360772204296104158392582684667764"
  by (rule chain_segment [where cs = "[(True, 0, 8),
     (True, 0, 128),
     (True, 0, 32768),
     (True, 0, 2147483648),
     (True, 0, 9223372036854775808),
     (True, 0, 170141183460469231731687303715884105728),
     (True, 1, 19),
     (True, 0, 722),
     (True, 0, 1042568),
     (True, 0, 2173896069248),
     (True, 0, 9451648239783810422571008),
     (True, 0, 178667308897216803844041172019681532254433604272128),
     (True, 1102735341553402596310854, 5224276227137439182359211610032770964119227448329156370456386700117210870322),
     (True, 942829938632377296283697278013626408871977656445920132388689198435089693638, 14046422762284079012395795304813587913913707185210629010741763570782359982906),
     (True, 6815733051070227683007179917180087812609369800448030980539184427408636433503, 57667402193205334524132346572890988529514358996637946074273776214954518058325),
     (True, 114879325439831120582747090688887667074747292471742683459243989529882896618193, 6282583251470661375988401844536932193162997771953941038931304321688160879093),
     (True, 1363507734306928362696447675741476609570644136198115698492051297579001177689, 41773579711171363526115061832776734394027191205387144658354332233763888087437),
     (True, 60281560627484322310792839924240717015033807934019655554939244451219324850406, 12423445338605615203288152012494886359718374004368866621880955284358764908644),
     (True, 5331693904062729566037547984692072219510661479864448302962544173935049584407, 31860177317140150806945610515978157008538745288633840599826077183006098902229),
     (True, 35065293505473288976672381607127066069505943702778691011549454109933861234535, 29965682538202139238154452199528621436240239400679311591035909128474666598167),
     (True, 31019118348922017079496557108320858793725621413120280228424085478614676735374, 37220419053942053202281425929749818891562230118522756619478076890995066343852),
     (True, 47856795871840759911024015570744251322235577976228105126831564726359485557293, 41673073471405172056591865107464322704643582559670806345915694214728927557751),
     (True, 59991837576878843771554544271772015880025582439139954621350529534145438039506, 14357806875099573081046010407345500900557142388859621890028323395882441450808),
     (True, 7121267769516051285566233254304252315191214831187063451453953938710815970236, 55874371979775216649385573191891013441786433360772204296104158392582684667764)]"], assumption, simp only: chain_rules, simp_all)

lemma prime_255_half_1: "power_is 57896044618658097711785492504343953926634992332820282019728792003956564819949 2 33554431 55874371979775216649385573191891013441786433360772204296104158392582684667764 \<Longrightarrow> power_is 57896044618658097711785492504343953926634992332820282019728792003956564819949 2 562949953421311 25208240221263666284244628749673508130280695788255750471349331134717349793909"
  by (rule chain_segment [where cs = "[(True, 107846588301411657130737652676825599297713318326640615414520771407115973263167, 8456664400796649213982160158192303565222228470151974305050350702246773000909),
     (True, 2470468345765169256498627346708025649968788340042232423154962042227618355247, 24730223749460300751989297794801363965226145514383745241035203824332555230159),
     (True, 21126968888001574160911701676469058525009290688311535334857835858306499080215, 1444992902726793028090455788455824656657439623120520683073984908815343121527),
     (True, 72129434840800993737594766937562980241504242759286808727511959662022683254, 831549168060017679827524564160905062311858293960840749036373044768214189412),
     (True, 23886744714801014886696507769537827772679352855246385159771542539295817218, 31481322809643635092733215727019093627902277071797746415030516831487441729606),
     (True, 34236317605904163585681062992716918235371304725150807566214975380922891374656, 37822683121557414710095899167460663848543473551043355343191920648275892017928),
     (True, 49418068814073027786939222965101384818570426595103275001994154559470811450263, 26842178458649787340962453003574671094533543717061574803129506058013583129781),
     (True, 24889525671458636133049918620134199815995737275128861818537651559096112549957, 31330852820456173428782778976368283529963853047524718861656227614838005523729),
     (True, 33909823889445468395816053112666583997348647557673551830151649432773615972057, 1410276654374142921912072096561494027695175688319923564839723865256343965789),
     (True, 68705220018839470701708344091363781623830380996174727005071506490276201279, 31212145392841138827272572664870072556204669421137992332397064300137686270271),
     (True, 33653353227861115471807244732842623038077835185459716990702003422470968482121, 2312173971283518761497399288637533573442699377561835361619694099549526195053),
     (True, 184680957350171053601008169484232251864932553604089789576768160930510728638, 45194746422429305393991597713404774341842436791187289784139113732634335346156),
     (True, 70559746098075625025131452555425960169398508764954262929862801133083377400181, 4500455057296538258870812134262857057835079713243151331317076981750702941903),
     (True, 699671138370607142638158399561479379192385640216381956865657898524272280113, 1153787188972287606307593351232234866874600405081045113565790564094448148581),
     (True, 45986729705108761893603616490337953950205357797901125778761069926574284463, 40855687261085163679075598424383040827337295504513323885754385820034201474735),
     (True, 57661527400359551235189990161715595912155971929750886157147215303049275347867, 12725503070822417001986919429249837080124537636621394363448261139776490441667),
     (True, 5594110253028340288798724916772088337448547922689054508110472075031578891454, 37940261703003466530301850464572031464419938347212980071669803697540934661932),
     (True, 49725796211940085457352700556331510706638872021124800585935446561303865667288, 46131046929608509272025581854558611791457008173809605434919116803945800816936),
     (True, 73513605457459201063452174545633124813758896002802747858592922549656155836418, 38312950625439929102367916361458591974819898438434820790339388288940301753510),
     (True, 50707511896394559525332794583552196075700316238902702544794226182985420195280, 31618672342086410660348971369570541766697605926830740459969996597839974999480),
     (True, 34535707828096941879021334208018637816193227708579053180709331689349993804823, 46829877536710347127320434698448566838685447823836470715081022519073557726773),
     (True, 75757763576012600060890577488242269808913106080196825788218696325009937112779, 43507094491014531035987560149431406451208903237536722355187496825765599958787),
     (True, 65388483220840084844503722245902371806649787950636647710512328994131542996056, 57216950547371830068827719320242948460997140955201589226694955077452539901594),
     (True, 113091643876664973192676911548936802639023553217373243526750777290065189757887, 25208240221263666284244628749673508130280695788255750471349331134717349793909)]"], assumption, simp only: chain_rules, simp_all)

lemma prime_255_half_2: "power_is 57896044618658097711785492504343953926634992332820282019728792003956564819949 2 562949953421311 25208240221263666284244628749673508130280695788255750471349331134717349793909 \<Longrightarrow> power_is 57896044618658097711785492504343953926634992332820282019728792003956564819949 2 9444732965739290427391 32701138785477294685022258595473138323480591694189213720300681212597505534727"
  by (rule chain_segment [where cs = "[(True, 21951598912791625014794482044960899374008813768385607956460346571117008405495, 29425705163516375894843110016508176480686115837392058736552579167725289780807),
     (True, 29911270452874792860804306021600080138446300369475900803036699849147729663689, 45046667171868977845557852166343106279028118565024834275292957446337603010637),
     (True, 70098129730927745549334358220234237641903814119017147622221604529308147930369, 33554756388950575406643830339888255401410403513173150599997540331253196160357),
     (True, 38894597506198890090533248757559052673473776389786401076392118655196940720228, 44642026779291232422354173453679535107134480188421520711687674042532114506526),
     (True, 68844445871547581578443438305970153888435062845642087781737184812917979347250, 14064963947811269298278524791691281423084908609845960596586683121720194887102),
     (True, 6833738372153958390816763840328580942651894780661843387767566082887943899746, 42377152215527182989335328374971173558542091039079385017153574542379655083854),
     (True, 62036121525276786361129582727978514126980334016848541147639853690961492930535, 21847452534710602092746359412823104712261255210105361772448459469926903743917),
     (True, 16488559292791830443437233576266510341323679343687904878891414320641194052143, 51233491304434306593820827809579342932574496836920566022732946117164516405071),
     (True, 90675300826876570257964173589869632215551221053836429204874863958324782489758, 3544437534908314905125170100574045874120208348111117397610725049021502447740),
     (True, 433986035544067378768525724930806284753631410967524787277712256961097284482, 11031103431658649564284950039691621335441819141482003785330424283625700483782),
     (True, 4203577074097247009668451653940048620250453719405284675649793245333694165784, 22694371332599253447191450960592330978402329053668220499847134565853973622032),
     (True, 17791698675592190232474878770473095402612049298441782134410277495684257472537, 28310783642159936751895284043735237400895841602549197481456743190793174377435),
     (True, 27687572638594103054705923628922746716039573944299549405064096788681639080602, 40774605092474466487059636332982967235493057760401563919383642614545645829152),
     (True, 57432884453438137317648403559665629027897111204616886666763003208069461109571, 29681671761315073482538582626460610693621576637624872798416464178705770446329),
     (True, 30433914591206086655608294228763483276043747474712097525447955223123828159904, 18878952571897396674442432668174851814068411255301696874725003248685998027586),
     (True, 12312234887876602463302682203350084809372534625901331288256269873514451665759, 50961823044044079682291874088886034062798460829831489998068398232543870548501),
     (True, 89716229323738468356297928799983150520706210586994565637666193051278784164853, 46281085050630773963913766411004831667293261619053526625279778566314907641505),
     (True, 73992579201980196177133953064924036416258108289854623838354300765080031423563, 42518445290574344389416482979224524143612826477025266152184200731679946271763),
     (True, 62450490420720726365096473025375917461390301069702083230526517023196685986030, 10776410042155387628757347139278587990459279206029733971475795250528422943868),
     (True, 4011708024670205646904773237461208104412745582931813139880285262458445039294, 57140289167386179571914958435061541047398071664847524067297069223469617526842),
     (True, 112788798186061165568232112285415094613530685650188299178786624149805459222425, 32267931274891655478184199467643527553561737611723686052487006347161512829603),
     (True, 35968584576694150731802210657912269816102424359723198576522881775916193206618, 31270142707819730893125732811113788503899031967334786644522954160691301052736),
     (True, 33778536389074492167093623245750137635126640889871494829332431893709929059776, 34258166528311316488034424742641032338801523995662611775475450041611407899968),
     (True, 40542388745613475419412795521961885166191856346960060743357652930813232951229, 32701138785477294685022258595473138323480591694189213720300681212597505534727)]"], assumption, simp only: chain_rules, simp_all)

lemma prime_255_half_3: "power_is 57896044618658097711785492504343953926634992332820282019728792003956564819949 2 9444732965739290427391 32701138785477294685022258595473138323480591694189213720300681212597505534727 \<Longrightarrow> power_is 57896044618658097711785492504343953926634992332820282019728792003956564819949 2 158456325028528675187087900671 31033228444585348421315759418180536040465828339768681257889441578444681097249"
  by (rule chain_segment [where cs = "[(True, 36940847510761537049519302323760336569418914353754154818909612656321600318701, 6551952651523179037334401176720959874396649372538283057572150954033323362809),
     (True, 1482936661063965941508723763038234862371988036480666090347743413112811770965, 2265485014633511331062933614384272003015725064121437119583661948537437760177),
     (True, 177297858094954578974222487749192763172459566360835587831674896873228531320, 21840033593278604262908027835695239214198655467837862420243244211695626839978),
     (True, 16477362849130450598533503689684345657660639061566213704638782611607952819942, 544734975573418274629760138647082823830392536981593142938960017249991458010),
     (True, 10250655137755083936554601777335218503622461026677150232654266668018655170, 43584484221788900868419546690254479977558121850951190428318500286667018333870),
     (True, 65621314111920564825831336846232123239208664988423875896416652106963270576764, 49591944006784683262192128848541511732298204188838084179687636006996535288764),
     (True, 84957821439134776331261502280840113420261735806276486858221555402042411995466, 20756486169383920521134455532562552711687687217901827738778514137285634944158),
     (True, 14882941345564124828066017612008485121994852820235293373220361869233929282172, 43765620297419971205843694015456769443004566965438152645146172353629561008700),
     (True, 66167888761114278329360047299677447646835902200218611490803830916393541628264, 34446819942962459076117508892498008554615060722037806425794218891933501941464),
     (True, 40990137132804309067993861405480738383748193085991310918309078030973619724934, 17428871526260863785429713356690096210201905366964099854960834977827949018226),
     (True, 10493482402112578222049733773275244280863471691002947925447218845449690248560, 48984009914529255597717947851481220773766393842112514106411440539177103850712),
     (True, 82887639150859627985695389084459401301614568515524425440814149350044640278977, 34173355633475482035240025096660577257963197104544359244241478442929630901715),
     (True, 40341900485396506810626534887925053320998289030557401725810308111996057365195, 839549009537373727335591448127933459387573416171681425111262846257465607395),
     (True, 24348555900761357856719497658816941186952571108290407458726547343078040770, 30924531555065913850500907411981598969540926802104713979980629951941826051320),
     (True, 33035992638159361878070554388821304506817225796044458999502934228030073007292, 10206601475148846935039781527637194584781325524341657018546582116449603416692),
     (True, 3598681545818014046532595030349327627238966246022107880752365188520292762450, 10078996197941591827521117654050648724757670787365913398510810294488290330678),
     (True, 3509260953049044626037840471861058536515752603446055066082547407964220423174, 24829494668832271851873095263695645243787012425653556421762256145675278781242),
     (True, 21296923116951245854307701228943322563305897622673032852674013740373971891202, 7738230911551345549198896152119266338804972681543835554519681511733634936430),
     (True, 2068542610636003040148657141626538149954058585666694678296033673991557851997, 28386134145047664064908648067853568489164700854806897628919141988772787201647),
     (True, 27835152366901602869213775208870338142669300156406924730895913480295754491170, 46946574363901951083065463873840241654700729642342945764501467377662918674888),
     (True, 76135800261391303496220006170475584376563810867234292070259099341430269826758, 55660232023739941517405710433965571046517923154926197258950504889269991229746),
     (True, 107021522777331710532511463055934353685744418295791798033768540634561326231025, 19328068596642071616388258773760056600004400873025819700775715201434807731307),
     (True, 12905000268571371168102031251766382466034814903427797583691205750547279589538, 50474905824970365894909409390984680001117021966810417657380743844501021762936),
     (True, 88010023303684465038199101971432350675823760395079792878159552348849283571707, 31033228444585348421315759418180536040465828339768681257889441578444681097249)]"], assumption, simp only: chain_rules, simp_all)

lemma prime_255_half_4: "power_is 57896044618658097711785492504343953926634992332820282019728792003956564819949 2 158456325028528675187087900671 31033228444585348421315759418180536040465828339768681257889441578444681097249 \<Longrightarrow> power_is 57896044618658097711785492504343953926634992332820282019728792003956564819949 2 2658455991569831745807614120560689151 4043360565791032338078027380609862533945144841446388649871217817879889873478"
  by (rule chain_segment [where cs = "[(True, 33268637746747086649300906977479322187440244455853081277110274589156067877483, 34893493536391011707119872334858521129496918020628390137352446654800704427635),
     (True, 42060071605713142253378839584932387232486306678018152651713985412535598399254, 33959849040268441603383559630429610870692267676446120304775157931210777468404),
     (True, 39839382964208848360334067271390003525226080343821050650903459576745340575850, 54432116579986566612700064865178477388249008452809642039202947956959208982782),
     (True, 102350871631821708217226978349463918223567800242376397877045874881216697941533, 24977296195056901874042652720105099310444481248060662814903730573525270877231),
     (True, 21551224416963073931958173655969196502583458339059700066971628739627552918331, 44666734350811345786922297534185848357330186680870171487507256750286031869603),
     (True, 68920672239601872127110438747516143379289217536109008933192685770761686249272, 43913945491668488238467437891642359526858952048146193627709874418675378428090),
     (True, 66617145310951226535649859049230895090316809445487499335578021564514512252907, 57608036939302764840478145776034576230768319873591038614247645218099795254457),
     (True, 114642923946157193179762947389674802568062366165219526288805946914335514412463, 12388985866120953976310377947444982970384487555830578790313727805310640105311),
     (True, 5302157403045826681819926891373769556938583205314960449317747356958154950146, 56452777568112233575728564218974371806371177993011520015533434823606779550888),
     (True, 110090978274799507594614258164302118311941260200430991148351067799459978824447, 27121771317718166130446342152088812480578842322560199196561157068188728683885),
     (True, 25410733470850677615756904457297141522519319513288968301441171753949001603956, 8693388228197790815718534177035537785053224711574691503741616077445171268206),
     (True, 2610713715728084432186256106008826940331119867475596889210724823511239868971, 7165800087628305419906348963162552686507119412646729856902501367281806014393),
     (True, 1773823798640148924971310911663430344809015098267929626626178457686530130358, 49792237624548631371459520503827467480723489230450235332529824117671677405156),
     (True, 85645468321354912537564040079950959173999572124923354990543607696877755765852, 31811642783378886829211474911892627132032788008300638327977767020779768187124),
     (True, 34958540716999933903659224261659778987741104028921057937050563883786112750261, 21880558264494216808287980994218397563141933685170264459882187058272291026063),
     (True, 16538567811302158141411194913492995872801123104428166834159714586081056640480, 57587431105925644872911601351995929038311179672182140389836888104460665624418),
     (True, 114560925300620211026059563263751061831340433501817202116617979490432906880385, 1852334911467617730563258363249118600141597140885538955656229673690870877083),
     (True, 118527773247431684770500858927808657703675953607098613768931043887889997902, 2999873641857064848050458994987355362871396067847211588725782548222771430780),
     (True, 310875878529656691448703851227893817197627909111716434032923063868271649320, 56741858940553540454691345612168397481200062484931002208351244857929594532120),
     (True, 111221365025412675747956376611849817076852491744775589072119894329333407438431, 52983284024645604748356606426061694763976161113936548640232552828396605328781),
     (True, 96974790057819721861825314266735192123796800858614364812552591900009386467466, 23441663550800467214817254139361687330701016758839580700761892247398777612688),
     (True, 18982698857871083086182549736300479685966229295121067527056855531859555548581, 44219520063360469453149303383715684669581732282357224556220104279732889728319),
     (True, 67547479884447420660787454060870603558801664896804797072970719315679249953620, 55937530409946316548552502116686273223393472796871774714777090375113360366142),
     (True, 108090538100604096118304240725110680872291140372784317374303727527994397312650, 4043360565791032338078027380609862533945144841446388649871217817879889873478)]"], assumption, simp only: chain_rules, simp_all)

lemma prime_255_half_5: "power_is 57896044618658097711785492504343953926634992332820282019728792003956564819949 2 2658455991569831745807614120560689151 4043360565791032338078027380609862533945144841446388649871217817879889873478 \<Longrightarrow> power_is 57896044618658097711785492504343953926634992332820282019728792003956564819949 2 44601490397061246283071436545296723011960831 57536954078394898341561058596771979671434564551776157719280604183017138807529"
  by (rule chain_segment [where cs = "[(True, 564762749257840590673440239729974843475440910701497854226515968137418131555, 30004323796572083792199736105378546854862298935002078911621058436625125242273),
     (True, 31099169292798843622050696140956521451060393021839821803782179280418658226990, 21002727013096797169004675847215356244075625075770601455342047954896970189548),
     (True, 15238158146800529077116263893970360384118671085496816356940712432952763817373, 17683968136273031964748761461046074121640974398427507673212257537224433714631),
     (True, 10802904796157320391335265115260989674685824036037660820338680353868854321115, 33670049901019569500871006427074058907676259723424101617658397332857683009187),
     (True, 39162338906026079335215335328304674344687630835566103104216223267883526155280, 11338079573254137144714295952580911299677830590163390051859627963489637121218),
     (True, 4440788632666432019249815997819417179592159489060161313891228094890738425608, 50503907384779849179363696987365820920550266664725850379172394941928600753056),
     (True, 88111188870696254755449552974409393815014423354944383796027125958950030473209, 26963434268030124490232869225365333943046998147329985868172663616110233431931),
     (True, 25114903524586653826662315338969714662406522073540194989592059475750281158218, 4187519072817056328568485486024279769409738840626811667464950563644469086640),
     (True, 605751778060345461671016514523729909423593143178471046232124619385626244189, 7107064703472137553390016727696887278224065643217254122925776710931760452839),
     (True, 1744864231469849974112354672122145060993553896207903176120682340458473632686, 29496294275899497481912582965637454402090666302592967900353443089829135066828),
     (True, 30054950445788393613605989667092520738884439554979612480591510034787511326693, 50000476100785037372762746889064864080695006262063619269247590084856389364511),
     (True, 86363330233426273396377911430734596397474272800053473858361391588585251686947, 31135492015806444414737471008134301620896546760764129796378474588803284032539),
     (True, 33488258807715967697761766448059055738404468817230433671428649140773875457260, 46812062959751952380575244630234810940688005458028127061524926515372476693302),
     (True, 75700136442190403065218753352009466604487886460409827937139038491364131597516, 40106794658385117354770859867621150384110113681558623316461986703750067679724),
     (True, 55567007672627143614729654096522897032199591137465526892863225225929085584284, 33417327200782650993787628772606431437902672847704516142353609196254157350836),
     (True, 38576651120110702197779600441666693884358827431915363858168627966250487250875, 17648620390273356357020134462309692498714675943790013590705331000182812092417),
     (True, 10759761007217206031325290023206550541743494695725873171292104845553763856339, 13112761563863023931459458615335431701999506154879951249469996812584060497067),
     (True, 5939767283352931431985716365734046376026248774106787094486113023710149896781, 27824130243647834693943021692430694884199168506770451210322983763184031520809),
     (True, 26743872708913286202373842799721015217206051541719712602785366798746573947123, 20214254819784530476572656051887077550238535948296280650423414391220058472235),
     (True, 14115509983820132625438042482052551167784297491585821798176394036057575417378, 9071231205899977564151271366498780104845740454626553539977526889129436116728),
     (True, 2842585745982893617293124083823514537634167012734764358418444497757315728595, 31317987425793256789907905358765479205452620350800147189927333389226957110313),
     (True, 33881980811036541472033898503473800664499624824355458435912878190270506044514, 1359025561427706785952284000887504036478567612089220490382823253603912706152),
     (True, 63802302515798422379245586793185974195111664963371835224704263527059282209, 14398822984063074768968153532697637190471276264929534688614638524962533306867),
     (True, 7162012696790284798398180312341660849474109904106232763679276648418733861101, 57536954078394898341561058596771979671434564551776157719280604183017138807529)]"], assumption, simp only: chain_rules, simp_all)

lemma prime_255_half_6: "power_is 57896044618658097711785492504343953926634992332820282019728792003956564819949 2 44601490397061246283071436545296723011960831 57536954078394898341561058596771979671434564551776157719280604183017138807529 \<Longrightarrow> power_is 57896044618658097711785492504343953926634992332820282019728792003956564819949 2 748288838313422294120286634350736906063837462003711 15684242169343610675938633510107053195079618631387286693842602453664090877259"
  by (rule chain_segment [where cs = "[(True, 114360181474381813137840557426815433171026860246966996689286650914105276457265, 40547459852214399804323473420694576591072346817955398647431362105468896192197),
     (True, 56794777995493576020240577562350491590808922494996314790896039574132059826598, 45971980921394367875587158654687982103435759201417385735055715081479896170116),
     (True, 73007510055564560104349826962464043465309804757690126818907219567773497171056, 27684301228299730442981507030630901095912202244823809002810756354766128710768),
     (True, 26475747680083983496230108936423991337635288002028276688922985176814745290899, 35757025066575975253653098954451781796433373486781824308350643199978034955497),
     (True, 44167605923106563104188016223590846343945229021755613036295058864461190317974, 38127182720244788537581039343329974557372141358442408506114334627016172570692),
     (True, 50216973258116365209524540063075467803417184657892748373851398968378418394460, 13901224617088797557110006582934073320367546309008609680113272247555915635188),
     (True, 6675552609080276611244349742173351464965958472069789748282620977888559021339, 5454410152077933777103100970173391160692099338506939472643174185754823698977),
     (True, 1027724443113446721845149397926748437689418674520782065013613455796394928743, 55362729019363284635602246820605937821515778654018841355971440409296941798951),
     (True, 105880523778775898649789442283871116994999172150061642298388401429050124189705, 21765073601240440394004195196733367356284140392914731226844435028259364975757),
     (True, 16364448797414004016935442433817151154903072771179003446381278293219766429705, 6868468521684803207615437430387374804254365021580786674773294649260505261053),
     (True, 1629674709010145781567724911074021394837156596698000293511699479921077136332, 21540161437867206792264745630437124108648831241490862309653559019023251050550),
     (True, 16027988019749990667968078807425288476783301496478787031260703591891746647388, 23310579803174567687392393518795196592504696180061856406369418281530699461788),
     (True, 18770993228959014375168938097518852292827013663389723557022526825773154578937, 9295663124364450797527547070745142724484968397426519232838479866529431499675),
     (True, 2984982946272706557730076495588203411743423818118343095025383949986404589165, 26389076693310116141985250835199949026874418449444379430995625568753508958665),
     (True, 24056336605108267934262722213082671422221194304435394145711208271514514723157, 41577931303125218655368411065379178664242088974509779353166293289040071305457),
     (True, 59718220228477775803430539865569976364492777564242064434753391855748161551541, 26581867791059424736998914131786935395247100185720215298147869473475247466289),
     (True, 24409118098325100620684301060475331658149855347303882843425660276191920168233, 55590360218998282887189888048440386046650429025517689767088323422846948382925),
     (True, 106752997363902227275846233111344972455748592338486832573991598035947091827971, 7138300081214773490902001799287249147252904381900996808424164052295966117771),
     (True, 1760235207261448101400917070109583781090077042682496295978264267509801174521, 21363423181746877609111268711041542253138779060801629243052671443405792697453),
     (True, 15766045955247093706865167660048932482760871291574595400024946796442405901939, 27935597705990857044596004281158840715176448634484849678803416174709500393307),
     (True, 26958581517310207078548026223582635705116482300748825839201561774177508778390, 35579438349793358381572025108442492934664453576748305360961308541578088690388),
     (True, 43729979884628844514961163959984934689027826546456740975827991814152907761552, 57866903068063127764661670395535172659072410669887183287178532001232342380240),
     (True, 115675552371309004746650172950541549573762991964391863556167314696094380637985, 43360846569293993820275693050384192156330769926392333168517301831384209752435),
     (True, 64949618841489442485459062567039650228872921051349390588448231638339439105859, 15684242169343610675938633510107053195079618631387286693842602453664090877259)]"], assumption, simp only: chain_rules, simp_all)

lemma prime_255_half_7: "power_is 57896044618658097711785492504343953926634992332820282019728792003956564819949 2 748288838313422294120286634350736906063837462003711 15684242169343610675938633510107053195079618631387286693842602453664090877259 \<Longrightarrow> power_is 57896044618658097711785492504343953926634992332820282019728792003956564819949 2 12554203470773361527671578846415332832204710888928069025791 51112254427615305009901759741924517510279757244838123682606985713533983665105"
  by (rule chain_segment [where cs = "[(True, 8497832763771902775038090377298488152418614983823215514164015516462540094787, 1536504363613701847894867300414741110172459555250118742995152291136358200299),
     (True, 81554644188702301886043824368740835519840372024765971879505442436884737630, 10174754984538454556267894105915698025200616652384454510632651876057352397932),
     (True, 3576259472552189766538554144532384344725373148939601174843544444239720922392, 53241440335614123920049335849618705599788617803539401677470731327189273355240),
     (True, 97922094252954841580436158849962182015990245232388346444910758876004225220097, 14027931116174711974312877722162477075845082495311616644575421411282769600147),
     (True, 6797799493774940782315341229939043353078157670583260907545545786492207907446, 6065461000593967686201644147469699507884414012396859043024075587031478402964),
     (True, 1270892248064565011731931979229484580348423213730173914072204635218210266200, 16440926874779247207396427489514528874519454921103911874653412964701567546792),
     (True, 9337566263196083440880237632939595892353753175270164222661303864127377219790, 6194970277937707253775099527297108592051974592490823042763801755464669391818),
     (True, 1325743649581327930090533642166358718458614003655066599811942150110280948209, 684614496836416649787906379392285011927598899598562528098251400672931668907),
     (True, 16190985493593925008338701609184484960630540785055286743058726999387120317, 54365033985168141306022265729958169761829617159194845758540630505539836345465),
     (True, 102098750948385263615548679805957788779318581884505064888051734666373773862407, 41386377741921754056700424941473791974722792115338212604641688420019397375207),
     (True, 59169232505567184305421169843227849156496285224945090245673964009779441861981, 53502266011507298565676768324199732940023720279442518681700110239273703126729),
     (True, 98883869777991591692200403316074888097861101298223795119979037365591047168210, 29769714498032076210166807474819013544447509023848694974789569031297101857592),
     (True, 30614730492615893651777564138148123007690506370754340805410261947675162337450, 6528249132286365709654196922569572509716464893905265972235628165028866286878),
     (True, 1472226194860407327939406112525751104797216619309044555009447628076961690518, 12854018797251641308374136387378939352483716320918111721110096356924659430186),
     (True, 5707671407550746083628861245160355009642684000121147243669686455470024521054, 24023237773304088355367946030695448843319069214091389862021789217161946282946),
     (True, 19936282587661189517389820021190447876345778058782210102910438172928597695032, 37008626383577036881806629661822850263240381849752111154573360970710289084464),
     (True, 47313713253488906042808340731428985355312158499563503835177313716807217353298, 40976972857154150938827157254409068204129712880595484192193128742204960992790),
     (True, 58004387539622085164282737983403807747971906696474994356321912320073377024490, 30460314274043604819673758530503676511725237214240063293831192481254650417190),
     (True, 32051610840941404713960218040075651889489654966559030743224553634388224793791, 48311673985348507728741468902012948953142664038330626952387585498656526855541),
     (True, 80627886020193451209957314133038230128900897545505519542167669177457174326302, 24233097835806840212876053465345452678284176986654458383856149761728159806764),
     (True, 20286119184402312896158504202260467186492442673769965307943695141234975076626, 44543206194479786795328863844863295531809228891211781783131460436919471891318),
     (True, 68539992020267633820485159182892409706122368845377809604639198334172019229466, 53821164031703208189080431028209409696023511366568294270491627813890002137014),
     (True, 100066169176399347822725591111289443593712392604818543848675560599062036023280, 32059910633176193622138024243719773757257401337919911903483392576788485259672),
     (True, 35506324363858311991321119460829789107798122759392181367135885037886599880587, 51112254427615305009901759741924517510279757244838123682606985713533983665105)]"], assumption, simp only: chain_rules, simp_all)

lemma prime_255_half_8: "power_is 57896044618658097711785492504343953926634992332820282019728792003956564819949 2 12554203470773361527671578846415332832204710888928069025791 51112254427615305009901759741924517510279757244838123682606985713533983665105 \<Longrightarrow> power_is 57896044618658097711785492504343953926634992332820282019728792003956564819949 2 210624583337114373395836055367340864637790190801098222508621955071 40708934432730130651322167211264057559822842830536907232677053187710079408055"
  by (rule chain_segment [where cs = "[(True, 90246667795034992004292730401003788333181651450349129958268996401971357097414, 48754557550952872105209550496347674417710959653730114307448477872931425810164),
     (True, 82112928357912042852474345081823957601113537828821950574218809391071779775414, 36227438829045814509927442875215714798190109276434149535428280465454964479906),
     (True, 45337374349380054044296182014974884345690896089732339320745467038170136790065, 38725988975554836836261693331247132583308376864819596228891641900046618530987),
     (True, 51806724691223113204700370986623414773557566701137437371103298936036983839482, 45479349884507628301698123796250445596652345077353159483318819597649710961920),
     (True, 71451211547909170306290127088657338243372272262820662278598676986816170828882, 43148221398861912654878150651583556894950920730774984615012326700886961205782),
     (True, 64314203920079705065838344435537391234321221815124083317341594043375963705872, 50200440481698919585213819744643434144352553022329073818314918686710226422520),
     (True, 87055488545220954442423999313867354390128224210491086455916563780750119739487, 32130093957348876535958107736349013334990574945634455035178054147542185674637),
     (True, 35661950466832917681117845387774122029854310315808135677675700499843949427455, 11056534755336441226498492808108261289195462485940569264063461083603937863743),
     (True, 4222981435127824194292833681671228515188221348082536523085798595517273828694, 5509472318170026184457828863391795017510754830936479629593488654910888123492),
     (True, 1048578894279059557835586831415461858190826159564810201554052990818311686293, 39182422482334497014118289882429877725228100176802129302739402859527968289071),
     (True, 53035133632924709134138584286381598742332730364314402303128189876192530140635, 31298399990674153193572642070113929186128749250418980644598906944843612558467),
     (True, 33839611960660277626943348216192562676643815907243995882872804003236853248769, 16016535929395975659978764171596312767014544623914800237889741581420795887397),
     (True, 8861725351612733179999554277473080924110981746402813108971046972581479777367, 6867356314802072500137672020365772398649811024958711628042637258408446576935),
     (True, 1629146967295707459833087767044304513434445771118578304807454679216681049649, 2623918248308615220828121720255052394918917448532756518915771777981733340549),
     (True, 237838250234737005399441533290637460414814956761644585837062302903020817331, 27289357948726713611986542207589493182563159105075691984536234051570781506683),
     (True, 25725731771794899367554746637524451810544976575527858686160411599106482776284, 24779736756518239262134786564833979098176951288651987557576585047857040035462),
     (True, 21211651254132705903606869028799928617524066286236292272655086648503571851196, 44073974636539183643196518952896103138684389691110778399627147914726074797884),
     (True, 67103556142979995951677411268714025613358797236225737859292948855529943662172, 57079518814717006129559040589390601886102144762720731787304697448910039485684),
     (True, 112549017452900656837600807460527727797542322127410421293783528396358024973824, 3071949427213583281562656910526188114764181754740924459574672836798483880736),
     (True, 325993713232584152403783305726775850020875897191370107993638466699407322542, 17144314256986813274476140473712444112177023766797766200554335356044944813034),
     (True, 10153630123726883954600382569867503067257969122756506876810668466206730065849, 3165891640717593200786762078156449118083566803391380297476050855428833748611),
     (True, 346236774784282048982287196507942687420048610765782093316028690887186637220, 54864376144835610778091815697625521774567190232236766343665203152016606956862),
     (True, 103982915917262684091713821539452261199422400941298162738031943512584732294036, 38167929923336629992940764174428308519642977592094795664038841569520591249924),
     (True, 50324366171407062071915938371308680622477068193435267725030145000815887663853, 40708934432730130651322167211264057559822842830536907232677053187710079408055)]"], assumption, simp only: chain_rules, simp_all)

lemma prime_255_half_9: "power_is 57896044618658097711785492504343953926634992332820282019728792003956564819949 2 210624583337114373395836055367340864637790190801098222508621955071 40708934432730130651322167211264057559822842830536907232677053187710079408055 \<Longrightarrow> power_is 57896044618658097711785492504343953926634992332820282019728792003956564819949 2 3533694129556768659166595001485837031654967793751237916243212402585239551 37551472053155023094598280749600284614585691400890565658685849766312449902312"
  by (rule chain_segment [where cs = "[(True, 57248033214146416679004895045047970885313643423296373108434881316451182644036, 11547632910069633913615370700207887367810604134713919823128354979068299091886),
     (True, 4606457201145289209030883952814959167680934483499460463844363761512686800012, 9142642502628947595601055162406050501866612098636667730066404712196791034604),
     (True, 2887517186413785412147386624891128719852770957645866966101228741041567248543, 4882997256204588887345417740635705617157621401990104841753515336715323289325),
     (True, 823671543061422590538933473883423503098856488889328699614575005671998107518, 23831477938961091992659029161882590259549528906548330511742067278450904634668),
     (True, 19619279503324135551736184995424164311143606891945765330952709817161126290394, 56713486864942564343515026382452337645161272677378998056718354471378196670542),
     (True, 111110166974807829943924490733480896646621990295083136777488477894090277179203, 21316658154331738910193541779585055043469702896516072202627221661286878826881),
     (True, 15697097024904490023314644856311081511390184007456081443080285325696271689298, 24605409678848788938025967347965514085894017404791575956843964561310096170520),
     (True, 20914250341339401260809467524537702095655217325448129132055419330101915082559, 52690110670145470389354969733677398040905379530483294791374464377200528971309),
     (True, 95904574508272335054729634748457204111150957928688871484759248037084303558943, 12329658577085121505735788901738140674414910983404876297849933017120786593055),
     (True, 5251497978101848495924295816387004670950041672497871491771754700927306395447, 168274596723269311747058085710366988357898918760177840875994024352600093847),
     (True, 978178737041163663962443647466362324135524544872190231728991176354193162, 47786050790763851049981906562182647077748863621709482674342791699566717530080),
     (True, 78882993310446606079518835831723378978727237688761759971463048956226180081609, 19503180772758402817567362257769427592749798537153604074569836368588198394859),
     (True, 13139897993387627732373127986684184230359577417313662381823690285498056949606, 16826699064328860228531004055853964690023742207467919279868379270196598769668),
     (True, 9780903108888347696821915469366969466452103835306477429771145416059591070340, 32688828802654143177559518765903582606604909550033534751544165635592339447788),
     (True, 36913040796740976079687075135687449967910678913365092604224181346215831692497, 37708960546153945843958973812618546261670618580507553614517327413904816963235),
     (True, 49121342048058996202818384028079788763593058647873047451064990681005274235703, 2057919991675863527054010271309791625846740817386352880445591432005900891303),
     (True, 146297893751946087527890098974944408979994736920338507732265225322737550232, 20249007912788656877858290429492512521631358125394076339539349770885218897450),
     (True, 14164087517648491448500441193429708359853486060666517814462096397014080965130, 42571996530428911894693132740212666761429091441709467178347503787900635626630),
     (True, 62607900091426251028123606207181133541054944544110251303837911916825046308784, 5435299199213152975492301500219858938085329969184343786141514702871513181784),
     (True, 1020535256926567958458839914698197869451370729839077744084739366158170552195, 33882242112267496923536051823032213047892495906645674409515910817898777107257),
     (True, 39657504691930067112915947409546498072870526491711844916946027419326767452697, 51123978885619834460123720657013633389779939782597154962641759658222584675645),
     (True, 90288075267062399135209955216705382931132191343215404981108169191282315586235, 43219276769744686065183324647184717045656222363829659343670365424300554530035),
     (True, 64526200254371939979393726796435021455763766592346840061891252458320216944910, 54540094052611622470445204756022498502301992064615059872118586784666432192860),
     (True, 102757343057217881138175483961920935187940444696857123649281189953567037407512, 37551472053155023094598280749600284614585691400890565658685849766312449902312)]"], assumption, simp only: chain_rules, simp_all)

lemma prime_255_half_10: "power_is 57896044618658097711785492504343953926634992332820282019728792003956564819949 2 3533694129556768659166595001485837031654967793751237916243212402585239551 37551472053155023094598280749600284614585691400890565658685849766312449902312 \<Longrightarrow> power_is 57896044618658097711785492504343953926634992332820282019728792003956564819949 2 28948022309329048855892746252171976963317496166410141009864396001978282409974 57896044618658097711785492504343953926634992332820282019728792003956564819948"
  by (rule chain_segment [where cs = "[(True, 48711896042184790895959322374384436421661016505908593212167207426933367124203, 3803914040724051894386236598260692734658987734458578662976073884998070765041),
     (True, 499853215345713923513103460321439700651913380186534994724074057614202994348, 3829772649397305401114698789991079656979851534689771153023122197422770815110),
     (True, 506672213712675151645405134118650569071260076722547223063257836022000498282, 17987939655220351027887281615378337919756346108173807249081199009637994796582),
     (True, 11177481127461117559186485083179962760857158521012151917702231051862375128175, 30348741544180654946814210571832604891148323009090688159164939748200445802373),
     (True, 31817237926428301716481629198920036835377433245612531690899656520295840587170, 15513182470649566372280220337745372463859220538938362347543710404034055407928),
     (True, 8313480893308283612982297008344614904647976932613507160336014299061426140185, 32785846204757843728184147904964674237443212419005095899022797234058411955803),
     (True, 37132474884670226093998080357299778750522178901260223182847880066502652096073, 25685400396258068827309542784701451615252568774064705527532856139406555789341),
     (True, 22790496237232776564747423127153361809538546195459431229453633992955460259161, 25910928650365661088611546722392363794011740157349981708915610625600295625773),
     (True, 23192472920955859091132356263708257444097148224505203993727824985973104756014, 57692109581687170544952182944730090749826224675958039702824471609347838771772),
     (False, 57488892892568471791421702514207109143894690784151447750986744052104094219481, 22961221025933304929473883566500786080839636259902234537901881337279050793515),
     (True, 18212562687982170203641850479078031168141106034460617211550174573135082294351, 38788602997682801834296285904666247971040529424372086091236406538540197302351),
     (True, 51974387280576871821953725479083298163253499104296142594374103994723114637850, 19681161376707505956807079304988542015446066515923890162744021073123829784752),
     (False, 6690407189080634018507799843845558368979872843924222843531373839242004886244, 57896044618658097711785492504343953926634992332820282019728792003956564819948)]"], assumption, simp only: chain_rules, simp_all)

lemma prime_255_half: "power_is 57896044618658097711785492504343953926634992332820282019728792003956564819949 2 28948022309329048855892746252171976963317496166410141009864396001978282409974 57896044618658097711785492504343953926634992332820282019728792003956564819948"
  by (rule prime_255_half_10 [OF prime_255_half_9 [OF prime_255_half_8 [OF prime_255_half_7 [OF prime_255_half_6 [OF prime_255_half_5 [OF prime_255_half_4 [OF prime_255_half_3 [OF prime_255_half_2 [OF prime_255_half_1 [OF prime_255_half_0 [OF power_is_1]]]]]]]]]]])

lemma prime_255_a_0: "power_is 57896044618658097711785492504343953926634992332820282019728792003956564819949 2 1 2 \<Longrightarrow> power_is 57896044618658097711785492504343953926634992332820282019728792003956564819949 2 781764 427094198651976259540344842774561673889945192655078505504941250475370961481"
  by (rule chain_segment [where cs = "[(False, 0, 4),
     (True, 0, 32),
     (True, 0, 2048),
     (True, 0, 8388608),
     (True, 0, 140737488355328),
     (True, 0, 39614081257132168796771975168),
     (False, 0, 1569275433846670190958947355801916604025588861116008628224),
     (True, 85070591730234615865843651857942052864, 1616341242874457701451029385300899004416),
     (True, 90, 14474011154664524427946373126085988481658748083205070504932198000989141206702),
     (False, 3618502788666131106986593281521497120414687020801267626233049500247285302104, 10855508365998393320959779844564491361244061062403802878699148500741858844108),
     (True, 4070815637249397495359917441711684260466522898401426079512180687778198169178, 19449452489080454700052938888178047022228942736806813491002641081120681299406),
     (True, 13067600891100930501598068315494625343060070901292077814267399487995699632785, 5844730090286895362261548132457574450357316730865145506988119120372289477707),
     (True, 1180076119303530875144116285532815935167358627057121551494565672490314011965, 10011112483763715096745842972409582215110234036302095062009100585929643265913),
     (False, 1731074615247051634489172293683676124410868977223555680707173906843900652117, 50082932276091518066455387449031094497791709234718174193352973575247037041536),
     (False, 43324204993500061597826158612414131961250850909546105626879919447147686421064, 13343768986571359007854455104042816243275199009921288930213888121862028233560),
     (False, 3075446206036701470872393826992783401752763128678510908850634197157076446817, 29021988539057075980713355158958070277907045233294037432382353502841631121267),
     (True, 29096143762806239262705528706363760764796179979535943756800641576788782737836, 6814271218530413793737419123678870252773648441814096715214653977322709480214),
     (False, 802028749036987574340757424989663227075669220565584140869463940457761020232, 40021463743779041745397667549197261276748984932910244056888199122096431277628),
     (False, 27665405654990747157847101006816744579137975244959593346139654333549227807747, 427094198651976259540344842774561673889945192655078505504941250475370961481)]"], assumption, simp only: chain_rules, simp_all)

lemma prime_255_a: "power_is 57896044618658097711785492504343953926634992332820282019728792003956564819949 2 781764 427094198651976259540344842774561673889945192655078505504941250475370961481"
  by (rule prime_255_a_0 [OF power_is_1])

lemma prime_255_unit: "pocklington 57896044618658097711785492504343953926634992332820282019728792003956564819949 74058212732561358302231226437062788676166966415465897661863160754340907 781764"
proof (rule pocklingtonI [OF prime_236 _ prime_255_a])
  have "power_is 57896044618658097711785492504343953926634992332820282019728792003956564819949 2 (28948022309329048855892746252171976963317496166410141009864396001978282409974 * 2) 1" by (rule power_is_minus_one) (use prime_255_half in simp_all)
  then show "power_is 57896044618658097711785492504343953926634992332820282019728792003956564819949 427094198651976259540344842774561673889945192655078505504941250475370961481 74058212732561358302231226437062788676166966415465897661863160754340907 1" by (intro power_is_rest [OF _ prime_255_a]) simp
  show "unit_ok (hex_of 57896044618658097711785492504343953926634992332820282019728792003956564819949) 427094198651976259540344842774561673889945192655078505504941250475370961481 55540832096118778044507775605005710249233119951144946814680141076505643269084 409719996120619553712206717513598108624848060785013849502386565616653579131" by (simp only: unit_ok_def hex_rules)
qed simp_all

lemma prime_255: "is_prime 57896044618658097711785492504343953926634992332820282019728792003956564819949"
  by (rule pocklington_one [OF prime_255_unit]) simp_all

end
