(* ===== verification/Edwards.thy ===== *)
theory Edwards
  imports Main
begin

text \<open>
  The twisted Edwards curve \<open>- x\<^sup>2 + y\<^sup>2 = 1 + d x\<^sup>2 y\<^sup>2\<close> over a field in which \<open>- 1\<close> is a square and \<open>d\<close> is
  not: no denominator of the addition law vanishes, and the points form an abelian group.
\<close>

section \<open>The law\<close>

definition edw :: "'a::field \<Rightarrow> 'a \<times> 'a \<Rightarrow> bool" where
  "edw d = (\<lambda>(x, y). y * y - x * x = 1 + d * x * x * y * y)"

definition edw_add :: "'a::field \<Rightarrow> 'a \<times> 'a \<Rightarrow> 'a \<times> 'a \<Rightarrow> 'a \<times> 'a" where
  "edw_add d = (\<lambda>(x1, y1) (x2, y2).
     ((x1 * y2 + y1 * x2) / (1 + d * x1 * x2 * y1 * y2), (y1 * y2 + x1 * x2) / (1 - d * x1 * x2 * y1 * y2)))"

definition edw_neg :: "'a::field \<times> 'a \<Rightarrow> 'a \<times> 'a" where
  "edw_neg = (\<lambda>(x, y). (- x, y))"

lemma edw_zero: "edw d (0, 1)"
  by (simp add: edw_def)

lemma edw_neg: "edw d P \<Longrightarrow> edw d (edw_neg P)"
  by (cases P) (simp add: edw_def edw_neg_def)

lemma edw_add_commute: "edw_add d P Q = edw_add d Q P"
  by (cases P, cases Q) (simp add: edw_add_def ac_simps)

lemma edw_add_zero: "edw_add d (0, 1) P = P"
  by (cases P) (simp add: edw_add_def)

text \<open>The polynomial identities behind closure and associativity.\<close>

lemma edw_closed_poly:
  fixes x1 :: "'a::field"
  assumes "y1 * y1 - x1 * x1 = 1 + d * x1 * x1 * y1 * y1" "y2 * y2 - x2 * x2 = 1 + d * x2 * x2 * y2 * y2"
  defines "t \<equiv> d * x1 * x2 * y1 * y2" and "n \<equiv> x1 * y2 + y1 * x2" and "m \<equiv> y1 * y2 + x1 * x2"
  shows "m * m * ((1 + t) * (1 + t)) - n * n * ((1 - t) * (1 - t)) = (1 + t) * (1 + t) * ((1 - t) * (1 - t)) + d * n * n * m * m"
  using assms(1,2) unfolding t_def n_def m_def by algebra

lemma edw_assoc_poly:
  fixes x1 :: "'a::field"
  assumes "y1 * y1 - x1 * x1 = 1 + d * x1 * x1 * y1 * y1" "y2 * y2 - x2 * x2 = 1 + d * x2 * x2 * y2 * y2"
    "y3 * y3 - x3 * x3 = 1 + d * x3 * x3 * y3 * y3"
  defines "t \<equiv> d * x1 * x2 * y1 * y2" and "n \<equiv> x1 * y2 + y1 * x2" and "m \<equiv> y1 * y2 + x1 * x2"
    and "t' \<equiv> d * x2 * x3 * y2 * y3" and "n' \<equiv> x2 * y3 + y2 * x3" and "m' \<equiv> y2 * y3 + x2 * x3"
  shows "(n * (1 - t) * y3 + m * (1 + t) * x3) * ((1 + t') * (1 - t') + d * n' * m' * x1 * y1)
      = (n' * (1 - t') * y1 + m' * (1 + t') * x1) * ((1 + t) * (1 - t) + d * n * m * x3 * y3)"
    "(m * (1 + t) * y3 + n * (1 - t) * x3) * ((1 + t') * (1 - t') - d * n' * m' * x1 * y1)
      = (m' * (1 + t') * y1 + n' * (1 - t') * x1) * ((1 + t) * (1 - t) - d * n * m * x3 * y3)"
  using assms(1,2,3) unfolding t_def n_def m_def t'_def n'_def m'_def by algebra+

section \<open>The group\<close>

locale edwards =
  fixes d :: "'a::field" and i :: 'a
  assumes root: "i * i = - 1" and nonsquare: "s * s \<noteq> d" and two: "(2 :: 'a) \<noteq> 0"
begin

lemma square_relation:
  assumes "edw d (x1, y1)" "edw d (x2, y2)" "d * x1 * x2 * y1 * y2 = e" "e * e = 1" "j * j = - 1"
  shows "d * ((x1 * y1 * (j * x2 + y2)) * (x1 * y1 * (j * x2 + y2))) = (y1 + e * j * x1) * (y1 + e * j * x1)"
  using assms unfolding edw_def prod.case by algebra

lemma denominator:
  assumes P: "edw d (x1, y1)" and Q: "edw d (x2, y2)" and e: "e * e = 1"
  shows "d * x1 * x2 * y1 * y2 \<noteq> e"
proof
  assume t: "d * x1 * x2 * y1 * y2 = e"
  then have nz: "x1 * y1 \<noteq> 0" "x2 \<noteq> 0" using e by auto
  have zero: "j * x2 + y2 = 0" if j: "j * j = - 1" for j
  proof (rule ccontr)
    assume "j * x2 + y2 \<noteq> 0"
    then have u: "x1 * y1 * (j * x2 + y2) \<noteq> 0" using nz by simp
    define s where "s = (y1 + e * j * x1) / (x1 * y1 * (j * x2 + y2))"
    have "s * s = d"
      using square_relation [OF P Q t e j] u unfolding s_def times_divide_times_eq by (subst divide_eq_eq) (simp add: mult.commute)
    then show False using nonsquare by blast
  qed
  have "i * x2 + y2 = 0" "- i * x2 + y2 = 0" using zero [of i] zero [of "- i"] root by simp_all
  then have "2 * (i * x2) = 0" by algebra
  then show False using two nz(2) root by auto
qed

lemma denominators:
  assumes "edw d (x1, y1)" "edw d (x2, y2)"
  shows "1 + d * x1 * x2 * y1 * y2 \<noteq> 0" "1 - d * x1 * x2 * y1 * y2 \<noteq> 0"
  using denominator [OF assms, of "- 1"] denominator [OF assms, of 1] by (auto simp: add_eq_0_iff)

lemma on_curve_fraction:
  assumes "b \<noteq> 0" "f \<noteq> (0 :: 'a)" "m * m * (b * b) - n * n * (f * f) = b * b * (f * f) + d * n * n * m * m"
  shows "edw d (n / b, m / f)"
proof -
  have "m / f * (m / f) - n / b * (n / b) = (m * m * (b * b) - n * n * (f * f)) / (b * b * (f * f))"
    "1 + d * (n / b) * (n / b) * (m / f) * (m / f) = (b * b * (f * f) + d * n * n * m * m) / (b * b * (f * f))"
    using assms(1,2) by (simp_all add: field_simps)
  then show ?thesis unfolding edw_def prod.case assms(3) by simp
qed

lemma add_closed:
  assumes "edw d P" "edw d Q"
  shows "edw d (edw_add d P Q)"
proof -
  obtain x1 y1 x2 y2 where PQ: "P = (x1, y1)" "Q = (x2, y2)" by (metis surj_pair)
  define t n m where "t = d * x1 * x2 * y1 * y2" and "n = x1 * y2 + y1 * x2" and "m = y1 * y2 + x1 * x2"
  have z: "1 + t \<noteq> 0" "1 - t \<noteq> 0" using denominators assms unfolding PQ t_def by blast+
  have "m * m * ((1 + t) * (1 + t)) - n * n * ((1 - t) * (1 - t)) = (1 + t) * (1 + t) * ((1 - t) * (1 - t)) + d * n * n * m * m"
    unfolding t_def n_def m_def by (rule edw_closed_poly) (use assms in \<open>simp_all add: PQ edw_def\<close>)
  then have "edw d (n / (1 + t), m / (1 - t))" by (rule on_curve_fraction [OF z])
  then show ?thesis by (simp add: PQ edw_add_def t_def n_def m_def)
qed

lemma add_unique:
  assumes "edw d (x1, y1)" "edw d (x2, y2)" "x3 * (1 + d * x1 * x2 * y1 * y2) = x1 * y2 + y1 * x2"
    "y3 * (1 - d * x1 * x2 * y1 * y2) = y1 * y2 + x1 * x2"
  shows "edw_add d (x1, y1) (x2, y2) = (x3, y3)"
  using denominators [OF assms(1,2)] assms(3,4) by (auto simp: edw_add_def divide_eq_eq)

lemma add_equations:
  assumes "edw d (x1, y1)" "edw d (x2, y2)" "edw_add d (x1, y1) (x2, y2) = (x3, y3)"
  shows "x3 * (1 + d * x1 * x2 * y1 * y2) = x1 * y2 + y1 * x2" "y3 * (1 - d * x1 * x2 * y1 * y2) = y1 * y2 + x1 * x2"
  using denominators [OF assms(1,2)] assms(3) by (auto simp: edw_add_def)

lemma add_neg: "edw d P \<Longrightarrow> edw_add d (edw_neg P) P = (0, 1)"
proof (cases P)
  case (Pair x y)
  assume "edw d P"
  then have P: "edw d (x, y)" by (simp add: Pair)
  then have "edw d (- x, y)" using edw_neg [of d "(x, y)"] by (simp add: edw_neg_def)
  then have "edw_add d (- x, y) (x, y) = (0, 1)"
    by (rule add_unique [OF _ P]) (use P in \<open>simp_all add: edw_def\<close>)
  then show ?thesis by (simp add: Pair edw_neg_def)
qed

lemma sum_of_three:
  assumes "b \<noteq> 0" "f \<noteq> (0 :: 'a)"
  shows "edw_add d (n / b, m / f) (x, y)
    = ((n * f * y + m * b * x) / (b * f + d * n * m * x * y), (m * b * y + n * f * x) / (b * f - d * n * m * x * y))"
proof -
  have e: "n / b * y + m / f * x = (n * f * y + m * b * x) / (b * f)" "m / f * y + n / b * x = (m * b * y + n * f * x) / (b * f)"
    "1 + d * (n / b) * x * (m / f) * y = (b * f + d * n * m * x * y) / (b * f)"
    "1 - d * (n / b) * x * (m / f) * y = (b * f - d * n * m * x * y) / (b * f)"
    using assms by (simp_all add: field_simps)
  show ?thesis unfolding edw_add_def prod.case e using assms by simp
qed

lemma add_assoc:
  assumes "edw d P" "edw d Q" "edw d R"
  shows "edw_add d (edw_add d P Q) R = edw_add d P (edw_add d Q R)"
proof -
  obtain x1 y1 x2 y2 x3 y3 where PQR: "P = (x1, y1)" "Q = (x2, y2)" "R = (x3, y3)" by (metis surj_pair)
  define t n m t' n' m' where "t = d * x1 * x2 * y1 * y2" and "n = x1 * y2 + y1 * x2" and "m = y1 * y2 + x1 * x2"
    and "t' = d * x2 * x3 * y2 * y3" and "n' = x2 * y3 + y2 * x3" and "m' = y2 * y3 + x2 * x3"
  note defs = t_def n_def m_def t'_def n'_def m'_def
  have z: "1 + t \<noteq> 0" "1 - t \<noteq> 0" "1 + t' \<noteq> 0" "1 - t' \<noteq> 0"
    using denominators assms unfolding PQR t_def t'_def by blast+
  have PQ: "edw_add d P Q = (n / (1 + t), m / (1 - t))" and QR: "edw_add d Q R = (n' / (1 + t'), m' / (1 - t'))"
    by (simp_all add: edw_add_def PQR defs)
  have c: "edw d (n / (1 + t), m / (1 - t))" "edw d (n' / (1 + t'), m' / (1 - t'))"
    using add_closed assms PQ QR by metis+
  have den: "b * f + d * k * l * x * y \<noteq> 0" "b * f - d * k * l * x * y \<noteq> 0"
    if "edw d (k / b, l / f)" "edw d (x, y)" "b \<noteq> 0" "f \<noteq> 0" for b f k l x y
  proof -
    have "1 + d * (k / b) * x * (l / f) * y = (b * f + d * k * l * x * y) / (b * f)"
      "1 - d * (k / b) * x * (l / f) * y = (b * f - d * k * l * x * y) / (b * f)"
      using that(3,4) by (simp_all add: field_simps)
    then show "b * f + d * k * l * x * y \<noteq> 0" "b * f - d * k * l * x * y \<noteq> 0"
      using denominators [OF that(1,2)] by auto
  qed
  note D = den [OF c(1) assms(3) [unfolded PQR] z(1,2)] den [OF c(2) assms(1) [unfolded PQR] z(3,4)]
  have poly: "(n * (1 - t) * y3 + m * (1 + t) * x3) * ((1 + t') * (1 - t') + d * n' * m' * x1 * y1)
      = (n' * (1 - t') * y1 + m' * (1 + t') * x1) * ((1 + t) * (1 - t) + d * n * m * x3 * y3)"
    "(m * (1 + t) * y3 + n * (1 - t) * x3) * ((1 + t') * (1 - t') - d * n' * m' * x1 * y1)
      = (m' * (1 + t') * y1 + n' * (1 - t') * x1) * ((1 + t) * (1 - t) - d * n * m * x3 * y3)"
    unfolding defs by (rule edw_assoc_poly; use assms in \<open>simp add: PQR edw_def\<close>)+
  show ?thesis
    unfolding edw_add_commute [of d P "edw_add d Q R"]
    unfolding PQ QR
    unfolding PQR sum_of_three [OF z(1,2)] sum_of_three [OF z(3,4)] prod.inject frac_eq_eq [OF D(1,3)] frac_eq_eq [OF D(2,4)]
    using poly by blast
qed

end

end
