(* ===== verification/Gf25519.thy ===== *)
theory Gf25519
  imports Curve_Prime Ge_Encode Edwards
begin

text \<open>
  The field of \<open>2 ^ 255 - 19\<close> elements as a type, so that the library's algebra applies to it, and
  its two facts on squares that the curve depends on: \<open>- 1\<close> is one, and the constant of the curve is not.
\<close>

section \<open>The field\<close>

lemma p25519_nat: "p25519 = int 57896044618658097711785492504343953926634992332820282019728792003956564819949"
  by (simp add: p25519_def)

lemma p25519_pos: "0 < p25519" "1 < p25519" by (simp_all add: p25519_def)

typedef gf = "{0 ..< p25519}" morphisms int_of gf_of
  by (rule exI [of _ 0]) (simp add: p25519_pos)

setup_lifting type_definition_gf

instantiation gf :: comm_ring_1
begin

lift_definition zero_gf :: gf is 0 by (simp add: p25519_pos)
lift_definition one_gf :: gf is 1 by (simp add: p25519_pos)
lift_definition plus_gf :: "gf \<Rightarrow> gf \<Rightarrow> gf" is "\<lambda>a b. (a + b) mod p25519" by (simp add: p25519_pos)
lift_definition minus_gf :: "gf \<Rightarrow> gf \<Rightarrow> gf" is "\<lambda>a b. (a - b) mod p25519" by (simp add: p25519_pos)
lift_definition uminus_gf :: "gf \<Rightarrow> gf" is "\<lambda>a. (- a) mod p25519" by (simp add: p25519_pos)
lift_definition times_gf :: "gf \<Rightarrow> gf \<Rightarrow> gf" is "\<lambda>a b. (a * b) mod p25519" by (simp add: p25519_pos)

instance
  by (standard; transfer) (simp_all add: mod_simps algebra_simps p25519_pos)

end

lemma int_of_bounds: "0 \<le> int_of a" "int_of a < p25519"
  using int_of [of a] by simp_all

lemma int_of_nat: "int_of (of_nat n) = int n mod p25519"
  by (induction n) (simp_all add: zero_gf.rep_eq one_gf.rep_eq plus_gf.rep_eq mod_simps ac_simps)

lemma int_of_int: "int_of (of_int k) = k mod p25519"
proof (cases k)
  case (nonneg n) then show ?thesis by (simp add: int_of_nat)
next
  case (neg n)
  have "of_int k = - (of_nat (Suc n) :: gf)" using neg by simp
  then have "int_of (of_int k) = (- (int (Suc n) mod p25519)) mod p25519"
    by (simp only: uminus_gf.rep_eq int_of_nat)
  then show ?thesis using neg by (simp only: mod_minus_eq)
qed

lemma of_int_of [simp]: "of_int (int_of a) = a"
  by (simp add: int_of_int int_of_bounds flip: int_of_inject)

lemma gf_eq_iff: "(of_int a :: gf) = of_int b \<longleftrightarrow> eqp a b"
  by (simp add: int_of_int eqp_def flip: int_of_inject)

lemma gf_eq_0: "(of_int a :: gf) = 0 \<longleftrightarrow> p25519 dvd a"
  using gf_eq_iff [of a 0] by (simp add: eqp_def dvd_eq_mod_eq_0)

lemma fermat_gf:
  assumes "a \<noteq> (0 :: gf)"
  shows "a ^ (nat p25519 - 1) = 1"
proof -
  define n where "n = nat p25519"
  define b where "b = nat (int_of a)"
  have a: "a = of_nat b" using int_of_bounds(1) [of a] of_int_of [of a] unfolding b_def by (metis int_nat_eq of_int_of_nat_eq)
  have p: "is_prime n" unfolding n_def p25519_nat nat_int by (rule prime_255)
  have "\<not> n dvd b"
  proof
    assume "n dvd b"
    then have "p25519 dvd int b" unfolding n_def using p25519_pos by (metis int_dvd_int_iff int_nat_eq less_imp_le)
    then show False using assms gf_eq_0 [of "int b"] by (simp add: a)
  qed
  then have "b ^ (n - 1) mod n = 1" by (rule fermat_power [OF p])
  then have "int (b ^ (n - 1)) mod p25519 = 1" unfolding n_def using p25519_pos by (metis int_nat_eq less_imp_le of_nat_1 of_nat_mod)
  then have "of_nat (b ^ (n - 1)) = (1 :: gf)"
    by (simp only: int_of_nat one_gf.rep_eq flip: int_of_inject)
  then show ?thesis by (simp add: a n_def)
qed

instantiation gf :: field
begin

definition inverse_gf :: "gf \<Rightarrow> gf" where "inverse_gf a = a ^ (nat p25519 - 2)"
definition divide_gf :: "gf \<Rightarrow> gf \<Rightarrow> gf" where "divide_gf a b = a * inverse b"

instance
proof
  show "inverse a * a = 1" if "a \<noteq> 0" for a :: gf
  proof -
    have "nat p25519 - 1 = Suc (nat p25519 - 2)" by (simp add: p25519_def)
    then show ?thesis using fermat_gf [OF that] by (simp add: inverse_gf_def mult.commute)
  qed
  show "inverse (0 :: gf) = 0" by (simp add: inverse_gf_def p25519_def)
qed (simp add: divide_gf_def)

end

lemma unit_gf: "unit_p z \<longleftrightarrow> of_int z \<noteq> (0 :: gf)"
proof
  assume "unit_p z"
  then obtain w where "eqp (z * w) 1" by (auto simp: unit_p_def)
  then have "of_int z * of_int w = (1 :: gf)" using gf_eq_iff [of "z * w" 1] by simp
  then show "of_int z \<noteq> (0 :: gf)" by auto
next
  assume "of_int z \<noteq> (0 :: gf)"
  then have "of_int (z * int_of (inverse (of_int z))) = (of_int 1 :: gf)" by simp
  then show "unit_p z" unfolding gf_eq_iff unit_p_def by blast
qed

section \<open>Squares\<close>

definition gf_d :: gf where "gf_d = of_int ed_d"

definition gf_i :: gf where "gf_i = of_int (fe_val SqrtM1)"

lemma gf_numeral: "(numeral k :: gf) = of_int (numeral k)" by simp

lemma gf_i_square: "gf_i * gf_i = - 1"
  using SqrtM1_square gf_eq_iff [of "fe_val SqrtM1 * fe_val SqrtM1" "- 1"] by (simp add: gf_i_def)

lemma gf_two: "(2 :: gf) \<noteq> 0"
  using unit_2 unfolding unit_gf by simp

text \<open>Two is no square: a root would give \<open>2 ^ ((p - 1) / 2)\<close> the value 1, and the certificate says \<open>- 1\<close>.\<close>

lemma two_no_square: "s * s \<noteq> (2 :: gf)"
proof
  assume s: "s * s = 2"
  define h :: nat where "h = 28948022309329048855892746252171976963317496166410141009864396001978282409974"
  have "s \<noteq> 0" using s gf_two by auto
  have e: "nat p25519 - 1 = 2 * h" by (simp add: p25519_def h_def)
  have one: "(s * s) ^ h = 1"
    using fermat_gf [OF \<open>s \<noteq> 0\<close>] unfolding e power_mult power2_eq_square .
  have n: "int (nat p25519) = p25519" using p25519_pos by simp
  have "power_is (nat p25519) 2 h (nat p25519 - 1)"
    unfolding h_def p25519_nat nat_int using prime_255_half by simp
  then have "2 ^ h mod nat p25519 = (nat p25519 - 1) mod nat p25519" unfolding power_is_def .
  then have "int (2 ^ h) mod int (nat p25519) = int (nat p25519 - 1) mod int (nat p25519)" by (metis of_nat_mod)
  moreover have "int (nat p25519 - 1) = p25519 - 1" using p25519_pos by simp
  ultimately have "int (2 ^ h) mod p25519 = (p25519 - 1) mod p25519" unfolding n by simp
  then have "(of_int (int (2 ^ h)) :: gf) = of_int (p25519 - 1)" unfolding gf_eq_iff eqp_def .
  moreover have "(of_int p25519 :: gf) = 0" by (simp add: gf_eq_0)
  ultimately have "(2 :: gf) ^ h = - 1" by simp
  then have "(2 :: gf) = 0" using one s by (metis add.inverse_unique eq_neg_iff_add_eq_0 one_add_one)
  then show False using gf_two by simp
qed

lemma gf_d_no_square: "s * s \<noteq> gf_d"
proof
  assume s: "s * s = gf_d"
  define r :: gf where "r = of_int 30152228160694284937144285544751646460505239448795619900082871953631125353365"
  have "eqp (2 * (30152228160694284937144285544751646460505239448795619900082871953631125353365 * 30152228160694284937144285544751646460505239448795619900082871953631125353365)) ed_d"
    unfolding eqp_def
    by (rule mod_p_eqI [where k = 31406527649440577860497088970815327550930788960218030613466971792711584269356]) (simp add: p25519_def curve_d_def)
  then have r: "2 * (r * r) = gf_d" unfolding gf_eq_iff [symmetric] r_def gf_d_def by simp
  have "gf_d \<noteq> 0" using curve_d_val gf_eq_iff [of "121666 * ed_d" "- 121665"] gf_eq_0 [of 121665]
    by (auto simp: gf_d_def eqp_def p25519_def)
  then have "r \<noteq> 0" using r by auto
  then have "(s / r) * (s / r) = 2" using s r by (simp add: divide_eq_eq)
  then show False using two_no_square by blast
qed

end
