(* ===== verification/Ed_Group.thy ===== *)
theory Ed_Group
  imports Gf25519
begin

text \<open>
  The points of the curve as a type with the group structure of the library, their multiples, and the
  representations of \<open>edwards25519.go\<close> as representations of such points: on points every addition of the
  program is defined, and is the group's.
\<close>

section \<open>Points\<close>

interpretation gf: edwards gf_d gf_i
  by unfold_locales (simp_all add: gf_i_square gf_d_no_square gf_two)

typedef point = "{P. edw gf_d P}" morphisms coords point_of
  using edw_zero by blast

setup_lifting type_definition_point

instantiation point :: ab_group_add
begin

lift_definition zero_point :: point is "(0, 1)" by (rule edw_zero)
lift_definition plus_point :: "point \<Rightarrow> point \<Rightarrow> point" is "edw_add gf_d" by (rule gf.add_closed)
lift_definition uminus_point :: "point \<Rightarrow> point" is edw_neg by (rule edw_neg)

definition minus_point :: "point \<Rightarrow> point \<Rightarrow> point" where "minus_point P Q = P + - Q"

instance
proof
  show "P + Q + R = P + (Q + R)" for P Q R :: point by transfer (rule gf.add_assoc)
  show "P + Q = Q + P" for P Q :: point by transfer (rule edw_add_commute)
  show "0 + P = P" for P :: point by transfer (rule edw_add_zero)
  show "- P + P = 0" for P :: point by transfer (rule gf.add_neg)
qed (rule minus_point_def)

end

lemma coords_edw: "edw gf_d (coords P)"
  using coords [of P] by simp

section \<open>Multiples\<close>

primrec nmul :: "nat \<Rightarrow> point \<Rightarrow> point" where
  "nmul 0 P = 0"
| "nmul (Suc n) P = P + nmul n P"

definition smul :: "int \<Rightarrow> point \<Rightarrow> point" where
  "smul k P = nmul (nat k) P - nmul (nat (- k)) P"

lemma smul_0 [simp]: "smul 0 P = 0" and smul_1 [simp]: "smul 1 P = P"
  by (simp_all add: smul_def)

lemma smul_inc: "smul (k + 1) P = smul k P + P"
proof (cases "0 \<le> k")
  case True
  then show ?thesis by (simp add: smul_def nat_add_distrib)
next
  case False
  then have "nat (- k) = Suc (nat (- (k + 1)))" by simp
  then show ?thesis using False by (simp add: smul_def)
qed

lemma smul_add: "smul (a + b) P = smul a P + smul b P"
proof (induction b rule: int_induct [where k = 0])
  case (step1 b)
  then show ?case using smul_inc [of "a + b" P] smul_inc [of b P] by (simp add: ac_simps)
next
  case (step2 b)
  then show ?case using smul_inc [of "a + b - 1" P] smul_inc [of "b - 1" P] by (simp add: algebra_simps)
qed simp

lemma smul_minus: "smul (- a) P = - smul a P"
  using smul_add [of "- a" a P] by (simp add: eq_neg_iff_add_eq_0)

lemma smul_diff: "smul (a - b) P = smul a P - smul b P"
  using smul_add [of a "- b" P] by (simp add: smul_minus)

lemma smul_mult: "smul (a * b) P = smul a (smul b P)"
proof (induction a rule: int_induct [where k = 0])
  case (step1 a)
  then show ?case by (simp add: smul_add distrib_right)
next
  case (step2 a)
  then show ?case by (simp add: smul_diff left_diff_distrib)
qed simp

lemma smul_zero [simp]: "smul k 0 = 0"
  using smul_mult [of k 0 0] by simp

lemma smul_plus: "smul k (P + Q) = smul k P + smul k Q"
proof (induction k rule: int_induct [where k = 0])
  case (step1 k)
  then show ?case by (simp add: smul_add ac_simps)
next
  case (step2 k)
  then show ?case by (simp add: smul_diff algebra_simps)
qed simp

lemma smul_2: "smul 2 P = P + P"
  using smul_add [of 1 1 P] by simp

section \<open>Representations of points\<close>

definition affine :: "point \<Rightarrow> int \<times> int" where
  "affine P = (int_of (fst (coords P)), int_of (snd (coords P)))"

lemma ed_sum_gf:
  "ed_sum (x1, y1) (x2, y2) (x3, y3) \<longleftrightarrow>
     (let t = gf_d * of_int x1 * of_int x2 * of_int y1 * of_int y2
      in 1 + t \<noteq> 0 \<and> 1 - t \<noteq> 0 \<and> of_int x3 * (1 + t) = of_int x1 * of_int y2 + of_int y1 * of_int x2
         \<and> of_int y3 * (1 - t) = of_int y1 * of_int y2 + of_int x1 * of_int x2)"
  by (simp add: ed_sum_def Let_def unit_gf gf_eq_iff [symmetric] gf_d_def)

lemma on_curve_gf: "on_curve x y \<longleftrightarrow> edw gf_d (of_int x, of_int y)"
  by (simp add: on_curve_def edw_def gf_eq_iff [symmetric] gf_d_def)

lemma affine_on_curve: "on_curve (fst (affine P)) (snd (affine P))"
  using coords_edw [of P] by (simp add: on_curve_gf affine_def)

lemma ed_sum_add: "ed_sum (affine P) (affine Q) (affine (P + Q))"
proof -
  obtain x1 y1 x2 y2 x3 y3 where c: "coords P = (x1, y1)" "coords Q = (x2, y2)" "coords (P + Q) = (x3, y3)" by (metis surj_pair)
  have e: "edw gf_d (x1, y1)" "edw gf_d (x2, y2)" using coords_edw c by metis+
  have s: "edw_add gf_d (x1, y1) (x2, y2) = (x3, y3)" using plus_point.rep_eq [of P Q] c by simp
  show ?thesis
    unfolding affine_def c ed_sum_gf Let_def
    using gf.denominators [OF e] gf.add_equations [OF e s] by simp
qed

lemma ed_sum_diff: "ed_sum (affine P) (neg_point (affine Q)) (affine (P - Q))"
proof -
  have "affine (- Q) = (int_of (- fst (coords Q)), snd (affine Q))"
    by (simp add: affine_def uminus_point.rep_eq edw_neg_def split: prod.split)
  then have "ed_sum (affine P) (int_of (- fst (coords Q)), snd (affine Q)) (affine (P - Q))"
    using ed_sum_add [of P "- Q"] by simp
  then show ?thesis
    by (simp add: neg_point_def affine_def ed_sum_gf)
qed

definition ext_of :: "ExtendedGroupElement \<Rightarrow> point \<Rightarrow> bool" where "ext_of E P \<longleftrightarrow> ext_rep E (affine P)"
definition proj_of :: "ProjectiveGroupElement \<Rightarrow> point \<Rightarrow> bool" where "proj_of E P \<longleftrightarrow> proj_rep E (affine P)"
definition com_of :: "CompletedGroupElement \<Rightarrow> point \<Rightarrow> bool" where "com_of E P \<longleftrightarrow> com_rep E (affine P)"
definition cached_of :: "CachedGroupElement \<Rightarrow> point \<Rightarrow> bool" where "cached_of E P \<longleftrightarrow> cached_rep E (affine P)"
definition pre_of :: "PreComputedGroupElement \<Rightarrow> point \<Rightarrow> bool" where "pre_of E P \<longleftrightarrow> pre_rep E (affine P)"

lemma ext_of_convert:
  "com_of E P \<Longrightarrow> ext_of (com_ToExtended E) P" "com_of E P \<Longrightarrow> proj_of (com_ToProjective E) P"
  "ext_of F P \<Longrightarrow> proj_of (ext_ToProjective F) P" "ext_of F P \<Longrightarrow> cached_of (ext_ToCached F) P"
  by (simp_all add: ext_of_def com_of_def proj_of_def cached_of_def ToExtended_rep ToProjective_rep ext_ToProjective_rep ToCached_rep)

lemma geAdd_of: "ext_of E P \<Longrightarrow> cached_of F Q \<Longrightarrow> com_of (geAdd E F) (P + Q)"
  and geSub_of: "ext_of E P \<Longrightarrow> cached_of F Q \<Longrightarrow> com_of (geSub E F) (P - Q)"
  unfolding ext_of_def cached_of_def com_of_def using geAdd_rep ed_sum_add ed_sum_diff by blast+

lemma geMixedAdd_of: "ext_of E P \<Longrightarrow> pre_of F Q \<Longrightarrow> com_of (geMixedAdd E F) (P + Q)"
  and geMixedSub_of: "ext_of E P \<Longrightarrow> pre_of F Q \<Longrightarrow> com_of (geMixedSub E F) (P - Q)"
  unfolding ext_of_def pre_of_def com_of_def using geMixedAdd_rep ed_sum_add ed_sum_diff by blast+

lemma proj_Double_of: "proj_of E P \<Longrightarrow> com_of (proj_Double E) (P + P)"
  using Double_rep [of E "fst (affine P)" "snd (affine P)" "fst (affine (P + P))" "snd (affine (P + P))"]
    affine_on_curve [of P] ed_sum_add [of P P] by (simp add: proj_of_def com_of_def)

lemma ext_Double_of: "ext_of E P \<Longrightarrow> com_of (ext_Double E) (P + P)"
  by (simp add: ext_Double_def proj_Double_of ext_of_convert)

lemma affine_zero: "affine 0 = (0, 1)"
  by (simp add: affine_def zero_point.rep_eq zero_gf.rep_eq one_gf.rep_eq)

lemma frep_zero2: "frep 2 FeZero 0"
  by (rule frep_mono [OF frep_Zero]) simp

lemma ext_Zero_of: "ext_of ext_Zero 0" and proj_Zero_of: "proj_of proj_Zero 0" and pre_Zero_of: "pre_of pre_Zero 0"
  unfolding ext_of_def proj_of_def pre_of_def affine_zero ext_rep_def proj_rep_def pre_rep_def ext_Zero_def proj_Zero_def
    pre_Zero_def PreComputedGroupElement.make_def
  using frep_Zero frep_One unit_1 frep_zero2 by (auto intro!: exI [of _ 1])

text \<open>Every pair of coordinates on the curve is a point, and a representation of the pair is one of the point.\<close>

lemma point_at:
  assumes "on_curve x y"
  obtains P where "coords P = (of_int x, of_int y)" "eqp (fst (affine P)) x" "eqp (snd (affine P)) y"
proof
  have "coords (point_of (of_int x, of_int y)) = (of_int x, of_int y)"
    using assms by (simp add: point_of_inverse on_curve_gf)
  then show "coords (point_of (of_int x, of_int y)) = (of_int x, of_int y)"
    "eqp (fst (affine (point_of (of_int x, of_int y)))) x" "eqp (snd (affine (point_of (of_int x, of_int y)))) y"
    by (simp_all add: affine_def int_of_int eqp_def)
qed

lemma ext_rep_eqp:
  assumes "ext_rep E (x, y)" "eqp x v" "eqp y w"
  shows "ext_rep E (v, w)"
proof -
  obtain z where z: "unit_p z" "frep 2 (eX E) (x * z)" "frep 1 (eY E) (y * z)" "frep 1 (eZ E) z" "frep 1 (eT E) (x * y * z)"
    using assms(1) unfolding ext_rep_def by auto
  have "eqp (x * z) (v * z)" "eqp (y * z) (w * z)" "eqp (x * y * z) (v * w * z)"
    by (rule eqp_mult [OF assms(2) eqp_refl], rule eqp_mult [OF assms(3) eqp_refl],
        rule eqp_mult [OF eqp_mult [OF assms(2,3)] eqp_refl])
  then show ?thesis unfolding ext_rep_def using z frep_eqp by blast
qed

end
