(* ===== verification/Ge_Table.thy ===== *)
theory Ge_Table
  imports Ed_Group Ge_Recode
begin

text \<open>
  Checks on constants of the curve, on hexadecimal numerals modulo the prime: what a computation has to
  satisfy for one table entry to be the sum of two others, or the double of a point.
\<close>

section \<open>Reduction and comparison\<close>

definition hgf :: "hex \<Rightarrow> gf" where "hgf h = of_nat (hval h)"

definition ruler_64 :: hex where
  "ruler_64 = X0 (X0 (X0 (X0 (X0 (X0 (X0 (X0 (X0 (X0 (X0 (X0 (X0 (X0 (X0 (X0
    (X0 (X0 (X0 (X0 (X0 (X0 (X0 (X0 (X0 (X0 (X0 (X0 (X0 (X0 (X0 (X0
    (X0 (X0 (X0 (X0 (X0 (X0 (X0 (X0 (X0 (X0 (X0 (X0 (X0 (X0 (X0 (X0
    (X0 (X0 (X0 (X0 (X0 (X0 (X0 (X0 (X0 (X0 (X0 (X0 (X0 (X0 (X0 (X0 XZ)))))))))))))))))))))))))))))))))))))))))))))))))))))))))))))))"

definition hfold :: "hex \<Rightarrow> hex" where
  "hfold h = hadd (hlow ruler_64 h) (hmul (hhigh ruler_64 h) (X6 (X2 XZ)))"

definition hred :: "hex \<Rightarrow> hex" where "hred h = hfold (hfold h)"

lemma ruler_64: "ruler_64 = ruler 64"
  by (simp add: ruler_64_def numeral_eq_Suc)

lemma gf_2_256: "(of_nat (16 ^ 64) :: gf) = 38"
proof -
  have "eqp (int (16 ^ 64)) 38" by (simp add: eqp_def p25519_def)
  then show ?thesis using gf_eq_iff [of "int (16 ^ 64)" 38] by (simp only: of_int_of_nat_eq of_int_numeral)
qed

lemma hgf_hadd: "hgf (hadd a b) = hgf a + hgf b" and hgf_hmul: "hgf (hmul a b) = hgf a * hgf b"
  by (simp_all add: hgf_def hval_hadd hval_hmul)

lemma hgf_hfold: "hgf (hfold h) = hgf h"
proof -
  have "hgf h = of_nat (hval (hlow ruler_64 h) + 16 ^ 64 * hval (hhigh ruler_64 h))"
    unfolding hgf_def ruler_64 hval_parts ..
  also have "\<dots> = of_nat (hval (hlow ruler_64 h)) + 38 * of_nat (hval (hhigh ruler_64 h))"
    unfolding of_nat_add of_nat_mult gf_2_256 ..
  finally show ?thesis by (simp add: hfold_def hgf_hadd hgf_hmul) (simp add: hgf_def mult.commute)
qed

lemma hgf_hred: "hgf (hred h) = hgf h"
  by (simp add: hred_def hgf_hfold)

text \<open>
  Equality of residues: both sides are reduced and brought to 66 digits; what is left of the multiples of the prime is
  tried. The test is only meant to be sound.
\<close>

definition hex_p :: hex where "hex_p = hex_of 57896044618658097711785492504343953926634992332820282019728792003956564819949"

definition heq_p :: "hex \<Rightarrow> hex \<Rightarrow> hex \<Rightarrow> bool" where
  "heq_p p a b \<longleftrightarrow> a = b \<or> hadd a p = b \<or> a = hadd b p \<or> hadd a (hadd p p) = b \<or> a = hadd b (hadd p p)"

definition heq :: "hex \<Rightarrow> hex \<Rightarrow> bool" where
  "heq a b \<longleftrightarrow> heq_p (hadd (X0 (X0 ruler_64)) hex_p) (hadd (X0 (X0 ruler_64)) (hred a)) (hadd (X0 (X0 ruler_64)) (hred b))"

lemma hval_ruler: "hval (ruler n) = 0"
  by (induction n) simp_all

lemma heq_p: "hgf p = 0 \<Longrightarrow> heq_p p a b \<Longrightarrow> hgf a = hgf b"
  unfolding heq_p_def by (elim disjE; drule arg_cong [of _ _ hgf]) (simp_all add: hgf_hadd)

lemma heq: "heq a b \<Longrightarrow> hgf a = hgf b"
proof -
  have z: "hgf (hadd (X0 (X0 ruler_64)) h) = hgf h" for h
    by (simp add: hgf_def hval_hadd ruler_64 hval_ruler)
  have "hgf hex_p = of_int p25519" by (simp only: hgf_def hex_p_def hval_hex_of p25519_nat of_int_of_nat_eq)
  then have p: "hgf (hadd (X0 (X0 ruler_64)) hex_p) = 0" by (simp add: z gf_eq_0)
  show "hgf a = hgf b" if "heq a b"
    using heq_p [OF p that [unfolded heq_def]] by (simp only: z hgf_hred)
qed

section \<open>Differences of field elements\<close>

fun limbs_diff :: "FieldElement \<Rightarrow> FieldElement \<Rightarrow> nat" where
  "limbs_diff (Fe f0 f1 f2 f3 f4 f5 f6 f7 f8 f9) (Fe g0 g1 g2 g3 g4 g5 g6 g7 g8 g9) =
     nat (f0 - g0 + 134217728) + 67108864 * (nat (f1 - g1 + 134217728) + 33554432 * (nat (f2 - g2 + 134217728)
     + 67108864 * (nat (f3 - g3 + 134217728) + 33554432 * (nat (f4 - g4 + 134217728) + 67108864 * (nat (f5 - g5 + 134217728)
     + 33554432 * (nat (f6 - g6 + 134217728) + 67108864 * (nat (f7 - g7 + 134217728) + 33554432 * (nat (f8 - g8 + 134217728)
     + 67108864 * nat (f9 - g9 + 134217728)))))))))"

definition limbs_offset :: nat where
  "limbs_offset = 57896041167784821472467233716001850286842842455513932220528026190799091793825"

definition hsub :: "FieldElement \<Rightarrow> FieldElement \<Rightarrow> hex" where
  "hsub f g = hadd (hex_of (limbs_diff f g)) (hex_of limbs_offset)"

definition fgf :: "FieldElement \<Rightarrow> gf" where "fgf f = of_int (fe_val f)"

lemma limbs_diff:
  assumes "fe_tight f" "fe_tight g"
  shows "int (limbs_diff f g) = fe_val f - fe_val g + 134217728 * (1 + 2 ^ 26 + 2 ^ 51 + 2 ^ 77 + 2 ^ 102 + 2 ^ 128 + 2 ^ 153 + 2 ^ 179 + 2 ^ 204 + 2 ^ 230)"
proof -
  obtain f0 f1 f2 f3 f4 f5 f6 f7 f8 f9 where f: "f = Fe f0 f1 f2 f3 f4 f5 f6 f7 f8 f9" by (cases f)
  obtain g0 g1 g2 g3 g4 g5 g6 g7 g8 g9 where g: "g = Fe g0 g1 g2 g3 g4 g5 g6 g7 g8 g9" by (cases g)
  have n: "int (nat (a - b + 134217728)) = a - b + 134217728" if "\<bar>a\<bar> \<le> 33554432 \<and> \<bar>b\<bar> \<le> 33554432" for a b
    using that by (simp add: abs_le_iff)
  have w: "\<bar>a\<bar> \<le> 16944988 \<Longrightarrow> \<bar>a\<bar> \<le> 33554432" for a :: int by simp
  note b = assms [unfolded f g fe_bnd.simps]
  have e0: "int (nat (f0 - g0 + 134217728)) = f0 - g0 + 134217728" by (rule n) (use b in blast)
  have e1: "int (nat (f1 - g1 + 134217728)) = f1 - g1 + 134217728" by (rule n) (use b w in blast)
  have e2: "int (nat (f2 - g2 + 134217728)) = f2 - g2 + 134217728" by (rule n) (use b in blast)
  have e3: "int (nat (f3 - g3 + 134217728)) = f3 - g3 + 134217728" by (rule n) (use b w in blast)
  have e4: "int (nat (f4 - g4 + 134217728)) = f4 - g4 + 134217728" by (rule n) (use b in blast)
  have e5: "int (nat (f5 - g5 + 134217728)) = f5 - g5 + 134217728" by (rule n) (use b w in blast)
  have e6: "int (nat (f6 - g6 + 134217728)) = f6 - g6 + 134217728" by (rule n) (use b in blast)
  have e7: "int (nat (f7 - g7 + 134217728)) = f7 - g7 + 134217728" by (rule n) (use b w in blast)
  have e8: "int (nat (f8 - g8 + 134217728)) = f8 - g8 + 134217728" by (rule n) (use b in blast)
  have e9: "int (nat (f9 - g9 + 134217728)) = f9 - g9 + 134217728" by (rule n) (use b w in blast)
  show ?thesis
    unfolding f g limbs_diff.simps fe_val.simps of_nat_add of_nat_mult of_nat_numeral e0 e1 e2 e3 e4 e5 e6 e7 e8 e9
    by simp
qed

lemma hgf_hsub:
  assumes "fe_tight f" "fe_tight g"
  shows "hgf (hsub f g) = fgf f - fgf g"
proof -
  have "hgf (hsub f g) = of_int (int (limbs_diff f g) + int limbs_offset)"
    by (simp add: hsub_def hgf_def hval_hadd hval_hex_of)
  also have "\<dots> = of_int (fe_val f - fe_val g)"
    unfolding limbs_diff [OF assms] gf_eq_iff eqp_def by (rule mod_p_eqI [where k = 5]) (simp add: limbs_offset_def p25519_def)
  finally show ?thesis by (simp add: fgf_def)
qed

section \<open>What is checked of an entry\<close>

text \<open>
  A point in the coordinates of the table: \<open>u = y + x\<close>, \<open>v = y - x\<close>, \<open>w = 2dxy\<close>. With \<open>t = d x1 y1 x2 y2\<close> the sum of two
  points satisfies \<open>u = u1 u2 + v t\<close> and \<open>v = v1 v2 + u t\<close>.
\<close>

type_synonym entry = "hex \<times> hex \<times> hex \<times> hex"

definition limbs_zero :: FieldElement where "limbs_zero = Fe 0 0 0 0 0 0 0 0 0 0"

definition entry :: "PreComputedGroupElement \<Rightarrow> entry" where
  "entry T = (hsub (yPlusX T) limbs_zero, hsub (yMinusX T) limbs_zero, hsub (xy2d T) limbs_zero, hsub (yPlusX T) (yMinusX T))"

definition sum_ok :: "hex \<Rightarrow> hex \<Rightarrow> hex \<Rightarrow> hex \<Rightarrow> hex \<Rightarrow> hex \<Rightarrow> hex \<Rightarrow> bool" where
  "sum_ok u1 v1 u2 v2 t u v \<longleftrightarrow> heq (hadd (hmul u1 u2) (hmul v t)) u \<and> heq (hadd (hmul v1 v2) (hmul u t)) v"

text \<open>The third coordinate of an entry, from \<open>121666 d = - 121665\<close> and the difference \<open>2x\<close>.\<close>

definition w_ok :: "hex \<Rightarrow> hex \<Rightarrow> hex \<Rightarrow> hex \<Rightarrow> bool" where
  "w_ok u v w x \<longleftrightarrow> heq (hadd (hmul (hred (hmul x (hadd u v))) (hex_of 121665)) (hmul w (hex_of 243332))) XZ"

fun row_ok :: "hex \<Rightarrow> hex \<Rightarrow> hex \<Rightarrow> hex \<Rightarrow> hex \<Rightarrow> hex \<Rightarrow> entry list \<Rightarrow> bool" where
  "row_ok u1 v1 c1 u v w [] \<longleftrightarrow> True"
| "row_ok u1 v1 c1 u v w ((u', v', w', x') # es) \<longleftrightarrow>
     sum_ok u v u1 v1 (hred (hmul w c1)) u' v' \<and> w_ok u' v' w' x' \<and> row_ok u1 v1 c1 u' v' w' es"

text \<open>The product \<open>x y / 2\<close> of the point that is added along a row, with the inverse of 8.\<close>

definition half_product :: "hex \<Rightarrow> hex \<Rightarrow> hex \<Rightarrow> hex" where
  "half_product u v x = hred (hmul (hred (hmul x (hadd u v))) (hex_of 21711016731996786641919559689128982722488122124807605757398297001483711807481))"

fun first_row_ok :: "entry list \<Rightarrow> bool" where
  "first_row_ok [] \<longleftrightarrow> False"
| "first_row_ok ((u, v, w, x) # es) \<longleftrightarrow> row_ok u v (half_product u v x) u v w es"

definition double_by :: "hex \<Rightarrow> hex \<Rightarrow> hex \<Rightarrow> hex \<Rightarrow> hex \<Rightarrow> bool" where
  "double_by m u v u' v' \<longleftrightarrow> heq (hadd (hmul u u) (hmul v' m)) (hadd u' v') \<and> heq (hadd (hmul v v) (hmul u' m)) (hadd u' v')"

definition double_ok :: "hex \<Rightarrow> hex \<Rightarrow> hex \<Rightarrow> hex \<Rightarrow> bool" where
  "double_ok u v u' v' \<longleftrightarrow> double_by (hred (hmul u v)) u v u' v'"

text \<open>Repeated doubling from one entry to another, over the points in between.\<close>

fun last_double_ok :: "hex \<Rightarrow> hex \<Rightarrow> entry \<Rightarrow> bool" where
  "last_double_ok u v (u', v', w', x') \<longleftrightarrow> double_ok u v u' v' \<and> w_ok u' v' w' x'"

fun doubles_ok :: "hex \<Rightarrow> hex \<Rightarrow> (nat \<times> nat) list \<Rightarrow> entry \<Rightarrow> bool" where
  "doubles_ok u v [] e \<longleftrightarrow> last_double_ok u v e"
| "doubles_ok u v ((u', v') # ps) e \<longleftrightarrow> double_ok u v (hex_of u') (hex_of v') \<and> doubles_ok (hex_of u') (hex_of v') ps e"

fun next_row_ok :: "entry \<Rightarrow> (nat \<times> nat) list \<Rightarrow> entry \<Rightarrow> bool" where
  "next_row_ok (u, v, w, x) ps e \<longleftrightarrow> doubles_ok u v ps e"

lemmas table_rules = entry_def sum_ok_def w_ok_def row_ok.simps half_product_def first_row_ok.simps double_by_def double_ok_def
  last_double_ok.simps doubles_ok.simps next_row_ok.simps
  list.map PreComputedGroupElement.make_def PreComputedGroupElement.simps limbs_diff.simps limbs_zero_def limbs_offset_def hsub_def
  heq_def heq_p_def hred_def hfold_def ruler_64_def hex_p_def hex_rules hex.inject hex.distinct simp_thms arith_simps nat_numeral
  nat_0 nat_1 diff_0_right

section \<open>What the checks mean\<close>

definition is_u :: "point \<Rightarrow> hex \<Rightarrow> bool" where "is_u P h \<longleftrightarrow> hgf h = snd (coords P) + fst (coords P)"
definition is_v :: "point \<Rightarrow> hex \<Rightarrow> bool" where "is_v P h \<longleftrightarrow> hgf h = snd (coords P) - fst (coords P)"
definition is_w :: "point \<Rightarrow> hex \<Rightarrow> bool" where "is_w P h \<longleftrightarrow> hgf h = 2 * gf_d * fst (coords P) * snd (coords P)"

lemma gf_half: "(a :: gf) + a = b + b \<Longrightarrow> a = b"
proof -
  assume "a + a = b + b"
  then have "2 * a = 2 * b" unfolding mult_2 .
  then show ?thesis unfolding mult_cancel_left using gf_two by blast
qed

text \<open>The two equations determine the sum.\<close>

lemma sum_point:
  fixes P Q :: point
  defines "x1 \<equiv> fst (coords P)" and "y1 \<equiv> snd (coords P)" and "x2 \<equiv> fst (coords Q)" and "y2 \<equiv> snd (coords Q)"
  assumes t: "t = gf_d * x1 * x2 * y1 * y2"
    and u: "u = (y1 + x1) * (y2 + x2) + v * t" and v: "v = (y1 - x1) * (y2 - x2) + u * t"
  shows "u = snd (coords (P + Q)) + fst (coords (P + Q)) \<and> v = snd (coords (P + Q)) - fst (coords (P + Q))"
proof -
  define x y where "x = (u - v) / 2" and "y = (u + v) / 2"
  have xy: "x + x = u - v" "y + y = u + v" using gf_two by (simp_all add: x_def y_def flip: mult_2)
  have e: "edw gf_d (x1, y1)" "edw gf_d (x2, y2)" using coords_edw [of P] coords_edw [of Q] by (simp_all add: x1_def y1_def x2_def y2_def)
  have "x * (1 + t) + x * (1 + t) = (x1 * y2 + y1 * x2) + (x1 * y2 + y1 * x2)"
    "y * (1 - t) + y * (1 - t) = (y1 * y2 + x1 * x2) + (y1 * y2 + x1 * x2)"
    using xy u v by algebra+
  note h = this [THEN gf_half]
  have "edw_add gf_d (x1, y1) (x2, y2) = (x, y)"
    using h unfolding t by (rule gf.add_unique [OF e])
  then have c: "coords (P + Q) = (x, y)" by (simp add: plus_point.rep_eq x1_def y1_def x2_def y2_def)
  have "(y + x) + (y + x) = u + u" "(y - x) + (y - x) = v + v" using xy by algebra+
  then show ?thesis unfolding c fst_conv snd_conv using gf_half by metis
qed

lemma gf_d_fraction: "121666 * gf_d = - 121665"
  using curve_d_val gf_eq_iff [of "121666 * ed_d" "- 121665"] by (simp add: gf_d_def eqp_def)

lemma gf_nonzero: "(121665 :: gf) \<noteq> 0" "(121666 :: gf) \<noteq> 0" "(243332 :: gf) \<noteq> 0"
  using gf_eq_0 [of 121665] gf_eq_0 [of 121666] gf_eq_0 [of 243332] by (simp_all add: p25519_def)

lemma hgf_const: "hgf (hex_of n) = of_nat n" "hgf XZ = 0"
  by (simp_all add: hgf_def hval_hex_of)

text \<open>The sum of a point with the point of a row, whose half product is \<open>c1\<close>.\<close>

lemma sum_ok:
  assumes "sum_ok u1 v1 u2 v2 (hred (hmul w1 c2)) u v" "is_u P u1" "is_v P v1" "is_w P w1" "is_u Q u2" "is_v Q v2"
    "2 * hgf c2 = fst (coords Q) * snd (coords Q)"
  shows "is_u (P + Q) u \<and> is_v (P + Q) v"
proof -
  have "hgf (hred (hmul w1 c2)) = gf_d * fst (coords P) * snd (coords P) * (2 * hgf c2)"
    using assms(4) by (simp add: hgf_hred hgf_hmul is_w_def)
  then have t: "hgf (hred (hmul w1 c2)) = gf_d * fst (coords P) * fst (coords Q) * snd (coords P) * snd (coords Q)"
    unfolding assms(7) by (simp only: ac_simps)
  have "hgf u = hgf u1 * hgf u2 + hgf v * hgf (hred (hmul w1 c2))" "hgf v = hgf v1 * hgf v2 + hgf u * hgf (hred (hmul w1 c2))"
    using assms(1) [unfolded sum_ok_def] heq unfolding hgf_hadd [symmetric] hgf_hmul [symmetric] by metis+
  note e = this [unfolded assms(2,3,5,6) [unfolded is_u_def is_v_def]]
  show ?thesis unfolding is_u_def is_v_def by (rule sum_point [OF t e])
qed

lemma w_ok:
  assumes "w_ok u v w x" "is_u P u" "is_v P v" "hgf x = hgf u - hgf v"
  shows "is_w P w"
proof -
  have "hgf x * (hgf u + hgf v) * 121665 + hgf w * 243332 = 0"
    using heq [OF assms(1) [unfolded w_ok_def]] by (simp add: hgf_hadd hgf_hmul hgf_hred hgf_const)
  moreover have "hgf x = fst (coords P) + fst (coords P)" "hgf u + hgf v = snd (coords P) + snd (coords P)"
    using assms(2-4) by (simp_all add: is_u_def is_v_def)
  ultimately have "243332 * hgf w = - 121665 * ((fst (coords P) + fst (coords P)) * (snd (coords P) + snd (coords P)))"
    by (simp add: eq_neg_iff_add_eq_0 algebra_simps)
  also have "\<dots> = (121666 * gf_d) * (4 * (fst (coords P) * snd (coords P)))"
    unfolding gf_d_fraction by (simp add: algebra_simps)
  finally have "(121666 * 2) * hgf w = (121666 * 2) * (2 * gf_d * fst (coords P) * snd (coords P))"
    by (simp add: algebra_simps)
  then show ?thesis unfolding is_w_def mult_cancel_left using gf_two gf_nonzero by simp
qed

lemma half_product:
  assumes "is_u P u" "is_v P v" "hgf x = hgf u - hgf v"
  shows "2 * hgf (half_product u v x) = fst (coords P) * snd (coords P)"
proof -
  have "eqp (8 * 21711016731996786641919559689128982722488122124807605757398297001483711807481) 1" unfolding eqp_def by (rule mod_p_eqI [where k = 3]) (simp add: p25519_def)
  then have i: "8 * hgf (hex_of 21711016731996786641919559689128982722488122124807605757398297001483711807481) = 1"
    using gf_eq_iff [of "8 * 21711016731996786641919559689128982722488122124807605757398297001483711807481" 1] by (simp add: hgf_const)
  define k where "k = hgf (hex_of 21711016731996786641919559689128982722488122124807605757398297001483711807481)"
  have "hgf (half_product u v x) = (2 * fst (coords P)) * (2 * snd (coords P)) * k"
    using assms by (simp add: half_product_def hgf_hmul hgf_hadd hgf_hred is_u_def is_v_def k_def)
  then have "2 * hgf (half_product u v x) = (8 * k) * (fst (coords P) * snd (coords P))" by simp
  then show ?thesis using i by (simp add: k_def)
qed

lemma double_ok:
  assumes "double_ok u v u' v'" "is_u P u" "is_v P v"
  shows "is_u (P + P) u' \<and> is_v (P + P) v'"
proof -
  define x y where "x = fst (coords P)" and "y = snd (coords P)"
  have e: "y * y - x * x = 1 + gf_d * x * x * y * y" using coords_edw [of P] by (simp add: edw_def x_def y_def split: prod.splits)
  have uv: "hgf u = y + x" "hgf v = y - x" using assms(2,3) by (simp_all add: is_u_def is_v_def x_def y_def)
  have "hgf u * hgf u + hgf v' * (hgf u * hgf v) = hgf u' + hgf v'" "hgf v * hgf v + hgf u' * (hgf u * hgf v) = hgf u' + hgf v'"
    using assms(1) [unfolded double_ok_def double_by_def, THEN conjunct1, THEN heq]
      assms(1) [unfolded double_ok_def double_by_def, THEN conjunct2, THEN heq] by (simp_all only: hgf_hadd hgf_hmul hgf_hred)
  moreover have "(y + x) * (y - x) = 1 + gf_d * x * x * y * y" using e by (simp add: algebra_simps)
  ultimately have "(y + x) * (y + x) + hgf v' * (1 + gf_d * x * x * y * y) = hgf u' + hgf v'"
    "(y - x) * (y - x) + hgf u' * (1 + gf_d * x * x * y * y) = hgf u' + hgf v'" unfolding uv by simp_all
  then have "hgf u' = (y + x) * (y + x) + hgf v' * (gf_d * x * x * y * y)" "hgf v' = (y - x) * (y - x) + hgf u' * (gf_d * x * x * y * y)"
    by (simp_all add: distrib_left) (simp_all add: algebra_simps)
  then show ?thesis using sum_point [of _ P P, OF refl] by (simp add: is_u_def is_v_def x_def y_def)
qed

section \<open>Rows\<close>

lemma pre_of_eqs: "pre_of T P \<longleftrightarrow> pre_tight T \<and> is_u P (hsub (yPlusX T) limbs_zero) \<and> is_v P (hsub (yMinusX T) limbs_zero)
    \<and> is_w P (hsub (xy2d T) limbs_zero)"
proof -
  have z: "fe_tight limbs_zero" "fe_val limbs_zero = 0" by (simp_all add: limbs_zero_def)
  have "frep 1 F k \<longleftrightarrow> fe_tight F \<and> hgf (hsub F limbs_zero) = of_int k" for F k
    using hgf_hsub [OF _ z(1), of F] gf_eq_iff [of "fe_val F" k] by (auto simp: frep_tight z fgf_def eqp_def)
  then show ?thesis
    by (auto simp: pre_of_def pre_rep_def affine_def pre_tight_def is_u_def is_v_def is_w_def gf_d_def)
qed

lemma entry_x: "pre_tight T \<Longrightarrow> hgf (hsub (yPlusX T) (yMinusX T)) = hgf (hsub (yPlusX T) limbs_zero) - hgf (hsub (yMinusX T) limbs_zero)"
  using hgf_hsub [of _ limbs_zero] hgf_hsub [of "yPlusX T" "yMinusX T"] by (simp add: pre_tight_def limbs_zero_def fgf_def)

lemma row_ok:
  assumes "row_ok u1 v1 c1 u v w (map entry Ts)" "list_all pre_tight Ts" "is_u P u1" "is_v P v1"
    "2 * hgf c1 = fst (coords P) * snd (coords P)" "is_u Q u" "is_v Q v" "is_w Q w" "j < length Ts"
  shows "pre_of (Ts ! j) (Q + smul (int j + 1) P)"
  using assms
proof (induction Ts arbitrary: Q u v w j)
  case (Cons T Ts)
  obtain u' v' w' x' where e: "entry T = (u', v', w', x')" by (metis surj_pair)
  have ok: "sum_ok u v u1 v1 (hred (hmul w c1)) u' v'" "w_ok u' v' w' x'" "row_ok u1 v1 c1 u' v' w' (map entry Ts)" and T: "pre_tight T"
    using Cons.prems(1,2) e by simp_all
  have uv: "is_u (Q + P) u'" "is_v (Q + P) v'"
    using sum_ok [OF ok(1) Cons.prems(6,7,8,3,4,5)] by blast+
  have w: "is_w (Q + P) w'"
    using w_ok [OF ok(2) uv] entry_x [OF T] e by (simp add: entry_def)
  show ?case
  proof (cases j)
    case 0
    then show ?thesis using uv w T e by (simp add: pre_of_eqs entry_def)
  next
    case (Suc i)
    then have "pre_of (Ts ! i) (Q + P + smul (int i + 1) P)"
      using Cons.IH [OF ok(3) _ Cons.prems(3-5) uv w] Cons.prems(2,9) by simp
    then show ?thesis using Suc by (simp add: smul_add smul_2 ac_simps)
  qed
qed simp

lemma first_row_ok:
  assumes "first_row_ok (map entry Ts)" "list_all pre_tight Ts" "pre_of (Ts ! 0) P" "j < length Ts"
  shows "pre_of (Ts ! j) (smul (int j + 1) P)"
proof (cases Ts)
  case (Cons T Rs)
  obtain u v w x where e: "entry T = (u, v, w, x)" by (metis surj_pair)
  have P: "is_u P u" "is_v P v" "is_w P w" and T: "pre_tight T"
    using assms(3) e by (simp_all add: Cons pre_of_eqs entry_def)
  have c: "2 * hgf (half_product u v x) = fst (coords P) * snd (coords P)"
    using entry_x [OF T] e by (intro half_product P) (simp add: entry_def)
  show ?thesis
  proof (cases j)
    case 0
    then show ?thesis using assms(3) by (simp add: Cons)
  next
    case (Suc i)
    have "pre_of (Rs ! i) (P + smul (int i + 1) P)"
      using row_ok [of u v "half_product u v x" u v w Rs P P i] assms(1,2,4) P c e by (simp add: Cons Suc)
    then show ?thesis by (simp add: Cons Suc smul_add smul_2 ac_simps)
  qed
qed (use assms in simp)

lemma doubles_ok:
  assumes "doubles_ok u v ps (entry T)" "pre_tight T" "is_u P u" "is_v P v"
  shows "pre_of T (smul (2 ^ (length ps + 1)) P)"
  using assms
proof (induction ps arbitrary: u v P)
  case Nil
  obtain u' v' w' x' where e: "entry T = (u', v', w', x')" by (metis surj_pair)
  have ok: "double_ok u v u' v'" "w_ok u' v' w' x'" using Nil.prems(1) e by simp_all
  have uv: "is_u (P + P) u'" "is_v (P + P) v'" using double_ok [OF ok(1) Nil.prems(3,4)] by blast+
  have "is_w (P + P) w'" using w_ok [OF ok(2) uv] entry_x [OF Nil.prems(2)] e by (simp add: entry_def)
  then show ?case using uv Nil.prems(2) e by (simp add: pre_of_eqs entry_def smul_2)
next
  case (Cons p ps)
  obtain a b where p: "p = (a, b)" by (metis surj_pair)
  have ok: "double_ok u v (hex_of a) (hex_of b)" "doubles_ok (hex_of a) (hex_of b) ps (entry T)" using Cons.prems(1) by (simp_all add: p)
  have "pre_of T (smul (2 ^ (length ps + 1)) (P + P))"
    using Cons.IH [OF ok(2) Cons.prems(2)] double_ok [OF ok(1) Cons.prems(3,4)] by blast
  then show ?case by (simp add: smul_2 [symmetric] smul_mult [symmetric] mult.commute)
qed

lemma next_row_ok:
  assumes "next_row_ok (entry S) ps (entry T)" "pre_tight T" "pre_of S P"
  shows "pre_of T (smul (2 ^ (length ps + 1)) P)"
proof -
  obtain u v w x where e: "entry S = (u, v, w, x)" by (metis surj_pair)
  have "is_u P u" "is_v P v" using assms(3) e by (simp_all add: pre_of_eqs entry_def)
  then show ?thesis using doubles_ok [OF _ assms(2)] assms(1) e by simp
qed

end
