(* ===== verification/Ge_Base.thy ===== *)
theory Ge_Base
  imports Ge_Table
begin

text \<open>
  The table \<open>base\<close> of \<open>const.go\<close> holds what its comment says: entry \<open>j\<close> of row \<open>i\<close> is \<open>(j + 1) * 256 ^ i\<close> times
  the base point. Along a row each entry is the one before plus the first; from the last entry of a row five doublings lead
  to the next row.
\<close>

section \<open>The base point\<close>

definition base_x :: int where "base_x = 15112221349535400772501151409588531511454012693041857206046113283949847762202"
definition base_y :: int where "base_y = 46316835694926478169428394003475163141307993866256225615783033603165251855960"

lemma base_on_curve: "on_curve base_x base_y"
  unfolding on_curve_def eqp_def
  by (rule mod_p_eqI [where k = "176017515646238042518858988494804319002690668958682172119208935004961425463046234343323038747327028132349319749720892393588209831910700972996155525645270443840298019529277090849489164297062024014455565835884854412493891237209398884596781623741078065328680199346687522910258377552825969440066219496077362855"])
    (simp add: p25519_def base_x_def base_y_def curve_d_def)

definition base_point :: point where "base_point = point_of (of_int base_x, of_int base_y)"

lemma coords_base: "coords base_point = (of_int base_x, of_int base_y)"
  using base_on_curve by (simp add: base_point_def point_of_inverse on_curve_gf)

lemma affine_base: "affine base_point = (base_x, base_y)"
  by (simp add: affine_def coords_base int_of_int) (simp add: base_x_def base_y_def p25519_def)

text \<open>It is the point of Ed25519 with \<open>y = 4/5\<close> and \<open>x\<close> even.\<close>

lemma base_point_y: "5 * snd (coords base_point) = 4" "even base_x"
proof -
  have "eqp (5 * base_y) 4" unfolding eqp_def by (rule mod_p_eqI [where k = 4]) (simp add: base_y_def p25519_def)
  then show "5 * snd (coords base_point) = 4" using gf_eq_iff [of "5 * base_y" 4] by (simp add: coords_base)
qed (simp add: base_x_def)

lemma base_first: "pre_of (base_0 ! 0) base_point"
proof -
  have "fe_val (yPlusX (base_0 ! 0)) mod p25519 = (base_y + base_x) mod p25519"
    by (rule mod_p_eqI [where k = "- 1"]) (simp add: base_0_def PreComputedGroupElement.make_def base_x_def base_y_def p25519_def)
  moreover have "fe_val (yMinusX (base_0 ! 0)) mod p25519 = (base_y - base_x) mod p25519"
    by (rule mod_p_eqI [where k = "- 1"]) (simp add: base_0_def PreComputedGroupElement.make_def base_x_def base_y_def p25519_def)
  moreover have "fe_val (xy2d (base_0 ! 0)) mod p25519 = 2 * ed_d * base_x * base_y mod p25519"
    by (rule mod_p_eqI [where k = "502942915740384775795574395612637547725606326590066973934083651582881215068074980474205545278664755731856125683358347190262740606111922508497690919068871"])
      (simp add: base_0_def PreComputedGroupElement.make_def base_x_def base_y_def p25519_def curve_d_def)
  moreover have "pre_tight (base_0 ! 0)" using base_rows_tight(1) by (simp add: base_0_def)
  ultimately show ?thesis by (simp add: pre_of_def affine_base pre_rep_def frep_tight pre_tight_def)
qed

section \<open>The rows\<close>

definition linked :: "PreComputedGroupElement list \<Rightarrow> PreComputedGroupElement list \<Rightarrow> bool" where
  "linked R S \<longleftrightarrow> (\<exists>ps. length ps = 4 \<and> next_row_ok (entry (R ! 7)) ps (entry (S ! 0)))"

lemma linkedI: "length ps = 4 \<Longrightarrow> next_row_ok (entry (R ! 7)) ps (entry (S ! 0)) \<Longrightarrow> linked R S"
  unfolding linked_def by blast

lemma nth_rules: "(x # xs) ! 0 = x" "(x1 # x2 # x3 # x4 # x5 # x6 # x7 # x8 # xs) ! 7 = x8"
  by simp_all

lemma row_0: "first_row_ok (map entry base_0)"
  by (simp only: base_0_def table_rules)

lemma next_0: "linked base_0 base_1"
  by (rule linkedI [where ps = "[(9150700901396372002955937811386093231723774689136611388824386579046465544694,
      34803470282035254167861749748857734223267880134292052229384783022034440302067),
    (56998634480820689224812234692604884713596111604412395994047877857290066665871,
      4701998613811609213925887888520231796251786686876732362708225031217252696899),
    (30340318798711838421951331556490767266021685221295035303866716430611579841841,
      24932384703262992566065740342801154389079494960625337105603301029363501065499),
    (43664744203255909200148347263385470436435959511557546844847502698877724353667,
      51248953256284332391137700317245717899341492317885220006567182830270196459874)]"])
    (simp, simp only: base_0_def base_1_def nth_rules table_rules)

lemma row_1: "first_row_ok (map entry base_1)"
  by (simp only: base_1_def table_rules)

lemma next_1: "linked base_1 base_2"
  by (rule linkedI [where ps = "[(39233217367744944082743727234989693259911533177309831461716904563803921446866,
      41877302029680014373540696028369248887210931711892764634228302435410547329496),
    (4904412209339761180286532618738770454062008006295097537062582753237850945914,
      41239042376942260444617941012969620388890361950357076602629139995446089147819),
    (55158454346054694268604020441458183612793129258730060795712830474277845193867,
      48229813147520468874845442934964023824873336539479111945131626172356501781879),
    (12770184574188621644851783046033290637998250387524720053955675690325502037083,
      45959164983013416229143330207580281711029926589895765798082217843103463476785)]"])
    (simp, simp only: base_1_def base_2_def nth_rules table_rules)

lemma row_2: "first_row_ok (map entry base_2)"
  by (simp only: base_2_def table_rules)

lemma next_2: "linked base_2 base_3"
  by (rule linkedI [where ps = "[(6480549826064741809328337591895651998028096356534587962948998402906599594725,
      419243865549101221419157110606488251204777884130019979821866502075098115851),
    (27018923029239457803657209244752977129985739328242490994714711393904947298267,
      19632441190381254804107326885484740810708219443602643718345157432467126378702),
    (47749627333136099083567916553369945239553804462831484396119836325094428303541,
      51659565042808725279805218003850710368305926169517330366945025475058608489002),
    (22496070466863838813376617589410879623201825320060904330061763859239383415207,
      17351779753683168135768649016284636994486862692623638310352723970068194639084)]"])
    (simp, simp only: base_2_def base_3_def nth_rules table_rules)

lemma row_3: "first_row_ok (map entry base_3)"
  by (simp only: base_3_def table_rules)

lemma next_3: "linked base_3 base_4"
  by (rule linkedI [where ps = "[(20228105077580605391615089861383477902948651093110614018006228601212829812897,
      50739262438981618138604305768031224265085555730473399623413823829986446560312),
    (11885723816838583074018792554219779064684285046928521397444516138233066886525,
      39531560762888920858585255896256030388577182770913576037217881623551806533277),
    (55309097900275244595540812102580096223347468140752878775874983984975695891697,
      47208749773804116322606667033397203501950472200820296195288268210573616930236),
    (39919050734813992231405536031843928074009219071754640599537776056399933191789,
      45945320156859477738353994360472793303317240314119916523532935872320061970583)]"])
    (simp, simp only: base_3_def base_4_def nth_rules table_rules)

lemma row_4: "first_row_ok (map entry base_4)"
  by (simp only: base_4_def table_rules)

lemma next_4: "linked base_4 base_5"
  by (rule linkedI [where ps = "[(19238310624339690010350409627550275976108757237013722313670832090412456009909,
      37855451600702306380738652731348760260954121750363421172459211694831619619074),
    (22958599478870231972095435491921071321727680888093042925691344798628485557660,
      55915739696162086463960047236349335733189403447425121245282808522811266327585),
    (52019434033050880042442439734078393879024747597924613565229610236293041437434,
      50920055369732224919232050349233188227485914693700981097206687687163029446124),
    (47093895857636168066134732782191630766523690668151907855819373751482162168301,
      14762704846405861073613058002013227688437453808003631442089919367483943000822)]"])
    (simp, simp only: base_4_def base_5_def nth_rules table_rules)

lemma row_5: "first_row_ok (map entry base_5)"
  by (simp only: base_5_def table_rules)

lemma next_5: "linked base_5 base_6"
  by (rule linkedI [where ps = "[(36918196726722101448933678860889797205635177955960663745753736684877656398356,
      19792759282461516403059541435426745796444315754794010916384367072719942928773),
    (57726455918441732161374379422646745280029098034021934091605343996147553407603,
      43139791409575482953749655001329897935535251830029924309400815164876474272278),
    (47063537400376592821060118630994932899449334552213294216292381919649384968588,
      5893944201089945755336144099942436442471735737646293838675905175387005565628),
    (44259017990347534984166074681467696190053556812836312064916650787395165441259,
      23885545767277264186013334580522072789574641086479308799797608612291276282014)]"])
    (simp, simp only: base_5_def base_6_def nth_rules table_rules)

lemma row_6: "first_row_ok (map entry base_6)"
  by (simp only: base_6_def table_rules)

lemma next_6: "linked base_6 base_7"
  by (rule linkedI [where ps = "[(51956654281199107032646883520755456670397495165077329721678721562044747830153,
      51577943930390623687170625002526342739440813934914707538124030955323570748481),
    (55114293388014710577873181270176368153397891935701164450115404901685262632356,
      26793374489195845885521166144532151671940485951270675431551017925683726708212),
    (21808955024583456816737303744330158092622569902218896451330150923923000550685,
      13672431629770178892865604500844231025015494962039128962368344144847035232979),
    (7968477510007827606435445207869657988360779403213970828173573668398676677500,
      42216988583537334385361187201734478591033608839682085754733510060674011191937)]"])
    (simp, simp only: base_6_def base_7_def nth_rules table_rules)

lemma row_7: "first_row_ok (map entry base_7)"
  by (simp only: base_7_def table_rules)

lemma next_7: "linked base_7 base_8"
  by (rule linkedI [where ps = "[(30093125196965367685981526264725504754332396466127285897228009251475038571580,
      9052034251620205706827156185663229978504786077326025551089469078038877155903),
    (37269293509374695477101338646535471344399171896611579258055354116231451016863,
      8000984971521348259300721087162075508022068305263762918653175743525410303157),
    (12579719060343104455282808057167670779768942604076651371217747838342772269098,
      47702712675269339434589082051757801648304104337832424757743333112946205248406),
    (53546903703359431094648424818051869487029327402182101913279052438002554153131,
      49829415220052758663960833463479664041993077134458006921345767835557035854439)]"])
    (simp, simp only: base_7_def base_8_def nth_rules table_rules)

lemma row_8: "first_row_ok (map entry base_8)"
  by (simp only: base_8_def table_rules)

lemma next_8: "linked base_8 base_9"
  by (rule linkedI [where ps = "[(20020780039529006300845947799009066733379107699593845039647896546874224898398,
      32980252754384554140471826446199976879444157450147215177201146178318733946092),
    (12404633805603550874724628254851313373558443696608222607569189903119233983682,
      39447725265953999306382624543315991042556680675800157205432771446129763497561),
    (52398358348779610509342589685866162170873741105110226567791376330472334500349,
      26973241560935523488720356593300373175214142520019630742708363487218803960237),
    (40557425522788986321441778293671640794084726215204064503883067145245730589812,
      26520050914473004359684359514879290922112345566569427120432001634940482719187)]"])
    (simp, simp only: base_8_def base_9_def nth_rules table_rules)

lemma row_9: "first_row_ok (map entry base_9)"
  by (simp only: base_9_def table_rules)

lemma next_9: "linked base_9 base_10"
  by (rule linkedI [where ps = "[(2713392604461861686723734081934261555305819703129594204603676725602510667418,
      29050895300783521808049570404875149001510403583903130624611990717819265733359),
    (26149337995024683493709316671756158759073952828742209801586076066953975534338,
      2279560492307930322974539460671633030905577003235254436334310157346744952968),
    (37350604812291711739792023108357612565341869762170544755481144045416640066852,
      45755846414585105445672620688326532201349422910799802274291305585391877538109),
    (17530766338798746851383918061560411741631057273203184466619043942756004356822,
      3251282321307115286448521645722997306489322493944037482195857979136664638322)]"])
    (simp, simp only: base_9_def base_10_def nth_rules table_rules)

lemma row_10: "first_row_ok (map entry base_10)"
  by (simp only: base_10_def table_rules)

lemma next_10: "linked base_10 base_11"
  by (rule linkedI [where ps = "[(35905976425759216951032961192435556430844196618167511537329817914065114522144,
      36398842653090509339062756880536732468749778493576125882477939014127250597385),
    (29627051913227713816332507458185230140323706499467651432590251247615080541013,
      21540843015634029490841174471559232856665002667821908647205975174421615849839),
    (3768659024341117249491098723584122266706344333981622657919620339066347168351,
      27729876039901811366790817540567895862704159966852391093122791842554353918162),
    (18483503046857252429375645563637754951587132532205348576753810508712804608332,
      13324204498244154729700179562847089505007953015145942743907926454844256606482)]"])
    (simp, simp only: base_10_def base_11_def nth_rules table_rules)

lemma row_11: "first_row_ok (map entry base_11)"
  by (simp only: base_11_def table_rules)

lemma next_11: "linked base_11 base_12"
  by (rule linkedI [where ps = "[(32364399508626710899416853671937516916518441965696484319950818283868609368731,
      5040935096316101636470438701185741236436715863683671398107770716543173862999),
    (48730502736573766327320742472093931472030717953993328008002161838994460789109,
      37268943610949337775671098878598508810882793289621511950706282659034249070262),
    (56297996893969707610871067331604571443081171123708602659922814047193196201398,
      1651466092629576823795517277661286170299574555301276048970089213918242743453),
    (16334867078389064885109837060467176931969929372189737577955599726276904395315,
      6451277858413706921351461060238480843995938592018322958137771311960455654875)]"])
    (simp, simp only: base_11_def base_12_def nth_rules table_rules)

lemma row_12: "first_row_ok (map entry base_12)"
  by (simp only: base_12_def table_rules)

lemma next_12: "linked base_12 base_13"
  by (rule linkedI [where ps = "[(26135278318867212160009877132759729477683821448533088453593545567162306742068,
      26438595769799614534171280426746668914667059326668886443774027154481945892503),
    (42363118222225576852150967470876969773177173716850687553237061623958791951450,
      55954407209457526793690411706780560375786115013801438265594667524299894869181),
    (41685755285441343534555699146164460473739804412644429165592581933281107039532,
      12339900863810792922652965807427786040792475232367501540178739227893090482169),
    (41936275459278513892028662869335319825667417788472248668580578659898212719895,
      14115791234651454395533986752642788355257831724545871947750268436768458849437)]"])
    (simp, simp only: base_12_def base_13_def nth_rules table_rules)

lemma row_13: "first_row_ok (map entry base_13)"
  by (simp only: base_13_def table_rules)

lemma next_13: "linked base_13 base_14"
  by (rule linkedI [where ps = "[(55908560528115313337331192079572976987930751259182231978092407972406010699860,
      47349562114064199049455505554885199492921087886151761769310924232981104345321),
    (24470320021653743288553553922194293610598963554618716086300327973575442987602,
      48629386808616182719844028849663762289686733341344123443681278045224005122266),
    (17657945628621291754587269042775545983098884255332522933504015958020196600278,
      9438494402160282901937930369681759573700187954581341631581855985215670587320),
    (38460449615910280820790371532023959880302718778121194725079464555426341357048,
      33007988241098964107613687859081433524086423507854904238311567619436896863889)]"])
    (simp, simp only: base_13_def base_14_def nth_rules table_rules)

lemma row_14: "first_row_ok (map entry base_14)"
  by (simp only: base_14_def table_rules)

lemma next_14: "linked base_14 base_15"
  by (rule linkedI [where ps = "[(10900974192870607829506680138321804199832223736972419587654320297717013979204,
      29127498398513059995201066728023877036458859343387648328547598024354676306984),
    (54196495570350908130021642504342204676574505042192972847049886452688053817045,
      30960394061703469359134176601206492187446853585948505493804462451446073650241),
    (11019345097139622798046187073698087066922447256226608826017397481896212846698,
      5820588615245511894029881504402697299026606688306343668786589928163656000629),
    (18425506961570116601076841601121607329149390959536277088383869194530120247554,
      24407579601905941680390411050991728340348529633567968510055614570053217688801)]"])
    (simp, simp only: base_14_def base_15_def nth_rules table_rules)

lemma row_15: "first_row_ok (map entry base_15)"
  by (simp only: base_15_def table_rules)

lemma next_15: "linked base_15 base_16"
  by (rule linkedI [where ps = "[(37583486322670922385075650426941623920333460018406542018305976867658902089840,
      27473891086016360242188172993954430383857498731478941302716607143545663554916),
    (55114361871029474583791782900429903947017484378419434410898145812375177598775,
      48881569455427526330309077598344390060411467144275677227882526686965354578365),
    (2386219325892276317613181682198878642484654272120126591129717828453063674239,
      32171283028294928957618712681864902579454458872470737206281973259095949669668),
    (11064828440827513439192054732080206607063733165148357433430908542043450520071,
      42449541200173318588816647462408876714678726888269655963682424126372307544782)]"])
    (simp, simp only: base_15_def base_16_def nth_rules table_rules)

lemma row_16: "first_row_ok (map entry base_16)"
  by (simp only: base_16_def table_rules)

lemma next_16: "linked base_16 base_17"
  by (rule linkedI [where ps = "[(20816729283658675737597874036244755459432213712673199674477249282347378100896,
      2827949606557303530010123966069536093977590432613525199209174913470026768421),
    (36511472298295012127396655300198627608903407811442367844317986604725477306880,
      2049459371736403135779843290437168998981580157757276183787500159891340169366),
    (18247548468777541579077707199359291630115284164425204758606959352497720204546,
      55853818989352991694607642880542386300394405856725876217546564011271044744392),
    (34070137386085787140935864285329930047141558283481057533817158218051891634046,
      3928786710474104009979167246778220749017877503289432662664261553658238913134)]"])
    (simp, simp only: base_16_def base_17_def nth_rules table_rules)

lemma row_17: "first_row_ok (map entry base_17)"
  by (simp only: base_17_def table_rules)

lemma next_17: "linked base_17 base_18"
  by (rule linkedI [where ps = "[(55989946456375606165439889472714594603251474029621175557852958440037431409651,
      4852155834875781035877814565700700976527240076930227074072174229123474226148),
    (15909809889005867367524421217021395611098073719597511194365816539458545952757,
      52519748445570161924676083189383330091158973481611635475076288369743788279268),
    (6059527188866542658016599743332346683163647449751212243298345282584149418412,
      4288220273164369139669691076631629742933809433970265176956193674551524398836),
    (33490582160136352298205960007176785250765553184288324526103394337424832587710,
      48143600437069407810929624971159813590810271814525586759515201515080337562413)]"])
    (simp, simp only: base_17_def base_18_def nth_rules table_rules)

lemma row_18: "first_row_ok (map entry base_18)"
  by (simp only: base_18_def table_rules)

lemma next_18: "linked base_18 base_19"
  by (rule linkedI [where ps = "[(17279665776878985509061503287402832131092299927060323084736802279902406091845,
      3306260197984012910550852117722600455708043411683630074616054469981948222071),
    (1603252189693514200902836888633976284020425251894517618753390580396146059671,
      25411064537158601855213970699620911270833333634014082500972018180278739139406),
    (20600504367505484203057461901161784472066241766941208779371989666659434493518,
      7098305492863900506006884559307921724217379589603282693945235625946394799753),
    (40942007598391606525189171542550556186072591535757963615424431466718506100027,
      4290193919999827367609371556414440590369856465845806411492607867449813086531)]"])
    (simp, simp only: base_18_def base_19_def nth_rules table_rules)

lemma row_19: "first_row_ok (map entry base_19)"
  by (simp only: base_19_def table_rules)

lemma next_19: "linked base_19 base_20"
  by (rule linkedI [where ps = "[(18388968933670730423038532679662466194727041094044865682447630165559128990185,
      31366969531515944374680028337748424705468284538110937420007479319937322716490),
    (21926981049716112996977877809627457639611289691445095337165325461747052687645,
      7001130238901181337406480340068232848747667334478599866866138006533212958216),
    (39928331414003193465574104541805305912561569898010815477573106249439896683471,
      6928194428071063405693926470819083986924596131671323649974629715273334255241),
    (2004007499212568899640847024972257222276518915814652305359330117853481912562,
      13760699813379818001621948699440995358454632119560173289455180029817859405708)]"])
    (simp, simp only: base_19_def base_20_def nth_rules table_rules)

lemma row_20: "first_row_ok (map entry base_20)"
  by (simp only: base_20_def table_rules)

lemma next_20: "linked base_20 base_21"
  by (rule linkedI [where ps = "[(15669390887261996972541097573251699316363194991460993510930253774376039431216,
      6481441604434674251722151301237027149677047898677253351625433079023270820732),
    (2722968881390638976469219772442544614751530397103130960257335824061931079737,
      9417721599045751748513382216692679512054964631246943476749673742477908188722),
    (23427663464890778024067346444622556718943200713457476888478104769170624042391,
      44457564966178680015057142836551689365367193763011300229631294647466358217283),
    (23578284508170805760193573125312691893812639890759519912979700868185590011016,
      31662223357703339344075706230948549309295719547938186608589445522277417090097)]"])
    (simp, simp only: base_20_def base_21_def nth_rules table_rules)

lemma row_21: "first_row_ok (map entry base_21)"
  by (simp only: base_21_def table_rules)

lemma next_21: "linked base_21 base_22"
  by (rule linkedI [where ps = "[(39589652964703051311010156079938073430224213513671413038802504024600042758727,
      33092651885666017551082980031645925108353432371575483520112963503106501512510),
    (54562577767967502916953760097564354441606670697613794243953460922464355435652,
      4621653946844132742844938987227170627273714099982874117251665840039376566638),
    (18238172509766130572838371819374335860088620946317495108545814980343300822932,
      21643524156319915059511342994765532945143539962542425124476409934529155488163),
    (52480799574212018296103641750962407459123884676888167027445524858425752156689,
      14208282404154888024012111114010736524516613021305753100424949648820480726467)]"])
    (simp, simp only: base_21_def base_22_def nth_rules table_rules)

lemma row_22: "first_row_ok (map entry base_22)"
  by (simp only: base_22_def table_rules)

lemma next_22: "linked base_22 base_23"
  by (rule linkedI [where ps = "[(4162636603363898912802506016734676141302414346069497572792082195277430623166,
      29485708941827416286782376064401195135545585102276699998591977987442165037807),
    (584785219525950170676989274521865689357439769128629296953187445640918525891,
      12718425858699363827577874084978253374127524126829559947396777360829723782093),
    (37882208947317627261499830191132446807833795029824373210256954531113040603046,
      13795079075399559508321400535529164627214519095947643547813099448947406064111),
    (13164814998635651238619460631778212018370597159231378721179731891801191967134,
      57733395054077155839536104799605618049007161755081628201792019399522427573739)]"])
    (simp, simp only: base_22_def base_23_def nth_rules table_rules)

lemma row_23: "first_row_ok (map entry base_23)"
  by (simp only: base_23_def table_rules)

lemma next_23: "linked base_23 base_24"
  by (rule linkedI [where ps = "[(14433019317592528827773217842492832521107225826321098069369329761560858171167,
      227672649292312309415764748418086519533207076911048037684098263976604341455),
    (3678591536329768490469544774394264647023667859065529436585204355656801411655,
      7825969676466478768104460439023688335146841082429203154866743267161198034783),
    (29219774217519919237616767847596595986648303461023267385024025762354624769694,
      4956209539947775781733061279772566262893608593857496887743827680501502625231),
    (12701313107394580236461066638023179145754036828323517951659941569561363932896,
      13520382171601208384746513767643911738542836919401653198664014423115357059373)]"])
    (simp, simp only: base_23_def base_24_def nth_rules table_rules)

lemma row_24: "first_row_ok (map entry base_24)"
  by (simp only: base_24_def table_rules)

lemma next_24: "linked base_24 base_25"
  by (rule linkedI [where ps = "[(37082884071409217501735151535403647570992630841419959116788654210139848164120,
      31100210456026919531916348943250374513916212845570508096479695019665124044395),
    (43104885622705402498154505883974980259039242488210938263351972323294601588872,
      20426769793430046937181187186233719697257896322123931651835130211853678797137),
    (16472312606931799614462687861414478365019134565195084351702505064177113490667,
      1365701217766719994936920451083547902972126480076447240913237261518942286471),
    (3620847422797225669537487963319878510813625673143035314029197444558642153340,
      36663129096830406075171095727813040888201913791218274335237952876157861170529)]"])
    (simp, simp only: base_24_def base_25_def nth_rules table_rules)

lemma row_25: "first_row_ok (map entry base_25)"
  by (simp only: base_25_def table_rules)

lemma next_25: "linked base_25 base_26"
  by (rule linkedI [where ps = "[(38783356964219415375645781364262308018092770963392205222937967533997272217041,
      22678533783332769283518066353569282344909020900274167896713555998620046295535),
    (10288109288710099540577935307677531526790485646522926317432048976807234400697,
      4364922251525628581494613500081028063970727019104336939667859836206272383453),
    (15727983632476638182451520826513661402533897723074407862301705423650622255106,
      45877133668321431389195312204756837428802659643331086295868502764495316201185),
    (28562869187466168498640582431584942987797415593409072045358731303432973060869,
      15091173290662772602690633677319909585428287065061869122681204129258476992966)]"])
    (simp, simp only: base_25_def base_26_def nth_rules table_rules)

lemma row_26: "first_row_ok (map entry base_26)"
  by (simp only: base_26_def table_rules)

lemma next_26: "linked base_26 base_27"
  by (rule linkedI [where ps = "[(43594231771136442136094965816583641298161020489686436999243863276263904089785,
      33051610874198922080982482604453403334859782594328968818476959913458527014793),
    (14189163930693848432445340001705335395883947071273862638638669783718072458909,
      30094033088927857442264362537016824592195079176139370639527272730208234435559),
    (32921006601579269615287127502588407560473237926026595130655884862625244837801,
      24424008761609483666573175042797410838386815567707576163479997011583271966974),
    (33962611175564665715001837609414466463402438498159316145003109237055609177953,
      27305339667428645735374322966654452619102130613795864263748104615612890625953)]"])
    (simp, simp only: base_26_def base_27_def nth_rules table_rules)

lemma row_27: "first_row_ok (map entry base_27)"
  by (simp only: base_27_def table_rules)

lemma next_27: "linked base_27 base_28"
  by (rule linkedI [where ps = "[(27832854809531511662862783602714758429526164500954632379799562133232916579964,
      51418622689808890706635443146519623072625554248459772765825419210408463641599),
    (49495772910442849424074451708097707017262194806722126632275873534327354241460,
      4688470781828164278366985277933962825622285795353936395549900233168636985161),
    (12474331366584991714999019701053372545799100062343268005147684527042412626600,
      20746308809766386159238458318721613872967392788396486019368163727586869430964),
    (1354421441581127864437143372844274388062292350084805047329018238299116064940,
      4033167163859822565099887202523422255672122363891288449300509405037201589007)]"])
    (simp, simp only: base_27_def base_28_def nth_rules table_rules)

lemma row_28: "first_row_ok (map entry base_28)"
  by (simp only: base_28_def table_rules)

lemma next_28: "linked base_28 base_29"
  by (rule linkedI [where ps = "[(49831265648554118747685820721973823458577493163060200746569221726630404071316,
      23077157235356914378873484756453138728644366839534587614646314572727004430125),
    (49152655319555372452785886828827469752396599742259064798778741111564452654797,
      52740450865667615695073023517436065028575728038533627196805527444393643652980),
    (37303035324417710806228205694856778879414324305008795273875467397309778274898,
      1258535555772718541888056638049710647818343934237270462674396242496019157742),
    (30758531348217361450337043610517545298754540113453746274790369766109479450015,
      24910881755874907419326692197349751587204977193176943348392000587523842645596)]"])
    (simp, simp only: base_28_def base_29_def nth_rules table_rules)

lemma row_29: "first_row_ok (map entry base_29)"
  by (simp only: base_29_def table_rules)

lemma next_29: "linked base_29 base_30"
  by (rule linkedI [where ps = "[(6430532214216149554950348023358696084316799088601797015209567690648516583223,
      30322201223122403826127455594300333551541257185699563395547082893827709249240),
    (17707678709431441740796312502228947141759712046994646886320995672656167807370,
      42506015023840556909185188466364193940361381177434955063535640630236822343469),
    (42310777656441672165026492471518106159156591743132589613336444801957382778138,
      37486352030118086490759872767898519986857419425356506178016422251200379369888),
    (39306634100331586063981346355324783787820955619114068241464364989442572759172,
      26711796470308455756864362514543153807575698509175159871339700746320331655254)]"])
    (simp, simp only: base_29_def base_30_def nth_rules table_rules)

lemma row_30: "first_row_ok (map entry base_30)"
  by (simp only: base_30_def table_rules)

lemma next_30: "linked base_30 base_31"
  by (rule linkedI [where ps = "[(9925372191369641625717209887142929829113479974540003484809610544838332465070,
      45081291718892972053610960471043634902162773061177354597816898258512878818962),
    (43298818252979884458779503446001170792277737215950639946241576434297071735366,
      32885302492636357337969651944743929671217233735528765023502806038958990179839),
    (40908834010304197468160851031127877424448257579320042728715265499429596528118,
      17230079505965457121244686059484871101072114115972065439100393062802893693556),
    (43327427631895362924044267775937337724168450822941039679875606992270203484662,
      10501226826826265774465717125561499058927078924957550610636003438377880931444)]"])
    (simp, simp only: base_30_def base_31_def nth_rules table_rules)

lemma row_31: "first_row_ok (map entry base_31)"
  by (simp only: base_31_def table_rules)

section \<open>The entries\<close>

lemma base_rows_ok: "list_all (\<lambda>R. first_row_ok (map entry R)) base"
  by (simp only: base_def list.pred_inject simp_thms
    row_0 row_1 row_2 row_3 row_4 row_5 row_6 row_7 row_8 row_9 row_10 row_11 row_12 row_13 row_14 row_15 row_16 row_17 row_18 row_19 row_20 row_21 row_22 row_23 row_24 row_25 row_26 row_27 row_28 row_29 row_30 row_31)

lemma base_linked: "list_all (\<lambda>p. linked (fst p) (snd p)) (zip base (tl base))"
  by (simp only: base_def list.sel zip_Cons_Cons zip.simps(1) list.pred_inject fst_conv snd_conv simp_thms
    next_0 next_1 next_2 next_3 next_4 next_5 next_6 next_7 next_8 next_9 next_10 next_11 next_12 next_13 next_14 next_15 next_16 next_17 next_18 next_19 next_20 next_21 next_22 next_23 next_24 next_25 next_26 next_27 next_28 next_29 next_30)

lemma base_row:
  assumes "i < 32"
  shows "first_row_ok (map entry (base ! i))" "list_all pre_tight (base ! i)" "length (base ! i) = 8"
    "Suc i < 32 \<Longrightarrow> linked (base ! i) (base ! Suc i)"
proof -
  show "first_row_ok (map entry (base ! i))" "list_all pre_tight (base ! i)" "length (base ! i) = 8"
    using assms base_rows_ok base_tight by (simp_all add: list_all_length)
  show "linked (base ! i) (base ! Suc i)" if "Suc i < 32"
    using base_linked that base_tight(1) unfolding list_all_length by (auto simp: nth_tl dest: spec [of _ i])
qed

lemma base_entry_of:
  assumes "i < 32" "j < 8"
  shows "pre_of (base ! i ! j) (smul ((int j + 1) * 256 ^ i) base_point)"
  using assms
proof (induction i arbitrary: j)
  case 0
  have "pre_of (base ! 0 ! 0) base_point" using base_first by (simp add: base_def)
  then show ?case
    using first_row_ok [OF base_row(1,2) _ , of 0 base_point j] base_row(3) [of 0] 0 by simp
next
  case (Suc i)
  note S = base_row [of "Suc i"]
  have "linked (base ! i) (base ! Suc i)" using base_row(4) Suc.prems(1) by simp
  then obtain ps where ps: "length ps = 4" "next_row_ok (entry (base ! i ! 7)) ps (entry (base ! Suc i ! 0))"
    unfolding linked_def by blast
  have t: "pre_tight (base ! Suc i ! 0)" using S(2,3) Suc.prems(1) by (simp add: list_all_length)
  have "pre_of (base ! i ! 7) (smul (8 * 256 ^ i) base_point)" using Suc.IH [of 7] Suc.prems(1) by simp
  from next_row_ok [OF ps(2) t this] have "pre_of (base ! Suc i ! 0) (smul (256 ^ Suc i) base_point)"
    by (simp add: ps(1) smul_mult [symmetric])
  then have "pre_of (base ! Suc i ! j) (smul (int j + 1) (smul (256 ^ Suc i) base_point))"
    using first_row_ok [OF S(1,2)] S(3) Suc.prems by simp
  then show ?case by (simp only: smul_mult)
qed

end
