(* ===== verification/Ge_Mult.thy ===== *)
theory Ge_Mult
  imports Ge_Base
begin

text \<open>
  The two scalar multiplications on points: what they compute are the multiples their digits denote.
\<close>

section \<open>A multiple of the base point\<close>

lemma coords_uminus: "coords (- P) = (- fst (coords P), snd (coords P))"
  by (simp add: uminus_point.rep_eq edw_neg_def split: prod.split)

lemma pre_neg_of:
  assumes "pre_of t P"
  shows "pre_of (pre_neg t) (- P)"
proof -
  define x y where "x = fst (affine P)" and "y = snd (affine P)"
  have t: "frep 1 (yPlusX t) (y + x)" "frep 1 (yMinusX t) (y - x)" "frep 1 (xy2d t) (2 * ed_d * x * y)"
    using assms by (simp_all add: pre_of_def pre_rep_def x_def y_def split: prod.splits)
  have x: "eqp (fst (affine (- P))) (- x)" and y: "snd (affine (- P)) = y"
    by (simp_all add: affine_def coords_uminus x_def y_def gf_eq_iff [symmetric])
  have n: "frep 1 (FeNeg (xy2d t)) (- (2 * ed_d * x * y))" by (rule frep_neg [OF t(3)]) simp
  have "eqp (y - x) (y + fst (affine (- P)))" "eqp (y + x) (y - fst (affine (- P)))"
    using eqp_add [OF eqp_refl [of y] eqp_sym [OF x]] eqp_diff [OF eqp_refl [of y] eqp_sym [OF x]] by simp_all
  moreover have "eqp (- (2 * ed_d * x * y)) (2 * ed_d * fst (affine (- P)) * y)"
    using eqp_mult [OF eqp_mult [OF eqp_refl [of "2 * ed_d"] eqp_sym [OF x]] eqp_refl [of y]] by simp
  ultimately show ?thesis
    using frep_eqp [OF t(2)] frep_eqp [OF t(1)] frep_eqp [OF n] y
    unfolding pre_of_def pre_rep_def case_prod_beta pre_neg_def PreComputedGroupElement.make_def by simp
qed

lemma selectPoint_of:
  assumes "pos < 32" "- 8 \<le> b" "b \<le> 8"
  shows "pre_of (selectPoint pos b) (smul (b * 256 ^ pos) base_point)"
proof -
  consider "b = 0" | "0 < b" | "b < 0" by linarith
  then show ?thesis
  proof cases
    case 1 then show ?thesis unfolding selectPoint_eq [OF assms] using pre_Zero_of by simp
  next
    case 2
    then have "nat b - 1 < 8" "int (nat b - 1) + 1 = b" using assms by simp_all
    then show ?thesis using base_entry_of [OF assms(1), of "nat b - 1"] 2 by (simp add: selectPoint_eq [OF assms])
  next
    case 3
    then have j: "nat (- b) - 1 < 8" "int (nat (- b) - 1) + 1 = - b" using assms by simp_all
    have "pre_of (pre_neg (base ! pos ! (nat (- b) - 1))) (- smul (- b * 256 ^ pos) base_point)"
      using base_entry_of [OF assms(1) j(1)] unfolding j(2) by (rule pre_neg_of)
    then show ?thesis using 3 by (simp add: selectPoint_eq [OF assms] smul_minus)
  qed
qed

definition digit_sum :: "int list \<Rightarrow> nat list \<Rightarrow> int" where
  "digit_sum e is = (\<Sum>i\<leftarrow>is. e ! i * 256 ^ (i div 2))"

lemma add_digits_of:
  assumes "\<forall>i<64. - 8 \<le> e ! i \<and> e ! i \<le> 8" "\<forall>i\<in>set is. i < 64" "ext_of h P"
  shows "ext_of (fold (add_digit e) is h) (P + smul (digit_sum e is) base_point)"
  using assms(2,3)
proof (induction "is" arbitrary: h P)
  case (Cons i "is")
  have "pre_of (selectPoint (i div 2) (e ! i)) (smul (e ! i * 256 ^ (i div 2)) base_point)"
    using Cons.prems(1) assms(1) by (intro selectPoint_of) auto
  then have "ext_of (add_digit e i h) (P + smul (e ! i * 256 ^ (i div 2)) base_point)"
    unfolding add_digit_def using Cons.prems(2) by (intro ext_of_convert geMixedAdd_of)
  then have "ext_of (fold (add_digit e) is (add_digit e i h))
      (P + smul (e ! i * 256 ^ (i div 2)) base_point + smul (digit_sum e is) base_point)"
    using Cons.prems(1) by (intro Cons.IH) simp_all
  then show ?case by (simp add: digit_sum_def smul_add add.assoc)
qed (simp add: digit_sum_def)

text \<open>The odd digits and the even ones together are the number.\<close>

lemma digits_val_pairs:
  "length e = 2 * n \<Longrightarrow> digits_val 16 e
     = 16 * digit_sum e (map (\<lambda>i. 2 * i + 1) [0..<n]) + digit_sum e (map (\<lambda>i. 2 * i) [0..<n])"
proof (induction n arbitrary: e)
  case (Suc n)
  obtain a b r where e: "e = a # b # r" "length r = 2 * n"
    using Suc.prems by (auto simp: length_Suc_conv)
  have s: "[0..<Suc n] = 0 # map Suc [0..<n]" by (simp add: upt_conv_Cons map_Suc_upt del: upt_Suc)
  have shift: "digit_sum e (map (\<lambda>i. 2 * i + k) (map Suc [0..<n])) = 256 * digit_sum r (map (\<lambda>i. 2 * i + k) [0..<n])"
    if "k < 2" for k
    using that unfolding digit_sum_def map_map sum_list_const_mult [symmetric]
    by (intro arg_cong [where f = sum_list] map_cong) (simp_all add: e)
  have "digits_val 16 e = a + 16 * b + 256 * digits_val 16 r" by (simp add: e)
  also have "\<dots> = 16 * (b + 256 * digit_sum r (map (\<lambda>i. 2 * i + 1) [0..<n])) + (a + 256 * digit_sum r (map (\<lambda>i. 2 * i) [0..<n]))"
    using Suc.IH [OF e(2)] by simp
  also have "b + 256 * digit_sum r (map (\<lambda>i. 2 * i + 1) [0..<n]) = digit_sum e (map (\<lambda>i. 2 * i + 1) [0..<Suc n])"
    unfolding s using shift [of 1] by (simp add: digit_sum_def e)
  also have "a + 256 * digit_sum r (map (\<lambda>i. 2 * i) [0..<n]) = digit_sum e (map (\<lambda>i. 2 * i) [0..<Suc n])"
    unfolding s using shift [of 0] by (simp add: digit_sum_def e)
  finally show ?case .
qed (simp add: digit_sum_def)

lemma GeScalarMultBase_of:
  assumes "length a = 32" "uint (a ! 31) \<le> 127"
  shows "ext_of (GeScalarMultBase a) (smul (le_val a) base_point)"
proof -
  note d = scalar_digits [OF assms]
  define e where "e = signed_digits 0 (nibbles a)"
  have e: "\<forall>i<64. - 8 \<le> e ! i \<and> e ! i \<le> 8" using d(2,3) unfolding e_def by (metis nth_mem)
  define odds where "odds = digit_sum e (map (\<lambda>i. 2 * i + 1) [0..<32])"
  define evens where "evens = digit_sum e (map (\<lambda>i. 2 * i) [0..<32])"
  define h where "h = fold (add_digit e) (map (\<lambda>i. 2 * i + 1) [0..<32]) ext_Zero"
  have h: "ext_of h (smul odds base_point)"
    using add_digits_of [OF e _ ext_Zero_of, of "map (\<lambda>i. 2 * i + 1) [0..<32]"] by (auto simp: h_def odds_def)
  define s1 where "s1 = com_ToProjective (ext_Double h)"
  define s2 where "s2 = com_ToProjective (proj_Double s1)"
  define s3 where "s3 = com_ToProjective (proj_Double s2)"
  have "proj_of s1 (smul (2 * odds) base_point)" unfolding s1_def mult_2 smul_add by (intro ext_of_convert ext_Double_of h)
  then have "proj_of s2 (smul (2 * (2 * odds)) base_point)" unfolding s2_def mult_2 smul_add by (intro ext_of_convert proj_Double_of)
  then have "proj_of s3 (smul (2 * (2 * (2 * odds))) base_point)" unfolding s3_def mult_2 smul_add by (intro ext_of_convert proj_Double_of)
  then have "ext_of (com_ToExtended (proj_Double s3)) (smul (2 * (2 * (2 * (2 * odds)))) base_point)"
    unfolding mult_2 smul_add by (intro ext_of_convert proj_Double_of)
  then have "ext_of (fold (add_digit e) (map (\<lambda>i. 2 * i) [0..<32]) (com_ToExtended (proj_Double s3)))
      (smul (2 * (2 * (2 * (2 * odds)))) base_point + smul evens base_point)"
    unfolding evens_def by (intro add_digits_of [OF e]) auto
  moreover have "2 * (2 * (2 * (2 * odds))) + evens = le_val a"
    using digits_val_pairs [of e 32] d(1,2) by (simp add: e_def odds_def evens_def)
  ultimately show ?thesis
    unfolding GeScalarMultBase_def Let_def e_def [symmetric] h_def [symmetric] s1_def [symmetric] s2_def [symmetric] s3_def [symmetric]
    by (simp add: smul_add [symmetric])
qed

section \<open>The sum of two multiples\<close>

text \<open>The table \<open>bi\<close>: from the base point on, each entry is the one before plus twice the base point.\<close>

fun bi_row_ok :: "entry \<Rightarrow> entry list \<Rightarrow> bool" where
  "bi_row_ok e [] \<longleftrightarrow> False"
| "bi_row_ok (u2, v2, w2, x2) ((u, v, w, x) # es) \<longleftrightarrow> row_ok u2 v2 (half_product u2 v2 x2) u v w es"

lemma nth_one: "(x1 # x2 # xs) ! 1 = x2" by simp

lemma bi_ok: "bi_row_ok (entry (base_0 ! 1)) (map entry bi)"
  by (simp only: base_0_def bi_def nth_one bi_row_ok.simps table_rules)

lemma bi_first: "bi ! 0 = base_0 ! 0"
  by (simp add: bi_def base_0_def)

lemma bi_entry_of:
  assumes "k < 8"
  shows "pre_of (bi ! k) (smul (2 * int k + 1) base_point)"
proof (cases k)
  case 0
  then show ?thesis using base_first by (simp add: bi_first)
next
  case (Suc j)
  obtain T Ts where bi: "bi = T # Ts" using bi_tight(1) by (cases bi) auto
  obtain u2 v2 w2 x2 where e2: "entry (base_0 ! 1) = (u2, v2, w2, x2)" by (metis surj_pair)
  obtain u v w x where e: "entry T = (u, v, w, x)" by (metis surj_pair)
  have two: "pre_of (base_0 ! 1) (smul 2 base_point)" using base_entry_of [of 0 1] by (simp add: base_def)
  then have P: "is_u (smul 2 base_point) u2" "is_v (smul 2 base_point) v2" and T2: "pre_tight (base_0 ! 1)"
    using e2 by (simp_all add: pre_of_eqs entry_def)
  have c: "2 * hgf (half_product u2 v2 x2) = fst (coords (smul 2 base_point)) * snd (coords (smul 2 base_point))"
    using entry_x [OF T2] e2 by (intro half_product P) (simp add: entry_def)
  have Q: "is_u base_point u" "is_v base_point v" "is_w base_point w"
    using base_first bi_first e by (simp_all add: bi pre_of_eqs entry_def)
  have ok: "row_ok u2 v2 (half_product u2 v2 x2) u v w (map entry Ts)" "list_all pre_tight Ts" "j < length Ts"
    using bi_ok bi_tight assms Suc e e2 by (simp_all add: bi)
  have "pre_of (Ts ! j) (base_point + smul (int j + 1) (smul 2 base_point))"
    by (rule row_ok [OF ok(1,2) P c Q ok(3)])
  moreover have "base_point + smul (int j + 1) (smul 2 base_point) = smul (2 * int k + 1) base_point"
    using smul_add [of 1 "(int j + 1) * 2" base_point] Suc by (simp add: smul_mult [symmetric] algebra_simps)
  ultimately show ?thesis by (simp add: bi Suc)
qed

lemma odd_multiples_of:
  assumes "ext_of A2 P" "cached_of Ai Q" "k \<le> n"
  shows "cached_of (odd_multiples n A2 Ai ! k) (Q + smul (int k) P)"
  using assms(2,3)
proof (induction n arbitrary: Ai Q k)
  case (Suc n)
  show ?case
  proof (cases k)
    case (Suc j)
    have "cached_of (ext_ToCached (com_ToExtended (geAdd A2 Ai))) (P + Q)"
      by (intro ext_of_convert geAdd_of assms(1) Suc.prems(1))
    then show ?thesis using Suc.IH [of _ "P + Q" j] Suc.prems(2) Suc by (simp add: smul_add ac_simps)
  qed (use Suc.prems in simp)
qed simp

definition odd_table :: "CachedGroupElement list \<Rightarrow> point \<Rightarrow> bool" where
  "odd_table Ai A \<longleftrightarrow> (\<forall>k<8. cached_of (Ai ! k) (smul (2 * int k + 1) A))"

lemma odd_multiples_table:
  assumes "ext_of E A"
  shows "odd_table (odd_multiples 7 (com_ToExtended (ext_Double E)) (ext_ToCached E)) A"
proof -
  have "ext_of (com_ToExtended (ext_Double E)) (smul 2 A)" "cached_of (ext_ToCached E) A"
    unfolding smul_2 by (intro ext_of_convert ext_Double_of assms)+
  note m = odd_multiples_of [OF this]
  have "A + smul (int k) (smul 2 A) = smul (2 * int k + 1) A" for k
    using smul_add [of 1 "int k * 2" A] by (simp add: smul_mult [symmetric] algebra_simps)
  then show ?thesis using m [of _ 7] unfolding odd_table_def by simp
qed

definition digit_ok :: "int \<Rightarrow> bool" where
  "digit_ok d \<longleftrightarrow> d = 0 \<or> odd d \<and> - 15 \<le> d \<and> d \<le> 15"

lemma odd_digit:
  assumes "digit_ok d"
  shows "0 < d \<Longrightarrow> nat (d div 2) < 8 \<and> 2 * int (nat (d div 2)) + 1 = d"
    "d < 0 \<Longrightarrow> nat (- d div 2) < 8 \<and> 2 * int (nat (- d div 2)) + 1 = - d"
proof -
  obtain k where k: "d = 0 \<or> d = 2 * k + 1" using assms by (auto simp: digit_ok_def elim: oddE)
  show "0 < d \<Longrightarrow> nat (d div 2) < 8 \<and> 2 * int (nat (d div 2)) + 1 = d"
    using k assms by (auto simp: digit_ok_def)
  have "- (2 * k + 1) div 2 = - k - 1" by simp
  then show "d < 0 \<Longrightarrow> nat (- d div 2) < 8 \<and> 2 * int (nat (- d div 2)) + 1 = - d"
    using k assms by (auto simp: digit_ok_def)
qed

lemma double_scalar_step_of:
  assumes T: "odd_table Ai A" and d: "digit_ok x" "digit_ok y" and r: "proj_of r P"
  shows "proj_of (double_scalar_step Ai (x, y) r) (P + P + smul x A + smul y base_point)"
proof -
  define t where "t = (if x > 0 then geAdd (com_ToExtended (proj_Double r)) (Ai ! nat (x div 2))
      else if x < 0 then geSub (com_ToExtended (proj_Double r)) (Ai ! nat (- x div 2)) else proj_Double r)"
  have D: "com_of (proj_Double r) (P + P)" by (rule proj_Double_of [OF r])
  then have E: "ext_of (com_ToExtended (proj_Double r)) (P + P)" by (rule ext_of_convert)
  note o = odd_digit [OF d(1)] odd_digit [OF d(2)]
  have C: "cached_of (Ai ! k) (smul (2 * int k + 1) A)" if "k < 8" for k
    using T that by (simp add: odd_table_def)
  consider "0 < x" | "x < 0" | "x = 0" by linarith
  then have t: "com_of t (P + P + smul x A)"
  proof cases
    case 1 then show ?thesis using geAdd_of [OF E C [of "nat (x div 2)"]] o(1) by (simp add: t_def)
  next
    case 2 then show ?thesis using geSub_of [OF E C [of "nat (- x div 2)"]] o(2) by (simp add: t_def smul_minus)
  next
    case 3 then show ?thesis using D by (simp add: t_def)
  qed
  note E = ext_of_convert(1) [OF t]
  have B: "pre_of (bi ! k) (smul (2 * int k + 1) base_point)" if "k < 8" for k using bi_entry_of that .
  have step: "double_scalar_step Ai (x, y) r = com_ToProjective
      (if y > 0 then geMixedAdd (com_ToExtended t) (bi ! nat (y div 2))
       else if y < 0 then geMixedSub (com_ToExtended t) (bi ! nat (- y div 2)) else t)"
    by (simp add: double_scalar_step_def t_def Let_def)
  consider "0 < y" | "y < 0" | "y = 0" by linarith
  then show ?thesis
  proof cases
    case 1 then show ?thesis using geMixedAdd_of [OF E B [of "nat (y div 2)"]] o(3) unfolding step by (simp add: ext_of_convert)
  next
    case 2 then show ?thesis using geMixedSub_of [OF E B [of "nat (- y div 2)"]] o(4) unfolding step by (simp add: ext_of_convert smul_minus)
  next
    case 3 then show ?thesis using t unfolding step by (simp add: ext_of_convert)
  qed
qed

text \<open>Horner's rule from the most significant digit, whose leading zeros may be dropped.\<close>

definition horner :: "int list \<Rightarrow> int \<Rightarrow> int" where "horner ds = fold (\<lambda>x a. 2 * a + x) ds"

lemma horner_digits: "horner ds a = a * 2 ^ length ds + digits_val 2 (rev ds)"
  unfolding horner_def by (induction ds arbitrary: a) (simp_all add: digits_val_append algebra_simps)

lemma double_scalar_fold:
  assumes "odd_table Ai A" "\<forall>(x, y)\<in>set ds. digit_ok x \<and> digit_ok y" "proj_of r (smul a A + smul b base_point)"
  shows "proj_of (fold (double_scalar_step Ai) ds r) (smul (horner (map fst ds) a) A + smul (horner (map snd ds) b) base_point)"
  using assms(2,3)
proof (induction ds arbitrary: r a b)
  case (Cons d ds)
  obtain x y where d: "d = (x, y)" by (cases d)
  have "proj_of (double_scalar_step Ai (x, y) r)
      (smul a A + smul b base_point + (smul a A + smul b base_point) + smul x A + smul y base_point)"
    using Cons.prems d by (intro double_scalar_step_of [OF assms(1)]) auto
  also have "smul a A + smul b base_point + (smul a A + smul b base_point) + smul x A + smul y base_point
      = smul (2 * a + x) A + smul (2 * b + y) base_point"
    unfolding mult_2 smul_add by (simp only: ac_simps)
  finally have "proj_of (fold (double_scalar_step Ai) ds (double_scalar_step Ai (x, y) r))
      (smul (horner (map fst ds) (2 * a + x)) A + smul (horner (map snd ds) (2 * b + y)) base_point)"
    using Cons.prems(1) by (intro Cons.IH) simp_all
  then show ?case by (simp add: d horner_def)
qed (simp add: horner_def)

lemma horner_dropWhile:
  "horner (map fst (dropWhile (\<lambda>(x, y). x = 0 \<and> y = 0) ds)) 0 = horner (map fst ds) 0"
  "horner (map snd (dropWhile (\<lambda>(x, y). x = 0 \<and> y = 0) ds)) 0 = horner (map snd ds) 0"
  by (induction ds) (auto simp: horner_def)

lemma slide_ok: "length a = 32 \<Longrightarrow> length (slide a) = 256 \<and> (\<forall>d\<in>set (slide a). digit_ok d)"
  using slide_fold [OF slide_pre_scalar, of a 256] by (auto simp: slide_def slide_pre_def settled_def digit_ok_def in_set_conv_nth)

lemma GeDoubleScalarMultVartime_of:
  assumes "length a = 32" "length b = 32" "ext_of E A"
  shows "proj_of (GeDoubleScalarMultVartime a E b)
    (smul (digits_val 2 (slide a)) A + smul (digits_val 2 (slide b)) base_point)"
proof -
  define ds where "ds = rev (zip (slide a) (slide b))"
  define top where "top = dropWhile (\<lambda>(x, y). x = 0 \<and> y = 0) ds"
  note s = slide_ok [OF assms(1)] slide_ok [OF assms(2)]
  have z: "digit_ok x \<and> digit_ok y" if "(x, y) \<in> set (zip (slide a) (slide b))" for x y
    using set_zip_leftD [OF that] set_zip_rightD [OF that] s by blast
  have "\<forall>(x, y)\<in>set top. digit_ok x \<and> digit_ok y"
    unfolding top_def ds_def using z by (auto dest!: set_dropWhileD)
  from double_scalar_fold [OF odd_multiples_table [OF assms(3)] this, of proj_Zero 0 0]
  have "proj_of (GeDoubleScalarMultVartime a E b) (smul (horner (map fst ds) 0) A + smul (horner (map snd ds) 0) base_point)"
    using proj_Zero_of horner_dropWhile [of ds] unfolding GeDoubleScalarMultVartime_def Let_def top_def ds_def by simp
  then show ?thesis using s by (simp add: horner_digits ds_def rev_map)
qed

end
