(* ===== verification/Ge_Slide.thy ===== *)
theory Ge_Slide
  imports Ge_Recode
begin

text \<open>
  The sliding window of a number below \<open>2^255\<close> is the number itself: no carry leaves the array, since
  a digit is only lowered when it was positive, and after a negative digit four zeros follow.
\<close>

lemma digits_val_nonneg: "\<forall>x\<in>set r. 0 \<le> x \<Longrightarrow> 0 \<le> digits_val 2 r"
  by (induction r) auto

lemma digits_val_ones: "\<forall>x\<in>set r. x = 1 \<Longrightarrow> digits_val 2 r = 2 ^ length r - 1"
  by (induction r) auto

lemma slide_carry_exact:
  "\<forall>x\<in>set r. x = 0 \<or> x = 1 \<Longrightarrow> 0 \<in> set r \<Longrightarrow> digits_val 2 (slide_carry r) = digits_val 2 r + 1"
  by (induction r) auto

lemma bits_drop:
  assumes "bits_from j r" "j \<le> m"
  shows "\<forall>x\<in>set (drop m r). x = 0 \<or> x = 1"
proof
  fix x assume "x \<in> set (drop m r)"
  then obtain k where "k < length r - m" "x = r ! (m + k)" by (auto simp: in_set_conv_nth)
  then show "x = 0 \<or> x = 1" using assms unfolding bits_from_def by simp
qed

text \<open>The state within one turn: \<open>lo\<close> are the digits below \<open>i\<close>, the positions up to \<open>i + b\<close> are cleared.\<close>

definition slide_exact :: "nat \<Rightarrow> nat \<Rightarrow> int \<Rightarrow> int list \<Rightarrow> int list \<Rightarrow> bool" where
  "slide_exact i b v lo r \<longleftrightarrow> length r = 256 \<and> take i r = lo \<and> bits_from (i + 1) r \<and> digits_val 2 r = v
     \<and> odd (r ! i) \<and> - 15 \<le> r ! i \<and> r ! i \<le> 15 \<and> (\<forall>k<i + b. i < k \<longrightarrow> k < 256 \<longrightarrow> r ! k = 0)
     \<and> (1 \<le> r ! i \<or> 5 \<le> b)"

lemma carry_room:
  assumes e: "slide_exact i b v lo r" and b: "1 \<le> b" "i + b < 256" and v: "v < 2 ^ 255" "- (2 ^ i) \<le> digits_val 2 lo" and pos: "1 \<le> r ! i"
  shows "0 \<in> set (drop (i + b) r)"
proof (rule ccontr)
  define m where "m = i + b"
  assume "0 \<notin> set (drop (i + b) r)"
  moreover have r: "length r = 256" "take i r = lo" "bits_from (i + 1) r" "digits_val 2 r = v" "i < m" "m < 256"
    using e b by (simp_all add: slide_exact_def m_def)
  moreover have "\<forall>x\<in>set (drop m r). x = 0 \<or> x = 1" by (rule bits_drop [OF r(3)]) (use r(5) in simp)
  ultimately have "\<forall>x\<in>set (drop m r). x = 1" by (auto simp: m_def)
  then have hi: "digits_val 2 (drop m r) = 2 ^ (256 - m) - 1" using digits_val_ones [of "drop m r"] r(1) by simp
  define mid where "mid = drop (Suc i) (take m r)"
  have "set mid \<subseteq> set (drop (i + 1) r)"
    unfolding mid_def drop_take by (simp add: set_take_subset)
  then have "\<forall>x\<in>set mid. x = 0 \<or> x = 1" using bits_drop [OF r(3) order_refl] by blast
  then have "0 \<le> digits_val 2 mid" by (intro digits_val_nonneg) auto
  moreover have "take m r = lo @ r ! i # mid"
    using id_take_nth_drop [of i "take m r"] r(1,2,5,6) by (simp add: mid_def min_def)
  moreover have "length lo = i" using r(1,2,5,6) by auto
  ultimately have "digits_val 2 lo + 2 ^ i * r ! i \<le> digits_val 2 (take m r)" by (simp add: digits_val_append distrib_left)
  moreover have "2 ^ i * 1 \<le> 2 ^ i * r ! i" using pos by (intro mult_left_mono) simp_all
  ultimately have "0 \<le> digits_val 2 (take m r)" using v(2) by linarith
  moreover have "v = digits_val 2 (take m r) + 2 ^ m * digits_val 2 (drop m r)"
    using digits_val_append [of 2 "take m r" "drop m r"] r by (simp add: min_def)
  ultimately have "2 ^ m * (2 ^ (256 - m) - 1) \<le> v" unfolding hi by simp
  moreover have "(2 :: int) ^ m * 2 ^ (256 - m) = 2 ^ 256" using r(6) by (simp flip: power_add)
  moreover have "(2 :: int) ^ m \<le> 2 ^ 255" using r(6) by (intro power_increasing) simp_all
  ultimately show False using v(1) by (simp add: right_diff_distrib)
qed

lemma slide_exact_zero:
  assumes "slide_exact i b v lo r" "i + b < 256" "r ! (i + b) = 0"
  shows "slide_exact i (b + 1) v lo r"
  using assms unfolding slide_exact_def by (auto simp: less_Suc_eq)

lemma slide_exact_add:
  assumes e: "slide_exact i b v lo r" and b: "1 \<le> b" "b \<le> 6" "i + b < 256" and one: "r ! (i + b) = 1" and le: "r ! i + 2 ^ b \<le> 15"
  shows "slide_exact i (b + 1) v lo (r[i := r ! i + 2 ^ b, i + b := 0])"
proof -
  have r: "length r = 256" "- 15 \<le> r ! i" "r ! i \<le> 15" "odd (r ! i)" "i < 256" using e b(3) by (simp_all add: slide_exact_def)
  have "digits_val 2 (r[i := r ! i + 2 ^ b, i + b := 0]) = digits_val 2 r"
    using r(1,5) b one by (simp add: digits_val_update power_add)
  moreover have "even ((2 :: int) ^ b)" using b by simp
  moreover have p: "(2 :: int) \<le> 2 ^ b" using b by (cases b) simp_all
  moreover have "1 \<le> r ! i + 2 ^ b \<or> 5 \<le> b + 1" using e p unfolding slide_exact_def by linarith
  ultimately show ?thesis
    using e le r b unfolding slide_exact_def bits_from_def by (auto simp: nth_list_update less_Suc_eq)
qed

lemma slide_exact_sub:
  assumes e: "slide_exact i b v lo r" and b: "1 \<le> b" "b \<le> 6" "i + b < 256" and v: "v < 2 ^ 255" "- (2 ^ i) \<le> digits_val 2 lo"
    and one: "r ! (i + b) = 1" and gt: "\<not> r ! i + 2 ^ b \<le> 15" and ge: "- 15 \<le> r ! i - 2 ^ b"
  defines "r' \<equiv> r[i := r ! i - 2 ^ b]"
  shows "slide_exact i (b + 1) v lo (take (i + b) r' @ slide_carry (drop (i + b) r'))"
proof -
  define m where "m = i + b"
  have r: "length r = 256" "r ! i \<le> 15" "odd (r ! i)" "i < m" "m < 256" "bits_from (i + 1) r" "take i r = lo" "digits_val 2 r = v"
    using e b by (simp_all add: slide_exact_def m_def)
  have small: "b \<le> 4"
  proof (rule ccontr)
    assume "\<not> b \<le> 4"
    then have "(2 :: int) ^ 5 \<le> 2 ^ b" by (intro power_increasing) simp_all
    then show False using ge r(2) by simp
  qed
  have pos: "1 \<le> r ! i"
  proof -
    have "(2 :: int) ^ b \<le> 2 ^ 4" using small by (intro power_increasing) simp_all
    then have "0 \<le> r ! i" using gt by simp
    then show ?thesis using r(3) by (cases "r ! i = 0") simp_all
  qed
  define hi where "hi = drop m r"
  have hi: "drop m r' = hi" "length hi = 256 - m" using r by (simp_all add: r'_def hi_def)
  have bits: "\<forall>x\<in>set hi. x = 0 \<or> x = 1" unfolding hi_def by (rule bits_drop [OF r(6)]) (use r(4) in simp)
  obtain hs where hs: "hi = 1 # hs" using one r(1,5) unfolding hi_def m_def by (metis Cons_nth_drop_Suc)
  note c = slide_carry_spec(1,2) [OF bits]
  have z: "0 \<in> set hi" unfolding hi_def m_def by (rule carry_room [OF e b(1,3) v pos])
  have "digits_val 2 (take m r' @ slide_carry hi) = digits_val 2 (take m r' @ hi) + 2 ^ m"
    unfolding digits_val_append slide_carry_exact [OF bits z] using r by (simp add: distrib_left r'_def min_def)
  also have "take m r' @ hi = r'" unfolding hi(1) [symmetric] by simp
  also have "digits_val 2 r' = v - 2 ^ m"
    unfolding r'_def using r by (simp add: digits_val_update m_def power_add)
  finally have val: "digits_val 2 (take m r' @ slide_carry hi) = v" by simp
  have nth: "(take m r' @ slide_carry hi) ! k = (if k < m then r' ! k else slide_carry hi ! (k - m))" for k
    using r by (simp add: nth_append r'_def)
  have sc: "slide_carry hi ! (k - m) = 0 \<or> slide_carry hi ! (k - m) = 1" if "m \<le> k" "k < 256" for k
    using c that hi(2) by (simp add: all_set_conv_all_nth)
  have zero: "(take m r' @ slide_carry hi) ! k = 0" if "i < k" "k < i + (b + 1)" "k < 256" for k
  proof (cases "k = m")
    case True
    then show ?thesis unfolding nth by (simp add: hs)
  next
    case False
    then have "k < m" "k \<noteq> i" using that by (simp_all add: m_def)
    moreover have "r ! k = 0" using e that False by (simp add: slide_exact_def m_def)
    ultimately show ?thesis using nth [of k] by (simp add: r'_def)
  qed
  have "even ((2 :: int) ^ b)" using b by simp
  then have od: "odd (r ! i - 2 ^ b)" using r(3) by simp
  have up: "r ! i - 2 ^ b \<le> 15" using r(2) zero_less_power [of "2 :: int" b] by linarith
  have low: "1 \<le> r ! i - 2 ^ b \<or> 5 \<le> b + 1"
  proof (cases "b = 4")
    case False
    then have "(2 :: int) ^ b \<le> 2 ^ 3" using small by (intro power_increasing) simp_all
    then have "0 \<le> r ! i - 2 ^ b" using gt by simp
    then show ?thesis using od by (cases "r ! i - 2 ^ b = 0") simp_all
  qed simp
  have at: "(take m r' @ slide_carry hi) ! i = r ! i - 2 ^ b" unfolding nth using r by (simp add: r'_def)
  have bf: "bits_from (i + 1) (take m r' @ slide_carry hi)"
    using r c(1) hi(2) sc unfolding bits_from_def nth by (auto simp: r'_def)
  have tk: "take i (take m r' @ slide_carry hi) = lo" using r by (simp add: r'_def min_def)
  have "slide_exact i (b + 1) v lo (take m r' @ slide_carry hi)"
    unfolding slide_exact_def at using val bf tk od ge up low zero r(1,5) c(1) hi(2) by (simp add: r'_def)
  then show ?thesis unfolding hi(1) [symmetric] m_def .
qed

lemma slide_exact_bits:
  assumes "slide_exact i b v lo r" "1 \<le> b" "b + n \<le> 7" "v < 2 ^ 255" "- (2 ^ i) \<le> digits_val 2 lo"
  shows "\<exists>b'. slide_exact i b' v lo (slide_bits n b r i)"
  using assms
proof (induction n b r i rule: slide_bits.induct)
  case (2 n b r i)
  note e = "2.prems"(1) and v = "2.prems"(4,5)
  show ?case
  proof (cases "i + b < 256 \<and> r ! (i + b) \<noteq> 0")
    case True
    then have ib: "i + b < 256" by simp
    have "bits_from (i + 1) r" "length r = 256" using e by (simp_all add: slide_exact_def)
    then have one: "r ! (i + b) = 1"
      using True "2.prems"(2) unfolding bits_from_def by (metis add_left_mono)
    have b: "1 \<le> b" "b \<le> 6" using "2.prems" by simp_all
    have d: "- 15 \<le> r ! i" "r ! i \<le> 15" using e by (simp_all add: slide_exact_def)
    note dd = i8_digit [OF d b]
    note IH = "2.IH"(2,3) [OF _ _ refl, unfolded one dd(1-3)]
    consider "r ! i + 2 ^ b \<le> 15" | "\<not> r ! i + 2 ^ b \<le> 15" "r ! i - 2 ^ b \<ge> - 15"
      | "\<not> r ! i + 2 ^ b \<le> 15" "\<not> r ! i - 2 ^ b \<ge> - 15" by blast
    then show ?thesis
    proof cases
      case 1
      have "\<exists>b'. slide_exact i b' v lo (slide_bits n (b + 1) (r[i := r ! i + 2 ^ b, i + b := 0]) i)"
        using IH(1) ib one 1 slide_exact_add [OF e b ib one 1] "2.prems" by simp
      then show ?thesis using ib one 1 by (simp add: Let_def dd)
    next
      case 2
      have "\<exists>b'. slide_exact i b' v lo (slide_bits n (b + 1)
          (take (i + b) (r[i := r ! i - 2 ^ b]) @ slide_carry (drop (i + b) (r[i := r ! i - 2 ^ b]))) i)"
        using IH(2) ib one 2 slide_exact_sub [OF e b ib v one 2] "2.prems" by simp
      then show ?thesis using ib one 2 by (simp add: Let_def dd)
    next
      case 3
      then show ?thesis using ib one e by (auto simp add: Let_def dd)
    qed
  next
    case False
    then show ?thesis
      using "2.prems" "2.IH"(1) slide_exact_zero [OF e] by (cases "i + b < 256") auto
  qed
qed auto

text \<open>Between two turns: from some position \<open>z\<close> on there may be digits again, and what is settled is at least \<open>- 2 ^ z\<close>.\<close>

definition slide_whole :: "nat \<Rightarrow> int \<Rightarrow> int list \<Rightarrow> bool" where
  "slide_whole i v r \<longleftrightarrow> length r = 256 \<and> bits_from i r \<and> digits_val 2 r = v
     \<and> (\<exists>z. (\<forall>k<z. i \<le> k \<longrightarrow> k < 256 \<longrightarrow> r ! k = 0) \<and> - (2 ^ z) \<le> digits_val 2 (take i r))"

lemma slide_whole_step:
  assumes w: "slide_whole i v r" "i < 256" and v: "v < 2 ^ 255"
  shows "slide_whole (Suc i) v (slide_step i r)"
proof -
  obtain z where r: "length r = 256" "bits_from i r" "digits_val 2 r = v" "\<forall>k<z. i \<le> k \<longrightarrow> k < 256 \<longrightarrow> r ! k = 0"
    "- (2 ^ z) \<le> digits_val 2 (take i r)" using w(1) by (auto simp: slide_whole_def)
  have bit: "r ! i = 0 \<or> r ! i = 1" and b: "bits_from (Suc i) r" using r(1,2) w(2) by (auto simp: bits_from_def)
  show ?thesis
  proof (cases "r ! i = 0")
    case True
    then have "digits_val 2 (take (Suc i) r) = digits_val 2 (take i r)"
      using r(1) w(2) by (simp add: take_Suc_conv_app_nth digits_val_append)
    then show ?thesis using r b True by (auto simp: slide_whole_def slide_step_def intro!: exI [of _ z])
  next
    case False
    then have one: "r ! i = 1" using bit by simp
    then have "z \<le> i" using r(4) w(2) by (metis linorder_not_less order_refl zero_neq_one)
    then have "(2 :: int) ^ z \<le> 2 ^ i" by (intro power_increasing) simp_all
    then have lo: "- (2 ^ i) \<le> digits_val 2 (take i r)" using r(5) by linarith
    have "slide_exact i 1 v (take i r) r" using r b one by (simp add: slide_exact_def)
    then obtain b' where e: "slide_exact i b' v (take i r) (slide_step i r)"
      using slide_exact_bits [of i 1 v "take i r" r 6] v lo one by (auto simp: slide_step_def)
    define s where "s = slide_step i r"
    have s: "length s = 256" "take i s = take i r" "bits_from (Suc i) s" "digits_val 2 s = v" "- 15 \<le> s ! i"
      "\<forall>k<i + b'. i < k \<longrightarrow> k < 256 \<longrightarrow> s ! k = 0" "1 \<le> s ! i \<or> 5 \<le> b'"
      using e by (simp_all add: slide_exact_def s_def)
    have val: "digits_val 2 (take (Suc i) s) = digits_val 2 (take i r) + 2 ^ i * s ! i"
      using s(1,2) r(1) w(2) by (simp add: take_Suc_conv_app_nth digits_val_append)
    have "\<exists>z. (\<forall>k<z. Suc i \<le> k \<longrightarrow> k < 256 \<longrightarrow> s ! k = 0) \<and> - (2 ^ z) \<le> digits_val 2 (take (Suc i) s)"
    proof (cases "1 \<le> s ! i")
      case True
      then have "2 ^ i * 1 \<le> 2 ^ i * s ! i" by (intro mult_left_mono) simp_all
      then have "0 \<le> digits_val 2 (take (Suc i) s)" unfolding val using lo by linarith
    then show ?thesis by (intro exI [of _ 0]) simp
    next
      case False
      have "2 ^ i * (- 15) \<le> 2 ^ i * s ! i" using s(5) by (intro mult_left_mono) simp_all
      moreover have "(2 :: int) ^ (i + 5) = 32 * 2 ^ i" by (simp add: power_add)
      moreover have "(0 :: int) < 2 ^ i" by simp
      ultimately have "- (2 ^ (i + 5)) \<le> digits_val 2 (take (Suc i) s)" unfolding val using lo by linarith
      then show ?thesis using s(6,7) False by (intro exI [of _ "i + 5"]) auto
    qed
    then show ?thesis using s unfolding slide_whole_def s_def [symmetric] by simp
  qed
qed

lemma slide_value:
  assumes "length a = 32" "le_val a < 2 ^ 255"
  shows "digits_val 2 (slide a) = le_val a"
proof -
  note s = scalar_bits_spec [OF assms(1)]
  have "slide_whole n (le_val a) (fold slide_step [0..<n] (scalar_bits a))" if "n \<le> 256" for n
    using that
  proof (induction n)
    case 0
    show ?case using s by (auto simp: slide_whole_def intro!: exI [of _ 0])
  next
    case (Suc n)
    then show ?case using slide_whole_step [OF _ _ assms(2)] by simp
  qed
  from this [of 256] show ?thesis by (simp add: slide_def slide_whole_def)
qed

end
