(* ===== verification/Ge_Code.thy ===== *)
theory Ge_Code
  imports Ge_Mult Ge_Slide Ed25519
begin

text \<open>
  The encoding of points: every representation of a point is written as the one encoding of the
  point, and reading it back gives the point; reading fails exactly when no point has the \<open>y\<close>.
\<close>

section \<open>Writing\<close>

definition encodes :: "bytes \<Rightarrow> point \<Rightarrow> bool" where
  "encodes s P \<longleftrightarrow> length s = 32 \<and> le_val s = snd (affine P) + 2 ^ 255 * (fst (affine P) mod 2)"

lemma fermat_int: "unit_p z \<Longrightarrow> z ^ (2 ^ 255 - 20) mod p25519 = 1"
proof -
  assume "unit_p z"
  then have "(of_int z :: gf) ^ (nat p25519 - 1) = 1" by (intro fermat_gf) (simp add: unit_gf)
  moreover have "nat p25519 - 1 = 2 ^ 255 - 20" by (simp add: p25519_def)
  ultimately have "(of_int (z ^ (2 ^ 255 - 20)) :: gf) = of_int 1" by (simp only: of_int_power of_int_1)
  then have "eqp (z ^ (2 ^ 255 - 20)) 1" unfolding gf_eq_iff .
  then show ?thesis by (simp only: eqp_def) (simp add: p25519_def)
qed

lemma affine_mod: "fst (affine P) mod p25519 = fst (affine P)" "snd (affine P) mod p25519 = snd (affine P)"
  by (simp_all add: affine_def int_of_bounds)

lemma ext_ToBytes_of: "ext_of E P \<Longrightarrow> encodes (ext_ToBytes E) P"
proof -
  assume "ext_of E P"
  then obtain z where z: "unit_p z" "frep 2 (eX E) (fst (affine P) * z)" "frep 1 (eY E) (snd (affine P) * z)" "frep 1 (eZ E) z"
    by (auto simp: ext_of_def ext_rep_def split: prod.splits)
  have "length (ext_ToBytes E) = 32" by simp
  moreover have "le_val (ext_ToBytes E) = snd (affine P) mod p25519 + 2 ^ 255 * (fst (affine P) mod p25519 mod 2)"
    unfolding ext_ToBytes_eq Let_def by (rule encode_point [OF z(2-4) fermat_int [OF z(1)]])
  ultimately show ?thesis unfolding encodes_def affine_mod by blast
qed

lemma proj_ToBytes_of: "proj_of E P \<Longrightarrow> encodes (proj_ToBytes E) P"
proof -
  assume "proj_of E P"
  then obtain z where z: "unit_p z" "frep 2 (pX E) (fst (affine P) * z)" "frep 1 (pY E) (snd (affine P) * z)" "frep 1 (pZ E) z"
    by (auto simp: proj_of_def proj_rep_def split: prod.splits)
  have "length (proj_ToBytes E) = 32" by (simp add: proj_ToBytes_eq FeToBytes_def Let_def)
  moreover have "le_val (proj_ToBytes E) = snd (affine P) mod p25519 + 2 ^ 255 * (fst (affine P) mod p25519 mod 2)"
    unfolding proj_ToBytes_eq Let_def by (rule encode_point [OF z(2-4) fermat_int [OF z(1)]])
  ultimately show ?thesis unfolding encodes_def affine_mod by blast
qed

lemma encodes_unique: "encodes s P \<Longrightarrow> encodes t P \<Longrightarrow> s = t"
  by (auto simp: encodes_def intro: le_val_inj)

lemma parts_of_sum: "0 \<le> y \<Longrightarrow> y < n \<Longrightarrow> (y + n * b) mod n = y \<and> (y + n * b) div n = b" for y n b :: int
  by simp

lemma encodes_parts:
  assumes "encodes s P"
  shows "snd (affine P) = le_val s mod 2 ^ 255" "fst (affine P) mod 2 = le_val s div 2 ^ 255"
proof -
  have "p25519 \<le> 2 ^ 255" by (simp add: p25519_def)
  with int_of_bounds(2) have "int_of a < 2 ^ 255" for a by (rule less_le_trans)
  then have "snd (affine P) < 2 ^ 255" unfolding affine_def snd_conv .
  moreover have "0 \<le> snd (affine P)" unfolding affine_def snd_conv by (rule int_of_bounds(1))
  ultimately have "0 \<le> snd (affine P)" "snd (affine P) < 2 ^ 255" by blast+
  note p = parts_of_sum [OF this, of "fst (affine P) mod 2"]
  have "le_val s = snd (affine P) + 2 ^ 255 * (fst (affine P) mod 2)" using assms unfolding encodes_def by blast
  then show "snd (affine P) = le_val s mod 2 ^ 255" "fst (affine P) mod 2 = le_val s div 2 ^ 255"
    using p by (simp_all only:)
qed

text \<open>Two points of one \<open>y\<close> are equal or opposite, so the parity of \<open>x\<close> tells them apart.\<close>

lemma denominator_nonzero: "1 + gf_d * y * y \<noteq> (0 :: gf)"
proof
  assume z: "1 + gf_d * y * y = 0"
  then have y: "y \<noteq> 0" by auto
  have "gf_i * gf_i = gf_d * (y * y)"
    using minus_unique [OF z] by (simp only: gf_i_square mult.assoc)
  then have "(gf_i / y) * (gf_i / y) = gf_d" using y by (simp only: times_divide_times_eq) simp
  then show False using gf_d_no_square by blast
qed

lemma edw_x_square:
  assumes "edw gf_d (x, y)"
  shows "x * x * (1 + gf_d * y * y) = y * y - 1"
  using assms by (simp add: edw_def algebra_simps)

lemma same_y:
  assumes "edw gf_d (x, y)" "edw gf_d (x', y)"
  shows "x' = x \<or> x' = - x"
proof -
  have "x * x = x' * x'"
    using edw_x_square [OF assms(1)] edw_x_square [OF assms(2)] denominator_nonzero [of y] by (metis mult_right_cancel)
  then show ?thesis by (metis square_eq_iff)
qed

lemma affine_of_curve: "on_curve x y \<Longrightarrow> \<exists>R. affine R = (x mod p25519, y mod p25519)"
  by (elim point_at) (metis affine_def int_of_int fst_conv snd_conv)

lemma curve_of_affine: "affine R = (x mod p25519, y mod p25519) \<Longrightarrow> on_curve x y"
proof -
  assume "affine R = (x mod p25519, y mod p25519)"
  then have c: "on_curve (x mod p25519) (y mod p25519)" using affine_on_curve [of R] by simp
  have "(of_int (a mod p25519) :: gf) = of_int a" for a by (simp add: gf_eq_iff eqp_def)
  then show ?thesis using c by (simp only: on_curve_gf)
qed

lemma sign_bit_eqp: "eqp x y \<Longrightarrow> sign_bit x = sign_bit y"
  by (simp add: eqp_def sign_bit_def)

lemma encodes_point:
  assumes "snd (affine P) = snd (affine Q)" "fst (affine P) mod 2 = fst (affine Q) mod 2"
  shows "P = Q"
proof -
  define a b y where "a = fst (coords P)" and "b = fst (coords Q)" and "y = snd (coords P)"
  have "snd (coords Q) = y" using assms(1) by (simp add: affine_def y_def int_of_inject)
  then have c: "coords P = (a, y)" "coords Q = (b, y)" by (simp_all add: a_def b_def y_def prod_eq_iff)
  then have "b = a \<or> b = - a" using same_y coords_edw by metis
  moreover have "b = a" if m: "b = - a"
  proof (rule ccontr)
    assume "b \<noteq> a"
    then have "\<not> eqp (int_of a) 0" using m unfolding gf_eq_iff [symmetric] by auto
    moreover have "(of_int (int_of b) :: gf) = of_int (- int_of a)" using m by simp
    then have "eqp (int_of b) (- int_of a)" unfolding gf_eq_iff .
    ultimately have "sign_bit (int_of b) \<noteq> sign_bit (int_of a)"
      using sign_bit_minus sign_bit_eqp by metis
    then show False using assms(2) c int_of_bounds [of a] int_of_bounds [of b] by (simp add: affine_def sign_bit_def parity_cases mod2_eq_if split: if_splits)
  qed
  ultimately show ?thesis using c by (metis coords_inject)
qed

lemma encodes_inj: "encodes s P \<Longrightarrow> encodes s Q \<Longrightarrow> P = Q"
  using encodes_point encodes_parts by metis

section \<open>Reading\<close>

lemma pick_root_none:
  assumes u: "frep (1 + 1) u U" and v: "frep (1 + 1) v V" and x: "frep 1 x X"
  shows "pick_root u v x = None \<longleftrightarrow> \<not> eqp (X * X * V - U) 0 \<and> \<not> eqp (X * X * V + U) 0"
proof -
  have vxx: "frep 1 (FeMul (FeSquare x) v) (X * X * V)"
    by (rule frep_mult [OF frep_square [OF x] v]) simp_all
  have s: "frep 3 (FeSub (FeMul (FeSquare x) v) u) (X * X * V - U)" and a: "frep 3 (FeAdd (FeMul (FeSquare x) v) u) (X * X * V + U)"
    by (rule frep_to3(4) [OF frep_sub [OF vxx u]], simp) (rule frep_to3(4) [OF frep_add [OF vxx u]], simp)
  have nz: "fst (FeIsNonZero f) = 1 \<longleftrightarrow> \<not> eqp W 0" if "frep 3 f W" for f W
    using FeIsNonZero_spec [OF frep_loose [OF that order_refl]] frep_mod [OF that] by (simp add: eqp_def)
  show ?thesis using nz [OF s] nz [OF a] by (simp add: pick_root_def Let_def)
qed

text \<open>
  The candidate \<open>u v\<^sup>3 (u v\<^sup>7) ^ ((p - 5) / 8)\<close>: when \<open>u / v\<close> is a square, its square is \<open>u / v\<close> or the opposite.
\<close>

lemma candidate_root:
  fixes x U V :: gf
  assumes xU: "x * x * V = U" and V: "V \<noteq> 0"
  defines "c \<equiv> (V * V * V * (V * V * V) * V * U) ^ (2 ^ 252 - 3) * (V * V * V) * U"
  shows "c * c * V = U \<or> c * c * V = - U"
proof (cases "x = 0")
  case True
  then show ?thesis using xU by (simp add: c_def)
next
  case False
  define W where "W = V * V * V * (V * V * V) * V * U"
  define n :: nat where "n = 2 ^ 252 - 3"
  define k where "k = 2 * n + 1"
  define Z where "Z = x * (V * V * V * V)"
  have "c * c * V = U * (W ^ n * W ^ n * W)"
    unfolding c_def W_def [symmetric] n_def [symmetric] by (simp add: W_def ac_simps)
  also have "W ^ n * W ^ n * W = W ^ k" by (simp add: k_def power_add mult_2)
  finally have c: "c * c * V = U * W ^ k" .
  define h where "h = W ^ k"
  have "W = Z * Z" unfolding W_def Z_def xU [symmetric] by (simp only: ac_simps)
  then have "h * h = Z ^ (k + k + (k + k))" unfolding h_def by (simp only: power_add power_mult_distrib ac_simps)
  also have "k + k + (k + k) = nat p25519 - 1" by (simp add: k_def n_def p25519_def)
  also have "Z ^ (nat p25519 - 1) = 1" using False V by (intro fermat_gf) (simp add: Z_def)
  finally have "h = 1 \<or> h = - 1" by (metis square_eq_1_iff power2_eq_square)
  then show ?thesis using c unfolding h_def [symmetric] by auto
qed

lemma FromBytes_total:
  assumes len: "length s = 32" and curve: "on_curve x0 (le_val s mod 2 ^ 255)"
  shows "ext_FromBytes s \<noteq> None"
proof -
  define y where "y = FeFromBytes s"
  define t where "t = le_val s mod 2 ^ 255"
  have y: "frep 1 y t" using FeFromBytes_spec [OF len] by (simp add: y_def t_def frep_tight)
  define u where "u = FeSub (FeSquare y) FeOne"
  define w where "w = FeAdd (FeMul (FeSquare y) curve_d) FeOne"
  define v3 where "v3 = FeMul (FeSquare w) w"
  define b where "b = FeMul (FeMul (FeSquare v3) w) u"
  define x where "x = FeMul (FeMul (fePow22523 b) v3) u"
  define U V where "U = t * t - 1" and "V = t * t * ed_d + 1"
  note m = frep_mult and sq = frep_square
  have u: "frep (1 + 1) u U" unfolding u_def U_def by (rule frep_sub [OF sq [OF y] frep_One]) simp_all
  have w: "frep (1 + 1) w V"
    unfolding w_def V_def by (rule frep_add [OF m [OF sq [OF y] frep_self [OF curve_d_tight(1)]] frep_One]) simp_all
  note u3 = frep_to3(2) [OF u] and w3 = frep_to3(2) [OF w]
  have v3: "frep 1 v3 (V * V * V)" unfolding v3_def by (rule m [OF sq [OF w3] w3]) simp_all
  have b: "frep 1 b (V * V * V * (V * V * V) * V * U)" unfolding b_def by (rule m [OF m [OF sq [OF v3] w3] u3]) simp_all
  define B where "B = V * V * V * (V * V * V) * V * U"
  have "fe_val (fePow22523 b) mod p25519 = B ^ (2 ^ 252 - 3) mod p25519"
    using fePow22523_power [OF frep_loose [OF b]] frep_mod [OF b] unfolding fe_power_def B_def
    by (simp only: one_le_numeral simp_thms) (metis power_mod)
  then have pw: "frep 1 (fePow22523 b) (B ^ (2 ^ 252 - 3))"
    using fePow22523_tight [OF frep_loose [OF b]] by (simp only: frep_tight one_le_numeral simp_thms)
  define X where "X = B ^ (2 ^ 252 - 3) * (V * V * V) * U"
  have x: "frep 1 x X" unfolding x_def X_def by (rule m [OF m [OF pw v3] u3]) simp_all
  have e: "of_int x0 * of_int x0 * (of_int V :: gf) = of_int U" "(of_int V :: gf) \<noteq> 0"
    using edw_x_square [of "of_int x0" "of_int t"] denominator_nonzero [of "of_int t"] curve
    by (simp_all add: on_curve_gf U_def V_def t_def gf_d_def ac_simps)
  have "(of_int X :: gf) * of_int X * of_int V = of_int U \<or> (of_int X :: gf) * of_int X * of_int V = - of_int U"
    using candidate_root [OF e] unfolding X_def B_def of_int_mult of_int_power .
  then have "of_int (X * X * V - U) = (of_int 0 :: gf) \<or> of_int (X * X * V + U) = (of_int 0 :: gf)"
    unfolding of_int_diff of_int_add of_int_mult of_int_0 eq_neg_iff_add_eq_0 right_minus_eq .
  then have "pick_root u w x \<noteq> None" using pick_root_none [OF u w x] unfolding gf_eq_iff by blast
  then obtain r where "pick_root u w x = Some r" by blast
  then show ?thesis
    unfolding ext_FromBytes_eq Let_def y_def [symmetric] u_def [symmetric] w_def [symmetric] v3_def [symmetric]
      b_def [symmetric] x_def [symmetric] by simp
qed

lemma top_bit:
  assumes "length s = 32"
  shows "uint (drop_bit 7 (s ! 31)) = le_val s div 2 ^ 255"
proof -
  define r where "r = take 31 s"
  define t where "t = s ! 31"
  have s: "s = r @ [t]" "length r = 31" using assms by (simp_all add: r_def t_def take_Suc_conv_app_nth [symmetric])
  have r: "0 \<le> le_val r" "le_val r < 2 ^ 248" using le_val_nonneg [of r] le_val_less [of r] s(2) by simp_all
  have "le_val s = le_val r + 2 ^ 248 * uint t" using s(2) by (simp add: s(1) le_val_append)
  then have "le_val s div 2 ^ 248 = uint t" using r by simp
  then have "le_val s div 2 ^ 255 = uint t div 128" using zdiv_zmult2_eq [of 128 "le_val s" "2 ^ 248"] by simp
  moreover have "uint (drop_bit 7 t) = uint t div 128"
    by (subst unsigned_drop_bit_eq) (simp add: drop_bit_eq_div take_bit_int_eq_self uint_byte_bounds)
  ultimately show ?thesis by (simp only: t_def)
qed

lemma uint_sign_bit: "uint (sign_bit x) = x mod p25519 mod 2"
  by (simp add: sign_bit_def mod2_eq_if)

lemma decode_of:
  assumes s: "encodes s P"
  obtains E where "ext_FromBytes s = Some E" "ext_of E P"
proof -
  have len: "length s = 32" using s by (simp add: encodes_def)
  define y where "y = le_val s mod 2 ^ 255"
  define a where "a = fst (affine P)"
  have P: "affine P = (a, y)" using encodes_parts(1) [OF s] by (simp add: a_def y_def prod_eq_iff)
  have c: "on_curve a y" using affine_on_curve [of P] by (simp add: P)
  obtain E where E: "ext_FromBytes s = Some E" using FromBytes_total [OF len c [unfolded y_def]] by blast
  obtain x where x: "ext_rep E (x, y)" "on_curve x y" "sign_bit x = drop_bit 7 (s ! 31) \<or> eqp x 0"
    using decode_point [OF len E] unfolding y_def by blast
  have "uint (sign_bit a) = uint (drop_bit 7 (s ! 31))"
    using encodes_parts(2) [OF s] by (simp only: uint_sign_bit top_bit [OF len] a_def affine_mod)
  then have top: "drop_bit 7 (s ! 31) = sign_bit a" by (metis word_uint_eqI)
  have "of_int x = (of_int a :: gf) \<or> of_int x = - (of_int a :: gf)"
    using same_y c x(2) unfolding on_curve_gf by blast
  then have "eqp x a \<or> eqp x (- a)" unfolding of_int_minus [symmetric] gf_eq_iff .
  then have "eqp x a"
  proof
    assume m: "eqp x (- a)"
    show ?thesis
    proof (cases "eqp a 0")
      case True
      then have "(of_int x :: gf) = of_int a" using m unfolding gf_eq_iff [symmetric] by simp
      then show ?thesis unfolding gf_eq_iff .
    next
      case False
      then have "sign_bit x \<noteq> sign_bit a" using sign_bit_minus [OF False] sign_bit_eqp [OF m] by simp
      then have "eqp x 0" using x(3) top by simp
      then have "eqp a 0" using m unfolding gf_eq_iff [symmetric] by simp
      with False show ?thesis ..
    qed
  qed
  then have "ext_of E P" using ext_rep_eqp [OF x(1) _ eqp_refl] by (simp add: ext_of_def P)
  with E show thesis by (rule that)
qed

lemma decode_none:
  assumes len: "length s = 32"
  shows "ext_FromBytes s = None \<longleftrightarrow> \<not> (\<exists>x. on_curve x (le_val s mod 2 ^ 255))"
  using FromBytes_total [OF len] decode_point [OF len] by (metis not_None_eq)

lemma decode_some:
  assumes len: "length s = 32" and E: "ext_FromBytes s = Some E"
  shows "\<exists>P. ext_of E P \<and> snd (affine P) = le_val s mod 2 ^ 255 mod p25519
    \<and> (fst (affine P) mod 2 = le_val s div 2 ^ 255 \<or> fst (affine P) = 0)"
proof -
  define y where "y = le_val s mod 2 ^ 255"
  obtain x where x: "ext_rep E (x, y)" "on_curve x y" "sign_bit x = drop_bit 7 (s ! 31) \<or> eqp x 0"
    using decode_point [OF len E] unfolding y_def by blast
  from x(2) obtain P where P: "coords P = (of_int x, of_int y)" "eqp (fst (affine P)) x" "eqp (snd (affine P)) y"
    by (rule point_at)
  have a: "fst (affine P) = x mod p25519" "snd (affine P) = y mod p25519"
    using P(2,3) affine_mod by (simp_all add: eqp_def)
  have "ext_of E P" using ext_rep_eqp [OF x(1) eqp_sym [OF P(2)] eqp_sym [OF P(3)]] by (simp add: ext_of_def)
  moreover have "fst (affine P) mod 2 = le_val s div 2 ^ 255 \<or> fst (affine P) = 0"
    using x(3)
  proof
    assume "sign_bit x = drop_bit 7 (s ! 31)"
    then have "uint (sign_bit x) = le_val s div 2 ^ 255" using top_bit [OF len] by (simp only:)
    then show ?thesis by (simp only: uint_sign_bit a simp_thms)
  next
    assume "eqp x 0"
    then have "x mod p25519 = 0" by (simp add: eqp_def)
    then show ?thesis by (simp only: a simp_thms)
  qed
  moreover note a(2) [unfolded y_def]
  ultimately show ?thesis by blast
qed

lemma ext_of_unique: "ext_of E P \<Longrightarrow> ext_of E Q \<Longrightarrow> P = Q"
  using ext_ToBytes_of encodes_inj by metis

end
