(* ===== verification/Ge_Order.thy ===== *)
theory Ge_Order
  imports Ge_Base Sc_Box
begin

text \<open>
  The order of the base point: the order of the scalars times the point is the neutral element. A walk over known
  multiples, each step the double, the opposite or the sum with an entry of the table, reaches the multiple by the order
  plus three, which meets the entry of the triple.
\<close>

section \<open>Walks\<close>

datatype hop = Twice nat nat | Opposite | Plus nat nat nat nat nat

definition plus_ok :: "hex \<Rightarrow> hex \<Rightarrow> hex \<Rightarrow> entry \<Rightarrow> hex \<Rightarrow> hex \<Rightarrow> bool" where
  "plus_ok u v x e u' v' \<longleftrightarrow> heq (hadd x v) u
     \<and> sum_ok (fst e) (fst (snd e)) u v (hred (hmul (fst (snd (snd e))) (half_product u v x))) u' v'"

fun hops_ok :: "hex \<Rightarrow> hex \<Rightarrow> hop list \<Rightarrow> nat \<Rightarrow> nat \<Rightarrow> bool" where
  "hops_ok u v [] u' v' \<longleftrightarrow> u = hex_of u' \<and> v = hex_of v'"
| "hops_ok u v (Twice a b # hs) u' v' \<longleftrightarrow> double_ok u v (hex_of a) (hex_of b) \<and> hops_ok (hex_of a) (hex_of b) hs u' v'"
| "hops_ok u v (Opposite # hs) u' v' \<longleftrightarrow> hops_ok v u hs u' v'"
| "hops_ok u v (Plus i j x a b # hs) u' v' \<longleftrightarrow>
     plus_ok u v (hex_of x) (entry (base ! i ! j)) (hex_of a) (hex_of b) \<and> hops_ok (hex_of a) (hex_of b) hs u' v'"

fun hops_val :: "int \<Rightarrow> hop list \<Rightarrow> int" where
  "hops_val m [] = m"
| "hops_val m (Twice a b # hs) = hops_val (2 * m) hs"
| "hops_val m (Opposite # hs) = hops_val (- m) hs"
| "hops_val m (Plus i j x a b # hs) = hops_val (m + (int j + 1) * 256 ^ i) hs"

fun hop_in_table :: "hop \<Rightarrow> bool" where
  "hop_in_table (Plus i j x a b) \<longleftrightarrow> i < 32 \<and> j < 8"
| "hop_in_table _ \<longleftrightarrow> True"

lemma entry_point:
  assumes "i < 32" "j < 8"
  shows "is_u (smul ((int j + 1) * 256 ^ i) base_point) (fst (entry (base ! i ! j)))"
    "is_v (smul ((int j + 1) * 256 ^ i) base_point) (fst (snd (entry (base ! i ! j))))"
    "is_w (smul ((int j + 1) * 256 ^ i) base_point) (fst (snd (snd (entry (base ! i ! j)))))"
  using base_entry_of [OF assms] by (simp_all add: pre_of_eqs entry_def)

lemma plus_ok:
  assumes "plus_ok u v x (entry (base ! i ! j)) u' v'" "i < 32" "j < 8" "is_u P u" "is_v P v"
  shows "is_u (P + smul ((int j + 1) * 256 ^ i) base_point) u' \<and> is_v (P + smul ((int j + 1) * 256 ^ i) base_point) v'"
proof -
  note ok = assms(1) [unfolded plus_ok_def]
  have "hgf x + hgf v = hgf u" using heq ok unfolding hgf_hadd [symmetric] by blast
  then have "hgf x = hgf u - hgf v" by (simp add: eq_diff_eq)
  note c = half_product [OF assms(4,5) this]
  show ?thesis
    unfolding add.commute [of P] by (rule sum_ok [OF conjunct2 [OF ok] entry_point [OF assms(2,3)] assms(4,5) c])
qed

lemma is_uv_uminus: "is_u P u \<Longrightarrow> is_v (- P) u" "is_v P v \<Longrightarrow> is_u (- P) v"
  by (simp_all add: is_u_def is_v_def uminus_point.rep_eq edw_neg_def split: prod.splits)

text \<open>A known multiple of the base point, by the sum and the difference of its coordinates.\<close>

definition multiple :: "int \<Rightarrow> nat \<Rightarrow> nat \<Rightarrow> bool" where
  "multiple m u v \<longleftrightarrow> is_u (smul m base_point) (hex_of u) \<and> is_v (smul m base_point) (hex_of v)"

lemma hops:
  assumes "hops_ok u v hs u' v'" "list_all hop_in_table hs" "is_u (smul m base_point) u" "is_v (smul m base_point) v"
  shows "multiple (hops_val m hs) u' v'"
  using assms
proof (induction hs arbitrary: u v m)
  case Nil
  then show ?case by (simp add: multiple_def)
next
  case (Cons h hs)
  show ?case
  proof (cases h)
    case (Twice a b)
    then have "is_u (smul (2 * m) base_point) (hex_of a) \<and> is_v (smul (2 * m) base_point) (hex_of b)"
      unfolding smul_mult smul_2 using Cons.prems by (intro double_ok) auto
    then show ?thesis using Cons.prems Cons.IH [of "hex_of a" "hex_of b" "2 * m"] Twice by simp
  next
    case Opposite
    then show ?thesis using Cons by (simp add: is_uv_uminus smul_minus)
  next
    case (Plus i j x a b)
    then have "is_u (smul (m + (int j + 1) * 256 ^ i) base_point) (hex_of a) \<and> is_v (smul (m + (int j + 1) * 256 ^ i) base_point) (hex_of b)"
      unfolding smul_add using Cons.prems by (intro plus_ok) auto
    then show ?thesis using Cons.prems Cons.IH [of "hex_of a" "hex_of b"] Plus by simp
  qed
qed

lemma hops_multiple:
  assumes "multiple m u v" "hops_ok (hex_of u) (hex_of v) hs u' v'" "list_all hop_in_table hs" "hops_val m hs = n"
  shows "multiple n u' v'"
  using assms hops [of "hex_of u" "hex_of v" hs u' v' m] by (simp add: multiple_def)

lemma multiple_entry:
  assumes "heq (hex_of u) (fst (entry (base ! i ! j)))" "heq (hex_of v) (fst (snd (entry (base ! i ! j))))"
    "i < 32" "j < 8" "m = (int j + 1) * 256 ^ i"
  shows "multiple m u v"
  using entry_point [OF assms(3,4)] heq [OF assms(1)] heq [OF assms(2)] by (simp add: multiple_def assms(5) is_u_def is_v_def)

lemma gf_parts:
  fixes a b c d :: gf
  assumes "b + a = d + c" "b - a = d - c"
  shows "a = c" "b = d"
proof -
  have "a + a = (b + a) - (b - a)" "b + b = (b + a) + (b - a)" by simp_all
  then have "a + a = c + c" "b + b = d + d" unfolding assms by simp_all
  then show "a = c" "b = d" by (blast intro: gf_half)+
qed

lemma point_eqI:
  assumes "hgf u = hgf u'" "hgf v = hgf v'" "is_u P u" "is_v P v" "is_u Q u'" "is_v Q v'"
  shows "P = Q"
proof -
  have "coords P = coords Q"
    using gf_parts [of "snd (coords P)" "fst (coords P)" "snd (coords Q)" "fst (coords Q)"] assms
    by (simp add: is_u_def is_v_def prod_eq_iff)
  then show ?thesis by (simp add: coords_inject)
qed

lemma multiple_meets:
  assumes "multiple m u v" "i < 32" "j < 8"
    "heq (hex_of u) (fst (entry (base ! i ! j)))" "heq (hex_of v) (fst (snd (entry (base ! i ! j))))"
  shows "smul m base_point = smul ((int j + 1) * 256 ^ i) base_point"
  using assms(1) entry_point [OF assms(2,3)] heq [OF assms(4)] heq [OF assms(5)]
  by (auto simp: multiple_def intro: point_eqI)

section \<open>The walk to the order\<close>

lemma nth_8: "(a # r) ! 0 = a" "(a # b # r) ! 1 = b" "(a # b # c # r) ! 2 = c" "(a # b # c # d # r) ! 3 = d"
  "(a # b # c # d # e # r) ! 4 = e" "(a # b # c # d # e # f # r) ! 5 = f" "(a # b # c # d # e # f # g # r) ! 6 = g"
  "(a # b # c # d # e # f # g # h # r) ! 7 = h"
  by (simp_all add: eval_nat_numeral)

lemmas hop_rules = hops_ok.simps plus_ok_def fst_conv snd_conv

lemma base_rows: "base ! 0 = base_0" "base ! 1 = base_1" "base ! 2 = base_2" "base ! 3 = base_3" "base ! 4 = base_4" "base ! 5 = base_5" "base ! 6 = base_6" "base ! 7 = base_7" "base ! 8 = base_8" "base ! 9 = base_9" "base ! 10 = base_10" "base ! 11 = base_11" "base ! 12 = base_12" "base ! 13 = base_13" "base ! 14 = base_14" "base ! 15 = base_15" "base ! 31 = base_31"
  by (simp_all add: base_def)

lemma multiple_0: "multiple (452312848583266388373324160190187140051835877600158453279131187530910662656)
    28957309340029271748431691920428163854179429286949309146369562153908901734992
    7073360405764509554181692928366379897557531597896091766883325686348506217983"
proof (rule multiple_entry [where i = 31 and j = 0])
qed (simp_all only: base_rows base_31_def nth_8 fst_conv snd_conv table_rules, simp_all)

lemma multiple_1: "multiple (452312848583266388373324160190187140051835877600158453279131194136670960895)
    18916498256594387662249878848589330125110083906456401434332147215184679575907
    12334835612974046523578038939243877468791841338450423535159570153787220235682"
proof -
  have "hops_ok (hex_of 28957309340029271748431691920428163854179429286949309146369562153908901734992)
      (hex_of 7073360405764509554181692928366379897557531597896091766883325686348506217983)
      [Opposite,
     Plus 0 0 36012095684393335517535493512282169970013094643767064640242555536396169302940
      26320646030133619582327425179730275034593043231852565630119334517953805641825
      49133887527367611893086020294975998730555338299133276143608143962135777373569,
     Plus 1 2 35082803121424105401026897389098230230672697265539571506239982559774593088205
      7337547264994816590282710644798549546520367666398174168659445118285536366319
      22529516301756202260403312556526030450841861598557626249429086739008274437257,
     Plus 2 0 42704075581896712041664890592616473022313498400660829938959150383233826749011
      42364184030366312780988116677180902440548632130496153074540336735339021280645
      13595364521311730027806304279490122667176251432816982910691945082399788999330,
     Opposite,
     Plus 3 5 29127225109603514958603680106653174153262611635141111855880400351017332538634
      56669918520387040213330680720337776897004455630156130398174468704732991967613
      30868316280887932686282612140078538052729585635300688010366099017511808085523,
     Plus 4 1 25801602239499107527048068580259238844274869994855442387808369687221183882090
      46411764747480775380048926092918855582866845980167434488152671989157682431418
      24178871516334680051246561585857666466397422404159467546244169742221655491219,
     Plus 5 5 22232893231146095328802364507061189116469423576007966941908502246936026940199
      18916498256594387662249878848589330125110083906456401434332147215184679575907
      12334835612974046523578038939243877468791841338450423535159570153787220235682]
      18916498256594387662249878848589330125110083906456401434332147215184679575907
      12334835612974046523578038939243877468791841338450423535159570153787220235682"
    by (simp only: base_rows base_0_def base_1_def base_2_def base_3_def base_4_def base_5_def base_6_def base_7_def base_8_def base_9_def base_10_def base_11_def base_12_def base_13_def base_14_def base_15_def base_31_def nth_8 hop_rules table_rules)
  from hops_multiple [OF multiple_0 this] show ?thesis by simp
qed

lemma multiple_2: "multiple (- 452312848583266388373324160190187140051835877439843980876676273914226081023)
    18140276940659100809787569210515909708539700564993623407637601292413872908777
    44764940611827084732798556160255994971706035633734724164687771535598760906383"
proof -
  have "hops_ok (hex_of 18916498256594387662249878848589330125110083906456401434332147215184679575907)
      (hex_of 12334835612974046523578038939243877468791841338450423535159570153787220235682)
      [Plus 6 0 6581662643620341138671839909345452656318242568005977899172577061397459340225
      822698166310507737650523931535693402972942519042429299087434322474716083130
      9293095494911469666165938183035234096773268312985922802733168598377973727502,
     Plus 7 4 49425647290057135783270078252844413232834666538876788516083057728053307175577
      4701819866620153935331403737683109585643785121495170891129876266070286698784
      40465122186917981829785631913485765297796541289736774227799104425185696382245,
     Opposite,
     Plus 8 2 35763302320297827894454228175802655712152756168241603336669228159115409683461
      35953627773251526601112802817744297727260738805709722740506411660638211851071
      38927067256066241809024433349049638737668783455014490393998898066244871175649,
     Plus 9 5 54922605135843382503873861973038612916226947683515514366236305598349905495371
      54118486428764847796691646875404819323120928398466335015431595490765408756513
      21753061258920843199551294053856677080727148195474159272287473621308750738309,
     Plus 10 0 32365425169844004597140352821548142242393780202992175743144121869456658018204
      41859896688902227756908545467355390114521860659123452229540647390684520413228
      17686796915227166510278985393559299313359086534730708902899849201557117835713,
     Plus 11 5 24173099773675061246629560073796090801162774124392743326640798189127402577515
      20066954446566981892733282986639478219011648511444277664122707415416691835769
      32394070566722227876393724198074895170281824464915257505711866219212084191503,
     Plus 12 1 45568928498502851728125051292908536975364816379349302178139633200161172464215
      18140276940659100809787569210515909708539700564993623407637601292413872908777
      44764940611827084732798556160255994971706035633734724164687771535598760906383]
      18140276940659100809787569210515909708539700564993623407637601292413872908777
      44764940611827084732798556160255994971706035633734724164687771535598760906383"
    by (simp only: base_rows base_0_def base_1_def base_2_def base_3_def base_4_def base_5_def base_6_def base_7_def base_8_def base_9_def base_10_def base_11_def base_12_def base_13_def base_14_def base_15_def base_31_def nth_8 hop_rules table_rules)
  from hops_multiple [OF multiple_1 this] show ?thesis by simp
qed

lemma multiple_3: "multiple (7237005577332262213973186563042994240850475533470589233509168319709567767536)
    21471211770141093410199909160499520000876051319443962757383975544118747304831
    25522042457551755366948124427138892366630759609534704454299092187483654152160"
proof -
  have "hops_ok (hex_of 18140276940659100809787569210515909708539700564993623407637601292413872908777)
      (hex_of 44764940611827084732798556160255994971706035633734724164687771535598760906383)
      [Plus 14 1 31271380947490113788774505554603868663468657264079181262678621760771676822343
      10443419395950563718075561141234446656974333355311458185331981158285232478551
      34228626722209429411979325980889399658644093589643352198031340859491498188260,
     Opposite,
     Plus 15 0 23785207326258865693903764839654953001669760234331894012699359701206265709709
      11648171493203726864822354016691381365362945441456120521452018197097756790560
      45057619593937652283909606974990174738167640843023561250426130373336933998819,
     Twice 22386505650739818456310247368636379979886926545470330245863386559718005724469
      35585603166358319604241485361598474461073350007508624358214075071773730162779,
     Twice 5419633093881277494251247184178985748174647949544415886378771937798635564022
      15196845673095381756386268963335912874552198363118866647306468000616585989874,
     Twice 5721278799400224979350416003246689555663283075288246699604295163992958802586
      31754924919287283397396132383276967411306022330722502676968221374250029615592,
     Twice 48163417492068879204284905947811655300869131664451481845624994165550001343518
      20319284362180207232131331045059270695198137675544136496522310104237169475690,
     Plus 1 3 27844133129888671972153574902752384605670993988907345349102684061312831867828
      21471211770141093410199909160499520000876051319443962757383975544118747304831
      25522042457551755366948124427138892366630759609534704454299092187483654152160]
      21471211770141093410199909160499520000876051319443962757383975544118747304831
      25522042457551755366948124427138892366630759609534704454299092187483654152160"
    by (simp only: base_rows base_0_def base_1_def base_2_def base_3_def base_4_def base_5_def base_6_def base_7_def base_8_def base_9_def base_10_def base_11_def base_12_def base_13_def base_14_def base_15_def base_31_def nth_8 hop_rules table_rules)
  from hops_multiple [OF multiple_2 this] show ?thesis by simp
qed

lemma multiple_4: "multiple (7237005577332262213973186563042994240850475533470589233509745346684539753456)
    36843310175455996453683009539896909695541450432853053760794819650016638047275
    19755856836066967369214362683206090707496876484936504289210683701159191387142"
proof -
  have "hops_ok (hex_of 21471211770141093410199909160499520000876051319443962757383975544118747304831)
      (hex_of 25522042457551755366948124427138892366630759609534704454299092187483654152160)
      [Plus 2 5 53845213931247435755037277237704581560880284042729540322813675360591657972620
      39670805022758666960682139937996419220847055976948892888977723931542357747911
      24089775452399838390181114376871680704120981200285587670927486884126476339957,
     Opposite,
     Plus 3 2 42315015048299269141284466943219215409908917556156976801678554956540683411995
      22971624311517802319625504612001313205050540193632231048235540375869222548750
      8648300148088776857249629582362283311787664875449130297473683932156468272491,
     Plus 4 5 14323324163429025462375875029639029893262875318183100750761856443712754276259
      2315285881502312604299533430527246196636874037361585781777130066013418550257
      17027410403008952671517638222720163623496431225274574111402278510483804441019,
     Opposite,
     Plus 5 2 14712124521506640067218104792192917426859557187912988329625148444470385890762
      29129511884179169295406253216754431975743850999029864651956360622539193937566
      47910633031111792409579988583090833105677763532246744185352548122905310709692,
     Plus 6 1 39114923471725474597611757138007552796701079799603402486332604503590448047823
      16789193640176582662899098903141026210930549816815917758136297605086453522619
      19814757826449649198039194826838531593320217380671342504901086691350844433186,
     Plus 7 7 54870480432385031176645396580646448544245324768964857272964002917692173909382
      36843310175455996453683009539896909695541450432853053760794819650016638047275
      19755856836066967369214362683206090707496876484936504289210683701159191387142]
      36843310175455996453683009539896909695541450432853053760794819650016638047275
      19755856836066967369214362683206090707496876484936504289210683701159191387142"
    by (simp only: base_rows base_0_def base_1_def base_2_def base_3_def base_4_def base_5_def base_6_def base_7_def base_8_def base_9_def base_10_def base_11_def base_12_def base_13_def base_14_def base_15_def base_31_def nth_8 hop_rules table_rules)
  from hops_multiple [OF multiple_3 this] show ?thesis by simp
qed

lemma multiple_5: "multiple (- 7237005577332262213973186563042994240850475533392299183375082977163889464304)
    20250128296328183597487279649365293070673852393605698825987874559132065645582
    1818342479091329277228040878981010922305126932322070137488338830190543861001"
proof -
  have "hops_ok (hex_of 36843310175455996453683009539896909695541450432853053760794819650016638047275)
      (hex_of 19755856836066967369214362683206090707496876484936504289210683701159191387142)
      [Plus 8 5 17087453339389029084468646856690818988044573947916549471584135948857446660133
      3009113219366142830775621164985473308830530295848988042160110506477398766217
      37683527737457539381618892849664837789398228100718416119552279622235929673528,
     Opposite,
     Plus 9 2 34674414518091396550843271684679364480567697804869428077392169115758530907311
      24085541321424938852625475239535026529401684442519470838711298148779955746118
      51956002965474039094772567334137575850656326740851024311229724029517846934550,
     Opposite,
     Plus 10 7 27870461644049100242147092094602549321254642298331553472518425880737891188432
      32389053063999070992661327214606923365756367811955519738860825140379722453310
      20400177377162252930235410466102707774501847059379144820249625494614580405626,
     Plus 11 2 11988875686836818062425916748504215591254520752576374918611199645765142047684
      11583919097908755484487512103391033732907489328390682413526929692112189501669
      53365278550144987585942238971517372045844451798363917302381461541455649328645,
     Opposite,
     Plus 12 0 41781359452236232101454726868126338312936962469973234888854531849343459826976
      20250128296328183597487279649365293070673852393605698825987874559132065645582
      1818342479091329277228040878981010922305126932322070137488338830190543861001]
      20250128296328183597487279649365293070673852393605698825987874559132065645582
      1818342479091329277228040878981010922305126932322070137488338830190543861001"
    by (simp only: base_rows base_0_def base_1_def base_2_def base_3_def base_4_def base_5_def base_6_def base_7_def base_8_def base_9_def base_10_def base_11_def base_12_def base_13_def base_14_def base_15_def base_31_def nth_8 hop_rules table_rules)
  from hops_multiple [OF multiple_4 this] show ?thesis by simp
qed

lemma multiple_6: "multiple (7237005577332262213973186563042994240857116359379907606001950938285454250992)
    55221577242988382633613921715755988927347615506430221002982523990194636363568
    19324154932736603031152325029326367275890211278985171650228672434569381466725"
proof -
  have "hops_ok (hex_of 20250128296328183597487279649365293070673852393605698825987874559132065645582)
      (hex_of 1818342479091329277228040878981010922305126932322070137488338830190543861001)
      [Plus 13 5 18431785817236854320259238770384282148368725461283628688499535728941521784581
      7384075681876804996115264810283274623082852098050492379979314174401056043489
      5892520708715514449849996080160938486049043027458862098595678053442936166719,
     Plus 14 0 1491554973161290546265268730122336137033809070591630281383636120958119876770
      55783575488422282699539137906963927856376007412768148925109494831813863656413
      33034719946255952770383598313254449175612167788231924731737485136324409402066,
     Opposite,
     Plus 15 4 35147189076491767782629952910634475245871152708284057826356782308467110565602
      55221577242988382633613921715755988927347615506430221002982523990194636363568
      19324154932736603031152325029326367275890211278985171650228672434569381466725]
      55221577242988382633613921715755988927347615506430221002982523990194636363568
      19324154932736603031152325029326367275890211278985171650228672434569381466725"
    by (simp only: base_rows base_0_def base_1_def base_2_def base_3_def base_4_def base_5_def base_6_def base_7_def base_8_def base_9_def base_10_def base_11_def base_12_def base_13_def base_14_def base_15_def base_31_def nth_8 hop_rules table_rules)
  from hops_multiple [OF multiple_5 this] show ?thesis by simp
qed

lemma order_base: "smul curve_order base_point = 0"
proof -
  have "heq (hex_of 55221577242988382633613921715755988927347615506430221002982523990194636363568) (fst (entry (base ! 0 ! 2)))" "heq (hex_of 19324154932736603031152325029326367275890211278985171650228672434569381466725) (fst (snd (entry (base ! 0 ! 2))))"
    by (simp_all only: base_rows base_0_def nth_8 table_rules fst_conv snd_conv)
  note m = multiple_meets [OF multiple_6 _ _ this]
  have "curve_order = 7237005577332262213973186563042994240857116359379907606001950938285454250992 - 3" by (simp add: curve_order_def)
  then show ?thesis using m smul_diff [of 7237005577332262213973186563042994240857116359379907606001950938285454250992 3 base_point] by simp
qed

lemma smul_order: "smul (k mod curve_order) base_point = smul k base_point"
proof -
  have "smul k base_point = smul (k div curve_order * curve_order + k mod curve_order) base_point" by simp
  also have "\<dots> = smul (k mod curve_order) base_point" unfolding smul_add smul_mult by (simp add: order_base)
  finally show ?thesis ..
qed

end
