(* ===== verification/Curve_Props.thy ===== *)
theory Curve_Props
  imports Ge_Encode Ge_Recode
begin

text \<open>
  The properties of the curve arithmetic: the field operations, the group law, the encoding of
  points and the recodings of scalars.
\<close>

section \<open>The field\<close>

lemma le_val_zeros [simp]: "le_val (replicate n 0) = 0"
  by (simp add: le_val_zero)

text \<open>C4: FeMul multiplies modulo 2^255 - 19 for all operands whose even limbs stay within 1.65 * 2^26 and
  odd limbs within half of that: no 32-bit or 64-bit step wraps, and the product's limbs stay within 2^25 and
  1.01 * 2^24.\<close>
theorem fe_mul_correct:
  assumes "fe_bnd 110729625 55364812 f" "fe_bnd 110729625 55364812 g"
  shows "fe_bnd 33554432 16944988 (FeMul f g) \<and> fe_val (FeMul f g) mod p25519 = fe_val f * fe_val g mod p25519"
  using FeMul_spec [OF assms] by blast

lemma fe_mul_correct_witness:
  "fe_bnd 33554432 16944988 (FeMul (Fe 110729625 (- 55364812) 3 4 5 6 7 8 9 10) (Fe (- 110729625) 1 2 3 4 5 6 7 8 55364812))
   \<and> fe_val (FeMul (Fe 110729625 (- 55364812) 3 4 5 6 7 8 9 10) (Fe (- 110729625) 1 2 3 4 5 6 7 8 55364812)) mod p25519
     = fe_val (Fe 110729625 (- 55364812) 3 4 5 6 7 8 9 10) * fe_val (Fe (- 110729625) 1 2 3 4 5 6 7 8 55364812) mod p25519"
  by (rule fe_mul_correct) simp_all

text \<open>FeSquare, which merges the symmetric products into half the multiplications, computes exactly the limbs of
  FeMul of its argument with itself, and FeSquare2 represents twice that square.\<close>
theorem fe_square_is_mul:
  assumes "fe_bnd 110729625 55364812 f"
  shows "FeSquare f = FeMul f f \<and> fe_bnd 33554432 16944988 (FeSquare2 f)
    \<and> fe_val (FeSquare2 f) mod p25519 = 2 * (fe_val f)\<^sup>2 mod p25519"
  using FeSquare_FeMul [OF assms] FeSquare2_spec [OF assms] by blast

lemma fe_square_is_mul_witness:
  "FeSquare (Fe 110729625 (- 55364812) 3 4 5 6 7 8 9 10) = FeMul (Fe 110729625 (- 55364812) 3 4 5 6 7 8 9 10) (Fe 110729625 (- 55364812) 3 4 5 6 7 8 9 10)"
  using fe_square_is_mul [of "Fe 110729625 (- 55364812) 3 4 5 6 7 8 9 10"] by simp

text \<open>The addition chains compute the powers they are meant to: FeInvert raises to 2^255 - 21, which is p - 2, and
  fePow22523 to 2^252 - 3, which is (p - 5) / 8, with limbs again within the bounds of a product.\<close>
theorem fe_power_chains:
  assumes "fe_bnd 110729625 55364812 z"
  shows "fe_val (FeInvert z) mod p25519 = fe_val z ^ (2 ^ 255 - 21) mod p25519 \<and> fe_bnd 33554432 16944988 (FeInvert z)
    \<and> fe_val (fePow22523 z) mod p25519 = fe_val z ^ (2 ^ 252 - 3) mod p25519 \<and> fe_bnd 33554432 16944988 (fePow22523 z)"
  using FeInvert_power [OF assms] fePow22523_power [OF assms] FeInvert_tight [OF assms] fePow22523_tight [OF assms]
  by (simp only: fe_power_def simp_thms)

lemma fe_power_chains_witness:
  "fe_val (FeInvert (Fe 2 0 0 0 0 0 0 0 0 0)) mod p25519 = fe_val (Fe 2 0 0 0 0 0 0 0 0 0) ^ (2 ^ 255 - 21) mod p25519"
  by (rule fe_power_chains [of "Fe 2 0 0 0 0 0 0 0 0 0", THEN conjunct1]) simp

text \<open>FeToBytes writes the canonical residue of its argument, the one number below 2^255 - 19 in its class, in 32
  little-endian bytes, and leaves the caller's element reduced to the digits of that residue.\<close>
theorem fe_to_bytes_canonical:
  assumes "fe_bnd 110729625 55364812 f"
  shows "length (fst (FeToBytes f)) = 32 \<and> le_val (fst (FeToBytes f)) = fe_val f mod p25519
    \<and> fe_val (snd (FeToBytes f)) = fe_val f mod p25519 \<and> fe_bnd 67108863 33554431 (snd (FeToBytes f))"
  unfolding FeToBytes_spec(1) [OF assms] fst_conv snd_conv residue_bytes using FeToBytes_spec(2,3) [OF assms] by simp

lemma fe_to_bytes_canonical_witness:
  "le_val (fst (FeToBytes (Fe (- 1) 0 0 0 0 0 0 0 0 0))) = 2 ^ 255 - 20"
  using fe_to_bytes_canonical [of "Fe (- 1) 0 0 0 0 0 0 0 0 0"] by (simp add: p25519_def)

text \<open>Reading 32 bytes that hold a number below 2^255 - 19 and writing the element back gives the same bytes.\<close>
theorem fe_bytes_roundtrip:
  assumes "length s = 32" "le_val s < p25519"
  shows "fst (FeToBytes (FeFromBytes s)) = s"
proof -
  note r = FeFromBytes_spec [OF assms(1)]
  have "fe_val (FeFromBytes s) mod p25519 = le_val s"
    using r(2) assms(2) by (simp add: mod_pos_pos_trivial p25519_def)
  then have "le_val (fst (FeToBytes (FeFromBytes s))) = le_val s" "length (fst (FeToBytes (FeFromBytes s))) = 32"
    using FeToBytes_spec(1) [OF tight_loose [OF r(1)]] residue_bytes [of "fe_val (FeFromBytes s)"] by simp_all
  then show ?thesis using assms(1) by (intro le_val_inj) simp_all
qed

lemma fe_bytes_roundtrip_witness:
  "fst (FeToBytes (FeFromBytes ([255, 254, 3] @ replicate 29 0))) = [255, 254, 3] @ replicate 29 0"
  by (rule fe_bytes_roundtrip) (simp_all add: p25519_def)

section \<open>The group\<close>

text \<open>GeAdd, geSub, geMixedAdd and geMixedSub implement the addition law of the twisted Edwards curve. When the
  operands represent affine points and the law defines their sum (for the subtractions: with the negated second
  point), the result, brought back to extended form, represents that sum, with limbs in the bounds the next
  operation needs.\<close>
theorem group_add_refines:
  assumes "ext_rep P a" "ext_rep Q b" "pre_rep R b"
  shows "(ed_sum a b c \<longrightarrow> ext_rep (com_ToExtended (geAdd P (ext_ToCached Q))) c
           \<and> ext_rep (com_ToExtended (geMixedAdd P R)) c)
    \<and> (ed_sum a (neg_point b) c \<longrightarrow> ext_rep (com_ToExtended (geSub P (ext_ToCached Q))) c
           \<and> ext_rep (com_ToExtended (geMixedSub P R)) c)"
  using geAdd_rep [OF assms(1) ToCached_rep [OF assms(2)]] geMixedAdd_rep [OF assms(1,3)] by (blast intro: ToExtended_rep)

lemma group_add_refines_witness:
  "ext_rep (com_ToExtended (geMixedAdd ext_Zero (precomputed (FeNeg FeOne) (FeNeg FeOne) FeZero))) (0, - 1)"
proof -
  have n: "frep 1 (FeNeg FeOne) (- 1)" by (rule frep_neg [OF frep_One]) simp
  have z: "ext_rep ext_Zero (0, 1)"
    using frep_Zero frep_One unit_1 frep_mono [OF frep_Zero, of 2] unfolding ext_rep_def ext_Zero_def by (auto intro!: exI [of _ 1])
  have q: "ext_rep \<lparr>eX = FeZero, eY = FeNeg FeOne, eZ = FeOne, eT = FeZero\<rparr> (0, - 1)"
    using n frep_Zero frep_One unit_1 frep_mono [OF frep_Zero, of 2] unfolding ext_rep_def by (auto intro!: exI [of _ 1])
  have r: "pre_rep (precomputed (FeNeg FeOne) (FeNeg FeOne) FeZero) (0, - 1)"
    using n frep_Zero unfolding pre_rep_def PreComputedGroupElement.make_def by simp
  have "ed_sum (0, 1) (0, - 1) (0, - 1)" using unit_1 by (simp add: ed_sum_def)
  then show ?thesis using group_add_refines [OF z q r] by blast
qed

text \<open>Doubling a projective point by the dedicated formulas gives a representation of the sum of the point with
  itself, when the point is on the curve.\<close>
theorem group_double_refines:
  assumes "proj_rep P (x, y)" "on_curve x y" "ed_sum (x, y) (x, y) c"
  shows "ext_rep (com_ToExtended (proj_Double P)) c \<and> proj_rep (com_ToProjective (proj_Double P)) c"
  using Double_rep [of P x y "fst c" "snd c"] assms by (simp add: ToExtended_rep ToProjective_rep)

lemma group_double_refines_witness: "ext_rep (com_ToExtended (proj_Double proj_Zero)) (0, 1)"
proof -
  have "proj_rep proj_Zero (0, 1)"
    using frep_Zero frep_One unit_1 frep_mono [OF frep_Zero, of 2] unfolding proj_rep_def proj_Zero_def by (auto intro!: exI [of _ 1])
  moreover have "on_curve 0 1" by (simp add: on_curve_def)
  moreover have "ed_sum (0, 1) (0, 1) (0, 1)" using unit_1 by (simp add: ed_sum_def)
  ultimately show ?thesis using group_double_refines by blast
qed

text \<open>ToBytes of an extended point is the encoding of the affine point it represents: the canonical y in the low
  255 bits and the parity of the canonical x in the top one. The inversion is a power, so what Fermat's theorem says
  of the denominator is a hypothesis.\<close>
theorem point_encoding:
  assumes "frep 2 (eX P) (x * z)" "frep 1 (eY P) (y * z)" "frep 1 (eZ P) z" "z ^ (2 ^ 255 - 20) mod p25519 = 1"
  shows "le_val (ext_ToBytes P) = y mod p25519 + 2 ^ 255 * (x mod p25519 mod 2)"
  unfolding ext_ToBytes_eq Let_def by (rule encode_point [OF assms])

lemma point_encoding_witness: "le_val (ext_ToBytes ext_Zero) = 1"
  using point_encoding [of ext_Zero 0 1 1] frep_mono [OF frep_Zero, of 2] frep_One
  by (simp add: ext_Zero_def p25519_def)

text \<open>Every point FromBytes accepts is on the curve: it represents an affine point whose y is the low 255 bits of
  the input (not required to be canonical), whose x satisfies the curve equation, and whose sign is the top bit unless
  x is zero.\<close>
theorem decoded_point_on_curve:
  assumes "length s = 32" "ext_FromBytes s = Some P"
  shows "\<exists>x. ext_rep P (x, le_val s mod 2 ^ 255) \<and> on_curve x (le_val s mod 2 ^ 255)
    \<and> (sign_bit x = drop_bit 7 (s ! 31) \<or> x mod p25519 = 0)"
  using decode_point [OF assms] by (simp add: eqp_def)

lemma decode_identity: "ext_FromBytes ([1] @ replicate 31 0) \<noteq> None"
proof -
  define s :: bytes where "s = [1] @ replicate 31 0"
  have y: "frep 1 (FeFromBytes s) 1" using FeFromBytes_spec [of s] by (simp add: s_def frep_tight)
  define u where "u = FeSub (FeSquare (FeFromBytes s)) FeOne"
  define w where "w = FeAdd (FeMul (FeSquare (FeFromBytes s)) curve_d) FeOne"
  define v3 where "v3 = FeMul (FeSquare w) w"
  define x where "x = FeMul (FeMul (fePow22523 (FeMul (FeMul (FeSquare v3) w) u)) v3) u"
  note m = frep_mult and sq = frep_square and sq1 = frep_square [OF y]
  have u: "frep 3 u 0" using frep_to3(2) [OF frep_sub [OF sq1 frep_One]] by (simp add: u_def)
  have w: "frep 3 w (1 * 1 * ed_d + 1)"
    unfolding w_def using frep_to3(2) [OF frep_add [OF m [OF sq1 frep_self [OF curve_d_tight(1)]] frep_One]] by simp
  have v3: "frep 1 v3 ((1 * 1 * ed_d + 1) * (1 * 1 * ed_d + 1) * (1 * 1 * ed_d + 1))"
    unfolding v3_def by (rule m [OF sq [OF w] w]) simp_all
  have "fe_loose (FeMul (FeMul (FeSquare v3) w) u)" by (rule frep_loose [OF m [OF m [OF sq [OF v3] w] u]]) simp_all
  note pw = frep_self [OF fePow22523_tight [OF this]]
  have x: "frep 1 x 0" using m [OF m [OF pw v3] u] by (simp add: x_def)
  have "frep 1 (FeMul (FeSquare x) w) 0" using m [OF sq [OF x] w] by simp
  moreover have "frep (1 + 1) u 0" using frep_sub [OF sq1 frep_One] by (simp add: u_def)
  ultimately have z: "frep 3 (FeSub (FeMul (FeSquare x) w) u) 0" using frep_to3(4) [OF frep_sub] by fastforce
  have "fst (FeIsNonZero (FeSub (FeMul (FeSquare x) w) u)) = 0"
    using FeIsNonZero_spec [OF frep_loose [OF z]] frep_mod [OF z] by (simp add: eqp_def)
  then have "pick_root u w x = Some x" by (simp add: pick_root_def)
  then show ?thesis
    unfolding s_def [symmetric] ext_FromBytes_eq Let_def u_def [symmetric] w_def [symmetric] v3_def [symmetric] x_def [symmetric]
    by simp
qed

lemma decoded_point_on_curve_witness:
  "\<exists>P x. ext_FromBytes ([1] @ replicate 31 0) = Some P \<and> ext_rep P (x, 1) \<and> on_curve x 1"
proof -
  obtain P where P: "ext_FromBytes ([1] @ replicate 31 0) = Some P" using decode_identity by auto
  show ?thesis using decoded_point_on_curve [OF _ P] P by auto
qed

section \<open>Scalars\<close>

text \<open>The branchless table lookup returns the entry for the digit: the neutral element for zero, the stored multiple
  for a positive digit, and for a negative one the stored multiple with its two sums exchanged and its third
  coordinate negated.\<close>
theorem select_point_is_lookup:
  assumes "pos < 32" "- 8 \<le> b" "b \<le> 8"
  shows "selectPoint pos b =
    (if b = 0 then pre_Zero else if 0 < b then base ! pos ! (nat b - 1)
     else (let t = base ! pos ! (nat (- b) - 1) in precomputed (yMinusX t) (yPlusX t) (FeNeg (xy2d t))))"
  using selectPoint_eq [OF assms] by (simp only: pre_neg_def Let_def)

lemma select_point_is_lookup_witness: "selectPoint 31 (- 8) =
    (let t = base ! 31 ! 7 in precomputed (yMinusX t) (yPlusX t) (FeNeg (xy2d t)))"
  using select_point_is_lookup [of 31 "- 8"] by simp

text \<open>The 64 signed digits GeScalarMultBase computes from a scalar whose last byte is at most 127 are between -8 and
  8 and are the scalar in radix 16.\<close>
theorem signed_digits_value:
  assumes "length a = 32" "uint (a ! 31) \<le> 127"
  shows "digits_val 16 (signed_digits 0 (nibbles a)) = le_val a \<and> length (signed_digits 0 (nibbles a)) = 64
    \<and> (\<forall>d\<in>set (signed_digits 0 (nibbles a)). - 8 \<le> d \<and> d \<le> 8)"
  using scalar_digits [OF assms] by blast

lemma signed_digits_value_witness:
  "digits_val 16 (signed_digits 0 (nibbles ([255, 254, 3] @ replicate 29 0))) = 261887"
  using signed_digits_value [of "[255, 254, 3] @ replicate 29 0"] by (simp add: nth_append)

text \<open>Slide rewrites a scalar into 256 digits that are zero or odd and between -15 and 15, so that half a digit
  indexes the eight odd multiples, without changing the number modulo 2^256.\<close>
theorem slide_digits:
  assumes "length a = 32"
  shows "length (slide a) = 256 \<and> digits_val 2 (slide a) mod 2 ^ 256 = le_val a
    \<and> (\<forall>d\<in>set (slide a). d = 0 \<or> odd d \<and> - 15 \<le> d \<and> d \<le> 15)"
proof -
  have "slide_pre 256 (le_val a) (slide a)"
    unfolding slide_def by (rule slide_fold [OF slide_pre_scalar [OF assms]]) simp
  then show ?thesis by (auto simp: slide_pre_def settled_def in_set_conv_nth)
qed

lemma slide_digits_witness: "digits_val 2 (slide (replicate 32 255)) mod 2 ^ 256 = le_val (replicate 32 255)"
  using slide_digits [of "replicate 32 255"] by simp

text \<open>Through the whole of GeScalarMultBase every coordinate stays within the bounds of a product, so that none of
  its field multiplications wraps, and the point it returns has them too.\<close>
theorem scalar_mult_in_bounds:
  assumes "length a = 32" "uint (a ! 31) \<le> 127"
  shows "fe_bnd 33554432 16944988 (eX (GeScalarMultBase a)) \<and> fe_bnd 33554432 16944988 (eY (GeScalarMultBase a))
    \<and> fe_bnd 33554432 16944988 (eZ (GeScalarMultBase a)) \<and> fe_bnd 33554432 16944988 (eT (GeScalarMultBase a))"
  using GeScalarMultBase_tight [OF assms] by (simp only: ext_tight_def)

lemma scalar_mult_in_bounds_witness: "fe_bnd 33554432 16944988 (eX (GeScalarMultBase (replicate 32 77)))"
  by (rule scalar_mult_in_bounds [THEN conjunct1]) simp_all

end
