(* ===== verification/Group_Props.thy ===== *)
theory Group_Props
  imports Ge_Code Ge_Order Curve_Props
begin

text \<open>
  The properties of the curve arithmetic as a group: the formulas, the two scalar multiplications,
  the tables of constants and the encoding of points, over the group of the curve.
\<close>

section \<open>The formulas\<close>

text \<open>C10: on the points of the curve the formulas of edwards25519.go are the operations of a group, with no exception:
  geAdd and geMixedAdd give the sum of any two points, geSub and geMixedSub the difference, Double the double, and Zero
  is the neutral element, whatever the representations and with limbs in the bounds the next operation needs. The sum is
  that of the addition law, whose two denominators are never zero, and every solution of the curve equation is a point.\<close>
theorem group_operations:
  assumes "ext_of E P" "ext_of F Q" "pre_of T Q" "proj_of D P"
  shows "ext_of (com_ToExtended (geAdd E (ext_ToCached F))) (P + Q) \<and> ext_of (com_ToExtended (geSub E (ext_ToCached F))) (P - Q)
    \<and> ext_of (com_ToExtended (geMixedAdd E T)) (P + Q) \<and> ext_of (com_ToExtended (geMixedSub E T)) (P - Q)
    \<and> ext_of (com_ToExtended (proj_Double D)) (P + P) \<and> proj_of (com_ToProjective (ext_Double E)) (P + P) \<and> ext_of ext_Zero 0
    \<and> ed_sum (affine P) (affine Q) (affine (P + Q))
    \<and> (\<forall>x y. on_curve x y \<longleftrightarrow> (\<exists>R. affine R = (x mod p25519, y mod p25519)))"
proof -
  have "on_curve x y \<longleftrightarrow> (\<exists>R. affine R = (x mod p25519, y mod p25519))" for x y
    using affine_of_curve curve_of_affine by blast
  then show ?thesis
    using assms ext_Zero_of ed_sum_add
    by (intro conjI allI ext_of_convert geAdd_of geSub_of geMixedAdd_of geMixedSub_of proj_Double_of ext_Double_of) blast+
qed

theorem group_operations_witness:
  "ext_of (com_ToExtended (geMixedAdd ext_Zero (base ! 0 ! 0))) (0 + base_point)"
proof -
  have b: "pre_of (base ! 0 ! 0) base_point" using base_entry_of [of 0 0] by simp
  have "ext_of (com_ToExtended (geMixedAdd ext_Zero (base ! 0 ! 0))) (0 + base_point)"
    by (intro ext_of_convert geMixedAdd_of ext_Zero_of b)
  then have "ext_of (com_ToExtended (geMixedAdd ext_Zero (base ! 0 ! 0))) base_point" by simp
  from group_operations [OF ext_Zero_of this b proj_Zero_of] show ?thesis by blast
qed

section \<open>The constants\<close>

text \<open>C14: the constants of const.go are what their comments say. The 32 rows of base hold the multiples from one to eight
  of the powers of 256 times one point, the entries of bi its first eight odd multiples; that point is Ed25519's base
  point, with y = 4/5 and an even x, and the order the scalars are reduced by annihilates it.\<close>
theorem tables_hold_multiples:
  "(\<forall>i<32. \<forall>j<8. pre_of (base ! i ! j) (smul ((int j + 1) * 256 ^ i) base_point))
    \<and> (\<forall>k<8. pre_of (bi ! k) (smul (2 * int k + 1) base_point))
    \<and> 5 * snd (affine base_point) mod p25519 = 4 \<and> even (fst (affine base_point)) \<and> smul curve_order base_point = 0"
proof (intro conjI allI impI)
  show "5 * snd (affine base_point) mod p25519 = 4" "even (fst (affine base_point))"
    by (simp_all add: affine_base base_y_def base_x_def p25519_def)
qed (simp_all add: base_entry_of bi_entry_of order_base)

theorem tables_hold_multiples_witness:
  "pre_of (base ! 31 ! 7) (smul ((int 7 + 1) * 256 ^ 31) base_point) \<and> pre_of (bi ! 7) (smul (2 * int 7 + 1) base_point)"
  by (intro conjI tables_hold_multiples [THEN conjunct1, rule_format]
      tables_hold_multiples [THEN conjunct2, THEN conjunct1, rule_format]) simp_all

section \<open>Multiplication by scalars\<close>

text \<open>C7: GeScalarMultBase is the multiplication of the base point: for every scalar of 32 bytes whose last is at most
  127, reduced or not, it returns a representation of that multiple, in the group of the curve. Its encoding is the
  encoding of the multiple, which depends only on the scalar modulo the order of the base point.\<close>
theorem base_multiplication:
  assumes "length a = 32" "uint (a ! 31) \<le> 127"
  shows "ext_of (GeScalarMultBase a) (smul (le_val a) base_point)
    \<and> encodes (ext_ToBytes (GeScalarMultBase a)) (smul (le_val a mod curve_order) base_point)"
  using GeScalarMultBase_of [OF assms] ext_ToBytes_of by (simp add: smul_order)

theorem base_multiplication_witness:
  "ext_of (GeScalarMultBase ([5] @ replicate 31 0)) (smul 5 base_point)"
  using base_multiplication [of "[5] @ replicate 31 0"] by (simp add: nth_append)

text \<open>C13: GeDoubleScalarMultVartime computes a A + b B in the group of the curve, for every point A and every two scalars of
  32 bytes below 2^255, whatever the digits Slide rewrites them to: the leading zeros it skips and the digits it steps
  over do not matter.\<close>
theorem double_multiplication:
  assumes "length a = 32" "length b = 32" "le_val a < 2 ^ 255" "le_val b < 2 ^ 255" "ext_of E A"
  shows "proj_of (GeDoubleScalarMultVartime a E b) (smul (le_val a) A + smul (le_val b) base_point)
    \<and> encodes (proj_ToBytes (GeDoubleScalarMultVartime a E b)) (smul (le_val a) A + smul (le_val b) base_point)"
  using GeDoubleScalarMultVartime_of [OF assms(1,2,5)] proj_ToBytes_of
  by (simp only: slide_value [OF assms(1,3)] slide_value [OF assms(2,4)] simp_thms)

theorem double_multiplication_witness:
  "proj_of (GeDoubleScalarMultVartime ([3] @ replicate 31 0) (GeScalarMultBase ([5] @ replicate 31 0)) ([7] @ replicate 31 0))
    (smul 3 (smul 5 base_point) + smul 7 base_point)"
proof -
  have "ext_of (GeScalarMultBase ([5] @ replicate 31 0)) (smul 5 base_point)"
    using GeScalarMultBase_of [of "[5] @ replicate 31 0"] by (simp add: nth_append)
  from double_multiplication [OF _ _ _ _ this, of "[3] @ replicate 31 0" "[7] @ replicate 31 0"] show ?thesis by simp
qed

section \<open>The encoding of points\<close>

text \<open>C12: ToBytes gives every representation of a point the same 32 bytes, those of its canonical y with the parity of its x
  in the top bit, and different points different bytes; FromBytes of these bytes is a representation of the point.\<close>
theorem points_roundtrip:
  assumes "ext_of E P" "proj_of F Q"
  shows "encodes (ext_ToBytes E) P \<and> encodes (proj_ToBytes F) Q \<and> (ext_ToBytes E = proj_ToBytes F \<longleftrightarrow> P = Q)
    \<and> (\<exists>G. ext_FromBytes (ext_ToBytes E) = Some G \<and> ext_of G P)"
proof -
  note e = ext_ToBytes_of [OF assms(1)] and f = proj_ToBytes_of [OF assms(2)]
  have "ext_ToBytes E = proj_ToBytes F \<longleftrightarrow> P = Q" using e f encodes_unique encodes_inj by metis
  then show ?thesis using e f decode_of [OF e] by blast
qed

theorem points_roundtrip_witness:
  "\<exists>G. ext_FromBytes (ext_ToBytes (GeScalarMultBase (replicate 32 77))) = Some G \<and> ext_of G (smul (le_val (replicate 32 77)) base_point)"
  using points_roundtrip [OF GeScalarMultBase_of proj_Zero_of, of "replicate 32 77"] by simp

text \<open>C25: FromBytes fails exactly when no point of the curve has the y that the low 255 bits hold, so the root it tries by
  two powers is found whenever there is one. What it returns represents a point of the curve with that y, taken modulo the
  prime, and with the sign of the top bit unless its x is zero.\<close>
theorem decode_accepts:
  assumes "length s = 32"
  shows "(ext_FromBytes s = None \<longleftrightarrow> \<not> (\<exists>x. on_curve x (le_val s mod 2 ^ 255)))
    \<and> (\<forall>E. ext_FromBytes s = Some E \<longrightarrow> (\<exists>P. ext_of E P \<and> snd (affine P) = le_val s mod 2 ^ 255 mod p25519
          \<and> (fst (affine P) mod 2 = le_val s div 2 ^ 255 \<or> fst (affine P) = 0)))"
  using decode_none [OF assms] decode_some [OF assms] by blast

theorem decode_accepts_witness:
  "\<exists>E P. ext_FromBytes ([1] @ replicate 31 0) = Some E \<and> ext_of E P \<and> snd (affine P) = 1"
proof -
  have "on_curve 0 (le_val ([1] @ replicate 31 0 :: bytes) mod 2 ^ 255)" by (simp add: on_curve_def)
  then obtain E where E: "ext_FromBytes ([1] @ replicate 31 0) = Some E"
    using decode_accepts [of "[1] @ replicate 31 0"] by auto
  then show ?thesis using decode_accepts [of "[1] @ replicate 31 0"] by (auto simp: p25519_def)
qed

end
