(* ===== verification/Sc_Props.thy ===== *)
theory Sc_Props
  imports Sc_Facts
begin

text \<open>The claims on the arithmetic modulo the order of the group.\<close>

text \<open>C22: ScReduce computes, for every 64-byte input, the residue of the little-endian number modulo the order of the group, as 32 bytes.\<close>

theorem sc_reduce_mod:
  assumes "length s = 64"
  shows "le_val (ScReduce s) = le_val s mod curve_order \<and> length (ScReduce s) = 32"
  using ScReduce_val [OF assms] by simp

lemma le_val_replicate: "le_val (replicate n b) * 255 = uint b * (256 ^ n - 1)"
  by (induction n) (simp_all add: algebra_simps)

theorem sc_reduce_mod_witness:
  "le_val (ScReduce (replicate 64 255)) = 1627715501170711445284395025044413883736156588369414752970002579683115011840 \<and> length (ScReduce (replicate 64 255)) = 32"
  using sc_reduce_mod [of "replicate 64 255"] le_val_replicate [of 64 255] by (simp add: curve_order_def)

text \<open>C9: ScMulAdd computes a * b + c modulo the order of the group, for every three 32-byte numbers, reduced or not.\<close>

theorem sc_mul_add_mod:
  assumes "length a = 32" "length b = 32" "length c = 32"
  shows "le_val (ScMulAdd a b c) = (le_val a * le_val b + le_val c) mod curve_order"
  by (rule ScMulAdd_val [OF assms])

theorem sc_mul_add_mod_witness:
  "le_val (ScMulAdd (replicate 32 2) (replicate 32 2) (replicate 32 2)) = 7118798332938574987711404790856688585759553939386747761791752451527821296380"
  using sc_mul_add_mod [of "replicate 32 2" "replicate 32 2" "replicate 32 2"] le_val_replicate [of 32 2] by (simp add: curve_order_def)

text \<open>ScMinimal accepts a 32-byte scalar exactly when its number is below the order, which rules out the second encodings of a signature's scalar.\<close>

theorem sc_minimal_iff:
  assumes "length s = 32"
  shows "ScMinimal s \<longleftrightarrow> le_val s < curve_order"
  by (rule ScMinimal_val [OF assms])

theorem sc_minimal_iff_witness: "\<not> ScMinimal (le_bytes 32 curve_order) \<and> ScMinimal (le_bytes 32 (curve_order - 1))"
proof -
  have "curve_order mod 256 ^ 32 = curve_order" "(curve_order - 1) mod 256 ^ 32 = curve_order - 1"
    by (rule mod_pos_pos_trivial; simp add: curve_order_def)+
  then show ?thesis
    using sc_minimal_iff [of "le_bytes 32 curve_order"] sc_minimal_iff [of "le_bytes 32 (curve_order - 1)"]
    by (simp add: le_val_le_bytes del: power_numeral)
qed

end
