(* ===== verification/Key_Props.thy ===== *)
theory Key_Props
  imports Ge_Code Ge_Order
begin

text \<open>The claims on the keys of onion services and on signing with them.\<close>

section \<open>Signing\<close>

lemma le_val_last:
  assumes "length r = Suc n"
  shows "256 ^ n * uint (r ! n) \<le> le_val r"
proof -
  have "r = take n r @ [r ! n]" using assms by (metis lessI take_Suc_conv_app_nth take_all order_refl)
  then have "le_val r = le_val (take n r) + 256 ^ n * uint (r ! n)"
    using le_val_append [of "take n r" "[r ! n]"] assms by simp
  then show ?thesis by simp
qed

lemma ScReduce_top:
  assumes "length s = 64"
  shows "uint (ScReduce s ! 31) \<le> 127"
proof -
  have "le_val (ScReduce s) < 2 ^ 253" unfolding ScReduce_val [OF assms] by (rule mod_order(2))
  moreover have "256 ^ 31 * uint (ScReduce s ! 31) \<le> le_val (ScReduce s)" by (rule le_val_last) simp
  ultimately show ?thesis by simp
qed

lemma mod_mul_add: "(x mod n * a + r) mod n = (x * a + r) mod n" for x n a r :: int
  by (metis mod_add_left_eq mod_mult_left_eq)

text \<open>For every key of at least 32 bytes and every message, Sign returns 64 bytes. The first half encodes the product
  of the base point with the nonce, a residue modulo the order whose last byte the multiplication admits. The second half
  is below the order, as verifiers ask, and equals hash times secret scalar plus nonce modulo the order, which is the
  equation of Ed25519 for the hash of the nonce point, the public key and the message. A shorter key panics.\<close>
theorem sign_equation:
  assumes "32 \<le> length (kp_PrivateKey k)"
  shows "\<exists>R s r. Sign k m = Inr (R @ s) \<and> length R = 32 \<and> length s = 32 \<and> ScMinimal s
    \<and> R = ext_ToBytes (GeScalarMultBase r) \<and> length r = 32 \<and> uint (r ! 31) \<le> 127
    \<and> le_val r = le_val (sha512 (drop 32 (kp_PrivateKey k) @ m)) mod curve_order
    \<and> le_val s = (le_val (sha512 (R @ kp_PublicKey k @ m)) * le_val (take 32 (kp_PrivateKey k)) + le_val r) mod curve_order"
proof -
  define r where "r = ScReduce (sha512 (drop 32 (kp_PrivateKey k) @ m))"
  define R where "R = ext_ToBytes (GeScalarMultBase r)"
  define h where "h = ScReduce (sha512 (R @ kp_PublicKey k @ m))"
  define s where "s = ScMulAdd h (take 32 (kp_PrivateKey k)) r"
  have a: "array32 (kp_PrivateKey k) = take 32 (kp_PrivateKey k)" using assms by (simp add: array32_def)
  have "Sign k m = Inr (R @ s)"
    using assms by (simp add: Sign_def Let_def a R_def s_def h_def r_def)
  moreover have "le_val s = (le_val (sha512 (R @ kp_PublicKey k @ m)) * le_val (take 32 (kp_PrivateKey k)) + le_val r) mod curve_order"
    unfolding s_def using ScMulAdd_val [of h "take 32 (kp_PrivateKey k)" r] assms
    by (simp add: h_def r_def ScReduce_val mod_mul_add mod_simps)
  moreover from this have "ScMinimal s"
    using ScMinimal_val [of s] pos_mod_bound [OF curve_order_pos(1)] by (simp add: s_def)
  moreover have "uint (r ! 31) \<le> 127" unfolding r_def by (rule ScReduce_top) simp
  ultimately show ?thesis
    by (intro exI [of _ R] exI [of _ s] exI [of _ r]) (simp add: R_def s_def r_def ScReduce_val)
qed

theorem sign_equation_witness:
  "\<exists>R s. Sign (precomputedKeyPair (replicate 64 65) (replicate 32 9)) [1, 2, 3] = Inr (R @ s) \<and> length R = 32 \<and> ScMinimal s"
  using sign_equation [of "precomputedKeyPair (replicate 64 65) (replicate 32 9)" "[1, 2, 3]"] by auto

section \<open>Keys\<close>

text \<open>What the type of a key pair promises: a digest of 64 bytes with a clamped scalar, and the public key of that scalar.\<close>

definition key_pair_ok :: "KeyPair \<Rightarrow> bool" where
  "key_pair_ok k \<longleftrightarrow> length (kp_PrivateKey k) = PrivateKeySize \<and> clamped (kp_PrivateKey k)
     \<and> length (kp_PublicKey k) = PublicKeySize \<and> kp_PublicKey k = priv_PublicKey (kp_PrivateKey k)"

lemma length_priv_PublicKey [simp]: "length (priv_PublicKey p) = 32"
  by (simp add: priv_PublicKey_def Let_def)

lemma key_pair_ok_clamp: "length d = 64 \<Longrightarrow> key_pair_ok (priv_KeyPair (clamp d))"
  by (simp add: key_pair_ok_def priv_KeyPair_def PrivateKeySize_def PublicKeySize_def clamp_clamped)

text \<open>C30: every key pair the program makes is well formed: GenerateKey fails only when its reader ends before 32 bytes,
  and else its result is a well-formed pair; converting a private key of the crypto package whose second half is its
  public key gives a well-formed pair, the one that GenerateKey makes of the same seed; and signing does not depend on
  whether the public key was precomputed.\<close>
theorem key_pairs_well_formed:
  assumes "length seed = 32"
  shows "GenerateKey sys (Some (seed @ rest)) = Inr (priv_KeyPair (clamp (sha512 seed)))
    \<and> key_pair_ok (priv_KeyPair (clamp (sha512 seed)))
    \<and> FromCryptoPrivateKey (seed @ priv_PublicKey (clamp (sha512 seed))) = Inr (priv_KeyPair (clamp (sha512 seed)))
    \<and> Sign (PrivateKey (clamp (sha512 seed))) m = Sign (priv_KeyPair (clamp (sha512 seed))) m
    \<and> (\<forall>r. (\<exists>e. GenerateKey sys (Some r) = Inl e) \<longleftrightarrow> length r < 32)"
proof -
  have "seed \<noteq> []" using assms by auto
  then have "GenerateKey sys (Some (seed @ rest)) = Inr (priv_KeyPair (clamp (sha512 seed)))"
    using assms by (simp add: GenerateKey_def ReadFull32_def)
  moreover have "(\<exists>e. GenerateKey sys (Some r) = Inl e) \<longleftrightarrow> length r < 32" for r
    by (auto simp: GenerateKey_def ReadFull32_def)
  ultimately show ?thesis
    using assms key_pair_ok_clamp [of "sha512 seed"]
    by (simp add: FromCryptoPrivateKey_def priv_KeyPair_def Sign_def)
qed

theorem key_pairs_well_formed_witness: "key_pair_ok (priv_KeyPair (clamp (sha512 (replicate 32 7))))"
  by (rule key_pairs_well_formed [THEN conjunct2, THEN conjunct1]) simp

section \<open>Signatures that verify\<close>

text \<open>
  What a valid signature is, by RFC 8032: \<open>s\<close> is below the order and \<open>s B = R + h A\<close> for the points \<open>R\<close> and \<open>A\<close> that the
  first half and the public key encode and the hash \<open>h\<close> of both and the message.
\<close>

definition valid_signature :: "bytes \<Rightarrow> bytes \<Rightarrow> bytes \<Rightarrow> bool" where
  "valid_signature pub m sig \<longleftrightarrow> length sig = SignatureSize \<and> le_val (drop 32 sig) < curve_order
     \<and> (\<exists>A R. encodes pub A \<and> encodes (take 32 sig) R
         \<and> smul (le_val (drop 32 sig)) base_point = R + smul (le_val (sha512 (take 32 sig @ pub @ m)) mod curve_order) A)"

lemma smul_order_mult: "smul (k mod curve_order) (smul a base_point) = smul k (smul a base_point)"
  using smul_order [of "k mod curve_order * a"] smul_order [of "k * a"]
  unfolding smul_mult [symmetric] by (simp add: mod_mult_left_eq)

text \<open>The public key of a clamped digest is the multiple of the base point by its scalar.\<close>

lemma clamped_top:
  assumes "clamped p" "32 \<le> length p"
  shows "uint (take 32 p ! 31) \<le> 127"
proof -
  have "le_val (take 32 p) < 2 ^ 255" using assms(1) by (simp add: clamped_def)
  moreover have "256 ^ 31 * uint (take 32 p ! 31) \<le> le_val (take 32 p)" using assms(2) by (intro le_val_last) simp
  ultimately show ?thesis by simp
qed

lemma public_key_of:
  assumes "key_pair_ok k"
  shows "encodes (kp_PublicKey k) (smul (le_val (take 32 (kp_PrivateKey k))) base_point)"
proof -
  have k: "clamped (kp_PrivateKey k)" "length (kp_PrivateKey k) = 64" "kp_PublicKey k = priv_PublicKey (kp_PrivateKey k)"
    using assms by (simp_all add: key_pair_ok_def PrivateKeySize_def)
  have "array32 (kp_PrivateKey k) = take 32 (kp_PrivateKey k)" using k(2) by (simp add: array32_def)
  then show ?thesis
    unfolding k(3) priv_PublicKey_def Let_def using clamped_top [OF k(1)] k(2)
    by (simp add: ext_ToBytes_of GeScalarMultBase_of)
qed

text \<open>C6: what a well-formed key pair signs verifies. For every message Sign returns a signature that is valid for the
  public key of the pair: its scalar times the base point is the nonce point plus the hash times the public key's point,
  in the group of the curve, and its scalar is below the order. The hypothesis on the verifier, which is a library's, is
  that it accepts what RFC 8032 calls valid; then the pair's Verify accepts the signature.\<close>
theorem signature_verifies:
  assumes "key_pair_ok k" and accepts: "\<forall>p m s. valid_signature p m s \<longrightarrow> crypto_verify p m s"
  shows "\<exists>sig. Sign k m = Inr sig \<and> valid_signature (kp_PublicKey k) m sig \<and> kp_Verify crypto_verify k m sig"
proof -
  define a where "a = le_val (take 32 (kp_PrivateKey k))"
  have len: "32 \<le> length (kp_PrivateKey k)" using assms(1) by (simp add: key_pair_ok_def PrivateKeySize_def)
  obtain R s r where sig: "Sign k m = Inr (R @ s)" "length R = 32" "length s = 32" "ScMinimal s"
    and R: "R = ext_ToBytes (GeScalarMultBase r)" "length r = 32" "uint (r ! 31) \<le> 127"
    and s: "le_val s = (le_val (sha512 (R @ kp_PublicKey k @ m)) * a + le_val r) mod curve_order"
    using sign_equation [OF len, of m] unfolding a_def by blast
  define h where "h = le_val (sha512 (R @ kp_PublicKey k @ m))"
  have nonce: "encodes R (smul (le_val r) base_point)" unfolding R(1) by (intro ext_ToBytes_of GeScalarMultBase_of R(2,3))
  have public: "encodes (kp_PublicKey k) (smul a base_point)" unfolding a_def by (rule public_key_of [OF assms(1)])
  have "smul (le_val s) base_point = smul (h * a + le_val r) base_point" unfolding s h_def by (rule smul_order)
  also have "\<dots> = smul (le_val r) base_point + smul (h mod curve_order) (smul a base_point)"
    unfolding smul_order_mult by (simp only: smul_add smul_mult add.commute)
  finally have eq: "smul (le_val s) base_point = smul (le_val r) base_point + smul (h mod curve_order) (smul a base_point)" .
  have "le_val s < curve_order" unfolding s by (rule pos_mod_bound [OF curve_order_pos(1)])
  then have valid: "valid_signature (kp_PublicKey k) m (R @ s)"
    unfolding valid_signature_def SignatureSize_def using nonce public eq sig(2,3) h_def by auto
  then have "crypto_verify (kp_PublicKey k) m (R @ s)" using accepts by blast
  then have "kp_Verify crypto_verify k m (R @ s)" by (simp only: kp_Verify_def pub_Verify_def Verify_def)
  then show ?thesis using sig(1) valid by blast
qed

theorem signature_verifies_witness:
  "\<exists>sig. Sign (priv_KeyPair (clamp (sha512 (replicate 32 7)))) [1, 2, 3] = Inr sig
    \<and> kp_Verify valid_signature (priv_KeyPair (clamp (sha512 (replicate 32 7)))) [1, 2, 3] sig"
proof -
  have "key_pair_ok (priv_KeyPair (clamp (sha512 (replicate 32 7))))" by (rule key_pair_ok_clamp) simp
  from signature_verifies [OF this, of valid_signature "[1, 2, 3]"] show ?thesis by blast
qed

end
