(* ===== verification/Embedded.thy ===== *)
theory Embedded
  imports Process
begin

text \<open>
  \<open>process/embedded\<close>: Tor linked into the program. \<open>tor-0.3.5/process.go\<close> and \<open>tor-0.4.7/process.go\<close> are the same
  code but for their flags and the package; \<open>tor-0.3.3/process.go\<close> makes the configuration when it starts. The functions
  of the C library (\<open>tor_api.h\<close>) are arguments; the memory shared with it is a heap of objects with what was done to
  objects that are not there.
\<close>

section \<open>The C heap\<close>

type_synonym cptr = nat

text \<open>An array of strings holds null pointers at first.\<close>

datatype cobj = Conf | CStr string | CArr "cptr option list"

record c_heap =
  h_objs :: "cptr \<Rightarrow> cobj option"
  h_next :: cptr
  h_faults :: "cptr list"

definition c_fault :: "cptr \<Rightarrow> c_heap \<Rightarrow> c_heap" where
  "c_fault p h = h\<lparr>h_faults := p # h_faults h\<rparr>"

definition c_alloc :: "cobj \<Rightarrow> c_heap \<Rightarrow> cptr \<times> c_heap" where
  "c_alloc obj h = (h_next h, h\<lparr>h_objs := (h_objs h)(h_next h \<mapsto> obj), h_next := Suc (h_next h)\<rparr>)"

definition c_use :: "cptr \<Rightarrow> c_heap \<Rightarrow> c_heap" where
  "c_use p h = (if h_objs h p = None then c_fault p h else h)"

definition c_free :: "cptr \<Rightarrow> c_heap \<Rightarrow> c_heap" where
  "c_free p h = (if h_objs h p = None then c_fault p h else h\<lparr>h_objs := (h_objs h)(p := None)\<rparr>)"

definition makeCharArray :: "nat \<Rightarrow> c_heap \<Rightarrow> cptr \<times> c_heap" where
  "makeCharArray len = c_alloc (CArr (replicate len None))"

definition setArrayString :: "cptr \<Rightarrow> cptr \<Rightarrow> nat \<Rightarrow> c_heap \<Rightarrow> c_heap" where
  "setArrayString a s n h =
     (case h_objs h a of
        Some (CArr xs) \<Rightarrow>
          if n < length xs then h\<lparr>h_objs := (h_objs h)(a \<mapsto> CArr (xs[n := Some s]))\<rparr> else c_fault a h
      | _ \<Rightarrow> c_fault a h)"

text \<open>\<open>free(a[i])\<close>, where freeing a null pointer does nothing.\<close>

definition free_elem :: "cptr \<Rightarrow> nat \<Rightarrow> c_heap \<Rightarrow> c_heap" where
  "free_elem a i h =
     (case h_objs h a of
        Some (CArr xs) \<Rightarrow>
          if i < length xs then (case xs ! i of None \<Rightarrow> h | Some s \<Rightarrow> c_free s h) else c_fault a h
      | _ \<Rightarrow> c_fault a h)"

definition freeCharArray :: "cptr \<Rightarrow> nat \<Rightarrow> c_heap \<Rightarrow> c_heap" where
  "freeCharArray a len h = c_free a (fold (free_elem a) [0..<len] h)"

text \<open>The arguments as the library reads them: a C string ends at its first zero byte.\<close>

definition read_elem :: "c_heap \<Rightarrow> cptr option \<Rightarrow> string" where
  "read_elem h e =
     (case e of None \<Rightarrow> [] | Some s \<Rightarrow> (case h_objs h s of Some (CStr t) \<Rightarrow> takeWhile (\<lambda>c. c \<noteq> CHR 0x00) t | _ \<Rightarrow> []))"

definition read_args :: "c_heap \<Rightarrow> cptr \<Rightarrow> string list" where
  "read_args h a = (case h_objs h a of Some (CArr xs) \<Rightarrow> map (read_elem h) xs | _ \<Rightarrow> [])"

section \<open>The process\<close>

text \<open>
  What \<open>tor_api.h\<close> answers: the version, the code of setting a command line, the descriptor of the control socket;
  and \<open>net.FileConn\<close> on that descriptor.
\<close>

record 'c tor_api =
  api_version :: string
  api_set_command_line :: "string list \<Rightarrow> int"
  api_control_socket :: int
  api_FileConn :: "int \<Rightarrow> 'c result"

text \<open>The goroutine of \<open>Start\<close>: it runs Tor with an array of arguments, then sends the code and frees.\<close>

datatype goroutine = NoGoroutine | Running cptr nat | Freeing cptr nat

text \<open>The process, of which \<open>ctx\<close> is only whether there is one, with its goroutine and the heap.\<close>

record embeddedProcess =
  ep_ctx :: bool
  ep_mainConf :: cptr
  ep_args :: "string list"
  ep_doneCh :: "int list option"
  ep_go :: goroutine
  ep_heap :: c_heap

definition ProviderVersion :: "'c tor_api \<Rightarrow> string" where "ProviderVersion api = api_version api"

definition embedded_New :: "bool \<Rightarrow> string list \<Rightarrow> c_heap \<Rightarrow> embeddedProcess result" where
  "embedded_New ctx args h =
     (let (conf, h) = c_alloc Conf h
      in Inr \<lparr>ep_ctx = ctx, ep_mainConf = conf, ep_args = args, ep_doneCh = None, ep_go = NoGoroutine, ep_heap = h\<rparr>)"

text \<open>The creators of the versions, as the function \<open>New\<close> they give; the package's is that of Tor 0.3.5.\<close>

definition tor035_NewCreator :: "bool \<Rightarrow> string list \<Rightarrow> c_heap \<Rightarrow> embeddedProcess result" where
  "tor035_NewCreator = embedded_New"

definition embedded_NewCreator :: "bool \<Rightarrow> string list \<Rightarrow> c_heap \<Rightarrow> embeddedProcess result" where
  "embedded_NewCreator = tor035_NewCreator"

fun set_args :: "cptr \<Rightarrow> nat \<Rightarrow> string list \<Rightarrow> c_heap \<Rightarrow> c_heap" where
  "set_args arr i [] h = h"
| "set_args arr i (a # as) h =
     (let (s, h) = c_alloc (CStr a) h in set_args arr (Suc i) as (setArrayString arr s i h))"

definition char_array :: "string list \<Rightarrow> c_heap \<Rightarrow> cptr \<times> c_heap" where
  "char_array args h = (let (arr, h) = makeCharArray (length args) h in (arr, set_args arr 0 args h))"

definition embedded_Start :: "'c tor_api \<Rightarrow> embeddedProcess \<Rightarrow> error option \<times> embeddedProcess" where
  "embedded_Start api e =
     (if ep_doneCh e \<noteq> None then (Some (ErrorString ''Already started''), e)
      else
        (let args = ''tor'' # ep_args e;
             (charArray, h) = char_array args (ep_heap e);
             h = c_use (ep_mainConf e) h;
             code = api_set_command_line api (read_args h charArray)
         in if code \<noteq> 0 then
              let h = c_free (ep_mainConf e) h;
                  h = freeCharArray charArray (length args) h
              in (Some (Errorf (''Failed to set command line args, code: '' @ itoa code) []), e\<lparr>ep_heap := h\<rparr>)
            else (None, e\<lparr>ep_doneCh := Some [], ep_go := Running charArray (length args), ep_heap := h\<rparr>)))"

text \<open>Tor's main function returns a code, which is sent into the channel of one; then the deferred calls run, last first.\<close>

definition go_send :: "int \<Rightarrow> embeddedProcess \<Rightarrow> embeddedProcess" where
  "go_send code e =
     (case (ep_go e, ep_doneCh e) of
        (Running charArray len, Some ch) \<Rightarrow>
          if length ch < 1 then
            e\<lparr>ep_doneCh := Some (ch @ [code]), ep_go := Freeing charArray len,
              ep_heap := c_use charArray (c_use (ep_mainConf e) (ep_heap e))\<rparr>
          else e
      | _ \<Rightarrow> e)"

definition go_free :: "embeddedProcess \<Rightarrow> embeddedProcess" where
  "go_free e =
     (case ep_go e of
        Freeing charArray len \<Rightarrow>
          e\<lparr>ep_go := NoGoroutine, ep_heap := freeCharArray charArray len (c_free (ep_mainConf e) (ep_heap e))\<rparr>
      | _ \<Rightarrow> e)"

text \<open>
  \<open>Wait\<close> selects: \<open>done\<close> is the context's error once it has ended, and \<open>first\<close> which case is taken when both are ready.
  It blocks, with no result, when none is.
\<close>

definition exit_error :: "int \<Rightarrow> error option" where
  "exit_error code =
     (if code = 0 then None else Some (Errorf (''Command completed with error exit code: '' @ itoa code) []))"

definition embedded_Wait :: "error option \<Rightarrow> bool \<Rightarrow> embeddedProcess \<Rightarrow> error option option \<times> embeddedProcess" where
  "embedded_Wait done first e =
     (case ep_doneCh e of
        None \<Rightarrow> (Some (Some (ErrorString ''Not started'')), e)
      | Some ch \<Rightarrow>
          (let done = (if ep_ctx e then done else None)
           in case (done, ch) of
                (Some err, []) \<Rightarrow> (Some (Some err), e)
              | (None, code # ch) \<Rightarrow> (Some (exit_error code), e\<lparr>ep_doneCh := Some ch\<rparr>)
              | (Some err, code # ch) \<Rightarrow>
                  if first then (Some (Some err), e) else (Some (exit_error code), e\<lparr>ep_doneCh := Some ch\<rparr>)
              | (None, []) \<Rightarrow> (None, e)))"

definition embedded_ControlConn :: "'c tor_api \<Rightarrow> embeddedProcess \<Rightarrow> 'c result \<times> embeddedProcess" where
  "embedded_ControlConn api e =
     (let e = e\<lparr>ep_heap := c_use (ep_mainConf e) (ep_heap e)\<rparr>
      in case api_FileConn api (api_control_socket api) of
           Inl err \<Rightarrow> (Inl (Errorf ''Unable to create conn from control socket: '' [err]), e)
         | Inr conn \<Rightarrow> (Inr conn, e))"

section \<open>The process of Tor 0.3.3\<close>

text \<open>The configuration is the goroutine's: it is made and, on an error, freed within \<open>Start\<close>.\<close>

definition tor033_New :: "bool \<Rightarrow> string list \<Rightarrow> c_heap \<Rightarrow> embeddedProcess result" where
  "tor033_New ctx args h =
     Inr \<lparr>ep_ctx = ctx, ep_mainConf = 0, ep_args = args, ep_doneCh = None, ep_go = NoGoroutine, ep_heap = h\<rparr>"

definition tor033_Start :: "'c tor_api \<Rightarrow> embeddedProcess \<Rightarrow> error option \<times> embeddedProcess" where
  "tor033_Start api e =
     (if ep_doneCh e \<noteq> None then (Some (ErrorString ''Already started''), e)
      else
        (let args = ''tor'' # ep_args e;
             (charArray, h) = char_array args (ep_heap e);
             (conf, h) = c_alloc Conf h;
             h = c_use conf h;
             code = api_set_command_line api (read_args h charArray)
         in if code \<noteq> 0 then
              let h = c_free conf h;
                  h = freeCharArray charArray (length args) h
              in (Some (Errorf (''Failed to set command line args, code: '' @ itoa code) []), e\<lparr>ep_heap := h\<rparr>)
            else (None, e\<lparr>ep_mainConf := conf, ep_doneCh := Some [], ep_go := Running charArray (length args), ep_heap := h\<rparr>)))"

definition tor033_ControlConn :: "embeddedProcess \<Rightarrow> 'c result" where
  "tor033_ControlConn e = Inl ErrControlConnUnsupported"

section \<open>Runs\<close>

text \<open>What can happen to a process, the calls of its user and the steps of its goroutine.\<close>

datatype event = CallStart | CallConn | CallWait "error option" bool | TorReturns int | GoFrees

fun embedded_step :: "'c tor_api \<Rightarrow> event \<Rightarrow> embeddedProcess \<Rightarrow> embeddedProcess" where
  "embedded_step api CallStart e = snd (embedded_Start api e)"
| "embedded_step api CallConn e = snd (embedded_ControlConn api e)"
| "embedded_step api (CallWait done first) e = snd (embedded_Wait done first e)"
| "embedded_step api (TorReturns code) e = go_send code e"
| "embedded_step api GoFrees e = go_free e"

definition embedded_run :: "'c tor_api \<Rightarrow> event list \<Rightarrow> embeddedProcess \<Rightarrow> embeddedProcess" where
  "embedded_run api = fold (embedded_step api)"

end
