(* ===== verification/Embedded_Props.thy ===== *)
theory Embedded_Props
  imports Embedded
begin

text \<open>
  The claims on the embedded process: what a use of it does to the memory it shares with the C library, what waiting
  returns, and which uses go wrong.
\<close>

section \<open>The array of arguments\<close>

definition c_fresh :: "c_heap \<Rightarrow> bool" where
  "c_fresh h \<longleftrightarrow> (\<forall>p\<ge>h_next h. h_objs h p = None)"

lemma c_fresh_alloc: "c_fresh h \<Longrightarrow> c_fresh (snd (c_alloc obj h))"
  by (simp add: c_fresh_def c_alloc_def)

text \<open>The objects with the array of a list of arguments at \<open>n\<close>, of which the first \<open>i\<close> are stored.\<close>

definition arg_ptrs :: "cptr \<Rightarrow> nat \<Rightarrow> nat \<Rightarrow> cptr option list" where
  "arg_ptrs n i len = map (\<lambda>k. Some (Suc (n + k))) [0..<i] @ replicate (len - i) None"

definition arg_objs :: "cptr \<Rightarrow> string list \<Rightarrow> nat \<Rightarrow> (cptr \<Rightarrow> cobj option) \<Rightarrow> cptr \<Rightarrow> cobj option" where
  "arg_objs n as i objs p =
     (if p = n then Some (CArr (arg_ptrs n i (length as)))
      else if n < p \<and> p \<le> n + i then Some (CStr (as ! (p - n - 1))) else objs p)"

definition with_args :: "string list \<Rightarrow> nat \<Rightarrow> c_heap \<Rightarrow> c_heap" where
  "with_args as i h = h\<lparr>h_objs := arg_objs (h_next h) as i (h_objs h), h_next := Suc (h_next h + i)\<rparr>"

lemma with_args_sel [simp]: "h_objs (with_args as i h) = arg_objs (h_next h) as i (h_objs h)"
  "h_next (with_args as i h) = Suc (h_next h + i)" "h_faults (with_args as i h) = h_faults h"
  by (simp_all add: with_args_def)

lemma arg_ptrs_Suc: "i < len \<Longrightarrow> (arg_ptrs n i len)[i := Some (Suc (n + i))] = arg_ptrs n (Suc i) len"
  by (auto simp: arg_ptrs_def list_update_append Suc_diff_Suc [symmetric])

lemma arg_ptrs_nth: "i < len \<Longrightarrow> arg_ptrs n len len ! i = Some (Suc (n + i))"
  and length_arg_ptrs [simp]: "i \<le> len \<Longrightarrow> length (arg_ptrs n i len) = len"
  by (simp_all add: arg_ptrs_def)

lemma set_args_step:
  assumes "i < length as"
  shows "setArrayString (h_next h) (fst (c_alloc (CStr (as ! i)) (with_args as i h))) i (snd (c_alloc (CStr (as ! i)) (with_args as i h)))
    = with_args as (Suc i) h"
proof -
  define g where "g = snd (c_alloc (CStr (as ! i)) (with_args as i h))"
  have g: "h_objs g = (arg_objs (h_next h) as i (h_objs h))(Suc (h_next h + i) \<mapsto> CStr (as ! i))" "h_next g = Suc (Suc (h_next h + i))"
    "h_faults g = h_faults h" and s: "fst (c_alloc (CStr (as ! i)) (with_args as i h)) = Suc (h_next h + i)"
    by (simp_all add: g_def c_alloc_def)
  have a: "h_objs g (h_next h) = Some (CArr (arg_ptrs (h_next h) i (length as)))" by (simp add: g arg_objs_def)
  have "(h_objs g)(h_next h \<mapsto> CArr (arg_ptrs (h_next h) (Suc i) (length as))) = arg_objs (h_next h) as (Suc i) (h_objs h)"
    by (auto simp: g arg_objs_def fun_eq_iff)
  then show ?thesis
    unfolding g_def [symmetric] s using assms a g(2,3)
    by (intro c_heap.equality) (simp_all add: setArrayString_def arg_ptrs_Suc)
qed

lemma set_args: "i \<le> length as \<Longrightarrow> set_args (h_next h) i (drop i as) (with_args as i h) = with_args as (length as) h"
proof (induction "length as - i" arbitrary: i)
  case 0
  then show ?case by simp
next
  case (Suc n)
  then have i: "i < length as" by simp
  then have d: "drop i as = as ! i # drop (Suc i) as" by (simp add: Cons_nth_drop_Suc)
  have "set_args (h_next h) i (drop i as) (with_args as i h) = set_args (h_next h) (Suc i) (drop (Suc i) as) (with_args as (Suc i) h)"
    unfolding d set_args.simps case_prod_beta Let_def set_args_step [OF i] ..
  also have "\<dots> = with_args as (length as) h" using Suc.hyps i by simp
  finally show ?case .
qed

lemma char_array: "char_array as h = (h_next h, with_args as (length as) h)"
proof -
  have "makeCharArray (length as) h = (h_next h, with_args as 0 h)"
    unfolding makeCharArray_def c_alloc_def
    by (intro prod_eqI c_heap.equality) (auto simp: arg_objs_def arg_ptrs_def fun_eq_iff)
  then show ?thesis using set_args [of 0 as h] by (simp add: char_array_def)
qed

definition c_string :: "string \<Rightarrow> string" where "c_string = takeWhile (\<lambda>c. c \<noteq> CHR 0x00)"

lemma read_args: "read_args (with_args as (length as) h) (h_next h) = map c_string as"
  by (auto simp: read_args_def arg_objs_def read_elem_def c_string_def arg_ptrs_nth intro!: nth_equalityI)

text \<open>Freeing the array leaves the objects there were before it.\<close>

lemma free_elems:
  assumes "j \<le> length as" "h_objs g = h_objs (with_args as (length as) h)"
  shows "h_objs (fold (free_elem (h_next h)) [0..<j] g)
      = (\<lambda>p. if h_next h < p \<and> p \<le> h_next h + j then None else h_objs (with_args as (length as) h) p)
    \<and> h_faults (fold (free_elem (h_next h)) [0..<j] g) = h_faults g"
  using assms(1)
proof (induction j)
  case (Suc j)
  define g' where "g' = fold (free_elem (h_next h)) [0..<j] g"
  have g': "h_objs g' = (\<lambda>p. if h_next h < p \<and> p \<le> h_next h + j then None else h_objs (with_args as (length as) h) p)"
    "h_faults g' = h_faults g" using Suc by (simp_all add: g'_def)
  have "h_objs g' (h_next h) = Some (CArr (arg_ptrs (h_next h) (length as) (length as)))"
    "h_objs g' (Suc (h_next h + j)) = Some (CStr (as ! j))" using Suc.prems by (simp_all add: g'(1) arg_objs_def)
  then have "free_elem (h_next h) j g' = g'\<lparr>h_objs := (h_objs g')(Suc (h_next h + j) := None)\<rparr>"
    using Suc.prems by (simp add: free_elem_def c_free_def arg_ptrs_nth)
  then show ?case by (auto simp: g'_def [symmetric] g' fun_eq_iff)
qed (auto simp: assms(2) fun_eq_iff)

lemma freeCharArray:
  assumes "h_objs g = h_objs (with_args as (length as) h)" "c_fresh h"
  shows "h_objs (freeCharArray (h_next h) (length as) g) = h_objs h"
    "h_faults (freeCharArray (h_next h) (length as) g) = h_faults g"
proof -
  note f = free_elems [OF order_refl assms(1)]
  then show "h_objs (freeCharArray (h_next h) (length as) g) = h_objs h"
    "h_faults (freeCharArray (h_next h) (length as) g) = h_faults g"
    using assms(2) by (auto simp: freeCharArray_def c_free_def arg_objs_def c_fresh_def fun_eq_iff)
qed

section \<open>The life of a process\<close>

definition accepted :: "'c tor_api \<Rightarrow> string list \<Rightarrow> bool" where
  "accepted api args \<longleftrightarrow> api_set_command_line api (map c_string (''tor'' # args)) = 0"

text \<open>The objects while the goroutine holds the configuration and the array.\<close>

definition run_objs :: "c_heap \<Rightarrow> string list \<Rightarrow> cptr \<Rightarrow> cobj option" where
  "run_objs h0 args = arg_objs (Suc (h_next h0)) (''tor'' # args) (Suc (length args)) ((h_objs h0)(h_next h0 \<mapsto> Conf))"

definition started :: "c_heap \<Rightarrow> string list \<Rightarrow> embeddedProcess \<Rightarrow> bool" where
  "started h0 args e \<longleftrightarrow> h_faults (ep_heap e) = h_faults h0 \<and> ep_mainConf e = h_next h0 \<and> ep_doneCh e \<noteq> None
     \<and> (case ep_go e of
          NoGoroutine \<Rightarrow> h_objs (ep_heap e) = h_objs h0
        | Running a n \<Rightarrow> ep_doneCh e = Some [] \<and> a = Suc (h_next h0) \<and> n = Suc (length args) \<and> h_objs (ep_heap e) = run_objs h0 args
        | Freeing a n \<Rightarrow> a = Suc (h_next h0) \<and> n = Suc (length args) \<and> h_objs (ep_heap e) = run_objs h0 args)"

text \<open>Before it is started a process is as it was made.\<close>

fun before_start :: "event \<Rightarrow> bool" where
  "before_start CallConn \<longleftrightarrow> True"
| "before_start (CallWait done first) \<longleftrightarrow> True"
| "before_start _ \<longleftrightarrow> False"

lemma run_before_start:
  assumes "embedded_New ctx args h0 = Inr e" "\<forall>ev\<in>set pre. before_start ev"
  shows "embedded_run api pre e = e"
proof -
  have e: "ep_doneCh e = None" "c_use (ep_mainConf e) (ep_heap e) = ep_heap e"
    using assms(1) by (auto simp: embedded_New_def c_alloc_def c_use_def)
  have "embedded_step api ev e = e" if "before_start ev" for ev
    using that e by (cases ev) (simp_all add: embedded_Wait_def embedded_ControlConn_def split: sum.split)
  then show ?thesis using assms(2) unfolding embedded_run_def by (induction pre) simp_all
qed

lemma not_started_run:
  assumes "ep_doneCh e = None" "ep_go e = NoGoroutine" "CallConn \<notin> set es" "CallStart \<notin> set es"
  shows "embedded_run api es e = e"
proof -
  have "embedded_step api ev e = e" if "ev \<noteq> CallConn" "ev \<noteq> CallStart" for ev
    using that assms(1,2) by (cases ev) (simp_all add: embedded_Wait_def go_send_def go_free_def)
  then show ?thesis using assms(3,4) unfolding embedded_run_def by (induction es) fastforce+
qed

lemma free_run:
  assumes "c_fresh h0" "h_objs g = run_objs h0 args" "c = h_next h0" "a = Suc (h_next h0)" "n = Suc (length args)"
  shows "h_objs (freeCharArray a n (c_free c g)) = h_objs h0 \<and> h_faults (freeCharArray a n (c_free c g)) = h_faults g"
proof -
  define h where "h = h0\<lparr>h_next := Suc (h_next h0)\<rparr>"
  define as where "as = ''tor'' # args"
  have h: "c_fresh h" "h_next h = a" "h_objs h = h_objs h0" "length as = n" using assms by (auto simp: h_def c_fresh_def as_def)
  have c: "h_objs g c = Some Conf" using assms(2-4) by (simp add: run_objs_def arg_objs_def)
  then have g: "h_faults (c_free c g) = h_faults g" "h_objs (c_free c g) = (h_objs g)(c := None)" by (simp_all add: c_free_def)
  have "h_objs h0 c = None" using assms(1,3) by (simp add: c_fresh_def)
  then have "h_objs (c_free c g) = h_objs (with_args as (length as) h)"
    unfolding g(2) assms(2) using h assms(3-5) by (auto simp: run_objs_def arg_objs_def as_def fun_eq_iff)
  from freeCharArray [OF this h(1)] show ?thesis using h g by simp
qed

lemma start_process:
  assumes "embedded_New ctx args h0 = Inr e"
  shows "ep_doneCh e = None" "ep_mainConf e = h_next h0" "ep_go e = NoGoroutine" "ep_args e = args"
    "ep_heap e = snd (c_alloc Conf h0)"
  using assms by (auto simp: embedded_New_def c_alloc_def)

lemma start_New:
  assumes new: "embedded_New ctx args h0 = Inr e" and fresh: "c_fresh h0"
  shows "accepted api args \<Longrightarrow> fst (embedded_Start api e) = None \<and> started h0 args (snd (embedded_Start api e))"
    "\<not> accepted api args \<Longrightarrow> fst (embedded_Start api e) \<noteq> None
       \<and> snd (embedded_Start api e) = e\<lparr>ep_heap := ep_heap (snd (embedded_Start api e))\<rparr>
       \<and> h_objs (ep_heap (snd (embedded_Start api e))) = h_objs h0 \<and> h_faults (ep_heap (snd (embedded_Start api e))) = h_faults h0"
proof -
  define as where "as = ''tor'' # args"
  define h where "h = snd (c_alloc Conf h0)"
  define g where "g = with_args as (length as) h"
  have h: "h_next h = Suc (h_next h0)" "h_faults h = h_faults h0" "h_objs h = (h_objs h0)(h_next h0 \<mapsto> Conf)" by (simp_all add: h_def c_alloc_def)
  have g: "h_objs g = run_objs h0 args" "h_faults g = h_faults h0" "c_use (h_next h0) g = g"
    by (simp_all add: g_def h run_objs_def as_def c_use_def) (simp add: arg_objs_def)
  have ok: "api_set_command_line api (read_args g (h_next h)) = 0 \<longleftrightarrow> accepted api args"
    unfolding g_def read_args accepted_def as_def ..
  note free = free_run [OF fresh g(1) refl refl refl]
  have start: "embedded_Start api e =
      (if accepted api args then (None, e\<lparr>ep_doneCh := Some [], ep_go := Running (h_next h) (length as), ep_heap := g\<rparr>)
       else (Some (Errorf (''Failed to set command line args, code: '' @ itoa (api_set_command_line api (read_args g (h_next h)))) []),
         e\<lparr>ep_heap := freeCharArray (h_next h) (length as) (c_free (h_next h0) g)\<rparr>))"
    unfolding embedded_Start_def Let_def start_process [OF new] as_def [symmetric] h_def [symmetric] char_array prod.case g_def [symmetric] g(3)
    using ok by simp
  show "fst (embedded_Start api e) = None \<and> started h0 args (snd (embedded_Start api e))" if "accepted api args"
    using that g start_process [OF new] by (simp add: start started_def h(1) as_def)
  show "fst (embedded_Start api e) \<noteq> None \<and> snd (embedded_Start api e) = e\<lparr>ep_heap := ep_heap (snd (embedded_Start api e))\<rparr>
       \<and> h_objs (ep_heap (snd (embedded_Start api e))) = h_objs h0 \<and> h_faults (ep_heap (snd (embedded_Start api e))) = h_faults h0"
    if "\<not> accepted api args"
    using that free g(2) by (simp add: start h(1) as_def)
qed

lemma started_step:
  assumes "started h0 args e" "c_fresh h0" "ev \<noteq> CallConn"
  shows "started h0 args (embedded_step api ev e)"
proof (cases ev)
  case CallStart
  then show ?thesis using assms(1) by (auto simp: embedded_Start_def started_def)
next
  case (CallWait d f)
  then show ?thesis using assms(1)
    by (auto simp: embedded_Wait_def started_def split: option.splits list.splits goroutine.splits)
next
  case (TorReturns code)
  have "c_use a (c_use (h_next h0) h) = h" if "h_objs h = run_objs h0 args" "a = Suc (h_next h0)" for h a
    using that by (simp add: c_use_def run_objs_def arg_objs_def)
  then show ?thesis using assms(1) TorReturns
    by (auto simp: go_send_def started_def split: option.splits goroutine.splits)
next
  case GoFrees
  then show ?thesis using assms(1) free_run [OF assms(2)]
    by (auto simp: go_free_def started_def split: goroutine.splits)
qed (use assms in simp)

lemma started_run: "started h0 args e \<Longrightarrow> c_fresh h0 \<Longrightarrow> CallConn \<notin> set es \<Longrightarrow> started h0 args (embedded_run api es e)"
  unfolding embedded_run_def by (induction es arbitrary: e) (auto simp: started_step)

text \<open>C40: a process used as its interface documents, with any number of control connections before it is started and none
  after, neither touches nor frees memory that is not there, under every order of the calls of Wait, of Start and of the
  steps of its goroutine. The configuration, the array and the strings of the arguments are freed once the goroutine has
  ended, whether Start failed or Tor ran. Starting it again is covered when the library accepted the arguments, which it is
  given as C strings.\<close>
theorem embedded_memory:
  assumes "c_fresh h0" "embedded_New ctx args h0 = Inr e" "\<forall>ev\<in>set pre. before_start ev" "CallConn \<notin> set post"
    and "accepted api args \<or> CallStart \<notin> set post"
  shows "h_faults (ep_heap (embedded_run api (pre @ CallStart # post) e)) = h_faults h0
    \<and> (ep_go (embedded_run api (pre @ CallStart # post) e) = NoGoroutine
        \<longrightarrow> h_objs (ep_heap (embedded_run api (pre @ CallStart # post) e)) = h_objs h0)"
proof -
  have run: "embedded_run api (pre @ CallStart # post) e = embedded_run api post (snd (embedded_Start api e))"
    using run_before_start [OF assms(2,3), of api] by (simp add: embedded_run_def)
  note s = start_New [OF assms(2,1), of api]
  show ?thesis
  proof (cases "accepted api args")
    case True
    then have "started h0 args (embedded_run api post (snd (embedded_Start api e)))"
      using s(1) assms(1,4) by (intro started_run) blast+
    then show ?thesis unfolding run by (auto simp: started_def)
  next
    case False
    then have post: "CallStart \<notin> set post" using assms(5) by blast
    define e' where "e' = snd (embedded_Start api e)"
    have e': "e' = e\<lparr>ep_heap := ep_heap e'\<rparr>" "h_objs (ep_heap e') = h_objs h0" "h_faults (ep_heap e') = h_faults h0"
      using s(2) [OF False] by (simp_all add: e'_def)
    have "ep_doneCh e' = None" "ep_go e' = NoGoroutine" using start_process [OF assms(2)] by (subst e'(1), simp)+
    then have "embedded_run api post e' = e'" using not_started_run post assms(4) by blast
    then show ?thesis unfolding run using e' by (simp add: e'_def)
  qed
qed

theorem embedded_memory_witness:
  "h_faults (ep_heap (embedded_run \<lparr>api_version = ''0.3.5'', api_set_command_line = (\<lambda>_. 0), api_control_socket = 7, api_FileConn = Inr\<rparr>
      [CallConn, CallStart, TorReturns 0, CallWait None False, GoFrees]
      \<lparr>ep_ctx = True, ep_mainConf = 0, ep_args = [''--quiet''], ep_doneCh = None, ep_go = NoGoroutine,
        ep_heap = \<lparr>h_objs = [0 \<mapsto> Conf], h_next = 1, h_faults = []\<rparr>\<rparr>)) = []"
  using embedded_memory [of "\<lparr>h_objs = Map.empty, h_next = 0, h_faults = []\<rparr>" True "[''--quiet'']"
    "\<lparr>ep_ctx = True, ep_mainConf = 0, ep_args = [''--quiet''], ep_doneCh = None, ep_go = NoGoroutine,
        ep_heap = \<lparr>h_objs = [0 \<mapsto> Conf], h_next = 1, h_faults = []\<rparr>\<rparr>" "[CallConn]" "[TorReturns 0, CallWait None False, GoFrees]"
    "\<lparr>api_version = ''0.3.5'', api_set_command_line = (\<lambda>_. 0), api_control_socket = 7, api_FileConn = Inr\<rparr>"]
  by (simp add: c_fresh_def embedded_New_def c_alloc_def accepted_def)

section \<open>Waiting\<close>

text \<open>
  Wait blocks while Tor runs, then returns its code as an error; it does not wait for the goroutine to free its memory. It
  returns the context's error as soon as the context ends, and Tor runs on.
\<close>

theorem embedded_wait_returns:
  assumes "started h0 args e" "ep_go e = Running a n"
  shows "embedded_Wait None first e = (None, e)"
    "fst (embedded_Wait None first (go_send code e)) = Some (exit_error code)"
    "ep_ctx e \<Longrightarrow> embedded_Wait (Some err) first e = (Some (Some err), e)"
  using assms by (auto simp: embedded_Wait_def started_def go_send_def)

text \<open>A second Wait, after the first took the code, never returns unless the context ends.\<close>

definition waited :: "embeddedProcess \<Rightarrow> bool" where
  "waited e \<longleftrightarrow> ep_doneCh e = Some [] \<and> (\<forall>a n. ep_go e \<noteq> Running a n)"

lemma waited_step: "waited e \<Longrightarrow> waited (embedded_step api ev e)"
  by (cases ev) (auto simp: waited_def embedded_Start_def embedded_ControlConn_def embedded_Wait_def go_send_def go_free_def
      Let_def split: sum.splits goroutine.splits option.splits)

theorem embedded_second_wait:
  fixes code :: int and first :: bool
  assumes "started h0 args e" "ep_go e = Running a n"
  defines "e' \<equiv> snd (embedded_Wait None first (go_send code e))"
  shows "fst (embedded_Wait None again (embedded_run api es e')) = None"
proof -
  have "waited e'" using assms(1,2) by (auto simp: e'_def embedded_Wait_def started_def go_send_def waited_def)
  then have "waited (embedded_run api es e')"
    unfolding embedded_run_def by (induction es arbitrary: e') (simp_all add: waited_step)
  then show ?thesis by (simp add: embedded_Wait_def waited_def)
qed

text \<open>
  After a failed Start the process still points to the configuration it freed: a second Start uses and frees it again.
\<close>

theorem embedded_restart_faults:
  "h_faults (ep_heap (embedded_run \<lparr>api_version = [], api_set_command_line = (\<lambda>_. 1), api_control_socket = 7, api_FileConn = Inr\<rparr>
      [CallStart, CallStart]
      \<lparr>ep_ctx = True, ep_mainConf = 0, ep_args = [], ep_doneCh = None, ep_go = NoGoroutine,
        ep_heap = \<lparr>h_objs = [0 \<mapsto> Conf], h_next = 1, h_faults = []\<rparr>\<rparr>)) = [0, 0]"
  by (simp add: embedded_run_def embedded_Start_def char_array_def makeCharArray_def c_alloc_def setArrayString_def
      c_use_def c_free_def c_fault_def freeCharArray_def free_elem_def)

text \<open>In Tor 0.3.3, whose \<open>Start\<close> makes the configuration, it does not.\<close>

theorem tor033_restart:
  "h_faults (ep_heap (snd (tor033_Start \<lparr>api_version = [], api_set_command_line = (\<lambda>_. 1), api_control_socket = 7, api_FileConn = Inr\<rparr>
      (snd (tor033_Start \<lparr>api_version = [], api_set_command_line = (\<lambda>_. 1), api_control_socket = 7, api_FileConn = Inr\<rparr>
      \<lparr>ep_ctx = True, ep_mainConf = 0, ep_args = [], ep_doneCh = None, ep_go = NoGoroutine,
        ep_heap = \<lparr>h_objs = Map.empty, h_next = 1, h_faults = []\<rparr>\<rparr>))))) = []"
  by (simp add: tor033_Start_def char_array_def makeCharArray_def c_alloc_def setArrayString_def
      c_use_def c_free_def c_fault_def freeCharArray_def free_elem_def)

end
