(* ===== verification/Geoip.thy ===== *)
theory Geoip
  imports Tor
begin

text \<open>
  \<open>torutil/geoipembed\<close>: the two files of GeoIP data, compressed in the program, and the reader of them that a
  configuration can name. The compressed data and \<open>compress/gzip\<close> are arguments.
\<close>

section \<open>The embedded data\<close>

text \<open>What \<open>gzip\<close> does with data: the errors of opening and closing, what is read and the error that ends it.\<close>

record gzip =
  gz_open :: "bytes \<Rightarrow> error option"
  gz_read :: "bytes \<Rightarrow> bytes \<times> error option"
  gz_close :: "bytes \<Rightarrow> error option"

definition read_error :: "string \<Rightarrow> error \<Rightarrow> error" where
  "read_error name err = Errorf (''Read '' @ [CHR 0x22] @ name @ [CHR 0x22] @ '': '') [err]"

text \<open>A nil slice is the empty list. The error of closing is tested, but it is the one of reading that is returned.\<close>

definition bindataRead :: "gzip \<Rightarrow> bytes \<Rightarrow> string \<Rightarrow> bytes \<times> error option" where
  "bindataRead gz data name =
     (case gz_open gz data of
        Some err \<Rightarrow> ([], Some (read_error name err))
      | None \<Rightarrow>
          let (buf, err) = gz_read gz data;
              clErr = gz_close gz data
          in case err of
               Some e \<Rightarrow> ([], Some (read_error name e))
             | None \<Rightarrow> if clErr \<noteq> None then ([], err) else (buf, None))"

record bindataFileInfo =
  fi_name :: string
  fi_size :: int
  fi_mode :: nat
  fi_modTime :: int

record asset =
  as_bytes :: bytes
  as_info :: bindataFileInfo

definition geoipBytes :: "gzip \<Rightarrow> bytes \<Rightarrow> bytes \<times> error option" where
  "geoipBytes gz data = bindataRead gz data ''geoip''"

definition geoip6Bytes :: "gzip \<Rightarrow> bytes \<Rightarrow> bytes \<times> error option" where
  "geoip6Bytes gz data = bindataRead gz data ''geoip6''"

definition geoip_asset :: "gzip \<Rightarrow> bytes \<Rightarrow> asset result" where
  "geoip_asset gz data =
     (case geoipBytes gz data of
        (_, Some err) \<Rightarrow> Inl err
      | (byts, None) \<Rightarrow>
          Inr \<lparr>as_bytes = byts, as_info = \<lparr>fi_name = ''geoip'', fi_size = 3726019, fi_mode = 438, fi_modTime = 1537539535\<rparr>\<rparr>)"

definition geoip6_asset :: "gzip \<Rightarrow> bytes \<Rightarrow> asset result" where
  "geoip6_asset gz data =
     (case geoip6Bytes gz data of
        (_, Some err) \<Rightarrow> Inl err
      | (byts, None) \<Rightarrow>
          Inr \<lparr>as_bytes = byts, as_info = \<lparr>fi_name = ''geoip6'', fi_size = 2421425, fi_mode = 438, fi_modTime = 1537539535\<rparr>\<rparr>)"

section \<open>The reader\<close>

text \<open>The time in seconds since 1970.\<close>

definition LastUpdated :: int where "LastUpdated = 1537539535"

definition GeoIPBytes :: "gzip \<Rightarrow> bytes \<Rightarrow> bytes \<Rightarrow> bool \<Rightarrow> bytes \<times> error option" where
  "GeoIPBytes gz geoip geoip6 ipv6 = (if ipv6 then geoip6Bytes gz geoip6 else geoipBytes gz geoip)"

text \<open>A reader of bytes in memory fails neither in reading nor in closing.\<close>

definition readNoopClose :: "bytes \<Rightarrow> reader" where
  "readNoopClose byts = \<lparr>rd_data = byts, rd_err = None, rd_close_err = None\<rparr>"

definition GeoIPReader :: "gzip \<Rightarrow> bytes \<Rightarrow> bytes \<Rightarrow> bool \<Rightarrow> reader option result" where
  "GeoIPReader gz geoip geoip6 ipv6 =
     (case GeoIPBytes gz geoip geoip6 ipv6 of
        (_, Some err) \<Rightarrow> Inl err
      | (byts, None) \<Rightarrow> Inr (Some (readNoopClose byts)))"

section \<open>What the files of Tor are then\<close>

text \<open>With the embedded reader and data that decompresses, both files are written whole into the data directory and named to Tor.\<close>

definition gzip_ok :: "gzip \<Rightarrow> bytes \<Rightarrow> bytes \<Rightarrow> bool" where
  "gzip_ok gz data content \<longleftrightarrow> gz_open gz data = None \<and> gz_read gz data = (content, None) \<and> gz_close gz data = None"

theorem embedded_geoip_copied:
  assumes "gzip_ok gz d4 c4" "gzip_ok gz d6 c6" "GeoIPFileReader conf = Some (GeoIPReader gz d4 d6)"
    and "\<And>to. sys_Create sys to = Inr (None, None)"
  shows "copyGeoIPFiles sys conf t =
      (None, t\<lparr>t_GeoIPCreatedFile := ''geoip'', t_GeoIPv6CreatedFile := ''geoip6'',
        t_log := t_log t @ [CopiedFile (sys_Join sys (t_DataDir t) ''geoip''), CopiedFile (sys_Join sys (t_DataDir t) ''geoip6'')]\<rparr>)"
    and "GeoIPReader gz d4 d6 False = Inr (Some (readNoopClose c4))" "GeoIPReader gz d4 d6 True = Inr (Some (readNoopClose c6))"
proof -
  show r: "GeoIPReader gz d4 d6 False = Inr (Some (readNoopClose c4))" "GeoIPReader gz d4 d6 True = Inr (Some (readNoopClose c6))"
    using assms(1,2) by (simp_all add: GeoIPReader_def GeoIPBytes_def geoipBytes_def geoip6Bytes_def bindataRead_def gzip_ok_def)
  show "copyGeoIPFiles sys conf t =
      (None, t\<lparr>t_GeoIPCreatedFile := ''geoip'', t_GeoIPv6CreatedFile := ''geoip6'',
        t_log := t_log t @ [CopiedFile (sys_Join sys (t_DataDir t) ''geoip''), CopiedFile (sys_Join sys (t_DataDir t) ''geoip6'')]\<rparr>)"
    using assms(3,4) r by (simp add: copyGeoIPFiles_def copyGeoIPFile_def createFile_def copy_err_def readNoopClose_def effect_def Let_def)
qed

text \<open>An error of closing the decompressor is lost: the reader then gives an empty file and no error.\<close>

theorem geoip_close_error_lost:
  assumes "gz_open gz d4 = None" "gz_read gz d4 = (c4, None)" "gz_close gz d4 = Some err"
  shows "GeoIPReader gz d4 d6 False = Inr (Some (readNoopClose []))"
  using assms by (simp add: GeoIPReader_def GeoIPBytes_def geoipBytes_def bindataRead_def)

end
