(* ===== verification/Spec2Isabelle.thy ===== *)
theory Spec2Isabelle
  imports Auth_Props Wait_Props Thread_Props Service_Props Group_Props Sc_Props Key_Props Onion_Props Embedded_Props Geoip
begin

text \<open>
  A model of bine, a Go library that starts Tor, speaks its control protocol and makes onion
  services.

  \<^bold>\<open>The program.\<close> The package \<open>control\<close> is a client of Tor's control port: \<open>conn.go\<close> sends a request and
  waits for its response while it relays the asynchronous events that come before it,
  \<open>response.go\<close> reads responses over \<open>net/textproto\<close>, \<open>cmd_event.go\<close> keeps the registry of
  event listeners and parses events, and the other \<open>cmd_*.go\<close> files build the text of each
  command and read its reply. \<open>torutil\<close> has the quoting of the protocol (\<open>string.go\<close>), the
  identifiers of onion services (\<open>key.go\<close>) and Tor's variant of ed25519 keys (\<open>ed25519\<close>) on
  the curve arithmetic of \<open>internal/edwards25519\<close>. \<open>tor\<close> and \<open>process\<close> start the executable and
  combine the commands into operations.

  \<^bold>\<open>The language.\<close> A Go string is a list of 8-bit characters, a \<open>[]byte\<close> a list of 8-bit words.
  Errors are the left values of \<open>result\<close>, panics the left values of \<open>panicking\<close>. Signed integers of a
  fixed width are integers with the wrap-around written out (\<open>i8\<close>, \<open>i32\<close>, \<open>i64\<close> of \<open>Go_Int\<close>) or
  words. What the program uses of the standard library is in the theories \<open>Go_*\<close>: UTF-8 and ranging
  over a string (\<open>Go_Utf8\<close>), \<open>strings\<close>, \<open>strconv\<close> and \<open>hex\<close> (\<open>Go_Strings\<close>, \<open>Go_Strconv\<close>),
  \<open>fmt\<close> for string operands (\<open>Go_Fmt\<close>), the reader of \<open>net/textproto\<close> (\<open>Go_Textproto\<close>), \<open>time.Parse\<close>
  for the two layouts used (\<open>Go_Time\<close>), base64 and base32 (\<open>Go_Base\<close>), SHA-256 and HMAC (\<open>Go_Sha256\<close>),
  SHA-512 and SHA-1 (\<open>Go_Hashes\<close>).

  \<^bold>\<open>The theories of the control protocol.\<close> \<open>Go_Prelude\<close> holds the shared types, the collections of
  facts and the interfaces of an encoding (\<open>codec\<close>) and of a reader of frames (\<open>framing\<close>).
  \<open>Torutil_String\<close> is \<open>torutil/string.go\<close>, \<open>Keyval\<close> and \<open>Status\<close> the files of the same names,
  \<open>Response\<close> is \<open>response.go\<close> with the rendering of a reply and the contents documented for it. \<open>Events\<close> and
  \<open>Event_Attrs\<close> are the event types and parsers of \<open>cmd_event.go\<close>, \<open>Event_Facts\<close> their round
  trips. \<open>Conn\<close> is the connection of \<open>conn.go\<close> with its listeners, \<open>Registry\<close> the laws of the registry,
  \<open>Conn_Facts\<close> and \<open>Conn_Props\<close> what a dialogue with Tor does to it. \<open>Commands\<close> has every
  command of \<open>cmd_conf.go\<close>, \<open>cmd_misc.go\<close>, \<open>cmd_circuit.go\<close>, \<open>cmd_stream.go\<close> and
  \<open>cmd_hiddenservice.go\<close>; \<open>Command_Props\<close> shows that each writes one line (the interface
  \<open>line_command\<close>), reads configuration back, and which texts are not what they should be. \<open>Auth\<close>
  and \<open>Auth_Props\<close> are \<open>cmd_protocolinfo.go\<close> and \<open>cmd_authenticate.go\<close>, with the safe-cookie
  exchange computed.

  \<^bold>\<open>The theories of the curve.\<close> \<open>Fe25519\<close> is the field of \<open>edwards25519.go\<close> on ten limbs.
  \<open>Fe_Facts\<close> shows that multiplication is right modulo the prime within bounds that no sum of
  the program leaves, \<open>Fe_Square\<close> that squaring is multiplication, \<open>Fe_Power\<close> the addition chains,
  \<open>Fe_Bytes\<close> the canonical bytes. \<open>Ed_Const\<close> has the constants and tables of \<open>const.go\<close>,
  \<open>Ge25519\<close> the group, \<open>Ge_Facts\<close> and \<open>Ge_Encode\<close> its laws and encodings, \<open>Ge_Recode\<close> the
  recodings of a scalar and the bounds of a multiplication; \<open>Curve_Props\<close> holds the claims on the field.
  \<open>Sc25519\<close> is the arithmetic modulo the order, as lists of carries and folds. \<open>Sc_Box\<close> runs
  them on intervals, \<open>Sc_Reduce\<close> evaluates the intervals of a whole reduction, \<open>Sc_Exact\<close> shows
  that the last rounds leave the residue, \<open>Sc_Facts\<close> and \<open>Sc_Props\<close> what the exported functions
  compute.

  \<^bold>\<open>The group of the curve.\<close> What the curve arithmetic computes is stated in a group that does not mention
  limbs. \<open>Prime_Cert\<close> proves Fermat's theorem and the criterion of Pocklington, and checks powers along
  chains of squarings on the hexadecimal numerals of \<open>Fast_Nat\<close>; \<open>Curve_Prime\<close> is the certificate that
  2^255 - 19 is a prime. \<open>Gf25519\<close> makes the residues a type, an instance of the library's fields.
  \<open>Edwards\<close> is the addition law over any field as a locale, whose assumptions (a root of -1, and a constant
  that is no square) make every denominator nonzero and the law a group's. \<open>Ed_Group\<close> interprets it on the
  field of the program, makes the points a type (\<open>point\<close>, an instance of \<open>ab_group_add\<close>) with multiples
  \<open>smul\<close>, and relates the four representations of \<open>edwards25519.go\<close> to points (\<open>ext_of\<close>, \<open>proj_of\<close>,
  \<open>com_of\<close>, \<open>cached_of\<close>, \<open>pre_of\<close>). \<open>Ge_Table\<close> says what a computation has to check of the tables of
  \<open>const.go\<close>, \<open>Ge_Base\<close> does it for all 256 entries of \<open>base\<close>, and \<open>Ge_Order\<close> walks from entry to entry to
  the order of the base point. \<open>Ge_Slide\<close> is the number the digits of \<open>Slide\<close> stand for, \<open>Ge_Mult\<close> the two
  scalar multiplications on points, \<open>Ge_Code\<close> the encoding of points both ways. \<open>Group_Props\<close> holds the
  claims.

  \<^bold>\<open>The theories of keys.\<close> \<open>Ed25519\<close> is \<open>ed25519.go\<close> and \<open>Key_Props\<close> its claims, up to
  signatures that RFC 8032 calls valid; \<open>Torutil_Key\<close> is
  \<open>key.go\<close> and \<open>Onion_Id\<close> what identifiers are accepted, \<open>Onion\<close> is \<open>cmd_onion.go\<close>,
  \<open>Onion_Request\<close> what Tor reads in a line \<open>ADD_ONION\<close>, however it was built, and \<open>Onion_Props\<close> the
  claims on identifiers, key texts and \<open>ADD_ONION\<close>.

  \<^bold>\<open>The theories of waiting and concurrency.\<close> \<open>Event_Wait\<close> is \<open>EventWait\<close> of \<open>cmd_event.go\<close>: the
  goroutine that handles events, the caller's predicate and the end of the context meet under a
  schedule (\<open>wait_step\<close>), and the channel between them holds ten events. \<open>Fair_Wait\<close> follows a wait
  under every fair schedule, in which both goroutines have a turn again and again; \<open>Wait_Props\<close> shows that
  it then returns if at most ten events are heard after the one that decides, and that it is stuck under
  a schedule that handles more. \<open>Conn_Threads\<close> is \<open>SendRequest\<close>
  with several goroutines, and one that handles events, as a step relation: the two halves of the
  textproto pipeline (a turn to write, a turn to read), the read mutex, and the channels of the listeners
  with their capacities. A send to a channel waits for room with the mutex held; a listener takes events
  until it stops for good. \<open>Thread_Props\<close> shows that every reachable state pairs
  requests with their own replies, and exactly which states are stuck: those in which a later request
  holds the mutex, and those in which a channel nobody takes from has too little room.

  \<^bold>\<open>The theories of the layer \<open>tor\<close>.\<close> \<open>Process\<close> is \<open>process.go\<close>. \<open>Tor\<close> is \<open>tor.go\<close> and \<open>log.go\<close>:
  a run is a function of the answers of the system and yields the state of the instance with the log of
  the effects, in order. \<open>Start_Props\<close> shows that starting does not panic, what a started instance holds
  and what a failed start leaves behind, \<open>Close_Props\<close> what closing does. \<open>Tor_Network\<close> is
  \<open>EnableNetwork\<close> of \<open>tor.go\<close> with \<open>dialer.go\<close> and \<open>Network_Props\<close> its claims;
  \<open>Tor_Onion\<close> is \<open>listen.go\<close> and \<open>forward.go\<close>, and \<open>Service_Props\<close> shows when a service counts as
  published if Tor reports every attempt before its failure, what Tor is asked to serve, and that every failure closes what was opened.

  \<^bold>\<open>What is embedded.\<close> \<open>Embedded\<close> is \<open>process/embedded\<close>, Tor linked into the program: the process with its
  goroutine and the heap of the C library, in which a use or a second release of freed memory is recorded as a
  fault. \<open>Embedded_Props\<close> shows that the documented use has no fault and leaves nothing allocated, and which
  uses go wrong. \<open>Geoip\<close> is \<open>torutil/geoipembed\<close>, the reader of GeoIP data for \<open>StartConf\<close>.

  \<^bold>\<open>Parameters.\<close> SHA3-256 and the verification of signatures are \<open>golang.org/x/crypto\<close>'s; reading
  and writing the PKCS#1 form of an RSA private key is \<open>crypto/x509\<close>'s and depends on its
  version; the SOCKS5 dialer is \<open>golang.org/x/net/proxy\<close>'s; the functions of \<open>tor_api.h\<close> are the C library's and
  the GeoIP data is compressed text for \<open>compress/gzip\<close>. The contents of files, the entropy
  of the system, the answers of the operating system to starting a process, making a
  directory, dialling or listening, the bytes Tor sends and the schedule of goroutines are
  arguments.

  \<^bold>\<open>Bounds.\<close> Polling for the control port makes the ten attempts of the code, and the channel of
  \<open>EventWait\<close> has the code's capacity of ten, so the claims on waiting are for at most ten further events that are
  heard. A schedule without end is cut at any length that is long enough. A loop over what Tor sends or over a schedule is a
  recursion on that list, so it needs no fuel.

  \<^bold>\<open>Not modelled.\<close> The examples and test programs and the files that only document a package;
  \<open>tor-0.4.7/process.go\<close>, which is the code of \<open>tor-0.3.5/process.go\<close>. The steps of an operation run without
  interleaving except in \<open>Event_Wait\<close> and \<open>Conn_Threads\<close>, and the latter leaves out errors of
  writing and reading and the registration of listeners meanwhile. What Tor sends is a list that is there from the
  start: that a read waits, perhaps for ever, for a Tor that is silent is not modelled, and no claim says
  that an answer comes. The order of the base point is shown to divide the order of the scalars, not that
  this number is a prime.
\<close>

end
